(* ===== verification/Rip_Prelude.thy ===== *)
theory Rip_Prelude
  imports Complex_Main "HOL-Library.Word" "HOL-Library.Log_Nat"
begin

text \<open>
  Shared vocabulary of the development: the machine integer types the C++ code stores,
  \<open>std::clamp\<close>, the narrowing casts, and the facts about lists cut into lines of
  equal length that the raster, spool and wire-format theories all use.

  A C++ \<open>int\<close> is a HOL \<open>int\<close>. Where the code relies on the width (hashing,
  byte packing, overflow checks) the model uses words of that width, and the casts below
  mark every place where the code narrows.
\<close>

unbundle bit_operations_syntax

named_theorems raster_simps "length and shape facts about raster lines"
named_theorems tone_bounds "range facts about 8-bit tone arithmetic"

type_synonym u8 = "8 word"
type_synonym u16 = "16 word"
type_synonym u32 = "32 word"
type_synonym u64 = "64 word"
type_synonym bytes = "u8 list"
type_synonym plane = "bytes list"

abbreviation cast8 :: "int \<Rightarrow> u8" where "cast8 \<equiv> word_of_int"
abbreviation cast16 :: "int \<Rightarrow> u16" where "cast16 \<equiv> word_of_int"
abbreviation cast32 :: "int \<Rightarrow> u32" where "cast32 \<equiv> word_of_int"
abbreviation cast64 :: "int \<Rightarrow> u64" where "cast64 \<equiv> word_of_int"

definition int_max :: int where "int_max = 2147483647"
definition int_min :: int where "int_min = - 2147483648"

definition fits_int :: "int \<Rightarrow> bool" where
  "fits_int x \<longleftrightarrow> int_min \<le> x \<and> x \<le> int_max"

section \<open>Clamping and casts\<close>

definition clamp :: "'a::linorder \<Rightarrow> 'a \<Rightarrow> 'a \<Rightarrow> 'a" where
  \<comment> \<open>\<open>std::clamp(v, lo, hi)\<close>\<close>
  "clamp v lo hi = (if v < lo then lo else if hi < v then hi else v)"

lemma clamp_ge [tone_bounds]: "lo \<le> hi \<Longrightarrow> lo \<le> clamp v lo hi"
  by (auto simp: clamp_def not_less)

lemma clamp_le [tone_bounds]: "lo \<le> hi \<Longrightarrow> clamp v lo hi \<le> hi"
  by (auto simp: clamp_def not_less)

lemma clamp_id: "lo \<le> v \<Longrightarrow> v \<le> hi \<Longrightarrow> clamp v lo hi = v"
  by (auto simp: clamp_def not_less)

lemma clamp_idem: "lo \<le> hi \<Longrightarrow> clamp (clamp v lo hi) lo hi = clamp v lo hi"
  by (rule clamp_id) (auto intro: clamp_ge clamp_le)

lemma clamp_mono: "lo \<le> hi \<Longrightarrow> v \<le> w \<Longrightarrow> clamp v lo hi \<le> clamp w lo hi"
  by (auto simp: clamp_def not_less dest: order.strict_implies_order)

lemma uint8_ge0 [tone_bounds, simp]: "0 \<le> uint (x :: u8)"
  by simp

lemma uint8_le [tone_bounds]: "uint (x :: u8) \<le> 255"
  using uint_lt2p [of x] by simp

lemma uint8_lt [tone_bounds]: "uint (x :: u8) < 256"
  using uint_lt2p [of x] by simp

lemma uint_cast8: "0 \<le> v \<Longrightarrow> v \<le> 255 \<Longrightarrow> uint (cast8 v) = v"
  by (simp add: uint_word_of_int)

lemma uint_cast16: "0 \<le> v \<Longrightarrow> v \<le> 65535 \<Longrightarrow> uint (cast16 v) = v"
  by (simp add: uint_word_of_int)

lemma uint_cast64: "0 \<le> v \<Longrightarrow> v < 2 ^ 64 \<Longrightarrow> uint (cast64 v) = v"
  by (simp add: uint_word_of_int)

lemma cast8_uint [simp]: "cast8 (uint x) = x"
  by simp

section \<open>Lines of equal length\<close>

lemma length_concat_lines [raster_simps]:
  "\<forall>l \<in> set ls. length l = n \<Longrightarrow> length (concat ls) = length ls * n"
  by (induction ls) auto

lemma concat_line:
  assumes "\<forall>l \<in> set ls. length l = n" and "i < length ls"
  shows "take n (drop (i * n) (concat ls)) = ls ! i"
  using assms
proof (induction ls arbitrary: i)
  case Nil
  then show ?case by simp
next
  case (Cons l ls)
  show ?case
  proof (cases i)
    case 0
    with Cons.prems show ?thesis by simp
  next
    case (Suc j)
    have "drop (i * n) (concat (l # ls)) = drop (j * n) (concat ls)"
      using Cons.prems Suc by simp
    with Cons Suc show ?thesis by simp
  qed
qed

lemma concat_nth_lines:
  assumes "\<forall>l \<in> set ls. length l = n" and "i < length ls" and "j < n"
  shows "concat ls ! (i * n + j) = ls ! i ! j"
proof -
  have "ls ! i ! j = take n (drop (i * n) (concat ls)) ! j"
    using concat_line [OF assms(1,2)] by simp
  also have "\<dots> = concat ls ! (i * n + j)"
  proof -
    have "length (concat ls) = length ls * n" by (rule length_concat_lines) (rule assms(1))
    moreover have "i * n + n \<le> length ls * n"
      using assms(2) by (metis Suc_leI add.commute mult_Suc mult_le_mono1)
    ultimately have "i * n \<le> length (concat ls)" by linarith
    then show ?thesis using assms(3) by (simp add: nth_drop)
  qed
  finally show ?thesis by simp
qed

lemma less_mult_lines: "x < w \<Longrightarrow> y < h \<Longrightarrow> y * w + x < h * (w :: nat)"
  by (metis Suc_leI add.commute add_less_cancel_right less_le_trans mult_Suc mult_le_mono1)

lemma concat_lines_update:
  assumes "\<forall>l \<in> set ls. length l = n" and "i < length ls" and "length l = n"
  shows "concat (ls[i := l]) = take (i * n) (concat ls) @ l @ drop (i * n + n) (concat ls)"
  using assms
proof (induction ls arbitrary: i)
  case Nil
  then show ?case by simp
next
  case (Cons l' ls)
  show ?case
  proof (cases i)
    case 0
    with Cons.prems show ?thesis by simp
  next
    case (Suc j)
    with Cons show ?thesis by (simp add: add.assoc)
  qed
qed

definition cut_lines :: "nat \<Rightarrow> nat \<Rightarrow> 'a list \<Rightarrow> 'a list list" where
  \<comment> \<open>the \<open>count\<close> consecutive lines of \<open>n\<close> elements at the front of a flat buffer\<close>
  "cut_lines n count xs = map (\<lambda>i. take n (drop (i * n) xs)) [0..<count]"

lemma length_cut_lines [raster_simps, simp]: "length (cut_lines n count xs) = count"
  by (simp add: cut_lines_def)

lemma cut_lines_nth [simp]: "i < count \<Longrightarrow> cut_lines n count xs ! i = take n (drop (i * n) xs)"
  by (simp add: cut_lines_def)

lemma cut_lines_length_line:
  assumes "length xs = count * n" and "l \<in> set (cut_lines n count xs)"
  shows "length l = n"
proof -
  from assms(2) obtain i where i: "i < count" and l: "l = take n (drop (i * n) xs)"
    by (auto simp: cut_lines_def)
  have "i * n + n \<le> count * n"
    using i by (metis Suc_leI add.commute mult_Suc mult_le_mono1)
  then show ?thesis using assms(1) l by simp
qed

lemma cut_lines_concat:
  assumes "\<forall>l \<in> set ls. length l = n"
  shows "cut_lines n (length ls) (concat ls) = ls"
  using assms by (auto intro!: nth_equalityI simp: concat_line)

lemma concat_cut_lines: "length xs = count * n \<Longrightarrow> concat (cut_lines n count xs) = xs"
proof (induction count arbitrary: xs)
  case (Suc count)
  have "cut_lines n (Suc count) xs = take n xs # cut_lines n count (drop n xs)"
    by (simp add: cut_lines_def upt_conv_Cons map_Suc_upt [symmetric] comp_def del: upt_Suc) (simp add: ac_simps)
  moreover have "concat (cut_lines n count (drop n xs)) = drop n xs" using Suc by simp
  ultimately show ?case by simp
qed (simp add: cut_lines_def)

lemma nth_cut_lines:
  assumes "length xs = count * n" and "i < count" and "j < n"
  shows "cut_lines n count xs ! i ! j = xs ! (i * n + j)"
proof -
  have "i * n + n \<le> count * n"
    using assms(2) by (metis Suc_leI add.commute mult_Suc mult_le_mono1)
  then show ?thesis using assms by simp
qed

section \<open>Maps over index ranges and folds\<close>

lemma map_nth_upt: "map (\<lambda>i. xs ! i) [0..<length xs] = xs"
  by (simp add: map_nth)

lemma count_list_True: "count_list xs True = length xs \<longleftrightarrow> (\<forall>x \<in> set xs. x)"
proof (induction xs)
  case (Cons x xs)
  have "count_list xs True \<le> length xs" by (rule count_le_length)
  then show ?case using Cons by (cases x) auto
qed simp

lemma foldl_inv:
  assumes "P s" and "\<And>s x. P s \<Longrightarrow> x \<in> set xs \<Longrightarrow> P (f s x)"
  shows "P (foldl f s xs)"
  using assms by (induction xs arbitrary: s) auto

section \<open>Spans of a list\<close>

definition cut_span :: "nat \<Rightarrow> nat \<Rightarrow> 'a list \<Rightarrow> 'a list" where
  "cut_span a n v = take n (drop a v)"

lemma cut_map_upt:
  "a + n \<le> N \<Longrightarrow> cut_span a n (map f [0..<N]) = map (\<lambda>i. f (a + i)) [0..<n]"
  by (rule nth_equalityI) (simp_all add: cut_span_def)

lemma cut_nth: "i < n \<Longrightarrow> a + n \<le> length v \<Longrightarrow> cut_span a n v ! i = v ! (a + i)"
  by (simp add: cut_span_def)

lemma length_cut: "a + n \<le> length v \<Longrightarrow> length (cut_span a n v) = n"
  by (simp add: cut_span_def)

lemma cut_replicate: "a + n \<le> N \<Longrightarrow> cut_span a n (replicate N x) = replicate n x"
  by (simp add: cut_span_def)

lemma cut_whole: "length v = n \<Longrightarrow> cut_span 0 n v = v"
  by (simp add: cut_span_def)

lemma cut_append: "cut_span 0 a v @ cut_span a n v = cut_span 0 (a + n) v"
  by (simp add: cut_span_def take_add)

lemma map_cut_cong:
  assumes "a + n \<le> N" and "\<And>i. i < n \<Longrightarrow> g i = f (a + i)"
  shows "map g [0..<n] = cut_span a n (map f [0..<N])"
  using assms by (simp add: cut_map_upt)

lemma strip_le: "y0 + n \<le> (h :: nat) \<Longrightarrow> y0 * w + n * w \<le> w * h"
  using mult_le_mono1 [of "y0 + n" h w] by (simp only: add_mult_distrib mult.commute [of w h])

section \<open>Operations that can fail\<close>

text \<open>
  A C++ function that returns \<open>bool\<close> and reports a message is a function into
  \<open>'e + 'a\<close>: \<open>Inl\<close> is the early \<open>return false\<close> with its reason, \<open>Inr\<close> the
  value the code leaves behind. \<open>bind_res\<close> is the sequencing of such calls and
  \<open>fold_res\<close> a loop that leaves at the first failure.
\<close>

definition bind_res :: "'e + 'a \<Rightarrow> ('a \<Rightarrow> 'e + 'b) \<Rightarrow> 'e + 'b" where
  "bind_res r f = (case r of Inl e \<Rightarrow> Inl e | Inr x \<Rightarrow> f x)"

definition guard_res :: "bool \<Rightarrow> 'e \<Rightarrow> 'e + unit" where
  "guard_res ok e = (if ok then Inr () else Inl e)"

lemma bind_res_simps [simp]:
  "bind_res (Inl e) f = Inl e"
  "bind_res (Inr x) f = f x"
  by (simp_all add: bind_res_def)

lemma bind_res_cong [fundef_cong]:
  "r = r' \<Longrightarrow> (\<And>x. r' = Inr x \<Longrightarrow> f x = f' x) \<Longrightarrow> bind_res r f = bind_res r' f'"
  by (cases r') auto

lemma bind_res_eq_Inr: "bind_res r f = Inr y \<longleftrightarrow> (\<exists>x. r = Inr x \<and> f x = Inr y)"
  by (cases r) auto

lemma guard_res_eq_Inr [simp]: "guard_res ok e = Inr u \<longleftrightarrow> ok"
  by (simp add: guard_res_def)

lemma guard_res_True [simp]: "guard_res True e = Inr ()" and
  guard_res_False [simp]: "guard_res False e = Inl e"
  by (simp_all add: guard_res_def)

fun fold_res :: "('x \<Rightarrow> 's \<Rightarrow> 'e + 's) \<Rightarrow> 'x list \<Rightarrow> 's \<Rightarrow> 'e + 's" where
  "fold_res f [] s = Inr s"
| "fold_res f (x # xs) s = bind_res (f x s) (fold_res f xs)"

lemma fold_res_cong [fundef_cong]:
  "xs = ys \<Longrightarrow> s = t \<Longrightarrow> (\<And>x r. x \<in> set ys \<Longrightarrow> f x r = g x r) \<Longrightarrow> fold_res f xs s = fold_res g ys t"
proof (induction ys arbitrary: xs s t)
  case (Cons y ys)
  then show ?case by (cases "g y t") simp_all
qed simp

lemma fold_res_append: "fold_res f (xs @ ys) s = bind_res (fold_res f xs s) (fold_res f ys)"
proof (induction xs arbitrary: s)
  case (Cons x xs)
  then show ?case by (cases "f x s") simp_all
qed simp

lemma fold_res_inv:
  assumes "fold_res f xs s = Inr t" and "P s"
    and "\<And>x s t. x \<in> set xs \<Longrightarrow> P s \<Longrightarrow> f x s = Inr t \<Longrightarrow> P t"
  shows "P t"
  using assms
proof (induction xs arbitrary: s)
  case (Cons x xs)
  then obtain u where "f x s = Inr u" "fold_res f xs u = Inr t" by (auto simp: bind_res_eq_Inr)
  with Cons show ?case by (metis list.set_intros)
qed simp

lemma fold_res_total:
  assumes "P s" and "\<And>x s. x \<in> set xs \<Longrightarrow> P s \<Longrightarrow> \<exists>t. f x s = Inr t \<and> P t"
  shows "\<exists>t. fold_res f xs s = Inr t \<and> P t"
  using assms
proof (induction xs arbitrary: s)
  case (Cons x xs)
  then obtain t where "f x s = Inr t" "P t" by (metis list.set_intros(1))
  with Cons show ?case by simp
qed simp

lemma fold_res_upt:
  assumes "I a s" and "a \<le> b" and "\<And>i s. a \<le> i \<Longrightarrow> i < b \<Longrightarrow> I i s \<Longrightarrow> \<exists>t. f i s = Inr t \<and> I (Suc i) t"
  shows "\<exists>t. fold_res f [a..<b] s = Inr t \<and> I b t"
  using assms(2,1,3)
proof (induction a arbitrary: s rule: inc_induct)
  case (step n)
  then obtain t where "f n s = Inr t" "I (Suc n) t" by (metis order_refl)
  moreover have "\<exists>u. fold_res f [Suc n..<b] t = Inr u \<and> I b u"
    using step.IH [OF \<open>I (Suc n) t\<close>] step.prems(2) by (meson Suc_leD)
  ultimately show ?case using step.hyps by (simp add: upt_conv_Cons)
qed simp

end
