(* ===== verification/Qt_Disk.thy ===== *)
theory Qt_Disk
  imports Rip_Prelude
begin

text \<open>
  Files. \<open>QFile\<close> and \<open>QDir\<close> are not part of the repository, so the operations the code
  calls on them are the fields of \<open>disk\<close>, over an arbitrary state \<open>'d\<close>; each may fail.
  The locale \<open>disk_laws\<close> states what a successful operation has done to the contents of
  the files. \<open>memory_disk\<close> is a file system held in a map; the interpretation at the end
  discharges the laws for it.
\<close>

record 'd disk =
  makePath :: "string \<Rightarrow> 'd \<Rightarrow> 'd option" \<comment> \<open>\<open>QDir::mkpath\<close>\<close>
  openTruncate :: "string \<Rightarrow> 'd \<Rightarrow> 'd option"
  writeAt :: "string \<Rightarrow> nat \<Rightarrow> bytes \<Rightarrow> 'd \<Rightarrow> 'd option" \<comment> \<open>\<open>seek\<close> and a complete \<open>write\<close>\<close>
  resizeFile :: "string \<Rightarrow> nat \<Rightarrow> 'd \<Rightarrow> 'd option"
  flushFile :: "string \<Rightarrow> 'd \<Rightarrow> 'd option"
  renameFile :: "string \<Rightarrow> string \<Rightarrow> 'd \<Rightarrow> 'd option"
  removeFile :: "string \<Rightarrow> 'd \<Rightarrow> 'd"
  readAt :: "string \<Rightarrow> nat \<Rightarrow> nat \<Rightarrow> 'd \<Rightarrow> bytes option" \<comment> \<open>open, \<open>seek\<close> and \<open>read\<close>\<close>
  saveFile :: "string \<Rightarrow> bytes \<Rightarrow> 'd \<Rightarrow> 'd option" \<comment> \<open>a \<open>QSaveFile\<close> filled and committed\<close>
  fileSize :: "string \<Rightarrow> 'd \<Rightarrow> nat"
  fileExists :: "string \<Rightarrow> 'd \<Rightarrow> bool"

definition overwrite :: "bytes \<Rightarrow> nat \<Rightarrow> bytes \<Rightarrow> bytes" where
  \<comment> \<open>\<open>x\<close> written over \<open>b\<close> at offset \<open>off\<close>; a gap is filled with zeros\<close>
  "overwrite b off x =
     (let b = b @ replicate (off - length b) 0
      in take off b @ x @ drop (off + length x) b)"

definition resized :: "bytes \<Rightarrow> nat \<Rightarrow> bytes" where
  "resized b n = take n b @ replicate (n - length b) 0"

lemma length_resized [simp]: "length (resized b n) = n"
  by (simp add: resized_def)

lemma length_overwrite: "off + length x \<le> length b \<Longrightarrow> length (overwrite b off x) = length b"
  by (simp add: overwrite_def)

lemma overwrite_inside:
  "off + length x \<le> length b \<Longrightarrow> overwrite b off x = take off b @ x @ drop (off + length x) b"
  by (simp add: overwrite_def)

lemma overwrite_same:
  "off + length x \<le> length b \<Longrightarrow> take (length x) (drop off (overwrite b off x)) = x"
  by (simp add: overwrite_inside)

lemma overwrite_other:
  assumes "off + length x \<le> length b" and "i + n \<le> off \<or> off + length x \<le> i" and "i + n \<le> length b"
  shows "take n (drop i (overwrite b off x)) = take n (drop i b)"
  using assms(2)
proof
  assume "i + n \<le> off"
  moreover have "off \<le> length b" using assms(1) by simp
  ultimately have "drop i (take off b @ y) = drop i (take off b) @ y"
    "n \<le> length (drop i (take off b))" for y by simp_all
  then have "take n (drop i (take off b @ y)) = take n (drop i (take off b))" for y by simp
  also have "take n (drop i (take off b)) = take n (drop i b)"
    using \<open>i + n \<le> off\<close> by (simp add: drop_take min_def)
  finally show ?thesis unfolding overwrite_inside [OF assms(1)] .
next
  assume a: "off + length x \<le> i"
  then have "drop i (overwrite b off x) = drop (i - (off + length x)) (drop (off + length x) b)"
    using assms(1) by (simp add: overwrite_inside)
  also have "\<dots> = drop i b" using a by simp
  finally show ?thesis by simp
qed

locale disk_laws =
  fixes D :: "'d disk" and contents :: "'d \<Rightarrow> string \<Rightarrow> bytes option"
  assumes makePath_law: "makePath D p d = Some d' \<Longrightarrow> contents d' = contents d"
    and openTruncate_law: "openTruncate D p d = Some d' \<Longrightarrow> contents d' = (contents d)(p \<mapsto> [])"
    and writeAt_law: "writeAt D p off x d = Some d' \<Longrightarrow> contents d p = Some b \<Longrightarrow>
      contents d' = (contents d)(p \<mapsto> overwrite b off x)"
    and resizeFile_law: "resizeFile D p n d = Some d' \<Longrightarrow> contents d p = Some b \<Longrightarrow>
      contents d' = (contents d)(p \<mapsto> resized b n)"
    and flushFile_law: "flushFile D p d = Some d' \<Longrightarrow> contents d' = contents d"
    and renameFile_law: "renameFile D p q d = Some d' \<Longrightarrow> contents d' = (contents d)(p := None, q := contents d p)"
    and removeFile_law: "contents (removeFile D p d) = (contents d)(p := None)"
    and readAt_law: "readAt D p off n d = Some x \<Longrightarrow> contents d p = Some b \<Longrightarrow> x = take n (drop off b)"
    and saveFile_law: "saveFile D p x d = Some d' \<Longrightarrow> contents d' = (contents d)(p \<mapsto> x)"
    and fileSize_law: "contents d p = Some b \<Longrightarrow> fileSize D p d = length b"
    and fileExists_law: "fileExists D p d \<longleftrightarrow> contents d p \<noteq> None"

locale reliable_disk = disk_laws +
  assumes makePath_ok: "makePath D p d \<noteq> None"
    and openTruncate_ok: "openTruncate D p d \<noteq> None"
    and writeAt_ok: "contents d p \<noteq> None \<Longrightarrow> writeAt D p off x d \<noteq> None"
    and resizeFile_ok: "contents d p \<noteq> None \<Longrightarrow> resizeFile D p n d \<noteq> None"
    and flushFile_ok: "contents d p \<noteq> None \<Longrightarrow> flushFile D p d \<noteq> None"
    and renameFile_ok: "contents d p \<noteq> None \<Longrightarrow> contents d q = None \<Longrightarrow> renameFile D p q d \<noteq> None"
    and readAt_ok: "contents d p \<noteq> None \<Longrightarrow> readAt D p off n d \<noteq> None"
    and saveFile_ok: "saveFile D p x d \<noteq> None"

lemma overwrite_end: "overwrite b (length b) x = b @ x"
  by (simp add: overwrite_def)

section \<open>A disk in memory\<close>

type_synonym files = "string \<rightharpoonup> bytes"

definition memory_disk :: "files disk" where
  "memory_disk = \<lparr>
     makePath = (\<lambda>p d. Some d),
     openTruncate = (\<lambda>p d. Some (d(p \<mapsto> []))),
     writeAt = (\<lambda>p off x d. case d p of None \<Rightarrow> None | Some b \<Rightarrow> Some (d(p \<mapsto> overwrite b off x))),
     resizeFile = (\<lambda>p n d. case d p of None \<Rightarrow> None | Some b \<Rightarrow> Some (d(p \<mapsto> resized b n))),
     flushFile = (\<lambda>p d. Some d),
     renameFile = (\<lambda>p q d. if d q = None then Some (d(p := None, q := d p)) else None),
     removeFile = (\<lambda>p d. d(p := None)),
     readAt = (\<lambda>p off n d. case d p of None \<Rightarrow> None | Some b \<Rightarrow> Some (take n (drop off b))),
     saveFile = (\<lambda>p x d. Some (d(p \<mapsto> x))),
     fileSize = (\<lambda>p d. case d p of None \<Rightarrow> 0 | Some b \<Rightarrow> length b),
     fileExists = (\<lambda>p d. d p \<noteq> None)\<rparr>"

interpretation mem: reliable_disk memory_disk "\<lambda>d. d"
  by unfold_locales (auto simp: memory_disk_def split: option.splits if_splits)

end
