(* ===== verification/Qt_Stream.thy ===== *)
theory Qt_Stream
  imports Rip_Prelude
begin

text \<open>
  \<open>QDataStream\<close>: the operators \<open><<\<close> and \<open>>>\<close> the code uses are parameters. A reader
  consumes a prefix of the buffer or fails, which stands for a stream status other than
  \<open>Ok\<close>. The locale states the documented facts: what one operator writes the other reads
  back, and the sizes of the encodings. \<open>big_endian\<close> is the encoding Qt documents.
\<close>

record datastream =
  put8 :: "u8 \<Rightarrow> bytes"
  put16 :: "u16 \<Rightarrow> bytes"
  put32 :: "u32 \<Rightarrow> bytes"
  put64 :: "u64 \<Rightarrow> bytes"
  putI32 :: "int \<Rightarrow> bytes"
  putBytes :: "bytes \<Rightarrow> bytes"
  get8 :: "bytes \<Rightarrow> (u8 \<times> bytes) option"
  get16 :: "bytes \<Rightarrow> (u16 \<times> bytes) option"
  get32 :: "bytes \<Rightarrow> (u32 \<times> bytes) option"
  get64 :: "bytes \<Rightarrow> (u64 \<times> bytes) option"
  getI32 :: "bytes \<Rightarrow> (int \<times> bytes) option"
  getBytes :: "bytes \<Rightarrow> (bytes \<times> bytes) option"

definition read_then :: "('a \<times> bytes) option \<Rightarrow> ('a \<Rightarrow> bytes \<Rightarrow> 'b option) \<Rightarrow> 'b option" where
  \<comment> \<open>one \<open>>>\<close> after another; a failed read fails the rest\<close>
  "read_then r f = (case r of None \<Rightarrow> None | Some (x, rest) \<Rightarrow> f x rest)"

lemma read_then_simps [simp]:
  "read_then None f = None"
  "read_then (Some (x, rest)) f = f x rest"
  by (simp_all add: read_then_def)

fun get_many :: "(bytes \<Rightarrow> ('a \<times> bytes) option) \<Rightarrow> nat \<Rightarrow> bytes \<Rightarrow> ('a list \<times> bytes) option" where
  "get_many g 0 b = Some ([], b)"
| "get_many g (Suc n) b = read_then (g b) (\<lambda>x b. read_then (get_many g n b) (\<lambda>xs b. Some (x # xs, b)))"

lemma get_many_put:
  assumes "\<And>x r. x \<in> set xs \<Longrightarrow> g (p x @ r) = Some (x, r)"
  shows "get_many g (length xs) (concat (map p xs) @ rest) = Some (xs, rest)"
  using assms by (induction xs) simp_all

locale datastream_laws =
  fixes S :: datastream
  assumes get_put8 [simp]: "get8 S (put8 S x8 @ r) = Some (x8, r)"
    and get_put16 [simp]: "get16 S (put16 S x16 @ r) = Some (x16, r)"
    and get_put32 [simp]: "get32 S (put32 S x32 @ r) = Some (x32, r)"
    and get_put64 [simp]: "get64 S (put64 S x64 @ r) = Some (x64, r)"
    and get_putI32 [simp]: "fits_int i \<Longrightarrow> getI32 S (putI32 S i @ r) = Some (i, r)"
    and get_putBytes [simp]: "length b < 2 ^ 31 \<Longrightarrow> getBytes S (putBytes S b @ r) = Some (b, r)"
    and length_put8 [simp]: "length (put8 S x8) = 1"
    and length_put16 [simp]: "length (put16 S x16) = 2"
    and length_put32 [simp]: "length (put32 S x32) = 4"
    and length_put64 [simp]: "length (put64 S x64) = 8"
    and length_putI32 [simp]: "length (putI32 S i) = 4"
    and length_putBytes [simp]: "length (putBytes S b) = 4 + length b"

section \<open>The big-endian encoding\<close>

fun be_put :: "nat \<Rightarrow> nat \<Rightarrow> bytes" where
  "be_put 0 n = []"
| "be_put (Suc k) n = of_nat (n div 256 ^ k) # be_put k (n mod 256 ^ k)"

fun be_get :: "nat \<Rightarrow> bytes \<Rightarrow> (nat \<times> bytes) option" where
  "be_get 0 b = Some (0, b)"
| "be_get (Suc k) [] = None"
| "be_get (Suc k) (x # b) =
     (case be_get k b of None \<Rightarrow> None | Some (n, r) \<Rightarrow> Some (unat x * 256 ^ k + n, r))"

lemma length_be_put [simp]: "length (be_put k n) = k"
  by (induction k arbitrary: n) simp_all

lemma be_get_put: "n < 256 ^ k \<Longrightarrow> be_get k (be_put k n @ r) = Some (n, r)"
proof (induction k arbitrary: n)
  case (Suc k)
  have q: "n div 256 ^ k < 256" using Suc.prems by (simp add: less_mult_imp_div_less mult.commute)
  have "unat (of_nat (n div 256 ^ k) :: u8) = n div 256 ^ k"
    using q by (simp add: unat_of_nat)
  moreover have "n div 256 ^ k * 256 ^ k + n mod 256 ^ k = n" by (rule div_mult_mod_eq)
  ultimately show ?case using Suc.IH [of "n mod 256 ^ k"] by simp
qed simp

definition big_endian :: datastream where
  "big_endian =
     \<lparr>put8 = (\<lambda>x. be_put 1 (unat x)), put16 = (\<lambda>x. be_put 2 (unat x)),
      put32 = (\<lambda>x. be_put 4 (unat x)), put64 = (\<lambda>x. be_put 8 (unat x)),
      putI32 = (\<lambda>i. be_put 4 (unat (word_of_int i :: u32))),
      putBytes = (\<lambda>b. be_put 4 (length b mod 2 ^ 32) @ b),
      get8 = (\<lambda>b. read_then (be_get 1 b) (\<lambda>n r. Some (of_nat n, r))),
      get16 = (\<lambda>b. read_then (be_get 2 b) (\<lambda>n r. Some (of_nat n, r))),
      get32 = (\<lambda>b. read_then (be_get 4 b) (\<lambda>n r. Some (of_nat n, r))),
      get64 = (\<lambda>b. read_then (be_get 8 b) (\<lambda>n r. Some (of_nat n, r))),
      getI32 = (\<lambda>b. read_then (be_get 4 b) (\<lambda>n r. Some (sint (of_nat n :: u32), r))),
      getBytes = (\<lambda>b. read_then (be_get 4 b) (\<lambda>n r.
                    if length r < n then None else Some (take n r, drop n r)))\<rparr>"

lemma unat_less_2p: "unat (x :: 'a::len word) < 2 ^ LENGTH('a)"
  by (rule unsigned_less)

lemma be_get_word: "be_get 4 (be_put 4 (unat (x :: u32)) @ r) = Some (unat x, r)"
  using unat_less_2p [of x] by (intro be_get_put) simp

interpretation be: datastream_laws big_endian
proof unfold_locales
  fix r :: bytes
  show "get8 big_endian (put8 big_endian x8 @ r) = Some (x8, r)" for x8
    using be_get_put [of "unat x8" 1 r] unat_less_2p [of x8] by (simp add: big_endian_def)
  show "get16 big_endian (put16 big_endian x16 @ r) = Some (x16, r)" for x16
    using be_get_put [of "unat x16" 2 r] unat_less_2p [of x16] by (simp add: big_endian_def)
  show "get32 big_endian (put32 big_endian x32 @ r) = Some (x32, r)" for x32
    by (simp add: big_endian_def be_get_word)
  show "get64 big_endian (put64 big_endian x64 @ r) = Some (x64, r)" for x64
    using be_get_put [of "unat x64" 8 r] unat_less_2p [of x64] by (simp add: big_endian_def)
  show "getI32 big_endian (putI32 big_endian i @ r) = Some (i, r)" if "fits_int i" for i
  proof -
    have "sint (word_of_int i :: u32) = i"
      using that by (simp add: fits_int_def int_min_def int_max_def int_word_sint)
    then show ?thesis by (simp add: big_endian_def be_get_word)
  qed
  show "getBytes big_endian (putBytes big_endian b @ r) = Some (b, r)" if "length b < 2 ^ 31" for b
    using that be_get_put [of "length b" 4 "b @ r"] by (simp add: big_endian_def)
qed (simp_all add: big_endian_def)

end
