(* ===== verification/Dot_Packing.thy ===== *)
theory Dot_Packing
  imports Rip_Prelude
begin

text \<open>
  The two-bits-per-dot line format. \<open>packTo2Bpp\<close> is the loop that both
  \<open>NocaiPrnWriter::packTo2Bpp\<close> and \<open>MultiInkScreenEngine::packTo2BPP\<close> contain
  (byte accumulator, running index, zero padding to a multiple of four bytes);
  \<open>packRow\<close> is the random-access variant of \<open>BoundedRasterPipeline\<close>.
  Both are shown equal to the closed form \<open>packed_line\<close>, whose bytes can be read back.
\<close>

section \<open>The accumulating packer\<close>

fun pack_step :: "bytes \<times> u8 \<times> nat \<Rightarrow> u8 \<Rightarrow> bytes \<times> u8 \<times> nat" where
  "pack_step (line, byte, idx) dot =
     (let level = dot AND 3;
          byte' = byte OR push_bit ((3 - idx mod 4) * 2) level;
          idx' = idx + 1
      in if idx' mod 4 = 0 then (line @ [byte'], 0, idx') else (line, byte', idx'))"

function pad_line :: "bytes \<Rightarrow> bytes" where
  "pad_line line = (if length line mod 4 \<noteq> 0 then pad_line (line @ [0]) else line)"
  by pat_completeness auto
termination
  by (relation "measure (\<lambda>line. (4 - length line mod 4) mod 4)") (auto simp: mod_Suc)

declare pad_line.simps [simp del]

definition pack_line :: "bytes \<Rightarrow> nat \<Rightarrow> bytes" where
  "pack_line dots width =
     (let (line, byte, idx) = foldl pack_step ([], 0, 0) (map (\<lambda>x. dots ! x) [0..<width]);
          line' = (if idx mod 4 \<noteq> 0 then line @ [byte] else line)
      in pad_line line')"

definition packTo2Bpp :: "plane \<Rightarrow> nat \<Rightarrow> nat \<Rightarrow> plane" where
  "packTo2Bpp dotMap width height = map (\<lambda>y. pack_line (dotMap ! y) width) [0..<height]"

section \<open>The random-access packer\<close>

definition line_bytes :: "int \<Rightarrow> int" where
  \<comment> \<open>\<open>(((width + 3) / 4) + 3) & ~3\<close>\<close>
  "line_bytes width = ((width + 3) div 4 + 3) AND NOT 3"

definition packRow :: "bytes \<Rightarrow> nat \<Rightarrow> bytes" where
  "packRow dots width =
     (let bytesPerLine = nat (line_bytes (int width))
      in foldl (\<lambda>packed x. packed[x div 4 :=
                  packed ! (x div 4) OR push_bit ((3 - x mod 4) * 2) (dots ! x AND 3)])
           (replicate bytesPerLine 0) [0..<width])"

section \<open>Closed form\<close>

fun quad_part :: "bytes \<Rightarrow> nat \<Rightarrow> nat \<Rightarrow> u8" where
  \<comment> \<open>the byte that holds the first \<open>m\<close> dots of group \<open>j\<close>\<close>
  "quad_part dots j 0 = 0"
| "quad_part dots j (Suc m) =
     quad_part dots j m OR push_bit ((3 - m) * 2) (dots ! (4 * j + m) AND 3)"

definition packed_bytes :: "nat \<Rightarrow> nat" where
  "packed_bytes width = 4 * ((width + 15) div 16)"

definition packed_line :: "bytes \<Rightarrow> nat \<Rightarrow> bytes" where
  "packed_line dots width =
     map (\<lambda>j. quad_part dots j (min 4 (width - 4 * j))) [0..<packed_bytes width]"

lemma and_not_3_int: "(x :: int) AND NOT 3 = 4 * (x div 4)"
proof -
  have m: "(3::int) = mask 2" by (simp add: mask_eq_exp_minus_1)
  have "x AND NOT 3 = push_bit 2 (drop_bit 2 x)"
    unfolding m
  proof (rule bit_eqI)
    fix n
    show "bit (x AND NOT (mask 2)) n = bit (push_bit 2 (drop_bit 2 x)) n"
    proof (cases "2 \<le> n")
      case True
      then obtain k where "n = k + 2" by (metis add.commute le_iff_add)
      then show ?thesis by (simp add: bit_and_iff bit_not_iff bit_mask_iff bit_push_bit_iff bit_drop_bit_eq)
    next
      case False
      then show ?thesis by (simp add: bit_and_iff bit_not_iff bit_mask_iff bit_push_bit_iff)
    qed
  qed
  then show ?thesis by (simp add: push_bit_eq_mult drop_bit_eq_div)
qed

lemma line_bytes_packed: "line_bytes (int width) = int (packed_bytes width)"
proof -
  have "(int width + 3) div 4 + 3 = (int width + 15) div 4" by simp
  then have "((int width + 3) div 4 + 3) div 4 = (int width + 15) div 16"
    by (simp flip: zdiv_zmult2_eq)
  moreover have "int (packed_bytes width) = 4 * ((int width + 15) div 16)"
    by (simp add: packed_bytes_def zdiv_int)
  ultimately show ?thesis unfolding line_bytes_def and_not_3_int by simp
qed

lemma packed_bytes_eq: "packed_bytes width = 4 * (((width + 3) div 4 + 3) div 4)"
proof -
  have "(width + 3) div 4 + 3 = (width + 15) div 4" by simp
  then have "((width + 3) div 4 + 3) div 4 = (width + 15) div 16"
    by (simp flip: div_mult2_eq)
  then show ?thesis by (simp add: packed_bytes_def)
qed

lemma packed_bytes_ge: "width \<le> 4 * packed_bytes width" "x < width \<Longrightarrow> x div 4 < packed_bytes width"
proof -
  have "(width + 3) div 4 \<le> packed_bytes width" unfolding packed_bytes_eq by presburger
  moreover have "width \<le> 4 * ((width + 3) div 4)" by presburger
  ultimately show le: "width \<le> 4 * packed_bytes width" by linarith
  show "x div 4 < packed_bytes width" if "x < width" using that le by (simp add: less_mult_imp_div_less)
qed

lemma line_bytes_nonneg: "0 < width \<Longrightarrow> 0 < line_bytes width"
  using line_bytes_packed [of "nat width"] by (simp add: packed_bytes_def)

lemma length_packed_line [raster_simps, simp]: "length (packed_line dots width) = packed_bytes width"
  by (simp add: packed_line_def)

lemma quad_part_4: "quad_part dots j 4 = quad_part dots j 3 OR (dots ! (4 * j + 3) AND 3)"
  using quad_part.simps(2) [of dots j 3] by simp

lemma pack_fold:
  "foldl pack_step ([], 0, 0) (map (\<lambda>x. dots ! x) [0..<n]) =
     (map (\<lambda>j. quad_part dots j 4) [0..<n div 4], quad_part dots (n div 4) (n mod 4), n)"
proof (induction n)
  case 0
  then show ?case by simp
next
  case (Suc n)
  have four: "4 * (n div 4) + n mod 4 = n" by simp
  show ?case
  proof (cases "Suc n mod 4 = 0")
    case True
    then have m: "n mod 4 = 3" by presburger
    then have d: "Suc n div 4 = Suc (n div 4)" by presburger
    have n: "4 * (n div 4) + 3 = n" using four m by simp
    show ?thesis
      using Suc True by (simp add: Let_def m d quad_part_4 n)
  next
    case False
    then have d: "Suc n div 4 = n div 4" by presburger
    from False have r: "Suc n mod 4 = Suc (n mod 4)" by presburger
    show ?thesis using Suc False by (simp add: Let_def d r)
  qed
qed

lemma pad_line_eq: "pad_line line = line @ replicate ((4 - length line mod 4) mod 4) 0"
proof (induction line rule: pad_line.induct)
  case (1 line)
  show ?case
  proof (cases "length line mod 4 = 0")
    case True
    then show ?thesis by (simp add: pad_line.simps [of line])
  next
    case False
    let ?k = "(4 - length (line @ [0]) mod 4) mod 4"
    have k: "(4 - length line mod 4) mod 4 = Suc ?k"
    proof -
      have "length line mod 4 < 4" by simp
      then show ?thesis using False by (auto simp: mod_Suc)
    qed
    have "pad_line line = (line @ [0]) @ replicate ?k 0"
      using False 1 by (simp add: pad_line.simps [of line])
    then show ?thesis unfolding k by simp
  qed
qed

lemma quad_part_empty [simp]: "width \<le> 4 * j \<Longrightarrow> quad_part dots j (min 4 (width - 4 * j)) = 0"
  by simp

lemma pack_used:
  "(let line = map (\<lambda>j. quad_part dots j 4) [0..<width div 4]
    in if width mod 4 \<noteq> 0 then line @ [quad_part dots (width div 4) (width mod 4)] else line) =
   map (\<lambda>j. quad_part dots j (min 4 (width - 4 * j))) [0..<(width + 3) div 4]"
proof -
  let ?q = "\<lambda>j. quad_part dots j (min 4 (width - 4 * j))"
  have full: "map (\<lambda>j. quad_part dots j 4) [0..<width div 4] = map ?q [0..<width div 4]"
  proof (rule map_cong)
    fix j assume "j \<in> set [0..<width div 4]"
    then have "j < width div 4" by simp
    then have "4 \<le> width - 4 * j" by presburger
    then show "quad_part dots j 4 = ?q j" by (simp add: min_absorb1)
  qed simp
  show ?thesis
  proof (cases "width mod 4 = 0")
    case True
    then have "(width + 3) div 4 = width div 4" by presburger
    with True full show ?thesis by simp
  next
    case False
    then have u: "(width + 3) div 4 = Suc (width div 4)" by presburger
    have "width - 4 * (width div 4) = width mod 4" by (simp add: minus_mult_div_eq_mod)
    then have "quad_part dots (width div 4) (width mod 4) = ?q (width div 4)"
      by (simp add: min_absorb2 less_imp_le)
    with False full u show ?thesis by simp
  qed
qed

lemma round_up_4: "4 * ((p + 3) div 4) = p + (4 - p mod 4) mod (4 :: nat)"
proof -
  define q where "q = p div 4"
  have "p = 4 * q + p mod 4" unfolding q_def by simp
  moreover have "p mod 4 < 4" by simp
  ultimately consider "p = 4 * q" | "p = 4 * q + 1" | "p = 4 * q + 2" | "p = 4 * q + 3"
    by linarith
  then show ?thesis by cases (simp_all add: mod_Suc)
qed

lemma packed_line_split:
  "packed_line dots width =
     map (\<lambda>j. quad_part dots j (min 4 (width - 4 * j))) [0..<(width + 3) div 4] @
     replicate ((4 - (width + 3) div 4 mod 4) mod 4) 0"
proof -
  let ?q = "\<lambda>j. quad_part dots j (min 4 (width - 4 * j))"
  define p where "p = (width + 3) div 4"
  have w: "width \<le> 4 * p" unfolding p_def by presburger
  have B: "packed_bytes width = p + (4 - p mod 4) mod 4"
    unfolding packed_bytes_eq p_def [symmetric] by (rule round_up_4)
  have "map ?q [p..<p + k] = replicate k 0" for k
    by (rule nth_equalityI) (use w in auto)
  then show ?thesis
    unfolding packed_line_def B p_def [symmetric]
    using upt_add_eq_append [of 0 p "(4 - p mod 4) mod 4"] by simp
qed

lemma pack_line_packed: "pack_line dots width = packed_line dots width"
  using pack_used [of dots width]
  unfolding pack_line_def pack_fold Let_def prod.case packed_line_split
  by (simp only: pad_line_eq length_map length_upt minus_nat.diff_0)

lemma packRow_fold:
  assumes "width \<le> 4 * L"
  shows "foldl (\<lambda>packed x. packed[x div 4 :=
            packed ! (x div 4) OR push_bit ((3 - x mod 4) * 2) (dots ! x AND 3)])
          (replicate L 0) [0..<width] =
         map (\<lambda>j. quad_part dots j (min 4 (width - 4 * j))) [0..<L]"
  using assms
proof (induction width)
  case 0
  then show ?case by (simp add: map_replicate_trivial)
next
  case (Suc n)
  let ?q = "\<lambda>n j. quad_part dots j (min 4 (n - 4 * j))"
  have L: "n div 4 < L" using Suc.prems by presburger
  have four: "4 * (n div 4) + n mod 4 = n" by simp
  have "(map (?q n) [0..<L])[n div 4 :=
          map (?q n) [0..<L] ! (n div 4) OR push_bit ((3 - n mod 4) * 2) (dots ! n AND 3)] =
        map (?q (Suc n)) [0..<L]"
  proof (rule nth_equalityI)
    fix i assume i: "i < length ((map (?q n) [0..<L])[n div 4 :=
          map (?q n) [0..<L] ! (n div 4) OR push_bit ((3 - n mod 4) * 2) (dots ! n AND 3)])"
    show "(map (?q n) [0..<L])[n div 4 :=
          map (?q n) [0..<L] ! (n div 4) OR push_bit ((3 - n mod 4) * 2) (dots ! n AND 3)] ! i =
        map (?q (Suc n)) [0..<L] ! i"
    proof (cases "i = n div 4")
      case True
      have "n - 4 * (n div 4) = n mod 4" using four by linarith
      then have a: "min 4 (n - 4 * (n div 4)) = n mod 4" by (simp add: min_absorb2 less_imp_le)
      have "Suc n - 4 * (n div 4) = Suc (n mod 4)" using four by linarith
      then have b: "min 4 (Suc n - 4 * (n div 4)) = Suc (n mod 4)" by (simp add: min_absorb2 Suc_leI)
      have "?q (Suc n) (n div 4) =
          ?q n (n div 4) OR push_bit ((3 - n mod 4) * 2) (dots ! n AND 3)"
        unfolding a b using four by simp
      with True i L show ?thesis by simp
    next
      case False
      moreover have "n mod 4 < 4" by simp
      ultimately have "4 * i + 4 \<le> n \<or> Suc n \<le> 4 * i" using four by linarith
      then have "min 4 (n - 4 * i) = min 4 (Suc n - 4 * i)" by linarith
      with False i show ?thesis by simp
    qed
  qed simp
  with Suc show ?case by simp
qed

lemma packRow_packed: "packRow dots width = packed_line dots width"
proof -
  have "width \<le> 4 * packed_bytes width" by (rule packed_bytes_ge)
  then show ?thesis
    by (simp add: packRow_def line_bytes_packed packRow_fold packed_line_def Let_def del: push_bit_and)
qed

section \<open>Reading a line back\<close>

definition dot_at :: "bytes \<Rightarrow> nat \<Rightarrow> u8" where
  "dot_at line x = drop_bit ((3 - x mod 4) * 2) (line ! (x div 4)) AND 3"

lemma and_3_u8: "bit ((d :: u8) AND 3) n \<longleftrightarrow> n < 2 \<and> bit d n"
proof -
  have m3: "(3::u8) = mask 2" by (simp add: mask_eq_exp_minus_1)
  show ?thesis unfolding m3 by (auto simp: bit_and_iff bit_mask_iff)
qed

lemma bit_quad_part:
  "bit (quad_part dots j m) n \<longleftrightarrow>
     (\<exists>i<m. (3 - i) * 2 \<le> n \<and> n < 8 \<and> n - (3 - i) * 2 < 2 \<and> bit (dots ! (4 * j + i)) (n - (3 - i) * 2))"
proof (induction m)
  case 0
  then show ?case by simp
next
  case (Suc m)
  have "bit (push_bit ((3 - m) * 2) (dots ! (4 * j + m) AND 3)) n \<longleftrightarrow>
      (3 - m) * 2 \<le> n \<and> n < 8 \<and> n - (3 - m) * 2 < 2 \<and> bit (dots ! (4 * j + m)) (n - (3 - m) * 2)"
    by (auto simp: bit_push_bit_iff and_3_u8 simp del: push_bit_and)
  then show ?case by (auto simp: bit_or_iff Suc less_Suc_eq simp del: push_bit_and)
qed

lemma quad_part_get:
  assumes "k < m" and "m \<le> 4"
  shows "drop_bit ((3 - k) * 2) (quad_part dots j m) AND 3 = dots ! (4 * j + k) AND 3"
proof (rule bit_eqI)
  fix n
  show "bit (drop_bit ((3 - k) * 2) (quad_part dots j m) AND 3) n = bit (dots ! (4 * j + k) AND 3) n"
  proof (cases "n < 2")
    case True
    have uniq: "i = k" if "i < m" "(3 - i) * 2 \<le> (3 - k) * 2 + n" "(3 - k) * 2 + n - (3 - i) * 2 < 2" for i
      using that True assms by arith
    have "(3 - k) * 2 + n < 8" using True by arith
    then have "bit (quad_part dots j m) ((3 - k) * 2 + n) = bit (dots ! (4 * j + k)) n"
      using True assms(1) uniq unfolding bit_quad_part by force
    then show ?thesis using True by (simp add: and_3_u8 bit_drop_bit_eq)
  next
    case False
    then show ?thesis by (simp add: and_3_u8)
  qed
qed

lemma dot_at_packed:
  assumes "x < width"
  shows "dot_at (packed_line dots width) x = dots ! x AND 3"
proof -
  have "x div 4 < packed_bytes width" using assms by (rule packed_bytes_ge)
  moreover have "x mod 4 < min 4 (width - 4 * (x div 4))"
  proof -
    have "4 * (x div 4) + x mod 4 = x" and "x mod 4 < 4" by simp_all
    then show ?thesis using assms by linarith
  qed
  ultimately show ?thesis
    using quad_part_get [of "x mod 4" "min 4 (width - 4 * (x div 4))" dots "x div 4"]
    by (simp add: dot_at_def packed_line_def)
qed

end
