(* ===== verification/Raster_Spool.thy ===== *)
theory Raster_Spool
  imports Qt_Disk Qt_Stream Dot_Packing
begin

text \<open>
  \<open>core/RasterSpool\<close>: the raster file that carries a job between the rasterizer, the
  print service and the printer driver. A 4096-byte header holds the metadata and a SHA-256
  over the header (with an empty checksum) and the body; the body holds the 2-bpp lines,
  channel-major. The writer records which lines it has received and finalizes only when it
  has all of them. The hash, the stream operators and the disk are parameters. An operation
  that fails returns the state it leaves together with the reason.
\<close>

section \<open>Metadata\<close>

record spool = \<comment> \<open>\<open>DirectPrintSpool\<close>\<close>
  sp_path :: string
  sp_order :: "int list" \<comment> \<open>\<open>channelOrder\<close>\<close>
  sp_logical :: int \<comment> \<open>\<open>logicalChannelCount\<close>\<close>
  sp_width :: int
  sp_height :: int
  sp_xdpi :: int
  sp_ydpi :: int
  sp_lineBytes :: int \<comment> \<open>\<open>bytesPerLine\<close>\<close>
  sp_format :: u8
  sp_header :: "u32 list" \<comment> \<open>\<open>canonicalHeader\<close>, twelve words\<close>
  sp_bodyOffset :: u64
  sp_bodyBytes :: u64
  sp_sha256 :: bytes

definition Magic :: u32 where "Magic = 0x50465253"
definition Version :: u16 where "Version = 1"
definition HeaderBytes :: u64 where "HeaderBytes = 4096"

datatype spool_error =
    SpoolDimensions
  | SpoolLayout
  | SpoolChannelOrder
  | SpoolByteCount
  | HeaderTruncated
  | HeaderInvalid
  | SpoolDirectory
  | SpoolCreate
  | SpoolAllocate
  | LineInvalid
  | LineWrite
  | HeaderWrite
  | SpoolNotOpen
  | SpoolIncomplete
  | SpoolFlush
  | SpoolTruncated
  | SpoolHashCanceled
  | SpoolHashMetadata
  | SpoolFinalize
  | SpoolOpen
  | SpoolLength
  | ChecksumMismatch
  | ChunkInvalid

definition expectedBodyBytes :: "spool \<Rightarrow> u64" where
  "expectedBodyBytes sp =
     (if sp_logical sp \<le> 0 \<or> sp_height sp \<le> 0 \<or> sp_lineBytes sp \<le> 0 then 0
      else let lines = cast64 (sp_logical sp) * cast64 (sp_height sp) in
        if lines > - 1 div cast64 (sp_lineBytes sp) then 0
        else lines * cast64 (sp_lineBytes sp))"

definition metadataIsValid :: "spool \<Rightarrow> spool_error + unit" where
  "metadataIsValid sp =
     (if sp_width sp \<le> 0 \<or> sp_height sp \<le> 0 \<or> sp_xdpi sp \<le> 0 \<or> sp_ydpi sp \<le> 0 \<or>
         sp_lineBytes sp \<le> 0 \<or> sp_logical sp \<le> 0 \<or> sp_logical sp > 16 \<or>
         sp_order sp = [] \<or> length (sp_order sp) > 16 then Inl SpoolDimensions
      else let expectedLineBytes = ((cast64 (sp_width sp) + 3) div 4 + 3) AND NOT 3;
               logicalLines = cast64 (sp_logical sp) * cast64 (sp_height sp) in
      if expectedLineBytes \<noteq> cast64 (sp_lineBytes sp) \<or> logicalLines > cast64 int_max
      then Inl SpoolLayout
      else if \<exists>channel \<in> set (sp_order sp). channel < 0 \<or> channel \<ge> sp_logical sp
      then Inl SpoolChannelOrder
      else let expected = expectedBodyBytes sp in
      if expected = 0 \<or> (sp_bodyBytes sp \<noteq> 0 \<and> sp_bodyBytes sp \<noteq> expected)
      then Inl SpoolByteCount
      else Inr ())"

section \<open>The header\<close>

definition encodeHeader :: "datastream \<Rightarrow> spool \<Rightarrow> bytes \<Rightarrow> bytes" where
  "encodeHeader S sp checksum =
     (let header = put32 S Magic @ put16 S Version @ put64 S HeaderBytes @
            putI32 S (sp_width sp) @ putI32 S (sp_height sp) @
            putI32 S (sp_xdpi sp) @ putI32 S (sp_ydpi sp) @
            putI32 S (sp_lineBytes sp) @ put8 S (sp_format sp) @
            putI32 S (sp_logical sp) @ put64 S (sp_bodyBytes sp) @
            putBytes S checksum @ concat (map (put32 S) (sp_header sp)) @
            putI32 S (int (length (sp_order sp))) @ concat (map (putI32 S) (sp_order sp))
      in if length header > unat HeaderBytes then [] else resized header (unat HeaderBytes))"

definition read_fields ::
  "datastream \<Rightarrow> bytes \<Rightarrow> string \<Rightarrow> (u32 \<times> u16 \<times> u64 \<times> spool) option" where
  \<comment> \<open>the \<open>in >> ...\<close> sequence; \<open>None\<close> is a stream status other than \<open>Ok\<close>\<close>
  "read_fields S header path =
     read_then (get32 S header) (\<lambda>magic b.
     read_then (get16 S b) (\<lambda>version b.
     read_then (get64 S b) (\<lambda>headerBytes b.
     read_then (getI32 S b) (\<lambda>width b.
     read_then (getI32 S b) (\<lambda>height b.
     read_then (getI32 S b) (\<lambda>xdpi b.
     read_then (getI32 S b) (\<lambda>ydpi b.
     read_then (getI32 S b) (\<lambda>bytesPerLine b.
     read_then (get8 S b) (\<lambda>format b.
     read_then (getI32 S b) (\<lambda>logicalChannels b.
     read_then (get64 S b) (\<lambda>bodyBytes b.
     read_then (getBytes S b) (\<lambda>checksum b.
     read_then (get_many (get32 S) 12 b) (\<lambda>canonical b.
     read_then (getI32 S b) (\<lambda>physicalChannels b.
     read_then (if physicalChannels > 0 \<and> physicalChannels \<le> 16
                then get_many (getI32 S) (nat physicalChannels) b else Some ([], b)) (\<lambda>order b.
     Some (magic, version, headerBytes,
       \<lparr>sp_path = path, sp_order = order, sp_logical = logicalChannels, sp_width = width,
        sp_height = height, sp_xdpi = xdpi, sp_ydpi = ydpi, sp_lineBytes = bytesPerLine,
        sp_format = format, sp_header = canonical, sp_bodyOffset = HeaderBytes,
        sp_bodyBytes = bodyBytes, sp_sha256 = checksum\<rparr>))))))))))))))))"

definition decodeHeader :: "datastream \<Rightarrow> bytes \<Rightarrow> string \<Rightarrow> spool_error + spool" where
  "decodeHeader S header path =
     (if length header \<noteq> unat HeaderBytes then Inl HeaderTruncated
      else case read_fields S header path of
        None \<Rightarrow> Inl HeaderInvalid
      | Some (magic, version, headerBytes, decoded) \<Rightarrow>
          if magic \<noteq> Magic \<or> version \<noteq> Version \<or> headerBytes \<noteq> HeaderBytes then Inl HeaderInvalid
          else bind_res (metadataIsValid decoded) (\<lambda>_. Inr decoded))"

section \<open>The checksum\<close>

function read_chunks ::
  "'d disk \<Rightarrow> (nat \<Rightarrow> bool) \<Rightarrow> string \<Rightarrow> 'd \<Rightarrow> nat \<Rightarrow> nat \<Rightarrow> bytes \<Rightarrow> spool_error + bytes" where
  \<comment> \<open>the bytes given to \<open>hash.addData\<close>; \<open>canceled\<close> is polled with the bytes that remain\<close>
  "read_chunks D canceled path d off remaining acc =
     (if remaining = 0 then Inr acc
      else if canceled remaining then Inl SpoolHashCanceled
      else let requested = min remaining (1024 * 1024) in
        case readAt D path off requested d of
          None \<Rightarrow> Inl SpoolTruncated
        | Some chunk \<Rightarrow>
            if length chunk \<noteq> requested then Inl SpoolTruncated
            else read_chunks D canceled path d (off + requested) (remaining - requested) (acc @ chunk))"
  by pat_completeness auto
termination
  by (relation "measure (\<lambda>(D, canceled, path, d, off, remaining, acc). remaining)") auto

declare read_chunks.simps [simp del]

definition spoolChecksum ::
  "'d disk \<Rightarrow> datastream \<Rightarrow> (bytes \<Rightarrow> bytes) \<Rightarrow> (nat \<Rightarrow> bool) \<Rightarrow> string \<Rightarrow> spool \<Rightarrow> 'd \<Rightarrow>
   spool_error + bytes" where
  "spoolChecksum D S sha canceled path sp d =
     (let canonicalHeader = encodeHeader S sp [] in
      if length canonicalHeader \<noteq> unat HeaderBytes then Inl SpoolHashMetadata
      else bind_res (read_chunks D canceled path d (unat HeaderBytes) (unat (sp_bodyBytes sp)) canonicalHeader)
             (\<lambda>hashed. Inr (sha hashed)))"

section \<open>The writer\<close>

record writer =
  w_open :: bool \<comment> \<open>\<open>m_file\<close> is set and open\<close>
  w_meta :: spool
  w_partial :: string
  w_final :: string
  w_lines :: "bool list"
  w_finalized :: bool

type_synonym 'd writer_result = "(spool_error \<times> 'd \<times> writer) + ('d \<times> writer)"

definition filePath :: "string \<Rightarrow> string \<Rightarrow> string" where
  "filePath dir name = dir @ ''/'' @ name"

definition writer_cancel :: "'d disk \<Rightarrow> 'd \<times> writer \<Rightarrow> 'd \<times> writer" where
  "writer_cancel D st =
     (case st of (d, W) \<Rightarrow>
       (if w_partial W = [] then d else removeFile D (w_partial W) d,
        W\<lparr>w_open := False, w_partial := [], w_final := [], w_lines := [], w_finalized := False\<rparr>))"

definition writeHeader :: "'d disk \<Rightarrow> datastream \<Rightarrow> bytes \<Rightarrow> 'd \<times> writer \<Rightarrow> 'd writer_result" where
  "writeHeader D S checksum st =
     (case st of (d, W) \<Rightarrow>
       let header = encodeHeader S (w_meta W) checksum in
       if header = [] \<or> \<not> w_open W then Inl (HeaderWrite, d, W)
       else case writeAt D (w_partial W) 0 header d of
         None \<Rightarrow> Inl (HeaderWrite, d, W) | Some d \<Rightarrow> Inr (d, W))"

definition writer_create ::
  "'d disk \<Rightarrow> datastream \<Rightarrow> string \<Rightarrow> string \<Rightarrow> spool \<Rightarrow> 'd \<times> writer \<Rightarrow> 'd writer_result" where
  \<comment> \<open>\<open>token\<close> is the random part of the file name\<close>
  "writer_create D S token directory metadata st =
     (let (d, W) = writer_cancel D st;
          m = metadata\<lparr>sp_bodyOffset := HeaderBytes\<rparr>;
          m = m\<lparr>sp_bodyBytes := expectedBodyBytes m, sp_sha256 := []\<rparr>;
          W = W\<lparr>w_meta := m\<rparr> in
      case metadataIsValid m of
        Inl e \<Rightarrow> Inl (e, d, W)
      | Inr _ \<Rightarrow>
        (case makePath D directory d of
           None \<Rightarrow> Inl (SpoolDirectory, d, W)
         | Some d \<Rightarrow>
           let partial = filePath directory (''printflow-'' @ token @ ''.pfrs.partial'');
               W = W\<lparr>w_partial := partial,
                     w_final := filePath directory (''printflow-'' @ token @ ''.pfrs'')\<rparr> in
           (case openTruncate D partial d of
              None \<Rightarrow> Inl (SpoolCreate, writer_cancel D (d, W))
            | Some d \<Rightarrow>
              (case writeHeader D S [] (d, W\<lparr>w_open := True\<rparr>) of
                 Inl (e, st) \<Rightarrow> Inl (e, writer_cancel D st)
               | Inr (d, W) \<Rightarrow>
                 (case resizeFile D partial (unat (HeaderBytes + sp_bodyBytes m)) d of
                    None \<Rightarrow> Inl (SpoolAllocate, writer_cancel D (d, W))
                  | Some d \<Rightarrow> Inr (d, W\<lparr>w_lines := replicate (nat (sp_logical m * sp_height m)) False\<rparr>))))))"

definition lineOffset :: "spool \<Rightarrow> u64 \<Rightarrow> int \<Rightarrow> int \<Rightarrow> u64" where
  \<comment> \<open>both \<open>Writer::lineOffset\<close> (base \<open>HeaderBytes\<close>) and \<open>Reader::lineOffset\<close> (\<open>bodyOffset\<close>)\<close>
  "lineOffset sp base logicalChannel row =
     base + (cast64 logicalChannel * cast64 (sp_height sp) + cast64 row) * cast64 (sp_lineBytes sp)"

definition writer_writeLine :: "'d disk \<Rightarrow> int \<Rightarrow> int \<Rightarrow> bytes \<Rightarrow> 'd \<times> writer \<Rightarrow> 'd writer_result" where
  "writer_writeLine D logicalChannel row data st =
     (case st of (d, W) \<Rightarrow>
       let m = w_meta W in
       if \<not> w_open W \<or> logicalChannel < 0 \<or> logicalChannel \<ge> sp_logical m \<or>
          row < 0 \<or> row \<ge> sp_height m \<or> int (length data) \<noteq> sp_lineBytes m
       then Inl (LineInvalid, d, W)
       else case writeAt D (w_partial W) (unat (lineOffset m HeaderBytes logicalChannel row)) data d of
         None \<Rightarrow> Inl (LineWrite, d, W)
       | Some d \<Rightarrow> Inr (d, W\<lparr>w_lines := (w_lines W)[nat (logicalChannel * sp_height m + row) := True]\<rparr>))"

definition writer_finalize ::
  "'d disk \<Rightarrow> datastream \<Rightarrow> (bytes \<Rightarrow> bytes) \<Rightarrow> (nat \<Rightarrow> bool) \<Rightarrow> 'd \<times> writer \<Rightarrow>
   (spool_error \<times> 'd \<times> writer) + (spool \<times> 'd \<times> writer)" where
  "writer_finalize D S sha canceled st =
     (case st of (d, W) \<Rightarrow>
       if \<not> w_open W then Inl (SpoolNotOpen, d, W)
       else if count_list (w_lines W) True \<noteq> length (w_lines W) then Inl (SpoolIncomplete, d, W)
       else case flushFile D (w_partial W) d of
         None \<Rightarrow> Inl (SpoolFlush, d, W)
       | Some d \<Rightarrow>
         (case spoolChecksum D S sha canceled (w_partial W) (w_meta W) d of
            Inl e \<Rightarrow> Inl (e, d, W)
          | Inr checksum \<Rightarrow>
            if length checksum \<noteq> 32 then Inl (SpoolHashMetadata, d, W)
            else bind_res (writeHeader D S checksum (d, W)) (\<lambda>(d, W).
              case flushFile D (w_partial W) d of
                None \<Rightarrow> Inl (SpoolFlush, d, W)
              | Some d \<Rightarrow>
                let W = W\<lparr>w_open := False\<rparr> in
                (case renameFile D (w_partial W) (w_final W) d of
                   None \<Rightarrow> Inl (SpoolFinalize, d, W)
                 | Some d \<Rightarrow>
                   let m = (w_meta W)\<lparr>sp_path := w_final W, sp_sha256 := checksum\<rparr>
                   in Inr (m, d, W\<lparr>w_meta := m, w_finalized := True\<rparr>)))))"

section \<open>The reader\<close>

definition readMetadata :: "'d disk \<Rightarrow> datastream \<Rightarrow> string \<Rightarrow> 'd \<Rightarrow> spool_error + spool" where
  "readMetadata D S path d =
     (case readAt D path 0 (unat HeaderBytes) d of
        None \<Rightarrow> Inl SpoolOpen
      | Some header \<Rightarrow>
        bind_res (decodeHeader S header path) (\<lambda>metadata.
          if of_nat (fileSize D path d) \<noteq> HeaderBytes + sp_bodyBytes metadata then Inl SpoolLength
          else Inr metadata))"

definition spool_verify ::
  "'d disk \<Rightarrow> datastream \<Rightarrow> (bytes \<Rightarrow> bytes) \<Rightarrow> (nat \<Rightarrow> bool) \<Rightarrow> spool \<Rightarrow> 'd \<Rightarrow> spool_error + unit" where
  "spool_verify D S sha canceled sp d =
     bind_res (readMetadata D S (sp_path sp) d) (\<lambda>diskMetadata.
     bind_res (spoolChecksum D S sha canceled (sp_path sp) diskMetadata d) (\<lambda>checksum.
       if length checksum \<noteq> 32 then Inl SpoolHashMetadata
       else if checksum \<noteq> sp_sha256 diskMetadata \<or> (sp_sha256 sp \<noteq> [] \<and> checksum \<noteq> sp_sha256 sp)
       then Inl ChecksumMismatch
       else Inr ()))"

record reader =
  r_path :: string
  r_meta :: spool

definition reader_open ::
  "'d disk \<Rightarrow> datastream \<Rightarrow> (bytes \<Rightarrow> bytes) \<Rightarrow> (nat \<Rightarrow> bool) \<Rightarrow> string \<Rightarrow> bool \<Rightarrow> 'd \<Rightarrow> spool_error + reader" where
  "reader_open D S sha canceled path verifyChecksum d =
     bind_res (readMetadata D S path d) (\<lambda>m.
     bind_res (if verifyChecksum then spool_verify D S sha canceled m d else Inr ()) (\<lambda>_.
       if fileExists D path d then Inr \<lparr>r_path = path, r_meta = m\<rparr> else Inl SpoolOpen))"

definition reader_readLine :: "'d disk \<Rightarrow> reader \<Rightarrow> int \<Rightarrow> int \<Rightarrow> 'd \<Rightarrow> spool_error + bytes" where
  "reader_readLine D R logicalChannel row d =
     (let m = r_meta R in
      if logicalChannel < 0 \<or> logicalChannel \<ge> sp_logical m \<or> row < 0 \<or> row \<ge> sp_height m
      then Inl LineInvalid
      else case readAt D (r_path R) (unat (lineOffset m (sp_bodyOffset m) logicalChannel row))
                  (nat (sp_lineBytes m)) d of
        None \<Rightarrow> Inl LineInvalid
      | Some line \<Rightarrow> if int (length line) \<noteq> sp_lineBytes m then Inl SpoolTruncated else Inr line)"

definition reader_readBodyChunk :: "'d disk \<Rightarrow> reader \<Rightarrow> u64 \<Rightarrow> int \<Rightarrow> 'd \<Rightarrow> spool_error + bytes" where
  "reader_readBodyChunk D R off maximumBytes d =
     (let m = r_meta R in
      if maximumBytes \<le> 0 \<or> off > sp_bodyBytes m then Inl ChunkInvalid
      else let remaining = sp_bodyBytes m - off;
               size = unat (min remaining (cast64 maximumBytes)) in
        case readAt D (r_path R) (unat (sp_bodyOffset m + off)) size d of
          None \<Rightarrow> Inl ChunkInvalid
        | Some data \<Rightarrow> if length data \<noteq> size then Inl SpoolTruncated else Inr data)"

end
