(* ===== verification/Raster_Budget.thy ===== *)
theory Raster_Budget
  imports Dot_Packing
begin

text \<open>
  The memory and storage planning of \<open>BoundedRasterPipeline\<close>: how many rows a strip
  may have, how much scratch space a job needs, and which of the two raster strategies runs.
  All sizes are \<open>quint64\<close>, so the model computes them on 64-bit words; the theorems
  compare them with the same sums over the integers.
\<close>

definition MiB :: u64 where "MiB = 1024 * 1024"
definition BoundedNativeBufferBudget :: u64 where "BoundedNativeBufferBudget = 128 * MiB"
definition InMemoryRasterBudget :: u64 where "InMemoryRasterBudget = 4 * 1024 * MiB"
definition MaximumStripRows :: int where "MaximumStripRows = 128"

section \<open>Strip height\<close>

definition boundedRowsForWidth :: "int \<Rightarrow> u64 \<Rightarrow> u64 \<Rightarrow> int" where
  "boundedRowsForWidth width estimatedBytesPerPixel usableBudget =
     (if width \<le> 0 \<or> estimatedBytesPerPixel = 0 then 1
      else let bytesPerRow = cast64 width * estimatedBytesPerPixel in
        if bytesPerRow = 0 then 1
        else clamp (uint (min (cast64 MaximumStripRows) (max 1 (usableBudget div bytesPerRow))))
               1 MaximumStripRows)"

definition screen_strip_rows :: "int \<Rightarrow> nat \<Rightarrow> int \<Rightarrow> int" where
  \<comment> \<open>the strip height \<open>screenToSpool\<close> settles on\<close>
  "screen_strip_rows width channelCount stripRows =
     (let estimatedBytesPerPixel = 16 + 2 * of_nat channelCount
      in min (clamp stripRows 1 MaximumStripRows)
             (boundedRowsForWidth width estimatedBytesPerPixel (96 * MiB)))"

lemma div_mult_le_pos: "0 < (d::int) \<Longrightarrow> n div d * d \<le> n"
  using div_mult_mod_eq [of n d] pos_mod_sign [of d n] by linarith

lemma boundedRowsForWidth_range:
  "1 \<le> boundedRowsForWidth w b u \<and> boundedRowsForWidth w b u \<le> 128"
  by (simp add: boundedRowsForWidth_def Let_def MaximumStripRows_def clamp_ge clamp_le)

lemma screen_strip_rows_range:
  "1 \<le> screen_strip_rows w n s \<and> screen_strip_rows w n s \<le> 128"
  using boundedRowsForWidth_range [of w "16 + 2 * of_nat n" "96 * MiB"]
  by (auto simp: screen_strip_rows_def Let_def MaximumStripRows_def clamp_ge clamp_le min_def)

text \<open>The strip fits in the budget whenever one row does.\<close>

lemma boundedRowsForWidth_fits:
  assumes "0 < w" and "w * uint b \<le> uint u" and "0 < b"
  shows "boundedRowsForWidth w b u * (w * uint b) \<le> uint u"
proof -
  have b: "0 < uint b" using assms(3) by (simp add: word_less_def)
  have lt: "w * uint b < 2 ^ 64" using assms(2) uint_lt2p [of u] by simp
  have "w \<le> w * uint b" using assms(1) b by (simp add: mult_le_cancel_left1)
  then have w: "uint (cast64 w) = w" using lt assms(1) by (intro uint_cast64) linarith+
  let ?r = "cast64 w * b"
  have r: "uint ?r = w * uint b"
    using lt assms(1) b w by (simp add: uint_word_ariths mod_pos_pos_trivial)
  have pos: "0 < w * uint b" using assms(1) b by simp
  have r0: "?r \<noteq> 0" using r pos by auto
  have q: "uint (u div ?r) = uint u div (w * uint b)" by (simp add: uint_div_distrib r)
  have q1: "1 \<le> uint u div (w * uint b)"
    using assms(2) pos by (simp add: pos_imp_zdiv_pos_iff int_one_le_iff_zero_less)
  have "(1::u64) \<le> u div ?r" using q q1 by (simp add: word_le_def)
  then have m: "max 1 (u div ?r) = u div ?r" by (simp add: max_def)
  have "boundedRowsForWidth w b u \<le> uint u div (w * uint b)"
  proof -
    have "b \<noteq> 0" using b by auto
    then have "boundedRowsForWidth w b u = clamp (uint (min 128 (u div ?r))) 1 128"
      using assms r0 by (simp add: boundedRowsForWidth_def Let_def m MaximumStripRows_def)
    also have "\<dots> \<le> uint (min 128 (u div ?r))"
    proof -
      have "(1::u64) \<le> min 128 (u div ?r)"
        using \<open>1 \<le> u div ?r\<close> by simp
      then have "1 \<le> uint (min 128 (u div ?r))" by (simp add: word_le_def)
      then show ?thesis by (simp add: clamp_def)
    qed
    also have "\<dots> \<le> uint u div (w * uint b)"
      by (simp add: min_def word_le_def q)
    finally show ?thesis .
  qed
  then have "boundedRowsForWidth w b u * (w * uint b) \<le> (uint u div (w * uint b)) * (w * uint b)"
    using pos by (simp add: mult_right_mono)
  also have "\<dots> \<le> uint u" using pos by (rule div_mult_le_pos)
  finally show ?thesis .
qed

section \<open>Checked 64-bit arithmetic\<close>

definition mul64 :: "u64 \<Rightarrow> u64 \<Rightarrow> u64 option" where
  "mul64 left right = (if right \<noteq> 0 \<and> left > (- 1) div right then None else Some (left * right))"

definition add64 :: "u64 \<Rightarrow> u64 \<Rightarrow> u64 option" where
  \<comment> \<open>\<open>add(value, &total)\<close>: the new total\<close>
  "add64 v t = (if t > - 1 - v then None else Some (t + v))"

lemma uint_max64: "uint (- 1 :: u64) = 2 ^ 64 - 1"
  by (simp add: unsigned_minus_1_eq_mask mask_eq_exp_minus_1)

lemma mul64_exact: "mul64 l r = (if uint l * uint r < 2 ^ 64 then Some (l * r) else None)"
proof (cases "r = 0")
  case False
  then have r: "0 < uint r" by (simp add: word_neq_0_conv word_less_def)
  have "l > (- 1) div r \<longleftrightarrow> (2 ^ 64 - 1) div uint r < uint l"
    by (simp only: word_less_def uint_div_distrib uint_max64)
  also have "\<dots> \<longleftrightarrow> \<not> uint l \<le> (2 ^ 64 - 1) div uint r" by linarith
  also have "uint l \<le> (2 ^ 64 - 1) div uint r \<longleftrightarrow> uint l * uint r \<le> 2 ^ 64 - 1"
    using r zdiv_mono1 [of "uint l * uint r" "2 ^ 64 - 1" "uint r"]
      div_mult_le_pos [OF r, of "2 ^ 64 - 1"]
    by (smt (verit, best) mult_right_mono nonzero_mult_div_cancel_right)
  finally show ?thesis using False by (auto simp: mul64_def)
qed (simp add: mul64_def)

lemma uint_mul64: "uint l * uint r < 2 ^ 64 \<Longrightarrow> uint (l * r :: u64) = uint l * uint r"
  by (simp add: uint_word_ariths mod_pos_pos_trivial)

lemma add64_exact: "add64 v t = (if uint t + uint v < 2 ^ 64 then Some (t + v) else None)"
proof -
  have "uint (- 1 - v) = 2 ^ 64 - 1 - uint v"
    using uint_lt2p [of v] uint_sub_lem [of v "- 1"] by (simp add: uint_max64)
  then show ?thesis by (auto simp: add64_def word_less_def)
qed

lemma uint_add64: "uint t + uint v < 2 ^ 64 \<Longrightarrow> uint (t + v :: u64) = uint t + uint v"
  by (simp add: uint_word_ariths mod_pos_pos_trivial)

section \<open>Storage preflight\<close>

datatype preflight_error =
    BadDimensions
  | EstimateOverflow
  | StorageUnavailable
  | NotEnoughStorage u64 u64 \<comment> \<open>required, available\<close>

record storage_job =
  job_width :: int
  job_height :: int
  source_width :: int
  source_height :: int
  job_logical :: int
  job_physical :: int
  includeFinalPrn :: bool
  includeAlphaCache :: bool
  externalPlateCaches :: int
  maskCacheBytes :: u64

definition requiredStorage :: "u64 \<Rightarrow> storage_job \<Rightarrow> u64 option" where
  \<comment> \<open>\<open>q\<close> is \<open>sizeof(Magick::Quantum)\<close>; \<open>None\<close> is \<open>overflow()\<close>\<close>
  "requiredStorage q J =
     (let width = cast64 (job_width J); height = cast64 (job_height J) in
      Option.bind (mul64 width height) (\<lambda>pixels.
      Option.bind (mul64 (cast64 (source_width J)) (cast64 (source_height J))) (\<lambda>sourcePixels.
      let unpaddedBytes = (width + 3) div 4;
          bytesPerLine = (unpaddedBytes + 3) AND NOT 3 in
      Option.bind (mul64 pixels 4) (\<lambda>canonical.
      Option.bind (mul64 pixels (5 * q)) (\<lambda>magickCache.
      let resizeRequired = (source_width J \<noteq> job_width J \<or> source_height J \<noteq> job_height J) in
      Option.bind (if resizeRequired then mul64 sourcePixels (29 * q) else Some 0) (\<lambda>resizeSourceCaches.
      Option.bind (mul64 bytesPerLine height) (\<lambda>spool.
      Option.bind (mul64 spool (cast64 (job_logical J))) (\<lambda>spool.
      Option.bind
        (if includeAlphaCache J
         then Option.bind (mul64 sourcePixels (1 + 5 * q)) (\<lambda>alphaCaches.
           if resizeRequired
           then Option.bind (mul64 pixels (5 * q)) (\<lambda>resizedAlpha. add64 resizedAlpha alphaCaches)
           else Some alphaCaches)
         else Some 0) (\<lambda>alphaCaches.
      Option.bind (mul64 pixels (5 * q * cast64 (clamp (externalPlateCaches J) 0 2))) (\<lambda>externalCaches.
      Option.bind
        (if includeFinalPrn J
         then Option.bind (mul64 bytesPerLine height) (\<lambda>prn. mul64 prn (cast64 (job_physical J)))
         else Some 0) (\<lambda>prn.
      Option.bind (add64 canonical 0) (\<lambda>base.
      Option.bind (add64 magickCache base) (\<lambda>base.
      Option.bind (add64 resizeSourceCaches base) (\<lambda>base.
      Option.bind (add64 alphaCaches base) (\<lambda>base.
      Option.bind (add64 externalCaches base) (\<lambda>base.
      Option.bind (add64 (maskCacheBytes J) base) (\<lambda>base.
      Option.bind (add64 spool base) (\<lambda>base.
      Option.bind (add64 prn base) (\<lambda>base.
      add64 (base div 5) base)))))))))))))))))))"

definition preflightStorage :: "u64 \<Rightarrow> u64 option \<Rightarrow> storage_job \<Rightarrow> preflight_error + unit" where
  \<comment> \<open>\<open>storage\<close> is what \<open>QStorageInfo\<close> reports for the scratch directory\<close>
  "preflightStorage q storage J =
     (if job_width J \<le> 0 \<or> job_height J \<le> 0 \<or> source_width J \<le> 0 \<or> source_height J \<le> 0 \<or>
         job_logical J \<le> 0 \<or> job_physical J \<le> 0 then Inl BadDimensions
      else case requiredStorage q J of
        None \<Rightarrow> Inl EstimateOverflow
      | Some required \<Rightarrow>
          (case storage of
             None \<Rightarrow> Inl StorageUnavailable
           | Some available \<Rightarrow>
               if available < required then Inl (NotEnoughStorage required available) else Inr ()))"

section \<open>The same estimate over the integers\<close>

definition exact_storage :: "int \<Rightarrow> storage_job \<Rightarrow> int" where
  "exact_storage q J =
     (let px = job_width J * job_height J; spx = source_width J * source_height J;
          resize = (source_width J \<noteq> job_width J \<or> source_height J \<noteq> job_height J);
          plane = line_bytes (job_width J) * job_height J;
          base = px * 4 + px * (5 * q) + (if resize then spx * (29 * q) else 0) +
            (if includeAlphaCache J
             then spx * (1 + 5 * q) + (if resize then px * (5 * q) else 0) else 0) +
            px * (5 * q * clamp (externalPlateCaches J) 0 2) + uint (maskCacheBytes J) +
            plane * job_logical J +
            (if includeFinalPrn J then plane * job_physical J else 0)
      in base + base div 5)"

definition checked64 :: "int \<Rightarrow> u64 option" where
  "checked64 n = (if n < 2 ^ 64 then Some (cast64 n) else None)"

lemma checked64_0 [simp]: "Some 0 = checked64 0"
  by (simp add: checked64_def)

lemma mul64_checked:
  "0 \<le> a \<Longrightarrow> a < 2 ^ 64 \<Longrightarrow> 0 \<le> b \<Longrightarrow> b < 2 ^ 64 \<Longrightarrow> mul64 (cast64 a) (cast64 b) = checked64 (a * b)"
  by (simp add: mul64_exact checked64_def uint_cast64)

lemma add64_checked:
  "0 \<le> a \<Longrightarrow> a < 2 ^ 64 \<Longrightarrow> 0 \<le> b \<Longrightarrow> b < 2 ^ 64 \<Longrightarrow> add64 (cast64 a) (cast64 b) = checked64 (b + a)"
  by (simp add: add64_exact checked64_def uint_cast64)

lemma bind_checked:
  assumes "r = checked64 n" and "n \<le> t"
    and "n < 2 ^ 64 \<Longrightarrow> f (cast64 n) = checked64 t"
  shows "Option.bind r f = checked64 t"
proof (cases "n < 2 ^ 64")
  case True
  then show ?thesis using assms by (simp add: checked64_def)
next
  case False
  then have "\<not> t < 2 ^ 64" using assms(2) by linarith
  with False show ?thesis using assms(1) by (simp add: checked64_def)
qed

lemma bind_add64:
  assumes "0 \<le> a" and "a < 2 ^ 64" and "0 \<le> b" and "b < 2 ^ 64" and "b + a \<le> t"
    and "b + a < 2 ^ 64 \<Longrightarrow> f (cast64 (b + a)) = checked64 t"
  shows "Option.bind (add64 (cast64 a) (cast64 b)) f = checked64 t"
  using assms(5,6) by (rule bind_checked [OF add64_checked [OF assms(1-4)]])

lemma bind_add64_0:
  assumes "0 \<le> a" and "a < 2 ^ 64" and "a \<le> t" and "f (cast64 a) = checked64 t"
  shows "Option.bind (add64 (cast64 a) 0) f = checked64 t"
  using bind_add64 [of a 0 t f] assms by simp

lemma line_bytes_word:
  assumes "0 \<le> w" and "w \<le> int_max"
  shows "((cast64 w + 3) div 4 + 3) AND NOT 3 = cast64 (line_bytes w)"
proof -
  have u: "uint (cast64 w + 3) = w + 3"
    using assms by (simp add: int_max_def uint_word_ariths uint_cast64)
  have "uint ((cast64 w + 3) div 4) = (w + 3) div 4" by (simp add: uint_div_distrib u)
  then have "(cast64 w + 3) div 4 = cast64 ((w + 3) div 4)" by (metis word_of_int_uint)
  then have "(cast64 w + 3) div 4 + 3 = cast64 ((w + 3) div 4 + 3)" by simp
  moreover have "cast64 (x AND NOT 3) = cast64 x AND NOT 3" for x
    by (rule bit_word_eqI) (simp add: bit_simps)
  ultimately show ?thesis by (simp add: line_bytes_def)
qed

definition storage_job_ok :: "storage_job \<Rightarrow> bool" where
  \<comment> \<open>the dimensions are positive C++ \<open>int\<close>s\<close>
  "storage_job_ok J \<longleftrightarrow>
     (\<forall>v \<in> {job_width J, job_height J, source_width J, source_height J, job_logical J, job_physical J}.
        0 < v \<and> v \<le> int_max)"

lemma requiredStorage_exact:
  assumes ok: "storage_job_ok J" and q: "1 \<le> uint q" "uint q \<le> 2 ^ 32"
  shows "requiredStorage q J = checked64 (exact_storage (uint q) J)"
proof -
  define Q where "Q = uint q"
  define w where "w = job_width J"
  define h where "h = job_height J"
  define sw where "sw = source_width J"
  define sh where "sh = source_height J"
  define lc where "lc = job_logical J"
  define pc where "pc = job_physical J"
  define c where "c = clamp (externalPlateCaches J) 0 2"
  define res where "res = (sw \<noteq> w \<or> sh \<noteq> h)"
  define L where "L = line_bytes w"
  define px where "px = w * h"
  define spx where "spx = sw * sh"
  note names = w_def [symmetric] h_def [symmetric] sw_def [symmetric] sh_def [symmetric]
    lc_def [symmetric] pc_def [symmetric] c_def [symmetric] res_def [symmetric]
  have pos: "0 < w" "w \<le> int_max" "0 < h" "h \<le> int_max" "0 < sw" "sw \<le> int_max"
    "0 < sh" "sh \<le> int_max" "0 < lc" "lc \<le> int_max" "0 < pc" "pc \<le> int_max"
    using ok by (auto simp: storage_job_ok_def w_def h_def sw_def sh_def lc_def pc_def)
  have small: "v < 2 ^ 64" if "v \<le> int_max" for v using that by (simp add: int_max_def)
  have Q: "1 \<le> Q" "Q \<le> 2 ^ 32" and qw: "q = cast64 Q" using q by (simp_all add: Q_def)
  have c: "0 \<le> c" "c \<le> 2" unfolding c_def by (rule clamp_ge, simp, rule clamp_le, simp)
  have L0: "0 < L" unfolding L_def by (rule line_bytes_nonneg) (rule pos(1))
  have L1: "L < 2 ^ 64"
  proof -
    have "L \<le> w + 6" unfolding L_def line_bytes_def and_not_3_int using pos(1) by linarith
    then show ?thesis using pos(2) by (simp add: int_max_def)
  qed
  have nn: "0 \<le> px" "0 \<le> spx" "0 \<le> L * h" using pos L0 by (simp_all add: px_def spx_def)
  have cQ: "5 * Q * c \<le> 10 * 2 ^ 32"
    using mult_mono [of "5 * Q" "5 * 2 ^ 32" c 2] Q c by simp
  have lits: "4 = cast64 4" "5 * q = cast64 (5 * Q)" "29 * q = cast64 (29 * Q)"
    "1 + 5 * q = cast64 (1 + 5 * Q)" "5 * q * cast64 c = cast64 (5 * Q * c)"
    by (simp_all add: qw)
  have Lw: "((cast64 w + 3) div 4 + 3) AND NOT 3 = cast64 L"
    unfolding L_def using pos by (intro line_bytes_word) auto
  define A where "A = px * 4"
  define B where "B = px * (5 * Q)"
  define C where "C = (if res then spx * (29 * Q) else 0)"
  define D1 where "D1 = spx * (1 + 5 * Q)"
  define D2 where "D2 = (if res then B else 0)"
  define D where "D = (if includeAlphaCache J then D1 + D2 else 0)"
  define E where "E = px * (5 * Q * c)"
  define M where "M = uint (maskCacheBytes J)"
  define S where "S = L * h * lc"
  define P where "P = (if includeFinalPrn J then L * h * pc else 0)"
  define base where "base = A + B + C + D + E + M + S + P"
  have parts: "0 \<le> A" "0 \<le> B" "0 \<le> C" "0 \<le> D1" "0 \<le> D2" "0 \<le> D" "0 \<le> E" "0 \<le> M" "0 \<le> S" "0 \<le> P"
    using nn Q c pos by (simp_all add: A_def B_def C_def D1_def D2_def D_def E_def M_def S_def P_def)
  have T: "exact_storage (uint q) J = base + base div 5"
    unfolding exact_storage_def Let_def names Q_def [symmetric]
    unfolding base_def A_def B_def C_def D_def D1_def D2_def E_def M_def S_def P_def px_def spx_def L_def
    by simp
  have bT: "base \<le> base + base div 5" using parts by (simp add: base_def pos_imp_zdiv_nonneg_iff)
  have pxT: "px \<le> A" "L * h \<le> S" "spx \<le> D1" "includeFinalPrn J \<Longrightarrow> L * h \<le> P"
    using nn pos Q by (simp_all add: A_def S_def D1_def P_def mult_le_cancel_left1 distrib_left)
  have spxT: "spx \<le> base"
  proof (cases res)
    case True
    then have "spx \<le> C" using nn Q by (simp add: C_def mult_le_cancel_left1)
    then show ?thesis using parts by (simp add: base_def)
  next
    case False
    then have "spx = px" by (simp add: res_def px_def spx_def)
    then show ?thesis using parts pxT by (simp add: base_def)
  qed
  have f1: "mul64 (cast64 w) (cast64 h) = checked64 px"
    unfolding px_def using pos small by (intro mul64_checked) auto
  have f2: "mul64 (cast64 sw) (cast64 sh) = checked64 spx"
    unfolding spx_def using pos small by (intro mul64_checked) auto
  have f3: "mul64 (cast64 px) 4 = checked64 A" if "px < 2 ^ 64"
    unfolding A_def lits(1) using nn that by (intro mul64_checked) auto
  have f4: "mul64 (cast64 px) (5 * q) = checked64 B" if "px < 2 ^ 64"
    unfolding B_def lits using nn that Q by (intro mul64_checked) auto
  have f5: "(if res then mul64 (cast64 spx) (29 * q) else Some 0) = checked64 C" if "spx < 2 ^ 64"
    unfolding C_def lits using nn that Q mul64_checked [of spx "29 * Q"] by simp
  have f6: "mul64 (cast64 L) (cast64 h) = checked64 (L * h)"
    using pos small L0 L1 by (intro mul64_checked) auto
  have f7: "mul64 (cast64 (L * h)) (cast64 lc) = checked64 S" if "L * h < 2 ^ 64"
    unfolding S_def using pos small nn that by (intro mul64_checked) auto
  have f8: "(if includeAlphaCache J
      then Option.bind (mul64 (cast64 spx) (1 + 5 * q)) (\<lambda>a.
        if res then Option.bind (mul64 (cast64 px) (5 * q)) (\<lambda>r. add64 r a) else Some a)
      else Some 0) = checked64 D" if sp: "spx < 2 ^ 64" and p: "px < 2 ^ 64"
  proof -
    have "mul64 (cast64 spx) (1 + 5 * q) = checked64 D1"
      unfolding D1_def lits(4) using nn sp Q by (intro mul64_checked) auto
    moreover have "(if res then Option.bind (mul64 (cast64 px) (5 * q)) (\<lambda>r. add64 r (cast64 D1))
        else Some (cast64 D1)) = checked64 (D1 + D2)" if d: "D1 < 2 ^ 64"
    proof (cases res)
      case True
      then have "D2 = B" by (simp add: D2_def)
      have "Option.bind (mul64 (cast64 px) (5 * q)) (\<lambda>r. add64 r (cast64 D1)) = checked64 (D1 + B)"
        by (rule bind_checked [OF f4 [OF p]]) (use parts d in \<open>auto intro: add64_checked\<close>)
      with True \<open>D2 = B\<close> show ?thesis by simp
    next
      case False
      then show ?thesis using d by (simp add: D2_def checked64_def)
    qed
    ultimately have "Option.bind (mul64 (cast64 spx) (1 + 5 * q)) (\<lambda>a.
        if res then Option.bind (mul64 (cast64 px) (5 * q)) (\<lambda>r. add64 r a) else Some a) =
        checked64 (D1 + D2)"
      using parts by (intro bind_checked) auto
    then show ?thesis by (simp add: D_def)
  qed
  have f9: "mul64 (cast64 px) (5 * q * cast64 c) = checked64 E" if "px < 2 ^ 64"
    unfolding E_def lits(5) using nn that Q c cQ by (intro mul64_checked) auto
  have f10: "(if includeFinalPrn J
      then Option.bind (mul64 (cast64 L) (cast64 h)) (\<lambda>p. mul64 p (cast64 pc))
      else Some 0) = checked64 P"
  proof (cases "includeFinalPrn J")
    case True
    then have "mul64 (cast64 (L * h)) (cast64 pc) = checked64 P" if "L * h < 2 ^ 64"
      using mul64_checked [of "L * h" pc] that nn pos small by (simp only: P_def if_True)
    then have "Option.bind (mul64 (cast64 L) (cast64 h)) (\<lambda>p. mul64 p (cast64 pc)) = checked64 P"
      by (rule bind_checked [OF f6 pxT(4) [OF True]])
    with True show ?thesis by simp
  qed (simp add: P_def)
  have f11: "cast64 b div 5 = cast64 (b div 5)" if "0 \<le> b" "b < 2 ^ 64" for b
  proof -
    have "uint (cast64 b div 5) = b div 5"
      using that by (simp add: uint_div_distrib uint_cast64)
    then show ?thesis by (metis word_of_int_uint)
  qed
  define T where "T = base + base div 5"
  have bs: "base \<le> T" "base = A + B + C + D + E + M + S + P" using bT by (simp_all add: T_def base_def)
  have mw: "maskCacheBytes J = cast64 M" by (simp add: M_def)
  have M64: "M < 2 ^ 64" unfolding M_def using uint_lt2p [of "maskCacheBytes J"] by simp
  note go = bind_checked [where t = T]
  show ?thesis
    unfolding T T_def [symmetric] requiredStorage_def Let_def names Lw mw
    apply (rule go [OF f1], insert bs M64 parts pxT spxT, linarith)
    apply (rule go [OF f2], linarith)
    apply (rule go [OF f3], assumption, linarith)
    apply (rule go [OF f4], assumption, linarith)
    apply (rule go [OF f5], assumption, linarith)
    apply (rule go [OF f6], linarith)
    apply (rule go [OF f7], assumption, linarith)
    apply (rule go [OF f8], assumption, assumption, linarith)
    apply (rule go [OF f9], assumption, linarith)
    apply (rule go [OF f10], linarith)
    apply (rule bind_add64_0, assumption, assumption, linarith)
    apply (rule bind_add64, assumption, assumption, assumption, assumption, linarith)
    apply (rule bind_add64, assumption, assumption, linarith, assumption, linarith)
    apply (rule bind_add64, assumption, assumption, linarith, assumption, linarith)
    apply (rule bind_add64, assumption, assumption, linarith, assumption, linarith)
    apply (rule bind_add64, assumption, assumption, linarith, assumption, linarith)
    apply (rule bind_add64, assumption, assumption, linarith, assumption, linarith)
    apply (rule bind_add64, assumption, assumption, linarith, assumption, linarith)
    apply (subst f11, linarith, assumption)
    apply (subst add64_checked, simp, linarith, linarith, assumption)
    apply (simp add: T_def)
    done
qed

lemma preflightStorage_iff_exact:
  assumes "storage_job_ok J" and "1 \<le> uint q" and "uint q \<le> 2 ^ 32"
  shows "preflightStorage q (Some available) J = Inr () \<longleftrightarrow> exact_storage (uint q) J \<le> uint available"
proof -
  have nn: "0 \<le> exact_storage (uint q) J"
  proof -
    have "0 \<le> line_bytes (job_width J)"
      using assms(1) line_bytes_nonneg [of "job_width J"] by (simp add: storage_job_ok_def)
    moreover have "0 \<le> clamp (externalPlateCaches J) 0 2" by (rule clamp_ge) simp
    ultimately show ?thesis
      using assms(1) unfolding exact_storage_def Let_def storage_job_ok_def
      by (auto intro!: add_nonneg_nonneg simp: pos_imp_zdiv_nonneg_iff)
  qed
  have dims: "\<not> (job_width J \<le> 0 \<or> job_height J \<le> 0 \<or> source_width J \<le> 0 \<or> source_height J \<le> 0 \<or>
      job_logical J \<le> 0 \<or> job_physical J \<le> 0)"
    using assms(1) by (auto simp: storage_job_ok_def)
  show ?thesis
  proof (cases "exact_storage (uint q) J < 2 ^ 64")
    case True
    then show ?thesis
      using requiredStorage_exact [OF assms] dims nn
      by (auto simp: preflightStorage_def checked64_def word_less_def uint_cast64 simp del: word_less_no)
  next
    case False
    then have "\<not> exact_storage (uint q) J \<le> uint available"
      using uint_lt2p [of available] by simp
    with False show ?thesis
      using requiredStorage_exact [OF assms] dims
      by (simp add: preflightStorage_def checked64_def)
  qed
qed

section \<open>Blue-noise mask caches\<close>

datatype mask_estimate_error =
    MaskInspectFailed string
  | MaskDimensionsInvalid string
  | MaskEstimateOverflow
  | NoMasks

definition mask_estimate_step ::
  "u64 \<Rightarrow> (string \<Rightarrow> (u64 \<times> u64) option) \<Rightarrow> string \<Rightarrow> string list \<times> u64 \<Rightarrow>
   mask_estimate_error + (string list \<times> u64)" where
  "mask_estimate_step q ping path st =
     (let (uniquePaths, bytes) = st; cacheChannels = 5 in
      if path = [] \<or> path \<in> set uniquePaths then Inr st
      else case ping path of
        None \<Rightarrow> Inl (MaskInspectFailed path)
      | Some (width, height) \<Rightarrow>
          if width = 0 \<or> height = 0 \<or> width > - 1 div height \<or>
             width * height > - 1 div (cacheChannels * q)
          then Inl (MaskDimensionsInvalid path)
          else let cacheBytes = width * height * cacheChannels * q in
            if bytes > - 1 - cacheBytes then Inl MaskEstimateOverflow
            else Inr (path # uniquePaths, bytes + cacheBytes))"

definition estimateMaskCacheStorage ::
  "u64 \<Rightarrow> (string \<Rightarrow> (u64 \<times> u64) option) \<Rightarrow> string list \<Rightarrow> mask_estimate_error + u64" where
  "estimateMaskCacheStorage q ping maskPaths =
     bind_res (fold_res (mask_estimate_step q ping) maskPaths ([], 0))
       (\<lambda>(uniquePaths, bytes). if uniquePaths = [] then Inl NoMasks else Inr bytes)"

definition mask_cache_bytes :: "int \<Rightarrow> (string \<Rightarrow> (u64 \<times> u64) option) \<Rightarrow> string \<Rightarrow> int" where
  "mask_cache_bytes q ping path =
     (case ping path of None \<Rightarrow> 0 | Some (w, h) \<Rightarrow> uint w * uint h * 5 * q)"

lemma gt_div_max: "0 < uint r \<Longrightarrow> (l > (- 1 :: u64) div r) = (\<not> uint l * uint r < 2 ^ 64)"
  using mul64_exact [of l r] by (auto simp: mul64_def word_neq_0_conv word_less_def split: if_splits)

lemma mask_estimate_step_sum:
  assumes "mask_estimate_step q ping path (us, b) = Inr (us', b')"
    and "0 < uint q" and "uint q \<le> 2 ^ 32"
    and "distinct us" and "[] \<notin> set us" and "uint b = (\<Sum>p\<leftarrow>us. mask_cache_bytes (uint q) ping p)"
  shows "distinct us' \<and> set us' = insert path (set us) - {[]} \<and>
    uint b' = (\<Sum>p\<leftarrow>us'. mask_cache_bytes (uint q) ping p)"
proof (cases "path = [] \<or> path \<in> set us")
  case True
  then show ?thesis using assms by (auto simp: mask_estimate_step_def)
next
  case False
  with assms(1) obtain w h where p: "ping path = Some (w, h)"
    by (auto simp: mask_estimate_step_def split: option.splits)
  let ?c = "w * h * 5 * q"
  have ok: "w \<noteq> 0" "h \<noteq> 0" "\<not> w > - 1 div h" "\<not> w * h > - 1 div (5 * q)" "\<not> b > - 1 - ?c"
    and out: "us' = path # us" "b' = b + ?c"
    using False p assms(1) by (auto simp: mask_estimate_step_def Let_def split: if_splits)
  have h0: "0 < uint h" using ok(2) by (simp add: word_neq_0_conv word_less_def)
  have q5: "uint (5 * q) = 5 * uint q" using assms(2,3) by (simp add: uint_word_ariths)
  have wh: "uint (w * h) = uint w * uint h"
    using ok(3) gt_div_max [OF h0] by (intro uint_mul64) blast
  have "uint (w * h * (5 * q)) = uint w * uint h * (5 * uint q)"
    using ok(4) gt_div_max [of "5 * q" "w * h"] assms(2) q5 wh
    by (subst uint_mul64) auto
  then have c: "uint ?c = mask_cache_bytes (uint q) ping path"
    by (simp add: mask_cache_bytes_def p ac_simps)
  have "uint b' = uint b + uint ?c"
    using ok(5) add64_exact [of ?c b] unfolding out
    by (intro uint_add64) (auto simp: add64_def split: if_splits)
  then show ?thesis using False assms(4-6) c out by auto
qed

lemma estimateMaskCacheStorage_sum:
  assumes r: "estimateMaskCacheStorage q ping paths = Inr b"
    and q: "0 < uint q" "uint q \<le> 2 ^ 32"
  shows "uint b = (\<Sum>p \<in> set paths - {[]}. mask_cache_bytes (uint q) ping p)"
proof -
  from r obtain us where f: "fold_res (mask_estimate_step q ping) paths ([], 0) = Inr (us, b)"
    by (auto simp: estimateMaskCacheStorage_def bind_res_eq_Inr split: if_splits)
  have "\<lbrakk>fold_res (mask_estimate_step q ping) ps (us0, b0) = Inr (us, b); distinct us0; [] \<notin> set us0;
      uint b0 = (\<Sum>p\<leftarrow>us0. mask_cache_bytes (uint q) ping p)\<rbrakk> \<Longrightarrow>
      distinct us \<and> set us = (set us0 \<union> set ps) - {[]} \<and>
      uint b = (\<Sum>p\<leftarrow>us. mask_cache_bytes (uint q) ping p)" for ps us0 b0
  proof (induction ps arbitrary: us0 b0)
    case (Cons p ps)
    then obtain u1 b1 where s: "mask_estimate_step q ping p (us0, b0) = Inr (u1, b1)"
      and rest: "fold_res (mask_estimate_step q ping) ps (u1, b1) = Inr (us, b)"
      by (auto simp: bind_res_eq_Inr)
    show ?case
      using Cons.IH [OF rest] mask_estimate_step_sum [OF s q Cons.prems(2-4)] by auto
  qed auto
  from this [OF f] show ?thesis
    by (simp add: sum_list_distinct_conv_sum_set)
qed

section \<open>Which strategy\<close>

datatype raster_strategy = InMemory | Bounded

record raster_decision =
  strategy :: raster_strategy
  estimatedNativeBytes :: u64
  nativeLimitBytes :: u64

definition selectRasterStrategy :: "string \<Rightarrow> int \<Rightarrow> int \<Rightarrow> int \<Rightarrow> bool \<Rightarrow> raster_decision" where
  \<comment> \<open>\<open>forced\<close> is the trimmed lower-case \<open>PRINTFLOW_FORCE_RASTER_STRATEGY\<close>\<close>
  "selectRasterStrategy forced width height logicalChannels multiInk =
     (let decision = \<lparr>strategy = Bounded, estimatedNativeBytes = 0,
                      nativeLimitBytes = InMemoryRasterBudget\<rparr> in
      if width \<le> 0 \<or> height \<le> 0 \<or> logicalChannels \<le> 0 then decision
      else let pixels = cast64 width * cast64 height in
      if pixels > cast64 int_max then decision
      else let
        bytesPerPixel = (if multiInk then 24 + 2 * cast64 logicalChannels
                         else 16 + (cast64 logicalChannels + 3) div 4);
        fixedOverhead = 8 * MiB
      in if pixels > (- 1 - fixedOverhead) div bytesPerPixel then decision
      else let
        decision = decision\<lparr>estimatedNativeBytes := pixels * bytesPerPixel + fixedOverhead\<rparr>
      in if forced = ''bounded'' then decision
      else if forced = ''memory'' \<or> estimatedNativeBytes decision \<le> nativeLimitBytes decision
      then decision\<lparr>strategy := InMemory\<rparr>
      else decision)"

lemma selectRasterStrategy_pixels:
  assumes "strategy (selectRasterStrategy forced w h n mi) = InMemory"
    and "w \<le> int_max" and "h \<le> int_max"
  shows "0 < w \<and> 0 < h \<and> 0 < n \<and> w * h \<le> int_max"
proof -
  have pos: "0 < w" "0 < h" "0 < n" and le: "\<not> cast64 w * cast64 h > cast64 int_max"
    using assms(1) by (auto simp: selectRasterStrategy_def Let_def split: if_splits)
  have small: "w < 2 ^ 64" "h < 2 ^ 64" using assms by (simp_all add: int_max_def)
  have "w * h \<le> int_max * int_max" using assms pos by (intro mult_mono) auto
  then have "w * h < 2 ^ 64" by (simp add: int_max_def)
  then have "uint (cast64 w * cast64 h) = w * h"
    using pos small by (simp add: uint_mul64 uint_cast64)
  moreover have "uint (cast64 int_max) = int_max" by (simp add: int_max_def)
  ultimately show ?thesis using le pos by (simp add: word_less_def)
qed

end
