(* ===== verification/Spool_Laws.thy ===== *)
theory Spool_Laws
  imports Raster_Spool Raster_Budget
begin

text \<open>
  What the raster spool promises: the header round trip, the layout that valid metadata
  describes (no 64-bit sum wraps), where a line lives, and that a finalized file holds
  exactly the lines that were written, in channel-major order, whatever the order of the
  writes. The lemmas about files are proved once for any disk that obeys \<open>disk_laws\<close>.
\<close>

section \<open>Valid metadata\<close>

definition spool_typed :: "spool \<Rightarrow> bool" where
  \<comment> \<open>the fields are values of their C++ types\<close>
  "spool_typed sp \<longleftrightarrow>
     fits_int (sp_width sp) \<and> fits_int (sp_height sp) \<and> fits_int (sp_xdpi sp) \<and> fits_int (sp_ydpi sp) \<and>
     fits_int (sp_lineBytes sp) \<and> fits_int (sp_logical sp) \<and>
     length (sp_header sp) = 12 \<and> (\<forall>c \<in> set (sp_order sp). fits_int c)"

definition body_size :: "spool \<Rightarrow> nat" where
  "body_size sp = nat (sp_logical sp * sp_height sp) * nat (sp_lineBytes sp)"

lemma valid_fields:
  assumes "metadataIsValid sp = Inr ()"
  shows "0 < sp_width sp" "0 < sp_height sp" "0 < sp_xdpi sp" "0 < sp_ydpi sp" "0 < sp_lineBytes sp"
    "0 < sp_logical sp" "sp_logical sp \<le> 16" "sp_order sp \<noteq> []" "length (sp_order sp) \<le> 16"
    "\<forall>c \<in> set (sp_order sp). 0 \<le> c \<and> c < sp_logical sp"
    "((cast64 (sp_width sp) + 3) div 4 + 3) AND NOT 3 = cast64 (sp_lineBytes sp)"
    "cast64 (sp_logical sp) * cast64 (sp_height sp) \<le> cast64 int_max"
    "sp_bodyBytes sp = 0 \<or> sp_bodyBytes sp = expectedBodyBytes sp"
  using assms by (auto simp: metadataIsValid_def Let_def not_le not_less split: if_splits)

lemma valid_layout:
  assumes v: "metadataIsValid sp = Inr ()" and t: "spool_typed sp"
  shows "sp_lineBytes sp = line_bytes (sp_width sp)"
    and "sp_logical sp * sp_height sp \<le> int_max"
    and "unat (expectedBodyBytes sp) = body_size sp"
    and "int (body_size sp) < 2 ^ 62"
proof -
  note f = valid_fields [OF v]
  have w: "sp_width sp \<le> int_max" "sp_height sp \<le> int_max" "sp_lineBytes sp \<le> int_max" "sp_logical sp \<le> int_max"
    using t by (auto simp: spool_typed_def fits_int_def)
  have "cast64 (line_bytes (sp_width sp)) = cast64 (sp_lineBytes sp)"
    using f(11) line_bytes_word [of "sp_width sp"] f(1) w(1) by simp
  moreover have "0 \<le> line_bytes (sp_width sp)" "line_bytes (sp_width sp) < 2 ^ 64"
  proof -
    show "0 \<le> line_bytes (sp_width sp)" using line_bytes_nonneg [OF f(1)] by simp
    have "line_bytes (sp_width sp) \<le> sp_width sp + 6"
      unfolding line_bytes_def and_not_3_int using f(1) by linarith
    then show "line_bytes (sp_width sp) < 2 ^ 64" using w(1) by (simp add: int_max_def)
  qed
  moreover have "0 \<le> sp_lineBytes sp" "sp_lineBytes sp < 2 ^ 64"
    using f(5) w(3) by (simp_all add: int_max_def)
  ultimately show lb: "sp_lineBytes sp = line_bytes (sp_width sp)" by (metis uint_cast64)
  have u: "uint (cast64 (sp_logical sp)) = sp_logical sp" "uint (cast64 (sp_height sp)) = sp_height sp"
    "uint (cast64 (sp_lineBytes sp)) = sp_lineBytes sp"
    using f w by (auto intro!: uint_cast64 simp: int_max_def)
  have "sp_logical sp * sp_height sp \<le> 16 * int_max"
    using f w by (intro mult_mono) auto
  then have lines: "uint (cast64 (sp_logical sp) * cast64 (sp_height sp)) = sp_logical sp * sp_height sp"
    by (subst uint_mul64) (simp_all add: u int_max_def)
  then show le: "sp_logical sp * sp_height sp \<le> int_max"
    using f(12) by (simp add: word_le_def int_max_def)
  have nn: "0 \<le> sp_logical sp * sp_height sp" using f by simp
  have prod: "sp_logical sp * sp_height sp * sp_lineBytes sp \<le> int_max * int_max"
    using le w(3) f(5) by (intro mult_mono) (auto simp: int_max_def)
  then have small: "sp_logical sp * sp_height sp * sp_lineBytes sp < 2 ^ 64" by (simp add: int_max_def)
  have "0 < uint (cast64 (sp_lineBytes sp))" using u(3) f(5) by simp
  then have no: "\<not> cast64 (sp_logical sp) * cast64 (sp_height sp) > - 1 div cast64 (sp_lineBytes sp)"
    using gt_div_max [of "cast64 (sp_lineBytes sp)" "cast64 (sp_logical sp) * cast64 (sp_height sp)"] lines u(3) small
    by simp
  have "uint (expectedBodyBytes sp) = sp_logical sp * sp_height sp * sp_lineBytes sp"
    using f(2,5,6) no small lines u(3) by (simp add: expectedBodyBytes_def Let_def uint_mul64)
  moreover have "int (body_size sp) = sp_logical sp * sp_height sp * sp_lineBytes sp"
    using nn f(5) by (simp add: body_size_def)
  ultimately show "unat (expectedBodyBytes sp) = body_size sp" and "int (body_size sp) < 2 ^ 62"
    using prod by (simp_all add: unat_eq_nat_uint int_max_def) 
qed

section \<open>The header round trip\<close>

definition with_disk_fields :: "spool \<Rightarrow> string \<Rightarrow> bytes \<Rightarrow> spool" where
  "with_disk_fields sp path checksum =
     sp\<lparr>sp_path := path, sp_bodyOffset := HeaderBytes, sp_sha256 := checksum\<rparr>"

lemma metadataIsValid_disk_fields [simp]:
  "metadataIsValid (with_disk_fields sp path checksum) = metadataIsValid sp"
  by (simp add: metadataIsValid_def expectedBodyBytes_def with_disk_fields_def Let_def)

lemma expectedBodyBytes_fields [simp]:
  "expectedBodyBytes (sp\<lparr>sp_path := p\<rparr>) = expectedBodyBytes sp"
  "expectedBodyBytes (sp\<lparr>sp_bodyOffset := o'\<rparr>) = expectedBodyBytes sp"
  "expectedBodyBytes (sp\<lparr>sp_bodyBytes := n\<rparr>) = expectedBodyBytes sp"
  "expectedBodyBytes (sp\<lparr>sp_sha256 := c\<rparr>) = expectedBodyBytes sp"
  by (simp_all add: expectedBodyBytes_def Let_def)

lemma spool_typed_disk_fields [simp]: "spool_typed (with_disk_fields sp path checksum) = spool_typed sp"
  by (simp add: spool_typed_def with_disk_fields_def)

context datastream_laws
begin

lemma length_concat_put32 [simp]: "length (concat (map (put32 S) xs)) = 4 * length xs"
  by (induction xs) simp_all

lemma length_concat_putI32 [simp]: "length (concat (map (putI32 S) xs)) = 4 * length xs"
  by (induction xs) simp_all

lemma get_many_32: "length xs = n \<Longrightarrow> get_many (get32 S) n (concat (map (put32 S) xs) @ r) = Some (xs, r)"
  using get_many_put [of xs "get32 S" "put32 S" r] by simp

lemma get_many_I32:
  "length xs = n \<Longrightarrow> \<forall>x \<in> set xs. fits_int x \<Longrightarrow>
   get_many (getI32 S) n (concat (map (putI32 S) xs) @ r) = Some (xs, r)"
  using get_many_put [of xs "getI32 S" "putI32 S" r] by simp

lemma encodeHeader_size:
  assumes "length (sp_header sp) = 12" and "length (sp_order sp) \<le> 16" and "length checksum \<le> 32"
  shows "length (encodeHeader S sp checksum) = 4096"
  using assms by (simp add: encodeHeader_def Let_def HeaderBytes_def)

lemma decode_encode:
  assumes v: "metadataIsValid sp = Inr ()" and t: "spool_typed sp" and c: "length checksum \<le> 32"
  shows "decodeHeader S (encodeHeader S sp checksum) path = Inr (with_disk_fields sp path checksum)"
proof -
  note f = valid_fields [OF v]
  have t': "fits_int (sp_width sp)" "fits_int (sp_height sp)" "fits_int (sp_xdpi sp)" "fits_int (sp_ydpi sp)"
    "fits_int (sp_lineBytes sp)" "fits_int (sp_logical sp)" "length (sp_header sp) = 12"
    "\<forall>c \<in> set (sp_order sp). fits_int c"
    using t by (auto simp: spool_typed_def)
  have n: "fits_int (int (length (sp_order sp)))" using f(9) by (simp add: fits_int_def int_max_def int_min_def)
  have pos: "0 < length (sp_order sp)" using f(8) by simp
  define tail where "tail k = replicate k (0 :: u8)" for k :: nat
  have "\<exists>k. encodeHeader S sp checksum =
      put32 S Magic @ put16 S Version @ put64 S HeaderBytes @
      putI32 S (sp_width sp) @ putI32 S (sp_height sp) @ putI32 S (sp_xdpi sp) @ putI32 S (sp_ydpi sp) @
      putI32 S (sp_lineBytes sp) @ put8 S (sp_format sp) @ putI32 S (sp_logical sp) @ put64 S (sp_bodyBytes sp) @
      putBytes S checksum @ concat (map (put32 S) (sp_header sp)) @
      putI32 S (int (length (sp_order sp))) @ concat (map (putI32 S) (sp_order sp)) @ tail k"
    using f(9) t'(7) c by (auto simp: encodeHeader_def Let_def HeaderBytes_def resized_def tail_def)
  then obtain k where e: "encodeHeader S sp checksum =
      put32 S Magic @ put16 S Version @ put64 S HeaderBytes @
      putI32 S (sp_width sp) @ putI32 S (sp_height sp) @ putI32 S (sp_xdpi sp) @ putI32 S (sp_ydpi sp) @
      putI32 S (sp_lineBytes sp) @ put8 S (sp_format sp) @ putI32 S (sp_logical sp) @ put64 S (sp_bodyBytes sp) @
      putBytes S checksum @ concat (map (put32 S) (sp_header sp)) @
      putI32 S (int (length (sp_order sp))) @ concat (map (putI32 S) (sp_order sp)) @ tail k" by blast
  have rf: "read_fields S (encodeHeader S sp checksum) path =
      Some (Magic, Version, HeaderBytes, with_disk_fields sp path checksum)"
    unfolding e read_fields_def
    using t' n f(9) pos c by (simp add: get_many_32 get_many_I32 with_disk_fields_def)
  have "length (encodeHeader S sp checksum) = unat HeaderBytes"
    using encodeHeader_size [OF t'(7) f(9) c] by (simp add: HeaderBytes_def)
  then show ?thesis by (simp add: decodeHeader_def rf v)
qed

end

section \<open>Lines in the file\<close>

definition line_count :: "spool \<Rightarrow> nat" where
  "line_count m = nat (sp_logical m * sp_height m)"

definition line_index :: "spool \<Rightarrow> int \<Rightarrow> int \<Rightarrow> nat" where
  "line_index m ch row = nat (ch * sp_height m + row)"

definition file_line :: "spool \<Rightarrow> bytes \<Rightarrow> nat \<Rightarrow> bytes" where
  "file_line m b k = take (nat (sp_lineBytes m)) (drop (4096 + k * nat (sp_lineBytes m)) b)"

definition spool_file :: "spool \<Rightarrow> bytes \<Rightarrow> bool" where
  \<comment> \<open>\<open>b\<close> is a file of the size the valid metadata \<open>m\<close> describe\<close>
  "spool_file m b \<longleftrightarrow>
     metadataIsValid m = Inr () \<and> spool_typed m \<and> sp_bodyBytes m = expectedBodyBytes m \<and>
     length b = 4096 + body_size m"

lemma spool_file_disk_fields: "spool_file (with_disk_fields m path checksum) b = spool_file m b"
proof -
  have "sp_bodyBytes (with_disk_fields m path checksum) = sp_bodyBytes m"
    "expectedBodyBytes (with_disk_fields m path checksum) = expectedBodyBytes m"
    "body_size (with_disk_fields m path checksum) = body_size m"
    by (simp_all add: with_disk_fields_def body_size_def)
  then show ?thesis by (simp add: spool_file_def)
qed

lemma line_index_less:
  assumes "0 \<le> ch" "ch < sp_logical m" "0 \<le> row" "row < sp_height m"
  shows "line_index m ch row < line_count m"
proof -
  have "(ch + 1) * sp_height m \<le> sp_logical m * sp_height m"
    using assms by (intro mult_right_mono) auto
  then have "ch * sp_height m + row < sp_logical m * sp_height m"
    using assms(4) by (simp add: distrib_right)
  moreover have "0 \<le> ch * sp_height m + row" using assms by simp
  ultimately show ?thesis by (simp add: line_index_def line_count_def)
qed

lemma line_end: "k < line_count m \<Longrightarrow> 4096 + k * nat (sp_lineBytes m) + nat (sp_lineBytes m) \<le> 4096 + body_size m"
proof -
  assume "k < line_count m"
  then have "Suc k * nat (sp_lineBytes m) \<le> line_count m * nat (sp_lineBytes m)"
    by (intro mult_le_mono1) simp
  then show ?thesis by (simp add: body_size_def line_count_def)
qed

lemma lineOffset_exact:
  assumes v: "metadataIsValid m = Inr ()" "spool_typed m"
    and r: "0 \<le> ch" "ch < sp_logical m" "0 \<le> row" "row < sp_height m"
  shows "unat (lineOffset m HeaderBytes ch row) = 4096 + line_index m ch row * nat (sp_lineBytes m)"
proof -
  define i where "i = ch * sp_height m + row"
  define B where "B = sp_lineBytes m"
  note f = valid_fields [OF v(1)]
  have i: "0 \<le> i" "line_index m ch row = nat i" using r by (simp_all add: line_index_def i_def)
  have B: "0 < B" "B \<le> int_max" using v(2) f(5) by (auto simp: spool_typed_def fits_int_def B_def)
  have "nat i < nat (sp_logical m * sp_height m)"
    using line_index_less [OF r] i(2) by (simp add: line_count_def)
  then have ilt: "i \<le> int_max" using valid_layout(2) [OF v] i(1) by linarith
  have nn: "0 \<le> i * B" using i(1) B(1) by simp
  have "i * B \<le> int_max * int_max" using ilt B i(1) by (intro mult_mono) (auto simp: int_max_def)
  then have s: "4096 + i * B < 2 ^ 64" by (simp add: int_max_def)
  have off: "lineOffset m HeaderBytes ch row = cast64 (4096 + i * B)"
    by (simp add: lineOffset_def HeaderBytes_def i_def B_def)
  have "uint (cast64 (4096 + i * B)) = 4096 + i * B" using s nn by (intro uint_cast64) linarith+
  then have "unat (lineOffset m HeaderBytes ch row) = nat (4096 + i * B)"
    by (simp only: off unat_eq_nat_uint)
  also have "\<dots> = 4096 + nat (i * B)" using nn by (simp add: nat_add_distrib)
  also have "nat (i * B) = nat i * nat B" using i(1) by (rule nat_mult_distrib)
  finally show ?thesis by (simp add: i(2) B_def)
qed

lemma file_line_overwrite:
  assumes b: "spool_file m b" and k: "k < line_count m" and d: "length data = nat (sp_lineBytes m)"
  defines "b' \<equiv> overwrite b (4096 + k * nat (sp_lineBytes m)) data"
  shows "spool_file m b'" and "file_line m b' k = data"
    and "j < line_count m \<Longrightarrow> j \<noteq> k \<Longrightarrow> file_line m b' j = file_line m b j"
proof -
  let ?n = "nat (sp_lineBytes m)" and ?o = "4096 + k * nat (sp_lineBytes m)"
  have fit: "?o + length data \<le> length b" using b d line_end [OF k] by (simp add: spool_file_def)
  show "spool_file m b'" using b length_overwrite [OF fit] by (simp add: spool_file_def b'_def)
  show "file_line m b' k = data" using overwrite_same [OF fit] d by (simp add: file_line_def b'_def)
  assume j: "j < line_count m" "j \<noteq> k"
  have "4096 + j * ?n + ?n \<le> ?o \<or> ?o + length data \<le> 4096 + j * ?n"
  proof (cases "j < k")
    case True
    then have "Suc j * ?n \<le> k * ?n" by (intro mult_le_mono1) simp
    then show ?thesis by simp
  next
    case False
    then have "Suc k * ?n \<le> j * ?n" using j(2) by (intro mult_le_mono1) simp
    then show ?thesis using d by simp
  qed
  moreover have "4096 + j * ?n + ?n \<le> length b" using line_end [OF j(1)] b by (simp add: spool_file_def)
  ultimately show "file_line m b' j = file_line m b j"
    unfolding file_line_def b'_def by (intro overwrite_other fit) auto
qed

lemma spool_body_lines:
  assumes "spool_file m b"
  shows "drop 4096 b = concat (map (file_line m b) [0..<line_count m])"
proof -
  have "length (drop 4096 b) = line_count m * nat (sp_lineBytes m)"
    using assms by (simp add: spool_file_def body_size_def line_count_def)
  then have "drop 4096 b = concat (cut_lines (nat (sp_lineBytes m)) (line_count m) (drop 4096 b))"
    by (rule concat_cut_lines [symmetric])
  then show ?thesis by (simp add: cut_lines_def file_line_def [abs_def] add.commute)
qed

definition spool_put :: "'d disk \<Rightarrow> nat \<times> nat \<times> bytes \<Rightarrow> 'd \<times> writer \<Rightarrow> 'd writer_result" where
  \<comment> \<open>\<open>writer.writeLine(channel, row, line)\<close> on a triple\<close>
  "spool_put D e = (case e of (ch, y, data) \<Rightarrow> writer_writeLine D (int ch) (int y) data)"

definition put_index :: "spool \<Rightarrow> nat \<times> nat \<times> bytes \<Rightarrow> nat" where
  "put_index m e = line_index m (int (fst e)) (int (fst (snd e)))"

section \<open>The writer and the reader on a lawful disk\<close>

definition writing :: "('d \<Rightarrow> string \<Rightarrow> bytes option) \<Rightarrow> 'd \<Rightarrow> writer \<Rightarrow> bytes \<Rightarrow> bool" where
  "writing contents d W b \<longleftrightarrow> w_open W \<and> contents d (w_partial W) = Some b \<and> spool_file (w_meta W) b \<and>
     length (w_lines W) = line_count (w_meta W) \<and> w_final W \<noteq> w_partial W"

definition written :: "spool \<Rightarrow> writer \<Rightarrow> bytes \<Rightarrow> (nat \<Rightarrow> bytes) \<Rightarrow> bool" where
  \<comment> \<open>every line marked as written holds its value\<close>
  "written m W b L \<longleftrightarrow> (\<forall>k < line_count m. w_lines W ! k \<longrightarrow> file_line m b k = L k)"

locale spool_store = disk_laws D contents + datastream_laws S
  for D :: "'d disk" and contents :: "'d \<Rightarrow> string \<Rightarrow> bytes option" and S :: datastream
begin

lemma writeHeader_writing:
  assumes "writing contents d W b" and "length checksum \<le> 32" and "writeHeader D S checksum (d, W) = Inr st"
  shows "\<exists>d'. st = (d', W) \<and> contents d' (w_partial W) = Some (encodeHeader S (w_meta W) checksum @ drop 4096 b)"
proof -
  have m: "length (sp_header (w_meta W)) = 12" "length (sp_order (w_meta W)) \<le> 16"
    using assms(1) valid_fields(9) by (auto simp: writing_def spool_file_def spool_typed_def)
  have h: "length (encodeHeader S (w_meta W) checksum) = 4096"
    using m assms(2) by (rule encodeHeader_size)
  have len: "4096 \<le> length b" using assms(1) by (simp add: writing_def spool_file_def)
  obtain d' where "writeAt D (w_partial W) 0 (encodeHeader S (w_meta W) checksum) d = Some d'" "st = (d', W)"
    using assms(3) by (auto simp: writeHeader_def Let_def split: option.splits if_splits)
  then show ?thesis
    using writeAt_law [of "w_partial W" 0 _ d d' b] assms(1) h len
    by (simp add: writing_def overwrite_inside)
qed

lemma writeLine_writing:
  assumes W: "writing contents d W b" and r: "writer_writeLine D ch row data (d, W) = Inr st"
  shows "0 \<le> ch \<and> ch < sp_logical (w_meta W) \<and> 0 \<le> row \<and> row < sp_height (w_meta W)"
    and "\<exists>d' b'. st = (d', W\<lparr>w_lines := (w_lines W)[line_index (w_meta W) ch row := True]\<rparr>) \<and>
      writing contents d' (snd st) b' \<and> file_line (w_meta W) b' (line_index (w_meta W) ch row) = data \<and>
      (\<forall>j < line_count (w_meta W). j \<noteq> line_index (w_meta W) ch row \<longrightarrow>
        file_line (w_meta W) b' j = file_line (w_meta W) b j)"
proof -
  let ?m = "w_meta W" and ?k = "line_index (w_meta W) ch row"
  have f: "spool_file ?m b" "contents d (w_partial W) = Some b" using W by (simp_all add: writing_def)
  show rng: "0 \<le> ch \<and> ch < sp_logical ?m \<and> 0 \<le> row \<and> row < sp_height ?m"
    using r by (auto simp: writer_writeLine_def Let_def split: if_splits)
  have len: "length data = nat (sp_lineBytes ?m)"
    using r by (auto simp: writer_writeLine_def Let_def split: if_splits)
  have off: "unat (lineOffset ?m HeaderBytes ch row) = 4096 + ?k * nat (sp_lineBytes ?m)"
    using f(1) rng by (intro lineOffset_exact) (auto simp: spool_file_def)
  have k: "?k < line_count ?m" using rng by (intro line_index_less) auto
  obtain d' where d': "writeAt D (w_partial W) (4096 + ?k * nat (sp_lineBytes ?m)) data d = Some d'"
    "st = (d', W\<lparr>w_lines := (w_lines W)[?k := True]\<rparr>)"
    using r by (auto simp: writer_writeLine_def Let_def off line_index_def split: if_splits option.splits)
  define b' where "b' = overwrite b (4096 + ?k * nat (sp_lineBytes ?m)) data"
  note o = file_line_overwrite [OF f(1) k len, folded b'_def]
  have "contents d' (w_partial W) = Some b'" using writeAt_law [OF d'(1) f(2)] by (simp add: b'_def)
  then have "writing contents d' (snd st) b'" using W o(1) d'(2) by (simp add: writing_def)
  then show "\<exists>d' b'. st = (d', W\<lparr>w_lines := (w_lines W)[?k := True]\<rparr>) \<and>
      writing contents d' (snd st) b' \<and> file_line ?m b' ?k = data \<and>
      (\<forall>j < line_count ?m. j \<noteq> ?k \<longrightarrow> file_line ?m b' j = file_line ?m b j)"
    using o(2,3) d'(2) by blast
qed

lemma read_chunks_contents:
  assumes "read_chunks D canceled p d off n acc = Inr r" and "contents d p = Some b" and "off + n \<le> length b"
  shows "r = acc @ take n (drop off b)"
  using assms
proof (induction n arbitrary: off acc rule: less_induct)
  case (less n)
  show ?case
  proof (cases "n = 0")
    case True
    then show ?thesis using less.prems(1) by (simp add: read_chunks.simps [of D canceled p d off 0 acc])
  next
    case False
    define q where "q = min n (1024 * 1024)"
    have q: "0 < q" "q \<le> n" using False by (simp_all add: q_def)
    from less.prems(1) False obtain c where c: "readAt D p off q d = Some c" "length c = q"
      "read_chunks D canceled p d (off + q) (n - q) (acc @ c) = Inr r"
      by (auto simp: read_chunks.simps [of D canceled p d off n acc] Let_def q_def
          split: if_splits option.splits)
    have "c = take q (drop off b)" using readAt_law [OF c(1) less.prems(2)] .
    moreover have "r = (acc @ c) @ take (n - q) (drop (off + q) b)"
      using less.IH [of "n - q" "off + q" "acc @ c"] c(3) less.prems(2,3) q by simp
    moreover have "take n (drop off b) = take q (drop off b) @ take (n - q) (drop (off + q) b)"
      using q(2) by (metis add.commute drop_drop le_add_diff_inverse take_add)
    ultimately show ?thesis by simp
  qed
qed

lemma spoolChecksum_contents:
  assumes "spoolChecksum D S sha canceled p m d = Inr c" and "contents d p = Some b" and "spool_file m b"
  shows "c = sha (encodeHeader S m [] @ drop 4096 b)"
proof -
  have bb: "unat (sp_bodyBytes m) = body_size m"
    using assms(3) valid_layout(3) by (simp add: spool_file_def)
  from assms(1) obtain h where h: "read_chunks D canceled p d 4096 (body_size m) (encodeHeader S m []) = Inr h" "c = sha h"
    by (auto simp: spoolChecksum_def Let_def bind_res_eq_Inr bb HeaderBytes_def split: if_splits)
  then show ?thesis using read_chunks_contents [OF h(1) assms(2)] assms(3) by (simp add: spool_file_def)
qed

text \<open>A spool is finalized only when every line was written, and the file is then the
  header with the checksum of the rest, followed by the lines in channel-major order.\<close>

lemma finalize_complete:
  assumes W: "writing contents d W b" and f: "writer_finalize D S sha canceled (d, W) = Inr (sp, d', W')"
  shows "\<forall>k < line_count (w_meta W). w_lines W ! k"
    and "length (sp_sha256 sp) = 32 \<and> sp_sha256 sp = sha (encodeHeader S (w_meta W) [] @ drop 4096 b)"
    and "contents d' (w_final W) = Some (encodeHeader S (w_meta W) (sp_sha256 sp) @ drop 4096 b)"
    and "sp = (w_meta W)\<lparr>sp_path := w_final W, sp_sha256 := sp_sha256 sp\<rparr>"
proof -
  have full: "count_list (w_lines W) True = length (w_lines W)" "w_open W"
    using f by (auto simp: writer_finalize_def split: if_splits)
  have all: "w_lines W ! k" if "k < length (w_lines W)" for k
    using full(1) nth_mem [OF that] by (metis count_list_True)
  then show "\<forall>k < line_count (w_meta W). w_lines W ! k" using W by (simp add: writing_def)
  from f full obtain d1 c where d1: "flushFile D (w_partial W) d = Some d1"
    and c: "spoolChecksum D S sha canceled (w_partial W) (w_meta W) d1 = Inr c" "length c = 32"
    and rest: "bind_res (writeHeader D S c (d1, W)) (\<lambda>(d, W).
              case flushFile D (w_partial W) d of
                None \<Rightarrow> Inl (SpoolFlush, d, W)
              | Some d \<Rightarrow>
                let W = W\<lparr>w_open := False\<rparr> in
                (case renameFile D (w_partial W) (w_final W) d of
                   None \<Rightarrow> Inl (SpoolFinalize, d, W)
                 | Some d \<Rightarrow>
                   let m = (w_meta W)\<lparr>sp_path := w_final W, sp_sha256 := c\<rparr>
                   in Inr (m, d, W\<lparr>w_meta := m, w_finalized := True\<rparr>))) = Inr (sp, d', W')"
    by (auto simp: writer_finalize_def split: if_splits option.splits sum.splits)
  have c1: "contents d1 = contents d" by (rule flushFile_law [OF d1])
  then have W1: "writing contents d1 W b" using W by (simp add: writing_def)
  from rest obtain st where st: "writeHeader D S c (d1, W) = Inr st" by (auto simp: bind_res_eq_Inr)
  have "length c \<le> 32" using c(2) by simp
  from writeHeader_writing [OF W1 this st] obtain d2 where
    d2: "st = (d2, W)" "contents d2 (w_partial W) = Some (encodeHeader S (w_meta W) c @ drop 4096 b)" by blast
  from rest obtain d3 where d3: "flushFile D (w_partial W) d2 = Some d3"
    "renameFile D (w_partial W) (w_final W) d3 = Some d'"
    and sp: "sp = (w_meta W)\<lparr>sp_path := w_final W, sp_sha256 := c\<rparr>"
    by (auto simp: st d2(1) Let_def split: option.splits)
  have shc: "c = sha (encodeHeader S (w_meta W) [] @ drop 4096 b)"
    using spoolChecksum_contents [OF c(1)] c1 W by (simp add: writing_def)
  show "length (sp_sha256 sp) = 32 \<and> sp_sha256 sp = sha (encodeHeader S (w_meta W) [] @ drop 4096 b)"
    using sp shc c(2) by simp
  show "contents d' (w_final W) = Some (encodeHeader S (w_meta W) (sp_sha256 sp) @ drop 4096 b)"
    using renameFile_law [OF d3(2)] flushFile_law [OF d3(1)] d2(2) sp by simp
  show "sp = (w_meta W)\<lparr>sp_path := w_final W, sp_sha256 := sp_sha256 sp\<rparr>" using sp by simp
qed

lemma finalize_others:
  assumes W: "writing contents d W b" and f: "writer_finalize D S sha canceled (d, W) = Inr (sp, d', W')"
  shows "w_finalized W'" and "contents d' (w_partial W) = None"
    and "q \<noteq> w_partial W \<Longrightarrow> q \<noteq> w_final W \<Longrightarrow> contents d' q = contents d q"
proof -
  from f obtain d1 c where d1: "flushFile D (w_partial W) d = Some d1"
    and r: "bind_res (writeHeader D S c (d1, W)) (\<lambda>(d, W).
              case flushFile D (w_partial W) d of
                None \<Rightarrow> Inl (SpoolFlush, d, W)
              | Some d \<Rightarrow>
                let W = W\<lparr>w_open := False\<rparr> in
                (case renameFile D (w_partial W) (w_final W) d of
                   None \<Rightarrow> Inl (SpoolFinalize, d, W)
                 | Some d \<Rightarrow>
                   let m = (w_meta W)\<lparr>sp_path := w_final W, sp_sha256 := c\<rparr>
                   in Inr (m, d, W\<lparr>w_meta := m, w_finalized := True\<rparr>))) = Inr (sp, d', W')"
    by (auto simp: writer_finalize_def split: if_splits option.splits sum.splits)
  then obtain d2 W2 where h: "writeHeader D S c (d1, W) = Inr (d2, W2)" by (auto simp: bind_res_eq_Inr)
  from r obtain d3 where d3: "flushFile D (w_partial W2) d2 = Some d3" "renameFile D (w_partial W2) (w_final W2) d3 = Some d'"
    and W': "w_finalized W'" by (auto simp: h Let_def split: option.splits)
  from h have w2: "W2 = W" and "writeAt D (w_partial W) 0 (encodeHeader S (w_meta W) c) d1 = Some d2"
    by (auto simp: writeHeader_def Let_def split: if_splits option.splits)
  moreover have "contents d1 (w_partial W) = Some b" using W flushFile_law [OF d1] by (simp add: writing_def)
  ultimately have c2: "q \<noteq> w_partial W \<Longrightarrow> contents d2 q = contents d1 q" for q
    using writeAt_law by (metis fun_upd_other)
  have c: "contents d' = (contents d3)(w_partial W := None, w_final W := contents d3 (w_partial W))"
    using renameFile_law [OF d3(2)] by (simp add: w2)
  have ne: "w_final W \<noteq> w_partial W" using W by (simp add: writing_def)
  show "w_finalized W'" by (rule W')
  show "contents d' (w_partial W) = None" using c ne by simp
  show "q \<noteq> w_partial W \<Longrightarrow> q \<noteq> w_final W \<Longrightarrow> contents d' q = contents d q"
    using c c2 [of q] flushFile_law [OF d1] flushFile_law [OF d3(1)] by simp
qed

lemma create_writing:
  assumes c: "writer_create D S token dir metadata st = Inr (d', W')" and t: "spool_typed metadata"
  shows "\<exists>b. writing contents d' W' b" and "w_lines W' = replicate (line_count (w_meta W')) False"
    and "w_meta W' = metadata\<lparr>sp_bodyOffset := HeaderBytes, sp_bodyBytes := expectedBodyBytes metadata, sp_sha256 := []\<rparr>"
proof -
  obtain d W where st: "writer_cancel D st = (d, W)" by (cases "writer_cancel D st")
  define m where "m = metadata\<lparr>sp_bodyOffset := HeaderBytes, sp_bodyBytes := expectedBodyBytes metadata, sp_sha256 := []\<rparr>"
  have eb: "expectedBodyBytes m = expectedBodyBytes metadata"
    "expectedBodyBytes (metadata\<lparr>sp_bodyOffset := HeaderBytes\<rparr>) = expectedBodyBytes metadata"
    by (simp_all add: m_def)
  define partial where "partial = filePath dir (''printflow-'' @ token @ ''.pfrs.partial'')"
  define fin where "fin = filePath dir (''printflow-'' @ token @ ''.pfrs'')"
  define W1 where "W1 = W\<lparr>w_meta := m, w_partial := partial, w_final := fin, w_open := True\<rparr>"
  have ne: "fin \<noteq> partial" by (simp add: fin_def partial_def filePath_def)
  have mt: "spool_typed m" using t by (simp add: m_def spool_typed_def)
  from c have v: "metadataIsValid m = Inr ()"
    by (auto simp: writer_create_def st Let_def eb(2) m_def split: sum.splits)
  from c v obtain d1 d2 where d1: "makePath D dir d = Some d1" and d2: "openTruncate D partial d1 = Some d2"
    and rest: "(case writeHeader D S [] (d2, W1) of
                 Inl (e, st) \<Rightarrow> Inl (e, writer_cancel D st)
               | Inr (d, W) \<Rightarrow>
                 (case resizeFile D partial (unat (HeaderBytes + sp_bodyBytes m)) d of
                    None \<Rightarrow> Inl (SpoolAllocate, writer_cancel D (d, W))
                  | Some d \<Rightarrow> Inr (d, W\<lparr>w_lines := replicate (nat (sp_logical m * sp_height m)) False\<rparr>))) = Inr (d', W')"
    by (auto simp: writer_create_def st Let_def eb(2) m_def partial_def fin_def W1_def split: option.splits sum.splits)
  from rest obtain d3 where d3: "writeHeader D S [] (d2, W1) = Inr (d3, W1)"
    by (auto simp: writeHeader_def Let_def split: sum.splits option.splits if_splits)
  from rest d3 have d4: "resizeFile D partial (unat (HeaderBytes + sp_bodyBytes m)) d3 = Some d'"
    and W': "W' = W1\<lparr>w_lines := replicate (line_count m) False\<rparr>"
    by (auto simp: line_count_def split: option.splits)
  have hd: "length (encodeHeader S m []) = 4096"
    using mt valid_fields(9) [OF v] by (intro encodeHeader_size) (auto simp: spool_typed_def)
  obtain b3 where "contents d3 partial = Some b3"
    using d3 openTruncate_law [OF d2] writeAt_law [of partial 0 "encodeHeader S m []" d2 d3 "[]"]
    by (auto simp: writeHeader_def W1_def Let_def split: option.splits if_splits)
  from resizeFile_law [OF d4 this] have c': "contents d' partial = Some (resized b3 (unat (HeaderBytes + sp_bodyBytes m)))"
    by simp
  have "unat (HeaderBytes + sp_bodyBytes m) = 4096 + body_size m"
  proof -
    have sb: "sp_bodyBytes m = expectedBodyBytes m" by (simp only: eb) (simp add: m_def)
    have "unat (expectedBodyBytes m) = body_size m" "int (body_size m) < 2 ^ 62" using valid_layout(3,4) [OF v mt] .
    then have ub: "uint (sp_bodyBytes m) = int (body_size m)" by (simp add: sb uint_nat)
    moreover have "uint HeaderBytes + uint (sp_bodyBytes m) < 2 ^ 64"
      unfolding ub using \<open>int (body_size m) < 2 ^ 62\<close> by (simp add: HeaderBytes_def)
    ultimately show ?thesis by (simp add: unat_eq_nat_uint uint_add64 HeaderBytes_def nat_add_distrib)
  qed
  then have "writing contents d' W' (resized b3 (4096 + body_size m))"
    using c' v mt ne eb(1) by (simp add: writing_def W' W1_def spool_file_def) (simp add: m_def)
  then show "\<exists>b. writing contents d' W' b" by blast
  show "w_lines W' = replicate (line_count (w_meta W')) False" by (simp add: W' W1_def)
  show "w_meta W' = metadata\<lparr>sp_bodyOffset := HeaderBytes, sp_bodyBytes := expectedBodyBytes metadata, sp_sha256 := []\<rparr>"
    by (simp add: W' W1_def m_def)
qed

lemma write_lines:
  assumes "fold_res (spool_put D) T (d, W) = Inr (d', W')"
    and "writing contents d W b" and "written (w_meta W) W b L"
    and "\<And>e. e \<in> set T \<Longrightarrow> snd (snd e) = L (put_index (w_meta W) e)"
  shows "\<exists>b'. writing contents d' W' b' \<and> written (w_meta W) W' b' L \<and> w_meta W' = w_meta W \<and>
    w_final W' = w_final W \<and> w_partial W' = w_partial W"
  using assms
proof (induction T arbitrary: d W b)
  case Nil
  then show ?case by auto
next
  case (Cons e T)
  obtain ch y data where e: "e = (ch, y, data)" by (cases e) auto
  from Cons.prems(1) obtain st where "spool_put D e (d, W) = Inr st"
    and r: "fold_res (spool_put D) T st = Inr (d', W')"
    by (auto simp: bind_res_eq_Inr)
  then have s: "writer_writeLine D (int ch) (int y) data (d, W) = Inr st" by (simp add: e spool_put_def)
  let ?k = "line_index (w_meta W) (int ch) (int y)"
  from writeLine_writing [OF Cons.prems(2) s] obtain d1 b1 where
    k: "?k < line_count (w_meta W)" and
    st: "st = (d1, W\<lparr>w_lines := (w_lines W)[?k := True]\<rparr>)" and w1: "writing contents d1 (snd st) b1"
    and l: "file_line (w_meta W) b1 ?k = data"
    "\<forall>j < line_count (w_meta W). j \<noteq> ?k \<longrightarrow> file_line (w_meta W) b1 j = file_line (w_meta W) b j"
    using line_index_less by blast
  have "written (w_meta W) (snd st) b1 L"
    unfolding written_def
  proof (intro allI impI)
    fix j assume j: "j < line_count (w_meta W)" "w_lines (snd st) ! j"
    show "file_line (w_meta W) b1 j = L j"
    proof (cases "j = ?k")
      case True
      then show ?thesis using l(1) Cons.prems(4) [of e] by (simp add: e put_index_def)
    next
      case False
      then have "w_lines W ! j" using j(2) by (simp add: st)
      then show ?thesis using Cons.prems(3) l(2) j(1) False by (simp add: written_def)
    qed
  qed
  then show ?case
    using Cons.IH [of d1 "snd st" b1] r w1 Cons.prems(4) by (simp add: st)
qed

section \<open>Reading it back\<close>

lemma reader_open_meta:
  assumes "reader_open D S sha canceled path v d = Inr R"
    and "contents d path = Some (encodeHeader S m checksum @ body)"
    and "metadataIsValid m = Inr ()" and "spool_typed m" and "length checksum \<le> 32"
  shows "R = \<lparr>r_path = path, r_meta = with_disk_fields m path checksum\<rparr>"
proof -
  have h: "length (encodeHeader S m checksum) = 4096"
    using assms(4,5) valid_fields(9) [OF assms(3)] by (intro encodeHeader_size) (auto simp: spool_typed_def)
  from assms(1) obtain m' where m': "readMetadata D S path d = Inr m'" "R = \<lparr>r_path = path, r_meta = m'\<rparr>"
    by (auto simp: reader_open_def bind_res_eq_Inr split: if_splits)
  from m'(1) obtain hd where hd: "readAt D path 0 4096 d = Some hd" "decodeHeader S hd path = Inr m'"
    by (auto simp: readMetadata_def HeaderBytes_def bind_res_eq_Inr split: option.splits if_splits)
  have "hd = encodeHeader S m checksum"
    using readAt_law [OF hd(1) assms(2)] h by simp
  then show ?thesis using hd(2) decode_encode [OF assms(3-5)] m'(2) by simp
qed

lemma reader_readLine_line:
  assumes r: "reader_readLine D R ch row d = Inr line" and R: "R = \<lparr>r_path = path, r_meta = with_disk_fields m path checksum\<rparr>"
    and c: "contents d path = Some b" and f: "spool_file m b"
  shows "line = file_line m b (line_index m ch row)"
proof -
  have rng: "0 \<le> ch" "ch < sp_logical m" "0 \<le> row" "row < sp_height m"
    using r by (auto simp: reader_readLine_def R with_disk_fields_def Let_def split: if_splits)
  have off: "unat (lineOffset (with_disk_fields m path checksum) HeaderBytes ch row) =
      4096 + line_index m ch row * nat (sp_lineBytes m)"
    using lineOffset_exact [OF _ _ rng] f by (simp add: spool_file_def lineOffset_def with_disk_fields_def)
  from r rng obtain x where "readAt D path (4096 + line_index m ch row * nat (sp_lineBytes m)) (nat (sp_lineBytes m)) d = Some x"
    "line = x"
    using off by (auto simp: reader_readLine_def R with_disk_fields_def Let_def lineOffset_def split: option.splits if_splits)
  then show ?thesis using readAt_law [OF _ c] by (simp add: file_line_def)
qed

lemma verify_checksum:
  assumes "spool_verify D S sha canceled sp d = Inr ()"
    and "contents d (sp_path sp) = Some (encodeHeader S m checksum @ body)"
    and "spool_file m (encodeHeader S m checksum @ body)" and "length checksum \<le> 32"
  shows "checksum = sha (encodeHeader S m [] @ body)"
proof -
  have v: "metadataIsValid m = Inr ()" "spool_typed m" using assms(3) by (simp_all add: spool_file_def)
  have h: "length (encodeHeader S m checksum) = 4096"
    using assms(4) v(2) valid_fields(9) [OF v(1)] by (intro encodeHeader_size) (auto simp: spool_typed_def)
  from assms(1) obtain m' c where m': "readMetadata D S (sp_path sp) d = Inr m'"
    and c: "spoolChecksum D S sha canceled (sp_path sp) m' d = Inr c" "c = sp_sha256 m'"
    by (auto simp: spool_verify_def bind_res_eq_Inr split: if_splits)
  from m' obtain hd where hd: "readAt D (sp_path sp) 0 4096 d = Some hd" "decodeHeader S hd (sp_path sp) = Inr m'"
    by (auto simp: readMetadata_def HeaderBytes_def bind_res_eq_Inr split: option.splits if_splits)
  have "hd = encodeHeader S m checksum" using readAt_law [OF hd(1) assms(2)] h by simp
  then have m'eq: "m' = with_disk_fields m (sp_path sp) checksum"
    using hd(2) decode_encode [OF v assms(4)] by simp
  have sf: "spool_file m' (encodeHeader S m checksum @ body)"
    using assms(3) by (simp add: spool_file_disk_fields m'eq)
  have "encodeHeader S m' [] = encodeHeader S m []" by (simp add: encodeHeader_def m'eq with_disk_fields_def)
  then show ?thesis
    using spoolChecksum_contents [OF c(1) assms(2) sf] c(2) h by (simp add: m'eq with_disk_fields_def)
qed

end

section \<open>A disk that does not fail\<close>

locale reliable_store = spool_store + reliable_disk
begin

lemma writeHeader_ok:
  assumes "w_open W" and "contents d (w_partial W) \<noteq> None" and "encodeHeader S (w_meta W) checksum \<noteq> []"
  shows "\<exists>d'. writeHeader D S checksum (d, W) = Inr (d', W) \<and> contents d' (w_partial W) \<noteq> None \<and>
    (\<forall>q. q \<noteq> w_partial W \<longrightarrow> contents d' q = contents d q)"
proof -
  obtain d' where d': "writeAt D (w_partial W) 0 (encodeHeader S (w_meta W) checksum) d = Some d'"
    using writeAt_ok [OF assms(2)] by blast
  then show ?thesis using assms writeAt_law [OF d'] by (auto simp: writeHeader_def Let_def)
qed

lemma create_ok:
  assumes v: "metadataIsValid (metadata\<lparr>sp_bodyOffset := HeaderBytes, sp_bodyBytes := expectedBodyBytes metadata, sp_sha256 := []\<rparr>) = Inr ()"
    and t: "spool_typed metadata"
  shows "\<exists>d' W'. writer_create D S token dir metadata st = Inr (d', W') \<and>
    w_final W' = filePath dir (''printflow-'' @ token @ ''.pfrs'') \<and>
    (\<forall>q. contents (fst st) q = None \<longrightarrow> q \<noteq> w_partial W' \<longrightarrow> contents d' q = None) \<and>
    w_partial W' = filePath dir (''printflow-'' @ token @ ''.pfrs.partial'') \<and>
    (\<forall>q. q \<noteq> w_partial W' \<longrightarrow> (w_partial (snd st) = [] \<or> q \<noteq> w_partial (snd st)) \<longrightarrow> contents d' q = contents (fst st) q)"
proof -
  obtain d W where st: "writer_cancel D st = (d, W)" by (cases "writer_cancel D st")
  define m where "m = metadata\<lparr>sp_bodyOffset := HeaderBytes, sp_bodyBytes := expectedBodyBytes metadata, sp_sha256 := []\<rparr>"
  define partial where "partial = filePath dir (''printflow-'' @ token @ ''.pfrs.partial'')"
  define fin where "fin = filePath dir (''printflow-'' @ token @ ''.pfrs'')"
  define W1 where "W1 = W\<lparr>w_meta := m, w_partial := partial, w_final := fin, w_open := True\<rparr>"
  have gone: "contents d q = None" if "contents (fst st) q = None" for q
    using st that removeFile_law [of "w_partial (snd st)" "fst st"]
    by (cases st) (auto simp: writer_cancel_def split: if_splits)
  have others: "contents d q = contents (fst st) q" if "w_partial (snd st) = [] \<or> q \<noteq> w_partial (snd st)" for q
    using st that removeFile_law [of "w_partial (snd st)" "fst st"]
    by (cases st) (auto simp: writer_cancel_def split: if_splits)
  obtain d1 where d1: "makePath D dir d = Some d1" using makePath_ok by blast
  obtain d2 where d2: "openTruncate D partial d1 = Some d2" using openTruncate_ok by blast
  have c2: "contents d2 = (contents d)(partial \<mapsto> [])"
    using openTruncate_law [OF d2] makePath_law [OF d1] by simp
  have "length (encodeHeader S m []) = 4096"
    using t v valid_fields(9) [OF v] by (intro encodeHeader_size) (auto simp: spool_typed_def m_def)
  then have "encodeHeader S m [] \<noteq> []" by auto
  then obtain d3 where d3: "writeHeader D S [] (d2, W1) = Inr (d3, W1)" "contents d3 partial \<noteq> None"
    "\<And>q. q \<noteq> partial \<Longrightarrow> contents d3 q = contents d2 q"
    using writeHeader_ok [of W1 d2 "[]"] c2 by (auto simp: W1_def)
  obtain d4 where d4: "resizeFile D partial (unat (HeaderBytes + sp_bodyBytes m)) d3 = Some d4"
    using resizeFile_ok [OF d3(2)] by blast
  obtain b3 where b3: "contents d3 partial = Some b3" using d3(2) by blast
  have c4: "contents d4 q = contents d3 q" if "q \<noteq> partial" for q
    using resizeFile_law [OF d4 b3] that by simp
  have w1: "W\<lparr>w_meta := m, w_partial := partial, w_final := fin\<rparr>\<lparr>w_open := True\<rparr> = W1" by (simp add: W1_def)
  have "writer_create D S token dir metadata st =
      Inr (d4, W1\<lparr>w_lines := replicate (nat (sp_logical m * sp_height m)) False\<rparr>)"
    unfolding writer_create_def Let_def st prod.case expectedBodyBytes_fields m_def [symmetric]
      partial_def [symmetric] fin_def [symmetric] w1
    using v [folded m_def] d1 d2 d3(1) d4 by simp
  then show ?thesis using gone others c2 d3(3) c4 by (auto simp: W1_def fin_def partial_def)
qed

lemma writeLine_ok:
  assumes "writing contents d W b" and "0 \<le> ch" "ch < sp_logical (w_meta W)" "0 \<le> row" "row < sp_height (w_meta W)"
    and "int (length data) = sp_lineBytes (w_meta W)"
  shows "\<exists>d'. writer_writeLine D ch row data (d, W) =
      Inr (d', W\<lparr>w_lines := (w_lines W)[line_index (w_meta W) ch row := True]\<rparr>) \<and>
    (\<forall>q. q \<noteq> w_partial W \<longrightarrow> contents d' q = contents d q)"
proof -
  have c: "contents d (w_partial W) = Some b" using assms(1) by (simp add: writing_def)
  obtain d' where d': "writeAt D (w_partial W) (unat (lineOffset (w_meta W) HeaderBytes ch row)) data d = Some d'"
    using writeAt_ok [of d "w_partial W"] c by auto
  then show ?thesis using assms writeAt_law [OF d' c]
    by (auto simp: writer_writeLine_def Let_def writing_def line_index_def)
qed

lemma write_lines_ok:
  assumes "writing contents d W b"
    and "\<And>e. e \<in> set T \<Longrightarrow> int (fst e) < sp_logical (w_meta W) \<and> int (fst (snd e)) < sp_height (w_meta W) \<and>
      int (length (snd (snd e))) = sp_lineBytes (w_meta W)"
  shows "\<exists>d' W'. fold_res (spool_put D) T (d, W) = Inr (d', W') \<and>
    (\<forall>q. q \<noteq> w_partial W \<longrightarrow> contents d' q = contents d q) \<and>
    (\<forall>k < line_count (w_meta W). w_lines W' ! k =
       (w_lines W ! k \<or> k \<in> put_index (w_meta W) ` set T))"
  using assms
proof (induction T arbitrary: d W b)
  case Nil
  then show ?case by auto
next
  case (Cons e T)
  let ?k = "put_index (w_meta W) e"
  let ?W = "W\<lparr>w_lines := (w_lines W)[?k := True]\<rparr>"
  have r: "int (fst e) < sp_logical (w_meta W)" "int (fst (snd e)) < sp_height (w_meta W)"
    "int (length (snd (snd e))) = sp_lineBytes (w_meta W)"
    using Cons.prems(2) [of e] by auto
  from writeLine_ok [OF Cons.prems(1) _ r(1) _ r(2,3)] obtain d1 where
    d1: "writer_writeLine D (int (fst e)) (int (fst (snd e))) (snd (snd e)) (d, W) = Inr (d1, ?W)"
    "\<forall>q. q \<noteq> w_partial W \<longrightarrow> contents d1 q = contents d q" by (auto simp: put_index_def)
  from writeLine_writing(2) [OF Cons.prems(1) d1(1)] obtain b1 where b1: "writing contents d1 ?W b1"
    by (auto simp: put_index_def)
  from Cons.IH [OF b1] Cons.prems(2) obtain d2 W2 where
    f: "fold_res (spool_put D) T (d1, ?W) = Inr (d2, W2)"
    and c: "\<forall>q. q \<noteq> w_partial W \<longrightarrow> contents d2 q = contents d1 q"
    and l: "\<forall>k < line_count (w_meta W). w_lines W2 ! k =
       ((w_lines W)[?k := True] ! k \<or> k \<in> put_index (w_meta W) ` set T)"
    by auto
  have "length (w_lines W) = line_count (w_meta W)" using Cons.prems(1) by (simp add: writing_def)
  then have "\<forall>k < line_count (w_meta W). w_lines W2 ! k =
       (w_lines W ! k \<or> k \<in> put_index (w_meta W) ` set (e # T))"
    using l line_index_less [of "int (fst e)" "w_meta W" "int (fst (snd e))"] r(1,2)
    by (auto simp: nth_list_update put_index_def)
  moreover have "fold_res (spool_put D) (e # T) (d, W) = Inr (d2, W2)"
    using d1(1) f by (simp add: spool_put_def split_def)
  ultimately show ?case using d1(2) c by auto
qed

lemma read_chunks_ok:
  assumes "contents d p = Some b" and "off + n \<le> length b" and "\<And>k. \<not> canceled k"
  shows "\<exists>r. read_chunks D canceled p d off n acc = Inr r"
  using assms(2)
proof (induction n arbitrary: off acc rule: less_induct)
  case (less n)
  show ?case
  proof (cases "n = 0")
    case True
    then show ?thesis by (simp add: read_chunks.simps [of D canceled p d off 0 acc])
  next
    case False
    define q where "q = min n (1024 * 1024)"
    have q: "0 < q" "q \<le> n" using False by (simp_all add: q_def)
    obtain c where c: "readAt D p off q d = Some c" using readAt_ok [of d p] assms(1) by auto
    then have "length c = q" using readAt_law [OF c assms(1)] less.prems q by simp
    moreover obtain r where "read_chunks D canceled p d (off + q) (n - q) (acc @ c) = Inr r"
      using less.IH [of "n - q" "off + q"] less.prems q by auto
    moreover have "\<not> canceled n" by (rule assms(3))
    ultimately show ?thesis
      using False c by (simp add: read_chunks.simps [of D canceled p d off n acc] Let_def q_def)
  qed
qed

lemma finalize_ok:
  assumes W: "writing contents d W b" and all: "\<forall>k < line_count (w_meta W). w_lines W ! k"
    and sha: "\<And>x. length (sha x) = 32" and nc: "\<And>k. \<not> canceled k" and free: "contents d (w_final W) = None"
  shows "\<exists>sp d' W'. writer_finalize D S sha canceled (d, W) = Inr (sp, d', W')"
proof -
  have w: "w_open W" "contents d (w_partial W) = Some b" "spool_file (w_meta W) b" "w_final W \<noteq> w_partial W"
    "length (w_lines W) = line_count (w_meta W)"
    using W by (simp_all add: writing_def)
  have v: "metadataIsValid (w_meta W) = Inr ()" "spool_typed (w_meta W)" using w(3) by (simp_all add: spool_file_def)
  have full: "count_list (w_lines W) True = length (w_lines W)"
    unfolding count_list_True using all w(5) by (auto simp: in_set_conv_nth)
  have hd: "length (encodeHeader S (w_meta W) c) = 4096" if "length c \<le> 32" for c
    using that v(2) valid_fields(9) [OF v(1)] by (intro encodeHeader_size) (auto simp: spool_typed_def)
  obtain d1 where d1: "flushFile D (w_partial W) d = Some d1" using flushFile_ok [of d "w_partial W"] w(2) by auto
  have c1: "contents d1 = contents d" by (rule flushFile_law [OF d1])
  have "unat (sp_bodyBytes (w_meta W)) = body_size (w_meta W)"
    using w(3) valid_layout(3) by (simp add: spool_file_def)
  then obtain x where x: "spoolChecksum D S sha canceled (w_partial W) (w_meta W) d1 = Inr (sha x)"
    using read_chunks_ok [of d1 "w_partial W" b 4096 "body_size (w_meta W)" canceled "encodeHeader S (w_meta W) []"]
      w(2,3) nc hd [of "[]"] c1 by (auto simp: spoolChecksum_def Let_def HeaderBytes_def spool_file_def)
  have hne: "encodeHeader S (w_meta W) (sha x) \<noteq> []" using hd [of "sha x"] sha by auto
  obtain d2 where d2: "writeHeader D S (sha x) (d1, W) = Inr (d2, W)" "contents d2 (w_partial W) \<noteq> None"
    "\<And>q. q \<noteq> w_partial W \<Longrightarrow> contents d2 q = contents d1 q"
    using writeHeader_ok [OF w(1) _ hne, of d1] w(2) c1 by auto
  obtain d3 where d3: "flushFile D (w_partial W) d2 = Some d3" using flushFile_ok [OF d2(2)] by blast
  have c3: "contents d3 = contents d2" by (rule flushFile_law [OF d3])
  obtain d4 where "renameFile D (w_partial W) (w_final W) d3 = Some d4"
    using renameFile_ok [of d3 "w_partial W" "w_final W"] c3 d2(2,3) w(4) c1 free by auto
  then show ?thesis
    using w(1) full d1 x sha d2(1) d3 by (simp add: writer_finalize_def Let_def)
qed

end

interpretation store: reliable_store memory_disk "\<lambda>d. d" big_endian
  by unfold_locales (auto simp: memory_disk_def split: option.splits)

end
