(* ===== verification/Ieee_Arith.thy ===== *)
theory Ieee_Arith
  imports Rip_Prelude
begin

text \<open>
  The float and double arithmetic the raster code performs, as rounding on rationals.
  A finite IEEE-754 value is a rational; an operation of the code is the exact operation
  followed by \<open>fl32\<close> (C++ \<open>float\<close>) or \<open>fl64\<close> (C++ \<open>double\<close>): round to the nearest
  multiple of the quantum of the result's binade, ties to even, with the subnormal quantum
  as the smallest one. All values that occur are far below the overflow thresholds, so
  infinities and NaNs are not modelled. \<open>std::lround\<close> rounds halves away from zero.

  The lemmas show what the code relies on: rounding is monotone, leaves representable
  values alone, and so keeps a value between representable bounds.
\<close>

section \<open>Binade and quantum\<close>

definition flog2 :: "rat \<Rightarrow> int" where
  \<comment> \<open>the exponent \<open>e\<close> of a positive rational: \<open>2 powi e \<le> x < 2 powi (e + 1)\<close>\<close>
  "flog2 x = (let (n, d) = quotient_of x; k = bitlen n - bitlen d
              in if x < 2 powi k then k - 1 else k)"

definition round_half_even :: "rat \<Rightarrow> int" where
  "round_half_even x =
     (let f = \<lfloor>x\<rfloor>; d = x - of_int f
      in if d < 1/2 then f else if 1/2 < d then f + 1 else if even f then f else f + 1)"

definition quantum_exp :: "nat \<Rightarrow> int \<Rightarrow> rat \<Rightarrow> int" where
  "quantum_exp p emin x = max (flog2 x - int p + 1) emin"

definition fl_pos :: "nat \<Rightarrow> int \<Rightarrow> rat \<Rightarrow> rat" where
  "fl_pos p emin x =
     (let q = quantum_exp p emin x in of_int (round_half_even (x / 2 powi q)) * 2 powi q)"

definition fl :: "nat \<Rightarrow> int \<Rightarrow> rat \<Rightarrow> rat" where
  "fl p emin x = (if x = 0 then 0 else if x < 0 then - fl_pos p emin (- x) else fl_pos p emin x)"

definition fl32 :: "rat \<Rightarrow> rat" where "fl32 = fl 24 (- 149)"
definition fl64 :: "rat \<Rightarrow> rat" where "fl64 = fl 53 (- 1074)"

definition lround :: "rat \<Rightarrow> int" where
  "lround x = (if 0 \<le> x then \<lfloor>x + 1/2\<rfloor> else - \<lfloor>- x + 1/2\<rfloor>)"

section \<open>The exponent\<close>

lemma powi2_pos [simp]: "0 < (2::rat) powi k"
  by (simp add: zero_less_power_int)

lemma powi2_mono: "(2::rat) powi a \<le> 2 powi b \<longleftrightarrow> a \<le> b"
  by (metis linorder_not_le one_less_numeral_iff power_int_increasing power_int_strict_increasing semiring_norm(76) order_less_imp_le)

lemma powi2_add: "(2::rat) powi (a + b) = 2 powi a * 2 powi b"
  by (simp add: power_int_add)

lemma powi2_diff: "(2::rat) powi (a - b) = 2 powi a / 2 powi b"
  by (simp add: power_int_diff)

lemma powi2_of_nat: "0 \<le> k \<Longrightarrow> (2::rat) powi k = of_int (2 ^ nat k)"
  by (simp add: power_int_def)

lemma flog2_bounds:
  assumes "0 < x"
  shows "2 powi flog2 x \<le> x" and "x < 2 powi (flog2 x + 1)"
proof -
  obtain n d where q: "quotient_of x = (n, d)" by (cases "quotient_of x")
  have d: "0 < d" and x: "x = of_int n / of_int d"
    using q quotient_of_denom_pos quotient_of_div by auto
  with assms have n: "0 < n"
    by (metis divide_pos_pos linorder_neqE_linordered_idom of_int_0_less_iff of_int_pos
        quotient_of_div quotient_of_denom_pos zero_less_divide_iff order_less_asym)
  let ?a = "bitlen n" and ?b = "bitlen d"
  have ab: "0 < ?a" "0 < ?b" using n d bitlen_nonneg [of n] bitlen_nonneg [of d] bitlen_eq_zero_iff [of n]
      bitlen_eq_zero_iff [of d] by linarith+
  have N: "(2::rat) powi (?a - 1) \<le> of_int n" "of_int n < (2::rat) powi ?a"
    using bitlen_bounds [OF n] ab by (simp_all add: powi2_of_nat del: of_int_power of_int_numeral)
  have D: "(2::rat) powi (?b - 1) \<le> of_int d" "of_int d < (2::rat) powi ?b"
    using bitlen_bounds [OF d] ab by (simp_all add: powi2_of_nat del: of_int_power of_int_numeral)
  have d': "(0::rat) < of_int d" using d by simp
  have hi: "x < 2 powi (?a - ?b + 1)"
  proof -
    have "x < 2 powi ?a / of_int d" unfolding x using N(2) d' by (simp add: divide_strict_right_mono)
    also have "\<dots> \<le> 2 powi ?a / 2 powi (?b - 1)" using D(1) d' by (intro divide_left_mono mult_pos_pos) auto
    also have "\<dots> = 2 powi (?a - ?b + 1)" by (simp flip: powi2_diff add: algebra_simps)
    finally show ?thesis .
  qed
  have lo: "2 powi (?a - ?b - 1) \<le> x"
  proof -
    have "(2::rat) powi (?a - ?b - 1) = 2 powi (?a - 1) / 2 powi ?b"
      by (simp flip: powi2_diff add: algebra_simps)
    also have "\<dots> \<le> 2 powi (?a - 1) / of_int d" using D(2) d' by (intro divide_left_mono mult_pos_pos) auto
    also have "\<dots> \<le> x" unfolding x using N(1) d' by (simp add: divide_right_mono)
    finally show ?thesis .
  qed
  show "2 powi flog2 x \<le> x" and "x < 2 powi (flog2 x + 1)"
    using lo hi by (auto simp: flog2_def q Let_def not_less)
qed

lemma flog2_mono:
  assumes "0 < x" and "x \<le> y"
  shows "flog2 x \<le> flog2 y"
proof -
  have "(2::rat) powi flog2 x \<le> x" by (rule flog2_bounds(1) [OF assms(1)])
  also have "x \<le> y" by (rule assms(2))
  also have "y < 2 powi (flog2 y + 1)" using assms by (intro flog2_bounds(2)) simp
  finally have "\<not> 2 powi (flog2 y + 1) \<le> (2::rat) powi flog2 x" by simp
  then show ?thesis by (simp add: powi2_mono)
qed

lemma flog2_upper:
  assumes "0 < x" and "x < 2 powi k"
  shows "flog2 x < k"
proof -
  have "(2::rat) powi flog2 x < 2 powi k"
    using flog2_bounds(1) [OF assms(1)] assms(2) by simp
  then have "\<not> 2 powi k \<le> (2::rat) powi flog2 x" by simp
  then show ?thesis by (simp add: powi2_mono)
qed

section \<open>Rounding to the nearest integer\<close>

lemma round_half_even_of_int [simp]: "round_half_even (of_int z) = z"
  by (simp add: round_half_even_def)

lemma round_half_even_bounds: "\<lfloor>x\<rfloor> \<le> round_half_even x" "round_half_even x \<le> \<lfloor>x\<rfloor> + 1"
  by (auto simp: round_half_even_def Let_def)

lemma round_half_even_mono:
  assumes "x \<le> y"
  shows "round_half_even x \<le> round_half_even y"
proof (cases "\<lfloor>x\<rfloor> = \<lfloor>y\<rfloor>")
  case True
  with assms show ?thesis by (auto simp: round_half_even_def Let_def)
next
  case False
  with assms have "\<lfloor>x\<rfloor> + 1 \<le> \<lfloor>y\<rfloor>" using floor_mono [OF assms] by simp
  then show ?thesis
    using round_half_even_bounds(2) [of x] round_half_even_bounds(1) [of y] by linarith
qed

section \<open>Rounding to a binary format\<close>

lemma quantum_exp_mono: "0 < x \<Longrightarrow> x \<le> y \<Longrightarrow> quantum_exp p emin x \<le> quantum_exp p emin y"
  using flog2_mono [of x y] by (simp add: quantum_exp_def)

lemma powi2_int: "0 \<le> k \<Longrightarrow> (2::rat) powi k = of_int (2 ^ nat k)"
  by (rule powi2_of_nat)

lemma fl_pos_multiple:
  assumes "x = of_int m * 2 powi k" and "quantum_exp p emin x \<le> k"
  shows "fl_pos p emin x = x"
proof -
  let ?q = "quantum_exp p emin x"
  have "x / 2 powi ?q = of_int m * 2 powi (k - ?q)"
    unfolding powi2_diff by (simp add: assms(1))
  also have "\<dots> = of_int (m * 2 ^ nat (k - ?q))"
    using assms(2) by (simp add: powi2_int)
  finally have "x / 2 powi ?q = of_int (m * 2 ^ nat (k - ?q))" .
  then have "of_int (round_half_even (x / 2 powi ?q)) = x / 2 powi ?q"
    by (simp only: round_half_even_of_int)
  then show ?thesis by (simp add: fl_pos_def Let_def)
qed

lemma fl_pos_mono:
  assumes x: "0 < x" and xy: "x \<le> y" and p: "0 < p"
  shows "fl_pos p emin x \<le> fl_pos p emin y"
proof -
  let ?qx = "quantum_exp p emin x" and ?qy = "quantum_exp p emin y"
  let ?b = "(2::rat) powi flog2 y"
  have y: "0 < y" using x xy by simp
  show ?thesis
  proof (cases "?qx = ?qy")
    case True
    have "x / 2 powi ?qy \<le> y / 2 powi ?qy" using xy by (simp add: divide_right_mono)
    then show ?thesis
      using True by (auto simp: fl_pos_def Let_def round_half_even_mono)
  next
    case False
    with quantum_exp_mono [OF x xy] have less: "?qx < ?qy" by (simp add: order_less_le)
    then have qy: "?qy = flog2 y - int p + 1" and lg: "flog2 x < flog2 y"
      by (auto simp: quantum_exp_def max_def split: if_splits)
    have bx: "x / 2 powi ?qx \<le> of_int (2 ^ nat (flog2 y - ?qx))"
    proof -
      have "x \<le> 2 powi (flog2 x + 1)" using flog2_bounds(2) [OF x] by simp
      also have "\<dots> \<le> ?b" using lg by (simp add: powi2_mono)
      finally have "x / 2 powi ?qx \<le> ?b / 2 powi ?qx" by (simp add: divide_right_mono)
      also have "\<dots> = 2 powi (flog2 y - ?qx)" by (simp add: powi2_diff)
      finally show ?thesis using less qy p by (simp add: powi2_int)
    qed
    have yb: "of_int (2 ^ (p - 1)) \<le> y / 2 powi ?qy"
    proof -
      have "(2::rat) powi (flog2 y - ?qy) = ?b / 2 powi ?qy" by (simp add: powi2_diff)
      also have "\<dots> \<le> y / 2 powi ?qy" using flog2_bounds(1) [OF y] by (simp add: divide_right_mono)
      finally have "2 powi (flog2 y - ?qy) \<le> y / 2 powi ?qy" .
      moreover have "flog2 y - ?qy = int (p - 1)" using qy p by simp
      ultimately show ?thesis by simp
    qed
    have "fl_pos p emin x \<le> of_int (2 ^ nat (flog2 y - ?qx)) * 2 powi ?qx"
      using round_half_even_mono [OF bx] by (simp add: fl_pos_def Let_def del: of_int_power)
    also have "\<dots> = ?b"
    proof -
      have "0 \<le> flog2 y - ?qx" using less qy p by simp
      then have "of_int (2 ^ nat (flog2 y - ?qx)) = (2::rat) powi (flog2 y - ?qx)"
        by (simp only: powi2_int)
      then show ?thesis by (simp add: powi2_diff)
    qed
    also have "\<dots> = of_int (2 ^ (p - 1)) * 2 powi ?qy"
    proof -
      have "of_int (2 ^ (p - 1)) * 2 powi ?qy = (2::rat) powi (int (p - 1) + ?qy)"
        by (simp add: powi2_add)
      also have "int (p - 1) + ?qy = flog2 y" using qy p by simp
      finally show ?thesis by simp
    qed
    also have "\<dots> \<le> fl_pos p emin y"
      using round_half_even_mono [OF yb] by (simp add: fl_pos_def Let_def del: of_int_power)
    finally show ?thesis .
  qed
qed

lemma fl_pos_ge0: "0 < x \<Longrightarrow> 0 \<le> fl_pos p emin x"
  using round_half_even_mono [of 0 "x / 2 powi quantum_exp p emin x"] round_half_even_of_int [of 0]
  by (simp add: fl_pos_def Let_def)

lemma fl_mono:
  assumes "x \<le> y" and p: "0 < p"
  shows "fl p emin x \<le> fl p emin y"
proof -
  consider "0 < x" | "x \<le> 0" "0 \<le> y" | "y < 0" using assms(1) by linarith
  then show ?thesis
  proof cases
    case 1
    then show ?thesis using assms fl_pos_mono [of x y p emin] by (simp add: fl_def)
  next
    case 2
    then show ?thesis using fl_pos_ge0 [of "- x" p emin] fl_pos_ge0 [of y p emin]
      by (auto simp: fl_def)
  next
    case 3
    then show ?thesis using assms fl_pos_mono [of "- y" "- x" p emin] by (simp add: fl_def)
  qed
qed

lemma fl_0 [simp]: "fl p emin 0 = 0"
  by (simp add: fl_def)

lemma fl_of_int:
  assumes "\<bar>z\<bar> < 2 ^ p" and "emin \<le> 0"
  shows "fl p emin (of_int z) = of_int z"
proof -
  have pos: "fl_pos p emin (of_int m) = of_int m" if "0 < m" "m < 2 ^ p" for m :: int
  proof (rule fl_pos_multiple [where m = m and k = 0])
    have "(of_int m :: rat) < of_int (2 ^ p)" using that(2) by (simp only: of_int_less_iff)
    then have "flog2 (of_int m) < int p" using that(1) by (intro flog2_upper) auto
    then show "quantum_exp p emin (of_int m) \<le> 0" using assms(2) by (simp add: quantum_exp_def)
  qed simp
  show ?thesis
    using assms(1) pos [of z] pos [of "- z"] by (auto simp: fl_def)
qed

text \<open>The instances the code uses.\<close>

lemma fl32_mono: "x \<le> y \<Longrightarrow> fl32 x \<le> fl32 y"
  by (simp add: fl32_def fl_mono)

lemma fl64_mono: "x \<le> y \<Longrightarrow> fl64 x \<le> fl64 y"
  by (simp add: fl64_def fl_mono)

lemma fl32_of_int: "\<bar>z\<bar> < 16777216 \<Longrightarrow> fl32 (of_int z) = of_int z"
  by (simp add: fl32_def fl_of_int)

lemma fl64_of_int: "\<bar>z\<bar> < 9007199254740992 \<Longrightarrow> fl64 (of_int z) = of_int z"
  by (simp add: fl64_def fl_of_int)

lemma fl32_simps [simp]: "fl32 0 = 0" "fl32 1 = 1"
  using fl32_of_int [of 0] fl32_of_int [of 1] by simp_all

lemma fl64_simps [simp]: "fl64 0 = 0" "fl64 1 = 1" "fl64 255 = 255"
  using fl64_of_int [of 0] fl64_of_int [of 1] fl64_of_int [of 255] by simp_all

lemma fl32_unit: "0 \<le> x \<Longrightarrow> x \<le> 1 \<Longrightarrow> 0 \<le> fl32 x \<and> fl32 x \<le> 1"
  using fl32_mono [of 0 x] fl32_mono [of x 1] by simp

lemma fl64_unit: "0 \<le> x \<Longrightarrow> x \<le> 1 \<Longrightarrow> 0 \<le> fl64 x \<and> fl64 x \<le> 1"
  using fl64_mono [of 0 x] fl64_mono [of x 1] by simp

lemma fl64_tone: "0 \<le> x \<Longrightarrow> x \<le> 255 \<Longrightarrow> 0 \<le> fl64 x \<and> fl64 x \<le> 255"
  using fl64_mono [of 0 x] fl64_mono [of x 255] by simp

lemma lround_of_int [simp]: "lround (of_int z) = z"
  by (auto simp: lround_def; linarith)

lemma lround_mono: "x \<le> y \<Longrightarrow> lround x \<le> lround y"
  unfolding lround_def by (auto; linarith)

lemma lround_tone: "0 \<le> x \<Longrightarrow> x \<le> 255 \<Longrightarrow> 0 \<le> lround x \<and> lround x \<le> 255"
  using lround_mono [of 0 x] lround_mono [of x 255] lround_of_int [of 0] lround_of_int [of 255]
  by simp

section \<open>Rounding errors\<close>

lemma round_half_even_error: "\<bar>of_int (round_half_even x) - x\<bar> \<le> (1/2 :: rat)"
proof -
  have f: "of_int \<lfloor>x\<rfloor> \<le> x" "x < of_int \<lfloor>x\<rfloor> + 1" by linarith+
  show ?thesis using f by (auto simp: round_half_even_def Let_def abs_le_iff)
qed

lemma fl_error:
  assumes "0 \<le> x" and "x < 2 powi k"
  shows "\<bar>fl p emin x - x\<bar> \<le> 2 powi (max (k - int p) emin) / 2"
proof (cases "x = 0")
  case True
  then show ?thesis by (simp add: fl_def)
next
  case False
  then have x: "0 < x" using assms(1) by simp
  define q where "q = quantum_exp p emin x"
  have pos: "0 < (2::rat) powi q" by simp
  have "q \<le> max (k - int p) emin"
    using flog2_upper [OF x assms(2)] by (simp add: q_def quantum_exp_def)
  then have le: "(2::rat) powi q \<le> 2 powi (max (k - int p) emin)" by (simp only: powi2_mono)
  have "fl p emin x - x = (of_int (round_half_even (x / 2 powi q)) - x / 2 powi q) * 2 powi q"
    using x by (simp add: fl_def fl_pos_def q_def Let_def left_diff_distrib)
  then have "\<bar>fl p emin x - x\<bar> = \<bar>of_int (round_half_even (x / 2 powi q)) - x / 2 powi q\<bar> * 2 powi q"
    using pos by (simp add: abs_mult)
  also have "\<dots> \<le> (1/2) * 2 powi q"
    using round_half_even_error [of "x / 2 powi q"] pos by (intro mult_right_mono) auto
  also have "\<dots> \<le> 2 powi (max (k - int p) emin) / 2" using le by simp
  finally show ?thesis .
qed

lemma fl_pos_idem:
  assumes "0 < x" and p: "0 < p"
  shows "fl_pos p emin (fl_pos p emin x) = fl_pos p emin x"
proof (cases "fl_pos p emin x = 0")
  case True
  show ?thesis unfolding True using round_half_even_of_int [of 0] by (simp add: fl_pos_def Let_def)
next
  case False
  define q where "q = quantum_exp p emin x"
  define m where "m = round_half_even (x / 2 powi q)"
  have y: "fl_pos p emin x = of_int m * 2 powi q" by (simp add: fl_pos_def q_def m_def Let_def)
  have pq: "0 < (2::rat) powi q" by simp
  have "0 \<le> x / 2 powi q" using assms(1) by simp
  then have "0 \<le> m" unfolding m_def using round_half_even_bounds(1) [of "x / 2 powi q"] by linarith
  moreover have "m \<noteq> 0" using False y by auto
  ultimately have m0: "0 < m" by simp
  have "flog2 x \<le> q + int p - 1" by (simp add: q_def quantum_exp_def)
  then have "x < 2 powi (q + int p)"
    using flog2_bounds(2) [OF assms(1)] powi2_mono [of "flog2 x + 1" "q + int p"] by linarith
  then have "x / 2 powi q < 2 powi (int p)" using pq by (simp add: powi2_add pos_divide_less_eq mult.commute)
  then have "x / 2 powi q < of_int (2 ^ p)" by (simp add: power_int_def)
  then have mle: "m \<le> 2 ^ p"
    unfolding m_def using round_half_even_mono [of "x / 2 powi q" "of_int (2 ^ p)"] by (simp del: of_int_power)
  show ?thesis
  proof (cases "m = 2 ^ p")
    case True
    have "(of_int m :: rat) * 2 powi q = of_int (2 ^ (p - 1)) * 2 powi (q + 1)"
      using p True by (simp add: powi2_add power_eq_if)
    moreover have "flog2 (fl_pos p emin x) < q + int p + 1"
    proof (rule flog2_upper)
      show "0 < fl_pos p emin x" using m0 pq by (simp add: y)
      show "fl_pos p emin x < 2 powi (q + int p + 1)"
      proof -
        have "fl_pos p emin x = 2 powi (q + int p)" by (simp add: y True powi2_add)
        then show ?thesis by (simp add: powi2_add)
      qed
    qed
    moreover have "emin \<le> q" by (simp add: q_def quantum_exp_def)
    ultimately have "quantum_exp p emin (fl_pos p emin x) \<le> q + 1" by (simp add: quantum_exp_def)
    then show ?thesis
      using fl_pos_multiple [of "fl_pos p emin x" "2 ^ (p - 1)" "q + 1" p emin]
        \<open>of_int m * 2 powi q = of_int (2 ^ (p - 1)) * 2 powi (q + 1)\<close> y by simp
  next
    case False
    have "flog2 (fl_pos p emin x) < q + int p"
    proof (rule flog2_upper)
      show "0 < fl_pos p emin x" using m0 pq by (simp add: y)
      have "(of_int m :: rat) < of_int (2 ^ p)" using mle False by (simp only: of_int_less_iff)
      then have "(of_int m :: rat) * 2 powi q < of_int (2 ^ p) * 2 powi q" using pq by (rule mult_strict_right_mono)
      then show "fl_pos p emin x < 2 powi (q + int p)" by (simp add: y powi2_add mult.commute)
    qed
    moreover have "emin \<le> q" by (simp add: q_def quantum_exp_def)
    ultimately have "quantum_exp p emin (fl_pos p emin x) \<le> q" by (simp add: quantum_exp_def)
    then show ?thesis by (rule fl_pos_multiple [OF y])
  qed
qed

lemma fl64_idem: "0 \<le> x \<Longrightarrow> fl64 (fl64 x) = fl64 x"
proof (cases "x = 0")
  case False
  assume "0 \<le> x"
  with False have x: "0 < x" by simp
  have "0 \<le> fl64 x" using fl64_mono [of 0 x] x by simp
  then show ?thesis using fl_pos_idem [OF x, of 53 "- 1074"] x
    by (auto simp: fl64_def fl_def)
qed simp

text \<open>An 8-bit level survives the trip to \<open>i / 255.0\<close> and back.\<close>

lemma fl64_level_round:
  assumes "0 \<le> i" and "i \<le> 255"
  shows "lround (fl64 (fl64 (of_int i / 255) * 255)) = i"
proof -
  define y where "y = fl64 (of_int i / 255)"
  have tiny: "(1/2 :: rat) ^ 52 \<le> 1 / 1000000" "(1/2 :: rat) ^ 44 \<le> 1 / 1000000"
    by (simp_all add: power_one_over)
  have half_le: "\<bar>a\<bar> * 2 \<le> b \<Longrightarrow> \<bar>a\<bar> \<le> b" for a b :: rat
    using abs_ge_zero [of a] by linarith
  have x: "0 \<le> (of_int i / 255 :: rat)" "(of_int i / 255 :: rat) \<le> 1" using assms by simp_all
  then have "\<bar>y - of_int i / 255\<bar> \<le> 2 powi (max (1 - int 53) (- 1074)) / 2"
    unfolding y_def fl64_def by (intro fl_error) simp_all
  then have "\<bar>y - of_int i / 255\<bar> * 2 \<le> (1/2) ^ 52" by (simp add: power_int_def)
  then have e1: "\<bar>y - of_int i / 255\<bar> \<le> 1 / 1000000"
    using order.trans [OF _ tiny(1)] half_le by blast
  have y: "0 \<le> y" "y \<le> 1" using fl64_unit [OF x] by (simp_all add: y_def)
  then have "\<bar>fl64 (y * 255) - y * 255\<bar> \<le> 2 powi (max (9 - int 53) (- 1074)) / 2"
    unfolding fl64_def by (intro fl_error) simp_all
  then have "\<bar>fl64 (y * 255) - y * 255\<bar> * 2 \<le> (1/2) ^ 44" by (simp add: power_int_def)
  then have e2: "\<bar>fl64 (y * 255) - y * 255\<bar> \<le> 1 / 1000000"
    using order.trans [OF _ tiny(2)] half_le by blast
  have "y - of_int i / 255 \<le> 1 / 1000000" "- (y - of_int i / 255) \<le> 1 / 1000000"
    "fl64 (y * 255) - y * 255 \<le> 1 / 1000000" "- (fl64 (y * 255) - y * 255) \<le> 1 / 1000000"
    using e1 e2 by (simp_all only: abs_le_iff)
  then have "of_int i - 1/2 < fl64 (y * 255)" "fl64 (y * 255) < of_int i + 1/2" by linarith+
  moreover have "0 \<le> fl64 (y * 255)" using fl64_tone [of "y * 255"] y by simp
  ultimately show ?thesis unfolding y_def [symmetric] lround_def by (simp add: floor_eq_iff)
qed

end
