(* ===== verification/Qt_Variant.thy ===== *)
theory Qt_Variant
  imports Ieee_Arith
begin

text \<open>
  The Qt value types the program passes around are not part of the repository, so they
  are parameters. A \<open>QVariantMap\<close> is a map from keys to values of an arbitrary type
  \<open>'v\<close>, and the \<open>QVariant\<close> conversions and constructors the code calls are the fields
  of \<open>qvariant\<close>. The locale \<open>qvariant_laws\<close> states the documented behaviour the code
  relies on (a value put in comes out again); \<open>variant\<close> is a concrete type with these
  operations, and the interpretation discharges the laws for it.
\<close>

type_synonym 'v vmap = "string \<rightharpoonup> 'v"

record 'v qvariant =
  toInt :: "'v \<Rightarrow> int"
  toUInt :: "'v \<Rightarrow> u32"
  toLongLong :: "'v \<Rightarrow> int"
  toULongLong :: "'v \<Rightarrow> u64"
  toDouble :: "'v \<Rightarrow> rat"
  toBool :: "'v \<Rightarrow> bool"
  toStr :: "'v \<Rightarrow> string"
  toByteArray :: "'v \<Rightarrow> bytes"
  toList :: "'v \<Rightarrow> 'v list"
  toMap :: "'v \<Rightarrow> 'v vmap"
  ofInt :: "int \<Rightarrow> 'v"
  ofULongLong :: "u64 \<Rightarrow> 'v"
  ofDouble :: "rat \<Rightarrow> 'v"
  ofBool :: "bool \<Rightarrow> 'v"
  ofStr :: "string \<Rightarrow> 'v"
  ofByteArray :: "bytes \<Rightarrow> 'v"
  ofList :: "'v list \<Rightarrow> 'v"
  ofMap :: "'v vmap \<Rightarrow> 'v"
  invalid :: "'v"

section \<open>Lookups with a default\<close>

definition mapValue :: "'v vmap \<Rightarrow> string \<Rightarrow> 'v \<Rightarrow> 'v" where
  \<comment> \<open>\<open>QVariantMap::value(key, defaultValue)\<close>\<close>
  "mapValue m k d = (case m k of Some v \<Rightarrow> v | None \<Rightarrow> d)"

definition vmInt :: "'v qvariant \<Rightarrow> 'v vmap \<Rightarrow> string \<Rightarrow> int \<Rightarrow> int" where
  "vmInt Q m k def = (case m k of Some v \<Rightarrow> toInt Q v | None \<Rightarrow> def)"

definition vmLongLong :: "'v qvariant \<Rightarrow> 'v vmap \<Rightarrow> string \<Rightarrow> int \<Rightarrow> int" where
  "vmLongLong Q m k def = (case m k of Some v \<Rightarrow> toLongLong Q v | None \<Rightarrow> def)"

definition vmBool :: "'v qvariant \<Rightarrow> 'v vmap \<Rightarrow> string \<Rightarrow> bool \<Rightarrow> bool" where
  "vmBool Q m k def = (case m k of Some v \<Rightarrow> toBool Q v | None \<Rightarrow> def)"

lemma vmInt_empty [simp]: "vmInt Q Map.empty k d = d"
  by (simp add: vmInt_def)

lemma vmBool_empty [simp]: "vmBool Q Map.empty k d = d"
  by (simp add: vmBool_def)

lemma mapValue_Some [simp]: "m k = Some v \<Longrightarrow> mapValue m k d = v"
  by (simp add: mapValue_def)

section \<open>The documented laws\<close>

locale qvariant_laws =
  fixes Q :: "'v qvariant"
  assumes toInt_ofInt: "fits_int x \<Longrightarrow> toInt Q (ofInt Q x) = x"
    and toLongLong_ofInt: "fits_int x \<Longrightarrow> toLongLong Q (ofInt Q x) = x"
    and toULongLong_ofULongLong: "toULongLong Q (ofULongLong Q w) = w"
    and toUInt_ofULongLong: "toUInt Q (ofULongLong Q (ucast (h :: u32))) = h"
    and toDouble_ofDouble: "toDouble Q (ofDouble Q r) = r"
    and toBool_ofBool: "toBool Q (ofBool Q b) = b"
    and toStr_ofStr: "toStr Q (ofStr Q s) = s"
    and toByteArray_ofByteArray: "toByteArray Q (ofByteArray Q bs) = bs"
    and toList_ofList: "toList Q (ofList Q vs) = vs"
    and toMap_ofMap: "toMap Q (ofMap Q m) = m"
    and toInt_fits: "fits_int (toInt Q v)"
begin

lemmas variant_simps =
  toInt_ofInt toLongLong_ofInt toULongLong_ofULongLong toUInt_ofULongLong toDouble_ofDouble toBool_ofBool
  toStr_ofStr toByteArray_ofByteArray toList_ofList toMap_ofMap

lemma mapValue_int: "fits_int x \<Longrightarrow> toInt Q (mapValue (m(k \<mapsto> ofInt Q x)) k d) = x"
  by (simp add: mapValue_def toInt_ofInt)

lemma map_toInt_ofInt:
  "\<forall>x \<in> set xs. fits_int x \<Longrightarrow> map (toInt Q) (toList Q (ofList Q (map (ofInt Q) xs))) = xs"
  by (induction xs) (auto simp: toList_ofList toInt_ofInt)

lemma map_toUInt_ofULongLong:
  "map (toUInt Q) (toList Q (ofList Q (map (\<lambda>w. ofULongLong Q (ucast w)) ws))) = (ws :: u32 list)"
  by (induction ws) (auto simp: toList_ofList toUInt_ofULongLong)

end

section \<open>A concrete variant type\<close>

datatype variant =
    VInvalid
  | VInt int
  | VULong u64
  | VDouble rat
  | VBool bool
  | VStr string
  | VBytes bytes
  | VList "variant list"
  | VMap "string \<Rightarrow> variant option"

fun variant_int :: "variant \<Rightarrow> int" where
  "variant_int (VInt x) = sint (cast32 x)"
| "variant_int (VULong w) = sint (ucast w :: u32)"
| "variant_int (VBool b) = (if b then 1 else 0)"
| "variant_int _ = 0"

fun variant_long :: "variant \<Rightarrow> int" where
  "variant_long (VInt x) = sint (word_of_int x :: u64)"
| "variant_long (VULong w) = sint w"
| "variant_long (VBool b) = (if b then 1 else 0)"
| "variant_long _ = 0"

fun variant_ulong :: "variant \<Rightarrow> u64" where
  "variant_ulong (VULong w) = w"
| "variant_ulong (VInt x) = word_of_int x"
| "variant_ulong _ = 0"

fun variant_double :: "variant \<Rightarrow> rat" where
  "variant_double (VDouble r) = r"
| "variant_double (VInt x) = of_int x"
| "variant_double _ = 0"

fun variant_bool :: "variant \<Rightarrow> bool" where
  "variant_bool (VBool b) = b"
| "variant_bool (VInt x) = (x \<noteq> 0)"
| "variant_bool _ = False"

fun variant_str :: "variant \<Rightarrow> string" where
  "variant_str (VStr s) = s"
| "variant_str _ = []"

fun variant_bytes :: "variant \<Rightarrow> bytes" where
  "variant_bytes (VBytes bs) = bs"
| "variant_bytes _ = []"

fun variant_list :: "variant \<Rightarrow> variant list" where
  "variant_list (VList vs) = vs"
| "variant_list _ = []"

fun variant_map :: "variant \<Rightarrow> variant vmap" where
  "variant_map (VMap m) = m"
| "variant_map _ = Map.empty"

definition plain_variant :: "variant qvariant" where
  "plain_variant =
     \<lparr>toInt = variant_int, toUInt = (\<lambda>v. ucast (variant_ulong v)), toLongLong = variant_long, toULongLong = variant_ulong,
      toDouble = variant_double, toBool = variant_bool, toStr = variant_str,
      toByteArray = variant_bytes, toList = variant_list, toMap = variant_map,
      ofInt = VInt, ofULongLong = VULong, ofDouble = VDouble, ofBool = VBool, ofStr = VStr,
      ofByteArray = VBytes, ofList = VList, ofMap = VMap, invalid = VInvalid\<rparr>"

lemma ucast_down_up_u32: "(ucast (ucast (h :: u32) :: u64) :: u32) = h"
  by (simp add: ucast_down_ucast_id is_down)

lemma sint_cast32: "fits_int x \<Longrightarrow> sint (cast32 x) = x"
  by (simp add: fits_int_def int_min_def int_max_def int_word_sint)

lemma sint_of_int64: "fits_int x \<Longrightarrow> sint (word_of_int x :: u64) = x"
  by (simp add: fits_int_def int_min_def int_max_def int_word_sint)

lemma fits_sint32: "fits_int (sint (w :: u32))"
  using sint_range_size [of w] by (simp add: fits_int_def int_min_def int_max_def word_size)

lemma fits_variant_int: "fits_int (variant_int v)"
  by (cases v) (simp_all add: fits_sint32, simp_all add: fits_int_def int_min_def int_max_def)

interpretation plain: qvariant_laws plain_variant
  by unfold_locales
    (simp_all add: plain_variant_def ucast_down_up_u32 sint_cast32 sint_of_int64 fits_variant_int)

end
