(* ===== verification/Service_Protocol.thy ===== *)
theory Service_Protocol
  imports Spool_Laws Qt_Variant
begin

text \<open>
  \<open>printerservice/PrinterServiceProtocol\<close>: what the application and the printer service
  say to each other. A message is a \<open>QVariantMap\<close> in a length-prefixed frame; settings,
  spool metadata and in-memory rasters travel as maps, the raster's lines as one flat
  payload. The encoding of a whole map by \<open>QDataStream\<close> is the parameter \<open>codec\<close>; the
  byte-level operators and the variants are the parameters of \<open>Qt_Stream\<close> and
  \<open>Qt_Variant\<close>.
\<close>

section \<open>Frames\<close>

definition ServiceMagic :: u32 where "ServiceMagic = 0x50465053"
definition ServiceVersion :: u16 where "ServiceVersion = 1"
definition MaximumFrameSize :: u32 where "MaximumFrameSize = 512 * 1024 * 1024"

record 'v codec =
  putMap :: "'v vmap \<Rightarrow> bytes option" \<comment> \<open>\<open>None\<close>: the stream status is not \<open>Ok\<close>\<close>
  getMap :: "bytes \<Rightarrow> ('v vmap \<times> bytes) option"

datatype protocol_error =
    FrameLength
  | FrameCorrupt
  | FrameVersion u16
  | RasterSpoolFormat
  | RasterSpoolHeader
  | RasterSpoolIncomplete
  | RasterSpoolChannels
  | RasterStorage
  | RasterDimensions
  | RasterLineMissing
  | RasterLineSize
  | RasterSizeMismatch \<comment> \<open>\<open>return false\<close> without a message\<close>
  | RasterFormat
  | RasterChannel
  | RasterPayloadLength
  | RasterHeader
  | PayloadOverrun \<comment> \<open>the code reads past the end of the payload; undefined in C++\<close>

definition encodeFrame :: "datastream \<Rightarrow> 'v codec \<Rightarrow> 'v vmap \<Rightarrow> bytes" where
  "encodeFrame S K message =
     (case putMap K message of
        None \<Rightarrow> []
      | Some m \<Rightarrow>
        let body = put32 S ServiceMagic @ put16 S ServiceVersion @ m in
        if length body > unat MaximumFrameSize then []
        else put32 S (of_nat (length body)) @ body)"

datatype 'v decode_status =
    FrameIncomplete
  | FrameComplete "'v vmap"
  | FrameInvalid protocol_error

definition takeFrame :: "datastream \<Rightarrow> 'v codec \<Rightarrow> bytes \<Rightarrow> 'v decode_status \<times> bytes" where
  \<comment> \<open>the status with the decoded message, and what is left of \<open>buffer\<close>\<close>
  "takeFrame S K buffer =
     (if length buffer < 4 then (FrameIncomplete, buffer)
      else case get32 S (take 4 buffer) of
        None \<Rightarrow> (FrameInvalid FrameLength, buffer)
      | Some (bodySize, _) \<Rightarrow>
        if bodySize = 0 \<or> bodySize > MaximumFrameSize then (FrameInvalid FrameLength, buffer)
        else let frameSize = 4 + unat bodySize in
        if length buffer < frameSize then (FrameIncomplete, buffer)
        else let body = take (unat bodySize) (drop 4 buffer);
                 rest = drop frameSize buffer in
        (case read_then (get32 S body) (\<lambda>magic b. read_then (get16 S b) (\<lambda>version b.
                read_then (getMap K b) (\<lambda>decoded _. Some (magic, version, decoded)))) of
           None \<Rightarrow> (FrameInvalid FrameCorrupt, rest)
         | Some (magic, version, decoded) \<Rightarrow>
             if magic \<noteq> ServiceMagic then (FrameInvalid FrameCorrupt, rest)
             else if version \<noteq> ServiceVersion then (FrameInvalid (FrameVersion version), rest)
             else (FrameComplete decoded, rest)))"

datatype 'a host_address = LocalHost | LocalHostIPv6 | OtherHost 'a

definition isAllowedBridgeAddress :: "'a host_address \<Rightarrow> bool" where
  "isAllowedBridgeAddress address \<longleftrightarrow> address = LocalHost \<or> address = LocalHostIPv6"

definition defaultSocketName :: "string \<Rightarrow> string \<Rightarrow> string \<Rightarrow> string" where
  \<comment> \<open>the trimmed environment variable and the two standard locations\<close>
  "defaultSocketName envSocket runtimeDirectory tempDirectory =
     (if envSocket \<noteq> [] then envSocket
      else filePath (if runtimeDirectory = [] then tempDirectory else runtimeDirectory)
             ''printflow-printer-service-v1'')"

section \<open>Settings\<close>

record print_settings = \<comment> \<open>\<open>DirectPrintSettings\<close>\<close>
  printerIndex :: int
  printDirection :: int
  printSpeed :: int
  wcSequence :: int
  eclosionGrade :: int
  headSelect :: int
  whiteInkPercent :: int
  whiteInkPassCount :: int
  varnishInkPercent :: int
  varnishInkPassCount :: int
  headVoltage :: int
  disableUv0 :: int
  disableUv1 :: int
  disableUv2 :: int
  disableUv3 :: int
  disableUv4 :: int
  disableUv5 :: int
  carReset :: int
  stripBlank :: int
  blankDistance :: int
  printOffsetXmm :: int
  printOffsetYmm :: int
  mediaHeightMm :: rat
  print_pass :: int
  vsdMode :: int

definition default_settings :: print_settings where
  "default_settings =
     \<lparr>printerIndex = -1, printDirection = 0, printSpeed = 1, wcSequence = 0, eclosionGrade = 2,
      headSelect = 0, whiteInkPercent = 0, whiteInkPassCount = 0, varnishInkPercent = 0,
      varnishInkPassCount = 0, headVoltage = 512, disableUv0 = 0, disableUv1 = 0, disableUv2 = 0,
      disableUv3 = 0, disableUv4 = 0, disableUv5 = 0, carReset = 0, stripBlank = 0,
      blankDistance = 0, printOffsetXmm = 0, printOffsetYmm = 0, mediaHeightMm = -1,
      print_pass = 0, vsdMode = 0\<rparr>"

definition settingsToMap :: "'v qvariant \<Rightarrow> print_settings \<Rightarrow> 'v vmap" where
  "settingsToMap Q s =
     [''printerIndex'' \<mapsto> ofInt Q (printerIndex s),
      ''printDirection'' \<mapsto> ofInt Q (printDirection s),
      ''printSpeed'' \<mapsto> ofInt Q (printSpeed s),
      ''wcSequence'' \<mapsto> ofInt Q (wcSequence s),
      ''eclosionGrade'' \<mapsto> ofInt Q (eclosionGrade s),
      ''headSelect'' \<mapsto> ofInt Q (headSelect s),
      ''whiteInkPercent'' \<mapsto> ofInt Q (whiteInkPercent s),
      ''whiteInkPassCount'' \<mapsto> ofInt Q (whiteInkPassCount s),
      ''varnishInkPercent'' \<mapsto> ofInt Q (varnishInkPercent s),
      ''varnishInkPassCount'' \<mapsto> ofInt Q (varnishInkPassCount s),
      ''headVoltage'' \<mapsto> ofInt Q (headVoltage s),
      ''disableUv0'' \<mapsto> ofInt Q (disableUv0 s),
      ''disableUv1'' \<mapsto> ofInt Q (disableUv1 s),
      ''disableUv2'' \<mapsto> ofInt Q (disableUv2 s),
      ''disableUv3'' \<mapsto> ofInt Q (disableUv3 s),
      ''disableUv4'' \<mapsto> ofInt Q (disableUv4 s),
      ''disableUv5'' \<mapsto> ofInt Q (disableUv5 s),
      ''carReset'' \<mapsto> ofInt Q (carReset s),
      ''stripBlank'' \<mapsto> ofInt Q (stripBlank s),
      ''blankDistance'' \<mapsto> ofInt Q (blankDistance s),
      ''printOffsetXmm'' \<mapsto> ofInt Q (printOffsetXmm s),
      ''printOffsetYmm'' \<mapsto> ofInt Q (printOffsetYmm s),
      ''mediaHeightMm'' \<mapsto> ofDouble Q (mediaHeightMm s),
      ''pass'' \<mapsto> ofInt Q (print_pass s),
      ''vsdMode'' \<mapsto> ofInt Q (vsdMode s)]"

definition settingsFromMap :: "'v qvariant \<Rightarrow> 'v vmap \<Rightarrow> print_settings" where
  "settingsFromMap Q m =
     (let v = default_settings in
      \<lparr>printerIndex = vmInt Q m ''printerIndex'' (printerIndex v),
       printDirection = vmInt Q m ''printDirection'' (printDirection v),
       printSpeed = vmInt Q m ''printSpeed'' (printSpeed v),
       wcSequence = vmInt Q m ''wcSequence'' (wcSequence v),
       eclosionGrade = vmInt Q m ''eclosionGrade'' (eclosionGrade v),
       headSelect = vmInt Q m ''headSelect'' (headSelect v),
       whiteInkPercent = vmInt Q m ''whiteInkPercent'' (whiteInkPercent v),
       whiteInkPassCount = vmInt Q m ''whiteInkPassCount'' (whiteInkPassCount v),
       varnishInkPercent = vmInt Q m ''varnishInkPercent'' (varnishInkPercent v),
       varnishInkPassCount = vmInt Q m ''varnishInkPassCount'' (varnishInkPassCount v),
       headVoltage = vmInt Q m ''headVoltage'' (headVoltage v),
       disableUv0 = vmInt Q m ''disableUv0'' (disableUv0 v),
       disableUv1 = vmInt Q m ''disableUv1'' (disableUv1 v),
       disableUv2 = vmInt Q m ''disableUv2'' (disableUv2 v),
       disableUv3 = vmInt Q m ''disableUv3'' (disableUv3 v),
       disableUv4 = vmInt Q m ''disableUv4'' (disableUv4 v),
       disableUv5 = vmInt Q m ''disableUv5'' (disableUv5 v),
       carReset = vmInt Q m ''carReset'' (carReset v),
       stripBlank = vmInt Q m ''stripBlank'' (stripBlank v),
       blankDistance = vmInt Q m ''blankDistance'' (blankDistance v),
       printOffsetXmm = vmInt Q m ''printOffsetXmm'' (printOffsetXmm v),
       printOffsetYmm = vmInt Q m ''printOffsetYmm'' (printOffsetYmm v),
       mediaHeightMm = (case m ''mediaHeightMm'' of Some x \<Rightarrow> toDouble Q x | None \<Rightarrow> mediaHeightMm v),
       print_pass = vmInt Q m ''pass'' (print_pass v),
       vsdMode = vmInt Q m ''vsdMode'' (vsdMode v)\<rparr>)"

section \<open>Spool metadata\<close>

definition valueAt :: "'v qvariant \<Rightarrow> 'v vmap \<Rightarrow> string \<Rightarrow> 'v" where
  \<comment> \<open>\<open>QVariantMap::value(key)\<close>: a default-constructed variant when the key is missing\<close>
  "valueAt Q m k = mapValue m k (invalid Q)"

definition spoolMetadata :: "'v qvariant \<Rightarrow> spool \<Rightarrow> 'v vmap" where
  "spoolMetadata Q sp =
     [''width'' \<mapsto> ofInt Q (sp_width sp),
      ''height'' \<mapsto> ofInt Q (sp_height sp),
      ''xdpi'' \<mapsto> ofInt Q (sp_xdpi sp),
      ''ydpi'' \<mapsto> ofInt Q (sp_ydpi sp),
      ''bytesPerLine'' \<mapsto> ofInt Q (sp_lineBytes sp),
      ''format'' \<mapsto> ofInt Q (uint (sp_format sp)),
      ''logicalChannelCount'' \<mapsto> ofInt Q (sp_logical sp),
      ''channels'' \<mapsto> ofList Q (map (ofInt Q) (sp_order sp)),
      ''canonicalHeader'' \<mapsto> ofList Q (map (\<lambda>w. ofULongLong Q (ucast w)) (sp_header sp)),
      ''bodyOffset'' \<mapsto> ofULongLong Q (sp_bodyOffset sp),
      ''bodyBytes'' \<mapsto> ofULongLong Q (sp_bodyBytes sp),
      ''sha256'' \<mapsto> ofByteArray Q (sp_sha256 sp)]"

definition spoolMetadataFromMap :: "'v qvariant \<Rightarrow> 'v vmap \<Rightarrow> protocol_error + spool" where
  "spoolMetadataFromMap Q m =
     (let form = toInt Q (valueAt Q m ''format'') in
      if form < 0 \<or> form > 2 then Inl RasterSpoolFormat
      else let channels = map (toInt Q) (toList Q (valueAt Q m ''channels''));
               header = toList Q (valueAt Q m ''canonicalHeader'') in
      if length header \<noteq> 12 then Inl RasterSpoolHeader
      else let sp =
        \<lparr>sp_path = [], sp_order = channels,
         sp_logical = toInt Q (valueAt Q m ''logicalChannelCount''),
         sp_width = toInt Q (valueAt Q m ''width''),
         sp_height = toInt Q (valueAt Q m ''height''),
         sp_xdpi = toInt Q (valueAt Q m ''xdpi''),
         sp_ydpi = toInt Q (valueAt Q m ''ydpi''),
         sp_lineBytes = toInt Q (valueAt Q m ''bytesPerLine''),
         sp_format = cast8 form,
         sp_header = map (toUInt Q) header,
         sp_bodyOffset = toULongLong Q (valueAt Q m ''bodyOffset''),
         sp_bodyBytes = toULongLong Q (valueAt Q m ''bodyBytes''),
         sp_sha256 = toByteArray Q (valueAt Q m ''sha256'')\<rparr> in
      if length (sp_sha256 sp) \<noteq> 32 \<or> sp_bodyOffset sp = 0 \<or> sp_bodyBytes sp = 0 \<or> sp_order sp = []
      then Inl RasterSpoolIncomplete
      else if \<exists>channel \<in> set (sp_order sp). channel < 0 \<or> channel \<ge> sp_logical sp
      then Inl RasterSpoolChannels
      else Inr sp)"

section \<open>Rasters in memory\<close>

record raster = \<comment> \<open>\<open>DirectPrintRaster\<close>; \<open>ra_lines\<close> is what \<open>packedLines\<close> points to\<close>
  ra_lines :: "plane list option"
  ra_order :: "int list"
  ra_width :: int
  ra_height :: int
  ra_xdpi :: int
  ra_ydpi :: int
  ra_lineBytes :: int
  ra_format :: u8
  ra_header :: "u32 list"

definition rasterMetadata :: "'v qvariant \<Rightarrow> raster \<Rightarrow> 'v vmap" where
  "rasterMetadata Q r =
     [''width'' \<mapsto> ofInt Q (ra_width r),
      ''height'' \<mapsto> ofInt Q (ra_height r),
      ''xdpi'' \<mapsto> ofInt Q (ra_xdpi r),
      ''ydpi'' \<mapsto> ofInt Q (ra_ydpi r),
      ''bytesPerLine'' \<mapsto> ofInt Q (ra_lineBytes r),
      ''format'' \<mapsto> ofInt Q (uint (ra_format r)),
      ''channels'' \<mapsto> ofList Q (map (ofInt Q) (ra_order r)),
      ''canonicalHeader'' \<mapsto> ofList Q (map (\<lambda>w. ofULongLong Q (ucast w)) (ra_header r))]"

definition checkedRasterSize :: "int \<Rightarrow> int \<Rightarrow> int \<Rightarrow> nat option" where
  "checkedRasterSize rows channelCount bytesPerLine =
     (if rows \<le> 0 \<or> channelCount \<le> 0 \<or> bytesPerLine \<le> 0 then None
      else let totalSize = cast64 rows * cast64 channelCount * cast64 bytesPerLine in
        if totalSize > ucast MaximumFrameSize \<or> totalSize > 2 ^ 63 - 1 then None
        else Some (unat totalSize))"

definition serialize_line ::
  "plane list \<Rightarrow> int \<Rightarrow> nat \<times> int \<Rightarrow> bytes \<Rightarrow> protocol_error + bytes" where
  "serialize_line planes bytesPerLine cell payload =
     (case cell of (row, channel) \<Rightarrow>
       if channel < 0 \<or> channel \<ge> int (length planes) \<or> row \<ge> length (planes ! nat channel)
       then Inl RasterLineMissing
       else let line = planes ! nat channel ! row in
         if length line \<noteq> nat bytesPerLine then Inl RasterLineSize
         else Inr (payload @ line))"

definition row_cells :: "int \<Rightarrow> int list \<Rightarrow> (nat \<times> int) list" where
  \<comment> \<open>\<open>for row ... for channel : channelOrder\<close>\<close>
  "row_cells rows order = List.product [0..<nat rows] order"

definition serializeRaster :: "raster \<Rightarrow> protocol_error + bytes" where
  "serializeRaster r =
     (case ra_lines r of
        None \<Rightarrow> Inl RasterStorage
      | Some planes \<Rightarrow>
        (case checkedRasterSize (ra_height r) (int (length (ra_order r))) (ra_lineBytes r) of
           None \<Rightarrow> Inl RasterDimensions
         | Some totalSize \<Rightarrow>
           bind_res (fold_res (serialize_line planes (ra_lineBytes r)) (row_cells (ra_height r) (ra_order r)) [])
             (\<lambda>payload. if length payload = totalSize then Inr payload else Inl RasterSizeMismatch)))"

definition deserialize_line ::
  "bytes \<Rightarrow> int \<Rightarrow> nat \<times> int \<Rightarrow> plane list \<times> nat \<Rightarrow> protocol_error + plane list \<times> nat" where
  "deserialize_line payload bytesPerLine cell st =
     (case cell of (row, channel) \<Rightarrow> case st of (storage, off) \<Rightarrow>
       if off + nat bytesPerLine > length payload then Inl PayloadOverrun
       else let line = take (nat bytesPerLine) (drop off payload) in
         Inr (storage[nat channel := (storage ! nat channel)[row := line]], off + nat bytesPerLine))"

definition deserializeRaster :: "'v qvariant \<Rightarrow> 'v vmap \<Rightarrow> bytes \<Rightarrow> protocol_error + raster" where
  "deserializeRaster Q m payload =
     (let rows = toInt Q (valueAt Q m ''height'');
          bytesPerLine = toInt Q (valueAt Q m ''bytesPerLine'');
          form = toInt Q (valueAt Q m ''format'') in
      if form < 0 \<or> form > 2 then Inl RasterFormat
      else let channels = map (toInt Q) (toList Q (valueAt Q m ''channels'')) in
      if \<exists>channel \<in> set channels. channel < 0 \<or> channel > 15 then Inl RasterChannel
      else let maximumChannel = foldl max (-1) channels in
      (case checkedRasterSize rows (int (length channels)) bytesPerLine of
         None \<Rightarrow> Inl RasterPayloadLength
       | Some expectedSize \<Rightarrow>
         if length payload \<noteq> expectedSize then Inl RasterPayloadLength
         else let header = toList Q (valueAt Q m ''canonicalHeader'') in
         if length header \<noteq> 12 then Inl RasterHeader
         else let storage = replicate (nat (maximumChannel + 1)) (replicate (nat rows) []) in
           bind_res (fold_res (deserialize_line payload bytesPerLine) (row_cells rows channels) (storage, 0))
             (\<lambda>(storage, _). Inr
               \<lparr>ra_lines = Some storage, ra_order = channels,
                ra_width = toInt Q (valueAt Q m ''width''), ra_height = rows,
                ra_xdpi = toInt Q (valueAt Q m ''xdpi''), ra_ydpi = toInt Q (valueAt Q m ''ydpi''),
                ra_lineBytes = bytesPerLine, ra_format = cast8 form,
                ra_header = map (toUInt Q) header\<rparr>)))"

end
