(* ===== verification/Service_Server.thy ===== *)
theory Service_Server
  imports Service_Protocol "HOL-Library.AList"
begin

text \<open>
  \<open>printerservice/PrinterServiceServer\<close>: the process that owns the printer. Clients send
  one request per connection; a raster arrives as an upload (begin, chunks, commit) into a
  partial file, is verified against the metadata it was announced with and only then
  handed to the printer backend. The backend (\<open>NocaiDirectPrintClient\<close>) is an interface
  here: its operations are the fields of \<open>backend\<close>, over its own state \<open>'b\<close>. Time and
  fresh identifiers are arguments of the operations that read them.
\<close>

section \<open>The backend and the environment\<close>

record ('v, 'd, 'b) backend =
  be_isAvailable :: "'b \<Rightarrow> bool \<times> 'b"
  be_isConnected :: "'b \<Rightarrow> bool"
  be_lastError :: "'b \<Rightarrow> string"
  be_sdkRootPath :: "'b \<Rightarrow> string"
  be_autoDiscoverSdk :: "'b \<Rightarrow> bool"
  be_printers :: "'b \<Rightarrow> 'v list"
  be_maintenanceSupportedPrinters :: "'b \<Rightarrow> 'v"
  be_setSdkRootPath :: "string \<Rightarrow> 'b \<Rightarrow> 'b"
  be_setAutoDiscoverSdk :: "bool \<Rightarrow> 'b \<Rightarrow> 'b"
  be_refreshPrinters :: "'b \<Rightarrow> bool \<times> 'b"
  be_choosePrinter :: "int \<Rightarrow> 'b \<Rightarrow> bool \<times> 'b"
  be_connectPrinter :: "'b \<Rightarrow> bool \<times> 'b"
  be_resetSdkSession :: "'b \<Rightarrow> bool \<times> 'b"
  be_abortPrint :: "'b \<Rightarrow> bool \<times> 'b"
  be_pausePrint :: "'b \<Rightarrow> bool \<times> 'b"
  be_continuePrint :: "'b \<Rightarrow> bool \<times> 'b"
  be_statusText :: "'b \<Rightarrow> string \<times> 'b"
  be_getPrinterStatus :: "'b \<Rightarrow> 'v vmap \<times> 'b"
  be_getPrinterInfo :: "'b \<Rightarrow> 'v vmap \<times> 'b"
  be_maintenance :: "string \<Rightarrow> 'v vmap \<Rightarrow> 'b \<Rightarrow> 'v vmap \<times> 'b" \<comment> \<open>\<open>executeMaintenanceActionNow\<close>\<close>
  be_submitSpooledJob :: "spool \<Rightarrow> print_settings \<Rightarrow> 'd \<Rightarrow> 'b \<Rightarrow> bool \<times> 'b"
  be_submitPreparedJob :: "raster \<Rightarrow> print_settings \<Rightarrow> 'b \<Rightarrow> bool \<times> 'b"

datatype service_error =
    NoError
  | BackendError string
  | ProtocolError protocol_error
  | SpoolError spool_error
  | PrintInProgress
  | NoPrinterFound
  | SelectPrinter
  | UploadLength
  | UploadStorage
  | UploadFile
  | UploadUnknown
  | UploadChunk
  | UploadIncomplete
  | UploadRename
  | UploadMismatch
  | UnknownCommand string

record ('v, 'd, 'b) service_env =
  sv_variant :: "'v qvariant"
  sv_trim :: "string \<Rightarrow> string"
  sv_disk :: "'d disk"
  sv_stream :: datastream
  sv_codec :: "'v codec"
  sv_sha :: "bytes \<Rightarrow> bytes"
  sv_backend :: "('v, 'd, 'b) backend"
  sv_uploadDirectory :: string
  sv_bytesAvailable :: "'d \<Rightarrow> u64 option" \<comment> \<open>\<open>None\<close>: the storage is not valid or not ready\<close>
  sv_pid :: int
  sv_errorText :: "service_error \<Rightarrow> string"

section \<open>State\<close>

record upload = \<comment> \<open>\<open>UploadState\<close>\<close>
  up_partialPath :: string
  up_expectedBytes :: u64
  up_receivedBytes :: u64
  up_lastActivityMs :: int
  up_expectedSpool :: spool
  up_settings :: print_settings

record ('d, 'b) server =
  srv_uploads :: "(string \<times> upload) list" \<comment> \<open>\<open>m_uploads\<close>\<close>
  srv_printing :: bool \<comment> \<open>\<open>m_printInProgress\<close>\<close>
  srv_disk :: 'd
  srv_backend :: 'b
  srv_quit :: bool
  srv_buffers :: "nat \<rightharpoonup> bytes" \<comment> \<open>\<open>m_buffers\<close>, by socket\<close>
  srv_tcpBuffers :: "nat \<rightharpoonup> bytes"

definition kUploadChunkBytes :: nat where "kUploadChunkBytes = 1024 * 1024"
definition kUploadExpiryMs :: int where "kUploadExpiryMs = 5 * 60 * 1000"

section \<open>Responses\<close>

definition serviceState :: "('v, 'd, 'b) service_env \<Rightarrow> ('d, 'b) server \<Rightarrow> 'v vmap \<times> ('d, 'b) server" where
  "serviceState E s =
     (let Q = sv_variant E; B = sv_backend E;
          (available, b) = (if srv_printing s then (True, srv_backend s) else be_isAvailable B (srv_backend s)) in
      ([''available'' \<mapsto> ofBool Q available,
        ''connected'' \<mapsto> ofBool Q (be_isConnected B b),
        ''lastError'' \<mapsto> ofStr Q (be_lastError B b),
        ''sdkRootPath'' \<mapsto> ofStr Q (be_sdkRootPath B b),
        ''autoDiscoverSdk'' \<mapsto> ofBool Q (be_autoDiscoverSdk B b),
        ''printers'' \<mapsto> ofList Q (be_printers B b),
        ''maintenanceSupportedPrinters'' \<mapsto> be_maintenanceSupportedPrinters B b,
        ''servicePid'' \<mapsto> ofInt Q (sv_pid E),
        ''protocolVersion'' \<mapsto> ofInt Q (uint ServiceVersion),
        ''streamingRasterUpload'' \<mapsto> ofBool Q True,
        ''rasterUploadChunkBytes'' \<mapsto> ofInt Q (int kUploadChunkBytes)],
       s\<lparr>srv_backend := b\<rparr>))"

definition response ::
  "('v, 'd, 'b) service_env \<Rightarrow> bool \<Rightarrow> 'v \<Rightarrow> service_error \<Rightarrow> ('d, 'b) server \<Rightarrow> 'v vmap \<times> ('d, 'b) server" where
  "response E ok result errorMessage s =
     (let Q = sv_variant E; (state, s) = serviceState E s in
      ([''ok'' \<mapsto> ofBool Q ok,
        ''result'' \<mapsto> result,
        ''error'' \<mapsto> ofStr Q (if ok then [] else sv_errorText E errorMessage),
        ''state'' \<mapsto> ofMap Q state], s))"

definition no_result :: "('v, 'd, 'b) service_env \<Rightarrow> 'v" where
  "no_result E = invalid (sv_variant E)"

definition refuse :: "('v, 'd, 'b) service_env \<Rightarrow> service_error \<Rightarrow> ('d, 'b) server \<Rightarrow> 'v vmap \<times> ('d, 'b) server" where
  \<comment> \<open>\<open>return response(false, {}, ...)\<close>\<close>
  "refuse E e s = response E False (no_result E) e s"

definition backend_error :: "('v, 'd, 'b) service_env \<Rightarrow> ('d, 'b) server \<Rightarrow> service_error" where
  "backend_error E s = BackendError (be_lastError (sv_backend E) (srv_backend s))"

definition backend_call ::
  "('v, 'd, 'b) service_env \<Rightarrow> ('b \<Rightarrow> bool \<times> 'b) \<Rightarrow> ('d, 'b) server \<Rightarrow> 'v vmap \<times> ('d, 'b) server" where
  \<comment> \<open>\<open>const bool ok = m_backend.f(); return response(ok, {}, m_backend.lastError());\<close>\<close>
  "backend_call E f s =
     (let (ok, b) = f (srv_backend s); s = s\<lparr>srv_backend := b\<rparr> in
      response E ok (no_result E) (backend_error E s) s)"

section \<open>Printer commands\<close>

definition on_configure :: "('v, 'd, 'b) service_env \<Rightarrow> 'v vmap \<Rightarrow> ('d, 'b) server \<Rightarrow> 'v vmap \<times> ('d, 'b) server" where
  "on_configure E args s =
     (let Q = sv_variant E; B = sv_backend E;
          b = be_setSdkRootPath B (toStr Q (valueAt Q args ''sdkRootPath'')) (srv_backend s);
          b = be_setAutoDiscoverSdk B (vmBool Q args ''autoDiscoverSdk'' True) b in
      backend_call E (be_isAvailable B) (s\<lparr>srv_backend := b\<rparr>))"

definition on_refreshPrinters :: "('v, 'd, 'b) service_env \<Rightarrow> ('d, 'b) server \<Rightarrow> 'v vmap \<times> ('d, 'b) server" where
  "on_refreshPrinters E s =
     (let B = sv_backend E; (ok, b) = be_refreshPrinters B (srv_backend s); s = s\<lparr>srv_backend := b\<rparr> in
      response E ok (ofList (sv_variant E) (be_printers B b)) (backend_error E s) s)"

definition find_printer :: "'v qvariant \<Rightarrow> 'v list \<Rightarrow> int \<Rightarrow> int option" where
  \<comment> \<open>the selected index when it is listed, the only printer's otherwise\<close>
  "find_printer Q printers selectedIndex =
     (if \<exists>p \<in> set printers. vmInt Q (toMap Q p) ''index'' (-1) = selectedIndex then Some selectedIndex
      else if length printers = 1 then Some (vmInt Q (toMap Q (hd printers)) ''index'' 0)
      else None)"

definition on_reconnectPrinter :: "('v, 'd, 'b) service_env \<Rightarrow> 'v vmap \<Rightarrow> ('d, 'b) server \<Rightarrow> 'v vmap \<times> ('d, 'b) server" where
  "on_reconnectPrinter E args s =
     (let Q = sv_variant E; B = sv_backend E; b0 = srv_backend s;
          (healthy, b1) =
            (if be_isConnected B b0
             then let (status, b) = be_getPrinterStatus B b0 in (toBool Q (valueAt Q status ''ok''), b)
             else (False, b0));
          s1 = s\<lparr>srv_backend := b1\<rparr> in
      if healthy then response E True (ofStr Q ''The existing printer session is healthy.'') NoError s1
      else let (isReset, b2) = be_resetSdkSession B b1; s2 = s\<lparr>srv_backend := b2\<rparr> in
      if \<not> isReset then refuse E (backend_error E s2) s2
      else let (found, b3) = be_refreshPrinters B b2; s3 = s\<lparr>srv_backend := b3\<rparr> in
      if \<not> found then refuse E (backend_error E s3) s3
      else case find_printer Q (be_printers B b3) (vmInt Q args ''index'' (-1)) of
        None \<Rightarrow> refuse E (if be_printers B b3 = [] then NoPrinterFound else SelectPrinter) s3
      | Some index \<Rightarrow>
          let (chosen, b4) = be_choosePrinter B index b3; s4 = s\<lparr>srv_backend := b4\<rparr> in
          if \<not> chosen then refuse E (backend_error E s4) s4
          else backend_call E (be_connectPrinter B) s4)"

definition on_query ::
  "('v, 'd, 'b) service_env \<Rightarrow> ('b \<Rightarrow> 'v vmap \<times> 'b) \<Rightarrow> ('d, 'b) server \<Rightarrow> 'v vmap \<times> ('d, 'b) server" where
  \<comment> \<open>\<open>getPrinterStatus\<close> and \<open>getPrinterInfo\<close>\<close>
  "on_query E f s =
     (let Q = sv_variant E; (v, b) = f (srv_backend s); s = s\<lparr>srv_backend := b\<rparr> in
      response E (toBool Q (valueAt Q v ''ok'')) (ofMap Q v) (backend_error E s) s)"

definition on_maintenance :: "('v, 'd, 'b) service_env \<Rightarrow> 'v vmap \<Rightarrow> ('d, 'b) server \<Rightarrow> 'v vmap \<times> ('d, 'b) server" where
  "on_maintenance E args s =
     (let Q = sv_variant E;
          (completion, b) = be_maintenance (sv_backend E) (toStr Q (valueAt Q args ''action''))
             (toMap Q (valueAt Q args ''arguments'')) (srv_backend s) in
      response E (toBool Q (valueAt Q completion ''ok'')) (valueAt Q completion ''result'')
        (BackendError (toStr Q (valueAt Q completion ''error''))) (s\<lparr>srv_backend := b\<rparr>))"

section \<open>Uploads\<close>

definition ensure_directory :: "'d disk \<Rightarrow> string \<Rightarrow> 'd \<Rightarrow> 'd" where
  \<comment> \<open>\<open>QDir().mkpath(path)\<close> with its result ignored\<close>
  "ensure_directory D dir d = (case makePath D dir d of None \<Rightarrow> d | Some d \<Rightarrow> d)"

definition begin_checks ::
  "('v, 'd, 'b) service_env \<Rightarrow> 'v vmap \<Rightarrow> service_error + spool \<times> print_settings \<times> u64" where
  "begin_checks E args =
     (let Q = sv_variant E; expectedBytes = toULongLong Q (valueAt Q args ''fileBytes'') in
      case spoolMetadataFromMap Q (toMap Q (valueAt Q args ''spool'')) of
        Inl e \<Rightarrow> Inl (ProtocolError e)
      | Inr expected \<Rightarrow>
        let settings = settingsFromMap Q (toMap Q (valueAt Q args ''settings'')) in
        (case metadataIsValid expected of
           Inl e \<Rightarrow> Inl (SpoolError e)
         | Inr _ \<Rightarrow>
           if sp_bodyOffset expected \<noteq> HeaderBytes \<or> sp_bodyBytes expected \<noteq> expectedBodyBytes expected \<or>
              expectedBytes \<noteq> sp_bodyOffset expected + sp_bodyBytes expected
           then Inl UploadLength
           else Inr (expected, settings, expectedBytes)))"

definition uploadPath :: "string \<Rightarrow> string \<Rightarrow> string" where
  "uploadPath dir uploadId = filePath dir (uploadId @ ''.upload.partial'')"

definition begin_upload ::
  "('v, 'd, 'b) service_env \<Rightarrow> int \<Rightarrow> string \<Rightarrow> 'v vmap \<Rightarrow> ('d, 'b) server \<Rightarrow> 'v vmap \<times> ('d, 'b) server" where
  \<comment> \<open>\<open>uploadId\<close> is the fresh UUID, \<open>now\<close> the current time\<close>
  "begin_upload E now uploadId args s =
     (case begin_checks E args of
        Inl e \<Rightarrow> refuse E e s
      | Inr (expected, settings, expectedBytes) \<Rightarrow>
        let Q = sv_variant E; D = sv_disk E; d = ensure_directory D (sv_uploadDirectory E) (srv_disk s);
            requiredUploadBytes = expectedBytes + expectedBytes div 5 in
        if (case sv_bytesAvailable E d of None \<Rightarrow> True | Some free \<Rightarrow> free < requiredUploadBytes)
        then refuse E UploadStorage (s\<lparr>srv_disk := d\<rparr>)
        else let path = uploadPath (sv_uploadDirectory E) uploadId in
        (case openTruncate D path d of
           None \<Rightarrow> refuse E UploadFile (s\<lparr>srv_disk := d\<rparr>)
         | Some d \<Rightarrow>
           response E True
             (ofMap Q [''uploadId'' \<mapsto> ofStr Q uploadId, ''chunkBytes'' \<mapsto> ofInt Q (int kUploadChunkBytes)]) NoError
             (s\<lparr>srv_disk := d,
                srv_uploads := AList.update uploadId
                  \<lparr>up_partialPath = path, up_expectedBytes = expectedBytes, up_receivedBytes = 0,
                   up_lastActivityMs = now, up_expectedSpool = expected, up_settings = settings\<rparr>
                  (srv_uploads s)\<rparr>)))"

definition append_file :: "'d disk \<Rightarrow> string \<Rightarrow> bytes \<Rightarrow> 'd \<Rightarrow> 'd option" where
  \<comment> \<open>\<open>open(WriteOnly | Append)\<close>, which creates a missing file, and a complete \<open>write\<close>\<close>
  "append_file D p x d =
     (case (if fileExists D p d then Some d else openTruncate D p d) of
        None \<Rightarrow> None
      | Some d \<Rightarrow> writeAt D p (fileSize D p d) x d)"

definition append_chunk ::
  "('v, 'd, 'b) service_env \<Rightarrow> int \<Rightarrow> 'v vmap \<Rightarrow> bytes \<Rightarrow> ('d, 'b) server \<Rightarrow> 'v vmap \<times> ('d, 'b) server" where
  "append_chunk E now args chunk s =
     (let Q = sv_variant E; D = sv_disk E; uploadId = toStr Q (valueAt Q args ''uploadId'') in
      case map_of (srv_uploads s) uploadId of
        None \<Rightarrow> refuse E UploadUnknown s
      | Some u \<Rightarrow>
        let off = toULongLong Q (valueAt Q args ''offset'') in
        if off \<noteq> up_receivedBytes u \<or> chunk = [] \<or> length chunk > kUploadChunkBytes \<or>
           up_receivedBytes u + of_nat (length chunk) > up_expectedBytes u
        then refuse E UploadChunk s
        else case append_file D (up_partialPath u) chunk (srv_disk s) of
          None \<Rightarrow> refuse E UploadFile
            (s\<lparr>srv_disk := removeFile D (up_partialPath u) (srv_disk s),
               srv_uploads := AList.delete uploadId (srv_uploads s)\<rparr>)
        | Some d \<Rightarrow>
          let received = up_receivedBytes u + of_nat (length chunk) in
          response E True (ofULongLong Q received) NoError
            (s\<lparr>srv_disk := d,
               srv_uploads := AList.update uploadId
                 (u\<lparr>up_receivedBytes := received, up_lastActivityMs := now\<rparr>) (srv_uploads s)\<rparr>))"

definition cancel_upload :: "('v, 'd, 'b) service_env \<Rightarrow> 'v vmap \<Rightarrow> ('d, 'b) server \<Rightarrow> 'v vmap \<times> ('d, 'b) server" where
  "cancel_upload E args s =
     (let Q = sv_variant E; D = sv_disk E; uploadId = toStr Q (valueAt Q args ''uploadId'') in
      response E True (no_result E) NoError
        (case map_of (srv_uploads s) uploadId of
           None \<Rightarrow> s
         | Some u \<Rightarrow> s\<lparr>srv_disk := removeFile D (up_partialPath u) (srv_disk s),
                         srv_uploads := AList.delete uploadId (srv_uploads s)\<rparr>))"

definition same_raster :: "spool \<Rightarrow> spool \<Rightarrow> bool" where
  "same_raster uploaded expected \<longleftrightarrow>
     sp_width uploaded = sp_width expected \<and> sp_height uploaded = sp_height expected \<and>
     sp_xdpi uploaded = sp_xdpi expected \<and> sp_ydpi uploaded = sp_ydpi expected \<and>
     sp_lineBytes uploaded = sp_lineBytes expected \<and> sp_logical uploaded = sp_logical expected \<and>
     sp_order uploaded = sp_order expected \<and> sp_format uploaded = sp_format expected \<and>
     sp_header uploaded = sp_header expected \<and> sp_bodyBytes uploaded = sp_bodyBytes expected \<and>
     sp_sha256 uploaded = sp_sha256 expected"

definition uploaded_spool ::
  "('v, 'd, 'b) service_env \<Rightarrow> string \<Rightarrow> spool \<Rightarrow> 'd \<Rightarrow> service_error + spool" where
  \<comment> \<open>\<open>readMetadata\<close>, \<open>verify\<close> and the comparison with the announced metadata\<close>
  "uploaded_spool E finalPath expected d =
     (let D = sv_disk E; S = sv_stream E in
      case readMetadata D S finalPath d of
        Inl e \<Rightarrow> Inl (SpoolError e)
      | Inr uploaded \<Rightarrow>
        (case spool_verify D S (sv_sha E) (\<lambda>_. False) uploaded d of
           Inl e \<Rightarrow> Inl (SpoolError e)
         | Inr _ \<Rightarrow> if same_raster uploaded expected then Inr uploaded else Inl UploadMismatch))"

definition final_upload_path :: "string \<Rightarrow> string" where
  \<comment> \<open>\<open>finalPath.chop(...)\<close> and the spool suffix\<close>
  "final_upload_path partialPath =
     take (length partialPath - length ''.upload.partial'') partialPath @ ''.pfrs''"

definition commit_upload :: "('v, 'd, 'b) service_env \<Rightarrow> 'v vmap \<Rightarrow> ('d, 'b) server \<Rightarrow> 'v vmap \<times> ('d, 'b) server" where
  "commit_upload E args s =
     (let Q = sv_variant E; D = sv_disk E; uploadId = toStr Q (valueAt Q args ''uploadId'') in
      case map_of (srv_uploads s) uploadId of
        None \<Rightarrow> refuse E UploadUnknown s
      | Some u \<Rightarrow>
        let s = s\<lparr>srv_uploads := AList.delete uploadId (srv_uploads s)\<rparr> in
        if up_receivedBytes u \<noteq> up_expectedBytes u
        then refuse E UploadIncomplete (s\<lparr>srv_disk := removeFile D (up_partialPath u) (srv_disk s)\<rparr>)
        else let finalPath = final_upload_path (up_partialPath u) in
        (case renameFile D (up_partialPath u) finalPath (srv_disk s) of
           None \<Rightarrow> refuse E UploadRename (s\<lparr>srv_disk := removeFile D (up_partialPath u) (srv_disk s)\<rparr>)
         | Some d \<Rightarrow>
           (case uploaded_spool E finalPath (up_expectedSpool u) d of
              Inl e \<Rightarrow> refuse E e (s\<lparr>srv_disk := removeFile D finalPath d\<rparr>)
            | Inr uploaded \<Rightarrow>
              let (ok, b) = be_submitSpooledJob (sv_backend E) uploaded (up_settings u) d (srv_backend s);
                  s = s\<lparr>srv_backend := b, srv_disk := removeFile D finalPath d, srv_printing := True\<rparr>;
                  (r, s) = response E ok (no_result E) (backend_error E s) s in
              (r, s\<lparr>srv_printing := False\<rparr>))))"

definition submit_job :: "('v, 'd, 'b) service_env \<Rightarrow> 'v vmap \<Rightarrow> bytes \<Rightarrow> ('d, 'b) server \<Rightarrow> 'v vmap \<times> ('d, 'b) server" where
  "submit_job E args payload s =
     (let Q = sv_variant E in
      case deserializeRaster Q (toMap Q (valueAt Q args ''raster'')) payload of
        Inl e \<Rightarrow> refuse E (ProtocolError e) s
      | Inr raster \<Rightarrow>
        backend_call E (be_submitPreparedJob (sv_backend E) raster
          (settingsFromMap Q (toMap Q (valueAt Q args ''settings'')))) s)"

section \<open>Dispatch\<close>

definition handleRequest ::
  "('v, 'd, 'b) service_env \<Rightarrow> int \<Rightarrow> string \<Rightarrow> 'v vmap \<Rightarrow> ('d, 'b) server \<Rightarrow> 'v vmap \<times> ('d, 'b) server" where
  "handleRequest E now uploadId request s =
     (let Q = sv_variant E; B = sv_backend E;
          command = sv_trim E (toStr Q (valueAt Q request ''command''));
          args = toMap Q (valueAt Q request ''arguments'');
          payload = toByteArray Q (valueAt Q request ''payload'') in
      if command = ''ping'' then response E True (ofStr Q ''PrintFlowPrinterService'') NoError s
      else if srv_printing s \<and> command \<noteq> ''abortPrint'' then refuse E PrintInProgress s
      else if command = ''configure'' then on_configure E args s
      else if command = ''refreshPrinters'' then on_refreshPrinters E s
      else if command = ''choosePrinter'' then backend_call E (be_choosePrinter B (vmInt Q args ''index'' (-1))) s
      else if command = ''connectPrinter'' then backend_call E (be_connectPrinter B) s
      else if command = ''reconnectPrinter'' then on_reconnectPrinter E args s
      else if command = ''statusText'' then
        (let (t, b) = be_statusText B (srv_backend s) in response E True (ofStr Q t) NoError (s\<lparr>srv_backend := b\<rparr>))
      else if command = ''getPrinterStatus'' then on_query E (be_getPrinterStatus B) s
      else if command = ''getPrinterInfo'' then on_query E (be_getPrinterInfo B) s
      else if command = ''abortPrint'' then backend_call E (be_abortPrint B) s
      else if command = ''pausePrint'' then backend_call E (be_pausePrint B) s
      else if command = ''continuePrint'' then backend_call E (be_continuePrint B) s
      else if command = ''maintenance'' then on_maintenance E args s
      else if command = ''beginRasterUpload'' then begin_upload E now uploadId args s
      else if command = ''appendRasterChunk'' then append_chunk E now args payload s
      else if command = ''cancelRasterUpload'' then cancel_upload E args s
      else if command = ''commitRasterUpload'' then commit_upload E args s
      else if command = ''submitJob'' then submit_job E args payload s
      else if command = ''shutdown'' then response E True (no_result E) NoError (s\<lparr>srv_quit := True\<rparr>)
      else refuse E (UnknownCommand command) s)"

fun remove_expired :: "'d disk \<Rightarrow> int \<Rightarrow> (string \<times> upload) list \<Rightarrow> 'd \<Rightarrow> (string \<times> upload) list \<times> 'd" where
  "remove_expired D cutoff [] d = ([], d)"
| "remove_expired D cutoff ((k, u) # us) d =
     (if up_lastActivityMs u > cutoff
      then let (us, d) = remove_expired D cutoff us d in ((k, u) # us, d)
      else remove_expired D cutoff us (removeFile D (up_partialPath u) d))"

definition removeExpiredUploads :: "('v, 'd, 'b) service_env \<Rightarrow> int \<Rightarrow> ('d, 'b) server \<Rightarrow> ('d, 'b) server" where
  "removeExpiredUploads E now s =
     (let (us, d) = remove_expired (sv_disk E) (now - kUploadExpiryMs) (srv_uploads s) (srv_disk s)
      in s\<lparr>srv_uploads := us, srv_disk := d\<rparr>)"

section \<open>Connections\<close>

definition listenTcp :: "('a host_address \<Rightarrow> u16 \<Rightarrow> bool) \<Rightarrow> 'a host_address \<Rightarrow> u16 \<Rightarrow> bool" where
  \<comment> \<open>\<open>bind\<close> is \<open>QTcpServer::listen\<close>\<close>
  "listenTcp bind address port = (isAllowedBridgeAddress address \<and> bind address port)"

definition receive ::
  "('v, 'd, 'b) service_env \<Rightarrow> int \<Rightarrow> string \<Rightarrow> bytes \<Rightarrow> ('d, 'b) server \<Rightarrow>
   bytes option \<times> bytes option \<times> ('d, 'b) server" where
  \<comment> \<open>the buffer that stays (\<open>None\<close>: removed, the socket is closed) and the frame sent\<close>
  "receive E now uploadId buffer s =
     (case takeFrame (sv_stream E) (sv_codec E) buffer of
        (FrameIncomplete, rest) \<Rightarrow> (Some rest, None, s)
      | (FrameInvalid e, rest) \<Rightarrow>
          let (r, s) = refuse E (ProtocolError e) s in (None, Some (encodeFrame (sv_stream E) (sv_codec E) r), s)
      | (FrameComplete request, rest) \<Rightarrow>
          let (r, s) = handleRequest E now uploadId request s in
          (None, Some (encodeFrame (sv_stream E) (sv_codec E) r), s))"

definition acceptConnection :: "nat \<Rightarrow> ('d, 'b) server \<Rightarrow> ('d, 'b) server" where
  "acceptConnection socket s = s\<lparr>srv_buffers := (srv_buffers s)(socket \<mapsto> [])\<rparr>"

definition acceptTcpConnection :: "nat \<Rightarrow> ('d, 'b) server \<Rightarrow> ('d, 'b) server" where
  "acceptTcpConnection socket s = s\<lparr>srv_tcpBuffers := (srv_tcpBuffers s)(socket \<mapsto> [])\<rparr>"

definition readClient ::
  "('v, 'd, 'b) service_env \<Rightarrow> int \<Rightarrow> string \<Rightarrow> nat \<Rightarrow> bytes \<Rightarrow> ('d, 'b) server \<Rightarrow> bytes option \<times> ('d, 'b) server" where
  \<comment> \<open>\<open>arrived\<close> is what \<open>socket->readAll()\<close> returns\<close>
  "readClient E now uploadId socket arrived s =
     (case srv_buffers s socket of
        None \<Rightarrow> (None, s)
      | Some buffer \<Rightarrow>
        let (buffer, out, s) = receive E now uploadId (buffer @ arrived) s in
        (out, s\<lparr>srv_buffers := (srv_buffers s)(socket := buffer)\<rparr>))"

definition readTcpClient ::
  "('v, 'd, 'b) service_env \<Rightarrow> int \<Rightarrow> string \<Rightarrow> nat \<Rightarrow> bytes \<Rightarrow> ('d, 'b) server \<Rightarrow> bytes option \<times> ('d, 'b) server" where
  "readTcpClient E now uploadId socket arrived s =
     (case srv_tcpBuffers s socket of
        None \<Rightarrow> (None, s)
      | Some buffer \<Rightarrow>
        let (buffer, out, s) = receive E now uploadId (buffer @ arrived) s in
        (out, s\<lparr>srv_tcpBuffers := (srv_tcpBuffers s)(socket := buffer)\<rparr>))"

definition removeClient :: "nat \<Rightarrow> ('d, 'b) server \<Rightarrow> ('d, 'b) server" where
  "removeClient socket s = s\<lparr>srv_buffers := (srv_buffers s)(socket := None)\<rparr>"

definition removeTcpClient :: "nat \<Rightarrow> ('d, 'b) server \<Rightarrow> ('d, 'b) server" where
  "removeTcpClient socket s = s\<lparr>srv_tcpBuffers := (srv_tcpBuffers s)(socket := None)\<rparr>"

definition closeServer :: "'d disk \<Rightarrow> ('d, 'b) server \<Rightarrow> ('d, 'b) server" where
  \<comment> \<open>the destructor\<close>
  "closeServer D s = s\<lparr>srv_disk := foldl (\<lambda>d (k, u). removeFile D (up_partialPath u) d) (srv_disk s) (srv_uploads s)\<rparr>"

end
