(* ===== verification/Service_Client.thy ===== *)
theory Service_Client
  imports Service_Server
begin

text \<open>
  \<open>printerservice/PrinterServiceClient\<close>: the application's side of the printer service.
  \<open>exchange_frames\<close> is one request on a connection of its own; the operations above it
  take \<open>exchange(..., false)\<close> as the field \<open>ce_exchange\<close> of their environment, so that
  they can run over a socket or directly against a service. The client's state holds what
  the last response said, and the world \<open>'w\<close> behind the connection. Cancellation is a
  function of the position of the upload at which the code polls the flag.
\<close>

section \<open>One exchange\<close>

datatype client_error =
    CannotConnect
  | RequestTooLarge
  | ServiceTimeout
  | BadResponse protocol_error
  | ServiceUnavailable
  | RestartFailed
  | NoRestartedPrinter
  | SelectBeforeRestart
  | SpoolRejected spool_error
  | NoStreaming
  | SpoolOpenFailed
  | SpoolLengthMismatch
  | NoUpload
  | UploadCanceled
  | SpoolShrank
  | RasterRejected protocol_error
  | EmptyAction
  | OperationRunning

record ('v, 'w) link =
  ln_stream :: datastream
  ln_codec :: "'v codec"
  ln_connect :: "'w \<Rightarrow> bool \<times> 'w"
  ln_transfer :: "bytes \<Rightarrow> 'w \<Rightarrow> bytes option \<times> 'w"
    \<comment> \<open>the frame is written and what the service sends is read; \<open>None\<close> is a time-out\<close>

definition request_message :: "'v qvariant \<Rightarrow> string \<Rightarrow> 'v vmap \<Rightarrow> bytes \<Rightarrow> 'v vmap" where
  "request_message Q command args payload =
     (let m = [''command'' \<mapsto> ofStr Q command, ''arguments'' \<mapsto> ofMap Q args] in
      if payload = [] then m else m(''payload'' \<mapsto> ofByteArray Q payload))"

definition failed_response :: "'v qvariant \<Rightarrow> (client_error \<Rightarrow> string) \<Rightarrow> client_error \<Rightarrow> 'v vmap" where
  "failed_response Q text e = [''ok'' \<mapsto> ofBool Q False, ''error'' \<mapsto> ofStr Q (text e)]"

definition exchange_frames ::
  "'v qvariant \<Rightarrow> (client_error \<Rightarrow> string) \<Rightarrow> ('v, 'w) link \<Rightarrow> string \<Rightarrow> 'v vmap \<Rightarrow> bytes \<Rightarrow> 'w \<Rightarrow> 'v vmap \<times> 'w" where
  \<comment> \<open>\<open>exchange\<close> without the start of the service\<close>
  "exchange_frames Q text L command args payload w =
     (let (connected, w) = ln_connect L w; S = ln_stream L; K = ln_codec L;
          failed = failed_response Q text in
      if \<not> connected then (failed CannotConnect, w)
      else let frame = encodeFrame S K (request_message Q command args payload) in
      if frame = [] then (failed RequestTooLarge, w)
      else case ln_transfer L frame w of
        (None, w) \<Rightarrow> (failed ServiceTimeout, w)
      | (Some buffer, w) \<Rightarrow>
          ((case fst (takeFrame S K buffer) of
              FrameComplete decoded \<Rightarrow> decoded
            | FrameInvalid e \<Rightarrow> failed (BadResponse e)
            | FrameIncomplete \<Rightarrow> failed ServiceTimeout), w))"

section \<open>State and environment\<close>

record ('v, 'd, 'w) client_env =
  ce_variant :: "'v qvariant"
  ce_trim :: "string \<Rightarrow> string"
  ce_disk :: "'d disk"
  ce_stream :: datastream
  ce_sha :: "bytes \<Rightarrow> bytes"
  ce_exchange :: "string \<Rightarrow> 'v vmap \<Rightarrow> bytes \<Rightarrow> 'w \<Rightarrow> 'v vmap \<times> 'w"
  ce_android :: bool
  ce_launch :: "'w \<Rightarrow> bool \<times> 'w" \<comment> \<open>the executable is there and starts detached\<close>
  ce_startupPolls :: nat \<comment> \<open>pings before the start-up time-out\<close>
  ce_stopService :: "int \<Rightarrow> 'w \<Rightarrow> bool \<times> 'w" \<comment> \<open>wait for the old process, or terminate it\<close>
  ce_errorText :: "client_error \<Rightarrow> string"

record ('v, 'd, 'w) client =
  cl_available :: bool
  cl_connected :: bool
  cl_servicePid :: int
  cl_printers :: "'v list"
  cl_sdkRootPath :: string
  cl_autoDiscoverSdk :: bool
  cl_lastError :: string
  cl_uploadActive :: bool
  cl_maintenanceBusy :: bool
  cl_currentAction :: string
  cl_disk :: 'd
  cl_world :: 'w

definition responseOk :: "'v qvariant \<Rightarrow> 'v vmap \<Rightarrow> bool" where
  "responseOk Q r = toBool Q (valueAt Q r ''ok'')"

definition applyResponse :: "'v qvariant \<Rightarrow> 'v vmap \<Rightarrow> ('v, 'd, 'w) client \<Rightarrow> ('v, 'd, 'w) client" where
  "applyResponse Q r c =
     (let state = toMap Q (valueAt Q r ''state'');
          c = (if state = Map.empty then c
               else let backendError = toStr Q (valueAt Q state ''lastError'') in
                 c\<lparr>cl_available := vmBool Q state ''available'' (cl_available c),
                   cl_connected := vmBool Q state ''connected'' (cl_connected c),
                   cl_servicePid := vmLongLong Q state ''servicePid'' (cl_servicePid c),
                   cl_printers := (case state ''printers'' of None \<Rightarrow> cl_printers c | Some v \<Rightarrow> toList Q v),
                   cl_sdkRootPath := (case state ''sdkRootPath'' of None \<Rightarrow> cl_sdkRootPath c | Some v \<Rightarrow> toStr Q v),
                   cl_autoDiscoverSdk := vmBool Q state ''autoDiscoverSdk'' (cl_autoDiscoverSdk c),
                   cl_lastError := (if backendError = [] then cl_lastError c else backendError)\<rparr>);
          requestError = toStr Q (valueAt Q r ''error'') in
      if \<not> responseOk Q r then (if requestError = [] then c else c\<lparr>cl_lastError := requestError\<rparr>)
      else if toStr Q (valueAt Q state ''lastError'') = [] then c\<lparr>cl_lastError := []\<rparr>
      else c)"

definition raw ::
  "('v, 'd, 'w) client_env \<Rightarrow> string \<Rightarrow> 'v vmap \<Rightarrow> bytes \<Rightarrow> ('v, 'd, 'w) client \<Rightarrow> 'v vmap \<times> ('v, 'd, 'w) client" where
  \<comment> \<open>\<open>exchange(command, arguments, payload, timeout, false)\<close>\<close>
  "raw C command args payload c =
     (let (r, w) = ce_exchange C command args payload (cl_world c) in (r, c\<lparr>cl_world := w\<rparr>))"

fun await_service :: "('v, 'd, 'w) client_env \<Rightarrow> nat \<Rightarrow> ('v, 'd, 'w) client \<Rightarrow> bool \<times> ('v, 'd, 'w) client" where
  "await_service C 0 c = (False, c)"
| "await_service C (Suc n) c =
     (let (hello, c) = raw C ''ping'' Map.empty [] c in
      if responseOk (ce_variant C) hello then (True, c) else await_service C n c)"

definition ensureService :: "('v, 'd, 'w) client_env \<Rightarrow> ('v, 'd, 'w) client \<Rightarrow> bool \<times> ('v, 'd, 'w) client" where
  "ensureService C c =
     (let (existing, c) = raw C ''ping'' Map.empty [] c in
      if responseOk (ce_variant C) existing then (True, c)
      else if ce_android C then (False, c)
      else let (started, w) = ce_launch C (cl_world c); c = c\<lparr>cl_world := w\<rparr> in
      if \<not> started then (False, c) else await_service C (ce_startupPolls C) c)"

definition exchange ::
  "('v, 'd, 'w) client_env \<Rightarrow> string \<Rightarrow> 'v vmap \<Rightarrow> bytes \<Rightarrow> ('v, 'd, 'w) client \<Rightarrow> 'v vmap \<times> ('v, 'd, 'w) client" where
  "exchange C command args payload c =
     (let (ready, c) = ensureService C c in
      if \<not> ready then (failed_response (ce_variant C) (ce_errorText C) ServiceUnavailable, c)
      else raw C command args payload c)"

definition request ::
  "('v, 'd, 'w) client_env \<Rightarrow> string \<Rightarrow> 'v vmap \<Rightarrow> bytes \<Rightarrow> ('v, 'd, 'w) client \<Rightarrow> 'v vmap \<times> ('v, 'd, 'w) client" where
  "request C command args payload c =
     (let (r, c) = exchange C command args payload c in (r, applyResponse (ce_variant C) r c))"

definition requestOk ::
  "('v, 'd, 'w) client_env \<Rightarrow> string \<Rightarrow> 'v vmap \<Rightarrow> bytes \<Rightarrow> ('v, 'd, 'w) client \<Rightarrow> bool \<times> ('v, 'd, 'w) client" where
  "requestOk C command args payload c =
     (let (r, c) = request C command args payload c in (responseOk (ce_variant C) r, c))"

definition fail_with ::
  "('v, 'd, 'w) client_env \<Rightarrow> client_error \<Rightarrow> ('v, 'd, 'w) client \<Rightarrow> bool \<times> ('v, 'd, 'w) client" where
  "fail_with C e c = (False, c\<lparr>cl_lastError := ce_errorText C e\<rparr>)"

section \<open>Printer commands\<close>

definition configureArguments :: "('v, 'd, 'w) client_env \<Rightarrow> ('v, 'd, 'w) client \<Rightarrow> 'v vmap" where
  "configureArguments C c =
     [''sdkRootPath'' \<mapsto> ofStr (ce_variant C) (cl_sdkRootPath c),
      ''autoDiscoverSdk'' \<mapsto> ofBool (ce_variant C) (cl_autoDiscoverSdk c)]"

definition client_setSdkRootPath :: "('v, 'd, 'w) client_env \<Rightarrow> string \<Rightarrow> ('v, 'd, 'w) client \<Rightarrow> ('v, 'd, 'w) client" where
  "client_setSdkRootPath C path c =
     (let clean = ce_trim C path in
      if cl_sdkRootPath c = clean then c
      else let c = c\<lparr>cl_sdkRootPath := clean\<rparr> in snd (request C ''configure'' (configureArguments C c) [] c))"

definition client_setAutoDiscoverSdk :: "('v, 'd, 'w) client_env \<Rightarrow> bool \<Rightarrow> ('v, 'd, 'w) client \<Rightarrow> ('v, 'd, 'w) client" where
  "client_setAutoDiscoverSdk C enabled c =
     (if cl_autoDiscoverSdk c = enabled then c
      else let c = c\<lparr>cl_autoDiscoverSdk := enabled\<rparr> in snd (request C ''configure'' (configureArguments C c) [] c))"

definition client_choosePrinter :: "('v, 'd, 'w) client_env \<Rightarrow> int \<Rightarrow> ('v, 'd, 'w) client \<Rightarrow> bool \<times> ('v, 'd, 'w) client" where
  "client_choosePrinter C index = requestOk C ''choosePrinter'' [''index'' \<mapsto> ofInt (ce_variant C) index] []"

definition maintenance_arguments :: "'v qvariant \<Rightarrow> string \<Rightarrow> 'v vmap \<Rightarrow> 'v vmap" where
  "maintenance_arguments Q action args = [''action'' \<mapsto> ofStr Q action, ''arguments'' \<mapsto> ofMap Q args]"

definition maintenanceBool ::
  "('v, 'd, 'w) client_env \<Rightarrow> string \<Rightarrow> 'v vmap \<Rightarrow> ('v, 'd, 'w) client \<Rightarrow> bool \<times> ('v, 'd, 'w) client" where
  "maintenanceBool C action args = requestOk C ''maintenance'' (maintenance_arguments (ce_variant C) action args) []"

definition maintenanceMap ::
  "('v, 'd, 'w) client_env \<Rightarrow> string \<Rightarrow> 'v vmap \<Rightarrow> ('v, 'd, 'w) client \<Rightarrow> 'v vmap \<times> ('v, 'd, 'w) client" where
  "maintenanceMap C action args c =
     (let Q = ce_variant C; (r, c) = request C ''maintenance'' (maintenance_arguments Q action args) [] c;
          result = toMap Q (valueAt Q r ''result'') in
      (if result ''ok'' \<noteq> None then result else result(''ok'' \<mapsto> ofBool Q (responseOk Q r)), c))"

definition client_query :: "('v, 'd, 'w) client_env \<Rightarrow> string \<Rightarrow> ('v, 'd, 'w) client \<Rightarrow> 'v vmap \<times> ('v, 'd, 'w) client" where
  \<comment> \<open>\<open>getPrinterStatus\<close> and \<open>getPrinterInfo\<close>\<close>
  "client_query C command c =
     (let Q = ce_variant C; (r, c) = request C command Map.empty [] c;
          result = toMap Q (valueAt Q r ''result'') in
      (if result ''ok'' \<noteq> None then result else result(''ok'' \<mapsto> ofBool Q False), c))"

definition client_statusText :: "('v, 'd, 'w) client_env \<Rightarrow> ('v, 'd, 'w) client \<Rightarrow> string \<times> ('v, 'd, 'w) client" where
  "client_statusText C c =
     (let Q = ce_variant C; (r, c) = request C ''statusText'' Map.empty [] c in
      (if responseOk Q r then toStr Q (valueAt Q r ''result'') else cl_lastError c, c))"

definition restartService ::
  "('v, 'd, 'w) client_env \<Rightarrow> int \<Rightarrow> ('v, 'd, 'w) client \<Rightarrow> 'v vmap \<times> ('v, 'd, 'w) client" where
  "restartService C index c =
     (let Q = ce_variant C; failed = failed_response Q (ce_errorText C); ok = responseOk Q;
          (_, c) = raw C ''shutdown'' Map.empty [] c;
          (stopped, w) = ce_stopService C (cl_servicePid c) (cl_world c); c = c\<lparr>cl_world := w\<rparr> in
      if \<not> stopped then (failed RestartFailed, c)
      else let (ready, c) = ensureService C c in
      if \<not> ready then (failed ServiceUnavailable, c)
      else let (r, c) = raw C ''configure'' (configureArguments C c) [] c in
      if \<not> ok r then (r, c)
      else let (r, c) = raw C ''refreshPrinters'' Map.empty [] c in
      if \<not> ok r then (r, c)
      else let printers = toList Q (valueAt Q (toMap Q (valueAt Q r ''state'')) ''printers'') in
      case find_printer Q printers index of
        None \<Rightarrow> (failed (if printers = [] then NoRestartedPrinter else SelectBeforeRestart), c)
      | Some chosen \<Rightarrow>
          let (r, c) = raw C ''choosePrinter'' [''index'' \<mapsto> ofInt Q chosen] [] c in
          if \<not> ok r then (r, c) else raw C ''connectPrinter'' Map.empty [] c)"

section \<open>Jobs\<close>

definition client_submitPreparedJob ::
  "('v, 'd, 'w) client_env \<Rightarrow> raster \<Rightarrow> print_settings \<Rightarrow> ('v, 'd, 'w) client \<Rightarrow> bool \<times> ('v, 'd, 'w) client" where
  "client_submitPreparedJob C r settings c =
     (let Q = ce_variant C in
      case serializeRaster r of
        Inl e \<Rightarrow> fail_with C (RasterRejected e) c
      | Inr payload \<Rightarrow>
          requestOk C ''submitJob''
            [''raster'' \<mapsto> ofMap Q (rasterMetadata Q r), ''settings'' \<mapsto> ofMap Q (settingsToMap Q settings)] payload c)"

definition supportsStreaming :: "'v qvariant \<Rightarrow> 'v vmap \<Rightarrow> bool" where
  "supportsStreaming Q r =
     (responseOk Q r \<and> vmBool Q (toMap Q (valueAt Q r ''state'')) ''streamingRasterUpload'' False)"

definition ping :: "('v, 'd, 'w) client_env \<Rightarrow> ('v, 'd, 'w) client \<Rightarrow> 'v vmap \<times> ('v, 'd, 'w) client" where
  "ping C c =
     (let (hello, c) = raw C ''ping'' Map.empty [] c in (hello, applyResponse (ce_variant C) hello c))"

definition require_streaming ::
  "('v, 'd, 'w) client_env \<Rightarrow> int \<Rightarrow> ('v, 'd, 'w) client \<Rightarrow> bool \<times> ('v, 'd, 'w) client" where
  \<comment> \<open>ping the service and replace a stale one\<close>
  "require_streaming C index c =
     (let Q = ce_variant C; (hello, c) = ping C c in
      if supportsStreaming Q hello then (True, c)
      else if ce_android C then fail_with C NoStreaming c
      else let (restarted, c) = restartService C index c; c = applyResponse Q restarted c in
      if \<not> responseOk Q restarted then (False, c)
      else let (hello, c) = ping C c in
      if supportsStreaming Q hello then (True, c) else fail_with C NoStreaming c)"

definition upload_argument :: "'v qvariant \<Rightarrow> string \<Rightarrow> 'v vmap" where
  "upload_argument Q uploadId = [''uploadId'' \<mapsto> ofStr Q uploadId]"

definition cancel_request ::
  "('v, 'd, 'w) client_env \<Rightarrow> string \<Rightarrow> ('v, 'd, 'w) client \<Rightarrow> ('v, 'd, 'w) client" where
  "cancel_request C uploadId c =
     snd (request C ''cancelRasterUpload'' (upload_argument (ce_variant C) uploadId) [] c)"

function upload_chunks ::
  "('v, 'd, 'w) client_env \<Rightarrow> (nat \<Rightarrow> bool) \<Rightarrow> string \<Rightarrow> string \<Rightarrow> nat \<Rightarrow> nat \<Rightarrow> nat \<Rightarrow>
   ('v, 'd, 'w) client \<Rightarrow> bool \<times> ('v, 'd, 'w) client" where
  \<comment> \<open>the \<open>while (offset < expectedBytes)\<close> loop\<close>
  "upload_chunks C canceled path uploadId chunkBytes expected off c =
     (if off \<ge> expected then (True, c)
      else if canceled off then fail_with C UploadCanceled (cancel_request C uploadId c)
      else case readAt (ce_disk C) path off chunkBytes (cl_disk c) of
        None \<Rightarrow> fail_with C SpoolShrank (cancel_request C uploadId c)
      | Some chunk \<Rightarrow>
        if chunk = [] then fail_with C SpoolShrank (cancel_request C uploadId c)
        else let (appended, c) = requestOk C ''appendRasterChunk''
               ((upload_argument (ce_variant C) uploadId)(''offset'' \<mapsto> ofULongLong (ce_variant C) (of_nat off)))
               chunk c in
        if \<not> appended then (False, cancel_request C uploadId c)
        else upload_chunks C canceled path uploadId chunkBytes expected (off + length chunk) c)"
  by pat_completeness auto
termination
  by (relation "measure (\<lambda>(C, canceled, path, k, n, expected, off, c). expected - off)")
    (auto simp: length_greater_0_conv [symmetric] simp del: length_greater_0_conv)

declare upload_chunks.simps [simp del]

definition submitSpooledJob ::
  "('v, 'd, 'w) client_env \<Rightarrow> (nat \<Rightarrow> bool) \<Rightarrow> (nat \<Rightarrow> bool) \<Rightarrow> spool \<Rightarrow> print_settings \<Rightarrow>
   ('v, 'd, 'w) client \<Rightarrow> bool \<times> ('v, 'd, 'w) client" where
  \<comment> \<open>\<open>verifyCanceled\<close> and \<open>canceled\<close>: \<open>m_cancelUpload\<close> at the polls of \<open>verify\<close> and of the upload\<close>
  "submitSpooledJob C verifyCanceled canceled sp settings c =
     (let Q = ce_variant C; D = ce_disk C;
          inactive = (\<lambda>(ok, c). (ok, c\<lparr>cl_uploadActive := False\<rparr>));
          c = c\<lparr>cl_uploadActive := True\<rparr> in
      inactive
       (case spool_verify D (ce_stream C) (ce_sha C) verifyCanceled sp (cl_disk c) of
          Inl e \<Rightarrow> fail_with C (SpoolRejected e) c
        | Inr _ \<Rightarrow>
          let (ready, c) = ensureService C c in
          if \<not> ready then fail_with C ServiceUnavailable c
          else let (streaming, c) = require_streaming C (printerIndex settings) c in
          if \<not> streaming then (False, c)
          else if \<not> fileExists D (sp_path sp) (cl_disk c) then fail_with C SpoolOpenFailed c
          else let expectedBytes = sp_bodyOffset sp + sp_bodyBytes sp in
          if of_nat (fileSize D (sp_path sp) (cl_disk c)) \<noteq> expectedBytes then fail_with C SpoolLengthMismatch c
          else let (begun, c) = request C ''beginRasterUpload''
                     [''spool'' \<mapsto> ofMap Q (spoolMetadata Q sp),
                      ''settings'' \<mapsto> ofMap Q (settingsToMap Q settings),
                      ''fileBytes'' \<mapsto> ofULongLong Q expectedBytes] [] c in
          if \<not> responseOk Q begun then (False, c)
          else let result = toMap Q (valueAt Q begun ''result'');
                   uploadId = toStr Q (valueAt Q result ''uploadId'');
                   chunkBytes = nat (clamp (vmLongLong Q result ''chunkBytes'' (1024 * 1024)) 1 (1024 * 1024)) in
          if uploadId = [] then fail_with C NoUpload c
          else let (sent, c) = upload_chunks C canceled (sp_path sp) uploadId chunkBytes
                     (unat expectedBytes) 0 c in
          if \<not> sent then (False, c)
          else if canceled (unat expectedBytes) then (False, cancel_request C uploadId c)
          else requestOk C ''commitRasterUpload'' (upload_argument Q uploadId) []
                 (c\<lparr>cl_uploadActive := False\<rparr>)))"

definition cancelCurrentOutput :: "('v, 'd, 'w) client_env \<Rightarrow> ('v, 'd, 'w) client \<Rightarrow> bool \<times> ('v, 'd, 'w) client" where
  \<comment> \<open>the flag \<open>m_cancelUpload\<close> it leaves, and the abort it sends when no upload is active\<close>
  "cancelCurrentOutput C c =
     (if cl_uploadActive c then (True, c)
      else let (r, c) = raw C ''abortPrint'' Map.empty [] c in (False, applyResponse (ce_variant C) r c))"

definition startAsyncAction :: "('v, 'd, 'w) client_env \<Rightarrow> string \<Rightarrow> ('v, 'd, 'w) client \<Rightarrow> bool \<times> ('v, 'd, 'w) client" where
  \<comment> \<open>the guard; the operation runs on another thread\<close>
  "startAsyncAction C action c =
     (if cl_maintenanceBusy c then fail_with C OperationRunning c
      else (True, c\<lparr>cl_currentAction := action, cl_maintenanceBusy := True\<rparr>))"

end
