(* ===== verification/Service_Protocol_Laws.thy ===== *)
theory Service_Protocol_Laws
  imports Service_Protocol
begin

text \<open>
  What the protocol promises: whatever one side encodes the other side decodes (settings,
  spool metadata, rasters and frames), a frame that has not arrived in full is left in
  the buffer, and a payload is read within its bounds as long as the size of the raster
  fits in 64 bits.
\<close>

section \<open>Settings and metadata\<close>

definition settings_typed :: "print_settings \<Rightarrow> bool" where
  \<comment> \<open>the fields are values of type \<open>int\<close>\<close>
  "settings_typed s \<longleftrightarrow>
     (\<forall>x \<in> set [printerIndex s, printDirection s, printSpeed s, wcSequence s, eclosionGrade s,
        headSelect s, whiteInkPercent s, whiteInkPassCount s, varnishInkPercent s,
        varnishInkPassCount s, headVoltage s, disableUv0 s, disableUv1 s, disableUv2 s,
        disableUv3 s, disableUv4 s, disableUv5 s, carReset s, stripBlank s, blankDistance s,
        printOffsetXmm s, printOffsetYmm s, print_pass s, vsdMode s]. fits_int x)"

definition spool_submittable :: "spool \<Rightarrow> bool" where
  \<comment> \<open>metadata \<open>spoolMetadataFromMap\<close> accepts\<close>
  "spool_submittable sp \<longleftrightarrow> spool_typed sp \<and> uint (sp_format sp) \<le> 2 \<and> length (sp_sha256 sp) = 32 \<and>
     sp_bodyOffset sp \<noteq> 0 \<and> sp_bodyBytes sp \<noteq> 0 \<and> sp_order sp \<noteq> [] \<and>
     (\<forall>c \<in> set (sp_order sp). 0 \<le> c \<and> c < sp_logical sp)"

lemma fits_int_u8: "fits_int (uint (x :: u8))"
  using uint8_le [of x] by (simp add: fits_int_def int_max_def int_min_def order_trans [OF _ uint8_ge0])

context qvariant_laws
begin

lemma vmInt_put: "m k = Some (ofInt Q x) \<Longrightarrow> fits_int x \<Longrightarrow> vmInt Q m k d = x"
  by (simp add: vmInt_def toInt_ofInt)

lemma settings_come_back: "settings_typed s \<Longrightarrow> settingsFromMap Q (settingsToMap Q s) = s"
  by (cases s)
    (simp add: settings_typed_def settingsFromMap_def settingsToMap_def vmInt_def Let_def
      toInt_ofInt toDouble_ofDouble)

lemma valueAt_Some: "m k = Some v \<Longrightarrow> valueAt Q m k = v"
  by (simp add: valueAt_def)

lemma lists_come_back:
  "\<forall>x \<in> set xs. fits_int x \<Longrightarrow> map (toInt Q) (toList Q (ofList Q (map (ofInt Q) xs))) = xs"
  "map (toUInt Q) (toList Q (ofList Q (map (\<lambda>w. ofULongLong Q (ucast w)) ws))) = (ws :: u32 list)"
  "length (toList Q (ofList Q (map f ys))) = length ys"
  by (rule map_toInt_ofInt, assumption) (rule map_toUInt_ofULongLong, simp add: toList_ofList)

lemma spool_metadata_comes_back:
  assumes "spool_submittable sp"
  shows "spoolMetadataFromMap Q (spoolMetadata Q sp) = Inr (sp\<lparr>sp_path := []\<rparr>)"
proof -
  have t: "fits_int (sp_width sp)" "fits_int (sp_height sp)" "fits_int (sp_xdpi sp)"
    "fits_int (sp_ydpi sp)" "fits_int (sp_lineBytes sp)" "fits_int (sp_logical sp)"
    "length (sp_header sp) = 12" "\<forall>c \<in> set (sp_order sp). fits_int c"
    using assms by (simp_all add: spool_submittable_def spool_typed_def)
  have ok: "\<not> uint (sp_format sp) > 2" "length (sp_sha256 sp) = 32" "sp_bodyOffset sp \<noteq> 0"
    "sp_bodyBytes sp \<noteq> 0" "sp_order sp \<noteq> []" "\<not> (\<exists>c \<in> set (sp_order sp). c < 0 \<or> c \<ge> sp_logical sp)"
    using assms by (auto simp: spool_submittable_def)
  let ?m = "spoolMetadata Q sp"
  note d = spoolMetadata_def valueAt_Some
  have "toInt Q (valueAt Q ?m ''format'') = uint (sp_format sp)"
    "map (toInt Q) (toList Q (valueAt Q ?m ''channels'')) = sp_order sp"
    "length (toList Q (valueAt Q ?m ''canonicalHeader'')) = 12"
    "map (toUInt Q) (toList Q (valueAt Q ?m ''canonicalHeader'')) = sp_header sp"
    "toInt Q (valueAt Q ?m ''logicalChannelCount'') = sp_logical sp"
    "toInt Q (valueAt Q ?m ''width'') = sp_width sp"
    "toInt Q (valueAt Q ?m ''height'') = sp_height sp"
    "toInt Q (valueAt Q ?m ''xdpi'') = sp_xdpi sp"
    "toInt Q (valueAt Q ?m ''ydpi'') = sp_ydpi sp"
    "toInt Q (valueAt Q ?m ''bytesPerLine'') = sp_lineBytes sp"
    "toULongLong Q (valueAt Q ?m ''bodyOffset'') = sp_bodyOffset sp"
    "toULongLong Q (valueAt Q ?m ''bodyBytes'') = sp_bodyBytes sp"
    "toByteArray Q (valueAt Q ?m ''sha256'') = sp_sha256 sp"
    by (simp_all add: d lists_come_back lists_come_back(2) [unfolded o_def] t toInt_ofInt fits_int_u8
        toULongLong_ofULongLong toByteArray_ofByteArray del: map_map)
  then show ?thesis
    using ok by (cases sp) (simp add: spoolMetadataFromMap_def Let_def)
qed

end

section \<open>Rasters\<close>

definition raster_size :: "raster \<Rightarrow> nat" where
  "raster_size r = nat (ra_height r) * length (ra_order r) * nat (ra_lineBytes r)"

definition raster_ok :: "raster \<Rightarrow> plane list \<Rightarrow> bool" where
  \<comment> \<open>a raster that can be sent: typed fields, at most 16 channels, all of its lines there\<close>
  "raster_ok r planes \<longleftrightarrow> ra_lines r = Some planes \<and>
     fits_int (ra_width r) \<and> fits_int (ra_height r) \<and> fits_int (ra_xdpi r) \<and> fits_int (ra_ydpi r) \<and>
     fits_int (ra_lineBytes r) \<and> uint (ra_format r) \<le> 2 \<and> length (ra_header r) = 12 \<and>
     0 < ra_height r \<and> 0 < ra_lineBytes r \<and> ra_order r \<noteq> [] \<and> raster_size r \<le> 2 ^ 29 \<and>
     (\<forall>c \<in> set (ra_order r). 0 \<le> c \<and> c \<le> 15 \<and> c < int (length planes) \<and>
        nat (ra_height r) \<le> length (planes ! nat c) \<and>
        (\<forall>y < nat (ra_height r). length (planes ! nat c ! y) = nat (ra_lineBytes r)))"

definition raster_line :: "plane list \<Rightarrow> nat \<times> int \<Rightarrow> bytes" where
  "raster_line planes cell = planes ! nat (snd cell) ! fst cell"

definition shipped_planes :: "raster \<Rightarrow> plane list \<Rightarrow> plane list" where
  \<comment> \<open>the planes the receiver holds: the channels that were sent, up to the largest\<close>
  "shipped_planes r planes =
     map (\<lambda>c. if int c \<in> set (ra_order r) then take (nat (ra_height r)) (planes ! c)
               else replicate (nat (ra_height r)) [])
       [0..<nat (foldl max (-1) (ra_order r) + 1)]"

lemma foldl_max_ge: "a \<le> foldl max a xs \<and> (\<forall>x \<in> set xs. x \<le> foldl max a (xs :: int list))"
proof (induction xs arbitrary: a)
  case (Cons x xs)
  show ?case using Cons [of "max a x"] by auto
qed simp

lemma uint_product64: "uint (a :: u64) * uint b < 2 ^ 64 \<Longrightarrow> uint (a * b) = uint a * uint b"
  by (simp add: uint_word_ariths)

lemma checkedRasterSize_fits:
  assumes "0 < rows" "0 < n" "0 < b" and small: "nat rows * nat n * nat b \<le> 2 ^ 29"
  shows "checkedRasterSize rows n b = Some (nat rows * nat n * nat b)"
proof -
  have i: "rows * n * b \<le> 2 ^ 29" using assms by (simp add: nat_mult_distrib [symmetric])
  have pos: "0 < rows * n" using assms(1,2) by simp
  then have one: "1 \<le> rows * n" by linarith
  have "rows * n * 1 \<le> rows * n * b" "rows * 1 \<le> rows * n" "1 * n \<le> rows * n"
    "1 * b \<le> rows * n * b"
    by (intro mult_left_mono mult_right_mono; use assms(1-3) pos one in linarith)+
  then have le: "rows \<le> 2 ^ 29" "n \<le> 2 ^ 29" "b \<le> 2 ^ 29" "rows * n \<le> 2 ^ 29" using i by linarith+
  have u: "uint (cast64 rows) = rows" "uint (cast64 n) = n" "uint (cast64 b) = b"
    using assms(1-3) le by (auto intro!: uint_cast64)
  have rn: "uint (cast64 rows * cast64 n) = rows * n" using le(4) by (subst uint_product64) (simp_all add: u)
  have t: "uint (cast64 rows * cast64 n * cast64 b) = rows * n * b"
    using i by (subst uint_product64) (simp_all add: u rn)
  moreover have "unat (cast64 rows * cast64 n * cast64 b) = nat rows * nat n * nat b"
    using assms(1-3) by (simp add: unat_eq_nat_uint t nat_mult_distrib)
  ultimately show ?thesis
    using assms(1-3) i by (simp add: checkedRasterSize_def Let_def word_less_def MaximumFrameSize_def)
qed

lemma serialize_all:
  assumes "\<forall>(y, c) \<in> set cells. 0 \<le> c \<and> c < int (length planes) \<and> y < length (planes ! nat c) \<and>
    length (planes ! nat c ! y) = nat b"
  shows "fold_res (serialize_line planes b) cells p = Inr (p @ concat (map (raster_line planes) cells))"
  using assms by (induction cells arbitrary: p) (auto simp: serialize_line_def raster_line_def Let_def)

definition put_line :: "(nat \<times> int \<Rightarrow> bytes) \<Rightarrow> plane list \<Rightarrow> nat \<times> int \<Rightarrow> plane list" where
  "put_line f st cell = st[nat (snd cell) := (st ! nat (snd cell))[fst cell := f cell]]"

lemma deserialize_step:
  "length (f x) = nat b \<Longrightarrow>
   deserialize_line (pre @ f x @ rest) b x (st, length pre) = Inr (put_line f st x, length pre + nat b)"
  by (simp add: deserialize_line_def put_line_def Let_def split_def)

lemma deserialize_all:
  assumes "\<forall>x \<in> set cells. length (f x) = nat b"
  shows "fold_res (deserialize_line (pre @ concat (map f cells)) b) cells (st, length pre) =
    Inr (foldl (put_line f) st cells, length pre + length cells * nat b)"
  using assms
proof (induction cells arbitrary: pre st)
  case (Cons x cells)
  have "fold_res (deserialize_line ((pre @ f x) @ concat (map f cells)) b) cells (put_line f st x, length (pre @ f x)) =
    Inr (foldl (put_line f) (put_line f st x) cells, length (pre @ f x) + length cells * nat b)"
    using Cons.prems by (intro Cons.IH) simp
  then show ?case
    using Cons.prems deserialize_step [of f x b pre "concat (map f cells)" st] by (simp add: add.assoc)
qed simp

lemma put_all:
  assumes "\<forall>p \<in> set st. length p = h" and "\<forall>x \<in> set cells. 0 \<le> snd x"
  shows "length (foldl (put_line f) st cells) = length st \<and>
    (\<forall>p \<in> set (foldl (put_line f) st cells). length p = h) \<and>
    (\<forall>k < length st. \<forall>y < h. foldl (put_line f) st cells ! k ! y =
       (if (y, int k) \<in> set cells then f (y, int k) else st ! k ! y))"
  using assms
proof (induction cells arbitrary: st rule: rev_induct)
  case (snoc x cells)
  let ?s = "foldl (put_line f) st cells"
  have IH: "length ?s = length st" "\<forall>p \<in> set ?s. length p = h"
    "\<forall>k < length st. \<forall>y < h. ?s ! k ! y = (if (y, int k) \<in> set cells then f (y, int k) else st ! k ! y)"
    using snoc by simp_all
  have shape: "\<forall>p \<in> set (put_line f ?s x). length p = h"
  proof
    fix p assume p: "p \<in> set (put_line f ?s x)"
    show "length p = h"
    proof (cases "nat (snd x) < length ?s")
      case True
      then have "length (?s ! nat (snd x)) = h" using IH(2) by simp
      then show ?thesis using p IH(2) set_update_subset_insert [of ?s "nat (snd x)" "(?s ! nat (snd x))[fst x := f x]"]
        by (auto simp: put_line_def)
    qed (use p IH(2) in \<open>simp add: put_line_def list_update_beyond\<close>)
  qed
  have "put_line f ?s x ! k ! y = (if (y, int k) \<in> set (cells @ [x]) then f (y, int k) else st ! k ! y)"
    if k: "k < length st" and y: "y < h" for k y
  proof -
    have l: "length (?s ! k) = h" using IH(1,2) k by simp
    have g: "?s ! k ! y = (if (y, int k) \<in> set cells then f (y, int k) else st ! k ! y)"
      using IH(3) k y by blast
    show ?thesis
    proof (cases "nat (snd x) = k \<and> fst x = y")
      case True
      then have "x = (y, int k)" using snoc.prems(2) by (cases x) auto
      then show ?thesis using k y IH(1) l by (simp add: put_line_def)
    next
      case False
      then have "x \<noteq> (y, int k)" by auto
      moreover have "put_line f ?s x ! k ! y = ?s ! k ! y"
        using False k IH(1) by (cases "nat (snd x) = k") (auto simp: put_line_def)
      ultimately show ?thesis using g by simp
    qed
  qed
  moreover have "length (put_line f ?s x) = length st" using IH(1) by (simp add: put_line_def)
  ultimately show ?case using shape by simp
qed simp

lemma set_row_cells: "(y, c) \<in> set (row_cells rows order) \<longleftrightarrow> y < nat rows \<and> c \<in> set order"
  by (auto simp: row_cells_def)

lemma length_row_cells: "length (row_cells rows order) = nat rows * length order"
  by (simp add: row_cells_def length_product)

lemma raster_cells:
  assumes "raster_ok r planes" and "x \<in> set (row_cells (ra_height r) (ra_order r))"
  shows "0 \<le> snd x" "snd x < int (length planes)" "fst x < length (planes ! nat (snd x))"
    "length (raster_line planes x) = nat (ra_lineBytes r)"
  using assms by (cases x; auto simp: raster_ok_def set_row_cells raster_line_def)+

lemma serialized:
  assumes r: "raster_ok r planes"
  shows "serializeRaster r = Inr (concat (map (raster_line planes) (row_cells (ra_height r) (ra_order r))))"
    and "length (concat (map (raster_line planes) (row_cells (ra_height r) (ra_order r)))) = raster_size r"
proof -
  let ?cells = "row_cells (ra_height r) (ra_order r)"
  have "\<forall>l \<in> set (map (raster_line planes) ?cells). length l = nat (ra_lineBytes r)"
    using raster_cells(4) [OF r] by auto
  then show len: "length (concat (map (raster_line planes) ?cells)) = raster_size r"
    by (simp add: length_concat_lines [of _ "nat (ra_lineBytes r)"] length_row_cells raster_size_def)
  have "fold_res (serialize_line planes (ra_lineBytes r)) ?cells [] = Inr (concat (map (raster_line planes) ?cells))"
    using raster_cells [OF r] by (subst serialize_all) (auto simp: raster_line_def)
  moreover have "checkedRasterSize (ra_height r) (int (length (ra_order r))) (ra_lineBytes r) = Some (raster_size r)"
    using r checkedRasterSize_fits [of "ra_height r" "int (length (ra_order r))" "ra_lineBytes r"]
    by (auto simp: raster_ok_def raster_size_def)
  ultimately show "serializeRaster r = Inr (concat (map (raster_line planes) ?cells))"
    using r len by (simp add: serializeRaster_def raster_ok_def)
qed

lemma shipped:
  assumes r: "raster_ok r planes"
  shows "foldl (put_line (raster_line planes))
      (replicate (nat (foldl max (-1) (ra_order r) + 1)) (replicate (nat (ra_height r)) []))
      (row_cells (ra_height r) (ra_order r)) = shipped_planes r planes"
    (is "?s = _")
proof (rule nth_equalityI)
  let ?n = "nat (foldl max (-1) (ra_order r) + 1)" and ?h = "nat (ra_height r)"
  note p = put_all [of "replicate ?n (replicate ?h [])" ?h "row_cells (ra_height r) (ra_order r)" "raster_line planes"]
  have c: "\<forall>x \<in> set (row_cells (ra_height r) (ra_order r)). 0 \<le> snd x" using raster_cells(1) [OF r] by auto
  show len: "length ?s = length (shipped_planes r planes)" using p c by (simp add: shipped_planes_def)
  fix k assume k: "k < length ?s"
  then have k': "k < ?n" using len by (simp add: shipped_planes_def)
  have l: "length (?s ! k) = ?h" using p c k by simp
  have nth: "?s ! k ! y = (if int k \<in> set (ra_order r) then planes ! k ! y else [])" if "y < ?h" for y
    using p c k' that by (auto simp: set_row_cells raster_line_def)
  have big: "?h \<le> length (planes ! k)" if "int k \<in> set (ra_order r)"
    using r that by (force simp: raster_ok_def)
  show "?s ! k = shipped_planes r planes ! k"
    using l nth big k' by (intro nth_equalityI) (auto simp: shipped_planes_def)
qed

context qvariant_laws
begin

lemma raster_comes_back:
  assumes r: "raster_ok r planes" and p: "serializeRaster r = Inr payload"
  shows "deserializeRaster Q (rasterMetadata Q r) payload = Inr (r\<lparr>ra_lines := Some (shipped_planes r planes)\<rparr>)"
proof -
  have t: "fits_int (ra_width r)" "fits_int (ra_height r)" "fits_int (ra_xdpi r)"
    "fits_int (ra_ydpi r)" "fits_int (ra_lineBytes r)" "length (ra_header r) = 12"
    "\<not> uint (ra_format r) > 2" "\<forall>c \<in> set (ra_order r). fits_int c"
    using r by (auto simp: raster_ok_def fits_int_def int_max_def int_min_def)
  have ch: "\<not> (\<exists>c \<in> set (ra_order r). c < 0 \<or> c > 15)" using r by (auto simp: raster_ok_def)
  let ?m = "rasterMetadata Q r" and ?cells = "row_cells (ra_height r) (ra_order r)"
  have pl: "payload = concat (map (raster_line planes) ?cells)" "length payload = raster_size r"
    using p serialized [OF r] by auto
  have "toInt Q (valueAt Q ?m ''format'') = uint (ra_format r)"
    "map (toInt Q) (toList Q (valueAt Q ?m ''channels'')) = ra_order r"
    "length (toList Q (valueAt Q ?m ''canonicalHeader'')) = 12"
    "map (toUInt Q) (toList Q (valueAt Q ?m ''canonicalHeader'')) = ra_header r"
    "toInt Q (valueAt Q ?m ''width'') = ra_width r"
    "toInt Q (valueAt Q ?m ''height'') = ra_height r"
    "toInt Q (valueAt Q ?m ''xdpi'') = ra_xdpi r"
    "toInt Q (valueAt Q ?m ''ydpi'') = ra_ydpi r"
    "toInt Q (valueAt Q ?m ''bytesPerLine'') = ra_lineBytes r"
    by (simp_all add: rasterMetadata_def valueAt_Some lists_come_back t toInt_ofInt fits_int_u8 del: map_map)
  moreover have "checkedRasterSize (ra_height r) (int (length (ra_order r))) (ra_lineBytes r) = Some (raster_size r)"
    using r checkedRasterSize_fits [of "ra_height r" "int (length (ra_order r))" "ra_lineBytes r"]
    by (auto simp: raster_ok_def raster_size_def)
  moreover have "fold_res (deserialize_line payload (ra_lineBytes r)) ?cells
      (replicate (nat (foldl max (-1) (ra_order r) + 1)) (replicate (nat (ra_height r)) []), 0) =
      Inr (shipped_planes r planes, length ?cells * nat (ra_lineBytes r))"
    using deserialize_all [of ?cells "raster_line planes" "ra_lineBytes r" "[]"] raster_cells(4) [OF r]
    by (simp add: pl(1) shipped [OF r])
  ultimately show ?thesis
    using t ch pl(2) by (simp add: deserializeRaster_def Let_def)
qed

end

section \<open>Reading past the payload\<close>

lemma checkedRasterSize_Some:
  assumes "checkedRasterSize rows n b = Some k" and "rows * n * b < 2 ^ 64"
  shows "0 < rows" "0 < n" "0 < b" "k = nat rows * nat n * nat b"
proof -
  show p: "0 < rows" "0 < n" "0 < b"
    using assms(1) by (auto simp: checkedRasterSize_def split: if_splits)
  have "0 \<le> rows * n * b" using p by simp
  then have w: "uint (cast64 rows * cast64 n * cast64 b) = rows * n * b"
    using assms(2) by (simp only: wi_hom_mult uint_cast64)
  have "k = unat (cast64 rows * cast64 n * cast64 b)"
    using assms(1) by (auto simp: checkedRasterSize_def Let_def split: if_splits)
  then have "k = nat (rows * n * b)" by (simp only: unat_eq_nat_uint w)
  then show "k = nat rows * nat n * nat b"
    using p by (simp add: nat_mult_distrib)
qed

lemma deserialize_in_bounds:
  "off + length cells * nat b \<le> length payload \<Longrightarrow>
   fold_res (deserialize_line payload b) cells (st, off) \<noteq> Inl e"
proof (induction cells arbitrary: st off)
  case (Cons x cells)
  then show ?case by (cases x) (simp add: deserialize_line_def Let_def add.assoc)
qed simp

lemma overrun_means_wrap:
  assumes "deserializeRaster Q m payload = Inl PayloadOverrun"
  shows "2 ^ 64 \<le> toInt Q (valueAt Q m ''height'') * int (length (toList Q (valueAt Q m ''channels''))) *
    toInt Q (valueAt Q m ''bytesPerLine'')"
proof (rule ccontr)
  let ?h = "toInt Q (valueAt Q m ''height'')" and ?b = "toInt Q (valueAt Q m ''bytesPerLine'')"
  let ?cs = "map (toInt Q) (toList Q (valueAt Q m ''channels''))"
  assume "\<not> ?thesis"
  then have small: "?h * int (length ?cs) * ?b < 2 ^ 64" by simp
  obtain k where k: "checkedRasterSize ?h (int (length ?cs)) ?b = Some k" "length payload = k"
    and f: "fold_res (deserialize_line payload ?b) (row_cells ?h ?cs)
      (replicate (nat (foldl max (-1) ?cs + 1)) (replicate (nat ?h) []), 0) = Inl PayloadOverrun"
    using assms
    by (auto simp: deserializeRaster_def Let_def bind_res_def split: if_splits option.splits sum.splits)
  have "k = nat ?h * length ?cs * nat ?b"
    using checkedRasterSize_Some(4) [OF k(1) small] by simp
  then show False
    using f k(2) deserialize_in_bounds [of 0 "row_cells ?h ?cs" ?b payload] by (simp add: length_row_cells)
qed

section \<open>Frames\<close>

definition message_body :: "datastream \<Rightarrow> bytes \<Rightarrow> bytes" where
  "message_body S b = put32 S ServiceMagic @ put16 S ServiceVersion @ b"

locale frame_laws = datastream_laws +
  fixes K :: "'v codec" and streamable :: "'v vmap \<Rightarrow> bool"
  assumes codec_law: "streamable m \<Longrightarrow> \<exists>b. putMap K m = Some b \<and> (\<forall>r. getMap K (b @ r) = Some (m, r))"
begin

lemma encoded:
  assumes "streamable m" and "encodeFrame S K m \<noteq> []"
  shows "\<exists>body. encodeFrame S K m = put32 S (of_nat (length body)) @ body \<and>
    unat (of_nat (length body) :: u32) = length body \<and> body \<noteq> [] \<and> length body \<le> unat MaximumFrameSize \<and>
    read_then (get32 S body) (\<lambda>magic b. read_then (get16 S b) (\<lambda>version b.
      read_then (getMap K b) (\<lambda>decoded _. Some (magic, version, decoded)))) = Some (ServiceMagic, ServiceVersion, m)"
proof -
  obtain b where b: "putMap K m = Some b" "\<And>r. getMap K (b @ r) = Some (m, r)"
    using codec_law [OF assms(1)] by auto
  let ?body = "message_body S b"
  have fit: "length ?body \<le> unat MaximumFrameSize"
    using assms(2) b(1) by (simp add: encodeFrame_def message_body_def Let_def split: if_splits)
  then have "unat (of_nat (length ?body) :: u32) = length ?body"
    by (simp add: unat_of_nat MaximumFrameSize_def)
  moreover have "?body \<noteq> []"
    using length_put32 [of ServiceMagic] by (auto simp: message_body_def simp del: length_put32)
  moreover have "encodeFrame S K m = put32 S (of_nat (length ?body)) @ ?body"
    using fit b(1) by (simp add: encodeFrame_def message_body_def Let_def)
  moreover have "getMap K b = Some (m, [])" using b(2) [of "[]"] by simp
  ultimately show ?thesis using fit by (intro exI [of _ ?body]) (simp add: message_body_def)
qed

lemma take_whole_frame:
  assumes "streamable m" and "encodeFrame S K m \<noteq> []"
  shows "takeFrame S K (encodeFrame S K m @ rest) = (FrameComplete m, rest)"
proof -
  obtain body where body: "encodeFrame S K m = put32 S (of_nat (length body)) @ body"
    "unat (of_nat (length body) :: u32) = length body" "body \<noteq> []" "length body \<le> unat MaximumFrameSize"
    "read_then (get32 S body) (\<lambda>magic b. read_then (get16 S b) (\<lambda>version b.
      read_then (getMap K b) (\<lambda>decoded _. Some (magic, version, decoded)))) = Some (ServiceMagic, ServiceVersion, m)"
    using encoded [OF assms] by blast
  have ok: "(of_nat (length body) :: u32) \<noteq> 0" "\<not> (of_nat (length body) :: u32) > MaximumFrameSize"
    using body(2-4) by (auto simp: word_less_nat_alt not_less simp del: of_nat_eq_0_iff)
  show ?thesis
    using ok body(2,5) get_put32 [of "of_nat (length body)" "[]"]
    by (simp add: takeFrame_def body(1) Let_def)
qed

lemma take_partial_frame:
  assumes "streamable m" and "encodeFrame S K m = part @ missing" and "missing \<noteq> []"
  shows "takeFrame S K part = (FrameIncomplete, part)"
proof (cases "length part < 4")
  case False
  have "encodeFrame S K m \<noteq> []" using assms(2,3) by simp
  with assms(1) obtain body where body: "encodeFrame S K m = put32 S (of_nat (length body)) @ body"
    "unat (of_nat (length body) :: u32) = length body" "body \<noteq> []" "length body \<le> unat MaximumFrameSize"
    using encoded by blast
  have ok: "(of_nat (length body) :: u32) \<noteq> 0" "\<not> (of_nat (length body) :: u32) > MaximumFrameSize"
    using body(2-4) by (auto simp: word_less_nat_alt not_less simp del: of_nat_eq_0_iff)
  have e: "put32 S (of_nat (length body)) @ body = part @ missing" using assms(2) body(1) by simp
  then have "take 4 (part @ missing) = put32 S (of_nat (length body))"
    by (metis append_eq_conv_conj length_put32)
  then have head: "take 4 part = put32 S (of_nat (length body))" using False by simp
  have "4 + length body = length part + length missing" using arg_cong [OF e, of length] by simp
  then have short: "length part < 4 + length body" using assms(3) by (cases missing) auto
  show ?thesis
    using False ok body(2) head short get_put32 [of "of_nat (length body)" "[]"]
    by (simp add: takeFrame_def Let_def)
qed (simp add: takeFrame_def)

end

end
