(* ===== verification/Server_Laws.thy ===== *)
theory Server_Laws
  imports Service_Server Service_Protocol_Laws
begin

text \<open>
  What the printer service keeps: every upload it knows has a partial file that holds
  exactly the bytes it acknowledged, no more than were announced, under a path of its own,
  and announced metadata that passed every check; no request leaves it in the printing
  state. The transitions of the service (requests, expiry, connections) are an inductive
  step relation, and the invariant is proved by rule induction over the reachable states.
\<close>

section \<open>What a response changes\<close>

lemma response_fields [simp]:
  "srv_uploads (snd (response E ok r e s)) = srv_uploads s"
  "srv_printing (snd (response E ok r e s)) = srv_printing s"
  "srv_disk (snd (response E ok r e s)) = srv_disk s"
  "srv_quit (snd (response E ok r e s)) = srv_quit s"
  "srv_buffers (snd (response E ok r e s)) = srv_buffers s"
  "srv_tcpBuffers (snd (response E ok r e s)) = srv_tcpBuffers s"
  by (simp_all add: response_def serviceState_def Let_def split_def)

lemma refuse_fields [simp]:
  "srv_uploads (snd (refuse E e s)) = srv_uploads s"
  "srv_printing (snd (refuse E e s)) = srv_printing s"
  "srv_disk (snd (refuse E e s)) = srv_disk s"
  by (simp_all add: refuse_def)

lemma backend_call_fields [simp]:
  "srv_uploads (snd (backend_call E f s)) = srv_uploads s"
  "srv_printing (snd (backend_call E f s)) = srv_printing s"
  "srv_disk (snd (backend_call E f s)) = srv_disk s"
  by (simp_all add: backend_call_def Let_def split_def)

definition keeps_uploads :: "('d, 'b) server \<Rightarrow> ('d, 'b) server \<Rightarrow> bool" where
  "keeps_uploads s s' \<longleftrightarrow>
     srv_uploads s' = srv_uploads s \<and> srv_disk s' = srv_disk s \<and> srv_printing s' = srv_printing s"

lemma keeps_response [intro]:
  "keeps_uploads s s1 \<Longrightarrow> keeps_uploads s (snd (response E ok r e s1))"
  "keeps_uploads s s1 \<Longrightarrow> keeps_uploads s (snd (refuse E x s1))"
  "keeps_uploads s s1 \<Longrightarrow> keeps_uploads s (snd (backend_call E f s1))"
  by (simp_all add: keeps_uploads_def)

lemma keeps_backend [intro, simp]:
  "keeps_uploads s (s\<lparr>srv_backend := b\<rparr>)" "keeps_uploads s s" "keeps_uploads s (s\<lparr>srv_quit := q\<rparr>)"
  by (simp_all add: keeps_uploads_def)

lemma printer_commands_keep:
  "keeps_uploads s (snd (on_configure E args s))"
  "keeps_uploads s (snd (on_refreshPrinters E s))"
  "keeps_uploads s (snd (on_query E g s))"
  "keeps_uploads s (snd (on_maintenance E args s))"
  "keeps_uploads s (snd (submit_job E args payload s))"
  by (auto simp: on_configure_def on_refreshPrinters_def on_query_def on_maintenance_def submit_job_def
      Let_def split_def keeps_uploads_def split: sum.splits)

lemma reconnect_keeps: "keeps_uploads s (snd (on_reconnectPrinter E args s))"
  by (auto simp: on_reconnectPrinter_def Let_def split_def keeps_uploads_def split: option.splits)

section \<open>The invariant\<close>

definition announced :: "upload \<Rightarrow> bool" where
  \<comment> \<open>the metadata of the upload passed the checks of \<open>beginRasterUpload\<close>\<close>
  "announced u \<longleftrightarrow> metadataIsValid (up_expectedSpool u) = Inr () \<and> spool_typed (up_expectedSpool u) \<and>
     sp_bodyOffset (up_expectedSpool u) = HeaderBytes \<and>
     sp_bodyBytes (up_expectedSpool u) = expectedBodyBytes (up_expectedSpool u) \<and>
     up_expectedBytes u = HeaderBytes + sp_bodyBytes (up_expectedSpool u)"

definition upload_ok :: "string \<Rightarrow> (string \<rightharpoonup> bytes) \<Rightarrow> string \<times> upload \<Rightarrow> bool" where
  "upload_ok dir files entry \<longleftrightarrow>
     (case entry of (uploadId, u) \<Rightarrow>
       announced u \<and> up_partialPath u = uploadPath dir uploadId \<and>
       (\<exists>b. files (up_partialPath u) = Some b \<and> length b = unat (up_receivedBytes u)) \<and>
       up_receivedBytes u \<le> up_expectedBytes u)"

definition server_inv ::
  "('v, 'd, 'b) service_env \<Rightarrow> ('d \<Rightarrow> string \<rightharpoonup> bytes) \<Rightarrow> ('d, 'b) server \<Rightarrow> bool" where
  "server_inv E contents s \<longleftrightarrow>
     distinct (map fst (srv_uploads s)) \<and>
     (\<forall>entry \<in> set (srv_uploads s). upload_ok (sv_uploadDirectory E) (contents (srv_disk s)) entry) \<and>
     \<not> srv_printing s"

lemma server_inv_simps [simp]:
  "server_inv E contents (snd (response E ok r e s)) = server_inv E contents s"
  "server_inv E contents (snd (refuse E x s)) = server_inv E contents s"
  "server_inv E contents (snd (backend_call E f s)) = server_inv E contents s"
  "server_inv E contents (s\<lparr>srv_backend := b\<rparr>) = server_inv E contents s"
  "server_inv E contents (s\<lparr>srv_quit := q\<rparr>) = server_inv E contents s"
  "server_inv E contents (s\<lparr>srv_buffers := bs\<rparr>) = server_inv E contents s"
  "server_inv E contents (s\<lparr>srv_tcpBuffers := bs\<rparr>) = server_inv E contents s"
  by (simp_all add: server_inv_def)

lemma keeps_inv: "keeps_uploads s s' \<Longrightarrow> server_inv E contents s \<Longrightarrow> server_inv E contents s'"
  by (simp add: keeps_uploads_def server_inv_def)

lemma uploadPath_inject [simp]: "uploadPath dir a = uploadPath dir b \<longleftrightarrow> a = b"
  by (simp add: uploadPath_def filePath_def)

lemma final_upload_path: "final_upload_path (uploadPath dir a) = filePath dir (a @ ''.pfrs'')"
  by (simp add: final_upload_path_def uploadPath_def filePath_def)

lemma final_not_partial [simp]: "filePath dir (a @ ''.pfrs'') \<noteq> uploadPath dir b"
proof
  assume "filePath dir (a @ ''.pfrs'') = uploadPath dir b"
  then have "rev (a @ ''.pfrs'') = rev (b @ ''.upload.partial'')"
    by (simp add: uploadPath_def filePath_def)
  then show False by simp
qed

lemmas partial_not_final [simp] = final_not_partial [symmetric]

lemma upload_ok_other:
  "upload_ok dir files (k, u) \<Longrightarrow> p \<noteq> uploadPath dir k \<Longrightarrow> upload_ok dir (files(p := x)) (k, u)"
  by (auto simp: upload_ok_def)

lemma set_update: "entry \<in> set (AList.update k v xs) \<Longrightarrow> distinct (map fst xs) \<Longrightarrow>
  entry = (k, v) \<or> entry \<in> set xs \<and> fst entry \<noteq> k"
proof (induction xs)
  case (Cons x xs)
  then show ?case by (cases x) (force split: if_splits)
qed simp

lemma set_delete: "entry \<in> set (AList.delete k xs) \<longleftrightarrow> entry \<in> set xs \<and> fst entry \<noteq> k"
  by (induction xs) auto

lemma inv_lookup:
  "server_inv E contents s \<Longrightarrow> map_of (srv_uploads s) k = Some u \<Longrightarrow>
   upload_ok (sv_uploadDirectory E) (contents (srv_disk s)) (k, u)"
  by (auto simp: server_inv_def dest: map_of_SomeD)

lemma announced_size:
  assumes "announced u"
  shows "unat (up_expectedBytes u) = 4096 + body_size (up_expectedSpool u)" and "unat (up_expectedBytes u) < 2 ^ 63"
proof -
  let ?sp = "up_expectedSpool u"
  have v: "metadataIsValid ?sp = Inr ()" "spool_typed ?sp"
    and e: "up_expectedBytes u = HeaderBytes + expectedBodyBytes ?sp"
    using assms by (simp_all add: announced_def)
  have b: "unat (expectedBodyBytes ?sp) = body_size ?sp" "int (body_size ?sp) < 2 ^ 62"
    using valid_layout(3,4) [OF v] by simp_all
  then show "unat (up_expectedBytes u) = 4096 + body_size ?sp"
    by (subst e, subst unat_add_lem [THEN iffD1]) (auto simp: HeaderBytes_def)
  then show "unat (up_expectedBytes u) < 2 ^ 63" using b(2) by simp
qed

lemma inv_put:
  assumes "server_inv E contents s" and "upload_ok (sv_uploadDirectory E) (contents d) (k, u)"
    and "\<And>q. q \<noteq> uploadPath (sv_uploadDirectory E) k \<Longrightarrow> contents d q = contents (srv_disk s) q"
  shows "server_inv E contents (s\<lparr>srv_disk := d, srv_uploads := AList.update k u (srv_uploads s)\<rparr>)"
proof -
  have "upload_ok (sv_uploadDirectory E) (contents d) entry" if "entry \<in> set (AList.update k u (srv_uploads s))" for entry
    using set_update [OF that] assms by (cases entry) (auto simp: server_inv_def upload_ok_def)
  then show ?thesis using assms(1) by (auto simp: server_inv_def intro: AList.distinct_update)
qed

lemma inv_drop:
  assumes "server_inv E contents s"
    and "\<And>j. j \<noteq> k \<Longrightarrow> contents d (uploadPath (sv_uploadDirectory E) j) =
      contents (srv_disk s) (uploadPath (sv_uploadDirectory E) j)"
  shows "server_inv E contents (s\<lparr>srv_disk := d, srv_uploads := AList.delete k (srv_uploads s)\<rparr>)"
proof -
  have "upload_ok (sv_uploadDirectory E) (contents d) entry" if entry: "entry \<in> set (AList.delete k (srv_uploads s))" for entry
  proof -
    have "entry \<in> set (srv_uploads s)" "fst entry \<noteq> k" using entry unfolding set_delete by simp_all
    then obtain j u where e: "entry = (j, u)" "entry \<in> set (srv_uploads s)" "j \<noteq> k"
      by (metis prod.collapse)
    then have "upload_ok (sv_uploadDirectory E) (contents (srv_disk s)) (j, u)"
      using assms(1) by (auto simp: server_inv_def)
    then show ?thesis using assms(2) [OF e(3)] by (auto simp: e(1) upload_ok_def)
  qed
  then show ?thesis using assms(1) by (auto simp: server_inv_def intro: AList.distinct_delete)
qed

context qvariant_laws
begin

lemma begin_checks_announced:
  assumes "begin_checks E args = Inr (expected, settings, n)" and "sv_variant E = Q"
  shows "announced \<lparr>up_partialPath = p, up_expectedBytes = n, up_receivedBytes = r, up_lastActivityMs = t,
    up_expectedSpool = expected, up_settings = settings\<rparr>"
proof -
  have sp: "spoolMetadataFromMap Q (toMap Q (valueAt Q args ''spool'')) = Inr expected"
    and v: "metadataIsValid expected = Inr ()" "sp_bodyOffset expected = HeaderBytes"
    "sp_bodyBytes expected = expectedBodyBytes expected" "n = HeaderBytes + sp_bodyBytes expected"
    using assms by (auto simp: begin_checks_def Let_def split: sum.splits if_splits)
  have "spool_typed expected"
    using sp by (auto simp: spoolMetadataFromMap_def Let_def spool_typed_def toInt_fits split: if_splits)
  then show ?thesis using v by (simp add: announced_def)
qed

end

locale service = variants: qvariant_laws "sv_variant E" + files: disk_laws "sv_disk E" contents
  for E :: "('v, 'd, 'b) service_env" and contents :: "'d \<Rightarrow> string \<rightharpoonup> bytes"
begin

abbreviation "consistent \<equiv> server_inv E contents"

lemma ensure_directory_contents [simp]: "contents (ensure_directory (sv_disk E) p d) = contents d"
  by (auto simp: ensure_directory_def files.makePath_law split: option.splits)

lemma inv_respond [intro]:
  "consistent s \<Longrightarrow> consistent (snd (response E ok r e s))" "consistent s \<Longrightarrow> consistent (snd (refuse E x s))"
  by (simp_all add: server_inv_def)

lemma inv_disk: "consistent s \<Longrightarrow> contents d = contents (srv_disk s) \<Longrightarrow> consistent (s\<lparr>srv_disk := d\<rparr>)"
  by (simp add: server_inv_def)

lemma begin_keeps:
  assumes s: "consistent s"
  shows "consistent (snd (begin_upload E now k args s))"
proof (cases "begin_checks E args")
  case (Inl e)
  then show ?thesis using s by (auto simp: begin_upload_def)
next
  case (Inr r)
  obtain expected settings n where r: "r = (expected, settings, n)" by (cases r)
  let ?D = "sv_disk E" and ?p = "uploadPath (sv_uploadDirectory E) k"
  let ?d = "ensure_directory ?D (sv_uploadDirectory E) (srv_disk s)"
  define u where "u = \<lparr>up_partialPath = ?p, up_expectedBytes = n, up_receivedBytes = 0,
    up_lastActivityMs = now, up_expectedSpool = expected, up_settings = settings\<rparr>"
  have an: "announced u" using variants.begin_checks_announced [OF Inr [unfolded r] refl] by (simp add: u_def)
  have dir: "consistent (s\<lparr>srv_disk := ?d\<rparr>)" using s by (rule inv_disk) simp
  have put: "consistent (s\<lparr>srv_disk := d, srv_uploads := AList.update k u (srv_uploads s)\<rparr>)"
    if "openTruncate ?D ?p ?d = Some d" for d
  proof (rule inv_put [OF s])
    have c: "contents d = (contents (srv_disk s))(?p \<mapsto> [])" using files.openTruncate_law [OF that] by simp
    then show "upload_ok (sv_uploadDirectory E) (contents d) (k, u)"
      using an by (auto simp: upload_ok_def u_def)
    show "contents d q = contents (srv_disk s) q" if "q \<noteq> ?p" for q using c that by simp
  qed
  show ?thesis
    using dir put by (auto simp: begin_upload_def Inr r Let_def u_def [symmetric] split: option.splits)
qed

lemma append_file_law:
  assumes "append_file (sv_disk E) p x d = Some d'" and "contents d p = Some b"
  shows "contents d' = (contents d)(p \<mapsto> b @ x)"
proof -
  have "writeAt (sv_disk E) p (length b) x d = Some d'"
    using assms by (simp add: append_file_def files.fileExists_law files.fileSize_law)
  from files.writeAt_law [OF this assms(2)] show ?thesis by (simp add: overwrite_end)
qed

lemma unat_no_wrap: "unat (a :: u64) < 2 ^ 63 \<Longrightarrow> n < 2 ^ 63 \<Longrightarrow> unat (a + of_nat n) = unat a + n"
  by (subst unat_add_lem [THEN iffD1]) (simp_all add: unat_of_nat)

lemma append_keeps:
  assumes s: "consistent s"
  shows "consistent (snd (append_chunk E now args chunk s))"
proof (cases "map_of (srv_uploads s) (toStr (sv_variant E) (valueAt (sv_variant E) args ''uploadId''))")
  case None
  then show ?thesis using s by (auto simp: append_chunk_def Let_def)
next
  case (Some u)
  let ?k = "toStr (sv_variant E) (valueAt (sv_variant E) args ''uploadId'')"
  let ?p = "uploadPath (sv_uploadDirectory E) ?k" and ?D = "sv_disk E"
  have ok: "upload_ok (sv_uploadDirectory E) (contents (srv_disk s)) (?k, u)" by (rule inv_lookup [OF s Some])
  then obtain b where b: "contents (srv_disk s) ?p = Some b" "length b = unat (up_receivedBytes u)"
    and p: "up_partialPath u = ?p" and an: "announced u" and le: "up_receivedBytes u \<le> up_expectedBytes u"
    by (auto simp: upload_ok_def)
  let ?r = "up_receivedBytes u + of_nat (length chunk)"
  let ?u = "u\<lparr>up_receivedBytes := ?r, up_lastActivityMs := now\<rparr>"
  have put: "consistent (s\<lparr>srv_disk := d, srv_uploads := AList.update ?k ?u (srv_uploads s)\<rparr>)"
    if d: "append_file ?D ?p chunk (srv_disk s) = Some d" and fit: "\<not> ?r > up_expectedBytes u"
      and small: "\<not> length chunk > kUploadChunkBytes" for d
  proof (rule inv_put [OF s])
    have c: "contents d = (contents (srv_disk s))(?p \<mapsto> b @ chunk)" by (rule append_file_law [OF d b(1)])
    have "unat (up_receivedBytes u) < 2 ^ 63"
      using le announced_size(2) [OF an] by (simp add: word_le_nat_alt)
    then have "unat ?r = unat (up_receivedBytes u) + length chunk"
      using small by (intro unat_no_wrap) (simp_all add: kUploadChunkBytes_def)
    then show "upload_ok (sv_uploadDirectory E) (contents d) (?k, ?u)"
      using an p b(2) c fit by (simp add: upload_ok_def announced_def not_less)
    show "contents d q = contents (srv_disk s) q" if "q \<noteq> ?p" for q using c that by simp
  qed
  have drop: "consistent (s\<lparr>srv_disk := removeFile ?D ?p (srv_disk s), srv_uploads := AList.delete ?k (srv_uploads s)\<rparr>)"
    by (rule inv_drop [OF s]) (simp add: files.removeFile_law)
  show ?thesis
    using s put drop by (auto simp: append_chunk_def Let_def Some p split: option.splits)
qed

lemma cancel_keeps:
  assumes s: "consistent s"
  shows "consistent (snd (cancel_upload E args s))"
proof (cases "map_of (srv_uploads s) (toStr (sv_variant E) (valueAt (sv_variant E) args ''uploadId''))")
  case (Some u)
  have "up_partialPath u = uploadPath (sv_uploadDirectory E) (toStr (sv_variant E) (valueAt (sv_variant E) args ''uploadId''))"
    using inv_lookup [OF s Some] by (simp add: upload_ok_def)
  then show ?thesis
    using inv_drop [OF s] by (auto simp: cancel_upload_def Let_def Some files.removeFile_law)
qed (use s in \<open>auto simp: cancel_upload_def Let_def\<close>)

lemma commit_keeps:
  assumes s: "consistent s"
  shows "consistent (snd (commit_upload E args s))"
proof (cases "map_of (srv_uploads s) (toStr (sv_variant E) (valueAt (sv_variant E) args ''uploadId''))")
  case None
  then show ?thesis using s by (auto simp: commit_upload_def Let_def)
next
  case (Some u)
  let ?k = "toStr (sv_variant E) (valueAt (sv_variant E) args ''uploadId'')" and ?D = "sv_disk E"
  let ?p = "uploadPath (sv_uploadDirectory E) ?k" and ?f = "filePath (sv_uploadDirectory E) (?k @ ''.pfrs'')"
  let ?s = "s\<lparr>srv_uploads := AList.delete ?k (srv_uploads s)\<rparr>"
  have p: "up_partialPath u = ?p" using inv_lookup [OF s Some] by (simp add: upload_ok_def)
  have drop: "consistent (?s\<lparr>srv_disk := removeFile ?D ?p (srv_disk s)\<rparr>)"
    using inv_drop [OF s, where d = "removeFile ?D ?p (srv_disk s)" and k = ?k]
    by (simp add: files.removeFile_law server_inv_def)
  have gone: "consistent (?s\<lparr>srv_disk := removeFile ?D ?f d, srv_backend := b\<rparr>)"
    if "renameFile ?D ?p ?f (srv_disk s) = Some d" for d b
    using inv_drop [OF s, where d = "removeFile ?D ?f d" and k = ?k] files.renameFile_law [OF that]
    by (simp add: files.removeFile_law server_inv_def)
  show ?thesis
  proof (cases "up_receivedBytes u = up_expectedBytes u")
    case False
    then show ?thesis using drop by (auto simp: commit_upload_def Let_def Some p)
  next
    case eq: True
    show ?thesis
    proof (cases "renameFile ?D ?p ?f (srv_disk s)")
      case None
      then show ?thesis using drop eq by (auto simp: commit_upload_def Let_def Some p final_upload_path)
    next
      case (Some d)
      show ?thesis
      proof (cases "uploaded_spool E ?f (up_expectedSpool u) d")
        case (Inl e)
        then show ?thesis
          using gone [OF Some, of "srv_backend s"] eq \<open>map_of _ _ = Some u\<close>
          by (auto simp: commit_upload_def Let_def p final_upload_path Some)
      next
        case (Inr sp)
        then show ?thesis
          using gone [OF Some] eq \<open>map_of _ _ = Some u\<close>
          by (auto simp: commit_upload_def Let_def p final_upload_path Some split_def server_inv_def)
      qed
    qed
  qed
qed

lemma consistent_if:
  "consistent (snd x) \<Longrightarrow> consistent (snd y) \<Longrightarrow> consistent (snd (if b then x else y))"
  by simp

lemma handle_keeps:
  assumes s: "consistent s"
  shows "consistent (snd (handleRequest E now k request s))"
proof -
  note commands = begin_keeps [OF s] append_keeps [OF s] cancel_keeps [OF s] commit_keeps [OF s]
    keeps_inv [OF printer_commands_keep(1) s] keeps_inv [OF printer_commands_keep(2) s]
    keeps_inv [OF printer_commands_keep(3) s] keeps_inv [OF printer_commands_keep(4) s]
    keeps_inv [OF printer_commands_keep(5) s] keeps_inv [OF reconnect_keeps s]
  show ?thesis
    unfolding handleRequest_def Let_def split_def
    by (intro consistent_if) (rule commands | simp only: server_inv_simps s)+
qed

lemma remove_expired_eq:
  "fst (remove_expired (sv_disk E) cutoff us d) = filter (\<lambda>(k, u). cutoff < up_lastActivityMs u) us"
  "contents (snd (remove_expired (sv_disk E) cutoff us d)) =
     (\<lambda>q. if \<exists>(k, u) \<in> set us. up_lastActivityMs u \<le> cutoff \<and> up_partialPath u = q then None else contents d q)"
proof (induction us arbitrary: d)
  case (Cons x us)
  case 1
  show ?case using Cons.IH(1) by (cases x) (simp add: split_def Let_def)
next
  case (Cons x us)
  case 2
  show ?case using Cons.IH(2) by (cases x) (auto simp: split_def Let_def files.removeFile_law fun_eq_iff)
qed simp_all

lemma removeExpired_keeps:
  assumes s: "consistent s"
  shows "consistent (removeExpiredUploads E now s)"
proof -
  let ?c = "now - kUploadExpiryMs"
  obtain us d where r: "remove_expired (sv_disk E) ?c (srv_uploads s) (srv_disk s) = (us, d)" by fastforce
  have us: "us = filter (\<lambda>(k, u). ?c < up_lastActivityMs u) (srv_uploads s)"
    using remove_expired_eq(1) [of ?c "srv_uploads s" "srv_disk s"] r by simp
  have d: "contents d = (\<lambda>q. if \<exists>(k, u) \<in> set (srv_uploads s). up_lastActivityMs u \<le> ?c \<and> up_partialPath u = q
      then None else contents (srv_disk s) q)"
    using remove_expired_eq(2) [of ?c "srv_uploads s" "srv_disk s"] r by simp
  have dist: "distinct (map fst (srv_uploads s))" using s by (simp add: server_inv_def)
  have "upload_ok (sv_uploadDirectory E) (contents d) (k, u)" if e: "(k, u) \<in> set us" for k u
  proof -
    have k: "(k, u) \<in> set (srv_uploads s)" "?c < up_lastActivityMs u" using e us by auto
    have ok: "upload_ok (sv_uploadDirectory E) (contents (srv_disk s)) (k, u)"
      using s k(1) by (auto simp: server_inv_def)
    have "\<not> (\<exists>(j, v) \<in> set (srv_uploads s). up_lastActivityMs v \<le> ?c \<and> up_partialPath v = up_partialPath u)"
    proof clarify
      fix j v assume v: "(j, v) \<in> set (srv_uploads s)" "up_lastActivityMs v \<le> ?c" "up_partialPath v = up_partialPath u"
      have "up_partialPath v = uploadPath (sv_uploadDirectory E) j"
        using s v(1) by (auto simp: server_inv_def upload_ok_def)
      then have "j = k" using v(3) ok by (simp add: upload_ok_def)
      then have "v = u" using dist k(1) v(1) by (metis eq_key_imp_eq_value)
      then show False using v(2) k(2) by simp
    qed
    then have "contents d (up_partialPath u) = contents (srv_disk s) (up_partialPath u)" by (simp add: d)
    then show ?thesis using ok by (auto simp: upload_ok_def)
  qed
  then show ?thesis
    using dist s by (auto simp: removeExpiredUploads_def r server_inv_def us distinct_map_filter)
qed

end

section \<open>The service as a transition system\<close>

inductive service_step :: "('v, 'd, 'b) service_env \<Rightarrow> ('d, 'b) server \<Rightarrow> ('d, 'b) server \<Rightarrow> bool"
  for E where
  step_accept: "service_step E s (acceptConnection socket s)"
| step_acceptTcp: "service_step E s (acceptTcpConnection socket s)"
| step_read: "readClient E now uploadId socket arrived s = (out, s') \<Longrightarrow> service_step E s s'"
| step_readTcp: "readTcpClient E now uploadId socket arrived s = (out, s') \<Longrightarrow> service_step E s s'"
| step_remove: "service_step E s (removeClient socket s)"
| step_removeTcp: "service_step E s (removeTcpClient socket s)"
| step_expire: "service_step E s (removeExpiredUploads E now s)"

definition service_start :: "('d, 'b) server \<Rightarrow> bool" where
  "service_start s \<longleftrightarrow> srv_uploads s = [] \<and> \<not> srv_printing s"

inductive reachable :: "('v, 'd, 'b) service_env \<Rightarrow> ('d, 'b) server \<Rightarrow> bool" for E where
  reach_start: "service_start s \<Longrightarrow> reachable E s"
| reach_step: "reachable E s \<Longrightarrow> service_step E s s' \<Longrightarrow> reachable E s'"

inductive_cases service_stepE: "service_step E s s'"

context service
begin

lemma receive_keeps: "consistent s \<Longrightarrow> receive E now k b s = (buf, out, s') \<Longrightarrow> consistent s'"
  using handle_keeps [of s now k]
  by (auto simp: receive_def Let_def split_def split: decode_status.splits prod.splits dest!: sym [of _ s'])

lemma step_keeps: "service_step E s s' \<Longrightarrow> consistent s \<Longrightarrow> consistent s'"
proof (induction rule: service_step.induct)
  case (step_read now k socket arrived s out s')
  then show ?case by (auto simp: readClient_def Let_def split: option.splits prod.splits dest: receive_keeps)
next
  case (step_readTcp now k socket arrived s out s')
  then show ?case by (auto simp: readTcpClient_def Let_def split: option.splits prod.splits dest: receive_keeps)
qed (simp_all add: acceptConnection_def acceptTcpConnection_def removeClient_def removeTcpClient_def
    removeExpired_keeps)

lemma reachable_consistent: "reachable E s \<Longrightarrow> consistent s"
proof (induction rule: reachable.induct)
  case (reach_start s)
  then show ?case by (simp add: service_start_def server_inv_def)
qed (rule step_keeps)

lemma closeServer_removes:
  "contents (srv_disk (closeServer (sv_disk E) s)) p =
    (if p \<in> (up_partialPath \<circ> snd) ` set (srv_uploads s) then None else contents (srv_disk s) p)"
proof -
  have "contents (foldl (\<lambda>d (k, u). removeFile (sv_disk E) (up_partialPath u) d) d us) p =
      (if p \<in> (up_partialPath \<circ> snd) ` set us then None else contents d p)" for d and us :: "(string \<times> upload) list"
    by (induction us arbitrary: d) (auto simp: files.removeFile_law)
  then show ?thesis by (simp add: closeServer_def)
qed

end

end
