(* ===== verification/Prn_Writer.thy ===== *)
theory Prn_Writer
  imports Ieee_Arith Spool_Laws
begin

text \<open>
  \<open>vendor/nocai/NocaiPrnWriter\<close>: the two PRN file formats of the printer boards, written
  either from packed lines in memory through an \<open>std::ofstream\<close> or from a finalized spool
  through a \<open>QSaveFile\<close>. Headers are written as they lie in memory on the little-endian
  targets the application is built for.
\<close>

section \<open>Headers\<close>

type_synonym x33_header = "u32 list" \<comment> \<open>twelve words\<close>

definition makeStandardX33Header :: "int \<Rightarrow> int \<Rightarrow> int \<Rightarrow> int \<Rightarrow> int \<Rightarrow> int \<Rightarrow> x33_header" where
  "makeStandardX33Header width height xdpi ydpi bytesPerLine colors =
     [0x5555, cast32 xdpi, cast32 ydpi, cast32 bytesPerLine, cast32 height, cast32 width,
      0, cast32 colors, 1, 1, 0, 0]"

definition makeStandardCmykHeader :: "int \<Rightarrow> int \<Rightarrow> int \<Rightarrow> int \<Rightarrow> int \<Rightarrow> x33_header" where
  "makeStandardCmykHeader width height xdpi ydpi bytesPerLine =
     makeStandardX33Header width height xdpi ydpi bytesPerLine 4"

definition makeStandardX33SdkHeader :: "x33_header \<Rightarrow> x33_header" where
  "makeStandardX33SdkHeader p =
     [p ! 0, p ! 1, p ! 2, p ! 3, p ! 4, p ! 5, p ! 6,
      p ! 7 AND 0xFFFF, drop_bit 16 (p ! 7), p ! 8, p ! 9, p ! 10]"

fun le_bytes :: "nat \<Rightarrow> u32 \<Rightarrow> bytes" where
  \<comment> \<open>the \<open>n\<close> low bytes of a word in memory order\<close>
  "le_bytes 0 w = []"
| "le_bytes (Suc n) w = ucast w # le_bytes n (drop_bit 8 w)"

lemma length_le_bytes [simp]: "length (le_bytes n w) = n"
  by (induction n arbitrary: w) simp_all

definition x33_header_bytes :: "x33_header \<Rightarrow> bytes" where
  "x33_header_bytes h = concat (map (le_bytes 4) h)"

datatype multi_ink_mode =
    FourColorYMCK
  | FiveColorYMCKW
  | SixColorYMCKLmLc
  | SevenColorYMCKLmLcW
  | EightColorYMCKLmLcLkLLk
  | TenColorYMCKLmLcLkLLkWV

definition ascii :: "char \<Rightarrow> u8" where "ascii c = of_char c"

definition mapLogicalChannelToBoardByte :: "multi_ink_mode \<Rightarrow> int \<Rightarrow> u8" where
  "mapLogicalChannelToBoardByte mode ch =
     (let lookup = (\<lambda>table. if 0 \<le> ch \<and> ch < int (length table) then table ! nat ch else 0) in
      case mode of
        FourColorYMCK \<Rightarrow> lookup (map ascii ''CMYK'')
      | FiveColorYMCKW \<Rightarrow> lookup (map ascii ''CMYKW'')
      | SixColorYMCKLmLc \<Rightarrow> lookup (map ascii ''CMYKcm'')
      | SevenColorYMCKLmLcW \<Rightarrow> lookup (map ascii ''CMYKcmW'')
      | EightColorYMCKLmLcLkLLk \<Rightarrow> lookup (map ascii ''CMYKcmk'' @ [1])
      | TenColorYMCKLmLcLkLLkWV \<Rightarrow> lookup (map ascii ''CMYKcmk'' @ [1] @ map ascii ''WV''))"

definition buildColorListForMode :: "multi_ink_mode \<Rightarrow> int list \<Rightarrow> bytes" where
  "buildColorListForMode mode channelOrder =
     (let named = map (mapLogicalChannelToBoardByte mode) (take 16 channelOrder)
      in named @ replicate (16 - length named) 0)"

definition float32_bits :: "rat \<Rightarrow> u32" where
  \<comment> \<open>the memory image of a positive normal \<open>float\<close>, and of zero\<close>
  "float32_bits x =
     (if x = 0 then 0
      else let e = flog2 x in cast32 ((e + 127) * 2 ^ 23 + \<lfloor>(x / 2 powi e - 1) * 2 ^ 23\<rfloor>))"

record inkjet_header =
  pixelWidth :: u32
  pixelHeight :: u32
  hdr_xDpi :: rat
  hdr_yDpi :: rat
  hdr_bytesPerLine :: u32
  colorNum :: u8
  colorList :: bytes

definition inkjet_header_bytes :: "inkjet_header \<Rightarrow> bytes" where
  \<comment> \<open>the packed \<open>InkjetImageHeader\<close>: magic, version 1, two dot bits, zero preview and reserved\<close>
  "inkjet_header_bytes h =
     map ascii ''inkjet'' @ le_bytes 2 1 @
     le_bytes 4 (pixelWidth h) @ le_bytes 4 (pixelHeight h) @
     le_bytes 4 (float32_bits (hdr_xDpi h)) @ le_bytes 4 (float32_bits (hdr_yDpi h)) @
     le_bytes 4 (hdr_bytesPerLine h) @ le_bytes 4 0 @ replicate 16 0 @
     [2, colorNum h] @ replicate 14 0 @ colorList h"

section \<open>Writing from memory\<close>

datatype prn_error =
    PrnEmpty
  | PrnPlaneOrder
  | PrnDimensions
  | PrnOpen
  | PrnLineEmpty
  | PrnRowCount int
  | PrnLineSize int nat
  | PrnWrite
  | PrnColors
  | PrnSpoolInvalid
  | PrnSpoolRead spool_error
  | PrnUndefined \<comment> \<open>a read outside \<open>packedLines\<close>: undefined in C++\<close>

type_synonym 'd prn_result = "(prn_error \<times> 'd) + 'd"

record 'd ofstream =
  os_path :: string
  os_disk :: 'd
  os_pos :: nat
  os_good :: bool

definition ofs_write :: "'d disk \<Rightarrow> bytes \<Rightarrow> 'd ofstream \<Rightarrow> 'd ofstream" where
  \<comment> \<open>a failed write sets the stream state, after which writes do nothing\<close>
  "ofs_write D x f =
     (if \<not> os_good f then f
      else case writeAt D (os_path f) (os_pos f) x (os_disk f) of
        None \<Rightarrow> f\<lparr>os_good := False\<rparr>
      | Some d \<Rightarrow> f\<lparr>os_disk := d, os_pos := os_pos f + length x\<rparr>)"

definition write_rows :: "'d disk \<Rightarrow> plane list \<Rightarrow> int list \<Rightarrow> nat \<Rightarrow> 'd ofstream \<Rightarrow> 'd ofstream" where
  \<comment> \<open>line-interleaved: for every row, the planes in physical order\<close>
  "write_rows D packedLines channelOrder height f =
     foldl (\<lambda>f row. foldl (\<lambda>f ch. ofs_write D (packedLines ! nat ch ! row) f) f channelOrder) f [0..<height]"

definition ymck :: "int list" where "ymck = [2, 1, 0, 3]"
definition ymckww :: "int list" where "ymckww = [2, 1, 0, 3, 4, 4]"

definition check_plane :: "plane list \<Rightarrow> nat \<Rightarrow> nat \<Rightarrow> int \<Rightarrow> unit \<Rightarrow> prn_error + unit" where
  "check_plane packedLines height bytesPerLine channel u =
     (if channel < 0 \<or> channel \<ge> int (length packedLines) \<or>
         length (packedLines ! nat channel) \<noteq> height then Inl (PrnRowCount channel)
      else fold_res (\<lambda>row _.
             guard_res (length (packedLines ! nat channel ! row) = bytesPerLine) (PrnLineSize channel row))
           [0..<height] ())"

definition writeStandardX33Prn ::
  "'d disk \<Rightarrow> plane list \<Rightarrow> int list \<Rightarrow> int \<Rightarrow> int \<Rightarrow> int \<Rightarrow> int \<Rightarrow> string \<Rightarrow> 'd \<Rightarrow> 'd prn_result" where
  \<comment> \<open>the file is opened, and so truncated, before the lines are checked\<close>
  "writeStandardX33Prn D packedLines channelOrder width height xdpi ydpi outPath d =
     (if packedLines = [] \<or> packedLines ! 0 = [] then Inl (PrnEmpty, d)
      else if channelOrder \<noteq> ymck \<and> channelOrder \<noteq> ymckww then Inl (PrnPlaneOrder, d)
      else if width \<le> 0 \<or> height \<le> 0 then Inl (PrnDimensions, d)
      else case openTruncate D outPath d of
        None \<Rightarrow> Inl (PrnOpen, d)
      | Some d \<Rightarrow>
        let bytesPerLine = length (packedLines ! 0 ! 0) in
        if bytesPerLine = 0 then Inl (PrnLineEmpty, d)
        else (case fold_res (check_plane packedLines (nat height) bytesPerLine) channelOrder () of
          Inl e \<Rightarrow> Inl (e, d)
        | Inr _ \<Rightarrow>
          let header = makeStandardX33Header width height xdpi ydpi (int bytesPerLine)
                         (int (length channelOrder));
              out = \<lparr>os_path = outPath, os_disk = d, os_pos = 0, os_good = True\<rparr>;
              out = ofs_write D (x33_header_bytes header) out;
              out = write_rows D packedLines channelOrder (nat height) out
          in if os_good out then Inr (os_disk out) else Inl (PrnWrite, os_disk out)))"

definition writeStandardCmykPrn ::
  "'d disk \<Rightarrow> plane list \<Rightarrow> int list \<Rightarrow> int \<Rightarrow> int \<Rightarrow> int \<Rightarrow> int \<Rightarrow> string \<Rightarrow> 'd \<Rightarrow> 'd prn_result" where
  "writeStandardCmykPrn D packedLines channelOrder width height xdpi ydpi outPath d =
     (if channelOrder \<noteq> ymck then Inl (PrnPlaneOrder, d)
      else writeStandardX33Prn D packedLines channelOrder width height xdpi ydpi outPath d)"

definition multi_ink_header :: "multi_ink_mode \<Rightarrow> int list \<Rightarrow> int \<Rightarrow> int \<Rightarrow> int \<Rightarrow> int \<Rightarrow> int \<Rightarrow> inkjet_header" where
  \<comment> \<open>the same fields in both multi-ink writers; the horizontal resolution is capped\<close>
  "multi_ink_header mode channelOrder width height xdpi ydpi bytesPerLine =
     (let fxDpi = fl32 (of_int xdpi); fyDpi = fl32 (of_int ydpi) in
      \<lparr>pixelWidth = cast32 width, pixelHeight = cast32 height,
       hdr_xDpi = (if fxDpi > 720 then 720 else fxDpi), hdr_yDpi = fyDpi,
       hdr_bytesPerLine = cast32 bytesPerLine,
       colorNum = of_nat (length channelOrder),
       colorList = buildColorListForMode mode channelOrder\<rparr>)"

definition writeMultiInkPrn ::
  "'d disk \<Rightarrow> plane list \<Rightarrow> int list \<Rightarrow> multi_ink_mode \<Rightarrow> int \<Rightarrow> int \<Rightarrow> int \<Rightarrow> int \<Rightarrow> int \<Rightarrow> string \<Rightarrow> 'd \<Rightarrow>
   'd prn_result" where
  \<comment> \<open>the stream state is not looked at after the writes\<close>
  "writeMultiInkPrn D packedLines channelOrder mode width height xdpi ydpi bytesPerLine outPath d =
     (if packedLines = [] \<or> packedLines ! 0 = [] then Inl (PrnEmpty, d)
      else if channelOrder = [] \<or> length channelOrder > 16 then Inl (PrnColors, d)
      else case openTruncate D outPath d of
        None \<Rightarrow> Inl (PrnOpen, d)
      | Some d \<Rightarrow>
        if \<exists>ch \<in> set channelOrder. 0 < height \<and>
             (ch < 0 \<or> ch \<ge> int (length packedLines) \<or> length (packedLines ! nat ch) < nat height)
        then Inl (PrnUndefined, d)
        else let
          header = multi_ink_header mode channelOrder width height xdpi ydpi bytesPerLine;
          out = \<lparr>os_path = outPath, os_disk = d, os_pos = 0, os_good = True\<rparr>;
          out = ofs_write D (inkjet_header_bytes header) out;
          out = write_rows D packedLines channelOrder (nat height) out
        in Inr (os_disk out))"

section \<open>Writing from a spool\<close>

definition spool_rows ::
  "'d disk \<Rightarrow> reader \<Rightarrow> int list \<Rightarrow> nat \<Rightarrow> 'd \<Rightarrow> bytes \<Rightarrow> prn_error + bytes" where
  \<comment> \<open>what \<open>output.write(line)\<close> has collected\<close>
  "spool_rows D R channelOrder height d acc =
     fold_res (\<lambda>row. fold_res (\<lambda>channel acc.
         case reader_readLine D R channel (int row) d of
           Inl e \<Rightarrow> Inl (PrnSpoolRead e) | Inr line \<Rightarrow> Inr (acc @ line)) channelOrder)
       [0..<height] acc"

definition writeStandardX33Spool ::
  "'d disk \<Rightarrow> datastream \<Rightarrow> (bytes \<Rightarrow> bytes) \<Rightarrow> spool \<Rightarrow> string \<Rightarrow> 'd \<Rightarrow> 'd prn_result" where
  "writeStandardX33Spool D S sha sp outPath d =
     (if (sp_order sp \<noteq> ymck \<and> sp_order sp \<noteq> ymckww) \<or> metadataIsValid sp \<noteq> Inr ()
      then Inl (PrnSpoolInvalid, d)
      else case reader_open D S sha (\<lambda>_. False) (sp_path sp) True d of
        Inl e \<Rightarrow> Inl (PrnSpoolRead e, d)
      | Inr R \<Rightarrow>
        let header = makeStandardX33Header (sp_width sp) (sp_height sp) (sp_xdpi sp) (sp_ydpi sp)
                       (sp_lineBytes sp) (int (length (sp_order sp))) in
        (case spool_rows D R (sp_order sp) (nat (sp_height sp)) d (x33_header_bytes header) of
           Inl e \<Rightarrow> Inl (e, d)
         | Inr file \<Rightarrow>
           (case saveFile D outPath file d of None \<Rightarrow> Inl (PrnWrite, d) | Some d \<Rightarrow> Inr d)))"

definition writeMultiInkSpool ::
  "'d disk \<Rightarrow> datastream \<Rightarrow> (bytes \<Rightarrow> bytes) \<Rightarrow> spool \<Rightarrow> multi_ink_mode \<Rightarrow> string \<Rightarrow> 'd \<Rightarrow> 'd prn_result" where
  "writeMultiInkSpool D S sha sp mode outPath d =
     (if metadataIsValid sp \<noteq> Inr () \<or> length (sp_order sp) > 16 then Inl (PrnSpoolInvalid, d)
      else case reader_open D S sha (\<lambda>_. False) (sp_path sp) True d of
        Inl e \<Rightarrow> Inl (PrnSpoolRead e, d)
      | Inr R \<Rightarrow>
        let header = multi_ink_header mode (sp_order sp) (sp_width sp) (sp_height sp)
                       (sp_xdpi sp) (sp_ydpi sp) (sp_lineBytes sp) in
        (case spool_rows D R (sp_order sp) (nat (sp_height sp)) d (inkjet_header_bytes header) of
           Inl e \<Rightarrow> Inl (e, d)
         | Inr file \<Rightarrow>
           (case saveFile D outPath file d of None \<Rightarrow> Inl (PrnWrite, d) | Some d \<Rightarrow> Inr d)))"

end
