(* ===== verification/Prn_Laws.thy ===== *)
theory Prn_Laws
  imports Prn_Writer
begin

text \<open>
  What the PRN writers put into the file: the header and the lines, row by row, in physical
  plane order. Both X-33 writers, from memory and from a spool, produce the same bytes.
\<close>

definition interleaved :: "plane list \<Rightarrow> int list \<Rightarrow> nat \<Rightarrow> bytes" where
  "interleaved packedLines channelOrder height =
     concat (map (\<lambda>row. concat (map (\<lambda>ch. packedLines ! nat ch ! row) channelOrder)) [0..<height])"

section \<open>The stream writer\<close>

definition spool_at :: "('d \<Rightarrow> string \<Rightarrow> bytes option) \<Rightarrow> datastream \<Rightarrow> 'd \<Rightarrow> string \<Rightarrow> spool \<Rightarrow> bytes \<Rightarrow> plane list \<Rightarrow> bool" where
  \<comment> \<open>the file at \<open>path\<close> is the spool of \<open>planes\<close> with metadata \<open>m\<close>\<close>
  "spool_at contents S d path m checksum planes \<longleftrightarrow>
     contents d path = Some (encodeHeader S m checksum @ concat (concat planes)) \<and>
     spool_file m (encodeHeader S m checksum @ concat (concat planes)) \<and> length checksum \<le> 32 \<and>
     length planes = nat (sp_logical m) \<and>
     (\<forall>p \<in> set planes. length p = nat (sp_height m) \<and> (\<forall>l \<in> set p. length l = nat (sp_lineBytes m)))"

context disk_laws
begin

definition streamed :: "'d ofstream \<Rightarrow> bytes \<Rightarrow> bool" where
  "streamed f acc \<longleftrightarrow>
     (os_good f \<longrightarrow> contents (os_disk f) (os_path f) = Some acc \<and> os_pos f = length acc)"

lemma ofs_write_streamed:
  assumes "streamed f acc"
  shows "streamed (ofs_write D x f) (acc @ x) \<and> os_path (ofs_write D x f) = os_path f"
proof (cases "os_good f")
  case True
  show ?thesis
  proof (cases "writeAt D (os_path f) (os_pos f) x (os_disk f)")
    case None
    then show ?thesis using True by (simp add: ofs_write_def streamed_def)
  next
    case (Some d)
    from assms True have "contents (os_disk f) (os_path f) = Some acc" "os_pos f = length acc"
      by (simp_all add: streamed_def)
    then show ?thesis using writeAt_law [OF Some] True Some
      by (simp add: ofs_write_def streamed_def overwrite_def)
  qed
next
  case False
  then show ?thesis by (simp add: ofs_write_def streamed_def)
qed

lemma ofs_fold_streamed:
  assumes "streamed f acc"
  shows "streamed (foldl (\<lambda>f ch. ofs_write D (g ch) f) f chs) (acc @ concat (map g chs)) \<and>
    os_path (foldl (\<lambda>f ch. ofs_write D (g ch) f) f chs) = os_path f"
  using assms
proof (induction chs arbitrary: f acc)
  case (Cons ch chs)
  then show ?case using ofs_write_streamed [OF Cons.prems, of "g ch"] by fastforce
qed simp

lemma write_rows_streamed:
  assumes "streamed f acc"
  shows "streamed (write_rows D packedLines channelOrder height f) (acc @ interleaved packedLines channelOrder height) \<and>
    os_path (write_rows D packedLines channelOrder height f) = os_path f"
proof (induction height)
  case 0
  then show ?case using assms by (simp add: write_rows_def interleaved_def)
next
  case (Suc h)
  then show ?case
    using ofs_fold_streamed [OF conjunct1 [OF Suc], of "\<lambda>ch. packedLines ! nat ch ! h" channelOrder]
    by (simp add: write_rows_def interleaved_def)
qed

lemma x33_file:
  assumes "writeStandardX33Prn D packedLines channelOrder width height xdpi ydpi outPath d = Inr d'"
  shows "contents d' outPath = Some (x33_header_bytes (makeStandardX33Header width height xdpi ydpi
      (int (length (packedLines ! 0 ! 0))) (int (length channelOrder))) @
    interleaved packedLines channelOrder (nat height))"
proof -
  from assms obtain d1 where d1: "openTruncate D outPath d = Some d1"
    by (auto simp: writeStandardX33Prn_def split: if_splits option.splits)
  define o0 where "o0 = \<lparr>os_path = outPath, os_disk = d1, os_pos = 0, os_good = True\<rparr>"
  define hd where "hd = x33_header_bytes (makeStandardX33Header width height xdpi ydpi
      (int (length (packedLines ! 0 ! 0))) (int (length channelOrder)))"
  define f where "f = write_rows D packedLines channelOrder (nat height) (ofs_write D hd o0)"
  from assms d1 have g: "os_good f" "os_disk f = d'"
    by (auto simp: writeStandardX33Prn_def Let_def f_def o0_def hd_def split: if_splits sum.splits)
  have "streamed o0 []" using openTruncate_law [OF d1] by (simp add: streamed_def o0_def)
  from ofs_write_streamed [OF this, of hd] have "streamed (ofs_write D hd o0) hd" "os_path (ofs_write D hd o0) = outPath"
    by (simp_all add: o0_def)
  with write_rows_streamed [OF this(1)] have "streamed f (hd @ interleaved packedLines channelOrder (nat height))"
    "os_path f = outPath" by (simp_all add: f_def)
  then show ?thesis using g by (simp add: streamed_def hd_def)
qed

end

section \<open>The spool writer\<close>

context spool_store
begin

lemma spool_at_line:
  assumes "spool_at contents S d path m checksum planes" and "0 \<le> ch" "ch < sp_logical m" "0 \<le> row" "row < sp_height m"
  shows "file_line m (encodeHeader S m checksum @ concat (concat planes)) (line_index m ch row) =
    planes ! nat ch ! nat row"
proof -
  let ?n = "nat (sp_lineBytes m)"
  have v: "metadataIsValid m = Inr ()" "spool_typed m" "length checksum \<le> 32"
    using assms(1) by (simp_all add: spool_at_def spool_file_def)
  have h: "length (encodeHeader S m checksum) = 4096"
    using v valid_fields(9) [OF v(1)] by (intro encodeHeader_size) (auto simp: spool_typed_def)
  have k: "line_index m ch row = nat ch * nat (sp_height m) + nat row"
    using assms(2-5) by (simp add: line_index_def nat_add_distrib nat_mult_distrib)
  have hl: "\<forall>p \<in> set planes. length p = nat (sp_height m)" and len: "length planes = nat (sp_logical m)"
    using assms(1) by (simp_all add: spool_at_def)
  have ls: "\<forall>l \<in> set (concat planes). length l = ?n" using assms(1) by (auto simp: spool_at_def)
  have kl: "line_index m ch row < length (concat planes)"
    using length_concat_lines [OF hl] len line_index_less [OF assms(2-5)] assms(2-5)
    by (simp add: line_count_def nat_mult_distrib)
  have "file_line m (encodeHeader S m checksum @ concat (concat planes)) (line_index m ch row) =
      take ?n (drop (line_index m ch row * ?n) (concat (concat planes)))"
    by (simp add: file_line_def h)
  also have "\<dots> = concat planes ! line_index m ch row" by (rule concat_line [OF ls kl])
  also have "\<dots> = planes ! nat ch ! nat row"
    unfolding k using assms(2-5) len by (intro concat_nth_lines [OF hl]) auto
  finally show ?thesis .
qed

lemma readLine_spool_at:
  assumes "spool_at contents S d path m checksum planes"
    and "reader_readLine D \<lparr>r_path = path, r_meta = with_disk_fields m path checksum\<rparr> ch row d = Inr line"
  shows "line = planes ! nat ch ! nat row"
proof -
  have rng: "0 \<le> ch" "ch < sp_logical m" "0 \<le> row" "row < sp_height m"
    using assms(2) by (auto simp: reader_readLine_def with_disk_fields_def Let_def split: if_splits)
  show ?thesis
    using reader_readLine_line [OF assms(2) refl, of "encodeHeader S m checksum @ concat (concat planes)"]
      assms(1) spool_at_line [OF assms(1) rng] by (simp add: spool_at_def)
qed

lemma spool_row_concat:
  assumes A: "spool_at contents S d path m checksum planes"
    and "fold_res (\<lambda>channel acc. case reader_readLine D \<lparr>r_path = path, r_meta = with_disk_fields m path checksum\<rparr> channel (int row) d of
      Inl e \<Rightarrow> Inl (PrnSpoolRead e) | Inr line \<Rightarrow> Inr (acc @ line)) order acc = Inr out"
  shows "out = acc @ concat (map (\<lambda>ch. planes ! nat ch ! row) order)"
  using assms(2)
proof (induction order arbitrary: acc)
  case (Cons ch order)
  then obtain line where
    l: "reader_readLine D \<lparr>r_path = path, r_meta = with_disk_fields m path checksum\<rparr> ch (int row) d = Inr line"
    and r: "fold_res (\<lambda>channel acc. case reader_readLine D \<lparr>r_path = path, r_meta = with_disk_fields m path checksum\<rparr> channel (int row) d of
      Inl e \<Rightarrow> Inl (PrnSpoolRead e) | Inr line \<Rightarrow> Inr (acc @ line)) order (acc @ line) = Inr out"
    by (auto simp: bind_res_eq_Inr split: sum.splits)
  from Cons.IH [OF r] readLine_spool_at [OF A l] show ?case by simp
qed simp

lemma spool_rows_interleaved:
  assumes A: "spool_at contents S d path m checksum planes"
    and "spool_rows D \<lparr>r_path = path, r_meta = with_disk_fields m path checksum\<rparr> order h d acc = Inr out"
  shows "out = acc @ interleaved planes order h"
  using assms(2)
proof (induction h arbitrary: out)
  case 0
  then show ?case by (simp add: spool_rows_def interleaved_def)
next
  case (Suc h)
  from Suc.prems obtain o1 where
    o1: "spool_rows D \<lparr>r_path = path, r_meta = with_disk_fields m path checksum\<rparr> order h d acc = Inr o1"
    and r: "fold_res (\<lambda>channel acc. case reader_readLine D \<lparr>r_path = path, r_meta = with_disk_fields m path checksum\<rparr> channel (int h) d of
      Inl e \<Rightarrow> Inl (PrnSpoolRead e) | Inr line \<Rightarrow> Inr (acc @ line)) order o1 = Inr out"
    by (auto simp: spool_rows_def fold_res_append bind_res_eq_Inr)
  show ?case using Suc.IH [OF o1] spool_row_concat [OF A r] by (simp add: interleaved_def)
qed

lemma x33_spool_file:
  assumes A: "spool_at contents S d (sp_path sp) m checksum planes"
    and w: "writeStandardX33Spool D S sha sp outPath d = Inr d'"
  shows "contents d' outPath = Some (x33_header_bytes (makeStandardX33Header (sp_width sp) (sp_height sp)
      (sp_xdpi sp) (sp_ydpi sp) (sp_lineBytes sp) (int (length (sp_order sp)))) @
    interleaved planes (sp_order sp) (nat (sp_height sp)))"
proof -
  from w obtain R where R: "reader_open D S sha (\<lambda>_. False) (sp_path sp) True d = Inr R"
    by (auto simp: writeStandardX33Spool_def split: if_splits sum.splits)
  have "R = \<lparr>r_path = sp_path sp, r_meta = with_disk_fields m (sp_path sp) checksum\<rparr>"
    using A by (intro reader_open_meta [OF R]) (auto simp: spool_at_def spool_file_def)
  moreover from w R obtain out where "spool_rows D R (sp_order sp) (nat (sp_height sp)) d
      (x33_header_bytes (makeStandardX33Header (sp_width sp) (sp_height sp) (sp_xdpi sp) (sp_ydpi sp)
        (sp_lineBytes sp) (int (length (sp_order sp))))) = Inr out" "saveFile D outPath out d = Some d'"
    by (auto simp: writeStandardX33Spool_def Let_def split: if_splits sum.splits option.splits)
  ultimately show ?thesis
    using spool_rows_interleaved [OF A] saveFile_law by simp
qed

lemma multi_ink_spool_file:
  assumes A: "spool_at contents S d (sp_path sp) m checksum planes"
    and w: "writeMultiInkSpool D S sha sp mode outPath d = Inr d'"
  shows "contents d' outPath = Some (inkjet_header_bytes (multi_ink_header mode (sp_order sp) (sp_width sp)
      (sp_height sp) (sp_xdpi sp) (sp_ydpi sp) (sp_lineBytes sp)) @
    interleaved planes (sp_order sp) (nat (sp_height sp)))"
proof -
  from w obtain R where R: "reader_open D S sha (\<lambda>_. False) (sp_path sp) True d = Inr R"
    by (auto simp: writeMultiInkSpool_def split: if_splits sum.splits)
  have "R = \<lparr>r_path = sp_path sp, r_meta = with_disk_fields m (sp_path sp) checksum\<rparr>"
    using A by (intro reader_open_meta [OF R]) (auto simp: spool_at_def spool_file_def)
  moreover from w R obtain out where "spool_rows D R (sp_order sp) (nat (sp_height sp)) d
      (inkjet_header_bytes (multi_ink_header mode (sp_order sp) (sp_width sp) (sp_height sp)
        (sp_xdpi sp) (sp_ydpi sp) (sp_lineBytes sp))) = Inr out" "saveFile D outPath out d = Some d'"
    by (auto simp: writeMultiInkSpool_def Let_def split: if_splits sum.splits option.splits)
  ultimately show ?thesis
    using spool_rows_interleaved [OF A] saveFile_law by simp
qed

end

context disk_laws
begin

lemma ofs_write_good:
  assumes "\<And>p off x d. contents d p \<noteq> None \<Longrightarrow> writeAt D p off x d \<noteq> None"
    and "os_good f" and "streamed f acc"
  shows "os_good (ofs_write D x f)"
  using assms(1) [of "os_disk f" "os_path f"] assms(2,3)
  by (auto simp: ofs_write_def streamed_def split: option.splits)

lemma ofs_fold_good:
  assumes ok: "\<And>p off x d. contents d p \<noteq> None \<Longrightarrow> writeAt D p off x d \<noteq> None"
    and "os_good f" and "streamed f acc"
  shows "os_good (foldl (\<lambda>f ch. ofs_write D (g ch) f) f (chs :: int list))"
  using assms(2,3)
proof (induction chs arbitrary: f acc)
  case (Cons ch chs)
  then show ?case using ofs_write_good [OF ok Cons.prems] ofs_write_streamed [OF Cons.prems(2), of "g ch"] by simp blast
qed simp

lemma write_rows_good:
  assumes ok: "\<And>p off x d. contents d p \<noteq> None \<Longrightarrow> writeAt D p off x d \<noteq> None"
    and "os_good f" and "streamed f acc"
  shows "os_good (write_rows D packedLines channelOrder n f)"
proof (induction n)
  case 0
  then show ?case using assms(2) by (simp add: write_rows_def)
next
  case (Suc n)
  then show ?case
    using ofs_fold_good [OF ok Suc conjunct1 [OF write_rows_streamed [OF assms(3)]]] by (simp add: write_rows_def)
qed

lemma multi_ink_file:
  assumes "writeMultiInkPrn D packedLines channelOrder mode width height xdpi ydpi bytesPerLine outPath d = Inr d'"
    and ok: "\<And>p off x d. contents d p \<noteq> None \<Longrightarrow> writeAt D p off x d \<noteq> None"
  shows "contents d' outPath = Some (inkjet_header_bytes (multi_ink_header mode channelOrder width height xdpi ydpi bytesPerLine) @
    interleaved packedLines channelOrder (nat height))"
proof -
  from assms(1) obtain d1 where d1: "openTruncate D outPath d = Some d1"
    by (auto simp: writeMultiInkPrn_def split: if_splits option.splits)
  define o0 where "o0 = \<lparr>os_path = outPath, os_disk = d1, os_pos = 0, os_good = True\<rparr>"
  define hd where "hd = inkjet_header_bytes (multi_ink_header mode channelOrder width height xdpi ydpi bytesPerLine)"
  define f where "f = write_rows D packedLines channelOrder (nat height) (ofs_write D hd o0)"
  from assms(1) d1 have d': "os_disk f = d'"
    by (auto simp: writeMultiInkPrn_def Let_def f_def o0_def hd_def split: if_splits)
  have s0: "streamed o0 []" using openTruncate_law [OF d1] by (simp add: streamed_def o0_def)
  from ofs_write_streamed [OF s0, of hd] have s1: "streamed (ofs_write D hd o0) hd" "os_path (ofs_write D hd o0) = outPath"
    by (simp_all add: o0_def)
  have "os_good (ofs_write D hd o0)" using ofs_write_good [OF ok _ s0] by (simp add: o0_def)
  then have "os_good f" unfolding f_def using s1(1) by (intro write_rows_good [OF ok, where acc = hd])
  moreover have "streamed f (hd @ interleaved packedLines channelOrder (nat height))" "os_path f = outPath"
    using write_rows_streamed [OF s1(1)] s1(2) by (simp_all add: f_def)
  ultimately show ?thesis using d' by (simp add: streamed_def hd_def)
qed

lemma x33_ok:
  assumes ok: "\<And>p off x d. contents d p \<noteq> None \<Longrightarrow> writeAt D p off x d \<noteq> None"
    and ot: "\<And>p d. openTruncate D p d \<noteq> None"
    and pos: "0 < width" "0 < height" "0 < n"
    and order: "channelOrder = ymck \<or> channelOrder = ymckww"
    and planes: "\<forall>ch \<in> set channelOrder. nat ch < length planes"
    and shape: "\<forall>p \<in> set planes. length p = nat height \<and> (\<forall>l \<in> set p. length l = n)"
  shows "\<exists>d'. writeStandardX33Prn D planes channelOrder width height xdpi ydpi outPath d = Inr d'"
proof -
  have ne: "planes \<noteq> []" using order planes by (auto simp: ymck_def ymckww_def)
  then have p0: "length (planes ! 0) = nat height" using shape by simp
  then have "planes ! 0 \<noteq> []" using pos by auto
  have "planes ! 0 \<in> set planes" "planes ! 0 ! 0 \<in> set (planes ! 0)" using ne p0 pos by simp_all
  then have l0: "length (planes ! 0 ! 0) = n" using shape by blast
  obtain d1 where d1: "openTruncate D outPath d = Some d1" using ot by blast
  have nonneg: "\<forall>ch \<in> set channelOrder. 0 \<le> ch" using order by (auto simp: ymck_def ymckww_def)
  have plane: "\<exists>t. check_plane planes (nat height) n ch u = Inr t \<and> True" if "ch \<in> set channelOrder" for ch u
  proof -
    have ch: "nat ch < length planes" "0 \<le> ch" using planes nonneg that by auto
    then have "planes ! nat ch \<in> set planes" by simp
    then have sh: "length (planes ! nat ch) = nat height" "\<forall>l \<in> set (planes ! nat ch). length l = n"
      using shape by auto
    then have row: "\<exists>t. guard_res (length (planes ! nat ch ! row) = n) (PrnLineSize ch row) = Inr t \<and> True"
      if "row < nat height" for row
      using that by simp
    have "\<exists>t. fold_res (\<lambda>row _. guard_res (length (planes ! nat ch ! row) = n) (PrnLineSize ch row)) [0..<nat height] () = Inr t \<and> True"
      by (rule fold_res_total) (use row in auto)
    then show ?thesis using ch sh by (auto simp: check_plane_def)
  qed
  have chk: "\<exists>t. fold_res (check_plane planes (nat height) n) channelOrder () = Inr t \<and> True"
    by (rule fold_res_total) (use plane in auto)
  define o0 where "o0 = \<lparr>os_path = outPath, os_disk = d1, os_pos = 0, os_good = True\<rparr>"
  define hd where "hd = x33_header_bytes (makeStandardX33Header width height xdpi ydpi (int n) (int (length channelOrder)))"
  have s0: "streamed o0 []" using openTruncate_law [OF d1] by (simp add: streamed_def o0_def)
  have "os_good (ofs_write D hd o0)" using ofs_write_good [OF ok _ s0] by (simp add: o0_def)
  then have "os_good (write_rows D planes channelOrder (nat height) (ofs_write D hd o0))"
    using ofs_write_streamed [OF s0, of hd] by (intro write_rows_good [OF ok, where acc = hd]) auto
  then show ?thesis
    using ne \<open>planes ! 0 \<noteq> []\<close> order pos d1 l0 chk
    by (auto simp: writeStandardX33Prn_def Let_def o0_def hd_def)
qed

end

section \<open>A failing disk goes unnoticed\<close>

lemma ofs_write_failing:
  assumes "\<And>p off x d. writeAt D p off x d = None"
  shows "os_disk (ofs_write D x f) = os_disk f"
  using assms by (simp add: ofs_write_def)

lemma write_rows_failing:
  assumes "\<And>p off x d. writeAt D p off x d = None"
  shows "os_disk (write_rows D packedLines channelOrder h f) = os_disk f"
proof -
  have inner: "os_disk (foldl (\<lambda>f ch. ofs_write D (g ch) f) f chs) = os_disk f" for g f and chs :: "int list"
    by (induction chs arbitrary: f) (simp_all add: ofs_write_failing [OF assms])
  have "os_disk (foldl (\<lambda>f row. foldl (\<lambda>f ch. ofs_write D (packedLines ! nat ch ! row) f) f channelOrder) f rs) = os_disk f" for rs :: "nat list"
    by (induction rs arbitrary: f) (simp_all add: inner)
  then show ?thesis by (simp add: write_rows_def)
qed

end
