(* ===== verification/Dot_Screen.thy ===== *)
theory Dot_Screen
  imports Qt_Variant Dot_Packing
begin

text \<open>
  The per-pixel arithmetic of the screener: the pixel hash, the tone gate with its
  highlight floor, the small/medium/large dot decision with the optional dot swap, and
  the probabilistic 4x4 promotion. Both raster backends contain a copy of this code; here
  are the pieces of \<open>MultiInkScreenEngine\<close> and, next to them, the fused pixel loop
  body of \<open>BoundedRasterPipeline::screenToSpool\<close>, proved equal.
\<close>

section \<open>Hash and interpolation\<close>

definition pxhash :: "u32 \<Rightarrow> u32 \<Rightarrow> u32 \<Rightarrow> u32 \<Rightarrow> u32" where
  "pxhash x y ch seed =
     (let h = (x * 0x85EBCA6B) XOR (y * 0xC2B2AE35) XOR ((ch + 1) * 0x27D4EB2D) XOR seed;
          h = h XOR drop_bit 16 h;
          h = h * 0x7FEB352D;
          h = h XOR drop_bit 15 h;
          h = h * 0x846CA68B
      in h XOR drop_bit 16 h)"

definition lerp_u8 :: "u8 \<Rightarrow> u8 \<Rightarrow> u8 \<Rightarrow> u8" where
  "lerp_u8 a b w = cast8 (((255 - uint w) * uint a + uint w * uint b) div 255)"

definition swap_seed :: u32 where "swap_seed = 0x51F2F90D"

abbreviation trunc16 :: "int \<Rightarrow> int" where
  \<comment> \<open>storing a promoted \<open>int\<close> in a \<open>uint16_t\<close>\<close>
  "trunc16 v \<equiv> uint (cast16 v)"

section \<open>Dot strategy\<close>

record dot_strategy =
  minInkThreshold :: int
  smallDotThreshold :: int
  medDotThreshold :: int
  enablePromotion :: bool
  floorRangeCMY :: u8
  floorMaxCMY :: u8
  floorRangeK :: u8
  floorMaxK :: u8
  enableDotSwap :: bool

definition default_strategy :: dot_strategy where
  "default_strategy =
     \<lparr>minInkThreshold = 8, smallDotThreshold = 104, medDotThreshold = 168,
      enablePromotion = False, floorRangeCMY = 24, floorMaxCMY = 2,
      floorRangeK = 12, floorMaxK = 0, enableDotSwap = False\<rparr>"

section \<open>Tone gate\<close>

definition effective_tone :: "int \<Rightarrow> u8 \<Rightarrow> u8 \<Rightarrow> u8 \<Rightarrow> int" where
  \<comment> \<open>for \<open>u\<close> above the threshold \<open>minT\<close>\<close>
  "effective_tone minT floorRange floorMax u =
     (let denom = 255 - minT;
          uEff = trunc16 (trunc16 (uint u - minT) * 255 div denom)
      in if 0 < floorRange \<and> 0 < floorMax \<and> uEff < uint floorRange
         then let bias = trunc16 (uint floorMax * (uint floorRange - uEff) div uint floorRange)
              in min 255 (trunc16 (uEff + bias))
         else uEff)"

definition gate_pixel :: "int \<Rightarrow> u8 \<Rightarrow> u8 \<Rightarrow> bool \<Rightarrow> u8 \<Rightarrow> u8 \<Rightarrow> u8 \<times> u8 \<times> u8" where
  \<comment> \<open>(dithered, classMask, effTone) of one pixel with tone \<open>u\<close> and mask sample \<open>t\<close>\<close>
  "gate_pixel minT floorRange floorMax useEffectiveTone u t =
     (if uint u \<le> minT then (0, 255, 0)
      else let uEff = effective_tone minT floorRange floorMax u
           in (if uint t < uEff then 255 else 0, t, if useEffectiveTone then cast8 uEff else u))"

section \<open>Dot decision\<close>

definition swap_dot :: "nat \<Rightarrow> nat \<Rightarrow> u8 \<Rightarrow> u8 \<Rightarrow> u8" where
  "swap_dot x y v dot =
     (if uint v < 96 then cast8 (4 - uint dot)
      else if uint v < 160
      then let h = pxhash (of_nat x) (of_nat y) 0 swap_seed;
               p = cast8 (trunc16 (160 - uint v) * 255 div (160 - 96))
           in if h AND 255 < ucast p then cast8 (4 - uint dot) else dot
      else dot)"

definition classify_pixel :: "dot_strategy \<Rightarrow> nat \<Rightarrow> nat \<Rightarrow> u8 \<Rightarrow> u8 \<Rightarrow> u8 \<Rightarrow> u8" where
  "classify_pixel strategy x y dithered t v =
     (if dithered = 0 then 0
      else let smallBase = cast8 (clamp (smallDotThreshold strategy) 0 255);
               medBase = cast8 (clamp (medDotThreshold strategy) 0 255);
               tRel = cast8 (trunc16 (uint t) * uint v div 255);
               smallCut = lerp_u8 64 smallBase v;
               medCut = lerp_u8 130 medBase v;
               dot = (if tRel \<le> smallCut then 1 else if tRel \<le> medCut then 2 else 3)
           in if enableDotSwap strategy then swap_dot x y v dot else dot)"

section \<open>Promotion decision\<close>

record promo =
  toneGate :: u8
  medLo :: int
  medHi :: int
  lrgLo :: int
  lrgHi :: int
  flatVarEps :: int
  minNeiInked :: int
  kickBonus :: int

definition promo_of :: "'v qvariant \<Rightarrow> 'v vmap \<Rightarrow> promo" where
  "promo_of Q modeParams =
     \<lparr>toneGate = cast8 (clamp (vmInt Q modeParams ''promoToneGate'' 112) 0 255),
      medLo = clamp (vmInt Q modeParams ''promoMedLo'' 18) 0 255,
      medHi = clamp (vmInt Q modeParams ''promoMedHi'' 26) 0 255,
      lrgLo = clamp (vmInt Q modeParams ''promoLrgLo'' 28) 0 255,
      lrgHi = clamp (vmInt Q modeParams ''promoLrgHi'' 36) 0 255,
      flatVarEps = clamp (vmInt Q modeParams ''promoFlatVarEps'' 18) 0 255,
      minNeiInked = clamp (vmInt Q modeParams ''promoMinNeiInked'' 8) 0 255,
      kickBonus = clamp (vmInt Q modeParams ''promoKickBonus'' 2) 0 255\<rparr>"

definition lerp01 :: "int \<Rightarrow> int \<Rightarrow> int \<Rightarrow> rat" where
  "lerp01 v lo hi =
     (if v \<le> lo then 0 else if hi \<le> v then 1
      else fl32 (fl32 (of_int (v - lo)) / fl32 (of_int (hi - lo))))"

definition promote_dot :: "promo \<Rightarrow> nat \<Rightarrow> nat \<Rightarrow> u8 \<Rightarrow> int \<Rightarrow> u8 \<Rightarrow> u8" where
  \<comment> \<open>\<open>weighted\<close> already contains the kick bonus\<close>
  "promote_dot P x y v weighted cls =
     (let toneF = fl32 (fl32 (of_int (uint v)) / 255);
          rnd = pxhash (of_nat x) (of_nat y) 0 swap_seed AND 0xFFFF;
          r01 = fl32 (fl32 (of_int (uint rnd)) / 65535)
      in if cls = 1
         then (if r01 < fl32 (lerp01 weighted (medLo P) (medHi P) * toneF) then 2 else cls)
         else if cls = 2
         then (if r01 < fl32 (lerp01 weighted (lrgLo P) (lrgHi P) * toneF) then 3 else cls)
         else cls)"

section \<open>The fused pixel of the bounded pipeline\<close>

record screen_channel =
  maskPath :: string
  minInk :: int
  smallThreshold :: int
  medThreshold :: int
  floorRange :: u8
  floorMax :: u8
  dotSwap :: bool
  promotion :: bool
  effectiveClass :: bool \<comment> \<open>\<open>useEffectiveTone\<close>\<close>

definition screen_pixel :: "screen_channel \<Rightarrow> nat \<Rightarrow> nat \<Rightarrow> u8 \<Rightarrow> u8 \<Rightarrow> u8 \<times> u8" where
  \<comment> \<open>(tone, dot) of one pixel: \<open>continue\<close> leaves the preset zero dot\<close>
  "screen_pixel config x y originalTone threshold =
     (let minTone = clamp (minInk config) 0 254;
          denominator = 255 - minTone;
          smallBase = cast8 (clamp (smallThreshold config) 0 255);
          mediumBase = cast8 (clamp (medThreshold config) 0 255)
      in if uint originalTone \<le> minTone then (0, 0)
         else let
           e0 = trunc16 (trunc16 (uint originalTone - minTone) * 255 div denominator);
           effectiveTone =
             (if 0 < floorRange config \<and> 0 < floorMax config \<and> e0 < uint (floorRange config)
              then let bias = trunc16 (uint (floorMax config) *
                                (uint (floorRange config) - e0) div uint (floorRange config))
                   in min 255 (trunc16 (e0 + bias))
              else e0);
           classificationTone = (if effectiveClass config then cast8 effectiveTone else originalTone)
         in if effectiveTone \<le> uint threshold then (classificationTone, 0)
            else let
              relative = cast8 (trunc16 (uint threshold) * uint classificationTone div 255);
              smallCut = lerp_u8 64 smallBase classificationTone;
              mediumCut = lerp_u8 130 mediumBase classificationTone;
              dot = (if relative \<le> smallCut then 1 else if relative \<le> mediumCut then 2 else 3)
            in (classificationTone,
                if dotSwap config
                then (if uint classificationTone < 96 then cast8 (4 - uint dot)
                      else if uint classificationTone < 160
                      then let probability = cast8 (trunc16 (160 - uint classificationTone) * 255
                                               div (160 - 96))
                           in if pxhash (of_nat x) (of_nat y) 0 swap_seed AND 255 < ucast probability
                              then cast8 (4 - uint dot) else dot
                      else dot)
                else dot))"

section \<open>Ranges\<close>

lemma gate_scale_bounds:
  fixes n m :: int
  assumes "0 \<le> n" and "n \<le> m" and "0 < m"
  shows "0 \<le> n * 255 div m" and "n * 255 div m \<le> 255"
proof -
  show "0 \<le> n * 255 div m" using assms by (simp add: pos_imp_zdiv_nonneg_iff)
  have "n * 255 div m \<le> m * 255 div m"
    using assms by (intro zdiv_mono1 mult_right_mono) auto
  also have "\<dots> = 255" using assms(3) nonzero_mult_div_cancel_left [of m 255] by simp
  finally show "n * 255 div m \<le> 255" .
qed

lemma effective_tone_range [tone_bounds]:
  assumes "0 \<le> minT" and "minT \<le> 254" and "minT < uint u"
  shows "0 \<le> effective_tone minT fr fm u" and "effective_tone minT fr fm u \<le> 255"
proof -
  have u: "uint u \<le> 255" by (rule uint8_le)
  let ?n = "uint u - minT"
  have n: "0 \<le> ?n" "?n \<le> 255 - minT" "?n \<le> 65535" "0 < 255 - minT" using assms u by auto
  note q = gate_scale_bounds [OF n(1,2,4)]
  have "trunc16 ?n = ?n" by (rule uint_cast16) (rule n(1), rule n(3))
  moreover have "trunc16 (?n * 255 div (255 - minT)) = ?n * 255 div (255 - minT)"
    using q by (intro uint_cast16) linarith+
  ultimately have e: "trunc16 (trunc16 ?n * 255 div (255 - minT)) = ?n * 255 div (255 - minT)"
    by presburger
  show "0 \<le> effective_tone minT fr fm u" and "effective_tone minT fr fm u \<le> 255"
    using q unfolding effective_tone_def Let_def e by auto
qed

lemma dot_mirror:
  assumes "d \<in> {1, 2, 3 :: u8}"
  shows "cast8 (4 - uint d) \<in> {1, 2, 3}"
  using assms by auto

lemma swap_dot_range: "d \<in> {1, 2, 3} \<Longrightarrow> swap_dot x y v d \<in> {1, 2, 3}"
  using dot_mirror [of d] unfolding swap_dot_def Let_def by (metis (full_types))

lemma classify_pixel_range: "classify_pixel s x y d t v \<in> (if d = 0 then {0} else {1, 2, 3})"
proof (cases "d = 0")
  case False
  have sel: "(if a then 1 else if b then 2 else 3) \<in> {1, 2, 3 :: u8}" for a b by simp
  show ?thesis
    using False swap_dot_range [OF sel] sel unfolding classify_pixel_def Let_def
    by (simp only: if_False if_cancel split: if_split) blast
qed (simp add: classify_pixel_def)

lemma classify_pixel_le3: "uint (classify_pixel s x y d t v) \<le> 3"
proof -
  have "classify_pixel s x y d t v \<in> {0, 1, 2, 3}"
    using classify_pixel_range [of s x y d t v] by (auto split: if_splits)
  then show ?thesis by auto
qed

lemma classify_pixel_ink: "classify_pixel s x y d t v \<noteq> 0 \<longleftrightarrow> d \<noteq> 0"
  using classify_pixel_range [of s x y d t v] by (auto split: if_splits)

lemma promote_dot_cases: "promote_dot P x y v w cls \<in> {cls, 2, 3}"
  by (simp add: promote_dot_def Let_def)

section \<open>The two pixel codes agree\<close>

definition strategy_matches :: "screen_channel \<Rightarrow> dot_strategy \<Rightarrow> bool" where
  "strategy_matches c s \<longleftrightarrow>
     smallThreshold c = smallDotThreshold s \<and> medThreshold c = medDotThreshold s \<and>
     dotSwap c = enableDotSwap s \<and> promotion c = enablePromotion s"

lemma screen_pixel_eq:
  assumes "strategy_matches c s" and "minT = clamp (minInk c) 0 254"
    and "gate_pixel minT (floorRange c) (floorMax c) (effectiveClass c) u t = (d, m, v)"
  shows "screen_pixel c x y u t = (v, classify_pixel s x y d m v)"
proof (cases "uint u \<le> minT")
  case True
  then show ?thesis
    using assms by (simp add: gate_pixel_def screen_pixel_def classify_pixel_def Let_def)
next
  case False
  define e where "e = effective_tone minT (floorRange c) (floorMax c) u"
  from assms(3) False have d: "d = (if uint t < e then 255 else 0)" and m: "m = t"
    and v: "v = (if effectiveClass c then cast8 e else u)"
    by (auto simp: gate_pixel_def Let_def e_def)
  have st: "smallThreshold c = smallDotThreshold s" "medThreshold c = medDotThreshold s"
    "dotSwap c = enableDotSwap s"
    using assms(1) by (auto simp: strategy_matches_def)
  have lhs: "screen_pixel c x y u t =
      (if e \<le> uint t then (v, 0) else (v, classify_pixel s x y 255 t v))"
    using False assms(2) unfolding screen_pixel_def
    by (simp only: Let_def st v e_def effective_tone_def classify_pixel_def swap_dot_def if_False)
      simp
  show ?thesis unfolding lhs m d by (simp add: classify_pixel_def)
qed

end
