(* ===== verification/Screen_Engine.thy ===== *)
theory Screen_Engine
  imports Dot_Screen
begin

text \<open>
  \<open>MultiInkScreenEngine\<close>: the in-memory screener. It holds complete tone planes, gates
  every pixel against a tiled blue-noise mask, classifies the dots of the whole plane,
  runs the optional 4x4 promotion in place and packs the result. The mask loader is the
  caller's callback, a parameter here; the cancellation flag is a function of the point in
  the program at which it is polled.
\<close>

section \<open>Requests\<close>

record channel_request =
  maskKey :: string
  toneBytes :: "bytes option" \<comment> \<open>\<open>None\<close> is the null pointer\<close>
  isLightInk :: bool
  useOwnDotStrategy :: bool
  ownSmallDotThreshold :: int
  ownMedDotThreshold :: int
  ownEnablePromotion :: bool
  useEffectiveTone :: bool
  floorClass :: int

record 'v screen_request =
  req_width :: int
  req_height :: int
  screenSeed :: u32
  modeParams :: "'v vmap"
  dotStrategy :: dot_strategy
  channels :: "channel_request list"

type_synonym mask_data = "bytes \<times> int \<times> int" \<comment> \<open>raw bytes, width, height\<close>
type_synonym mask_loader = "string \<Rightarrow> mask_data option"

datatype poll = PollChannel nat | PollRow nat nat | PollStrip nat | PollCell nat nat

datatype screen_error =
    InvalidRequest
  | Canceled
  | NullTone nat
  | ToneSizeMismatch nat
  | MaskLoadFailed string
  | UndefinedBehaviour \<comment> \<open>signed overflow or division by zero in the C++ code\<close>
  | ToneProviderFailed
  | ToneStripInvalid
  | WriterFailed

section \<open>Mask tiling and the gate loop\<close>

definition mask_offset :: "nat \<Rightarrow> u32 \<Rightarrow> int \<Rightarrow> int \<Rightarrow> int \<times> int" where
  \<comment> \<open>\<open>offXmask\<close>, \<open>offYmask\<close>\<close>
  "mask_offset ch seed maskW maskH =
     (let h = pxhash 0xB 0xC (of_nat ch) seed
      in (uint (h AND 0x7FFFFFFF) mod maskW, uint (drop_bit 16 h AND 0x7FFFFFFF) mod maskH))"

definition sampleMask :: "mask_data \<Rightarrow> int \<times> int \<Rightarrow> nat \<Rightarrow> nat \<Rightarrow> u8" where
  "sampleMask m off x y =
     (case (m, off) of ((raw, maskW, maskH), (offX, offY)) \<Rightarrow>
        let mx = int x + offX; mx = (if mx \<ge> maskW then mx mod maskW else mx);
            my = int y + offY; my = (if my \<ge> maskH then my mod maskH else my)
        in raw ! nat (my * maskW + mx))"

definition gate_plane ::
  "(nat \<Rightarrow> nat \<Rightarrow> u8) \<Rightarrow> int \<Rightarrow> u8 \<Rightarrow> u8 \<Rightarrow> bool \<Rightarrow> nat \<Rightarrow> nat \<Rightarrow> bytes \<Rightarrow> (u8 \<times> u8 \<times> u8) list" where
  "gate_plane sample minT fRange fMax useEff w h tone =
     concat (map (\<lambda>y. map (\<lambda>x. gate_pixel minT fRange fMax useEff (tone ! (y * w + x)) (sample x y))
       [0..<w]) [0..<h])"

section \<open>Dot classification\<close>

definition dotClassification :: "bytes \<Rightarrow> bytes \<Rightarrow> bytes \<Rightarrow> nat \<Rightarrow> nat \<Rightarrow> dot_strategy \<Rightarrow> plane" where
  "dotClassification dithered classMask channel w h strategy =
     map (\<lambda>y. map (\<lambda>x. let idx = y * w + x in
         classify_pixel strategy x y (dithered ! idx) (classMask ! idx) (channel ! idx)) [0..<w]) [0..<h]"

section \<open>4x4 promotion\<close>

definition window_offsets :: "(int \<times> int) list" where
  \<comment> \<open>\<open>dy\<close> and \<open>dx\<close> from -1 to 2, the centre skipped\<close>
  "window_offsets = filter (\<lambda>(dy, dx). \<not> (dx = 0 \<and> dy = 0)) (List.product [-1, 0, 1, 2] [-1, 0, 1, 2])"

definition localMAD :: "bytes \<Rightarrow> nat \<Rightarrow> nat \<Rightarrow> int \<Rightarrow> int \<Rightarrow> int" where
  "localMAD tone w h cx cy =
     (let vC = uint (tone ! nat (cy * int w + cx));
          ns = filter (\<lambda>(dy, dx). \<not> (cy + dy < 0 \<or> cy + dy \<ge> int h) \<and>
                                 \<not> (cx + dx < 0 \<or> cx + dx \<ge> int w)) window_offsets;
          sum = (\<Sum>(dy, dx)\<leftarrow>ns. \<bar>uint (tone ! nat ((cy + dy) * int w + (cx + dx))) - vC\<bar>);
          cnt = int (length ns)
      in if cnt \<noteq> 0 then sum div cnt else 0)"

definition promote_at :: "promo \<Rightarrow> bytes \<Rightarrow> nat \<Rightarrow> nat \<Rightarrow> nat \<Rightarrow> plane \<Rightarrow> nat \<Rightarrow> plane" where
  "promote_at P tone w h y dotMap x =
     (let cls = dotMap ! y ! x in
      if cls = 0 \<or> cls = 3 then dotMap
      else let v = tone ! (y * w + x) in
      if v < toneGate P then dotMap
      else let
        ncls = map (\<lambda>(dy, dx). dotMap ! nat (int y + dy) ! nat (int x + dx)) window_offsets;
        countAny = int (length (filter (\<lambda>n. 0 < n) ncls));
        weighted = sum_list (map uint ncls)
      in if countAny < minNeiInked P then dotMap
      else if localMAD tone w h (int x) (int y) > flatVarEps P then dotMap
      else dotMap[y := (dotMap ! y)[x := promote_dot P x y v (weighted + kickBonus P) cls]])"

definition apply4x4Promotion :: "promo \<Rightarrow> bytes \<Rightarrow> nat \<Rightarrow> nat \<Rightarrow> plane \<Rightarrow> plane" where
  "apply4x4Promotion P tone w h dotMap =
     foldl (\<lambda>dm y. foldl (promote_at P tone w h y) dm [1..<w - 2]) dotMap [1..<h - 2]"

section \<open>One channel\<close>

definition channel_min_tone :: "'v qvariant \<Rightarrow> 'v screen_request \<Rightarrow> channel_request \<Rightarrow> int" where
  "channel_min_tone Q req c =
     (let useLightOverride = vmBool Q (modeParams req) ''useLightInkMinThresholdOverride'' False;
          lightMinT = clamp (vmInt Q (modeParams req) ''lightInkMinThreshold'' 2) 0 254;
          minTch = clamp (minInkThreshold (dotStrategy req)) 0 254;
          minTch = (if useLightOverride \<and> isLightInk c then lightMinT else minTch)
      in clamp minTch 0 254)"

definition is_k_like :: "channel_request \<Rightarrow> bool" where
  "is_k_like c =
     (if floorClass c < 0
      then maskKey c \<in> {''k'', ''lk'', ''llk'', ''w'', ''v''}
      else floorClass c > 0)"

definition channel_strategy :: "'v screen_request \<Rightarrow> channel_request \<Rightarrow> dot_strategy" where
  "channel_strategy req c =
     (if useOwnDotStrategy c
      then (dotStrategy req)\<lparr>smallDotThreshold := ownSmallDotThreshold c,
                             medDotThreshold := ownMedDotThreshold c,
                             enablePromotion := ownEnablePromotion c\<rparr>
      else dotStrategy req)"

definition screen_dots ::
  "'v qvariant \<Rightarrow> 'v screen_request \<Rightarrow> nat \<Rightarrow> channel_request \<Rightarrow> bytes \<Rightarrow> mask_data \<Rightarrow> plane" where
  "screen_dots Q req ch c tone m =
     (let w = nat (req_width req); h = nat (req_height req);
          off = mask_offset ch (screenSeed req) (fst (snd m)) (snd (snd m));
          fRange = (if is_k_like c then floorRangeK (dotStrategy req) else floorRangeCMY (dotStrategy req));
          fMax = (if is_k_like c then floorMaxK (dotStrategy req) else floorMaxCMY (dotStrategy req));
          gated = gate_plane (sampleMask m off) (channel_min_tone Q req c) fRange fMax
                    (useEffectiveTone c) w h tone;
          dithered = map fst gated;
          classMask = map (fst \<circ> snd) gated;
          effTone = map (snd \<circ> snd) gated;
          strategy = channel_strategy req c;
          dotMap = dotClassification dithered classMask effTone w h strategy
      in if enablePromotion strategy
         then apply4x4Promotion (promo_of Q (modeParams req)) effTone w h dotMap
         else dotMap)"

section \<open>The channel loop\<close>

type_synonym mask_cache = "string \<times> mask_data" \<comment> \<open>\<open>lastMaskKey\<close> and the mask it loaded\<close>

definition fetch_mask :: "mask_loader \<Rightarrow> string \<Rightarrow> mask_cache \<Rightarrow> screen_error + mask_cache" where
  "fetch_mask load key cache =
     (if key = fst cache then Inr cache
      else case load key of None \<Rightarrow> Inl (MaskLoadFailed key) | Some m \<Rightarrow> Inr (key, m))"

definition screen_channel_step ::
  "'v qvariant \<Rightarrow> mask_loader \<Rightarrow> (poll \<Rightarrow> bool) \<Rightarrow> 'v screen_request \<Rightarrow> nat \<Rightarrow>
   mask_cache \<times> plane list \<Rightarrow> screen_error + (mask_cache \<times> plane list)" where
  "screen_channel_step Q load canceled req ch st =
     (let (cache, allPacked) = st; c = channels req ! ch;
          w = nat (req_width req); h = nat (req_height req) in
      if canceled (PollChannel ch) then Inl Canceled
      else case toneBytes c of None \<Rightarrow> Inl (NullTone ch)
      | Some tone \<Rightarrow>
        if int (length tone) \<noteq> req_width req * req_height req then Inl (ToneSizeMismatch ch)
        else bind_res (fetch_mask load (maskKey c) cache) (\<lambda>cache.
          let m = snd cache in
          if fst (snd m) \<le> 0 \<or> snd (snd m) \<le> 0 then Inl UndefinedBehaviour
          else if \<exists>y \<in> set [0..<h]. canceled (PollRow ch y) then Inl Canceled
          else Inr (cache, allPacked[ch := packTo2Bpp (screen_dots Q req ch c tone m) w h])))"

definition screenChannels ::
  "'v qvariant \<Rightarrow> mask_loader \<Rightarrow> (poll \<Rightarrow> bool) \<Rightarrow> 'v screen_request \<Rightarrow> screen_error + plane list" where
  "screenChannels Q load canceled req =
     (if req_width req \<le> 0 \<or> req_height req \<le> 0 \<or> channels req = [] then Inl InvalidRequest
      else if \<not> fits_int (req_width req * req_height req) then Inl UndefinedBehaviour
      else let n = length (channels req) in
        bind_res (fold_res (screen_channel_step Q load canceled req) [0..<n]
            (([], [], 0, 0), replicate n []))
          (\<lambda>(cache, allPacked). Inr allPacked))"

end
