(* ===== verification/Strip_Pipeline.thy ===== *)
theory Strip_Pipeline
  imports Screen_Engine Raster_Budget
begin

text \<open>
  \<open>BoundedRasterPipeline::screenToSpool\<close>: the streaming screener. It walks the page in
  strips, keeps at most four finished rows per channel in a deque, promotes the second of
  them in place and hands every row to the spool writer. The ImageMagick image of a mask,
  the tone provider, the writer and the cancellation flag are parameters.
\<close>

section \<open>Mask rows\<close>

record magick_gray =
  img_columns :: int
  img_rows :: int
  img_gray :: "nat \<Rightarrow> nat \<Rightarrow> u8" \<comment> \<open>the \<open>"I"\<close> export of the pixel at column \<open>x\<close>, row \<open>y\<close>\<close>

type_synonym gray_reader = "string \<Rightarrow> magick_gray option" \<comment> \<open>\<open>None\<close> is a \<open>Magick::Exception\<close>\<close>

record mask_rows =
  m_image :: magick_gray
  m_bytes :: bytes
  m_width :: int
  m_height :: int
  m_cachedRow :: int

definition mask_open :: "gray_reader \<Rightarrow> string \<Rightarrow> screen_error + mask_rows" where
  "mask_open read path =
     (case read path of
        None \<Rightarrow> Inl (MaskLoadFailed path)
      | Some im \<Rightarrow>
          if img_columns im \<le> 0 \<or> img_rows im \<le> 0 then Inl (MaskLoadFailed path)
          else Inr \<lparr>m_image = im, m_bytes = [], m_width = img_columns im,
                    m_height = img_rows im, m_cachedRow = -1\<rparr>)"

definition export_gray_row :: "magick_gray \<Rightarrow> nat \<Rightarrow> nat \<Rightarrow> bytes" where
  \<comment> \<open>\<open>Image::write(0, y, width, 1, "I", CharPixel, ...)\<close>\<close>
  "export_gray_row im y width = map (\<lambda>x. img_gray im x y) [0..<width]"

definition mask_row :: "int \<Rightarrow> mask_rows \<Rightarrow> screen_error + (bytes \<times> mask_rows)" where
  "mask_row row M =
     (if m_width M \<le> 0 \<or> m_height M \<le> 0 then Inl InvalidRequest
      else let wrapped = (if row < 0 then - (- row mod m_height M) else row mod m_height M);
               wrapped = (if wrapped < 0 then wrapped + m_height M else wrapped)
      in if wrapped \<noteq> m_cachedRow M
         then let M = M\<lparr>m_bytes := export_gray_row (m_image M) (nat wrapped) (nat (m_width M)),
                        m_cachedRow := wrapped\<rparr>
              in Inr (m_bytes M, M)
         else Inr (m_bytes M, M))"

section \<open>Channel state\<close>

record screen_row =
  row_y :: nat
  row_tone :: bytes
  row_dots :: bytes

record screen_state =
  config :: screen_channel
  mask_st :: mask_rows
  offsetX :: int
  offsetY :: int
  rows :: "screen_row list"

definition promote_center_dot :: "promo \<Rightarrow> nat \<Rightarrow> screen_row list \<Rightarrow> nat \<Rightarrow> u8" where
  \<comment> \<open>the loop body of \<open>promoteCenterRow\<close>: the new dot at \<open>x\<close>\<close>
  "promote_center_dot P y rs x =
     (let dot = row_dots (rs ! 1) ! x in
      if dot = 0 \<or> dot = 3 then dot
      else let tone = row_tone (rs ! 1) ! x in
      if tone < toneGate P then dot
      else let
        neighborDots = map (\<lambda>(dy, dx). row_dots (rs ! nat (dy + 1)) ! nat (int x + dx)) window_offsets;
        inked = int (length (filter (\<lambda>n. 0 < n) neighborDots));
        weighted = sum_list (map uint neighborDots);
        deviation = (\<Sum>(dy, dx)\<leftarrow>window_offsets.
                       \<bar>uint (row_tone (rs ! nat (dy + 1)) ! nat (int x + dx)) - uint tone\<bar>);
        deviationCount = int (length window_offsets)
      in if inked < minNeiInked P \<or> (deviationCount \<noteq> 0 \<and> deviation div deviationCount > flatVarEps P)
         then dot
         else promote_dot P x y tone (weighted + kickBonus P) dot)"

definition set_center_dot :: "screen_row list \<Rightarrow> nat \<Rightarrow> u8 \<Rightarrow> screen_row list" where
  "set_center_dot rs x d = rs[1 := (rs ! 1)\<lparr>row_dots := (row_dots (rs ! 1))[x := d]\<rparr>]"

definition promoteCenterRow :: "promo \<Rightarrow> nat \<Rightarrow> nat \<Rightarrow> screen_row list \<Rightarrow> screen_row list" where
  "promoteCenterRow P width height rs =
     (if length rs \<noteq> 4 then rs
      else let y = row_y (rs ! 1) in
        if y = 0 \<or> int y \<ge> int height - 2 then rs
        else foldl (\<lambda>rs x. set_center_dot rs x (promote_center_dot P y rs x)) rs [1..<width - 2])"

section \<open>Emitting rows\<close>

type_synonym 'w line_writer = "nat \<Rightarrow> nat \<Rightarrow> bytes \<Rightarrow> 'w \<Rightarrow> screen_error + 'w"
  \<comment> \<open>\<open>writer.writeLine(logicalChannel, row, bytes)\<close>\<close>

definition emitFrontRow ::
  "'w line_writer \<Rightarrow> nat \<Rightarrow> screen_row list \<Rightarrow> 'w \<Rightarrow> screen_error + (screen_row list \<times> 'w)" where
  "emitFrontRow writeLine logicalChannel rs w =
     (case rs of
        [] \<Rightarrow> Inr ([], w)
      | row # rest \<Rightarrow>
          bind_res (writeLine logicalChannel (row_y row) (packRow (row_dots row) (length (row_dots row))) w)
            (\<lambda>w. Inr (rest, w)))"

fun drain_rows :: "'w line_writer \<Rightarrow> nat \<Rightarrow> screen_row list \<Rightarrow> 'w \<Rightarrow> screen_error + 'w" where
  \<comment> \<open>\<open>while (!rows.empty()) emitFrontRow(...)\<close>\<close>
  "drain_rows writeLine ch [] w = Inr w"
| "drain_rows writeLine ch (row # rest) w =
     bind_res (emitFrontRow writeLine ch (row # rest) w) (\<lambda>(rs, w). drain_rows writeLine ch rest w)"

section \<open>One row of one channel\<close>

definition screen_output_row :: "screen_channel \<Rightarrow> bytes \<Rightarrow> int \<Rightarrow> int \<Rightarrow> nat \<Rightarrow> nat \<Rightarrow> bytes \<Rightarrow> nat \<Rightarrow> screen_row" where
  "screen_output_row c maskRow maskW offX width y tones toneBase =
     (let px = map (\<lambda>x.
        let originalTone = tones ! (toneBase + x);
            maskX = int x + offX;
            maskX = (if maskX \<ge> maskW then maskX mod maskW else maskX)
        in screen_pixel c x y originalTone (maskRow ! nat maskX)) [0..<width]
      in \<lparr>row_y = y, row_tone = map fst px, row_dots = map snd px\<rparr>)"

definition push_row ::
  "'w line_writer \<Rightarrow> promo \<Rightarrow> nat \<Rightarrow> nat \<Rightarrow> nat \<Rightarrow> bool \<Rightarrow> screen_row \<Rightarrow>
   screen_row list \<Rightarrow> 'w \<Rightarrow> screen_error + (screen_row list \<times> 'w)" where
  \<comment> \<open>\<open>rows.push_back\<close> and the emission rule after it\<close>
  "push_row writeLine P width height ch promoting output rs w =
     (let rs = rs @ [output] in
      if \<not> promoting then emitFrontRow writeLine ch rs w
      else if length rs = 4
      then emitFrontRow writeLine ch (promoteCenterRow P width height rs) w
      else Inr (rs, w))"

type_synonym 'w run_state = "screen_state list \<times> 'w"

definition screen_cell ::
  "'w line_writer \<Rightarrow> promo \<Rightarrow> (poll \<Rightarrow> bool) \<Rightarrow> nat \<Rightarrow> nat \<Rightarrow> bytes list \<Rightarrow> nat \<Rightarrow> nat \<Rightarrow> nat \<Rightarrow>
   'w run_state \<Rightarrow> screen_error + 'w run_state" where
  "screen_cell writeLine P canceled width height tones firstRow localRow ch st =
     (let (states, w) = st; y = firstRow + localRow; state = states ! ch; c = config state in
      if canceled (PollCell y ch) then Inl Canceled
      else bind_res (mask_row (int y + offsetY state) (mask_st state)) (\<lambda>(maskRow, M).
        let output = screen_output_row c maskRow (m_width M) (offsetX state) width y
                       (tones ! ch) (localRow * width)
        in bind_res (push_row writeLine P width height ch (promotion c) output (rows state) w)
             (\<lambda>(rs, w). Inr (states[ch := state\<lparr>mask_st := M, rows := rs\<rparr>], w))))"

section \<open>Strips\<close>

function strip_loop :: "(nat \<Rightarrow> nat \<Rightarrow> 's \<Rightarrow> 'e + 's) \<Rightarrow> nat \<Rightarrow> nat \<Rightarrow> nat \<Rightarrow> 's \<Rightarrow> 'e + 's" where
  \<comment> \<open>\<open>for (first = 0; first < height; first += stripRows)\<close>; the strip height is at least 1\<close>
  "strip_loop body stripRows height first s =
     (if first < height \<and> 0 < stripRows
      then bind_res (body first (min stripRows (height - first)) s)
             (strip_loop body stripRows height (first + stripRows))
      else Inr s)"
  by pat_completeness auto
termination
  by (relation "measure (\<lambda>(body, stripRows, height, first, s). height - first)") auto

declare strip_loop.simps [simp del]

type_synonym tone_provider = "nat \<Rightarrow> nat \<Rightarrow> bytes list option" \<comment> \<open>first row, row count\<close>

definition screen_strip ::
  "'w line_writer \<Rightarrow> promo \<Rightarrow> (poll \<Rightarrow> bool) \<Rightarrow> tone_provider \<Rightarrow> nat \<Rightarrow> nat \<Rightarrow> nat \<Rightarrow>
   nat \<Rightarrow> nat \<Rightarrow> 'w run_state \<Rightarrow> screen_error + 'w run_state" where
  "screen_strip writeLine P canceled toneProvider n width height firstRow rowCount st =
     (if canceled (PollStrip firstRow) then Inl Canceled
      else case toneProvider firstRow rowCount of
        None \<Rightarrow> Inl ToneProviderFailed
      | Some tones \<Rightarrow>
          if length tones \<noteq> n then Inl ToneProviderFailed
          else if \<exists>tone \<in> set tones. length tone \<noteq> width * rowCount then Inl ToneStripInvalid
          else fold_res (\<lambda>localRow.
                 fold_res (screen_cell writeLine P canceled width height tones firstRow localRow) [0..<n])
               [0..<rowCount] st)"

definition open_channel :: "gray_reader \<Rightarrow> u32 \<Rightarrow> screen_channel list \<Rightarrow> nat \<Rightarrow>
    screen_state list \<Rightarrow> screen_error + screen_state list" where
  "open_channel read seed cs ch states =
     (let c = cs ! ch in
      bind_res (mask_open read (maskPath c)) (\<lambda>M.
        let off = mask_offset ch seed (m_width M) (m_height M)
        in Inr (states @ [\<lparr>config = c, mask_st = M, offsetX = fst off, offsetY = snd off, rows = []\<rparr>])))"

definition screenToSpool ::
  "gray_reader \<Rightarrow> 'v qvariant \<Rightarrow> int \<Rightarrow> int \<Rightarrow> u32 \<Rightarrow> 'v vmap \<Rightarrow> screen_channel list \<Rightarrow>
   tone_provider \<Rightarrow> 'w line_writer \<Rightarrow> (poll \<Rightarrow> bool) \<Rightarrow> int \<Rightarrow> 'w \<Rightarrow> screen_error + 'w" where
  "screenToSpool read Q width height seed promotionParameters cs toneProvider
     writeLine canceled stripRows w =
     (if width \<le> 0 \<or> height \<le> 0 \<or> cs = [] then Inl InvalidRequest
      else let n = length cs; P = promo_of Q promotionParameters;
               strip = nat (screen_strip_rows width n stripRows)
      in bind_res (fold_res (open_channel read seed cs) [0..<n] []) (\<lambda>states.
         bind_res (strip_loop (screen_strip writeLine P canceled toneProvider n (nat width) (nat height))
                     strip (nat height) 0 (states, w)) (\<lambda>(states, w).
         fold_res (\<lambda>ch. drain_rows writeLine ch (rows (states ! ch))) [0..<n] w)))"

end
