(* ===== verification/Strip_Equivalence.thy ===== *)
theory Strip_Equivalence
  imports Strip_Pipeline
begin

text \<open>
  The streaming screener computes what the in-memory screener computes: the deque of four
  rows always holds a window of the in-memory dot plane as it is after the promotion of the
  rows above, so every emitted line is the packed line of the finished plane, whatever the
  strip height.
\<close>

section \<open>The promotion window\<close>

definition window_of :: "nat \<Rightarrow> nat \<Rightarrow> nat \<Rightarrow> bytes \<Rightarrow> plane \<Rightarrow> screen_row list \<Rightarrow> bool" where
  \<comment> \<open>\<open>rs\<close> holds rows \<open>y - 1\<close> to \<open>y + 2\<close> of the dot plane and the tone plane\<close>
  "window_of w h y tone dm rs \<longleftrightarrow>
     length rs = 4 \<and> length dm = h \<and> 1 \<le> y \<and> y + 2 < h \<and>
     (\<forall>j < 4. row_dots (rs ! j) = dm ! (y - 1 + j)) \<and>
     (\<forall>j < 4. \<forall>x < w. row_tone (rs ! j) ! x = tone ! ((y - 1 + j) * w + x))"

lemma window_offsets_bounds:
  "o' \<in> set window_offsets \<Longrightarrow> -1 \<le> fst o' \<and> fst o' \<le> 2 \<and> -1 \<le> snd o' \<and> snd o' \<le> 2"
  by (auto simp: window_offsets_def)

lemma window_dots:
  assumes "window_of w h y tone dm rs" and "-1 \<le> dy" and "dy \<le> 2"
  shows "row_dots (rs ! nat (dy + 1)) = dm ! nat (int y + dy)"
proof -
  have "y - 1 + nat (dy + 1) = nat (int y + dy)" and "nat (dy + 1) < 4"
    using assms unfolding window_of_def by linarith+
  then show ?thesis using assms(1) unfolding window_of_def by metis
qed

lemma window_tone:
  assumes "window_of w h y tone dm rs" and "-1 \<le> dy" and "dy \<le> 2"
    and "0 \<le> int x + dx" and "int x + dx < int w"
  shows "row_tone (rs ! nat (dy + 1)) ! nat (int x + dx) = tone ! nat ((int y + dy) * int w + (int x + dx))"
proof -
  have j: "y - 1 + nat (dy + 1) = nat (int y + dy)" "nat (dy + 1) < 4" "0 \<le> int y + dy"
    using assms unfolding window_of_def by linarith+
  have "nat ((int y + dy) * int w + (int x + dx)) = nat (int y + dy) * w + nat (int x + dx)"
    using assms(4) j(3) by (simp add: nat_add_distrib nat_mult_distrib)
  then show ?thesis using assms j unfolding window_of_def by (metis nat_less_iff)
qed

lemma localMAD_window:
  assumes W: "window_of w h y tone dm rs" and x: "1 \<le> x" "x + 2 < w"
  shows "localMAD tone w h (int x) (int y) =
    (\<Sum>(dy, dx)\<leftarrow>window_offsets.
       \<bar>uint (row_tone (rs ! nat (dy + 1)) ! nat (int x + dx)) - uint (row_tone (rs ! 1) ! x)\<bar>)
     div int (length window_offsets)"
proof -
  have y: "1 \<le> y" "y + 2 < h" using W by (auto simp: window_of_def)
  have all: "filter (\<lambda>(dy, dx). \<not> (int y + dy < 0 \<or> int y + dy \<ge> int h) \<and>
      \<not> (int x + dx < 0 \<or> int x + dx \<ge> int w)) window_offsets = window_offsets"
    using x y by (auto intro!: filter_True dest!: window_offsets_bounds)
  have c: "tone ! nat (int y * int w + int x) = row_tone (rs ! 1) ! x"
    using window_tone [OF W, of 0 x 0] x by simp
  have s: "(\<Sum>(dy, dx)\<leftarrow>window_offsets. \<bar>uint (tone ! nat ((int y + dy) * int w + (int x + dx))) -
        uint (row_tone (rs ! 1) ! x)\<bar>) =
      (\<Sum>(dy, dx)\<leftarrow>window_offsets.
       \<bar>uint (row_tone (rs ! nat (dy + 1)) ! nat (int x + dx)) - uint (row_tone (rs ! 1) ! x)\<bar>)"
  proof (intro arg_cong [where f = sum_list] map_cong refl)
    fix o' assume "o' \<in> set window_offsets"
    then show "(case o' of (dy, dx) \<Rightarrow> \<bar>uint (tone ! nat ((int y + dy) * int w + (int x + dx))) -
        uint (row_tone (rs ! 1) ! x)\<bar>) = (case o' of (dy, dx) \<Rightarrow>
        \<bar>uint (row_tone (rs ! nat (dy + 1)) ! nat (int x + dx)) - uint (row_tone (rs ! 1) ! x)\<bar>)"
      using window_tone [OF W, of "fst o'" x "snd o'"] x
      by (auto dest!: window_offsets_bounds split: prod.split)
  qed
  show ?thesis unfolding localMAD_def Let_def all c s by (simp add: window_offsets_def)
qed

lemma promote_at_window:
  assumes W: "window_of w h y tone dm rs" and x: "1 \<le> x" "x + 2 < w"
  shows "promote_at P tone w h y dm x = dm[y := (dm ! y)[x := promote_center_dot P y rs x]]"
proof -
  have yl: "y < length dm" using W by (auto simp: window_of_def)
  have c: "row_dots (rs ! 1) = dm ! y" using window_dots [OF W, of 0] by simp
  have t: "tone ! (y * w + x) = row_tone (rs ! 1) ! x"
    using window_tone [OF W, of 0 x 0] x by (simp add: nat_add_distrib nat_mult_distrib)
  have n: "map (\<lambda>(dy, dx). dm ! nat (int y + dy) ! nat (int x + dx)) window_offsets =
      map (\<lambda>(dy, dx). row_dots (rs ! nat (dy + 1)) ! nat (int x + dx)) window_offsets"
    by (rule map_cong [OF refl])
      (auto dest!: window_offsets_bounds simp: window_dots [OF W] split: prod.split)
  have l: "int (length window_offsets) \<noteq> 0" by (simp add: window_offsets_def)
  have same: "dm[y := (dm ! y)[x := dm ! y ! x]] = dm" by simp
  show ?thesis
    unfolding promote_at_def promote_center_dot_def Let_def c t n localMAD_window [OF W x]
    using l same by (simp del: length_greater_0_conv)
qed

lemma window_set_center:
  assumes "window_of w h y tone dm rs"
  shows "window_of w h y tone (dm[y := (dm ! y)[x := d]]) (set_center_dot rs x d)"
proof -
  have c: "row_dots (rs ! 1) = dm ! y" using window_dots [OF assms, of 0] by simp
  have "row_dots (set_center_dot rs x d ! j) = dm[y := (dm ! y)[x := d]] ! (y - 1 + j)" if "j < 4" for j
  proof (cases "j = 1")
    case True
    then show ?thesis using assms c by (simp add: set_center_dot_def window_of_def)
  next
    case False
    then have "y - 1 + j \<noteq> y" using assms by (auto simp: window_of_def)
    then show ?thesis using assms that False by (simp add: set_center_dot_def window_of_def)
  qed
  moreover have "row_tone (set_center_dot rs x d ! j) = row_tone (rs ! j)" if "j < 4" for j
    using assms that by (cases "j = 1") (auto simp: set_center_dot_def window_of_def)
  ultimately show ?thesis using assms by (simp add: window_of_def) (simp add: set_center_dot_def)
qed

lemma promote_row_window:
  assumes "window_of w h y tone dm rs" and "\<forall>x \<in> set xs. 1 \<le> x \<and> x + 2 < w"
  shows "window_of w h y tone (foldl (promote_at P tone w h y) dm xs)
     (foldl (\<lambda>rs x. set_center_dot rs x (promote_center_dot P y rs x)) rs xs)"
  using assms
proof (induction xs arbitrary: dm rs)
  case (Cons x xs)
  then have "promote_at P tone w h y dm x = dm[y := (dm ! y)[x := promote_center_dot P y rs x]]"
    by (intro promote_at_window) auto
  then show ?case using Cons window_set_center [of w h y tone dm rs x] by simp
qed simp

lemma foldl_center_other:
  "length rs = 4 \<Longrightarrow> \<forall>j. j \<noteq> 1 \<longrightarrow> foldl (\<lambda>rs x. set_center_dot rs x (f rs x)) rs xs ! j = rs ! j"
  by (induction xs arbitrary: rs) (auto simp: set_center_dot_def)

section \<open>The rolling deque of one channel\<close>

definition chan_step ::
  "promo \<Rightarrow> nat \<Rightarrow> nat \<Rightarrow> bool \<Rightarrow> screen_row list \<times> screen_row list \<Rightarrow> screen_row \<Rightarrow>
   screen_row list \<times> screen_row list" where
  \<comment> \<open>\<open>push_row\<close> with the emitted rows collected in a list\<close>
  "chan_step P w h prom st out =
     (let (rs, em) = st; rs1 = rs @ [out] in
      if \<not> prom then (tl rs1, em @ [hd rs1])
      else if length rs1 = 4
      then (tl (promoteCenterRow P w h rs1), em @ [hd (promoteCenterRow P w h rs1)])
      else (rs1, em))"

definition promoted_upto :: "promo \<Rightarrow> bytes \<Rightarrow> nat \<Rightarrow> nat \<Rightarrow> plane \<Rightarrow> nat \<Rightarrow> plane" where
  "promoted_upto P tone w h dm n =
     foldl (\<lambda>dm y. foldl (promote_at P tone w h y) dm [1..<w - 2]) dm [1..<n]"

lemma promoted_upto_Suc:
  "1 \<le> n \<Longrightarrow> promoted_upto P tone w h dm (Suc n) =
     foldl (promote_at P tone w h n) (promoted_upto P tone w h dm n) [1..<w - 2]"
  by (simp add: promoted_upto_def)

lemma promote_at_frame:
  "length (promote_at P tone w h y dm x) = length dm"
  "j \<noteq> y \<Longrightarrow> promote_at P tone w h y dm x ! j = dm ! j"
  by (simp_all add: promote_at_def Let_def)

lemma promote_row_frame:
  "length (foldl (promote_at P tone w h y) dm xs) = length dm \<and>
   (j \<noteq> y \<longrightarrow> foldl (promote_at P tone w h y) dm xs ! j = dm ! j)"
  by (induction xs arbitrary: dm) (simp_all add: promote_at_frame)

lemma promoted_upto_frame:
  "length (promoted_upto P tone w h dm n) = length dm \<and>
   (n \<le> j \<longrightarrow> promoted_upto P tone w h dm n ! j = dm ! j)"
proof (induction n)
  case 0
  then show ?case by (simp add: promoted_upto_def)
next
  case (Suc n)
  show ?case
  proof (cases "1 \<le> n")
    case True
    then show ?thesis using Suc by (auto simp: promoted_upto_Suc promote_row_frame)
  next
    case False
    then show ?thesis by (simp add: promoted_upto_def)
  qed
qed

definition rows_ok :: "nat \<Rightarrow> nat \<Rightarrow> screen_row list \<Rightarrow> bool" where
  "rows_ok w h outs \<longleftrightarrow> length outs = h \<and>
     (\<forall>y < h. row_y (outs ! y) = y \<and> length (row_tone (outs ! y)) = w \<and> length (row_dots (outs ! y)) = w)"

definition tone_plane :: "screen_row list \<Rightarrow> bytes" where
  "tone_plane outs = concat (map row_tone outs)"

definition rolling :: "promo \<Rightarrow> nat \<Rightarrow> nat \<Rightarrow> screen_row list \<Rightarrow> nat \<Rightarrow>
    screen_row list \<times> screen_row list \<Rightarrow> bool" where
  "rolling P w h outs k st \<longleftrightarrow>
     (let (rs, em) = st; allr = em @ rs;
          G = promoted_upto P (tone_plane outs) w h (map row_dots outs) (k - 2) in
      length allr = k \<and> length rs = min k 3 \<and>
      (\<forall>i < k. row_y (allr ! i) = i \<and> row_tone (allr ! i) = row_tone (outs ! i) \<and>
               row_dots (allr ! i) = G ! i))"

lemma tone_plane_nth:
  assumes "rows_ok w h outs" and "y < h" and "x < w"
  shows "tone_plane outs ! (y * w + x) = row_tone (outs ! y) ! x"
proof -
  have "\<forall>l \<in> set (map row_tone outs). length l = w"
    using assms(1) by (auto simp: rows_ok_def in_set_conv_nth)
  then have "concat (map row_tone outs) ! (y * w + x) = map row_tone outs ! y ! x"
    using assms by (intro concat_nth_lines) (auto simp: rows_ok_def)
  then show ?thesis using assms by (simp add: tone_plane_def rows_ok_def)
qed

lemma set_center_keeps:
  assumes "length rs = 4"
  shows "length (foldl (\<lambda>rs x. set_center_dot rs x (f rs x)) rs xs) = 4 \<and>
    (\<forall>j < 4. row_y (foldl (\<lambda>rs x. set_center_dot rs x (f rs x)) rs xs ! j) = row_y (rs ! j) \<and>
      row_tone (foldl (\<lambda>rs x. set_center_dot rs x (f rs x)) rs xs ! j) = row_tone (rs ! j))"
  using assms
proof (induction xs arbitrary: rs)
  case (Cons x xs)
  have "length (set_center_dot rs x (f rs x)) = 4" using Cons.prems by (simp add: set_center_dot_def)
  moreover have "row_y (set_center_dot rs x d ! j) = row_y (rs ! j) \<and>
      row_tone (set_center_dot rs x d ! j) = row_tone (rs ! j)" if "j < 4" for j d
    using Cons.prems that by (cases "j = 1") (simp_all add: set_center_dot_def)
  ultimately show ?case using Cons.IH [of "set_center_dot rs x (f rs x)"] by simp
qed simp

lemma rolling_step:
  assumes outs: "rows_ok w h outs" and k: "k < h" and R: "rolling P w h outs k st"
  shows "rolling P w h outs (Suc k) (chan_step P w h True st (outs ! k))"
proof -
  obtain rs em where st: "st = (rs, em)" by (cases st)
  let ?t = "tone_plane outs" and ?b = "map row_dots outs"
  define G where "G = promoted_upto P ?t w h ?b"
  have R': "length (em @ rs) = k" "length rs = min k 3"
    "\<And>i. i < k \<Longrightarrow> row_y ((em @ rs) ! i) = i \<and> row_tone ((em @ rs) ! i) = row_tone (outs ! i) \<and>
       row_dots ((em @ rs) ! i) = G (k - 2) ! i"
    using R by (auto simp: rolling_def st G_def Let_def)
  have len: "length outs = h" using outs by (simp add: rows_ok_def)
  have new: "row_y (outs ! k) = k" using outs k by (simp add: rows_ok_def)
  have later: "G n ! j = ?b ! j" if "n \<le> j" for n j using that promoted_upto_frame by (auto simp: G_def)
  have lenG: "length (G n) = h" for n using promoted_upto_frame len by (metis G_def length_map)
  define ar where "ar = em @ rs @ [outs ! k]"
  have ar: "row_y (ar ! i) = i \<and> row_tone (ar ! i) = row_tone (outs ! i) \<and> row_dots (ar ! i) = G (k - 2) ! i"
    if "i < Suc k" for i
  proof (cases "i < k")
    case True
    then have "ar ! i = (em @ rs) ! i" using R'(1) by (simp add: ar_def nth_append)
    then show ?thesis using R'(3) [OF True] by simp
  next
    case False
    then have "ar ! i = outs ! k" "i = k" using that R'(1) by (simp_all add: ar_def nth_append)
    then show ?thesis using new later [of "k - 2" k] k len by simp
  qed
  show ?thesis
  proof (cases "k < 3")
    case True
    have "G (Suc k - 2) = G (k - 2)" using True by (simp add: G_def promoted_upto_def)
    then show ?thesis
      using True R' ar by (simp add: rolling_def chan_step_def st G_def [symmetric] ar_def)
  next
    case False
    define y where "y = k - 2"
    have y: "1 \<le> y" "y + 2 = k" "y + 2 < h" using False k by (auto simp: y_def)
    let ?r1 = "rs @ [outs ! k]"
    have l: "length rs = 3" "length em = k - 3" using R'(1,2) False by auto
    have r1: "?r1 ! j = ar ! (y - 1 + j)" if "j < 4" for j
    proof -
      have "y - 1 + j = length em + j" using l y by simp
      then show ?thesis by (simp add: ar_def)
    qed
    have W: "window_of w h y ?t (G y) ?r1"
      unfolding window_of_def
    proof (intro conjI allI impI)
      show "length ?r1 = 4" "length (G y) = h" "1 \<le> y" "y + 2 < h" using l y lenG by auto
      fix j :: nat assume j: "j < 4"
      then have i: "y - 1 + j < Suc k" using y by linarith
      show "row_dots (?r1 ! j) = G y ! (y - 1 + j)" using ar [OF i] r1 [OF j] by (simp add: y_def)
      fix x assume "x < w"
      then show "row_tone (?r1 ! j) ! x = ?t ! ((y - 1 + j) * w + x)"
        using ar [OF i] r1 [OF j] i y k tone_plane_nth [OF outs, of "y - 1 + j" x] by simp
    qed
    define r2 where "r2 = promoteCenterRow P w h ?r1"
    have yrow: "row_y (?r1 ! 1) = y" using r1 [of 1] ar [of y] y by simp
    have r2: "r2 = foldl (\<lambda>rs x. set_center_dot rs x (promote_center_dot P y rs x)) ?r1 [1..<w - 2]"
      unfolding r2_def promoteCenterRow_def Let_def yrow using l y by simp
    have W2: "window_of w h y ?t (G (Suc y)) r2"
    proof -
      have "G (Suc y) = foldl (promote_at P ?t w h y) (G y) [1..<w - 2]"
        unfolding G_def by (rule promoted_upto_Suc [OF y(1)])
      moreover have "\<forall>x \<in> set [1..<w - 2]. 1 \<le> x \<and> x + 2 < w" by auto
      ultimately show ?thesis unfolding r2 by (simp only: promote_row_window [OF W])
    qed
    have keep: "length r2 = 4" "\<And>j. j < 4 \<Longrightarrow> row_y (r2 ! j) = row_y (?r1 ! j) \<and> row_tone (r2 ! j) = row_tone (?r1 ! j)"
      using set_center_keeps [of ?r1 "promote_center_dot P y" "[1..<w - 2]", folded r2] l by simp_all
    have step: "chan_step P w h True st (outs ! k) = (tl r2, em @ [hd r2])"
      using l by (simp add: chan_step_def st r2_def Let_def)
    have all2: "(em @ [hd r2]) @ tl r2 = em @ r2" using keep(1) by (cases r2) auto
    have "row_y ((em @ r2) ! i) = i \<and> row_tone ((em @ r2) ! i) = row_tone (outs ! i) \<and>
        row_dots ((em @ r2) ! i) = G (Suc y) ! i" if i: "i < Suc k" for i
    proof (cases "i < length em")
      case True
      then have "(em @ r2) ! i = ar ! i" by (simp add: ar_def nth_append)
      moreover have "G (Suc y) ! i = G y ! i"
        using True l y promote_row_frame [of P ?t w h y "G y" "[1..<w - 2]" i]
        by (simp add: G_def promoted_upto_Suc)
      ultimately show ?thesis using ar [OF i] by (simp add: y_def)
    next
      case False
      define j where "j = i - length em"
      have j: "j < 4" "i = y - 1 + j" "(em @ r2) ! i = r2 ! j"
        using False l y i by (auto simp: j_def nth_append)
      have "row_dots (r2 ! j) = G (Suc y) ! i" using W2 j by (simp add: window_of_def)
      then show ?thesis using keep(2) [OF j(1)] r1 [OF j(1)] ar [OF i] j by simp
    qed
    moreover have "Suc k - 2 = Suc y" using y by simp
    ultimately show ?thesis
      unfolding step rolling_def Let_def split_def fst_conv snd_conv all2 G_def [symmetric]
      using l y keep(1) by simp
  qed
qed

lemma rolling_run:
  assumes "rows_ok w h outs" and "k \<le> h"
  shows "rolling P w h outs k (foldl (chan_step P w h True) ([], []) (take k outs))"
  using assms(2)
proof (induction k)
  case 0
  then show ?case by (simp add: rolling_def)
next
  case (Suc k)
  then have "take (Suc k) outs = take k outs @ [outs ! k]"
    using assms(1) by (simp add: rows_ok_def take_Suc_conv_app_nth)
  then show ?case using rolling_step [OF assms(1), of k P] Suc by simp
qed

lemma plain_run:
  "foldl (chan_step P w h False) ([], em) outs = ([], em @ outs)"
  by (induction outs arbitrary: em) (simp_all add: chan_step_def)

definition finished_rows :: "promo \<Rightarrow> nat \<Rightarrow> nat \<Rightarrow> bool \<Rightarrow> screen_row list \<Rightarrow> screen_row list" where
  "finished_rows P w h prom outs =
     (let (rs, em) = foldl (chan_step P w h prom) ([], []) outs in em @ rs)"

text \<open>Everything a channel emits, the flush included, is the plane promoted in memory.\<close>

lemma finished_rows_frame:
  assumes "rows_ok w h outs"
  shows "length (finished_rows P w h prom outs) = h"
    and "\<forall>y < h. row_y (finished_rows P w h prom outs ! y) = y \<and>
      row_dots (finished_rows P w h prom outs ! y) =
        (if prom then apply4x4Promotion P (tone_plane outs) w h (map row_dots outs)
         else map row_dots outs) ! y"
proof -
  have len: "length outs = h" using assms by (simp add: rows_ok_def)
  have "length (finished_rows P w h prom outs) = h \<and>
    (\<forall>y < h. row_y (finished_rows P w h prom outs ! y) = y \<and>
      row_dots (finished_rows P w h prom outs ! y) =
        (if prom then apply4x4Promotion P (tone_plane outs) w h (map row_dots outs)
         else map row_dots outs) ! y)"
  proof (cases prom)
    case True
    have "rolling P w h outs h (foldl (chan_step P w h True) ([], []) outs)"
      using rolling_run [OF assms, of h P] len by simp
    then show ?thesis using True
      by (auto simp: rolling_def finished_rows_def apply4x4Promotion_def promoted_upto_def Let_def split: prod.splits)
  next
    case False
    then show ?thesis using assms by (simp add: finished_rows_def plain_run rows_ok_def)
  qed
  then show "length (finished_rows P w h prom outs) = h"
    and "\<forall>y < h. row_y (finished_rows P w h prom outs ! y) = y \<and>
      row_dots (finished_rows P w h prom outs ! y) =
        (if prom then apply4x4Promotion P (tone_plane outs) w h (map row_dots outs)
         else map row_dots outs) ! y" by auto
qed

section \<open>Replaying a run on another writer\<close>

type_synonym emission = "nat \<times> nat \<times> bytes" \<comment> \<open>channel, row, packed line\<close>

definition trace_writer :: "emission list line_writer" where
  "trace_writer ch y b tr = Inr (tr @ [(ch, y, b)])"

definition put_line :: "'w line_writer \<Rightarrow> emission \<Rightarrow> 'w \<Rightarrow> screen_error + 'w" where
  "put_line wl e = (case e of (ch, y, b) \<Rightarrow> wl ch y b)"

definition replays ::
  "'w line_writer \<Rightarrow> ('s \<times> emission list \<Rightarrow> screen_error + ('s \<times> emission list)) \<Rightarrow>
   ('s \<times> 'w \<Rightarrow> screen_error + ('s \<times> 'w)) \<Rightarrow> bool" where
  "replays wl ft fw \<longleftrightarrow>
     (\<forall>s T s' T'. ft (s, T) = Inr (s', T') \<longrightarrow>
        (\<exists>E. T' = T @ E \<and> (\<forall>w. fw (s, w) = bind_res (fold_res (put_line wl) E w) (\<lambda>w. Inr (s', w)))))"

lemma replaysD:
  assumes "replays wl ft fw" and "ft (s, T) = Inr (s', T')"
  obtains E where "T' = T @ E" and "\<And>w. fw (s, w) = bind_res (fold_res (put_line wl) E w) (\<lambda>w. Inr (s', w))"
  using assms unfolding replays_def by blast

lemma bind_res_assoc: "bind_res (bind_res r f) g = bind_res r (\<lambda>x. bind_res (f x) g)"
  by (cases r) simp_all

lemma replays_bind:
  assumes "replays wl ft fw" and "\<And>s. replays wl (gt s) (gw s)"
  shows "replays wl (\<lambda>st. bind_res (ft st) (\<lambda>(s, t). gt s (s, t))) (\<lambda>st. bind_res (fw st) (\<lambda>(s, w). gw s (s, w)))"
  unfolding replays_def
proof (intro allI impI)
  fix s T s2 T2 assume "bind_res (ft (s, T)) (\<lambda>(s, t). gt s (s, t)) = Inr (s2, T2)"
  then obtain s1 T1 where f: "ft (s, T) = Inr (s1, T1)" and g: "gt s1 (s1, T1) = Inr (s2, T2)"
    by (auto simp: bind_res_eq_Inr)
  from replaysD [OF assms(1) f] obtain E1 where E1: "T1 = T @ E1"
    "\<And>w. fw (s, w) = bind_res (fold_res (put_line wl) E1 w) (\<lambda>w. Inr (s1, w))" by metis
  from replaysD [OF assms(2) g] obtain E2 where E2: "T2 = T1 @ E2"
    "\<And>w. gw s1 (s1, w) = bind_res (fold_res (put_line wl) E2 w) (\<lambda>w. Inr (s2, w))" by metis
  have "T2 = T @ (E1 @ E2)" using E1 E2 by simp
  moreover have "bind_res (fw (s, w)) (\<lambda>(s, w). gw s (s, w)) =
      bind_res (fold_res (put_line wl) (E1 @ E2) w) (\<lambda>w. Inr (s2, w))" for w
    by (simp add: E1 E2 fold_res_append bind_res_assoc)
  ultimately show "\<exists>E. T2 = T @ E \<and> (\<forall>w. bind_res (fw (s, w)) (\<lambda>(s, w). gw s (s, w)) =
      bind_res (fold_res (put_line wl) E w) (\<lambda>w. Inr (s2, w)))" by blast
qed

lemma replays_Inr: "replays wl Inr Inr"
  by (auto simp: replays_def intro!: exI [of _ "[]"])

lemma replays_seq:
  assumes "replays wl ft fw" and "replays wl gt gw"
  shows "replays wl (\<lambda>st. bind_res (ft st) gt) (\<lambda>st. bind_res (fw st) gw)"
  using replays_bind [OF assms(1), of "\<lambda>_. gt" "\<lambda>_. gw"] assms(2) by (simp add: case_prod_eta)

lemma replays_fold:
  assumes "\<And>x. x \<in> set xs \<Longrightarrow> replays wl (ft x) (fw x)"
  shows "replays wl (fold_res ft xs) (fold_res fw xs)"
  using assms
proof (induction xs)
  case Nil
  then show ?case using replays_Inr [of wl] by (simp add: replays_def)
next
  case (Cons x xs)
  have "replays wl (\<lambda>st. bind_res (ft x st) (fold_res ft xs)) (\<lambda>st. bind_res (fw x st) (fold_res fw xs))"
    using Cons by (intro replays_seq) auto
  then show ?case by (simp add: replays_def)
qed

lemma replays_strips:
  assumes "\<And>first n. replays wl (ft first n) (fw first n)"
  shows "replays wl (strip_loop ft strip h first) (strip_loop fw strip h first)"
proof (induction "h - first" arbitrary: first rule: less_induct)
  case less
  show ?case
  proof (cases "first < h \<and> 0 < strip")
    case True
    have "replays wl (\<lambda>st. bind_res (ft first (min strip (h - first)) st) (strip_loop ft strip h (first + strip)))
        (\<lambda>st. bind_res (fw first (min strip (h - first)) st) (strip_loop fw strip h (first + strip)))"
      using less [of "first + strip"] True assms by (intro replays_seq) auto
    then show ?thesis using True by (simp add: replays_def strip_loop.simps [of _ strip h first])
  next
    case False
    then show ?thesis using replays_Inr [of wl]
      by (auto simp add: replays_def strip_loop.simps [of _ strip h first])
  qed
qed

lemma replays_emit: "replays wl (\<lambda>(rs, w). emitFrontRow trace_writer ch rs w) (\<lambda>(rs, w). emitFrontRow wl ch rs w)"
  unfolding replays_def
proof (intro allI impI)
  fix s T s' T' assume a: "(\<lambda>(rs, w). emitFrontRow trace_writer ch rs w) (s, T) = Inr (s', T')"
  show "\<exists>E. T' = T @ E \<and> (\<forall>w. (\<lambda>(rs, w). emitFrontRow wl ch rs w) (s, w) =
      bind_res (fold_res (put_line wl) E w) (\<lambda>w. Inr (s', w)))"
  proof (cases s)
    case Nil
    with a show ?thesis by (auto simp: emitFrontRow_def intro!: exI [of _ "[]"])
  next
    case (Cons row rest)
    let ?e = "(ch, row_y row, packRow (row_dots row) (length (row_dots row)))"
    from a Cons have "T' = T @ [?e]" "s' = rest"
      by (auto simp: emitFrontRow_def trace_writer_def)
    then show ?thesis using Cons
      by (auto intro!: exI [of _ "[?e]"] simp: emitFrontRow_def put_line_def bind_res_assoc)
  qed
qed

lemma replays_push:
  "replays wl (\<lambda>(rs, w). push_row trace_writer P width h ch p out rs w)
     (\<lambda>(rs, w). push_row wl P width h ch p out rs w)"
  using replays_emit [of wl ch] unfolding replays_def push_row_def Let_def
  by (auto split: if_splits intro!: exI [of _ "[]"])

lemma replays_cell:
  "replays wl (screen_cell trace_writer P canceled width h tones first l ch)
     (screen_cell wl P canceled width h tones first l ch)"
  unfolding replays_def
proof (intro allI impI)
  fix s T s' T' assume a: "screen_cell trace_writer P canceled width h tones first l ch (s, T) = Inr (s', T')"
  let ?st = "s ! ch"
  from a obtain maskRow M where m: "mask_row (int (first + l) + offsetY ?st) (mask_st ?st) = Inr (maskRow, M)"
    and nc: "\<not> canceled (PollCell (first + l) ch)"
    by (auto simp: screen_cell_def Let_def bind_res_eq_Inr split: if_splits)
  let ?out = "screen_output_row (config ?st) maskRow (m_width M) (offsetX ?st) width (first + l) (tones ! ch) (l * width)"
  from a m nc obtain rs where
    p: "push_row trace_writer P width h ch (promotion (config ?st)) ?out (rows ?st) T = Inr (rs, T')"
    and s': "s' = s[ch := ?st\<lparr>mask_st := M, rows := rs\<rparr>]"
    by (auto simp: screen_cell_def Let_def bind_res_eq_Inr)
  from replaysD [OF replays_push, of P width h ch "promotion (config ?st)" ?out "rows ?st" T rs T'] p
  obtain E where "T' = T @ E" and
    "\<And>w. push_row wl P width h ch (promotion (config ?st)) ?out (rows ?st) w =
       bind_res (fold_res (put_line wl) E w) (\<lambda>w. Inr (rs, w))"
    by auto
  then show "\<exists>E. T' = T @ E \<and> (\<forall>w. screen_cell wl P canceled width h tones first l ch (s, w) =
      bind_res (fold_res (put_line wl) E w) (\<lambda>w. Inr (s', w)))"
    using m nc s' by (auto simp: screen_cell_def Let_def bind_res_assoc intro!: exI [of _ E])
qed

lemma replays_strip:
  "replays wl (screen_strip trace_writer P canceled tp n width h first rc)
     (screen_strip wl P canceled tp n width h first rc)"
proof (cases "tp first rc")
  case None
  then show ?thesis by (simp add: replays_def screen_strip_def)
next
  case (Some tones)
  have "replays wl
      (fold_res (\<lambda>l. fold_res (screen_cell trace_writer P canceled width h tones first l) [0..<n]) [0..<rc])
      (fold_res (\<lambda>l. fold_res (screen_cell wl P canceled width h tones first l) [0..<n]) [0..<rc])"
    by (intro replays_fold replays_cell)
  then show ?thesis using Some unfolding replays_def screen_strip_def by (simp split: if_split)
qed

lemma drain_trace:
  "drain_rows trace_writer ch rs T =
     Inr (T @ map (\<lambda>r. (ch, row_y r, packRow (row_dots r) (length (row_dots r)))) rs)"
  by (induction rs arbitrary: T) (simp_all add: emitFrontRow_def trace_writer_def)

lemma drain_put:
  "drain_rows wl ch rs w =
     fold_res (put_line wl) (map (\<lambda>r. (ch, row_y r, packRow (row_dots r) (length (row_dots r)))) rs) w"
  by (induction rs arbitrary: w) (simp_all add: emitFrontRow_def put_line_def bind_res_assoc)

lemma flush_replay:
  "fold_res (\<lambda>ch. drain_rows wl ch (R ch)) chs w =
     fold_res (put_line wl) (concat (map (\<lambda>ch. map (\<lambda>r. (ch, row_y r, packRow (row_dots r) (length (row_dots r)))) (R ch)) chs)) w"
proof (induction chs arbitrary: w)
  case (Cons ch chs)
  have "fold_res (\<lambda>ch. drain_rows wl ch (R ch)) chs = fold_res (put_line wl)
      (concat (map (\<lambda>ch. map (\<lambda>r. (ch, row_y r, packRow (row_dots r) (length (row_dots r)))) (R ch)) chs))"
    by (rule ext) (rule Cons.IH)
  then show ?case by (simp add: drain_put [of wl ch] fold_res_append)
qed simp

lemma flush_trace:
  "fold_res (\<lambda>ch. drain_rows trace_writer ch (R ch)) chs T =
     Inr (T @ concat (map (\<lambda>ch. map (\<lambda>r. (ch, row_y r, packRow (row_dots r) (length (row_dots r)))) (R ch)) chs))"
  by (induction chs arbitrary: T) (simp_all add: drain_trace)

text \<open>A run on any writer writes the lines of the traced run, in that order.\<close>

lemma screenToSpool_replay:
  assumes "screenToSpool read Q width height seed pp cs tp trace_writer canceled strip [] = Inr T"
  shows "screenToSpool read Q width height seed pp cs tp wl canceled strip w = fold_res (put_line wl) T w"
proof -
  let ?n = "length cs" and ?P = "promo_of Q pp"
  let ?k = "nat (screen_strip_rows width ?n strip)"
  have pos: "\<not> (width \<le> 0 \<or> height \<le> 0 \<or> cs = [])"
    using assms by (auto simp: screenToSpool_def)
  from assms obtain states where o': "fold_res (open_channel read seed cs) [0..<?n] [] = Inr states"
    unfolding screenToSpool_def by (auto simp: Let_def bind_res_eq_Inr split: if_splits)
  let ?loop = "\<lambda>wl. strip_loop (screen_strip wl ?P canceled tp ?n (nat width) (nat height)) ?k (nat height) 0"
  from assms obtain s1 T1 where l: "?loop trace_writer (states, []) = Inr (s1, T1)"
    and f: "fold_res (\<lambda>ch. drain_rows trace_writer ch (rows (s1 ! ch))) [0..<?n] T1 = Inr T"
    unfolding screenToSpool_def by (auto simp: o' Let_def bind_res_eq_Inr split: if_splits)
  have "replays wl (?loop trace_writer) (?loop wl)" by (intro replays_strips replays_strip)
  from replaysD [OF this l] obtain E where E: "T1 = [] @ E"
    "\<And>w. ?loop wl (states, w) = bind_res (fold_res (put_line wl) E w) (\<lambda>w. Inr (s1, w))" by metis
  have "screenToSpool read Q width height seed pp cs tp wl canceled strip w =
      bind_res (fold_res (put_line wl) E w) (\<lambda>w. fold_res (\<lambda>ch. drain_rows wl ch (rows (s1 ! ch))) [0..<?n] w)"
    using pos by (simp add: screenToSpool_def o' Let_def E(2) bind_res_assoc)
  also have "\<dots> = fold_res (put_line wl) T w"
    using f unfolding flush_trace flush_replay by (auto simp: E(1) fold_res_append)
  finally show ?thesis .
qed

section \<open>The traced run succeeds and emits the finished planes\<close>

definition mask_inv :: "magick_gray \<Rightarrow> mask_rows \<Rightarrow> bool" where
  "mask_inv im M \<longleftrightarrow>
     m_image M = im \<and> m_width M = img_columns im \<and> m_height M = img_rows im \<and>
     0 < img_columns im \<and> 0 < img_rows im \<and>
     (m_cachedRow M = -1 \<or>
      0 \<le> m_cachedRow M \<and>
      m_bytes M = export_gray_row im (nat (m_cachedRow M)) (nat (img_columns im)))"

lemma mask_row_cached:
  assumes "mask_inv im M" and "0 \<le> row"
  shows "\<exists>M'. mask_row row M =
      Inr (export_gray_row im (nat (row mod img_rows im)) (nat (img_columns im)), M') \<and> mask_inv im M'"
proof -
  have "\<not> row mod img_rows im < 0" using assms by (simp add: mask_inv_def not_less)
  then show ?thesis
    using assms by (auto simp: mask_inv_def mask_row_def Let_def)
qed

definition gray_image :: "gray_reader \<Rightarrow> screen_channel \<Rightarrow> magick_gray" where
  "gray_image read c = (case read (maskPath c) of Some im \<Rightarrow> im | None \<Rightarrow> \<lparr>img_columns = 0, img_rows = 0, img_gray = \<lambda>x y. 0\<rparr>)"

definition chan_rows ::
  "gray_reader \<Rightarrow> u32 \<Rightarrow> screen_channel list \<Rightarrow> bytes list \<Rightarrow> nat \<Rightarrow> nat \<Rightarrow> nat \<Rightarrow> screen_row list" where
  \<comment> \<open>the screened rows of channel \<open>ch\<close> computed from its complete tone plane\<close>
  "chan_rows read seed cs planes w h ch =
     (let c = cs ! ch; im = gray_image read c;
          off = mask_offset ch seed (img_columns im) (img_rows im)
      in map (\<lambda>y. screen_output_row c
           (export_gray_row im (nat ((int y + snd off) mod img_rows im)) (nat (img_columns im)))
           (img_columns im) (fst off) w y (planes ! ch) (y * w)) [0..<h])"

lemma chan_rows_ok: "rows_ok w h (chan_rows read seed cs planes w h ch)"
  by (simp add: rows_ok_def chan_rows_def Let_def screen_output_row_def)

definition emission_of :: "nat \<Rightarrow> screen_row \<Rightarrow> emission" where
  "emission_of ch r = (ch, row_y r, packRow (row_dots r) (length (row_dots r)))"

lemma push_trace:
  assumes "chan_step P w h prom (rs, em) out = (rs', em')"
  shows "\<exists>new. em' = em @ new \<and>
    push_row trace_writer P w h ch prom out rs T = Inr (rs', T @ map (emission_of ch) new)"
proof -
  have emit: "emitFrontRow trace_writer ch l T = Inr (tl l, T @ map (emission_of ch) [hd l])" if "l \<noteq> []" for l
    using that by (cases l) (simp_all add: emitFrontRow_def trace_writer_def emission_of_def)
  have "promoteCenterRow P w h (rs @ [out]) \<noteq> []" if "length (rs @ [out]) = 4"
    using set_center_keeps [OF that] that by (auto simp: promoteCenterRow_def Let_def) (metis list.size(3) zero_neq_numeral)
  then show ?thesis
    using assms unfolding chan_step_def push_row_def Let_def by (auto simp: emit split: if_splits)
qed

definition cells_inv ::
  "gray_reader \<Rightarrow> u32 \<Rightarrow> promo \<Rightarrow> screen_channel list \<Rightarrow> bytes list \<Rightarrow> nat \<Rightarrow> nat \<Rightarrow> nat \<Rightarrow> nat \<Rightarrow>
   emission list run_state \<Rightarrow> bool" where
  \<comment> \<open>rows below \<open>y\<close> are screened on every channel, row \<open>y\<close> on the channels below \<open>c\<close>\<close>
  "cells_inv read seed P cs planes w h y c st \<longleftrightarrow>
     (let (states, T) = st in
      length states = length cs \<and> (\<forall>e \<in> set T. fst e < length cs) \<and>
      (\<forall>ch < length cs.
         let s = states ! ch; im = gray_image read (cs ! ch);
             k = (if ch < c then Suc y else y) in
         config s = cs ! ch \<and> mask_inv im (mask_st s) \<and>
         (offsetX s, offsetY s) = mask_offset ch seed (img_columns im) (img_rows im) \<and>
         (\<exists>em. foldl (chan_step P w h (promotion (cs ! ch))) ([], [])
                 (take k (chan_rows read seed cs planes w h ch)) = (rows s, em) \<and>
               filter (\<lambda>e. fst e = ch) T = map (emission_of ch) em)))"

lemma cells_inv_chan:
  assumes "cells_inv read seed P cs planes w h y c (states, T)" and "ch < length cs"
  shows "config (states ! ch) = cs ! ch"
    and "mask_inv (gray_image read (cs ! ch)) (mask_st (states ! ch))"
    and "(offsetX (states ! ch), offsetY (states ! ch)) = mask_offset ch seed
       (img_columns (gray_image read (cs ! ch))) (img_rows (gray_image read (cs ! ch)))"
    and "\<exists>em. foldl (chan_step P w h (promotion (cs ! ch))) ([], [])
                 (take (if ch < c then Suc y else y) (chan_rows read seed cs planes w h ch)) =
               (rows (states ! ch), em) \<and> filter (\<lambda>e. fst e = ch) T = map (emission_of ch) em"
  using assms unfolding cells_inv_def Let_def by auto

lemma filter_emission_of:
  "filter (\<lambda>e. fst e = ch) (map (emission_of ch') es) = (if ch = ch' then map (emission_of ch') es else [])"
  by (auto simp: emission_of_def filter_empty_conv intro!: filter_True)

lemma screen_output_row_strip:
  assumes "length plane = w * h" and "first + rc \<le> h" and "l < rc"
  shows "screen_output_row c m mw ox w (first + l) (take (w * rc) (drop (first * w) plane)) (l * w) =
    screen_output_row c m mw ox w (first + l) plane ((first + l) * w)"
proof -
  have "take (w * rc) (drop (first * w) plane) ! (l * w + x) = plane ! ((first + l) * w + x)" if "x < w" for x
  proof -
    have "Suc l * w \<le> rc * w" using assms(3) by (intro mult_le_mono1) simp
    then have i: "l * w + x < w * rc" using that by (simp add: mult.commute)
    have "(first + rc) * w \<le> h * w" using assms(2) by (rule mult_le_mono1)
    then have "first * w + (l * w + x) < length plane"
      using i assms(1) by (simp add: algebra_simps)
    then show ?thesis using i by (simp add: algebra_simps)
  qed
  then show ?thesis by (simp add: screen_output_row_def cong: map_cong)
qed

lemma screen_cell_step:
  assumes I: "cells_inv read seed P cs planes w h y c (states, T)"
    and c: "c < length cs" and y: "y < h" "y = first + l" "l < rc" "first + rc \<le> h"
    and planes: "length (planes ! c) = w * h"
    and tones: "tones ! c = take (w * rc) (drop (first * w) (planes ! c))"
    and nc: "\<not> canceled (PollCell y c)"
  shows "\<exists>t. screen_cell trace_writer P canceled w h tones first l c (states, T) = Inr t \<and>
    cells_inv read seed P cs planes w h y (Suc c) t"
proof -
  note C = cells_inv_chan [OF I c]
  define s where "s = states ! c"
  define im where "im = gray_image read (cs ! c)"
  define outs where "outs = chan_rows read seed cs planes w h c"
  have off: "offsetX s = fst (mask_offset c seed (img_columns im) (img_rows im))"
    "offsetY s = snd (mask_offset c seed (img_columns im) (img_rows im))"
    using C(3) by (simp_all add: s_def im_def prod_eq_iff)
  have mi: "mask_inv im (mask_st s)" using C(2) by (simp add: s_def im_def)
  have "0 \<le> int y + offsetY s"
    using mi by (simp add: off mask_offset_def Let_def mask_inv_def)
  from mask_row_cached [OF mi this] obtain M where
    M: "mask_row (int y + offsetY s) (mask_st s) =
      Inr (export_gray_row im (nat ((int y + offsetY s) mod img_rows im)) (nat (img_columns im)), M)"
    and M': "mask_inv im M" by auto
  have mw: "m_width M = img_columns im" using M' by (simp add: mask_inv_def)
  have out: "screen_output_row (cs ! c)
      (export_gray_row im (nat ((int y + offsetY s) mod img_rows im)) (nat (img_columns im)))
      (img_columns im) (offsetX s) w y (tones ! c) (l * w) = outs ! y"
    using screen_output_row_strip [OF planes y(4,3)] y
    by (simp add: outs_def chan_rows_def Let_def tones off im_def)
  from C(4) obtain em where
    em: "foldl (chan_step P w h (promotion (cs ! c))) ([], []) (take y outs) = (rows s, em)"
    "filter (\<lambda>e. fst e = c) T = map (emission_of c) em"
    by (auto simp: s_def outs_def)
  obtain rs' em' where cst: "chan_step P w h (promotion (cs ! c)) (rows s, em) (outs ! y) = (rs', em')"
    by (metis surj_pair)
  from push_trace [OF cst, of c T] obtain new where new: "em' = em @ new"
    "push_row trace_writer P w h c (promotion (cs ! c)) (outs ! y) (rows s) T = Inr (rs', T @ map (emission_of c) new)"
    by blast
  have cfg: "config s = cs ! c" using C(1) by (simp add: s_def)
  have run: "screen_cell trace_writer P canceled w h tones first l c (states, T) =
      Inr (states[c := s\<lparr>mask_st := M, rows := rs'\<rparr>], T @ map (emission_of c) new)"
    using nc by (simp add: screen_cell_def Let_def s_def [symmetric] cfg M mw out new(2) y(2) [symmetric])
  have lo: "length outs = h" using chan_rows_ok by (auto simp: outs_def rows_ok_def)
  have tk: "take (Suc y) outs = take y outs @ [outs ! y]" using lo y(1) by (simp add: take_Suc_conv_app_nth)
  have "cells_inv read seed P cs planes w h y (Suc c)
      (states[c := s\<lparr>mask_st := M, rows := rs'\<rparr>], T @ map (emission_of c) new)"
    unfolding cells_inv_def Let_def prod.case
  proof (intro conjI allI impI)
    show "length (states[c := s\<lparr>mask_st := M, rows := rs'\<rparr>]) = length cs"
      using I by (simp add: cells_inv_def)
    show "\<forall>e \<in> set (T @ map (emission_of c) new). fst e < length cs"
      using I c by (auto simp: cells_inv_def emission_of_def)
    fix ch assume ch: "ch < length cs"
    let ?s' = "states[c := s\<lparr>mask_st := M, rows := rs'\<rparr>] ! ch"
    have ls: "length states = length cs" using I by (simp add: cells_inv_def)
    note D = cells_inv_chan [OF I ch]
    show "config ?s' = cs ! ch" using D(1) cfg ls ch by (cases "ch = c") simp_all
    show "mask_inv (gray_image read (cs ! ch)) (mask_st ?s')"
      using D(2) M' ls ch by (cases "ch = c") (simp_all add: im_def)
    show "(offsetX ?s', offsetY ?s') = mask_offset ch seed
        (img_columns (gray_image read (cs ! ch))) (img_rows (gray_image read (cs ! ch)))"
      using D(3) ls ch by (cases "ch = c") (simp_all add: s_def)
    show "\<exists>em. foldl (chan_step P w h (promotion (cs ! ch))) ([], [])
        (take (if ch < Suc c then Suc y else y) (chan_rows read seed cs planes w h ch)) = (rows ?s', em) \<and>
        filter (\<lambda>e. fst e = ch) (T @ map (emission_of c) new) = map (emission_of ch) em"
    proof (cases "ch = c")
      case True
      have "foldl (chan_step P w h (promotion (cs ! c))) ([], []) (take (Suc y) outs) = (rs', em')"
        by (simp add: tk em(1) cst)
      then show ?thesis
        using True ls ch em(2) new(1) by (simp add: outs_def filter_emission_of)
    next
      case False
      then have "(if ch < Suc c then Suc y else y) = (if ch < c then Suc y else y)" by auto
      then show ?thesis using D(4) False ls by (simp add: filter_emission_of)
    qed
  qed
  with run show ?thesis by blast
qed

lemma cells_inv_next:
  "cells_inv read seed P cs planes w h y (length cs) st \<longleftrightarrow> cells_inv read seed P cs planes w h (Suc y) 0 st"
  by (cases st) (simp add: cells_inv_def Let_def)

definition serves_planes :: "tone_provider \<Rightarrow> bytes list \<Rightarrow> nat \<Rightarrow> nat \<Rightarrow> bool" where
  \<comment> \<open>the provider hands out row ranges of fixed planes\<close>
  "serves_planes tp planes w h \<longleftrightarrow>
     (\<forall>first rc. 0 < rc \<longrightarrow> first + rc \<le> h \<longrightarrow>
        tp first rc = Some (map (\<lambda>p. take (w * rc) (drop (first * w) p)) planes))"

definition planes_ok :: "bytes list \<Rightarrow> nat \<Rightarrow> nat \<Rightarrow> nat \<Rightarrow> bool" where
  "planes_ok planes n w h \<longleftrightarrow> length planes = n \<and> (\<forall>p \<in> set planes. length p = w * h)"

definition masks_open :: "gray_reader \<Rightarrow> screen_channel list \<Rightarrow> bool" where
  "masks_open read cs \<longleftrightarrow>
     (\<forall>c \<in> set cs. case read (maskPath c) of None \<Rightarrow> False | Some im \<Rightarrow> 0 < img_columns im \<and> 0 < img_rows im)"

lemma screen_strip_step:
  assumes I: "cells_inv read seed P cs planes w h first 0 st"
    and rc: "0 < rc" "first + rc \<le> h" and pl: "planes_ok planes (length cs) w h"
    and tp: "serves_planes tp planes w h" and nc: "\<And>p. \<not> canceled p"
  shows "\<exists>t. screen_strip trace_writer P canceled tp (length cs) w h first rc st = Inr t \<and>
    cells_inv read seed P cs planes w h (first + rc) 0 t"
proof -
  define tones where "tones = map (\<lambda>p. take (w * rc) (drop (first * w) p)) planes"
  have tp': "tp first rc = Some tones" using tp rc by (simp add: serves_planes_def tones_def)
  have len: "length tone = w * rc" if tone: "tone \<in> set tones" for tone
  proof -
    have "(first + rc) * w \<le> h * w" using rc(2) by (rule mult_le_mono1)
    then have "w * rc \<le> w * h - first * w" by (simp add: algebra_simps)
    then show ?thesis using tone pl by (auto simp: tones_def planes_ok_def)
  qed
  have n: "length tones = length cs" using pl by (simp add: tones_def planes_ok_def)
  have row: "\<exists>t. fold_res (screen_cell trace_writer P canceled w h tones first l) [0..<length cs] st = Inr t \<and>
      cells_inv read seed P cs planes w h (first + Suc l) 0 t"
    if l: "l < rc" and st: "cells_inv read seed P cs planes w h (first + l) 0 st" for l st
  proof -
    have "\<exists>t. screen_cell trace_writer P canceled w h tones first l c st = Inr t \<and>
        cells_inv read seed P cs planes w h (first + l) (Suc c) t"
      if c: "c < length cs" and st: "cells_inv read seed P cs planes w h (first + l) c st" for c st
    proof (cases st)
      case (Pair states T)
      have "length (planes ! c) = w * h" using pl c by (auto simp: planes_ok_def)
      moreover have "tones ! c = take (w * rc) (drop (first * w) (planes ! c))"
        using pl c by (simp add: tones_def planes_ok_def)
      ultimately show ?thesis
        using screen_cell_step [OF st [unfolded Pair] c _ refl l rc(2)] l rc nc Pair by simp
    qed
    then have "\<exists>t. fold_res (screen_cell trace_writer P canceled w h tones first l) [0..<length cs] st = Inr t \<and>
        cells_inv read seed P cs planes w h (first + l) (length cs) t"
      by (intro fold_res_upt [where I = "cells_inv read seed P cs planes w h (first + l)"] st) auto
    then show ?thesis by (simp add: cells_inv_next)
  qed
  have "\<exists>t. fold_res (\<lambda>l. fold_res (screen_cell trace_writer P canceled w h tones first l) [0..<length cs]) [0..<rc] st = Inr t \<and>
      cells_inv read seed P cs planes w h (first + rc) 0 t"
    by (rule fold_res_upt [where I = "\<lambda>l. cells_inv read seed P cs planes w h (first + l) 0"])
      (use I row in auto)
  then show ?thesis using nc len by (auto simp: screen_strip_def tp' n)
qed

lemma strip_loop_steps:
  assumes "I first s" and "first \<le> h" and "0 < strip"
    and "\<And>first n s. I first s \<Longrightarrow> 0 < n \<Longrightarrow> first + n \<le> h \<Longrightarrow> \<exists>t. body first n s = Inr t \<and> I (first + n) t"
  shows "\<exists>t. strip_loop body strip h first s = Inr t \<and> I h t"
  using assms(1,2)
proof (induction "h - first" arbitrary: first s rule: less_induct)
  case less
  show ?case
  proof (cases "first < h")
    case True
    define n where "n = min strip (h - first)"
    have n: "0 < n" "first + n \<le> h" using True assms(3) by (auto simp: n_def)
    from assms(4) [OF less.prems(1) n] obtain t where t: "body first n s = Inr t" "I (first + n) t" by blast
    have eq: "strip_loop body strip h first s = strip_loop body strip h (first + strip) t"
      using True assms(3) t(1) by (simp add: strip_loop.simps [of _ strip h first] n_def)
    show ?thesis
    proof (cases "first + strip < h")
      case True
      then have "n = strip" by (simp add: n_def)
      then show ?thesis using less.hyps [of "first + strip" t] True t(2) assms(3) eq by auto
    next
      case False
      then have "strip_loop body strip h (first + strip) t = Inr t"
        by (simp add: strip_loop.simps [of _ strip h "first + strip"])
      moreover have "first + n = h" using False n by (simp add: n_def)
      ultimately show ?thesis using eq t(2) by simp
    qed
  next
    case False
    then have "first = h" using less.prems(2) by simp
    then show ?thesis using less.prems(1) strip_loop.simps [of body strip h h s] by simp
  qed
qed

lemma open_channels:
  assumes "masks_open read cs"
  shows "\<exists>states. fold_res (open_channel read seed cs) [0..<length cs] [] = Inr states \<and>
    cells_inv read seed P cs planes w h 0 0 (states, [])"
proof -
  let ?I = "\<lambda>n states. length states = n \<and> (\<forall>ch < n. let s = states ! ch; im = gray_image read (cs ! ch) in
     config s = cs ! ch \<and> mask_inv im (mask_st s) \<and>
     (offsetX s, offsetY s) = mask_offset ch seed (img_columns im) (img_rows im) \<and> rows s = [])"
  have "\<exists>t. open_channel read seed cs n states = Inr t \<and> ?I (Suc n) t"
    if n: "n < length cs" and I: "?I n states" for n states
  proof -
    have "cs ! n \<in> set cs" using n by simp
    then obtain im where im: "read (maskPath (cs ! n)) = Some im" "0 < img_columns im" "0 < img_rows im"
      using assms by (fastforce simp: masks_open_def split: option.splits)
    then have g: "gray_image read (cs ! n) = im" by (simp add: gray_image_def)
    define s where "s = \<lparr>config = cs ! n,
        mask_st = \<lparr>m_image = im, m_bytes = [], m_width = img_columns im, m_height = img_rows im, m_cachedRow = -1\<rparr>,
        offsetX = fst (mask_offset n seed (img_columns im) (img_rows im)),
        offsetY = snd (mask_offset n seed (img_columns im) (img_rows im)), rows = []\<rparr>"
    have o: "open_channel read seed cs n states = Inr (states @ [s])"
      using im by (simp add: open_channel_def mask_open_def Let_def s_def)
    have "?I (Suc n) (states @ [s])"
      using I im g by (auto simp: less_Suc_eq nth_append s_def mask_inv_def Let_def)
    then show ?thesis using o by blast
  qed
  then have "\<exists>t. fold_res (open_channel read seed cs) [0..<length cs] [] = Inr t \<and> ?I (length cs) t"
    by (intro fold_res_upt [where I = ?I]) auto
  then show ?thesis by (fastforce simp: cells_inv_def Let_def)
qed

definition stream_dots ::
  "gray_reader \<Rightarrow> u32 \<Rightarrow> promo \<Rightarrow> screen_channel list \<Rightarrow> bytes list \<Rightarrow> nat \<Rightarrow> nat \<Rightarrow> nat \<Rightarrow> plane" where
  \<comment> \<open>the finished dot plane of a channel: screened row by row, promoted over the whole plane\<close>
  "stream_dots read seed P cs planes w h ch =
     (let outs = chan_rows read seed cs planes w h ch in
      if promotion (cs ! ch) then apply4x4Promotion P (tone_plane outs) w h (map row_dots outs)
      else map row_dots outs)"

lemma promote_at_lines:
  "\<forall>l \<in> set dm. length l = w \<Longrightarrow> \<forall>l \<in> set (promote_at P tone w' h y dm x). length l = w"
proof -
  assume dm: "\<forall>l \<in> set dm. length l = w"
  have "\<forall>l \<in> set (dm[y := (dm ! y)[x := d]]). length l = w" for d
  proof (cases "y < length dm")
    case True
    then have "length (dm ! y) = w" using dm by simp
    then show ?thesis using dm set_update_subset_insert [of dm y "(dm ! y)[x := d]"] by auto
  qed (use dm in \<open>simp add: list_update_beyond\<close>)
  then show ?thesis using dm by (simp add: promote_at_def Let_def)
qed

lemma apply4x4Promotion_lines:
  assumes "\<forall>l \<in> set dm. length l = w"
  shows "\<forall>l \<in> set (apply4x4Promotion P tone w' h dm). length l = w"
  unfolding apply4x4Promotion_def
  by (intro foldl_inv [where P = "\<lambda>dm. \<forall>l \<in> set dm. length l = w"] assms promote_at_lines)

lemma length_apply4x4Promotion [raster_simps]: "length (apply4x4Promotion P tone w h dm) = length dm"
  using promoted_upto_frame [of P tone w h dm "h - 2"] by (simp add: apply4x4Promotion_def promoted_upto_def)

lemma stream_dots_shape:
  "length (stream_dots read seed P cs planes w h ch) = h"
  "y < h \<Longrightarrow> length (stream_dots read seed P cs planes w h ch ! y) = w"
proof -
  let ?o = "chan_rows read seed cs planes w h ch"
  have ok: "rows_ok w h ?o" by (rule chan_rows_ok)
  then have l: "\<forall>l \<in> set (map row_dots ?o). length l = w" by (auto simp: rows_ok_def in_set_conv_nth)
  show len: "length (stream_dots read seed P cs planes w h ch) = h"
    using ok by (simp add: stream_dots_def Let_def length_apply4x4Promotion rows_ok_def)
  have "\<forall>l \<in> set (stream_dots read seed P cs planes w h ch). length l = w"
    using l apply4x4Promotion_lines [OF l] by (simp add: stream_dots_def Let_def)
  then show "y < h \<Longrightarrow> length (stream_dots read seed P cs planes w h ch ! y) = w" using len by simp
qed

theorem screenToSpool_trace:
  assumes "0 < width" and "0 < height" and "cs \<noteq> []" and "masks_open read cs"
    and "planes_ok planes (length cs) (nat width) (nat height)"
    and "serves_planes tp planes (nat width) (nat height)" and "\<And>p. \<not> canceled p"
  shows "\<exists>T. screenToSpool read Q width height seed pp cs tp trace_writer canceled strip [] = Inr T \<and>
    (\<forall>e \<in> set T. fst e < length cs) \<and>
    (\<forall>ch < length cs. filter (\<lambda>e. fst e = ch) T =
       map (\<lambda>y. (ch, y, packRow (stream_dots read seed (promo_of Q pp) cs planes (nat width) (nat height) ch ! y)
         (nat width))) [0..<nat height])"
proof -
  let ?w = "nat width" and ?h = "nat height" and ?P = "promo_of Q pp" and ?n = "length cs"
  let ?k = "nat (screen_strip_rows width ?n strip)"
  have k: "0 < ?k" using screen_strip_rows_range [of width ?n strip] by simp
  from open_channels [OF assms(4)] obtain states where
    o: "fold_res (open_channel read seed cs) [0..<?n] [] = Inr states"
    and I0: "cells_inv read seed ?P cs planes ?w ?h 0 0 (states, [])" by blast
  have "\<exists>t. strip_loop (screen_strip trace_writer ?P canceled tp ?n ?w ?h) ?k ?h 0 (states, []) = Inr t \<and>
      cells_inv read seed ?P cs planes ?w ?h ?h 0 t"
    by (rule strip_loop_steps [where I = "\<lambda>y. cells_inv read seed ?P cs planes ?w ?h y 0"])
      (use I0 k screen_strip_step assms in auto)
  then obtain s1 T1 where
    l: "strip_loop (screen_strip trace_writer ?P canceled tp ?n ?w ?h) ?k ?h 0 (states, []) = Inr (s1, T1)"
    and I: "cells_inv read seed ?P cs planes ?w ?h ?h 0 (s1, T1)" by auto
  define F where "F = concat (map (\<lambda>ch. map (emission_of ch) (rows (s1 ! ch))) [0..<?n])"
  have run: "screenToSpool read Q width height seed pp cs tp trace_writer canceled strip [] = Inr (T1 @ F)"
    using assms(1-3) by (simp add: screenToSpool_def Let_def o l flush_trace F_def emission_of_def [abs_def])
  have "filter (\<lambda>e. fst e = ch) (T1 @ F) = map (\<lambda>y. (ch, y,
      packRow (stream_dots read seed ?P cs planes ?w ?h ch ! y) ?w)) [0..<?h]" if ch: "ch < ?n" for ch
  proof -
    let ?o = "chan_rows read seed cs planes ?w ?h ch" and ?p = "promotion (cs ! ch)"
    let ?D = "stream_dots read seed ?P cs planes ?w ?h ch"
    have ok: "rows_ok ?w ?h ?o" by (rule chan_rows_ok)
    then have "take ?h ?o = ?o" by (simp add: rows_ok_def)
    with cells_inv_chan(4) [OF I ch] obtain em where
      em: "foldl (chan_step ?P ?w ?h ?p) ([], []) ?o = (rows (s1 ! ch), em)"
      "filter (\<lambda>e. fst e = ch) T1 = map (emission_of ch) em" by auto
    have fin: "em @ rows (s1 ! ch) = finished_rows ?P ?w ?h ?p ?o" by (simp add: finished_rows_def em)
    have "filter (\<lambda>e. fst e = ch) (concat (map (\<lambda>ch. map (emission_of ch) (rows (s1 ! ch))) chs)) =
        (if ch \<in> set chs then map (emission_of ch) (rows (s1 ! ch)) else [])"
      if "distinct chs" for chs
      using that by (induction chs) (auto simp: filter_emission_of)
    then have "filter (\<lambda>e. fst e = ch) F = map (emission_of ch) (rows (s1 ! ch))"
      using ch by (simp add: F_def)
    then have "filter (\<lambda>e. fst e = ch) (T1 @ F) = map (emission_of ch) (finished_rows ?P ?w ?h ?p ?o)"
      using em(2) by (simp flip: fin)
    also have "\<dots> = map (\<lambda>y. (ch, y, packRow (?D ! y) ?w)) [0..<?h]"
    proof (rule nth_equalityI)
      show "length (map (emission_of ch) (finished_rows ?P ?w ?h ?p ?o)) =
          length (map (\<lambda>y. (ch, y, packRow (?D ! y) ?w)) [0..<?h])"
        using finished_rows_frame(1) [OF ok] by simp
      fix y assume "y < length (map (emission_of ch) (finished_rows ?P ?w ?h ?p ?o))"
      then have y: "y < ?h" using finished_rows_frame(1) [OF ok] by simp
      have "row_y (finished_rows ?P ?w ?h ?p ?o ! y) = y"
        "row_dots (finished_rows ?P ?w ?h ?p ?o ! y) = ?D ! y"
        using finished_rows_frame(2) [OF ok, of ?P ?p] y by (simp_all add: stream_dots_def Let_def)
      then show "map (emission_of ch) (finished_rows ?P ?w ?h ?p ?o) ! y =
          map (\<lambda>y. (ch, y, packRow (?D ! y) ?w)) [0..<?h] ! y"
        using y finished_rows_frame(1) [OF ok] stream_dots_shape(2) [OF y]
        by (simp add: emission_of_def)
    qed
    finally show ?thesis .
  qed
  moreover have "\<forall>e \<in> set (T1 @ F). fst e < ?n"
    using I by (auto simp: cells_inv_def F_def emission_of_def)
  ultimately show ?thesis using run by blast
qed

end
