(* ===== verification/Raster_Agreement.thy ===== *)
theory Raster_Agreement
  imports Strip_Equivalence
begin

text \<open>
  The two raster backends agree: for the same channel settings, the same masks and the same
  tone planes, the lines the streaming screener writes are the lines the in-memory screener
  returns, channel by channel and in row order.
\<close>

section \<open>The in-memory screener, channel by channel\<close>

definition loader_ok :: "mask_loader \<Rightarrow> 'v screen_request \<Rightarrow> bool" where
  \<comment> \<open>every mask loads, is not empty and has a name\<close>
  "loader_ok load req \<longleftrightarrow>
     (\<forall>c \<in> set (channels req). maskKey c \<noteq> [] \<and>
        (case load (maskKey c) of None \<Rightarrow> False | Some (raw, mw, mh) \<Rightarrow> 0 < mw \<and> 0 < mh))"

definition tones_ok :: "'v screen_request \<Rightarrow> bool" where
  "tones_ok req \<longleftrightarrow>
     (\<forall>c \<in> set (channels req). case toneBytes c of None \<Rightarrow> False
        | Some tone \<Rightarrow> length tone = nat (req_width req) * nat (req_height req))"

definition engine_lines :: "'v qvariant \<Rightarrow> mask_loader \<Rightarrow> 'v screen_request \<Rightarrow> nat \<Rightarrow> plane" where
  "engine_lines Q load req ch =
     (let c = channels req ! ch in
      packTo2Bpp (screen_dots Q req ch c (the (toneBytes c)) (the (load (maskKey c))))
        (nat (req_width req)) (nat (req_height req)))"

lemma screenChannels_result:
  assumes dims: "0 < req_width req" "0 < req_height req" "channels req \<noteq> []"
    and fits: "req_width req * req_height req \<le> int_max"
    and load: "loader_ok load req" and tones: "tones_ok req" and nc: "\<And>p. \<not> canceled p"
  shows "screenChannels Q load canceled req =
    Inr (map (engine_lines Q load req) [0..<length (channels req)])"
proof -
  let ?n = "length (channels req)"
  let ?I = "\<lambda>k st. let (cache, acc) = st in
     (fst cache = [] \<or> load (fst cache) = Some (snd cache)) \<and>
     acc = map (engine_lines Q load req) [0..<k] @ replicate (?n - k) []"
  have step: "\<exists>t. screen_channel_step Q load canceled req k st = Inr t \<and> ?I (Suc k) t"
    if k: "k < ?n" and I: "?I k st" for k st
  proof -
    obtain cache acc where st: "st = (cache, acc)" by (cases st)
    define c where "c = channels req ! k"
    have c: "c \<in> set (channels req)" using k by (simp add: c_def)
    obtain tone where tone: "toneBytes c = Some tone" "length tone = nat (req_width req) * nat (req_height req)"
      using tones c by (fastforce simp: tones_ok_def split: option.splits)
    obtain raw mw mh where m: "maskKey c \<noteq> []" "load (maskKey c) = Some (raw, mw, mh)" "0 < mw" "0 < mh"
      using load c by (fastforce simp: loader_ok_def split: option.splits)
    have f: "fetch_mask load (maskKey c) cache = Inr (maskKey c, raw, mw, mh)"
      using I m by (auto simp: fetch_mask_def st prod_eq_iff)
    have sz: "int (length tone) = req_width req * req_height req" using tone(2) dims by simp
    have e: "packTo2Bpp (screen_dots Q req k c tone (raw, mw, mh)) (nat (req_width req)) (nat (req_height req)) =
        engine_lines Q load req k"
      by (simp add: engine_lines_def c_def [symmetric] tone(1) m(2))
    have run: "screen_channel_step Q load canceled req k st =
        Inr ((maskKey c, raw, mw, mh), acc[k := engine_lines Q load req k])"
      using nc m sz unfolding screen_channel_step_def st
      by (simp add: Let_def c_def [symmetric] tone(1) f e)
    have "acc[k := engine_lines Q load req k] =
        map (engine_lines Q load req) [0..<Suc k] @ replicate (?n - Suc k) []"
    proof -
      have "replicate (?n - k) ([] :: plane) = [] # replicate (?n - Suc k) []"
        using k by (metis Suc_diff_Suc replicate_Suc)
      then show ?thesis using I k by (simp add: st list_update_append)
    qed
    then show ?thesis using run m(2) by simp
  qed
  have "\<exists>t. fold_res (screen_channel_step Q load canceled req) [0..<?n] (([], [], 0, 0), replicate ?n []) = Inr t \<and> ?I ?n t"
    by (rule fold_res_upt [where I = ?I]) (use step in auto)
  then obtain cache where "fold_res (screen_channel_step Q load canceled req) [0..<?n] (([], [], 0, 0), replicate ?n []) =
      Inr (cache, map (engine_lines Q load req) [0..<?n])" by auto
  moreover have "0 \<le> req_width req * req_height req" using dims by simp
  then have "fits_int (req_width req * req_height req)"
    using fits unfolding fits_int_def int_min_def by linarith
  ultimately show ?thesis using dims by (simp add: screenChannels_def Let_def)
qed

section \<open>The same dots\<close>

definition same_mask :: "mask_data \<Rightarrow> magick_gray \<Rightarrow> bool" where
  \<comment> \<open>the loader's buffer is the export of all rows of the image\<close>
  "same_mask m im \<longleftrightarrow>
     (case m of (raw, mw, mh) \<Rightarrow> 0 < mw \<and> 0 < mh \<and> img_columns im = mw \<and> img_rows im = mh \<and>
        raw = concat (map (\<lambda>y. export_gray_row im y (nat mw)) [0..<nat mh]))"

definition same_channel :: "'v qvariant \<Rightarrow> 'v screen_request \<Rightarrow> channel_request \<Rightarrow> screen_channel \<Rightarrow> bool" where
  \<comment> \<open>the streaming settings say what the request says\<close>
  "same_channel Q req c sc \<longleftrightarrow>
     clamp (minInk sc) 0 254 = channel_min_tone Q req c \<and>
     floorRange sc = (if is_k_like c then floorRangeK (dotStrategy req) else floorRangeCMY (dotStrategy req)) \<and>
     floorMax sc = (if is_k_like c then floorMaxK (dotStrategy req) else floorMaxCMY (dotStrategy req)) \<and>
     effectiveClass sc = useEffectiveTone c \<and>
     strategy_matches sc (channel_strategy req c)"

lemma sampleMask_row:
  assumes "same_mask m im" and off: "off = mask_offset ch seed (img_columns im) (img_rows im)"
  shows "sampleMask m off x y =
    export_gray_row im (nat ((int y + snd off) mod img_rows im)) (nat (img_columns im)) !
      nat (if int x + fst off \<ge> img_columns im then (int x + fst off) mod img_columns im else int x + fst off)"
proof -
  obtain raw mw mh where m: "m = (raw, mw, mh)" by (cases m) auto
  note s = assms(1) [unfolded same_mask_def m prod.case]
  define mx where "mx = (if int x + fst off \<ge> mw then (int x + fst off) mod mw else int x + fst off)"
  define my where "my = (if int y + snd off \<ge> mh then (int y + snd off) mod mh else int y + snd off)"
  have nn: "0 \<le> fst off" "0 \<le> snd off" using s by (simp_all add: off mask_offset_def Let_def)
  have mx: "0 \<le> mx" "mx < mw" using s nn by (auto simp: mx_def)
  have my: "0 \<le> my" "my < mh" "my = (int y + snd off) mod mh" using s nn by (auto simp: my_def)
  have "sampleMask m off x y = raw ! nat (my * mw + mx)"
    by (simp add: sampleMask_def m split_def Let_def mx_def my_def)
  also have "nat (my * mw + mx) = nat my * nat mw + nat mx"
    using mx my s by (simp add: nat_add_distrib nat_mult_distrib)
  also have "raw ! (nat my * nat mw + nat mx) =
      map (\<lambda>y. export_gray_row im y (nat mw)) [0..<nat mh] ! nat my ! nat mx"
  proof -
    have "raw = concat (map (\<lambda>y. export_gray_row im y (nat mw)) [0..<nat mh])" using s by simp
    then show ?thesis
      using mx my by (simp only:) (intro concat_nth_lines, auto simp: export_gray_row_def)
  qed
  also have "\<dots> = export_gray_row im (nat my) (nat mw) ! nat mx" using my by simp
  finally show ?thesis using s my(3) by (simp add: mx_def)
qed

lemma screen_dots_stream:
  assumes C: "same_channel Q req c (cs ! ch)" and M: "same_mask m (gray_image read (cs ! ch))"
    and w: "w = nat (req_width req)" and h: "h = nat (req_height req)"
  shows "screen_dots Q req ch c (planes ! ch) m =
    stream_dots read (screenSeed req) (promo_of Q (modeParams req)) cs planes w h ch"
proof -
  define sc where "sc = cs ! ch"
  define im where "im = gray_image read sc"
  define tone where "tone = planes ! ch"
  define off where "off = mask_offset ch (screenSeed req) (img_columns im) (img_rows im)"
  define outs where "outs = chan_rows read (screenSeed req) cs planes w h ch"
  define strat where "strat = channel_strategy req c"
  have dims: "fst (snd m) = img_columns im" "snd (snd m) = img_rows im"
    using M by (auto simp: same_mask_def im_def sc_def)
  define thr where "thr x y = sampleMask m off x y" for x y
  define g where "g x y = gate_pixel (clamp (minInk sc) 0 254) (floorRange sc) (floorMax sc)
      (effectiveClass sc) (tone ! (y * w + x)) (thr x y)" for x y
  define gated where "gated = concat (map (\<lambda>y. map (\<lambda>x. g x y) [0..<w]) [0..<h])"
  have gp: "gate_plane (sampleMask m off) (channel_min_tone Q req c)
      (if is_k_like c then floorRangeK (dotStrategy req) else floorRangeCMY (dotStrategy req))
      (if is_k_like c then floorMaxK (dotStrategy req) else floorMaxCMY (dotStrategy req))
      (useEffectiveTone c) w h tone = gated"
    using C by (simp add: gate_plane_def gated_def g_def thr_def same_channel_def sc_def)
  have gn: "gated ! (y * w + x) = g x y" if "x < w" "y < h" for x y
  proof -
    have "gated ! (y * w + x) = map (\<lambda>y. map (\<lambda>x. g x y) [0..<w]) [0..<h] ! y ! x"
      unfolding gated_def using that by (intro concat_nth_lines) auto
    then show ?thesis using that by simp
  qed
  have gl: "length gated = h * w"
    unfolding gated_def by (subst length_concat_lines [where n = w]) auto
  have idx: "y * w + x < length gated" if "x < w" "y < h" for x y
    unfolding gl by (rule less_mult_lines [OF that])
  have px: "screen_pixel sc x y (tone ! (y * w + x)) (thr x y) =
      (snd (snd (g x y)), classify_pixel strat x y (fst (g x y)) (fst (snd (g x y))) (snd (snd (g x y))))" for x y
    by (rule screen_pixel_eq [where s = strat and minT = "clamp (minInk sc) 0 254"])
      (use C in \<open>simp_all add: same_channel_def strat_def sc_def g_def\<close>)
  have outy: "outs ! y = \<lparr>row_y = y,
      row_tone = map (\<lambda>x. snd (snd (g x y))) [0..<w],
      row_dots = map (\<lambda>x. classify_pixel strat x y (fst (g x y)) (fst (snd (g x y))) (snd (snd (g x y)))) [0..<w]\<rparr>"
    if y: "y < h" for y
  proof -
    have "outs ! y = screen_output_row sc
        (export_gray_row im (nat ((int y + snd off) mod img_rows im)) (nat (img_columns im)))
        (img_columns im) (fst off) w y tone (y * w)"
      using y by (simp add: outs_def chan_rows_def Let_def sc_def im_def off_def tone_def)
    also have "\<dots> = \<lparr>row_y = y, row_tone = map (\<lambda>x. fst (screen_pixel sc x y (tone ! (y * w + x)) (thr x y))) [0..<w],
        row_dots = map (\<lambda>x. snd (screen_pixel sc x y (tone ! (y * w + x)) (thr x y))) [0..<w]\<rparr>"
      using sampleMask_row [OF M [folded sc_def im_def] off_def]
      by (simp add: screen_output_row_def Let_def thr_def comp_def)
    finally show ?thesis by (simp add: px)
  qed
  have lo: "length outs = h" by (simp add: outs_def chan_rows_def Let_def)
  have dots: "dotClassification (map fst gated) (map (fst \<circ> snd) gated) (map (snd \<circ> snd) gated) w h strat =
      map row_dots outs"
    by (rule nth_equalityI) (auto simp: dotClassification_def lo outy gn idx Let_def)
  have tp: "map (snd \<circ> snd) gated = tone_plane outs"
  proof -
    have "map row_tone outs = map (\<lambda>y. map (\<lambda>x. snd (snd (g x y))) [0..<w]) [0..<h]"
      by (rule nth_equalityI) (simp_all add: lo outy)
    then show ?thesis by (simp add: tone_plane_def gated_def map_concat comp_def)
  qed
  have pr: "promotion sc = enablePromotion strat"
    using C by (simp add: same_channel_def strategy_matches_def strat_def sc_def)
  show ?thesis
    unfolding screen_dots_def Let_def dims off_def [symmetric] w [symmetric] h [symmetric] tone_def [symmetric]
      gp strat_def [symmetric] tp dots [unfolded tp]
    by (simp add: stream_dots_def Let_def outs_def [symmetric] sc_def [symmetric] pr)
qed

section \<open>The same lines\<close>

definition same_job :: "'v qvariant \<Rightarrow> mask_loader \<Rightarrow> gray_reader \<Rightarrow> 'v screen_request \<Rightarrow>
    screen_channel list \<Rightarrow> bytes list \<Rightarrow> bool" where
  \<comment> \<open>one job put to both backends\<close>
  "same_job Q load read req cs planes \<longleftrightarrow>
     0 < req_width req \<and> 0 < req_height req \<and> channels req \<noteq> [] \<and>
     req_width req * req_height req \<le> int_max \<and>
     length cs = length (channels req) \<and>
     planes_ok planes (length cs) (nat (req_width req)) (nat (req_height req)) \<and>
     (\<forall>ch < length cs. let c = channels req ! ch in
        maskKey c \<noteq> [] \<and> toneBytes c = Some (planes ! ch) \<and> same_channel Q req c (cs ! ch) \<and>
        (case (load (maskKey c), read (maskPath (cs ! ch))) of
           (Some m, Some im) \<Rightarrow> same_mask m im | _ \<Rightarrow> False))"

theorem backends_write_the_same_lines:
  assumes J: "same_job Q load read req cs planes" and nc: "\<And>p. \<not> canceled p"
    and tp: "serves_planes tp planes (nat (req_width req)) (nat (req_height req))"
  shows "\<exists>T allPacked.
    screenToSpool read Q (req_width req) (req_height req) (screenSeed req) (modeParams req) cs tp
      trace_writer canceled strip [] = Inr T \<and>
    screenChannels Q load canceled req = Inr allPacked \<and>
    length allPacked = length cs \<and>
    (\<forall>e \<in> set T. fst e < length cs) \<and>
    (\<forall>ch < length cs. length (allPacked ! ch) = nat (req_height req) \<and>
       (\<forall>l \<in> set (allPacked ! ch). length l = packed_bytes (nat (req_width req))) \<and>
       filter (\<lambda>e. fst e = ch) T = map (\<lambda>y. (ch, y, allPacked ! ch ! y)) [0..<nat (req_height req)])"
proof -
  let ?w = "nat (req_width req)" and ?h = "nat (req_height req)"
  have len: "length cs = length (channels req)" using J by (simp add: same_job_def)
  have chan: "maskKey (channels req ! ch) \<noteq> [] \<and> toneBytes (channels req ! ch) = Some (planes ! ch) \<and>
      same_channel Q req (channels req ! ch) (cs ! ch) \<and>
      (\<exists>m im. load (maskKey (channels req ! ch)) = Some m \<and> read (maskPath (cs ! ch)) = Some im \<and> same_mask m im)"
    if "ch < length cs" for ch
  proof -
    have "let c = channels req ! ch in
        maskKey c \<noteq> [] \<and> toneBytes c = Some (planes ! ch) \<and> same_channel Q req c (cs ! ch) \<and>
        (case (load (maskKey c), read (maskPath (cs ! ch))) of
           (Some m, Some im) \<Rightarrow> same_mask m im | _ \<Rightarrow> False)"
      using J that by (simp add: same_job_def)
    then show ?thesis
      by (cases "load (maskKey (channels req ! ch))"; cases "read (maskPath (cs ! ch))") (simp_all add: Let_def)
  qed
  have pl: "planes_ok planes (length cs) ?w ?h" using J unfolding same_job_def by blast
  have load: "loader_ok load req"
    unfolding loader_ok_def
  proof
    fix c assume "c \<in> set (channels req)"
    then obtain ch where "ch < length cs" "channels req ! ch = c" using len by (metis in_set_conv_nth)
    with chan [of ch] show "maskKey c \<noteq> [] \<and> (case load (maskKey c) of None \<Rightarrow> False | Some (raw, mw, mh) \<Rightarrow> 0 < mw \<and> 0 < mh)"
      by (auto simp: same_mask_def)
  qed
  have tones: "tones_ok req"
    unfolding tones_ok_def
  proof
    fix c assume "c \<in> set (channels req)"
    then obtain ch where "ch < length cs" "channels req ! ch = c" using len by (metis in_set_conv_nth)
    with chan [of ch] pl show "case toneBytes c of None \<Rightarrow> False | Some tone \<Rightarrow> length tone = ?w * ?h"
      by (auto simp: planes_ok_def)
  qed
  have mo: "masks_open read cs"
    unfolding masks_open_def
  proof
    fix c assume "c \<in> set cs"
    then obtain ch where "ch < length cs" "cs ! ch = c" by (metis in_set_conv_nth)
    with chan [of ch] show "case read (maskPath c) of None \<Rightarrow> False | Some im \<Rightarrow> 0 < img_columns im \<and> 0 < img_rows im"
      by (auto simp: same_mask_def)
  qed
  have E: "screenChannels Q load canceled req = Inr (map (engine_lines Q load req) [0..<length cs])"
    using screenChannels_result [OF _ _ _ _ load tones nc] J len by (simp add: same_job_def)
  have line: "packRow (stream_dots read (screenSeed req) (promo_of Q (modeParams req)) cs planes ?w ?h ch ! y) ?w =
      engine_lines Q load req ch ! y" if ch: "ch < length cs" and y: "y < ?h" for ch y
  proof -
    obtain m im where m: "load (maskKey (channels req ! ch)) = Some m" "read (maskPath (cs ! ch)) = Some im" "same_mask m im"
      using chan [OF ch] by blast
    then have "same_mask m (gray_image read (cs ! ch))" by (simp add: gray_image_def)
    then have "screen_dots Q req ch (channels req ! ch) (planes ! ch) m =
        stream_dots read (screenSeed req) (promo_of Q (modeParams req)) cs planes ?w ?h ch"
      using chan [OF ch] by (intro screen_dots_stream) auto
    then show ?thesis using chan [OF ch] m y by (simp add: engine_lines_def Let_def packTo2Bpp_def packRow_packed pack_line_packed)
  qed
  have cs: "cs \<noteq> []" "0 < req_width req" "0 < req_height req" using J len by (auto simp: same_job_def)
  from screenToSpool_trace [where canceled = canceled and Q = Q and
      seed = "screenSeed req" and pp = "modeParams req" and strip = strip, OF cs(2,3,1) mo pl tp nc] obtain T where
    T: "screenToSpool read Q (req_width req) (req_height req) (screenSeed req) (modeParams req) cs tp
      trace_writer canceled strip [] = Inr T" "\<forall>e \<in> set T. fst e < length cs"
    "\<And>ch. ch < length cs \<Longrightarrow> filter (\<lambda>e. fst e = ch) T =
       map (\<lambda>y. (ch, y, packRow (stream_dots read (screenSeed req) (promo_of Q (modeParams req)) cs planes ?w ?h ch ! y) ?w)) [0..<?h]"
    by blast
  have "length (map (engine_lines Q load req) [0..<length cs] ! ch) = ?h \<and>
      (\<forall>l \<in> set (map (engine_lines Q load req) [0..<length cs] ! ch). length l = packed_bytes ?w) \<and>
      filter (\<lambda>e. fst e = ch) T = map (\<lambda>y. (ch, y, map (engine_lines Q load req) [0..<length cs] ! ch ! y)) [0..<?h]"
    if "ch < length cs" for ch
    using T(3) [OF that] line [OF that] that
    by (auto simp: engine_lines_def Let_def packTo2Bpp_def pack_line_packed)
  then show ?thesis
    using T(1,2) E by (intro exI [of _ T] exI [of _ "map (engine_lines Q load req) [0..<length cs]"]) simp
qed

end
