(* ===== verification/Raster_Delivery.thy ===== *)
theory Raster_Delivery
  imports Raster_Agreement Spool_Laws
begin

text \<open>
  The bounded path end to end: create a spool, stream the screened rows into it, finalize.
  On a disk that does not fail the file is the header followed by the planes the in-memory
  screener would have produced, and each of its lines reads back.
\<close>

definition spool_line_writer :: "'d disk \<Rightarrow> ('d \<times> writer) line_writer" where
  \<comment> \<open>\<open>PrintFlowRasterSpool::Writer\<close> as the writer of \<open>screenToSpool\<close>\<close>
  "spool_line_writer D ch y data st =
     (case writer_writeLine D (int ch) (int y) data st of Inl _ \<Rightarrow> Inl WriterFailed | Inr st \<Rightarrow> Inr st)"

lemma spool_line_writer_fold:
  "fold_res (spool_put D) T st = Inr st' \<Longrightarrow> fold_res (put_line (spool_line_writer D)) T st = Inr st'"
proof (induction T arbitrary: st)
  case (Cons e T)
  then obtain s1 where "spool_put D e st = Inr s1" "fold_res (spool_put D) T s1 = Inr st'"
    by (auto simp: bind_res_eq_Inr)
  moreover from this(1) have "put_line (spool_line_writer D) e st = Inr s1"
    by (simp add: put_line_def spool_line_writer_def spool_put_def split: prod.splits)
  ultimately show ?case using Cons.IH by simp
qed simp

definition spool_for :: "'v screen_request \<Rightarrow> spool \<Rightarrow> bool" where
  \<comment> \<open>the metadata describe the request\<close>
  "spool_for req md \<longleftrightarrow>
     sp_width md = req_width req \<and> sp_height md = req_height req \<and>
     sp_logical md = int (length (channels req)) \<and> spool_typed md \<and>
     metadataIsValid (md\<lparr>sp_bodyOffset := HeaderBytes, sp_bodyBytes := expectedBodyBytes md, sp_sha256 := []\<rparr>) = Inr ()"

definition spool_meta :: "spool \<Rightarrow> spool" where
  \<comment> \<open>the metadata the writer puts into the header\<close>
  "spool_meta md = md\<lparr>sp_bodyOffset := HeaderBytes, sp_bodyBytes := expectedBodyBytes md, sp_sha256 := []\<rparr>"

definition partial_path :: "string \<Rightarrow> string \<Rightarrow> string" where
  "partial_path dir token = filePath dir (''printflow-'' @ token @ ''.pfrs.partial'')"

definition final_path :: "string \<Rightarrow> string \<Rightarrow> string" where
  "final_path dir token = filePath dir (''printflow-'' @ token @ ''.pfrs'')"

definition spool_shape :: "spool \<Rightarrow> plane list \<Rightarrow> bool" where
  \<comment> \<open>packed planes that fit the metadata\<close>
  "spool_shape md planes \<longleftrightarrow>
     metadataIsValid (spool_meta md) = Inr () \<and> spool_typed md \<and> length planes = nat (sp_logical md) \<and>
     (\<forall>p \<in> set planes. length p = nat (sp_height md) \<and> (\<forall>l \<in> set p. length l = nat (sp_lineBytes md)))"

definition emits_all :: "emission list \<Rightarrow> plane list \<Rightarrow> nat \<Rightarrow> bool" where
  \<comment> \<open>every line of every channel is emitted, and nothing else\<close>
  "emits_all T planes h \<longleftrightarrow>
     (\<forall>e \<in> set T. \<exists>ch y. ch < length planes \<and> y < h \<and> e = (ch, y, planes ! ch ! y)) \<and>
     (\<forall>ch < length planes. \<forall>y < h. (ch, y, planes ! ch ! y) \<in> set T)"

context reliable_store
begin

lemma deliver_lines:
  assumes shape: "spool_shape md planes" and T: "emits_all T planes (nat (sp_height md))"
    and nc: "\<And>k. \<not> hashCanceled k" and sha: "\<And>x. length (sha x) = 32"
    and free: "contents (fst st) (final_path dir token) = None"
  shows "\<exists>W1 d1 d2 W2 d3 W3. writer_create D S token dir md st = Inr (d1, W1) \<and>
    fold_res (spool_put D) T (d1, W1) = Inr (d2, W2) \<and>
    (\<exists>sp. writer_finalize D S sha hashCanceled (d2, W2) = Inr (sp, d3, W3) \<and>
      sp_sha256 sp = sha (encodeHeader S (spool_meta md) [] @ concat (concat planes)) \<and>
      sp = (spool_meta md)\<lparr>sp_path := final_path dir token, sp_sha256 := sp_sha256 sp\<rparr> \<and>
      contents d3 (final_path dir token) = Some (encodeHeader S (spool_meta md) (sp_sha256 sp) @ concat (concat planes))) \<and>
    w_meta W1 = spool_meta md \<and> w_finalized W3 \<and> contents d3 (partial_path dir token) = None \<and>
    (\<forall>q. q \<noteq> partial_path dir token \<longrightarrow> (w_partial (snd st) = [] \<or> q \<noteq> w_partial (snd st)) \<longrightarrow> contents d1 q = contents (fst st) q) \<and>
    (\<forall>q. q \<noteq> partial_path dir token \<longrightarrow> q \<noteq> final_path dir token \<longrightarrow> (w_partial (snd st) = [] \<or> q \<noteq> w_partial (snd st)) \<longrightarrow>
      contents d3 q = contents (fst st) q)"
proof -
  define m where "m = spool_meta md"
  let ?h = "nat (sp_height md)" and ?n = "length planes"
  have v: "metadataIsValid m = Inr ()" and t: "spool_typed md" and n: "?n = nat (sp_logical md)"
    and len: "\<forall>p \<in> set planes. length p = ?h \<and> (\<forall>l \<in> set p. length l = nat (sp_lineBytes md))"
    using shape by (simp_all add: spool_shape_def m_def)
  have same: "sp_width m = sp_width md" "sp_height m = sp_height md" "sp_logical m = sp_logical md"
    "sp_lineBytes m = sp_lineBytes md" by (simp_all add: m_def spool_meta_def)
  note F = valid_fields [OF v]
  have pos: "0 < sp_height md" "0 < sp_logical md" "0 < sp_lineBytes md" using F(2,5,6) by (simp_all add: same)
  have cnt: "line_count m = ?n * ?h" using pos by (simp add: line_count_def same nat_mult_distrib n)
  have idx: "put_index m (ch, y, x) = ch * ?h + y" for ch y x
  proof -
    have "int ch * sp_height md + int y = int (ch * ?h + y)" using pos by simp
    then show ?thesis by (simp only: put_index_def line_index_def same fst_conv snd_conv nat_int)
  qed
  from create_ok [OF v [unfolded m_def spool_meta_def] t, of token dir st] obtain d1 W1 where
    c: "writer_create D S token dir md st = Inr (d1, W1)" "w_final W1 = final_path dir token"
    "\<forall>q. contents (fst st) q = None \<longrightarrow> q \<noteq> w_partial W1 \<longrightarrow> contents d1 q = None"
    "w_partial W1 = partial_path dir token"
    "\<forall>q. q \<noteq> w_partial W1 \<longrightarrow> (w_partial (snd st) = [] \<or> q \<noteq> w_partial (snd st)) \<longrightarrow> contents d1 q = contents (fst st) q"
    by (auto simp: partial_path_def final_path_def)
  from create_writing [OF c(1) t] obtain b1 where b1: "writing contents d1 W1 b1"
    and l1: "w_lines W1 = replicate (line_count (w_meta W1)) False" and m1: "w_meta W1 = m"
    unfolding m_def spool_meta_def by blast
  have ch_line: "int (length (planes ! ch ! y)) = sp_lineBytes md" if "ch < ?n" "y < ?h" for ch y
  proof -
    have "planes ! ch \<in> set planes" using that by simp
    then have "planes ! ch ! y \<in> set (planes ! ch)" using len that(2) by simp
    then show ?thesis using len \<open>planes ! ch \<in> set planes\<close> pos by simp
  qed
  have elem: "\<exists>ch y. ch < ?n \<and> y < ?h \<and> e = (ch, y, planes ! ch ! y)" if "e \<in> set T" for e
    using T that by (simp add: emits_all_def)
  have fits: "int (fst e) < sp_logical (w_meta W1) \<and> int (fst (snd e)) < sp_height (w_meta W1) \<and>
      int (length (snd (snd e))) = sp_lineBytes (w_meta W1)" if "e \<in> set T" for e
    using elem [OF that] ch_line n by (auto simp: m1 same)
  from write_lines_ok [OF b1 fits] obtain d2 W2 where w: "fold_res (spool_put D) T (d1, W1) = Inr (d2, W2)"
    "\<forall>q. q \<noteq> w_partial W1 \<longrightarrow> contents d2 q = contents d1 q"
    "\<forall>k < line_count m. w_lines W2 ! k = (w_lines W1 ! k \<or> k \<in> put_index m ` set T)"
    unfolding m1 by blast
  have hl: "\<forall>p \<in> set planes. length p = ?h" using len by blast
  define L where "L k = concat planes ! k" for k
  have L: "snd (snd e) = L (put_index (w_meta W1) e)" if "e \<in> set T" for e
    using elem [OF that] concat_nth_lines [OF hl] by (auto simp: m1 idx L_def)
  have "written (w_meta W1) W1 b1 L" by (simp add: written_def l1)
  from write_lines [OF w(1) b1 this L] obtain b2 where
    b2: "writing contents d2 W2 b2" "written m W2 b2 L" "w_meta W2 = m" "w_final W2 = w_final W1"
    "w_partial W2 = w_partial W1" by (auto simp: m1)
  have all: "\<forall>k < line_count (w_meta W2). w_lines W2 ! k"
  proof (intro allI impI)
    fix k assume "k < line_count (w_meta W2)"
    then have k: "k < ?n * ?h" by (simp add: b2(3) cnt)
    have "k div ?h < ?n" "k mod ?h < ?h" using k pos by (simp_all add: less_mult_imp_div_less)
    then have "(k div ?h, k mod ?h, planes ! (k div ?h) ! (k mod ?h)) \<in> set T"
      using T by (simp add: emits_all_def)
    then have "put_index m (k div ?h, k mod ?h, planes ! (k div ?h) ! (k mod ?h)) \<in> put_index m ` set T" by simp
    then have "k \<in> put_index m ` set T" by (simp add: idx)
    then show "w_lines W2 ! k" using w(3) k by (simp add: cnt)
  qed
  have "contents d2 (w_final W2) = None"
    using c(2,3) free w(2) b1 b2(4) by (simp add: writing_def)
  from finalize_ok [where sha = sha and canceled = hashCanceled, OF b2(1) all sha nc this] obtain sp d3 W3 where
    f: "writer_finalize D S sha hashCanceled (d2, W2) = Inr (sp, d3, W3)" by blast
  note G = finalize_complete [OF b2(1) f] finalize_others [OF b2(1) f]
  have "drop 4096 b2 = concat (map (file_line m b2) [0..<line_count m])"
    using b2(1,3) by (intro spool_body_lines) (simp add: writing_def)
  also have "map (file_line m b2) [0..<line_count m] = map L [0..<line_count m]"
    using b2(2,3) all by (simp add: written_def)
  also have "\<dots> = concat planes"
  proof -
    have "length (concat planes) = line_count m" using length_concat_lines [OF hl] by (simp add: cnt)
    then show ?thesis unfolding L_def by (metis map_nth)
  qed
  finally have body: "drop 4096 b2 = concat (concat planes)" .
  have sp: "sp = m\<lparr>sp_path := final_path dir token, sp_sha256 := sp_sha256 sp\<rparr>"
    using G(4) by (simp add: b2(3,4) c(2))
  have "sp_sha256 sp = sha (encodeHeader S m [] @ concat (concat planes))"
    "contents d3 (final_path dir token) = Some (encodeHeader S m (sp_sha256 sp) @ concat (concat planes))"
    using G(2,3) by (simp_all add: body b2(3,4) c(2))
  moreover have "contents d3 (partial_path dir token) = None" using G(6) by (simp add: b2(5) c(4))
  moreover have "contents d3 q = contents (fst st) q"
    if "q \<noteq> partial_path dir token" "q \<noteq> final_path dir token" "w_partial (snd st) = [] \<or> q \<noteq> w_partial (snd st)" for q
    using G(7) [of q] w(2) c(5) that by (simp add: b2(4,5) c(2,4))
  ultimately show ?thesis
    using c(1) w(1) f sp G(5) m1 c(5) unfolding m_def [symmetric] c(4) by blast
qed

lemma stream_shape:
  assumes J: "same_job Q load read req cs planes" and md: "spool_for req md"
    and P: "length allPacked = length cs"
    and lines: "\<And>ch. ch < length cs \<Longrightarrow> length (allPacked ! ch) = nat (req_height req) \<and>
       (\<forall>l \<in> set (allPacked ! ch). length l = packed_bytes (nat (req_width req)))"
  shows "spool_shape md allPacked"
proof -
  have pos: "0 < req_width req" "0 < req_height req" and n: "length cs = length (channels req)"
    using J unfolding same_job_def by blast+
  have v: "metadataIsValid (spool_meta md) = Inr ()" and t: "spool_typed md" using md by (simp_all add: spool_for_def spool_meta_def)
  have mt: "spool_typed (spool_meta md)" using t by (simp add: spool_meta_def spool_typed_def)
  have "sp_lineBytes (spool_meta md) = int (packed_bytes (nat (req_width req)))"
    using valid_layout(1) [OF v mt] line_bytes_packed [of "nat (req_width req)"] pos md
    by (simp add: spool_for_def spool_meta_def)
  then have "sp_lineBytes md = int (packed_bytes (nat (req_width req)))" by (simp add: spool_meta_def)
  moreover have "\<forall>p \<in> set allPacked. length p = nat (req_height req) \<and> (\<forall>l \<in> set p. length l = packed_bytes (nat (req_width req)))"
    using lines P by (metis in_set_conv_nth)
  ultimately show ?thesis using v t md P n by (simp add: spool_shape_def spool_for_def)
qed

lemma stream_delivers:
  assumes J: "same_job Q load read req cs planes" and nc: "\<And>p. \<not> canceled p" "\<And>k. \<not> hashCanceled k"
    and tp: "serves_planes tp planes (nat (req_width req)) (nat (req_height req))"
    and md: "spool_for req md" and sha: "\<And>x. length (sha x) = 32"
    and free: "contents (fst st) (final_path dir token) = None"
  shows "\<exists>W1 d1 st2 sp d3 W3 allPacked.
    writer_create D S token dir md st = Inr (d1, W1) \<and>
    screenToSpool read Q (req_width req) (req_height req) (screenSeed req) (modeParams req) cs tp
      (spool_line_writer D) canceled strip (d1, W1) = Inr st2 \<and>
    writer_finalize D S sha hashCanceled st2 = Inr (sp, d3, W3) \<and>
    screenChannels Q load canceled req = Inr allPacked \<and> spool_shape md allPacked \<and>
    sp = (spool_meta md)\<lparr>sp_path := final_path dir token, sp_sha256 := sp_sha256 sp\<rparr> \<and>
    contents d3 (final_path dir token) = Some (encodeHeader S (spool_meta md) (sp_sha256 sp) @ concat (concat allPacked)) \<and>
    sp_sha256 sp = sha (encodeHeader S (spool_meta md) [] @ concat (concat allPacked)) \<and>
    w_finalized W3 \<and> contents d3 (partial_path dir token) = None \<and>
    (\<forall>q. q \<noteq> partial_path dir token \<longrightarrow> (w_partial (snd st) = [] \<or> q \<noteq> w_partial (snd st)) \<longrightarrow> contents d1 q = contents (fst st) q) \<and>
    (\<forall>q. q \<noteq> partial_path dir token \<longrightarrow> q \<noteq> final_path dir token \<longrightarrow> (w_partial (snd st) = [] \<or> q \<noteq> w_partial (snd st)) \<longrightarrow>
      contents d3 q = contents (fst st) q)"
proof -
  let ?w = "nat (req_width req)" and ?h = "nat (req_height req)" and ?n = "length cs"
  from backends_write_the_same_lines [where strip = strip and canceled = canceled, OF J nc(1) tp] obtain T allPacked where
    T: "screenToSpool read Q (req_width req) (req_height req) (screenSeed req) (modeParams req) cs tp
      trace_writer canceled strip [] = Inr T" "\<forall>e \<in> set T. fst e < ?n"
    and P: "screenChannels Q load canceled req = Inr allPacked" "length allPacked = ?n"
    and lines: "\<And>ch. ch < ?n \<Longrightarrow> length (allPacked ! ch) = ?h \<and>
       (\<forall>l \<in> set (allPacked ! ch). length l = packed_bytes ?w) \<and>
       filter (\<lambda>e. fst e = ch) T = map (\<lambda>y. (ch, y, allPacked ! ch ! y)) [0..<?h]"
    by blast
  have shape: "spool_shape md allPacked" using lines by (intro stream_shape [OF J md P(2)]) blast
  have h: "sp_height md = req_height req" using md by (simp add: spool_for_def)
  have elem: "\<exists>ch y. ch < ?n \<and> y < ?h \<and> e = (ch, y, allPacked ! ch ! y)" if "e \<in> set T" for e
  proof -
    have "fst e < ?n" using T(2) that by blast
    have "e \<in> set (filter (\<lambda>e'. fst e' = fst e) T)" using that by simp
    then have "e \<in> set (map (\<lambda>y. (fst e, y, allPacked ! fst e ! y)) [0..<?h])"
      using lines [OF \<open>fst e < ?n\<close>] by simp
    then obtain y where "y < ?h" "e = (fst e, y, allPacked ! fst e ! y)" by auto
    with \<open>fst e < ?n\<close> show ?thesis by blast
  qed
  have every: "(ch, y, allPacked ! ch ! y) \<in> set T" if "ch < ?n" "y < ?h" for ch y
  proof -
    have "(ch, y, allPacked ! ch ! y) \<in> set (filter (\<lambda>e. fst e = ch) T)" using lines [OF that(1)] that(2) by auto
    then show ?thesis by simp
  qed
  have "emits_all T allPacked (nat (sp_height md))"
    unfolding emits_all_def h P(2) using elem every by blast
  from deliver_lines [where hashCanceled = hashCanceled and sha = sha, OF shape this nc(2) sha free] obtain W1 d1 d2 W2 d3 W3 sp where
    R: "writer_create D S token dir md st = Inr (d1, W1)" "fold_res (spool_put D) T (d1, W1) = Inr (d2, W2)"
    "writer_finalize D S sha hashCanceled (d2, W2) = Inr (sp, d3, W3)"
    "sp = (spool_meta md)\<lparr>sp_path := final_path dir token, sp_sha256 := sp_sha256 sp\<rparr>"
    "contents d3 (final_path dir token) = Some (encodeHeader S (spool_meta md) (sp_sha256 sp) @ concat (concat allPacked))"
    "sp_sha256 sp = sha (encodeHeader S (spool_meta md) [] @ concat (concat allPacked))"
    "w_finalized W3" "contents d3 (partial_path dir token) = None"
    "\<forall>q. q \<noteq> partial_path dir token \<longrightarrow> (w_partial (snd st) = [] \<or> q \<noteq> w_partial (snd st)) \<longrightarrow> contents d1 q = contents (fst st) q"
    "\<forall>q. q \<noteq> partial_path dir token \<longrightarrow> q \<noteq> final_path dir token \<longrightarrow> (w_partial (snd st) = [] \<or> q \<noteq> w_partial (snd st)) \<longrightarrow>
      contents d3 q = contents (fst st) q"
    by blast
  have run: "screenToSpool read Q (req_width req) (req_height req) (screenSeed req) (modeParams req) cs tp
      (spool_line_writer D) canceled strip (d1, W1) = Inr (d2, W2)"
    by (rule trans [OF screenToSpool_replay [OF T(1)] spool_line_writer_fold [OF R(2)]])
  show ?thesis using R(1,3-) run P(1) shape by blast
qed

end

end
