(* ===== verification/Prn_Delivery.thy ===== *)
theory Prn_Delivery
  imports Prn_Laws Raster_Delivery
begin

text \<open>
  On a disk that does not fail, a finalized spool opens, verifies and reads back, and both
  spool exporters succeed: the PRN file is the header followed by the line-interleaved planes.
\<close>

context reliable_store
begin

lemma spool_at_parts:
  assumes "spool_at contents S d path m checksum planes"
  shows "metadataIsValid m = Inr ()" "spool_typed m" "length checksum \<le> 32"
    "spool_file m (encodeHeader S m checksum @ concat (concat planes))"
    "contents d path = Some (encodeHeader S m checksum @ concat (concat planes))"
    "length (encodeHeader S m checksum) = 4096" "length (concat (concat planes)) = body_size m"
proof -
  show v: "metadataIsValid m = Inr ()" "spool_typed m" "length checksum \<le> 32"
    and f: "spool_file m (encodeHeader S m checksum @ concat (concat planes))"
    and "contents d path = Some (encodeHeader S m checksum @ concat (concat planes))"
    using assms by (simp_all add: spool_at_def spool_file_def)
  show h: "length (encodeHeader S m checksum) = 4096"
    using v valid_fields(9) [OF v(1)] by (intro encodeHeader_size) (auto simp: spool_typed_def)
  show "length (concat (concat planes)) = body_size m" using f h by (simp add: spool_file_def)
qed

lemma readAt_exact:
  assumes "contents d path = Some b"
  shows "readAt D path off n d = Some (take n (drop off b))"
proof -
  obtain x where "readAt D path off n d = Some x" using readAt_ok assms by (metis option.exhaust option.simps(3))
  then show ?thesis using readAt_law [OF _ assms] by simp
qed

lemma fileSize_exact: "contents d path = Some b \<Longrightarrow> fileSize D path d = length b"
  by (rule fileSize_law)

lemma fileExists_some: "contents d path = Some b \<Longrightarrow> fileExists D path d"
  by (simp add: fileExists_law)

lemma readMetadata_ok:
  assumes A: "spool_at contents S d path m checksum planes"
  shows "readMetadata D S path d = Inr (with_disk_fields m path checksum)"
proof -
  note P = spool_at_parts [OF A]
  obtain x where x: "readAt D path 0 4096 d = Some x" using readAt_ok [of d path] P(5) by auto
  have xe: "x = encodeHeader S m checksum" using readAt_law [OF x P(5)] P(6) by simp
  have "unat (sp_bodyBytes m) = body_size m"
    using P(1,2,4) valid_layout(3) by (simp add: spool_file_def)
  from this [symmetric] have bb: "of_nat (body_size m) = sp_bodyBytes m" by simp
  have "fileSize D path d = 4096 + body_size m" using fileSize_law [OF P(5)] P(6,7) by simp
  then have "of_nat (fileSize D path d) = HeaderBytes + sp_bodyBytes m" by (simp add: bb HeaderBytes_def)
  then show ?thesis
    using x decode_encode [OF P(1-3), of path] by (simp add: readMetadata_def HeaderBytes_def xe with_disk_fields_def)
qed

lemma spoolChecksum_ok:
  assumes A: "spool_at contents S d path m checksum planes" and nc: "\<And>k. \<not> canceled k"
  shows "spoolChecksum D S sha canceled path (with_disk_fields m path checksum) d =
    Inr (sha (encodeHeader S m [] @ concat (concat planes)))"
proof -
  note P = spool_at_parts [OF A]
  have e: "encodeHeader S (with_disk_fields m path checksum) [] = encodeHeader S m []"
    by (simp add: encodeHeader_def with_disk_fields_def)
  have h: "length (encodeHeader S m []) = 4096"
    using P(2) valid_fields(9) [OF P(1)] by (intro encodeHeader_size) (auto simp: spool_typed_def)
  have n: "unat (sp_bodyBytes m) = body_size m"
    using P(1,2,4) valid_layout(3) by (simp add: spool_file_def)
  have l: "4096 + body_size m \<le> length (encodeHeader S m checksum @ concat (concat planes))" using P(6,7) by simp
  obtain r where r: "read_chunks D canceled path d 4096 (body_size m) (encodeHeader S m []) = Inr r"
    using read_chunks_ok [where canceled = canceled, OF P(5) l nc] by blast
  have "r = encodeHeader S m [] @ concat (concat planes)"
    using read_chunks_contents [OF r P(5) l] P(6,7) by simp
  moreover have "sp_bodyBytes (with_disk_fields m path checksum) = sp_bodyBytes m" by (simp add: with_disk_fields_def)
  ultimately show ?thesis using r n h by (simp add: spoolChecksum_def Let_def e HeaderBytes_def)
qed

lemma verify_ok:
  assumes A: "spool_at contents S d path m checksum planes" and nc: "\<And>k. \<not> canceled k"
    and c: "checksum = sha (encodeHeader S m [] @ concat (concat planes))" "length checksum = 32"
  shows "spool_verify D S sha canceled (with_disk_fields m path checksum) d = Inr ()"
proof -
  have f: "sp_path (with_disk_fields m path q) = path" "sp_sha256 (with_disk_fields m path q) = q" for q
    by (simp_all add: with_disk_fields_def)
  show ?thesis
    using readMetadata_ok [OF A] spoolChecksum_ok [where canceled = canceled and sha = sha, OF A nc] c
    by (simp add: spool_verify_def f)
qed

lemma reader_open_ok:
  assumes A: "spool_at contents S d path m checksum planes" and nc: "\<And>k. \<not> canceled k"
    and c: "checksum = sha (encodeHeader S m [] @ concat (concat planes))" "length checksum = 32"
  shows "reader_open D S sha canceled path True d = Inr \<lparr>r_path = path, r_meta = with_disk_fields m path checksum\<rparr>"
proof -
  have "sp_path (with_disk_fields m path checksum) = path" "sp_sha256 (with_disk_fields m path checksum) = checksum"
    by (simp_all add: with_disk_fields_def)
  moreover have "fileExists D path d" using fileExists_law spool_at_parts(5) [OF A] by simp
  ultimately show ?thesis
    using readMetadata_ok [OF A] spoolChecksum_ok [where canceled = canceled, OF A nc] c
    by (simp add: reader_open_def spool_verify_def)
qed

lemma tampered_spool_rejected:
  assumes A: "spool_at contents S d path m checksum planes" and nc: "\<And>k. \<not> canceled k"
    and c: "checksum \<noteq> sha (encodeHeader S m [] @ concat (concat planes))" and l: "\<And>x. length (sha x) = 32"
  shows "reader_open D S sha canceled path True d = Inl ChecksumMismatch"
proof -
  have "sp_path (with_disk_fields m path checksum) = path" "sp_sha256 (with_disk_fields m path checksum) = checksum"
    by (simp_all add: with_disk_fields_def)
  then show ?thesis
    using readMetadata_ok [OF A] spoolChecksum_ok [where canceled = canceled, OF A nc] c l
    by (auto simp: reader_open_def spool_verify_def)
qed

lemma readLine_ok:
  assumes A: "spool_at contents S d path m checksum planes"
    and r: "0 \<le> ch" "ch < sp_logical m" "0 \<le> row" "row < sp_height m"
  shows "reader_readLine D \<lparr>r_path = path, r_meta = with_disk_fields m path checksum\<rparr> ch row d =
    Inr (planes ! nat ch ! nat row)"
proof -
  note P = spool_at_parts [OF A]
  let ?n = "nat (sp_lineBytes m)" and ?o = "4096 + line_index m ch row * nat (sp_lineBytes m)"
  have off: "unat (lineOffset (with_disk_fields m path checksum) HeaderBytes ch row) = ?o"
    using lineOffset_exact [OF P(1,2) r] by (simp add: lineOffset_def with_disk_fields_def)
  obtain x where x: "readAt D path ?o ?n d = Some x" using readAt_ok [of d path] P(5) by auto
  have "?o + ?n \<le> 4096 + body_size m" by (rule line_end [OF line_index_less [OF r]])
  then have "length x = ?n" using readAt_law [OF x P(5)] P(6,7) by simp
  moreover have "0 < sp_lineBytes m" by (rule valid_fields(5) [OF P(1)])
  ultimately have "reader_readLine D \<lparr>r_path = path, r_meta = with_disk_fields m path checksum\<rparr> ch row d = Inr x"
    using r x off by (simp add: reader_readLine_def Let_def with_disk_fields_def lineOffset_def)
  then show ?thesis using readLine_spool_at [OF A] by simp
qed

lemma spool_rows_ok:
  assumes A: "spool_at contents S d path m checksum planes"
    and order: "\<forall>ch \<in> set order. 0 \<le> ch \<and> ch < sp_logical m" and h: "h \<le> nat (sp_height m)"
  shows "spool_rows D \<lparr>r_path = path, r_meta = with_disk_fields m path checksum\<rparr> order h d acc =
    Inr (acc @ interleaved planes order h)"
proof -
  have row: "\<exists>t. fold_res (\<lambda>channel acc. case reader_readLine D \<lparr>r_path = path, r_meta = with_disk_fields m path checksum\<rparr>
      channel (int row) d of Inl e \<Rightarrow> Inl (PrnSpoolRead e) | Inr line \<Rightarrow> Inr (acc @ line)) order acc = Inr t"
    if "row < h" for row acc
  proof -
    have "int row < sp_height m" using that h by linarith
    then have "\<exists>t. fold_res (\<lambda>channel acc. case reader_readLine D \<lparr>r_path = path, r_meta = with_disk_fields m path checksum\<rparr>
      channel (int row) d of Inl e \<Rightarrow> Inl (PrnSpoolRead e) | Inr line \<Rightarrow> Inr (acc @ line)) order acc = Inr t \<and> True"
      using order readLine_ok [OF A] by (intro fold_res_total) auto
    then show ?thesis by blast
  qed
  have "\<exists>t. spool_rows D \<lparr>r_path = path, r_meta = with_disk_fields m path checksum\<rparr> order h d acc = Inr t \<and> True"
    unfolding spool_rows_def by (rule fold_res_total) (use row in auto)
  then obtain t where "spool_rows D \<lparr>r_path = path, r_meta = with_disk_fields m path checksum\<rparr> order h d acc = Inr t"
    by blast
  then show ?thesis using spool_rows_interleaved [OF A] by blast
qed

lemma x33_spool_ok:
  assumes A: "spool_at contents S d path m checksum planes"
    and sp: "sp = with_disk_fields m path checksum" and order: "sp_order m = ymck \<or> sp_order m = ymckww"
    and c: "checksum = sha (encodeHeader S m [] @ concat (concat planes))" "length checksum = 32"
  shows "\<exists>d'. writeStandardX33Spool D S sha sp outPath d = Inr d' \<and>
    contents d' = (contents d)(outPath \<mapsto> x33_header_bytes (makeStandardX33Header (sp_width m) (sp_height m)
      (sp_xdpi m) (sp_ydpi m) (sp_lineBytes m) (int (length (sp_order m)))) @
      interleaved planes (sp_order m) (nat (sp_height m)))"
proof -
  note P = spool_at_parts [OF A]
  have o: "\<forall>ch \<in> set (sp_order m). 0 \<le> ch \<and> ch < sp_logical m" by (rule valid_fields(10) [OF P(1)])
  have R: "reader_open D S sha (\<lambda>_. False) path True d = Inr \<lparr>r_path = path, r_meta = with_disk_fields m path checksum\<rparr>"
    by (rule reader_open_ok [where canceled = "\<lambda>_. False" and sha = sha, OF A _ c]) simp
  define prn where "prn = x33_header_bytes (makeStandardX33Header (sp_width m) (sp_height m)
      (sp_xdpi m) (sp_ydpi m) (sp_lineBytes m) (int (length (sp_order m)))) @
      interleaved planes (sp_order m) (nat (sp_height m))"
  obtain d' where d': "saveFile D outPath prn d = Some d'" using saveFile_ok by blast
  have "sp_path sp = path" "sp_order sp = sp_order m" "metadataIsValid sp = Inr ()" "sp_width sp = sp_width m"
    "sp_height sp = sp_height m" "sp_xdpi sp = sp_xdpi m" "sp_ydpi sp = sp_ydpi m" "sp_lineBytes sp = sp_lineBytes m"
    using P(1) by (simp_all add: sp) (simp_all add: with_disk_fields_def)
  then have "writeStandardX33Spool D S sha sp outPath d = Inr d'"
    using order R spool_rows_ok [OF A o order_refl] d'
    by (simp add: writeStandardX33Spool_def Let_def prn_def)
  moreover have "contents d' = (contents d)(outPath \<mapsto> prn)" by (rule saveFile_law [OF d'])
  ultimately show ?thesis unfolding prn_def by blast
qed

lemma multi_ink_spool_ok:
  assumes A: "spool_at contents S d path m checksum planes"
    and sp: "sp = with_disk_fields m path checksum"
    and c: "checksum = sha (encodeHeader S m [] @ concat (concat planes))" "length checksum = 32"
  shows "\<exists>d'. writeMultiInkSpool D S sha sp mode outPath d = Inr d' \<and>
    contents d' = (contents d)(outPath \<mapsto> inkjet_header_bytes (multi_ink_header mode (sp_order m) (sp_width m) (sp_height m)
      (sp_xdpi m) (sp_ydpi m) (sp_lineBytes m)) @ interleaved planes (sp_order m) (nat (sp_height m)))"
proof -
  note P = spool_at_parts [OF A]
  have o: "\<forall>ch \<in> set (sp_order m). 0 \<le> ch \<and> ch < sp_logical m" by (rule valid_fields(10) [OF P(1)])
  have R: "reader_open D S sha (\<lambda>_. False) path True d = Inr \<lparr>r_path = path, r_meta = with_disk_fields m path checksum\<rparr>"
    by (rule reader_open_ok [where canceled = "\<lambda>_. False" and sha = sha, OF A _ c]) simp
  define prn where "prn = inkjet_header_bytes (multi_ink_header mode (sp_order m) (sp_width m) (sp_height m)
      (sp_xdpi m) (sp_ydpi m) (sp_lineBytes m)) @ interleaved planes (sp_order m) (nat (sp_height m))"
  obtain d' where d': "saveFile D outPath prn d = Some d'" using saveFile_ok by blast
  have "sp_path sp = path" "sp_order sp = sp_order m" "metadataIsValid sp = Inr ()" "sp_width sp = sp_width m"
    "sp_height sp = sp_height m" "sp_xdpi sp = sp_xdpi m" "sp_ydpi sp = sp_ydpi m" "sp_lineBytes sp = sp_lineBytes m"
    using P(1) by (simp_all add: sp) (simp_all add: with_disk_fields_def)
  then have "writeMultiInkSpool D S sha sp mode outPath d = Inr d'"
    using valid_fields(9) [OF P(1)] R spool_rows_ok [OF A o order_refl] d'
    by (simp add: writeMultiInkSpool_def Let_def prn_def)
  moreover have "contents d' = (contents d)(outPath \<mapsto> prn)" by (rule saveFile_law [OF d'])
  ultimately show ?thesis unfolding prn_def by blast
qed

lemma finalize_total:
  assumes W: "writing contents d W b" and sha: "\<And>x. length (sha x) = 32" and nc: "\<And>k. \<not> canceled k"
    and free: "contents d (w_final W) = None"
  shows "((\<exists>sp d' W'. writer_finalize D S sha canceled (d, W) = Inr (sp, d', W') \<and>
      sp_sha256 sp = sha (encodeHeader S (w_meta W) [] @ drop 4096 b) \<and>
      contents d' (w_final W) = Some (encodeHeader S (w_meta W) (sp_sha256 sp) @ drop 4096 b)) \<longleftrightarrow>
    (\<forall>k < line_count (w_meta W). w_lines W ! k)) \<and>
    (\<not> (\<forall>k < line_count (w_meta W). w_lines W ! k) \<longrightarrow>
      writer_finalize D S sha canceled (d, W) = Inl (SpoolIncomplete, d, W))"
proof (cases "\<forall>k < line_count (w_meta W). w_lines W ! k")
  case True
  from finalize_ok [where canceled = canceled and sha = sha, OF W True sha nc free] obtain sp d' W' where
    f: "writer_finalize D S sha canceled (d, W) = Inr (sp, d', W')" by blast
  show ?thesis using True f finalize_complete(2,3) [OF W f] by blast
next
  case False
  have len: "length (w_lines W) = line_count (w_meta W)" and o: "w_open W" using W by (simp_all add: writing_def)
  from False obtain k where "k < length (w_lines W)" "\<not> w_lines W ! k" using len by auto
  then have "\<not> (\<forall>x \<in> set (w_lines W). x)" using nth_mem by blast
  then have "count_list (w_lines W) True \<noteq> length (w_lines W)" unfolding count_list_True .
  then have e: "writer_finalize D S sha canceled (d, W) = Inl (SpoolIncomplete, d, W)"
    using o by (simp add: writer_finalize_def)
  show ?thesis unfolding e using False by simp
qed

lemma x33_same_file:
  assumes A: "spool_at contents S d path m checksum planes"
    and sp: "sp = with_disk_fields m path checksum" and order: "sp_order m = ymck \<or> sp_order m = ymckww"
    and c: "checksum = sha (encodeHeader S m [] @ concat (concat planes))" "length checksum = 32"
  shows "\<exists>dm ds. writeStandardX33Prn D planes (sp_order m) (sp_width m) (sp_height m) (sp_xdpi m) (sp_ydpi m) outM d = Inr dm \<and>
    writeStandardX33Spool D S sha sp outS d = Inr ds \<and> contents dm outM = contents ds outS"
proof -
  note P = spool_at_parts [OF A] and F = valid_fields [OF spool_at_parts(1) [OF A]]
  have shape: "length planes = nat (sp_logical m)"
    "\<forall>p \<in> set planes. length p = nat (sp_height m) \<and> (\<forall>l \<in> set p. length l = nat (sp_lineBytes m))"
    using A by (simp_all add: spool_at_def)
  have o: "\<forall>ch \<in> set (sp_order m). nat ch < length planes" using F(10) shape(1) by auto
  have b: "0 < nat (sp_lineBytes m)" using F(5) by simp
  from x33_ok [OF writeAt_ok openTruncate_ok F(1,2) b order o shape(2)] obtain dm where
    dm: "writeStandardX33Prn D planes (sp_order m) (sp_width m) (sp_height m) (sp_xdpi m) (sp_ydpi m) outM d = Inr dm"
    by blast
  have ne: "planes \<noteq> []" using shape(1) F(6) by auto
  then have "length (planes ! 0) = nat (sp_height m)" using shape(2) by simp
  then have "planes ! 0 \<in> set planes" "planes ! 0 ! 0 \<in> set (planes ! 0)" using ne F(2) by simp_all
  then have "length (planes ! 0 ! 0) = nat (sp_lineBytes m)" using shape(2) by blast
  then have lb: "int (length (planes ! 0 ! 0)) = sp_lineBytes m" using F(5) by simp
  from x33_spool_ok [where sha = sha, OF A sp order c, of outS] x33_file [OF dm] dm show ?thesis
    unfolding lb by (metis fun_upd_same)
qed

end

end
