(* ===== verification/Upload_Delivery.thy ===== *)
theory Upload_Delivery
  imports Service_Client Server_Laws Prn_Delivery
begin

text \<open>
  The client against the service: what one request does to the service when the connection
  delivers it, and, from begin through the chunks to the commit, that the printer backend
  is handed exactly the spool the client was asked to submit, with a file that holds the
  same bytes.
\<close>

section \<open>A client linked to a service\<close>

definition serve ::
  "('v, 'd, 'b) service_env \<Rightarrow> (nat \<Rightarrow> int) \<Rightarrow> (nat \<Rightarrow> string) \<Rightarrow> string \<Rightarrow> 'v vmap \<Rightarrow> bytes \<Rightarrow>
   ('d, 'b) server \<times> nat \<Rightarrow> 'v vmap \<times> ('d, 'b) server \<times> nat" where
  \<comment> \<open>the \<open>n\<close>th request finds the clock at \<open>now n\<close> and draws the identifier \<open>uuid n\<close>\<close>
  "serve E now uuid command args payload w =
     (case w of (s, n) \<Rightarrow>
       let (r, s) = handleRequest E (now n) (uuid n) (request_message (sv_variant E) command args payload) s
       in (r, s, Suc n))"

definition plain_commands :: "string list" where
  "plain_commands = [''ping'', ''beginRasterUpload'', ''appendRasterChunk'', ''cancelRasterUpload'',
     ''commitRasterUpload'', ''submitJob'']"

definition linked ::
  "('v, 'd, 'b) service_env \<Rightarrow> (nat \<Rightarrow> int) \<Rightarrow> (nat \<Rightarrow> string) \<Rightarrow>
   ('v, 'c, ('d, 'b) server \<times> nat) client_env \<Rightarrow> bool" where
  "linked E now uuid C \<longleftrightarrow>
     ce_variant C = sv_variant E \<and> ce_stream C = sv_stream E \<and> ce_sha C = sv_sha E \<and>
     ce_exchange C = serve E now uuid \<and> (\<forall>command \<in> set plain_commands. sv_trim E command = command)"

lemma linkedD:
  assumes "linked E now uuid C"
  shows "ce_variant C = sv_variant E" "ce_stream C = sv_stream E" "ce_sha C = sv_sha E"
    "ce_exchange C = serve E now uuid"
    "sv_trim E ''ping'' = ''ping''" "sv_trim E ''beginRasterUpload'' = ''beginRasterUpload''"
    "sv_trim E ''appendRasterChunk'' = ''appendRasterChunk''" "sv_trim E ''cancelRasterUpload'' = ''cancelRasterUpload''"
    "sv_trim E ''commitRasterUpload'' = ''commitRasterUpload''" "sv_trim E ''submitJob'' = ''submitJob''"
  using assms by (simp_all add: linked_def plain_commands_def)

lemma applyResponse_fields [simp]:
  "cl_world (applyResponse Q r c) = cl_world c"
  "cl_disk (applyResponse Q r c) = cl_disk c"
  by (simp_all add: applyResponse_def Let_def)

definition probed :: "('v, 'd, 'b) service_env \<Rightarrow> ('d, 'b) server \<Rightarrow> ('d, 'b) server \<Rightarrow> bool" where
  \<comment> \<open>the printer was asked whether it is available, some number of times, and nothing else\<close>
  "probed E s t \<longleftrightarrow> (\<lambda>b c. c = snd (be_isAvailable (sv_backend E) b))^** (srv_backend s) (srv_backend t)"

definition idle_step :: "('v, 'd, 'b) service_env \<Rightarrow> ('d, 'b) server \<Rightarrow> ('d, 'b) server \<Rightarrow> bool" where
  "idle_step E s t \<longleftrightarrow> keeps_uploads s t \<and> probed E s t"

lemma probed_refl [simp]: "srv_backend t = srv_backend s \<Longrightarrow> probed E s t"
  by (simp add: probed_def)

lemma probed_trans: "probed E s t \<Longrightarrow> probed E t u \<Longrightarrow> probed E s u"
  unfolding probed_def by (rule rtranclp_trans)

lemma probed_response: "srv_backend t = srv_backend s \<Longrightarrow> probed E s (snd (response E ok v e t))"
  by (auto simp: probed_def response_def serviceState_def Let_def split_def)

lemma idle_step_trans: "idle_step E s t \<Longrightarrow> idle_step E t u \<Longrightarrow> idle_step E s u"
  unfolding idle_step_def by (auto simp: keeps_uploads_def intro: probed_trans)

context service
begin

lemma request_parts:
  "toStr (sv_variant E) (valueAt (sv_variant E) (request_message (sv_variant E) command args payload) ''command'') = command"
  "toMap (sv_variant E) (valueAt (sv_variant E) (request_message (sv_variant E) command args payload) ''arguments'') = args"
  "payload \<noteq> [] \<Longrightarrow>
   toByteArray (sv_variant E) (valueAt (sv_variant E) (request_message (sv_variant E) command args payload) ''payload'') = payload"
  by (simp_all add: request_message_def Let_def valueAt_def variants.variant_simps)

lemma response_parts:
  "responseOk (sv_variant E) (fst (response E ok v e s)) = ok"
  "valueAt (sv_variant E) (fst (response E ok v e s)) ''result'' = v"
  by (simp_all add: response_def serviceState_def responseOk_def Let_def split_def valueAt_def variants.variant_simps)

lemma ping_served:
  assumes L: "linked E now uuid C"
  shows "\<exists>r s'. raw C ''ping'' Map.empty [] c = (r, c\<lparr>cl_world := (s', Suc (snd (cl_world c)))\<rparr>) \<and>
    responseOk (sv_variant E) r \<and> supportsStreaming (sv_variant E) r \<and> idle_step E (fst (cl_world c)) s'"
proof -
  obtain s n where w: "cl_world c = (s, n)" by (cases "cl_world c")
  let ?r = "response E True (ofStr (sv_variant E) ''PrintFlowPrinterService'') NoError s"
  have h: "handleRequest E (now n) (uuid n) (request_message (sv_variant E) ''ping'' Map.empty []) s = ?r"
    by (simp add: handleRequest_def request_parts linkedD(5) [OF L] Let_def)
  have "supportsStreaming (sv_variant E) (fst ?r)"
    by (simp add: supportsStreaming_def response_parts)
      (simp add: response_def serviceState_def Let_def split_def valueAt_def vmBool_def variants.variant_simps)
  moreover have "idle_step E s (snd ?r)" by (simp add: idle_step_def keeps_uploads_def probed_response)
  moreover have "raw C ''ping'' Map.empty [] c = (fst ?r, c\<lparr>cl_world := (snd ?r, Suc n)\<rparr>)"
    by (simp add: raw_def linkedD(4) [OF L] serve_def w h split_def Let_def)
  ultimately show ?thesis using response_parts(1) by (intro exI [of _ "fst ?r"] exI [of _ "snd ?r"]) (simp add: w)
qed

lemma request_served:
  assumes L: "linked E now uuid C" and r: "request C command args payload c = (r, c')"
  shows "\<exists>s n. idle_step E (fst (cl_world c)) s \<and> cl_disk c' = cl_disk c \<and>
    r = fst (handleRequest E (now n) (uuid n) (request_message (sv_variant E) command args payload) s) \<and>
    fst (cl_world c') = snd (handleRequest E (now n) (uuid n) (request_message (sv_variant E) command args payload) s) \<and>
    snd (cl_world c') = snd (cl_world c) + 2"
proof -
  obtain s n where w: "cl_world c = (s, n)" by (cases "cl_world c")
  obtain p s' where p: "raw C ''ping'' Map.empty [] c = (p, c\<lparr>cl_world := (s', Suc n)\<rparr>)"
    "responseOk (sv_variant E) p" "idle_step E s s'"
    using ping_served [OF L, of c] by (auto simp: w)
  let ?h = "handleRequest E (now (Suc n)) (uuid (Suc n)) (request_message (sv_variant E) command args payload) s'"
  have "request C command args payload c =
      (fst ?h, applyResponse (sv_variant E) (fst ?h) (c\<lparr>cl_world := (snd ?h, Suc (Suc n))\<rparr>))"
    using p(1,2)
    by (simp add: request_def exchange_def ensureService_def linkedD(1) [OF L])
      (simp add: raw_def linkedD(4) [OF L] serve_def split_def Let_def)
  then show ?thesis using r p(3) by (intro exI [of _ s'] exI [of _ "Suc n"]) (auto simp: w)
qed

lemma ensureService_served:
  assumes L: "linked E now uuid C"
  shows "\<exists>s'. ensureService C c = (True, c\<lparr>cl_world := (s', Suc (snd (cl_world c)))\<rparr>) \<and> idle_step E (fst (cl_world c)) s'"
proof -
  obtain r s' where "raw C ''ping'' Map.empty [] c = (r, c\<lparr>cl_world := (s', Suc (snd (cl_world c)))\<rparr>)"
    "responseOk (sv_variant E) r" "idle_step E (fst (cl_world c)) s'"
    using ping_served [OF L, of c] by blast
  then show ?thesis
    by (intro exI [of _ s']) (simp add: ensureService_def linkedD(1) [OF L])
qed

lemma require_streaming_served:
  assumes L: "linked E now uuid C"
  shows "\<exists>c'. require_streaming C i c = (True, c') \<and> idle_step E (fst (cl_world c)) (fst (cl_world c')) \<and>
    cl_disk c' = cl_disk c \<and> snd (cl_world c') = Suc (snd (cl_world c))"
  using ping_served [OF L, of c] by (auto simp: require_streaming_def ping_def linkedD(1) [OF L])

lemma handle_upload_commands:
  assumes L: "linked E now uuid C" and p: "\<not> srv_printing s"
  shows "handleRequest E t k (request_message (sv_variant E) ''beginRasterUpload'' args payload) s = begin_upload E t k args s"
    and "payload \<noteq> [] \<Longrightarrow>
      handleRequest E t k (request_message (sv_variant E) ''appendRasterChunk'' args payload) s = append_chunk E t args payload s"
    and "handleRequest E t k (request_message (sv_variant E) ''cancelRasterUpload'' args payload) s = cancel_upload E args s"
    and "handleRequest E t k (request_message (sv_variant E) ''commitRasterUpload'' args payload) s = commit_upload E args s"
  by (simp_all add: handleRequest_def request_parts linkedD [OF L] p Let_def)

end

section \<open>The chunks arrive\<close>

definition upload_at ::
  "('d \<Rightarrow> string \<rightharpoonup> bytes) \<Rightarrow> string \<Rightarrow> ('d, 'b) server \<Rightarrow> string \<Rightarrow> upload \<Rightarrow> bytes \<Rightarrow> bool" where
  \<comment> \<open>the service holds the upload \<open>u\<close> under \<open>k\<close>, with the bytes \<open>b\<close> in its file\<close>
  "upload_at contents dir s k u b \<longleftrightarrow> map_of (srv_uploads s) k = Some u \<and> \<not> srv_printing s \<and>
     up_partialPath u = uploadPath dir k \<and> contents (srv_disk s) (uploadPath dir k) = Some b \<and>
     up_receivedBytes u = of_nat (length b)"

definition same_upload :: "upload \<Rightarrow> upload \<Rightarrow> bool" where
  "same_upload u v \<longleftrightarrow> up_expectedBytes v = up_expectedBytes u \<and> up_expectedSpool v = up_expectedSpool u \<and>
     up_settings v = up_settings u"

definition only_file :: "('d \<Rightarrow> string \<rightharpoonup> bytes) \<Rightarrow> string \<Rightarrow> 'd \<Rightarrow> 'd \<Rightarrow> bool" where
  \<comment> \<open>no file but \<open>p\<close> has changed\<close>
  "only_file contents p d d' \<longleftrightarrow> (\<forall>q. q \<noteq> p \<longrightarrow> contents d' q = contents d q)"

lemma only_file_trans: "only_file contents p d e \<Longrightarrow> only_file contents p e f \<Longrightarrow> only_file contents p d f"
  by (simp add: only_file_def)

lemma keeps_upload_at: "keeps_uploads s t \<Longrightarrow> upload_at contents dir s k u b \<Longrightarrow> upload_at contents dir t k u b"
  by (simp add: keeps_uploads_def upload_at_def)

definition begin_arguments :: "'v qvariant \<Rightarrow> spool \<Rightarrow> print_settings \<Rightarrow> 'v vmap" where
  "begin_arguments Q sp settings =
     [''spool'' \<mapsto> ofMap Q (spoolMetadata Q sp), ''settings'' \<mapsto> ofMap Q (settingsToMap Q settings),
      ''fileBytes'' \<mapsto> ofULongLong Q (sp_bodyOffset sp + sp_bodyBytes sp)]"

definition announceable :: "spool \<Rightarrow> bool" where
  "announceable sp \<longleftrightarrow> spool_submittable sp \<and> metadataIsValid sp = Inr () \<and> sp_bodyOffset sp = HeaderBytes \<and>
     sp_bodyBytes sp = expectedBodyBytes sp"

definition enough_storage :: "('v, 'd, 'b) service_env \<Rightarrow> u64 \<Rightarrow> bool" where
  "enough_storage E n \<longleftrightarrow> (\<forall>d. \<exists>free. sv_bytesAvailable E d = Some free \<and> n + n div 5 \<le> free)"

locale reliable_service = service E contents + store: reliable_store "sv_disk E" contents "sv_stream E"
  for E :: "('v, 'd, 'b) service_env" and contents :: "'d \<Rightarrow> string \<rightharpoonup> bytes"
begin

lemma append_accepts:
  assumes u: "upload_at contents (sv_uploadDirectory E) s k u b" and chunk: "chunk \<noteq> []" "length chunk \<le> 1024 * 1024"
    and fit: "length b + length chunk \<le> unat (up_expectedBytes u)" and big: "unat (up_expectedBytes u) < 2 ^ 63"
    and args: "toStr (sv_variant E) (valueAt (sv_variant E) args ''uploadId'') = k"
      "toULongLong (sv_variant E) (valueAt (sv_variant E) args ''offset'') = of_nat (length b)"
  shows "\<exists>r s' v. append_chunk E t args chunk s = (r, s') \<and> responseOk (sv_variant E) r \<and>
    upload_at contents (sv_uploadDirectory E) s' k v (b @ chunk) \<and> same_upload u v \<and>
    only_file contents (uploadPath (sv_uploadDirectory E) k) (srv_disk s) (srv_disk s') \<and>
    probed E s s'"
proof -
  let ?p = "uploadPath (sv_uploadDirectory E) k" and ?n = "up_receivedBytes u + of_nat (length chunk)"
  have m: "map_of (srv_uploads s) k = Some u" "contents (srv_disk s) ?p = Some b" "up_partialPath u = ?p"
    and rec: "up_receivedBytes u = of_nat (length b)"
    using u by (simp_all add: upload_at_def)
  have n: "unat ?n = length b + length chunk"
    using fit big rec by (simp add: unat_of_nat of_nat_add [symmetric] del: of_nat_add)
  have "\<not> ?n > up_expectedBytes u" using fit n by (simp add: word_less_nat_alt)
  moreover obtain d where d: "append_file (sv_disk E) ?p chunk (srv_disk s) = Some d"
    using m(2) store.writeAt_ok [of "srv_disk s" ?p] by (auto simp: append_file_def files.fileExists_law)
  ultimately have a: "append_chunk E t args chunk s = response E True (ofULongLong (sv_variant E) ?n) NoError
      (s\<lparr>srv_disk := d, srv_uploads := AList.update k (u\<lparr>up_receivedBytes := ?n, up_lastActivityMs := t\<rparr>) (srv_uploads s)\<rparr>)"
    using m args chunk rec by (simp add: append_chunk_def Let_def kUploadChunkBytes_def)
  have c: "contents d = (contents (srv_disk s))(?p \<mapsto> b @ chunk)" by (rule append_file_law [OF d m(2)])
  show ?thesis
    using u n c rec
    by (intro exI [of _ "fst (append_chunk E t args chunk s)"] exI [of _ "snd (append_chunk E t args chunk s)"]
        exI [of _ "u\<lparr>up_receivedBytes := ?n, up_lastActivityMs := t\<rparr>"])
      (simp add: a response_parts upload_at_def same_upload_def only_file_def update_conv' probed_response)
qed

lemma chunk_steps:
  fixes r n :: nat
  assumes "0 < r" "0 < n"
  shows "(r + n - 1) div n = Suc ((r - min n r + n - 1) div n)"
proof (cases "r \<le> n")
  case True
  then have "(r + n - 1) div n = 1" using assms by (intro div_nat_eqI) auto
  then show ?thesis using True assms by (simp add: min_def)
next
  case False
  then have e: "r + n - 1 = (r - 1) + n" "r - min n r + n - 1 = r - 1" using assms by (simp_all add: min_def)
  show ?thesis unfolding e using assms(2) by simp
qed

lemma chunks_arrive:
  assumes L: "linked E now uuid C" and D: "reliable_store (ce_disk C) files (sv_stream E)"
    and f: "files (cl_disk c) path = Some f" and n: "0 < n" "n \<le> 1024 * 1024" and k: "k \<noteq> []"
    and go: "\<And>i. \<not> canceled i"
    and u: "upload_at contents (sv_uploadDirectory E) (fst (cl_world c)) k u (take off f)"
    and e: "unat (up_expectedBytes u) = length f" "length f < 2 ^ 63"
  shows "\<exists>c' v. upload_chunks C canceled path k n (length f) off c = (True, c') \<and> cl_disk c' = cl_disk c \<and>
    upload_at contents (sv_uploadDirectory E) (fst (cl_world c')) k v f \<and> same_upload u v \<and>
    only_file contents (uploadPath (sv_uploadDirectory E) k) (srv_disk (fst (cl_world c))) (srv_disk (fst (cl_world c'))) \<and>
    probed E (fst (cl_world c)) (fst (cl_world c')) \<and>
    snd (cl_world c') = snd (cl_world c) + 2 * ((length f - off + n - 1) div n)"
  using f u e
proof (induction "length f - off" arbitrary: off c u rule: less_induct)
  case less
  show ?case
  proof (cases "length f \<le> off")
    case True
    then show ?thesis
      using less.prems n(1) by (intro exI [of _ c] exI [of _ u])
        (simp add: upload_chunks.simps [of C canceled path k n "length f" off] same_upload_def only_file_def)
  next
    case False
    let ?chunk = "take n (drop off f)"
    have chunk: "?chunk \<noteq> []" "length ?chunk \<le> 1024 * 1024" using False n by simp_all
    have rd: "readAt (ce_disk C) path off n (cl_disk c) = Some ?chunk"
      by (rule reliable_store.readAt_exact [OF D less.prems(1)])
    let ?args = "(upload_argument (ce_variant C) k)(''offset'' \<mapsto> ofULongLong (ce_variant C) (of_nat off))"
    obtain r c1 where r: "request C ''appendRasterChunk'' ?args ?chunk c = (r, c1)" by fastforce
    obtain s j where s: "idle_step E (fst (cl_world c)) s" "cl_disk c1 = cl_disk c"
      "r = fst (handleRequest E (now j) (uuid j) (request_message (sv_variant E) ''appendRasterChunk'' ?args ?chunk) s)"
      "fst (cl_world c1) = snd (handleRequest E (now j) (uuid j) (request_message (sv_variant E) ''appendRasterChunk'' ?args ?chunk) s)"
      "snd (cl_world c1) = snd (cl_world c) + 2"
      using request_served [OF L r] by blast
    have us: "upload_at contents (sv_uploadDirectory E) s k u (take off f)" 
      using s(1) by (auto simp: idle_step_def intro: keeps_upload_at [OF _ less.prems(2)])
    then have "\<not> srv_printing s" by (simp add: upload_at_def)
    note h = handle_upload_commands(2) [OF L this chunk(1)]
    have len: "length (take off f) = off" using False by simp
    have args: "toStr (sv_variant E) (valueAt (sv_variant E) ?args ''uploadId'') = k"
      "toULongLong (sv_variant E) (valueAt (sv_variant E) ?args ''offset'') = of_nat (length (take off f))"
      by (simp_all only: len) (simp_all add: linkedD(1) [OF L] upload_argument_def valueAt_def variants.variant_simps)
    have fit: "length (take off f) + length ?chunk \<le> unat (up_expectedBytes u)" "unat (up_expectedBytes u) < 2 ^ 63"
      using less.prems(3,4) False by simp_all
    obtain q s' v where v: "append_chunk E (now j) ?args ?chunk s = (q, s')" "responseOk (sv_variant E) q"
      "upload_at contents (sv_uploadDirectory E) s' k v (take off f @ ?chunk)" "same_upload u v"
      "only_file contents (uploadPath (sv_uploadDirectory E) k) (srv_disk s) (srv_disk s')"
      "probed E s s'"
      using append_accepts [OF us chunk fit args] by blast
    have c1: "fst (cl_world c1) = s'" "responseOk (sv_variant E) r" using s(3,4) v(1,2) by (simp_all add: h)
    have nxt: "take off f @ ?chunk = take (off + length ?chunk) f"
      using False by (simp add: take_add min_def)
    have v': "unat (up_expectedBytes v) = length f" using v(4) less.prems(3) by (simp add: same_upload_def)
    have smaller: "length f - (off + length ?chunk) < length f - off" using False n by simp
    obtain c' w where w: "upload_chunks C canceled path k n (length f) (off + length ?chunk) c1 = (True, c')"
      "cl_disk c' = cl_disk c1" "upload_at contents (sv_uploadDirectory E) (fst (cl_world c')) k w f" "same_upload v w"
      "only_file contents (uploadPath (sv_uploadDirectory E) k) (srv_disk (fst (cl_world c1))) (srv_disk (fst (cl_world c')))"
      "probed E (fst (cl_world c1)) (fst (cl_world c'))"
      "snd (cl_world c') = snd (cl_world c1) + 2 * ((length f - (off + length ?chunk) + n - 1) div n)"
      using less.hyps [OF smaller, of c1 v] less.prems(1,4) s(2) v(3) v' by (auto simp: c1(1) nxt)
    have "upload_chunks C canceled path k n (length f) off c =
        upload_chunks C canceled path k n (length f) (off + length ?chunk) c1"
      using False go rd chunk(1) r c1(2)
      by (simp add: upload_chunks.simps [of C canceled path k n "length f" off c] requestOk_def linkedD(1) [OF L] Let_def)
    moreover have "probed E (fst (cl_world c)) (fst (cl_world c'))"
      using probed_trans [OF probed_trans [OF _ v(6)] w(6) [unfolded c1(1)]] s(1) by (simp add: idle_step_def)
    moreover have "snd (cl_world c') = snd (cl_world c) + 2 * ((length f - off + n - 1) div n)"
      using w(7) s(5) chunk_steps [of "length f - off" n] False n(1) by (simp add: min_def split: if_splits)
    ultimately show ?thesis
      using w v(4,5) s(1,2) c1(1)
      by (intro exI [of _ c'] exI [of _ w])
        (auto simp: same_upload_def idle_step_def keeps_uploads_def only_file_def)
  qed
qed

section \<open>Begin and commit\<close>

lemma metadataIsValid_path [simp]: "metadataIsValid (sp\<lparr>sp_path := p\<rparr>) = metadataIsValid sp"
  by (simp add: metadataIsValid_def Let_def)

lemma begin_accepts:
  assumes sp: "announceable sp" and st: "settings_typed settings"
    and room: "enough_storage E (sp_bodyOffset sp + sp_bodyBytes sp)" and idle: "\<not> srv_printing s"
  shows "\<exists>r s' u. begin_upload E t k (begin_arguments (sv_variant E) sp settings) s = (r, s') \<and>
    responseOk (sv_variant E) r \<and>
    valueAt (sv_variant E) r ''result'' = ofMap (sv_variant E)
      [''uploadId'' \<mapsto> ofStr (sv_variant E) k, ''chunkBytes'' \<mapsto> ofInt (sv_variant E) (1024 * 1024)] \<and>
    upload_at contents (sv_uploadDirectory E) s' k u [] \<and> up_expectedBytes u = sp_bodyOffset sp + sp_bodyBytes sp \<and>
    up_expectedSpool u = sp\<lparr>sp_path := []\<rparr> \<and> up_settings u = settings \<and>
    only_file contents (uploadPath (sv_uploadDirectory E) k) (srv_disk s) (srv_disk s') \<and>
    probed E s s'"
proof -
  let ?Q = "sv_variant E" and ?n = "sp_bodyOffset sp + sp_bodyBytes sp" and ?p = "uploadPath (sv_uploadDirectory E) k"
  let ?args = "begin_arguments ?Q sp settings"
  have sub: "spool_submittable sp" and valid: "metadataIsValid sp = Inr ()"
    and b: "sp_bodyOffset sp = HeaderBytes" "sp_bodyBytes sp = expectedBodyBytes sp"
    using sp by (simp_all add: announceable_def)
  have v: "metadataIsValid (sp\<lparr>sp_path := []\<rparr>) = Inr ()"
    using valid by simp
  have parts: "toULongLong ?Q (valueAt ?Q ?args ''fileBytes'') = ?n"
    "toMap ?Q (valueAt ?Q ?args ''spool'') = spoolMetadata ?Q sp"
    "toMap ?Q (valueAt ?Q ?args ''settings'') = settingsToMap ?Q settings"
    by (simp_all add: begin_arguments_def valueAt_def variants.variant_simps)
  have chk: "begin_checks E (begin_arguments ?Q sp settings) = Inr (sp\<lparr>sp_path := []\<rparr>, settings, ?n)"
    using v b by (simp add: begin_checks_def parts Let_def variants.spool_metadata_comes_back [OF sub]
        variants.settings_come_back [OF st])
  let ?d0 = "ensure_directory (sv_disk E) (sv_uploadDirectory E) (srv_disk s)"
  obtain free where free: "sv_bytesAvailable E ?d0 = Some free" "\<not> free < ?n + ?n div 5"
    using room unfolding enough_storage_def by (metis not_less)
  obtain d where d: "openTruncate (sv_disk E) ?p ?d0 = Some d" using store.openTruncate_ok by fastforce
  have c: "contents d = (contents (srv_disk s))(?p \<mapsto> [])" using files.openTruncate_law [OF d] by simp
  let ?u = "\<lparr>up_partialPath = ?p, up_expectedBytes = ?n, up_receivedBytes = 0, up_lastActivityMs = t,
    up_expectedSpool = sp\<lparr>sp_path := []\<rparr>, up_settings = settings\<rparr>"
  let ?v = "ofMap ?Q [''uploadId'' \<mapsto> ofStr ?Q k, ''chunkBytes'' \<mapsto> ofInt ?Q (int kUploadChunkBytes)]"
  have r: "begin_upload E t k (begin_arguments ?Q sp settings) s =
      response E True ?v NoError (s\<lparr>srv_disk := d, srv_uploads := AList.update k ?u (srv_uploads s)\<rparr>)"
    using chk free d by (simp add: begin_upload_def Let_def)
  show ?thesis
    using idle c
    by (intro exI [of _ "fst (begin_upload E t k (begin_arguments ?Q sp settings) s)"]
        exI [of _ "snd (begin_upload E t k (begin_arguments ?Q sp settings) s)"] exI [of _ ?u])
      (simp add: r response_parts upload_at_def only_file_def update_conv' kUploadChunkBytes_def probed_response)
qed

lemma commit_submits:
  assumes u: "upload_at contents (sv_uploadDirectory E) s k u (encodeHeader (sv_stream E) m checksum @ concat (concat planes))"
    and args: "toStr (sv_variant E) (valueAt (sv_variant E) args ''uploadId'') = k"
    and full: "up_receivedBytes u = up_expectedBytes u"
    and announced: "up_expectedSpool u = with_disk_fields m [] checksum"
    and spool: "spool_at files (sv_stream E) dc path m checksum planes"
    and sha: "checksum = sv_sha E (encodeHeader (sv_stream E) m [] @ concat (concat planes))" "length checksum = 32"
    and free: "contents (srv_disk s) (filePath (sv_uploadDirectory E) (k @ ''.pfrs'')) = None"
  shows "\<exists>r s' d. commit_upload E args s = (r, s') \<and>
    spool_at contents (sv_stream E) d (filePath (sv_uploadDirectory E) (k @ ''.pfrs'')) m checksum planes \<and>
    responseOk (sv_variant E) r = fst (be_submitSpooledJob (sv_backend E)
      (with_disk_fields m (filePath (sv_uploadDirectory E) (k @ ''.pfrs'')) checksum) (up_settings u) d (srv_backend s)) \<and>
    map_of (srv_uploads s') k = None \<and>
    srv_backend s' = snd (be_submitSpooledJob (sv_backend E)
      (with_disk_fields m (filePath (sv_uploadDirectory E) (k @ ''.pfrs'')) checksum) (up_settings u) d (srv_backend s)) \<and>
    contents (srv_disk s') = (contents (srv_disk s))(uploadPath (sv_uploadDirectory E) k := None,
      filePath (sv_uploadDirectory E) (k @ ''.pfrs'') := None)"
proof -
  let ?p = "uploadPath (sv_uploadDirectory E) k" and ?f = "filePath (sv_uploadDirectory E) (k @ ''.pfrs'')"
  have m: "map_of (srv_uploads s) k = Some u" "up_partialPath u = ?p"
    "contents (srv_disk s) ?p = Some (encodeHeader (sv_stream E) m checksum @ concat (concat planes))"
    using u by (simp_all add: upload_at_def)
  obtain d where d: "renameFile (sv_disk E) ?p ?f (srv_disk s) = Some d"
    using store.renameFile_ok [of "srv_disk s" ?p ?f] m(3) free by auto
  have c: "contents d = (contents (srv_disk s))(?p := None, ?f := contents (srv_disk s) ?p)"
    by (rule files.renameFile_law [OF d])
  have at: "spool_at contents (sv_stream E) d ?f m checksum planes"
    using spool c m(3) by (simp add: spool_at_def)
  let ?up = "with_disk_fields m ?f checksum"
  have same: "same_raster ?up (up_expectedSpool u)"
    by (simp add: announced same_raster_def with_disk_fields_def)
  have path: "sp_path (with_disk_fields m p q) = p" "sp_sha256 (with_disk_fields m p q) = q" for p q
    by (simp_all add: with_disk_fields_def)
  have "spool_verify (sv_disk E) (sv_stream E) (sv_sha E) (\<lambda>_. False) ?up d = Inr ()"
    using store.readMetadata_ok [OF at] store.spoolChecksum_ok [OF at, of "\<lambda>_. False" "sv_sha E"] sha
    by (simp add: spool_verify_def path)
  then have up: "uploaded_spool E ?f (up_expectedSpool u) d = Inr ?up"
    using store.readMetadata_ok [OF at] same by (simp add: uploaded_spool_def Let_def)
  have fin: "contents (removeFile (sv_disk E) ?f d) = (contents (srv_disk s))(?p := None, ?f := None)"
    by (simp add: files.removeFile_law c)
  obtain ok b where be: "be_submitSpooledJob (sv_backend E) ?up (up_settings u) d (srv_backend s) = (ok, b)"
    by fastforce
  let ?s = "s\<lparr>srv_uploads := AList.delete k (srv_uploads s), srv_backend := b,
    srv_disk := removeFile (sv_disk E) ?f d, srv_printing := True\<rparr>"
  let ?r = "response E ok (no_result E) (backend_error E ?s) ?s"
  have "commit_upload E args s = (fst ?r, (snd ?r)\<lparr>srv_printing := False\<rparr>)"
    using m full d up be args
    by (simp add: commit_upload_def Let_def final_upload_path split_def)
  then show ?thesis
    using at be fin
    by (intro exI [of _ "fst ?r"] exI [of _ "(snd ?r)\<lparr>srv_printing := False\<rparr>"] exI [of _ d])
      (simp add: response_parts delete_conv', simp add: response_def serviceState_def Let_def)
qed

lemma announce_spool_at:
  assumes A: "spool_at files (sv_stream E) dc path m checksum planes" and fmt: "uint (sp_format m) \<le> 2"
    and c: "length checksum = 32"
  shows "announceable (with_disk_fields m path checksum)"
    and "unat (HeaderBytes + sp_bodyBytes m) = length (encodeHeader (sv_stream E) m checksum @ concat (concat planes))"
    and "length (encodeHeader (sv_stream E) m checksum @ concat (concat planes)) < 2 ^ 63"
proof -
  have f: "spool_file m (encodeHeader (sv_stream E) m checksum @ concat (concat planes))"
    using A by (simp add: spool_at_def)
  then have v: "metadataIsValid m = Inr ()" "spool_typed m" and bb: "sp_bodyBytes m = expectedBodyBytes m"
    and len: "length (encodeHeader (sv_stream E) m checksum @ concat (concat planes)) = 4096 + body_size m"
    by (simp_all add: spool_file_def)
  note vf = valid_fields [OF v(1)]
  have b: "unat (expectedBodyBytes m) = body_size m" "int (body_size m) < 2 ^ 62" using valid_layout(3,4) [OF v] by simp_all
  have "expectedBodyBytes m \<noteq> 0" using v(1) by (auto simp: metadataIsValid_def Let_def split: if_splits)
  then show "announceable (with_disk_fields m path checksum)"
    using v vf(8,10) bb fmt c
    by (simp add: announceable_def spool_submittable_def)
      (simp add: with_disk_fields_def HeaderBytes_def)
  show "unat (HeaderBytes + sp_bodyBytes m) = length (encodeHeader (sv_stream E) m checksum @ concat (concat planes))"
    unfolding len bb using b by (subst unat_add_lem [THEN iffD1]) (auto simp: HeaderBytes_def)
  show "length (encodeHeader (sv_stream E) m checksum @ concat (concat planes)) < 2 ^ 63"
    unfolding len using b(2) by simp
qed

definition upload_reply :: "'v qvariant \<Rightarrow> string \<Rightarrow> 'v vmap" where
  "upload_reply Q k = [''uploadId'' \<mapsto> ofStr Q k, ''chunkBytes'' \<mapsto> ofInt Q (1024 * 1024)]"

lemma upload_reply_id: "toStr (sv_variant E) (valueAt (sv_variant E) (upload_reply (sv_variant E) k) ''uploadId'') = k"
  by (simp add: upload_reply_def valueAt_def variants.variant_simps)

lemma upload_reply_size:
  "nat (clamp (vmLongLong (sv_variant E) (upload_reply (sv_variant E) k) ''chunkBytes'' (1024 * 1024)) 1 (1024 * 1024)) = 1024 * 1024"
  by (simp add: upload_reply_def vmLongLong_def variants.variant_simps fits_int_def int_min_def int_max_def clamp_def)

definition begun :: "(nat \<Rightarrow> string) \<Rightarrow> spool \<Rightarrow> bytes \<Rightarrow> print_settings \<Rightarrow> ('d, 'b) server \<Rightarrow> ('d, 'b) server \<Rightarrow> string \<Rightarrow> upload \<Rightarrow> bool" where
  \<comment> \<open>the service has an empty upload for the announced spool\<close>
  "begun uuid m checksum settings s t k u \<longleftrightarrow>
     (\<exists>n. k = uuid n) \<and> upload_at contents (sv_uploadDirectory E) t k u [] \<and>
     up_expectedBytes u = HeaderBytes + sp_bodyBytes m \<and> up_expectedSpool u = with_disk_fields m [] checksum \<and>
     up_settings u = settings \<and> only_file contents (uploadPath (sv_uploadDirectory E) k) (srv_disk s) (srv_disk t) \<and>
     probed E s t"

lemma upload_begins:
  assumes L: "linked E now uuid C"
    and spool: "spool_at files (sv_stream E) d path m checksum planes" and len: "length checksum = 32"
    and fmt: "uint (sp_format m) \<le> 2" and st: "settings_typed settings"
    and room: "enough_storage E (HeaderBytes + sp_bodyBytes m)" and idle: "\<not> srv_printing (fst (cl_world c))"
  shows "\<exists>w c2 r c3 k u. snd (cl_world c3) = snd (cl_world c) + 4 \<and> ensureService C c = (True, c\<lparr>cl_world := w\<rparr>) \<and>
    require_streaming C (printerIndex settings) (c\<lparr>cl_world := w\<rparr>) = (True, c2) \<and>
    request C ''beginRasterUpload'' (begin_arguments (sv_variant E) (with_disk_fields m path checksum) settings) [] c2 = (r, c3) \<and>
    responseOk (sv_variant E) r \<and> valueAt (sv_variant E) r ''result'' = ofMap (sv_variant E) (upload_reply (sv_variant E) k) \<and>
    cl_disk c2 = cl_disk c \<and> cl_disk c3 = cl_disk c \<and>
    begun uuid m checksum settings (fst (cl_world c)) (fst (cl_world c3)) k u"
proof -
  let ?Q = "sv_variant E" and ?sp = "with_disk_fields m path checksum" and ?dir = "sv_uploadDirectory E"
  have sp: "sp_bodyOffset ?sp = HeaderBytes" "sp_bodyBytes ?sp = sp_bodyBytes m" "?sp\<lparr>sp_path := []\<rparr> = with_disk_fields m [] checksum"
    by (simp_all add: with_disk_fields_def)
  obtain s1 n1 where e1: "ensureService C c = (True, c\<lparr>cl_world := (s1, n1)\<rparr>)" "n1 = Suc (snd (cl_world c))" "idle_step E (fst (cl_world c)) s1"
    using ensureService_served [OF L, of c] by auto
  obtain c2 where c2: "require_streaming C (printerIndex settings) (c\<lparr>cl_world := (s1, n1)\<rparr>) = (True, c2)"
    "idle_step E s1 (fst (cl_world c2))" "cl_disk c2 = cl_disk c" "snd (cl_world c2) = Suc n1"
    using require_streaming_served [OF L, of "printerIndex settings" "c\<lparr>cl_world := (s1, n1)\<rparr>"] by auto
  obtain r c3 where r: "request C ''beginRasterUpload'' (begin_arguments ?Q ?sp settings) [] c2 = (r, c3)" by fastforce
  obtain s n where s: "idle_step E (fst (cl_world c2)) s" "cl_disk c3 = cl_disk c"
    "r = fst (handleRequest E (now n) (uuid n) (request_message ?Q ''beginRasterUpload'' (begin_arguments ?Q ?sp settings) []) s)"
    "fst (cl_world c3) = snd (handleRequest E (now n) (uuid n) (request_message ?Q ''beginRasterUpload'' (begin_arguments ?Q ?sp settings) []) s)"
    "snd (cl_world c3) = snd (cl_world c2) + 2"
    using request_served [OF L r] c2(3) by auto
  have same: "idle_step E (fst (cl_world c)) s" using e1(3) c2(2) s(1) by (blast intro: idle_step_trans)
  then have idle_s: "\<not> srv_printing s" and disk_s: "srv_disk s = srv_disk (fst (cl_world c))"
    using idle by (simp_all add: keeps_uploads_def idle_step_def)
  have room': "enough_storage E (sp_bodyOffset ?sp + sp_bodyBytes ?sp)" using room by (simp add: sp)
  obtain q s3 u where b: "begin_upload E (now n) (uuid n) (begin_arguments ?Q ?sp settings) s = (q, s3)" "responseOk ?Q q"
    "valueAt ?Q q ''result'' = ofMap ?Q (upload_reply ?Q (uuid n))"
    "upload_at contents ?dir s3 (uuid n) u []" "up_expectedBytes u = HeaderBytes + sp_bodyBytes m"
    "up_expectedSpool u = with_disk_fields m [] checksum" "up_settings u = settings"
    "only_file contents (uploadPath ?dir (uuid n)) (srv_disk s) (srv_disk s3)" "probed E s s3"
    using begin_accepts [OF announce_spool_at(1) [OF spool fmt len] st room' idle_s, of "now n" "uuid n"]
    by (auto simp: sp upload_reply_def)
  have "fst (cl_world c3) = s3" "r = q"
    using s(3,4) b(1) by (simp_all add: handle_upload_commands(1) [OF L idle_s])
  moreover have "probed E (fst (cl_world c)) s3"
    using probed_trans [OF _ b(9)] same by (simp add: idle_step_def)
  ultimately show ?thesis
    using e1(1,2) c2 r s(2,5) b disk_s unfolding begun_def
    by (intro exI [of _ "(s1, n1)"] exI [of _ c2] exI [of _ r] exI [of _ c3] exI [of _ "uuid n"] exI [of _ u]) auto
qed

lemma upload_commits:
  assumes L: "linked E now uuid C"
    and v: "upload_at contents (sv_uploadDirectory E) (fst (cl_world c)) k v (encodeHeader (sv_stream E) m checksum @ concat (concat planes))"
    and full: "up_receivedBytes v = up_expectedBytes v" and ann: "up_expectedSpool v = with_disk_fields m [] checksum"
    and spool: "spool_at files (sv_stream E) d0 path m checksum planes"
    and sum: "checksum = sv_sha E (encodeHeader (sv_stream E) m [] @ concat (concat planes))" "length checksum = 32"
    and free: "contents (srv_disk (fst (cl_world c))) (filePath (sv_uploadDirectory E) (k @ ''.pfrs'')) = None"
  shows "\<exists>r c' d b. snd (cl_world c') = snd (cl_world c) + 2 \<and> request C ''commitRasterUpload'' (upload_argument (sv_variant E) k) [] c = (r, c') \<and>
    spool_at contents (sv_stream E) d (filePath (sv_uploadDirectory E) (k @ ''.pfrs'')) m checksum planes \<and>
    responseOk (sv_variant E) r = fst (be_submitSpooledJob (sv_backend E)
       (with_disk_fields m (filePath (sv_uploadDirectory E) (k @ ''.pfrs'')) checksum) (up_settings v) d b) \<and>
    (\<lambda>b c. c = snd (be_isAvailable (sv_backend E) b))^** (srv_backend (fst (cl_world c))) b \<and>
    srv_backend (fst (cl_world c')) = snd (be_submitSpooledJob (sv_backend E)
       (with_disk_fields m (filePath (sv_uploadDirectory E) (k @ ''.pfrs'')) checksum) (up_settings v) d b) \<and>
    map_of (srv_uploads (fst (cl_world c'))) k = None \<and>
    contents (srv_disk (fst (cl_world c'))) = (contents (srv_disk (fst (cl_world c))))
      (uploadPath (sv_uploadDirectory E) k := None, filePath (sv_uploadDirectory E) (k @ ''.pfrs'') := None)"
proof -
  let ?Q = "sv_variant E" and ?dir = "sv_uploadDirectory E"
  obtain r c' where r: "request C ''commitRasterUpload'' (upload_argument ?Q k) [] c = (r, c')" by fastforce
  obtain t j where t: "idle_step E (fst (cl_world c)) t"
    "r = fst (handleRequest E (now j) (uuid j) (request_message ?Q ''commitRasterUpload'' (upload_argument ?Q k) []) t)"
    "fst (cl_world c') = snd (handleRequest E (now j) (uuid j) (request_message ?Q ''commitRasterUpload'' (upload_argument ?Q k) []) t)"
    "snd (cl_world c') = snd (cl_world c) + 2"
    using request_served [OF L r] by auto
  have vt: "upload_at contents ?dir t k v (encodeHeader (sv_stream E) m checksum @ concat (concat planes))"
    using t(1) v by (auto simp: idle_step_def intro: keeps_upload_at)
  then have idle: "\<not> srv_printing t" by (simp add: upload_at_def)
  have arg: "toStr ?Q (valueAt ?Q (upload_argument ?Q k) ''uploadId'') = k"
    by (simp add: upload_argument_def valueAt_def variants.variant_simps)
  have disk: "srv_disk t = srv_disk (fst (cl_world c))" using t(1) by (simp add: idle_step_def keeps_uploads_def)
  then have free': "contents (srv_disk t) (filePath ?dir (k @ ''.pfrs'')) = None" using free by simp
  obtain q s' d where cm: "commit_upload E (upload_argument ?Q k) t = (q, s')"
    "spool_at contents (sv_stream E) d (filePath ?dir (k @ ''.pfrs'')) m checksum planes"
    "responseOk ?Q q = fst (be_submitSpooledJob (sv_backend E) (with_disk_fields m (filePath ?dir (k @ ''.pfrs'')) checksum)
       (up_settings v) d (srv_backend t))"
    "map_of (srv_uploads s') k = None"
    "srv_backend s' = snd (be_submitSpooledJob (sv_backend E) (with_disk_fields m (filePath ?dir (k @ ''.pfrs'')) checksum)
       (up_settings v) d (srv_backend t))"
    "contents (srv_disk s') = (contents (srv_disk t))(uploadPath ?dir k := None, filePath ?dir (k @ ''.pfrs'') := None)"
    using commit_submits [OF vt arg full ann spool sum free'] by blast
  have "fst (cl_world c') = s'" "r = q"
    using t(2,3) cm(1) by (simp_all add: handle_upload_commands(4) [OF L idle])
  then show ?thesis
    using r cm disk t(1,4) by (intro exI [of _ r] exI [of _ c'] exI [of _ d] exI [of _ "srv_backend t"])
      (simp add: idle_step_def probed_def)
qed

lemma received_all:
  assumes "upload_at contents dir s k v f" "same_upload u v" "unat (up_expectedBytes u) = length f"
  shows "up_receivedBytes v = up_expectedBytes v"
proof -
  have "up_receivedBytes v = of_nat (unat (up_expectedBytes u))" using assms by (simp only: upload_at_def)
  then show ?thesis using assms(2) by (simp add: same_upload_def)
qed

lemma upload_delivers:
  assumes L: "linked E now uuid C" and D: "reliable_store (ce_disk C) files (sv_stream E)"
    and spool: "spool_at files (sv_stream E) (cl_disk c) path m checksum planes"
    and sum: "checksum = sv_sha E (encodeHeader (sv_stream E) m [] @ concat (concat planes))" "length checksum = 32"
    and fmt: "uint (sp_format m) \<le> 2" and st: "settings_typed settings"
    and room: "enough_storage E (HeaderBytes + sp_bodyBytes m)" and idle: "\<not> srv_printing (fst (cl_world c))"
    and fresh: "\<And>n. uuid n \<noteq> []"
      "\<And>n. contents (srv_disk (fst (cl_world c))) (filePath (sv_uploadDirectory E) (uuid n @ ''.pfrs'')) = None"
    and go: "\<And>i. \<not> verifyCanceled i" "\<And>i. \<not> canceled i"
  shows "\<exists>k d b c'. submitSpooledJob C verifyCanceled canceled (with_disk_fields m path checksum) settings c =
      (fst (be_submitSpooledJob (sv_backend E)
         (with_disk_fields m (filePath (sv_uploadDirectory E) (k @ ''.pfrs'')) checksum) settings d b), c') \<and>
    spool_at contents (sv_stream E) d (filePath (sv_uploadDirectory E) (k @ ''.pfrs'')) m checksum planes \<and>
    (\<lambda>b c. c = snd (be_isAvailable (sv_backend E) b))^** (srv_backend (fst (cl_world c))) b \<and>
    srv_backend (fst (cl_world c')) = snd (be_submitSpooledJob (sv_backend E)
       (with_disk_fields m (filePath (sv_uploadDirectory E) (k @ ''.pfrs'')) checksum) settings d b) \<and>
    map_of (srv_uploads (fst (cl_world c'))) k = None \<and>
    contents (srv_disk (fst (cl_world c'))) = (contents (srv_disk (fst (cl_world c))))
      (uploadPath (sv_uploadDirectory E) k := None, filePath (sv_uploadDirectory E) (k @ ''.pfrs'') := None) \<and>
    snd (cl_world c') = snd (cl_world c) + 6 +
      2 * ((length (encodeHeader (sv_stream E) m checksum @ concat (concat planes)) + 1024 * 1024 - 1) div (1024 * 1024))"
proof -
  let ?Q = "sv_variant E" and ?sp = "with_disk_fields m path checksum" and ?dir = "sv_uploadDirectory E"
  let ?f = "encodeHeader (sv_stream E) m checksum @ concat (concat planes)"
  let ?n = "HeaderBytes + sp_bodyBytes m" and ?c0 = "c\<lparr>cl_uploadActive := True\<rparr>"
  have sp: "sp_path ?sp = path" "sp_bodyOffset ?sp = HeaderBytes" "sp_bodyBytes ?sp = sp_bodyBytes m"
    by (simp_all add: with_disk_fields_def)
  note an = announce_spool_at [OF spool fmt sum(2)]
  have fle: "files (cl_disk c) path = Some ?f" using spool by (simp add: spool_at_def)
  have ok: "spool_verify (ce_disk C) (sv_stream E) (sv_sha E) verifyCanceled ?sp (cl_disk c) = Inr ()"
    by (rule reliable_store.verify_ok [where sha = "sv_sha E", OF D spool go(1) sum])
  have idle0: "\<not> srv_printing (fst (cl_world ?c0))" using idle by simp
  obtain w c2 r c3 k u where n3: "snd (cl_world c3) = snd (cl_world c) + 4" and b: "ensureService C ?c0 = (True, ?c0\<lparr>cl_world := w\<rparr>)"
    "require_streaming C (printerIndex settings) (?c0\<lparr>cl_world := w\<rparr>) = (True, c2)"
    "request C ''beginRasterUpload'' (begin_arguments ?Q ?sp settings) [] c2 = (r, c3)" "responseOk ?Q r"
    "valueAt ?Q r ''result'' = ofMap ?Q (upload_reply ?Q k)" "cl_disk c2 = cl_disk c" "cl_disk c3 = cl_disk c"
    and begun: "begun uuid m checksum settings (fst (cl_world c)) (fst (cl_world c3)) k u"
    using upload_begins [OF L spool sum(2) fmt st room idle0] by auto
  have kne: "k \<noteq> []" using begun fresh(1) by (auto simp: begun_def)
  have u0: "upload_at contents ?dir (fst (cl_world c3)) k u (take 0 ?f)" using begun by (simp add: begun_def)
  have eb: "unat (up_expectedBytes u) = length ?f" using begun an(2) by (simp add: begun_def del: length_append)
  have file3: "files (cl_disk c3) path = Some ?f" using fle b(7) by simp
  have mb: "0 < (1024 * 1024 :: nat)" "1024 * 1024 \<le> (1024 * 1024 :: nat)" by simp_all
  obtain c4 v where up: "upload_chunks C canceled path k (1024 * 1024) (length ?f) 0 c3 = (True, c4)"
    "upload_at contents ?dir (fst (cl_world c4)) k v ?f" "same_upload u v"
    "only_file contents (uploadPath ?dir k) (srv_disk (fst (cl_world c3))) (srv_disk (fst (cl_world c4)))"
    "probed E (fst (cl_world c3)) (fst (cl_world c4))"
    "snd (cl_world c4) = snd (cl_world c3) + 2 * ((length ?f - 0 + 1024 * 1024 - 1) div (1024 * 1024))"
    using chunks_arrive [where canceled = canceled, OF L D file3 mb kne go(2) u0 eb an(3)] by blast
  let ?c5 = "c4\<lparr>cl_uploadActive := False\<rparr>"
  have full: "up_receivedBytes v = up_expectedBytes v"
    by (rule received_all [OF up(2,3) eb])
  have ann: "up_expectedSpool v = with_disk_fields m [] checksum" "up_settings v = settings"
    using up(3) begun by (simp_all add: same_upload_def begun_def)
  have only: "only_file contents (uploadPath ?dir k) (srv_disk (fst (cl_world c))) (srv_disk (fst (cl_world ?c5)))"
    using begun up(4) by (simp add: only_file_def begun_def)
  then have free: "contents (srv_disk (fst (cl_world ?c5))) (filePath ?dir (k @ ''.pfrs'')) = None"
    using fresh(2) begun by (auto simp: only_file_def begun_def)
  have v5: "upload_at contents ?dir (fst (cl_world ?c5)) k v ?f" using up(2) by simp
  obtain q c6 d bk where n6: "snd (cl_world c6) = snd (cl_world ?c5) + 2" and cm: "request C ''commitRasterUpload'' (upload_argument ?Q k) [] ?c5 = (q, c6)"
    "spool_at contents (sv_stream E) d (filePath ?dir (k @ ''.pfrs'')) m checksum planes"
    "responseOk ?Q q = fst (be_submitSpooledJob (sv_backend E) (with_disk_fields m (filePath ?dir (k @ ''.pfrs'')) checksum)
       (up_settings v) d bk)"
    "(\<lambda>b c. c = snd (be_isAvailable (sv_backend E) b))^** (srv_backend (fst (cl_world ?c5))) bk"
    "srv_backend (fst (cl_world c6)) = snd (be_submitSpooledJob (sv_backend E)
       (with_disk_fields m (filePath ?dir (k @ ''.pfrs'')) checksum) (up_settings v) d bk)"
    "map_of (srv_uploads (fst (cl_world c6))) k = None"
    "contents (srv_disk (fst (cl_world c6))) = (contents (srv_disk (fst (cl_world ?c5))))
      (uploadPath ?dir k := None, filePath ?dir (k @ ''.pfrs'') := None)"
    using upload_commits [OF L v5 full ann(1) spool sum free] by blast
  have "of_nat (fileSize (ce_disk C) path (cl_disk c)) = (of_nat (unat ?n) :: u64)"
    by (simp only: reliable_store.fileSize_exact [OF D fle] an(2))
  then have size: "of_nat (fileSize (ce_disk C) path (cl_disk c)) = ?n" by simp
  then have "submitSpooledJob C verifyCanceled canceled ?sp settings c = (responseOk ?Q q, c6\<lparr>cl_uploadActive := False\<rparr>)"
    unfolding submitSpooledJob_def Let_def
    using ok b reliable_store.fileExists_some [OF D fle] up(1) go(2) cm(1) kne upload_reply_id upload_reply_size
    by (simp add: linkedD(1-3) [OF L] sp an(2) requestOk_def begin_arguments_def variants.variant_simps del: length_append)
  moreover have "contents (srv_disk (fst (cl_world c6))) = (contents (srv_disk (fst (cl_world c))))
      (uploadPath ?dir k := None, filePath ?dir (k @ ''.pfrs'') := None)"
    using cm(7) only by (auto simp: only_file_def fun_eq_iff)
  moreover have "(\<lambda>b c. c = snd (be_isAvailable (sv_backend E) b))^** (srv_backend (fst (cl_world c))) bk"
    using begun up(5) cm(4) unfolding begun_def probed_def by (auto intro: rtranclp_trans)
  moreover have "snd (cl_world c6) = snd (cl_world c) + 6 + 2 * ((length ?f + 1024 * 1024 - 1) div (1024 * 1024))"
    using n3 n6 up(6) by (simp del: length_append)
  ultimately show ?thesis
    using cm ann(2)
    by (intro exI [of _ k] exI [of _ d] exI [of _ bk] exI [of _ "c6\<lparr>cl_uploadActive := False\<rparr>"]) simp
qed

end

end
