(* ===== verification/Direct_Print.thy ===== *)
theory Direct_Print
  imports Service_Server Prn_Writer
begin

text \<open>
  \<open>vendor/nocai/NocaiDirectPrintClient\<close>: the driver of the vendor's print library. The
  library is not part of the repository: its functions are the fields of \<open>sdk\<close>, over its
  own state \<open>'k\<close>, and the ones that may be missing are options. What depends on the
  platform (the ARM builds of the driver differ from the others) is the flag \<open>de_arm\<close>.
  Loading the library, entering its directory and the preflight checks of the network
  interface are parameters too. Requests that arrive while a job is printing are reduced to
  the polls of the cancellation flag.
\<close>

section \<open>The vendor library\<close>

record job_settings = \<comment> \<open>\<open>JobSettings\<close>\<close>
  js_PrintDirection :: u16
  js_PrintSpeed :: u16
  js_WCSequence :: u16
  js_EclosionGrade :: u16
  js_HeadSelect :: u16
  js_WInkPercent :: u16
  js_WInkPassCount :: u16
  js_VInkPercent :: u16
  js_VInkPassCount :: u16
  js_HeadVoltage :: u16
  js_DisableUVLights :: "u8 list"
  js_CarReset :: u16
  js_stripBlank :: u16
  js_blankDistance :: u16

record 'k sdk =
  k_searchPrinter :: "'k \<Rightarrow> int \<times> int \<times> string list \<times> 'k" \<comment> \<open>result, \<open>totalNum\<close>, \<open>infoList\<close>\<close>
  k_choosePrinter :: "int \<Rightarrow> 'k \<Rightarrow> int \<times> 'k"
  k_connectPrinter :: "('k \<Rightarrow> int \<times> 'k) option"
  k_initPrinter :: "'k \<Rightarrow> int \<times> 'k"
  k_startPrint :: "u32 list \<Rightarrow> 'k \<Rightarrow> int \<times> 'k"
  k_printALine :: "bytes \<Rightarrow> u32 \<Rightarrow> 'k \<Rightarrow> int \<times> 'k"
  k_abortPrint :: "'k \<Rightarrow> int \<times> 'k"
  k_pausePrint :: "'k \<Rightarrow> int \<times> 'k"
  k_continuePrint :: "'k \<Rightarrow> int \<times> 'k"
  k_endPrint :: "'k \<Rightarrow> int \<times> 'k"
  k_closePrint :: "'k \<Rightarrow> int \<times> 'k"
  k_setJobSettings :: "job_settings \<Rightarrow> 'k \<Rightarrow> int \<times> 'k"
  k_setPrintHeight :: "(u16 \<Rightarrow> 'k \<Rightarrow> int \<times> 'k) option"
  k_getPrintHeight :: "('k \<Rightarrow> int \<times> u16 \<times> 'k) option"
  k_setPrintXYValue :: "(u32 \<Rightarrow> u32 \<Rightarrow> 'k \<Rightarrow> int \<times> 'k) option"
  k_getPrintXYValue :: "('k \<Rightarrow> int \<times> u32 \<times> u32 \<times> 'k) option"
  k_getPrinterStatus :: "('k \<Rightarrow> int \<times> u16 \<times> u16 \<times> 'k) option"
  k_printAlignmentPattern :: "(int \<Rightarrow> 'k \<Rightarrow> int \<times> 'k) option"
  k_closeControlSocket :: "'k \<Rightarrow> 'k"

datatype direct_error =
    SdkResult string int
  | SdkFunctionMissing string
  | SdkFolderMissing
  | SdkLibraryMissing
  | SdkFolderEntry
  | SdkLoad
  | SdkCompatibility
  | SdkSymbols
  | SdkRootUnresolved
  | SdkUnload
  | DiscoveryPermission
  | SearchFirst
  | SelectFirst
  | InterfacePreflight
  | SocketPreflight
  | SocketInitialization
  | RasterEmpty
  | RasterContract
  | NoPrinterSelected
  | OriginNotRestored
  | OriginRejected
  | HeightRange
  | HeightTimeout
  | StartChannel
  | PrintCanceled
  | RasterIndex
  | LineSizeMismatch
  | LineCanceled
  | LineRejected
  | SpoolLine spool_error
  | NozzleOrigin
  | UnknownMaintenance string

section \<open>State\<close>

record ('v, 'k) direct =
  dp_isLoaded :: bool
  dp_symbols :: bool \<comment> \<open>\<open>m_symbolsResolved\<close>\<close>
  dp_sdkRootPath :: string
  dp_resolvedSdkRoot :: string
  dp_autoDiscoverSdk :: bool
  dp_connected :: bool
  dp_error :: "direct_error option" \<comment> \<open>\<open>m_lastError\<close>; \<open>None\<close> is the empty text\<close>
  dp_printers :: "'v list"
  dp_selected :: int
  dp_cancelRequested :: bool
  dp_cancelFile :: bool \<comment> \<open>an isolated worker has a cancellation file\<close>
  dp_originActive :: bool \<comment> \<open>\<open>nonzeroJobOriginActive\<close> of the running job\<close>
  dp_sdk :: 'k

record ('v, 'k) direct_env =
  de_variant :: "'v qvariant"
  de_trim :: "string \<Rightarrow> string"
  de_api :: "'k sdk"
  de_arm :: bool
  de_lacksNetRaw :: bool \<comment> \<open>the service process without \<open>CAP_NET_RAW\<close>\<close>
  de_candidates :: "string list" \<comment> \<open>the environment variable and the application directory\<close>
  de_hasLibrary :: "string \<Rightarrow> bool"
  de_enter :: "string \<Rightarrow> bool" \<comment> \<open>\<open>QDir::setCurrent\<close>\<close>
  de_load :: "string \<Rightarrow> 'k \<Rightarrow> bool \<times> 'k"
  de_unload :: "'k \<Rightarrow> bool \<times> 'k"
  de_cancelFileOpens :: bool
  de_compatible :: bool \<comment> \<open>the ARM command-tag hook installs\<close>
  de_symbolsResolve :: bool
  de_preflight :: "int \<Rightarrow> 'k \<Rightarrow> bool"
  de_clearLocks :: "int \<Rightarrow> 'k \<Rightarrow> bool"

type_synonym ('v, 'k) act = "('v, 'k) direct \<Rightarrow> bool \<times> ('v, 'k) direct"

definition and_then :: "('v, 'k) act \<Rightarrow> ('v, 'k) act \<Rightarrow> ('v, 'k) act" where
  \<comment> \<open>\<open>if (!a) return false; b\<close>\<close>
  "and_then a b s = (let (ok, s) = a s in if ok then b s else (False, s))"

definition setError :: "direct_error \<Rightarrow> ('v, 'k) act" where
  "setError e s = (False, s\<lparr>dp_error := Some e\<rparr>)"

definition callSucceeded :: "int \<Rightarrow> string \<Rightarrow> ('v, 'k) act" where
  "callSucceeded result name s =
     (if result = 1 then (True, s\<lparr>dp_error := None\<rparr>) else setError (SdkResult name result) s)"

definition sdk_call :: "('k \<Rightarrow> int \<times> 'k) \<Rightarrow> string \<Rightarrow> ('v, 'k) act" where
  "sdk_call f name s = (let (r, k) = f (dp_sdk s) in callSucceeded r name (s\<lparr>dp_sdk := k\<rparr>))"

definition sdk_call_opt :: "('k \<Rightarrow> int \<times> 'k) option \<Rightarrow> string \<Rightarrow> ('v, 'k) act" where
  \<comment> \<open>\<open>requireFunction\<close> and the call\<close>
  "sdk_call_opt f name s = (case f of None \<Rightarrow> setError (SdkFunctionMissing name) s | Some f \<Rightarrow> sdk_call f name s)"

section \<open>The library session\<close>

definition resolveSdkRoot :: "('v, 'k) direct_env \<Rightarrow> ('v, 'k) direct \<Rightarrow> string" where
  "resolveSdkRoot E s =
     (case filter (\<lambda>c. de_trim E c \<noteq> [] \<and> de_hasLibrary E c)
        (dp_sdkRootPath s # (if dp_autoDiscoverSdk s then de_candidates E else [])) of
        [] \<Rightarrow> [] | c # _ \<Rightarrow> c)"

definition ensureLoaded :: "('v, 'k) direct_env \<Rightarrow> ('v, 'k) act" where
  "ensureLoaded E s =
     (if dp_isLoaded s then (dp_symbols s, s)
      else let root = resolveSdkRoot E s in
      if root = [] then setError SdkFolderMissing s
      else if \<not> de_hasLibrary E root then setError SdkLibraryMissing s
      else if \<not> de_enter E root then setError SdkFolderEntry s
      else let (loaded, k) = de_load E root (dp_sdk s); s = s\<lparr>dp_sdk := k\<rparr> in
      if \<not> loaded then setError SdkLoad s
      else if de_compatible E \<and> de_symbolsResolve E
      then (True, s\<lparr>dp_isLoaded := True, dp_symbols := True, dp_resolvedSdkRoot := root\<rparr>)
      else let (unloaded, k) = de_unload E k; s = s\<lparr>dp_isLoaded := \<not> unloaded, dp_sdk := k\<rparr> in
      if \<not> de_compatible E then setError SdkCompatibility s
      else setError SdkSymbols (s\<lparr>dp_symbols := False, dp_resolvedSdkRoot := []\<rparr>))"

definition closeArmControlSocket :: "('v, 'k) direct_env \<Rightarrow> ('v, 'k) direct \<Rightarrow> ('v, 'k) direct" where
  "closeArmControlSocket E s =
     (if \<not> de_arm E \<or> \<not> dp_isLoaded s then s
      else s\<lparr>dp_sdk := k_closeControlSocket (de_api E) (dp_sdk s), dp_connected := False, dp_selected := -1\<rparr>)"

definition unloadSdkSession :: "('v, 'k) direct_env \<Rightarrow> ('v, 'k) act" where
  "unloadSdkSession E s =
     (let s = closeArmControlSocket E s;
          (unloaded, k) = (if dp_isLoaded s then de_unload E (dp_sdk s) else (True, dp_sdk s));
          s = s\<lparr>dp_sdk := k, dp_isLoaded := dp_isLoaded s \<and> \<not> unloaded, dp_symbols := False,
                dp_selected := -1, dp_connected := False, dp_printers := []\<rparr> in
      if unloaded then (True, s) else setError SdkUnload s)"

definition setSdkRootPath :: "('v, 'k) direct_env \<Rightarrow> string \<Rightarrow> ('v, 'k) direct \<Rightarrow> ('v, 'k) direct" where
  "setSdkRootPath E path s =
     (let clean = de_trim E path in
      if dp_sdkRootPath s = clean then s
      else snd (unloadSdkSession E (s\<lparr>dp_sdkRootPath := clean, dp_resolvedSdkRoot := []\<rparr>)))"

definition setAutoDiscoverSdk :: "('v, 'k) direct_env \<Rightarrow> bool \<Rightarrow> ('v, 'k) direct \<Rightarrow> ('v, 'k) direct" where
  "setAutoDiscoverSdk E enabled s =
     (if dp_autoDiscoverSdk s = enabled then s
      else snd (unloadSdkSession E (s\<lparr>dp_autoDiscoverSdk := enabled, dp_resolvedSdkRoot := []\<rparr>)))"

definition withSdkWorkingDirectory :: "('v, 'k) direct_env \<Rightarrow> ('v, 'k) act \<Rightarrow> ('v, 'k) act" where
  "withSdkWorkingDirectory E callback s =
     (if dp_resolvedSdkRoot s = [] then setError SdkRootUnresolved s
      else if \<not> de_enter E (dp_resolvedSdkRoot s) then setError SdkFolderEntry s
      else callback s)"

section \<open>Search, choose, connect\<close>

definition printer_entry :: "('v, 'k) direct_env \<Rightarrow> nat \<times> string \<Rightarrow> 'v" where
  "printer_entry E p =
     (let Q = de_variant E in
      ofMap Q [''index'' \<mapsto> ofInt Q (int (fst p)), ''name'' \<mapsto> ofStr Q (de_trim E (snd p))])"

definition refreshPrinters :: "('v, 'k) direct_env \<Rightarrow> ('v, 'k) act" where
  "refreshPrinters E =
     and_then (ensureLoaded E) (\<lambda>s.
       if de_lacksNetRaw E then setError DiscoveryPermission s
       else if de_arm E \<and> dp_connected s then (True, s\<lparr>dp_error := None\<rparr>)
       else let s = s\<lparr>dp_selected := -1, dp_connected := False\<rparr>;
                (ok, total, names, s) =
                  (if dp_resolvedSdkRoot s = [] then (False, 0, [], snd (setError SdkRootUnresolved s))
                   else if \<not> de_enter E (dp_resolvedSdkRoot s) then (False, 0, [], snd (setError SdkFolderEntry s))
                   else let (r, total, names, k) = k_searchPrinter (de_api E) (dp_sdk s);
                            (ok, s) = callSucceeded r ''SearchPrinter'' (s\<lparr>dp_sdk := k\<rparr>)
                        in (ok, total, names, s));
                found = (if ok then map (printer_entry E) (zip [0..<nat (clamp total 0 100)] names) else [])
            in (ok, s\<lparr>dp_printers := found\<rparr>))"

definition choosePrinter :: "('v, 'k) direct_env \<Rightarrow> int \<Rightarrow> ('v, 'k) act" where
  "choosePrinter E index =
     and_then (ensureLoaded E) (\<lambda>s.
       if index = dp_selected s then (True, s)
       else withSdkWorkingDirectory E (\<lambda>s.
         let (ok, s) = sdk_call (k_choosePrinter (de_api E) index) ''ChoosePrinter'' s in
         (ok, if ok then s\<lparr>dp_selected := index, dp_connected := False\<rparr> else s)) s)"

definition selectKnownPrinter :: "('v, 'k) direct_env \<Rightarrow> ('v, 'k) act" where
  "selectKnownPrinter E s =
     (let Q = de_variant E in
      if dp_selected s \<ge> 0 then (True, s)
      else if length (dp_printers s) \<noteq> 1
      then setError (if dp_printers s = [] then SearchFirst else SelectFirst) s
      else choosePrinter E (vmInt Q (toMap Q (hd (dp_printers s))) ''index'' 0) s)"

definition connectPrinter :: "('v, 'k) direct_env \<Rightarrow> ('v, 'k) act" where
  "connectPrinter E =
     and_then (ensureLoaded E) (\<lambda>s.
       case k_connectPrinter (de_api E) of
         None \<Rightarrow> setError (SdkFunctionMissing ''ConnectPrinter'') s
       | Some connect \<Rightarrow>
         if de_arm E \<and> dp_connected s then (True, s\<lparr>dp_error := None\<rparr>)
         else and_then (selectKnownPrinter E) (\<lambda>s.
           if de_arm E \<and> \<not> de_preflight E (dp_selected s) (dp_sdk s) then setError InterfacePreflight s
           else if de_arm E \<and> \<not> de_clearLocks E (dp_selected s) (dp_sdk s) then setError SocketPreflight s
           else let (ok, s) = withSdkWorkingDirectory E (sdk_call connect ''ConnectPrinter'') s;
                    s = (if ok then s
                         else let s = (closeArmControlSocket E s)\<lparr>dp_selected := -1\<rparr> in
                           if de_arm E then snd (setError SocketInitialization s) else s)
                in (ok, s\<lparr>dp_connected := ok\<rparr>)) s)"

section \<open>Aborting\<close>

definition abortPrint :: "('v, 'k) direct_env \<Rightarrow> ('v, 'k) act" where
  \<comment> \<open>while a worker prints, the request is the creation of its cancellation file\<close>
  "abortPrint E s =
     (let s = s\<lparr>dp_cancelRequested := True\<rparr> in
      if dp_cancelFile s then (de_cancelFileOpens E, s)
      else and_then (ensureLoaded E) (sdk_call (k_abortPrint (de_api E)) ''AbortPrint'') s)"

definition pausePrint :: "('v, 'k) direct_env \<Rightarrow> ('v, 'k) act" where
  "pausePrint E = and_then (ensureLoaded E) (sdk_call (k_pausePrint (de_api E)) ''PausePrint'')"

definition continuePrint :: "('v, 'k) direct_env \<Rightarrow> ('v, 'k) act" where
  "continuePrint E = and_then (ensureLoaded E) (sdk_call (k_continuePrint (de_api E)) ''ContinuePrint'')"

fun poll_cancelled :: "('k \<Rightarrow> int \<times> u16 \<times> u16 \<times> 'k) \<Rightarrow> nat \<Rightarrow> 'k \<Rightarrow> bool \<times> 'k" where
  \<comment> \<open>the status polls: 4 is cancelled, 0 standby\<close>
  "poll_cancelled status 0 k = (False, k)"
| "poll_cancelled status (Suc n) k =
     (case status k of (r, printStatus, cleanStatus, k) \<Rightarrow>
        if r = 1 \<and> (printStatus = 4 \<or> printStatus = 0) then (True, k) else poll_cancelled status n k)"

definition abortActivePrint :: "('v, 'k) direct_env \<Rightarrow> ('v, 'k) act" where
  \<comment> \<open>\<open>abortActivePrintAndWaitForController\<close>\<close>
  "abortActivePrint E s =
     (let api = de_api E; (aborted, k) = k_abortPrint api (dp_sdk s) in
      if aborted \<noteq> 1 then (False, s\<lparr>dp_sdk := snd (k_closePrint api k)\<rparr>)
      else let (acknowledged, k) =
                 (case k_getPrinterStatus api of None \<Rightarrow> (False, k) | Some status \<Rightarrow> poll_cancelled status 10 k);
               (closed, k) = k_closePrint api k
           in (closed = 1 \<and> (acknowledged \<or> k_getPrinterStatus api = None), s\<lparr>dp_sdk := k\<rparr>))"

end
