(* ===== verification/Direct_Job.thy ===== *)
theory Direct_Job
  imports Direct_Print
begin

text \<open>
  Printing through the vendor library: the job header and settings, the print origin that
  one job may move and that is put back whatever happens, the print height, the lines in
  row order, and the ways a job ends. A job reads its lines from the planes in memory or
  from the reader of a spool.
\<close>

section \<open>Settings and units\<close>

definition clampInt :: "int \<Rightarrow> int \<Rightarrow> int \<Rightarrow> int" where
  "clampInt v lo hi = max lo (min hi v)"

definition millimetersToPrintXYUnits :: "int \<Rightarrow> u32" where
  "millimetersToPrintXYUnits mm = of_nat (min (nat (max 0 mm) * 100) (2 ^ 32 - 1))"

definition makeJobSettings :: "print_settings \<Rightarrow> job_settings" where
  "makeJobSettings s =
     \<lparr>js_PrintDirection = cast16 (clampInt (printDirection s) 0 3),
      js_PrintSpeed = cast16 (clampInt (printSpeed s) 0 3),
      js_WCSequence = cast16 (clampInt (wcSequence s) 0 1),
      js_EclosionGrade = cast16 (clampInt (eclosionGrade s) 0 3),
      js_HeadSelect = cast16 (clampInt (headSelect s) 0 2),
      js_WInkPercent = cast16 (clampInt (whiteInkPercent s) 0 9),
      js_WInkPassCount = cast16 (clampInt (whiteInkPassCount s) 0 255),
      js_VInkPercent = cast16 (clampInt (varnishInkPercent s) 0 9),
      js_VInkPassCount = cast16 (clampInt (varnishInkPassCount s) 0 255),
      js_HeadVoltage = cast16 (clampInt (headVoltage s) 400 600),
      js_DisableUVLights = map (\<lambda>v. cast8 (clampInt v 0 1))
        [disableUv0 s, disableUv1 s, disableUv2 s, disableUv3 s, disableUv4 s, disableUv5 s],
      js_CarReset = cast16 (clampInt (carReset s) 0 1),
      js_stripBlank = cast16 (clampInt (stripBlank s) 0 2),
      js_blankDistance = cast16 (clampInt (blankDistance s) 0 65535)\<rparr>"

definition encodePrintHeightMm :: "rat \<Rightarrow> direct_error + u16" where
  "encodePrintHeightMm heightMm =
     (if heightMm < 0 \<or> heightMm > 152 then Inl HeightRange
      else Inr (cast16 (lround (fl64 (heightMm * 100)))))"

definition job_property :: "bool \<Rightarrow> raster \<Rightarrow> print_settings \<Rightarrow> int \<Rightarrow> direct_error + u32 list" where
  \<comment> \<open>the twelve words of \<open>PrintJobProperty\<close>\<close>
  "job_property arm r settings bytesPerLine =
     (if ra_format r = 1 then
        if ra_header r \<noteq> makeStandardX33Header (ra_width r) (ra_height r) (ra_xdpi r) (ra_ydpi r) bytesPerLine
             (int (length (ra_order r))) \<or> (ra_order r \<noteq> ymck \<and> ra_order r \<noteq> ymckww)
        then Inl RasterContract
        else Inr (if arm then makeStandardX33SdkHeader (ra_header r) else ra_header r)
      else Inr [0x5555, cast32 (max 1 (ra_xdpi r)), cast32 (max 1 (ra_ydpi r)), cast32 (max 0 bytesPerLine),
        cast32 (max 0 (ra_height r)), cast32 (max 0 (ra_width r)), 0, cast32 (int (length (ra_order r))), 1,
        cast32 (max 0 (print_pass settings)), cast32 (max 0 (vsdMode settings)), 0])"

section \<open>The print origin\<close>

definition resetJobOrigin :: "('v, 'k) direct_env \<Rightarrow> bool \<Rightarrow> ('v, 'k) act" where
  "resetJobOrigin E preserveExistingError s =
     (if \<not> dp_originActive s then (True, s)
      else let existing = dp_error s; api = de_api E; k = dp_sdk s;
               (reset, k) = (case k_setPrintXYValue api of None \<Rightarrow> (False, k)
                             | Some f \<Rightarrow> let (r, k) = f 0 0 k in (r = 1, k));
               (reset, k) = (if \<not> reset then (False, k)
                             else case k_getPrintXYValue api of None \<Rightarrow> (False, k)
                             | Some f \<Rightarrow> (case f k of (r, x, y, k) \<Rightarrow> (r = 1 \<and> x = 0 \<and> y = 0, k)));
               e = (if preserveExistingError \<and> existing \<noteq> None then existing
                    else if reset then existing else Some OriginNotRestored)
           in (reset, s\<lparr>dp_originActive := False, dp_sdk := k, dp_error := e\<rparr>))"

definition get_origin :: "('v, 'k) direct_env \<Rightarrow> string \<Rightarrow> ('v, 'k) direct \<Rightarrow> (bool \<times> u32 \<times> u32) \<times> ('v, 'k) direct" where
  "get_origin E name s =
     (case k_getPrintXYValue (de_api E) of
        None \<Rightarrow> ((False, 0, 0), snd (setError (SdkFunctionMissing name) s))
      | Some f \<Rightarrow> (case f (dp_sdk s) of (r, x, y, k) \<Rightarrow>
          let (ok, s) = callSucceeded r name (s\<lparr>dp_sdk := k\<rparr>) in ((ok, x, y), s)))"

definition set_origin :: "('v, 'k) direct_env \<Rightarrow> string \<Rightarrow> u32 \<Rightarrow> u32 \<Rightarrow> ('v, 'k) act" where
  "set_origin E name x y = sdk_call_opt (map_option (\<lambda>f. f x y) (k_setPrintXYValue (de_api E))) name"

definition prepareX33PrintOrigin :: "('v, 'k) direct_env \<Rightarrow> print_settings \<Rightarrow> ('v, 'k) act" where
  "prepareX33PrintOrigin E settings s =
     (if k_setPrintXYValue (de_api E) = None then setError (SdkFunctionMissing ''SetPrintXYValue'') s
      else if k_getPrintXYValue (de_api E) = None then setError (SdkFunctionMissing ''GetPrintXYValue'') s
      else let x = millimetersToPrintXYUnits (printOffsetXmm settings);
               y = millimetersToPrintXYUnits (printOffsetYmm settings);
               ((ok, ax, ay), s) = get_origin E ''GetPrintXYValue''
                 (s\<lparr>dp_originActive := x \<noteq> 0 \<or> y \<noteq> 0\<rparr>) in
      if \<not> ok then (False, s)
      else let move = \<not> de_arm E \<or> ax \<noteq> x \<or> ay \<noteq> y;
               (ok, s) = (if move then set_origin E ''SetPrintXYValue'' x y s else (True, s)) in
      if \<not> ok then (False, s)
      else let ((ok, ax, ay), s) = (if move then get_origin E ''GetPrintXYValue after SetPrintXYValue'' s else ((True, ax, ay), s)) in
      if \<not> ok then (False, s)
      else if ax \<noteq> x \<or> ay \<noteq> y then setError OriginRejected s
      else (True, s))"

section \<open>The print height\<close>

fun await_height :: "('k \<Rightarrow> int \<times> u16 \<times> 'k) \<Rightarrow> u16 \<Rightarrow> nat \<Rightarrow> 'k \<Rightarrow> bool \<times> 'k" where
  "await_height get target 0 k = (False, k)"
| "await_height get target (Suc n) k =
     (case get k of (r, h, k) \<Rightarrow> if r = 1 \<and> h = target then (True, k) else await_height get target n k)"

definition applyMediaHeight :: "('v, 'k) direct_env \<Rightarrow> print_settings \<Rightarrow> ('v, 'k) act" where
  "applyMediaHeight E settings s =
     (if mediaHeightMm settings < 0 then (True, s)
      else case k_setPrintHeight (de_api E) of
        None \<Rightarrow> setError (SdkFunctionMissing ''SetPrintHeight'') s
      | Some setHeight \<Rightarrow>
        (case k_getPrintHeight (de_api E) of
           None \<Rightarrow> setError (SdkFunctionMissing ''GetPrintHeight'') s
         | Some getHeight \<Rightarrow>
           (case encodePrintHeightMm (mediaHeightMm settings) of
              Inl e \<Rightarrow> setError e s
            | Inr target \<Rightarrow>
              (case getHeight (dp_sdk s) of (r, current, k) \<Rightarrow>
                 let s = s\<lparr>dp_sdk := k\<rparr> in
                 if r = 1 \<and> current = target then (True, s)
                 else and_then (sdk_call (setHeight target) ''SetPrintHeight'') (\<lambda>s.
                   let (reached, k) = await_height getHeight target 240 (dp_sdk s); s = s\<lparr>dp_sdk := k\<rparr> in
                   if reached then (True, s) else setError HeightTimeout s) s))))"

section \<open>Lines\<close>

type_synonym line_source = "int \<Rightarrow> int \<Rightarrow> direct_error + bytes" \<comment> \<open>channel and row\<close>

definition planes_line :: "plane list \<Rightarrow> line_source" where
  "planes_line planes ch row =
     (if row < 0 \<or> row \<ge> int (length (planes ! nat ch)) then Inl RasterIndex
      else Inr (planes ! nat ch ! nat row))"

definition spool_line :: "'d disk \<Rightarrow> reader \<Rightarrow> 'd \<Rightarrow> line_source" where
  "spool_line D R d ch row =
     (case reader_readLine D R ch row d of Inl e \<Rightarrow> Inl (SpoolLine e) | Inr line \<Rightarrow> Inr line)"

definition give_up :: "('v, 'k) direct_env \<Rightarrow> direct_error \<Rightarrow> ('v, 'k) act" where
  \<comment> \<open>\<open>setError(...); abortActivePrintAndWaitForController(); return false\<close>\<close>
  "give_up E e s = (False, snd (abortActivePrint E (snd (setError e s))))"

record line_poll =
  \<comment> \<open>what comes in from outside at a line: whether the cancellation is seen there (the worker's file
    exists, or another thread has raised the flag), and how many requests to abort the event loop handles\<close>
  cancel_seen :: bool
  abort_requests :: nat

definition quiet_poll :: line_poll where
  "quiet_poll = \<lparr>cancel_seen = False, abort_requests = 0\<rparr>"

primrec handle_aborts :: "('v, 'k) direct_env \<Rightarrow> nat \<Rightarrow> ('v, 'k) direct \<Rightarrow> ('v, 'k) direct" where
  \<comment> \<open>\<open>QCoreApplication::processEvents\<close>: the requests run inside the job, the mutex is recursive\<close>
  "handle_aborts E 0 s = s"
| "handle_aborts E (Suc n) s = handle_aborts E n (snd (abortPrint E s))"

definition send_line ::
  "('v, 'k) direct_env \<Rightarrow> line_source \<Rightarrow> nat \<Rightarrow> u32 \<Rightarrow> nat \<times> int \<Rightarrow> ('v, 'k) act" where
  \<comment> \<open>one plane of one row\<close>
  "send_line E src planeCount bytesPerLine cell s =
     (case cell of (row, ch) \<Rightarrow>
       if ch < 0 \<or> ch \<ge> int planeCount then give_up E RasterIndex s
       else case src ch (int row) of
         Inl e \<Rightarrow> give_up E e s
       | Inr line \<Rightarrow>
         if length line \<noteq> unat bytesPerLine then give_up E LineSizeMismatch s
         else let (written, k) = k_printALine (de_api E) line bytesPerLine (dp_sdk s); s = s\<lparr>dp_sdk := k\<rparr> in
           if written \<noteq> sint bytesPerLine then
             give_up E (if written = -1 then LineCanceled else LineRejected) s
           else (True, s))"

definition print_line ::
  "('v, 'k) direct_env \<Rightarrow> (nat \<Rightarrow> line_poll) \<Rightarrow> line_source \<Rightarrow> nat \<Rightarrow> u32 \<Rightarrow> nat \<times> int \<Rightarrow> nat \<Rightarrow> ('v, 'k) act" where
  \<comment> \<open>the \<open>i\<close>th line of the job: the flag is read first, the requests are handled after it, and the line
    is sent whatever they asked for\<close>
  "print_line E raised src planeCount bytesPerLine cell i s =
     (if dp_cancelRequested s \<or> cancel_seen (raised i) then
        (False, snd (setError PrintCanceled (snd (abortActivePrint E s))))
      else send_line E src planeCount bytesPerLine cell
        (if i mod 8 = 0 then handle_aborts E (abort_requests (raised i)) s else s))"

fun print_lines ::
  "('v, 'k) direct_env \<Rightarrow> (nat \<Rightarrow> line_poll) \<Rightarrow> line_source \<Rightarrow> nat \<Rightarrow> u32 \<Rightarrow> (nat \<times> int) list \<Rightarrow> nat \<Rightarrow> ('v, 'k) act" where
  "print_lines E raised src planeCount bytesPerLine [] i s = (True, s)"
| "print_lines E raised src planeCount bytesPerLine (cell # cells) i s =
     and_then (print_line E raised src planeCount bytesPerLine cell i)
       (print_lines E raised src planeCount bytesPerLine cells (Suc i)) s"

section \<open>The job\<close>

definition connect_for_job :: "('v, 'k) direct_env \<Rightarrow> print_settings \<Rightarrow> ('v, 'k) act" where
  "connect_for_job E settings s =
     (let Q = de_variant E;
          (searched, s) = (if \<not> dp_connected s \<and> dp_printers s = [] then refreshPrinters E s else (True, s)) in
      if \<not> searched then (False, s)
      else if printerIndex settings < 0 \<and> dp_selected s < 0 \<and> length (dp_printers s) \<noteq> 1
      then setError NoPrinterSelected s
      else let index = (if printerIndex settings \<ge> 0 then printerIndex settings
                        else if dp_selected s \<ge> 0 then dp_selected s
                        else vmInt Q (toMap Q (hd (dp_printers s))) ''index'' 0);
               (chosen, s) = (if index \<noteq> dp_selected s then choosePrinter E index s else (True, s)) in
      if \<not> chosen then (False, s)
      else if \<not> dp_connected s then connectPrinter E s else (True, s))"

definition send_job ::
  "('v, 'k) direct_env \<Rightarrow> (nat \<Rightarrow> line_poll) \<Rightarrow> line_source \<Rightarrow> raster \<Rightarrow> u32 list \<Rightarrow> ('v, 'k) act" where
  \<comment> \<open>from \<open>StartPrint\<close> to \<open>ClosePrint\<close>\<close>
  "send_job E raised src r prop s =
     (let api = de_api E; (started, s) = sdk_call (k_startPrint api prop) ''StartPrint'' s in
      if \<not> started then
        let s = s\<lparr>dp_sdk := snd (k_closePrint api (dp_sdk s))\<rparr> in
        (if de_arm E then setError StartChannel s else (False, s\<lparr>dp_connected := False\<rparr>))
      else and_then (print_lines E raised src (length (the (ra_lines r))) (prop ! 3)
                       (row_cells (ra_height r) (ra_order r)) 0) (\<lambda>s.
        let (ended, s) = sdk_call (k_endPrint api) ''EndPrint'' s in
        if \<not> ended then (False, snd (abortActivePrint E s))
        else and_then (sdk_call (k_closePrint api) ''ClosePrint'') (resetJobOrigin E False) s) s)"

definition job_body ::
  "('v, 'k) direct_env \<Rightarrow> (nat \<Rightarrow> line_poll) \<Rightarrow> line_source \<Rightarrow> raster \<Rightarrow> print_settings \<Rightarrow> u32 list \<Rightarrow> job_settings \<Rightarrow> ('v, 'k) act" where
  "job_body E raised src r settings prop js =
     (let api = de_api E; x33 = ra_format r = 1;
          origin = (if x33 then prepareX33PrintOrigin E settings else Pair True);
          settingsCall = (if x33 \<and> de_arm E then Pair True else sdk_call (k_setJobSettings api js) ''SetJobSettings'');
          init = sdk_call (k_initPrinter api) ''InitPrinter'' in
      and_then (applyMediaHeight E settings)
       (and_then settingsCall
         (and_then (if de_arm E then and_then origin init else and_then init origin)
           (send_job E raised src r prop))))"

definition printPackedJob ::
  "('v, 'k) direct_env \<Rightarrow> (nat \<Rightarrow> line_poll) \<Rightarrow> line_source \<Rightarrow> raster \<Rightarrow> print_settings \<Rightarrow> ('v, 'k) act" where
  "printPackedJob E raised src r settings =
     and_then (ensureLoaded E) (\<lambda>s.
       case ra_lines r of
         None \<Rightarrow> setError RasterEmpty s
       | Some planes \<Rightarrow>
         if planes = [] \<or> ra_order r = [] then setError RasterEmpty s
         else let bytesPerLine = (if ra_lineBytes r > 0 then ra_lineBytes r else int (length (planes ! 0 ! 0))) in
         (case job_property (de_arm E) r settings bytesPerLine of
            Inl e \<Rightarrow> setError e s
          | Inr prop \<Rightarrow>
            let js = makeJobSettings settings;
                js = (if ra_format r = 1 then js\<lparr>js_PrintDirection := 1\<rparr> else js) in
            and_then (connect_for_job E settings)
              (withSdkWorkingDirectory E (\<lambda>s.
                 let (ok, s) = job_body E raised src r settings prop js (s\<lparr>dp_originActive := False\<rparr>) in
                 (ok, snd (resetJobOrigin E True s)))) s))"

definition spool_raster :: "spool \<Rightarrow> raster" where
  \<comment> \<open>the raster \<open>printSpooledJob\<close> fills, with one empty plane per logical channel\<close>
  "spool_raster sp =
     \<lparr>ra_lines = Some (replicate (nat (sp_logical sp)) []), ra_order = sp_order sp, ra_width = sp_width sp,
      ra_height = sp_height sp, ra_xdpi = sp_xdpi sp, ra_ydpi = sp_ydpi sp, ra_lineBytes = sp_lineBytes sp,
      ra_format = sp_format sp, ra_header = sp_header sp\<rparr>"

definition printSpooledJob ::
  "('v, 'k) direct_env \<Rightarrow> 'd disk \<Rightarrow> datastream \<Rightarrow> (bytes \<Rightarrow> bytes) \<Rightarrow> (nat \<Rightarrow> line_poll) \<Rightarrow> spool \<Rightarrow> print_settings \<Rightarrow>
   'd \<Rightarrow> ('v, 'k) act" where
  "printSpooledJob E D S sha raised sp settings d s =
     (case reader_open D S sha (\<lambda>_. False) (sp_path sp) True d of
        Inl e \<Rightarrow> setError (SpoolLine e) s
      | Inr R \<Rightarrow> printPackedJob E raised (spool_line D R d) (spool_raster sp) settings s)"

definition submitSpooledJob_here ::
  "('v, 'k) direct_env \<Rightarrow> 'd disk \<Rightarrow> datastream \<Rightarrow> (bytes \<Rightarrow> bytes) \<Rightarrow> (nat \<Rightarrow> line_poll) \<Rightarrow> spool \<Rightarrow> print_settings \<Rightarrow>
   'd \<Rightarrow> ('v, 'k) act" where
  \<comment> \<open>\<open>submitSpooledJob\<close> where the job is printed in this process\<close>
  "submitSpooledJob_here E D S sha raised sp settings d s =
     (let s = s\<lparr>dp_cancelRequested := False\<rparr> in
      case spool_verify D S sha (\<lambda>_. False) sp d of
        Inl e \<Rightarrow> setError (SpoolLine e) s
      | Inr _ \<Rightarrow> printSpooledJob E D S sha raised sp settings d s)"

definition submitPreparedJob_here ::
  "('v, 'k) direct_env \<Rightarrow> (nat \<Rightarrow> line_poll) \<Rightarrow> raster \<Rightarrow> print_settings \<Rightarrow> ('v, 'k) act" where
  "submitPreparedJob_here E raised r settings s =
     printPackedJob E raised (planes_line (case ra_lines r of None \<Rightarrow> [] | Some planes \<Rightarrow> planes)) r settings s"

section \<open>The nozzle check\<close>

definition printNozzleCheck :: "('v, 'k) direct_env \<Rightarrow> ('v, 'k) act" where
  "printNozzleCheck E =
     and_then (ensureLoaded E) (\<lambda>s.
       if k_getPrintXYValue (de_api E) = None then setError (SdkFunctionMissing ''GetPrintXYValue'') s
       else if k_setPrintXYValue (de_api E) = None then setError (SdkFunctionMissing ''SetPrintXYValue'') s
       else case k_printAlignmentPattern (de_api E) of
         None \<Rightarrow> setError (SdkFunctionMissing ''PrintAlignmentPattern'') s
       | Some pattern \<Rightarrow>
         withSdkWorkingDirectory E (\<lambda>s.
           let ((ok, x, y), s) = get_origin E ''GetPrintXYValue before nozzle check'' s in
           if \<not> ok then (False, s)
           else let moved = x \<noteq> 0 \<or> y \<noteq> 0;
                    (ok, s) = (if moved then set_origin E ''Reset print origin before nozzle check'' 0 0 s else (True, s)) in
           if \<not> ok then (False, s)
           else let ((ok, x, y), s) =
                      (if moved then get_origin E ''Verify print origin before nozzle check'' s else ((True, x, y), s)) in
           if \<not> ok then (False, s)
           else if x \<noteq> 0 \<or> y \<noteq> 0 then setError NozzleOrigin s
           else sdk_call (pattern 0) ''PrintAlignmentPattern'' s) s)"

end
