(* ===== verification/Direct_Log.thy ===== *)
theory Direct_Log
  imports Direct_Job
begin

text \<open>
  What the vendor library gets to see. Every call of it appends one event, with its arguments
  and its result, to a log; \<open>traced\<close> adds such a log to an arbitrary library, so that what is
  proved of the logged driver holds whatever the library answers. The print session is an
  automaton over the events.
\<close>

section \<open>Events\<close>

datatype sdk_event =
    Searched int
  | Chosen int int
  | Connected int
  | Initialized int
  | Started "u32 list" int
  | LineSent bytes u32 int
  | Aborted int
  | Paused int
  | Continued int
  | Ended int
  | Closed int
  | SettingsSet job_settings int
  | HeightSet u16 int
  | HeightRead int u16
  | OriginSet u32 u32 int
  | OriginRead int u32 u32
  | StatusRead int
  | PatternPrinted int int
  | SocketClosed

datatype mode =
    Idle
  | Printing
  | Stopped \<comment> \<open>an abort was requested inside the session\<close>
  | Last \<comment> \<open>the line that was already under way has been taken\<close>
  | Closing

fun session_step :: "mode \<Rightarrow> sdk_event \<Rightarrow> mode option" where
  \<comment> \<open>lines, the end, an abort and the close belong to a session that was started; an abort lets one
    more line pass, and after a line that is not taken whole or the end only an abort and the close follow\<close>
  "session_step Idle (Started p r) = Some (if r = 1 then Printing else Closing)"
| "session_step m (Started p r) = None"
| "session_step Printing (LineSent l n r) = Some (if r = sint n then Printing else Closing)"
| "session_step Stopped (LineSent l n r) = Some (if r = sint n then Last else Closing)"
| "session_step m (LineSent l n r) = None"
| "session_step Printing (Ended r) = Some Closing"
| "session_step Last (Ended r) = Some Closing"
| "session_step m (Ended r) = None"
| "session_step Idle (Aborted r) = None"
| "session_step Printing (Aborted r) = Some Stopped"
| "session_step Stopped (Aborted r) = Some Stopped"
| "session_step m (Aborted r) = Some Closing"
| "session_step Idle (Closed r) = None"
| "session_step m (Closed r) = Some Idle"
| "session_step m (StatusRead r) = Some m"
| "session_step Idle e = Some Idle"
| "session_step m e = None"

fun session_run :: "mode \<Rightarrow> sdk_event list \<Rightarrow> mode option" where
  "session_run m [] = Some m"
| "session_run m (e # es) = (case session_step m e of None \<Rightarrow> None | Some m' \<Rightarrow> session_run m' es)"

fun origin_step :: "u32 \<times> u32 \<Rightarrow> sdk_event \<Rightarrow> u32 \<times> u32" where
  "origin_step p (OriginSet x y r) = (x, y)"
| "origin_step p e = p"

definition last_origin :: "sdk_event list \<Rightarrow> u32 \<times> u32" where
  \<comment> \<open>the last origin that was set, the canonical one when none was\<close>
  "last_origin es = foldl origin_step (0, 0) es"

lemma session_run_append:
  "session_run m (d @ e) = (case session_run m d of None \<Rightarrow> None | Some m' \<Rightarrow> session_run m' e)"
  by (induction d arbitrary: m) (auto split: option.splits)

lemma last_origin_snoc [simp]: "last_origin (d @ [e]) = origin_step (last_origin d) e"
  by (simp add: last_origin_def)

section \<open>The traced library\<close>

definition logged :: "(int \<Rightarrow> sdk_event) \<Rightarrow> ('k \<Rightarrow> int \<times> 'k) \<Rightarrow> 'k \<times> sdk_event list \<Rightarrow> int \<times> 'k \<times> sdk_event list" where
  "logged e f w = (case f (fst w) of (r, k) \<Rightarrow> (r, k, snd w @ [e r]))"

definition traced :: "'k sdk \<Rightarrow> ('k \<times> sdk_event list) sdk" where
  "traced A =
     \<lparr>k_searchPrinter = (\<lambda>w. case k_searchPrinter A (fst w) of (r, n, l, k) \<Rightarrow> (r, n, l, k, snd w @ [Searched r])),
      k_choosePrinter = (\<lambda>i. logged (Chosen i) (k_choosePrinter A i)),
      k_connectPrinter = map_option (logged Connected) (k_connectPrinter A),
      k_initPrinter = logged Initialized (k_initPrinter A),
      k_startPrint = (\<lambda>p. logged (Started p) (k_startPrint A p)),
      k_printALine = (\<lambda>l n. logged (LineSent l n) (k_printALine A l n)),
      k_abortPrint = logged Aborted (k_abortPrint A),
      k_pausePrint = logged Paused (k_pausePrint A),
      k_continuePrint = logged Continued (k_continuePrint A),
      k_endPrint = logged Ended (k_endPrint A),
      k_closePrint = logged Closed (k_closePrint A),
      k_setJobSettings = (\<lambda>j. logged (SettingsSet j) (k_setJobSettings A j)),
      k_setPrintHeight = map_option (\<lambda>f h. logged (HeightSet h) (f h)) (k_setPrintHeight A),
      k_getPrintHeight = map_option (\<lambda>f w. case f (fst w) of (r, h, k) \<Rightarrow> (r, h, k, snd w @ [HeightRead r h]))
        (k_getPrintHeight A),
      k_setPrintXYValue = map_option (\<lambda>f x y. logged (OriginSet x y) (f x y)) (k_setPrintXYValue A),
      k_getPrintXYValue = map_option (\<lambda>f w. case f (fst w) of (r, x, y, k) \<Rightarrow> (r, x, y, k, snd w @ [OriginRead r x y]))
        (k_getPrintXYValue A),
      k_getPrinterStatus = map_option (\<lambda>f w. case f (fst w) of (r, p, c, k) \<Rightarrow> (r, p, c, k, snd w @ [StatusRead r]))
        (k_getPrinterStatus A),
      k_printAlignmentPattern = map_option (\<lambda>f m. logged (PatternPrinted m) (f m)) (k_printAlignmentPattern A),
      k_closeControlSocket = (\<lambda>w. (k_closeControlSocket A (fst w), snd w @ [SocketClosed]))\<rparr>"

definition traced_env :: "('v, 'k) direct_env \<Rightarrow> ('v, 'k \<times> sdk_event list) direct_env" where
  "traced_env E =
     \<lparr>de_variant = de_variant E, de_trim = de_trim E, de_api = traced (de_api E), de_arm = de_arm E,
      de_lacksNetRaw = de_lacksNetRaw E, de_candidates = de_candidates E, de_hasLibrary = de_hasLibrary E,
      de_enter = de_enter E, de_load = (\<lambda>rt w. case de_load E rt (fst w) of (b, k) \<Rightarrow> (b, k, snd w)),
      de_unload = (\<lambda>w. case de_unload E (fst w) of (b, k) \<Rightarrow> (b, k, snd w)),
      de_cancelFileOpens = de_cancelFileOpens E, de_compatible = de_compatible E,
      de_symbolsResolve = de_symbolsResolve E, de_preflight = (\<lambda>i w. de_preflight E i (fst w)),
      de_clearLocks = (\<lambda>i w. de_clearLocks E i (fst w))\<rparr>"

section \<open>The contract of a logged driver\<close>

locale driver_log =
  fixes E :: "('v, 'k) direct_env" and log :: "'k \<Rightarrow> sdk_event list"
  assumes log_load: "log (snd (de_load E rt k)) = log k"
    and log_unload: "log (snd (de_unload E k)) = log k"
    and log_search: "log (snd (snd (snd (k_searchPrinter (de_api E) k)))) = log k @ [Searched (fst (k_searchPrinter (de_api E) k))]"
    and log_choose: "log (snd (k_choosePrinter (de_api E) i k)) = log k @ [Chosen i (fst (k_choosePrinter (de_api E) i k))]"
    and log_connect: "k_connectPrinter (de_api E) = Some f \<Longrightarrow> log (snd (f k)) = log k @ [Connected (fst (f k))]"
    and log_init: "log (snd (k_initPrinter (de_api E) k)) = log k @ [Initialized (fst (k_initPrinter (de_api E) k))]"
    and log_start: "log (snd (k_startPrint (de_api E) p k)) = log k @ [Started p (fst (k_startPrint (de_api E) p k))]"
    and log_line: "log (snd (k_printALine (de_api E) l n k)) = log k @ [LineSent l n (fst (k_printALine (de_api E) l n k))]"
    and log_abort: "log (snd (k_abortPrint (de_api E) k)) = log k @ [Aborted (fst (k_abortPrint (de_api E) k))]"
    and log_pause: "log (snd (k_pausePrint (de_api E) k)) = log k @ [Paused (fst (k_pausePrint (de_api E) k))]"
    and log_continue: "log (snd (k_continuePrint (de_api E) k)) = log k @ [Continued (fst (k_continuePrint (de_api E) k))]"
    and log_end: "log (snd (k_endPrint (de_api E) k)) = log k @ [Ended (fst (k_endPrint (de_api E) k))]"
    and log_close: "log (snd (k_closePrint (de_api E) k)) = log k @ [Closed (fst (k_closePrint (de_api E) k))]"
    and log_settings: "log (snd (k_setJobSettings (de_api E) j k)) = log k @ [SettingsSet j (fst (k_setJobSettings (de_api E) j k))]"
    and log_set_height: "k_setPrintHeight (de_api E) = Some g \<Longrightarrow> log (snd (g h k)) = log k @ [HeightSet h (fst (g h k))]"
    and log_get_height: "k_getPrintHeight (de_api E) = Some gh \<Longrightarrow>
      log (snd (snd (gh k))) = log k @ [HeightRead (fst (gh k)) (fst (snd (gh k)))]"
    and log_set_origin: "k_setPrintXYValue (de_api E) = Some so \<Longrightarrow> log (snd (so x y k)) = log k @ [OriginSet x y (fst (so x y k))]"
    and log_get_origin: "k_getPrintXYValue (de_api E) = Some go \<Longrightarrow>
      log (snd (snd (snd (go k)))) = log k @ [OriginRead (fst (go k)) (fst (snd (go k))) (fst (snd (snd (go k))))]"
    and log_status: "k_getPrinterStatus (de_api E) = Some st \<Longrightarrow>
      log (snd (snd (snd (st k)))) = log k @ [StatusRead (fst (st k))]"
    and log_pattern: "k_printAlignmentPattern (de_api E) = Some pa \<Longrightarrow> log (snd (pa m k)) = log k @ [PatternPrinted m (fst (pa m k))]"
    and log_socket: "log (k_closeControlSocket (de_api E) k) = log k @ [SocketClosed]"

interpretation traced_log: driver_log "traced_env E" snd for E :: "('v, 'k) direct_env"
  by unfold_locales (auto simp: traced_env_def traced_def logged_def split: prod.splits)

section \<open>Calls outside a session\<close>

fun outside :: "sdk_event \<Rightarrow> bool" where
  "outside (Started p r) = False"
| "outside (LineSent l n r) = False"
| "outside (Ended r) = False"
| "outside (Aborted r) = False"
| "outside (Closed r) = False"
| "outside (OriginSet x y r) = False"
| "outside e = True"

fun silent :: "sdk_event \<Rightarrow> bool" where
  \<comment> \<open>not a part of a print session\<close>
  "silent (OriginSet x y r) = True"
| "silent e = outside e"

lemma outside_silent: "list_all outside d \<Longrightarrow> list_all silent d"
  by (induction d) (auto elim: outside.elims)

lemma outside_idle: "outside e \<Longrightarrow> session_step Idle e = Some Idle"
  by (cases e) auto

lemma outside_origin: "outside e \<Longrightarrow> origin_step p e = p"
  by (cases e) auto

lemma outside_run: "list_all outside d \<Longrightarrow> session_run Idle d = Some Idle"
  by (induction d) (auto simp: outside_idle)

lemma outside_fold: "list_all outside d \<Longrightarrow> foldl origin_step p d = p"
  by (induction d arbitrary: p) (auto simp: outside_origin)

section \<open>A printed page\<close>

fun aborted :: "sdk_event \<Rightarrow> bool" where
  "aborted (Aborted r) = True"
| "aborted e = False"

fun line_events :: "u32 \<Rightarrow> bytes list \<Rightarrow> sdk_event list \<Rightarrow> sdk_event list" where
  \<comment> \<open>every line taken whole; \<open>late\<close> are the aborts that were requested when only the last was left\<close>
  "line_events n [] late = []"
| "line_events n [l] late = late @ [LineSent l n (sint n)]"
| "line_events n (l # l' # ls) late = LineSent l n (sint n) # line_events n (l' # ls) late"

lemma line_events_quiet: "line_events n ls [] = map (\<lambda>l. LineSent l n (sint n)) ls"
  by (induction ls rule: induct_list012) simp_all

definition page_events :: "u32 list \<Rightarrow> bytes list \<Rightarrow> sdk_event list \<Rightarrow> sdk_event list" where
  "page_events p ls late = [Started p 1] @ line_events (p ! 3) ls late @ [Ended 1, Closed 1]"

definition late_aborts :: "(nat \<Rightarrow> line_poll) \<Rightarrow> nat \<Rightarrow> sdk_event list \<Rightarrow> bool" where
  \<comment> \<open>aborts can come in at the last of \<open>n\<close> lines without stopping the job, where the events are polled\<close>
  "late_aborts raised n late \<longleftrightarrow> list_all aborted late \<and> length late \<le> abort_requests (raised (n - 1)) \<and>
     (late \<noteq> [] \<longrightarrow> 0 < n \<and> (n - 1) mod 8 = 0)"

definition at_origin :: "print_settings \<Rightarrow> sdk_event" where
  "at_origin settings = OriginRead 1 (millimetersToPrintXYUnits (printOffsetXmm settings))
     (millimetersToPrintXYUnits (printOffsetYmm settings))"

definition offset_requested :: "print_settings \<Rightarrow> bool" where
  "offset_requested settings \<longleftrightarrow> millimetersToPrintXYUnits (printOffsetXmm settings) \<noteq> 0 \<or>
     millimetersToPrintXYUnits (printOffsetYmm settings) \<noteq> 0"

definition ready_events :: "bool \<Rightarrow> print_settings \<Rightarrow> sdk_event list" where
  \<comment> \<open>the calls right before an X-33 page: the requested origin is read back and the printer initialized\<close>
  "ready_events arm settings = (if arm then [at_origin settings, Initialized 1] else [at_origin settings])"

definition restore_events :: "raster \<Rightarrow> print_settings \<Rightarrow> sdk_event list" where
  "restore_events r settings =
     (if ra_format r = 1 \<and> offset_requested settings then [OriginSet 0 0 1, OriginRead 1 0 0] else [])"

definition printed ::
  "bool \<Rightarrow> line_source \<Rightarrow> raster \<Rightarrow> print_settings \<Rightarrow> u32 list \<Rightarrow> bytes list \<Rightarrow> sdk_event list \<Rightarrow>
   sdk_event list \<Rightarrow> bool" where
  \<comment> \<open>the lines \<open>ls\<close> of the job are sent in one session, with no session before or after it\<close>
  "printed arm src r settings p ls late d \<longleftrightarrow>
     map (\<lambda>(row, ch). src ch (int row)) (row_cells (ra_height r) (ra_order r)) = map Inr ls \<and>
     (\<forall>l \<in> set ls. length l = unat (p ! 3)) \<and>
     (\<exists>pre. list_all silent pre \<and>
       d = pre @ (if ra_format r = 1 then ready_events arm settings else []) @ page_events p ls late @
         restore_events r settings)"

section \<open>Quiet calls\<close>

context driver_log
begin

definition calm :: "('v, 'k) direct \<Rightarrow> ('v, 'k) direct \<Rightarrow> bool" where
  "calm s t \<longleftrightarrow> (\<exists>d. log (dp_sdk t) = log (dp_sdk s) @ d \<and> list_all outside d) \<and>
     dp_originActive t = dp_originActive s \<and> dp_cancelRequested t = dp_cancelRequested s"

definition quiet :: "('v, 'k) act \<Rightarrow> bool" where
  "quiet a \<longleftrightarrow> (\<forall>s. calm s (snd (a s)))"

lemma calm_trans: "calm s t \<Longrightarrow> calm t u \<Longrightarrow> calm s u"
  unfolding calm_def by (metis append_assoc list_all_append)

lemma calm_same:
  "log (dp_sdk t) = log (dp_sdk s) \<Longrightarrow> dp_originActive t = dp_originActive s \<Longrightarrow>
   dp_cancelRequested t = dp_cancelRequested s \<Longrightarrow> calm s t"
  by (simp add: calm_def)

lemma calm_event:
  "log (dp_sdk t) = log (dp_sdk s) @ [e] \<Longrightarrow> outside e \<Longrightarrow> dp_originActive t = dp_originActive s \<Longrightarrow>
   dp_cancelRequested t = dp_cancelRequested s \<Longrightarrow> calm s t"
  by (simp add: calm_def)

lemma quietD: "quiet a \<Longrightarrow> calm s (snd (a s))"
  by (simp add: quiet_def)

lemma quietE: "quiet a \<Longrightarrow> a s = (ok, t) \<Longrightarrow> calm s t"
  using quietD [of a s] by simp

lemma quiet_and_then: "quiet a \<Longrightarrow> quiet b \<Longrightarrow> quiet (and_then a b)"
  unfolding quiet_def and_then_def by (auto simp: split_def Let_def intro: calm_trans)

lemma quiet_skip: "quiet (Pair ok)"
  by (simp add: quiet_def calm_same)

lemma setError_calm: "calm s (snd (setError e s))"
  by (simp add: setError_def calm_same)

lemma callSucceeded_fields [simp]:
  "dp_sdk (snd (callSucceeded r n s)) = dp_sdk s"
  "dp_originActive (snd (callSucceeded r n s)) = dp_originActive s"
  "dp_cancelRequested (snd (callSucceeded r n s)) = dp_cancelRequested s"
  "fst (callSucceeded r n s) \<longleftrightarrow> r = 1"
  by (simp_all add: callSucceeded_def setError_def)

lemma setError_fields [simp]:
  "dp_sdk (snd (setError e s)) = dp_sdk s"
  "dp_originActive (snd (setError e s)) = dp_originActive s"
  "dp_cancelRequested (snd (setError e s)) = dp_cancelRequested s"
  "\<not> fst (setError e s)"
  by (simp_all add: setError_def)

lemma sdk_call_fields [simp]:
  "dp_sdk (snd (sdk_call f n s)) = snd (f (dp_sdk s))"
  "dp_originActive (snd (sdk_call f n s)) = dp_originActive s"
  "dp_cancelRequested (snd (sdk_call f n s)) = dp_cancelRequested s"
  "fst (sdk_call f n s) \<longleftrightarrow> fst (f (dp_sdk s)) = 1"
  by (simp_all add: sdk_call_def split_def Let_def)

lemma quiet_call:
  assumes "\<And>k. \<exists>e. outside e \<and> log (snd (f k)) = log k @ [e]"
  shows "quiet (sdk_call f n)"
  unfolding quiet_def
proof
  fix s :: "('v, 'k) direct"
  obtain e where "outside e" "log (snd (f (dp_sdk s))) = log (dp_sdk s) @ [e]" using assms by blast
  then show "calm s (snd (sdk_call f n s))" by (intro calm_event [of _ _ e]) simp_all
qed

end

end
