(* ===== verification/Direct_Laws.thy ===== *)
theory Direct_Laws
  imports Direct_Log
begin

text \<open>
  What a job does to the printer, for every answer of the vendor library: the session is
  opened and closed in order, the print origin is put back, and a job that succeeds has sent
  exactly the lines of the raster.
\<close>

section \<open>Calls outside a session\<close>

context driver_log
begin

lemma calm_upd:
  "calm s t \<Longrightarrow> log (dp_sdk u) = log (dp_sdk t) \<Longrightarrow> dp_originActive u = dp_originActive t \<Longrightarrow>
   dp_cancelRequested u = dp_cancelRequested t \<Longrightarrow> calm s u"
  by (rule calm_trans [OF _ calm_same])

lemma load_calm: "calm s (s\<lparr>dp_sdk := snd (de_load E rt (dp_sdk s))\<rparr>)"
  by (simp add: calm_same log_load)

lemma unload_calm: "calm s (s\<lparr>dp_sdk := snd (de_unload E (dp_sdk s))\<rparr>)"
  by (simp add: calm_same log_unload)

lemma ensureLoaded_quiet: "quiet (ensureLoaded E)"
  unfolding quiet_def
  by (auto simp: ensureLoaded_def Let_def split_def setError_def log_load log_unload intro!: calm_same)

lemma ensureLoaded_log: "log (dp_sdk (snd (ensureLoaded E s))) = log (dp_sdk s)"
  by (auto simp: ensureLoaded_def Let_def split_def setError_def log_load log_unload)

lemma with_directory_quiet: "quiet a \<Longrightarrow> quiet (withSdkWorkingDirectory E a)"
  unfolding quiet_def by (auto simp: withSdkWorkingDirectory_def intro: setError_calm)

lemma socket_calm: "calm s (closeArmControlSocket E s)"
  by (auto simp: closeArmControlSocket_def log_socket intro: calm_same calm_event [of _ _ SocketClosed])

lemma unload_quiet: "quiet (unloadSdkSession E)"
  unfolding quiet_def
proof
  fix s :: "('v, 'k) direct"
  let ?s = "closeArmControlSocket E s"
  have "calm ?s (snd (unloadSdkSession E s))"
    by (auto simp: unloadSdkSession_def Let_def split_def setError_def log_unload intro!: calm_same)
  then show "calm s (snd (unloadSdkSession E s))" by (rule calm_trans [OF socket_calm])
qed

lemma quiet_assign: "quiet a \<Longrightarrow> dp_sdk t = dp_sdk s \<Longrightarrow> dp_originActive t = dp_originActive s \<Longrightarrow>
   dp_cancelRequested t = dp_cancelRequested s \<Longrightarrow> calm s (snd (a t))"
  using calm_trans [OF calm_same quietD] by simp

lemma setSdkRootPath_calm: "calm s (setSdkRootPath E path s)"
  by (simp add: setSdkRootPath_def Let_def quiet_assign [OF unload_quiet] calm_same)

lemma setAutoDiscoverSdk_calm: "calm s (setAutoDiscoverSdk E b s)"
  by (simp add: setAutoDiscoverSdk_def quiet_assign [OF unload_quiet] calm_same)

lemma refreshPrinters_quiet: "quiet (refreshPrinters E)"
proof -
  have "calm s (s\<lparr>dp_selected := a, dp_connected := b,
      dp_sdk := snd (snd (snd (k_searchPrinter (de_api E) (dp_sdk s)))), dp_error := e, dp_printers := p\<rparr>)" for s a b e p
    by (rule calm_event [of _ _ "Searched (fst (k_searchPrinter (de_api E) (dp_sdk s)))"]) (simp_all add: log_search)
  then show ?thesis
    unfolding refreshPrinters_def
    by (intro quiet_and_then ensureLoaded_quiet)
      (auto simp: quiet_def Let_def split_def setError_def callSucceeded_def intro!: calm_same)
qed

lemma choosePrinter_quiet: "quiet (choosePrinter E i)"
proof -
  have c: "quiet (sdk_call (k_choosePrinter (de_api E) i) ''ChoosePrinter'')"
    by (rule quiet_call) (meson log_choose outside.simps)
  have "quiet (\<lambda>s. let (ok, s) = sdk_call (k_choosePrinter (de_api E) i) ''ChoosePrinter'' s in
      (ok, if ok then s\<lparr>dp_selected := i, dp_connected := False\<rparr> else s))"
    unfolding quiet_def
    by (auto simp: Let_def split_def intro: quietD [OF c] calm_upd [OF quietD [OF c]])
  then show ?thesis
    unfolding choosePrinter_def using with_directory_quiet
    by (intro quiet_and_then ensureLoaded_quiet) (auto simp: quiet_def intro: calm_same)
qed

lemma selectKnownPrinter_quiet: "quiet (selectKnownPrinter E)"
  using choosePrinter_quiet by (auto simp: quiet_def selectKnownPrinter_def Let_def intro: calm_same setError_calm)

lemma connect_call_quiet: "k_connectPrinter (de_api E) = Some f \<Longrightarrow> quiet (sdk_call f n)"
  by (rule quiet_call) (meson log_connect outside.simps)

lemma connectPrinter_quiet: "quiet (connectPrinter E)"
proof -
  have "calm s (snd (let (ok, s) = withSdkWorkingDirectory E (sdk_call f ''ConnectPrinter'') s;
          s = (if ok then s
               else let s = (closeArmControlSocket E s)\<lparr>dp_selected := -1\<rparr> in
                 if de_arm E then snd (setError SocketInitialization s) else s)
      in (ok, s\<lparr>dp_connected := ok\<rparr>)))" if "k_connectPrinter (de_api E) = Some f" for f s
  proof -
    obtain ok t where w: "withSdkWorkingDirectory E (sdk_call f ''ConnectPrinter'') s = (ok, t)" by fastforce
    have t: "calm s t" by (rule quietE [OF with_directory_quiet [OF connect_call_quiet [OF that]] w])
    have "calm t (t\<lparr>dp_connected := b\<rparr>)" for b by (simp add: calm_same)
    moreover have "calm t ((closeArmControlSocket E t)\<lparr>dp_selected := -1, dp_connected := b\<rparr>)" for b
      by (rule calm_trans [OF socket_calm]) (simp add: calm_same)
    moreover have "calm t ((closeArmControlSocket E t)\<lparr>dp_selected := -1, dp_error := e, dp_connected := b\<rparr>)" for b e
      by (rule calm_trans [OF socket_calm]) (simp add: calm_same)
    ultimately show ?thesis by (auto simp: w Let_def setError_def intro: calm_trans [OF t])
  qed
  then show ?thesis
    unfolding connectPrinter_def
    by (intro quiet_and_then ensureLoaded_quiet)
      (auto simp: quiet_def setError_calm calm_same split: option.splits
        intro!: quiet_and_then [unfolded quiet_def, rule_format] quietD [OF selectKnownPrinter_quiet] setError_calm)
qed

lemma connect_for_job_quiet: "quiet (connect_for_job E settings)"
  unfolding quiet_def
proof
  fix s :: "('v, 'k) direct"
  define a where "a = (if \<not> dp_connected s \<and> dp_printers s = [] then refreshPrinters E s else (True, s))"
  define i where "i = (if printerIndex settings \<ge> 0 then printerIndex settings
      else if dp_selected (snd a) \<ge> 0 then dp_selected (snd a)
      else vmInt (de_variant E) (toMap (de_variant E) (hd (dp_printers (snd a)))) ''index'' 0)"
  define c where "c = (if i \<noteq> dp_selected (snd a) then choosePrinter E i (snd a) else (True, snd a))"
  have a: "calm s (snd a)" by (simp add: a_def quietD [OF refreshPrinters_quiet] calm_same)
  have c: "calm s (snd c)" by (rule calm_trans [OF a]) (simp add: c_def quietD [OF choosePrinter_quiet] calm_same)
  have d: "calm s (snd (connectPrinter E (snd c)))" by (rule calm_trans [OF c quietD [OF connectPrinter_quiet]])
  have e: "calm s (snd (setError NoPrinterSelected (snd a)))" by (rule calm_trans [OF a setError_calm])
  have "connect_for_job E settings s =
      (if \<not> fst a then (False, snd a)
       else if printerIndex settings < 0 \<and> dp_selected (snd a) < 0 \<and> length (dp_printers (snd a)) \<noteq> 1
       then setError NoPrinterSelected (snd a)
       else if \<not> fst c then (False, snd c)
       else if \<not> dp_connected (snd c) then connectPrinter E (snd c) else (True, snd c))"
    unfolding connect_for_job_def a_def [symmetric] Let_def split_def c_def i_def by simp
  then show "calm s (snd (connect_for_job E settings s))" using a c d e by simp
qed

lemma await_height_log:
  assumes "k_getPrintHeight (de_api E) = Some gh"
  shows "\<exists>d. log (snd (await_height gh target n k)) = log k @ d \<and> list_all outside d"
proof (induction n arbitrary: k)
  case (Suc n)
  obtain r h k' where g: "gh k = (r, h, k')" by (cases "gh k") auto
  have "log k' = log k @ [HeightRead r h]" using log_get_height [OF assms, of k] by (simp add: g)
  moreover obtain d where "log (snd (await_height gh target n k')) = log k' @ d" "list_all outside d"
    using Suc by blast
  ultimately show ?case
    by (cases "r = 1 \<and> h = target") (auto simp: g intro!: exI [of _ "HeightRead r h # d"])
qed simp

lemma await_height_calm:
  assumes "k_getPrintHeight (de_api E) = Some gh"
  shows "calm s (s\<lparr>dp_sdk := snd (await_height gh target n (dp_sdk s))\<rparr>)"
  using await_height_log [OF assms, of target n "dp_sdk s"] by (simp add: calm_def)

lemma applyMediaHeight_quiet: "quiet (applyMediaHeight E settings)"
  unfolding quiet_def
proof
  fix s :: "('v, 'k) direct"
  show "calm s (snd (applyMediaHeight E settings s))"
  proof (cases "mediaHeightMm settings < 0")
    case False
    show ?thesis
    proof (cases "k_setPrintHeight (de_api E)")
      case set: (Some sh)
      show ?thesis
      proof (cases "k_getPrintHeight (de_api E)")
        case get: (Some gh)
        show ?thesis
        proof (cases "encodePrintHeightMm (mediaHeightMm settings)")
          case (Inr target)
          obtain r h k where g: "gh (dp_sdk s) = (r, h, k)" by (cases "gh (dp_sdk s)") auto
          have t: "calm s (s\<lparr>dp_sdk := k\<rparr>)"
            using log_get_height [OF get, of "dp_sdk s"] by (intro calm_event [of _ _ "HeightRead r h"]) (simp_all add: g)
          have call: "quiet (sdk_call (sh target) ''SetPrintHeight'')"
            by (rule quiet_call) (meson log_set_height [OF set] outside.simps)
          have wait: "quiet (\<lambda>s. let (reached, k) = await_height gh target 240 (dp_sdk s); s = s\<lparr>dp_sdk := k\<rparr> in
              if reached then (True, s) else setError HeightTimeout s)"
            using await_height_calm [OF get] unfolding quiet_def
            by (auto simp: Let_def split_def setError_def
                intro: calm_upd [OF await_height_calm [OF get, of _ target 240]])
          show ?thesis
            using False set get Inr t quietD [OF quiet_and_then [OF call wait], THEN calm_trans [OF t]]
            by (simp add: applyMediaHeight_def g Let_def)
        qed (simp add: False set get applyMediaHeight_def setError_calm)
      qed (simp add: False set applyMediaHeight_def setError_calm)
    qed (simp add: False applyMediaHeight_def setError_calm)
  qed (simp add: applyMediaHeight_def calm_same)
qed

lemma settings_quiet: "quiet (sdk_call (k_setJobSettings (de_api E) js) n)"
  by (rule quiet_call) (meson log_settings outside.simps)

lemma init_quiet: "quiet (sdk_call (k_initPrinter (de_api E)) n)"
  by (rule quiet_call) (meson log_init outside.simps)

section \<open>Sessions and the origin\<close>

definition phase_at :: "sdk_event list \<Rightarrow> mode \<Rightarrow> bool \<Rightarrow> ('v, 'k) direct \<Rightarrow> bool" where
  \<comment> \<open>since \<open>L\<close> the session is in mode \<open>m\<close>, and the origin is canonical unless the job owns it\<close>
  "phase_at L m b s \<longleftrightarrow>
     (\<exists>d. log (dp_sdk s) = L @ d \<and> session_run Idle d = Some m \<and> (b \<or> last_origin d = (0, 0))) \<and>
     dp_originActive s = b \<and> (b \<longrightarrow> k_setPrintXYValue (de_api E) \<noteq> None)"

lemma phase_calm:
  assumes "phase_at L Idle b s" "calm s t"
  shows "phase_at L Idle b t"
proof -
  obtain d where d: "log (dp_sdk s) = L @ d" "session_run Idle d = Some Idle" "b \<or> last_origin d = (0, 0)"
    using assms(1) by (auto simp: phase_at_def)
  obtain e where e: "log (dp_sdk t) = log (dp_sdk s) @ e" "list_all outside e" "dp_originActive t = dp_originActive s"
    using assms(2) by (auto simp: calm_def)
  have "session_run Idle (d @ e) = Some Idle" using d(2) e(2) by (simp add: session_run_append outside_run)
  moreover have "last_origin (d @ e) = last_origin d" using e(2) by (simp add: last_origin_def outside_fold)
  ultimately show ?thesis using assms(1) d e by (auto simp: phase_at_def)
qed

lemma phase_event:
  assumes "phase_at L m b s" "log (dp_sdk t) = log (dp_sdk s) @ [e]" "session_step m e = Some m'"
    "\<And>p. origin_step p e = p" "dp_originActive t = dp_originActive s"
  shows "phase_at L m' b t"
  using assms unfolding phase_at_def by (auto simp: session_run_append)

lemma phase_same:
  "phase_at L m b s \<Longrightarrow> dp_sdk t = dp_sdk s \<Longrightarrow> dp_originActive t = dp_originActive s \<Longrightarrow> phase_at L m b t"
  unfolding phase_at_def by simp

lemma set_origin_active:
  assumes "phase_at L Idle b s" "k_setPrintXYValue (de_api E) = Some so" "b \<or> x = 0 \<and> y = 0"
  shows "phase_at L Idle b (snd (set_origin E n x y s))"
  using assms log_set_origin [OF assms(2), of x y "dp_sdk s"] unfolding phase_at_def
  by (auto simp: set_origin_def sdk_call_opt_def session_run_append)

lemma get_origin_calm: "calm s (snd (get_origin E n s))"
proof (cases "k_getPrintXYValue (de_api E)")
  case (Some go)
  then show ?thesis
    using log_get_origin [OF Some, of "dp_sdk s"]
    by (intro calm_event [of _ _ "OriginRead (fst (go (dp_sdk s))) (fst (snd (go (dp_sdk s)))) (fst (snd (snd (go (dp_sdk s)))))"])
      (auto simp: get_origin_def Let_def split_def)
qed (simp add: get_origin_def setError_calm)

lemma prepare_phase:
  assumes P: "phase_at L Idle False s"
  shows "\<exists>b. phase_at L Idle b (snd (prepareX33PrintOrigin E settings s))"
proof (cases "k_setPrintXYValue (de_api E) = None \<or> k_getPrintXYValue (de_api E) = None")
  case True
  then show ?thesis
    using phase_calm [OF P setError_calm, of "SdkFunctionMissing ''SetPrintXYValue''"]
      phase_calm [OF P setError_calm, of "SdkFunctionMissing ''GetPrintXYValue''"]
    by (auto simp: prepareX33PrintOrigin_def)
next
  case False
  then obtain so go where so: "k_setPrintXYValue (de_api E) = Some so" and go: "k_getPrintXYValue (de_api E) = Some go"
    by auto
  let ?x = "millimetersToPrintXYUnits (printOffsetXmm settings)"
  let ?y = "millimetersToPrintXYUnits (printOffsetYmm settings)"
  let ?b = "?x \<noteq> 0 \<or> ?y \<noteq> 0"
  obtain ok ax ay s1 where g: "get_origin E ''GetPrintXYValue'' (s\<lparr>dp_originActive := ?b\<rparr>) = ((ok, ax, ay), s1)"
    by (metis surj_pair)
  have "phase_at L Idle ?b (s\<lparr>dp_originActive := ?b\<rparr>)" using P so by (auto simp: phase_at_def)
  then have p1: "phase_at L Idle ?b s1" using phase_calm [OF _ get_origin_calm] g by (metis snd_conv)
  show ?thesis
  proof (cases "ok \<and> (\<not> de_arm E \<or> ax \<noteq> ?x \<or> ay \<noteq> ?y)")
    case True
    obtain ok2 s2 where st: "set_origin E ''SetPrintXYValue'' ?x ?y s1 = (ok2, s2)" by fastforce
    have p2: "phase_at L Idle ?b s2" using set_origin_active [OF p1 so, of ?x ?y "''SetPrintXYValue''"] st by auto
    obtain ok3 bx by' s3 where g2: "get_origin E ''GetPrintXYValue after SetPrintXYValue'' s2 = ((ok3, bx, by'), s3)" by (metis surj_pair)
    have p3: "phase_at L Idle ?b s3" using phase_calm [OF p2 get_origin_calm] g2 by (metis snd_conv)
    have "phase_at L Idle ?b (snd (setError OriginRejected s3))" by (rule phase_calm [OF p3 setError_calm])
    then show ?thesis
      using True p2 p3 g st g2 by (intro exI [of _ ?b]) (simp add: prepareX33PrintOrigin_def Let_def so go)
  next
    case skip: False
    then show ?thesis
      using p1 g by (intro exI [of _ ?b]) (auto simp: prepareX33PrintOrigin_def Let_def so go)
  qed
qed

lemma reset_phase:
  assumes P: "phase_at L Idle b s"
  shows "phase_at L Idle False (snd (resetJobOrigin E keep s))"
proof (cases b)
  case True
  then obtain so where so: "k_setPrintXYValue (de_api E) = Some so" and active: "dp_originActive s"
    using P by (auto simp: phase_at_def)
  obtain d where d: "log (dp_sdk s) = L @ d" "session_run Idle d = Some Idle" using P by (auto simp: phase_at_def)
  obtain r k where r: "so 0 0 (dp_sdk s) = (r, k)" by fastforce
  have k: "log k = L @ d @ [OriginSet 0 0 r]" using log_set_origin [OF so, of 0 0 "dp_sdk s"] d by (simp add: r)
  have e: "session_run Idle (d @ [OriginSet 0 0 r]) = Some Idle" using d by (simp add: session_run_append)
  show ?thesis
  proof (cases "k_getPrintXYValue (de_api E)")
    case None
    then show ?thesis
      using k e active by (auto simp: resetJobOrigin_def so r Let_def phase_at_def)
  next
    case (Some go)
    obtain q x y k' where q: "go k = (q, x, y, k')" by (cases "go k") auto
    have k': "log k' = L @ d @ [OriginSet 0 0 r] @ [OriginRead q x y]"
      using log_get_origin [OF Some, of k] k by (simp add: q)
    have "session_run Idle (d @ [OriginSet 0 0 r] @ [OriginRead q x y]) = Some Idle"
      using d by (simp add: session_run_append)
    moreover have "last_origin (d @ [OriginSet 0 0 r] @ [OriginRead q x y]) = (0, 0)"
      using last_origin_snoc [of "d @ [OriginSet 0 0 r]" "OriginRead q x y"] by simp
    ultimately show ?thesis
      using k k' e active by (cases "r = 1") (auto simp: resetJobOrigin_def so r Some q Let_def phase_at_def)
  qed
next
  case False
  then show ?thesis using P by (auto simp: resetJobOrigin_def phase_at_def)
qed

definition abort_mode :: "mode \<Rightarrow> mode" where
  "abort_mode m = (if m = Printing \<or> m = Stopped then Stopped else Closing)"

lemma session_steps [simp]:
  "session_step m (StatusRead q) = Some m"
  "m \<noteq> Idle \<Longrightarrow> session_step m (Aborted q) = Some (abort_mode m)"
  "m \<noteq> Idle \<Longrightarrow> session_step m (Closed q) = Some Idle"
  "abort_mode m \<noteq> Idle"
  by (cases m; simp add: abort_mode_def)+

lemma poll_log:
  assumes st: "k_getPrinterStatus (de_api E) = Some st"
  shows "phase_at L m b (s\<lparr>dp_sdk := k\<rparr>) \<Longrightarrow> phase_at L m b (s\<lparr>dp_sdk := snd (poll_cancelled st n k)\<rparr>)"
proof (induction n arbitrary: k)
  case (Suc n)
  obtain r p c k' where k: "st k = (r, p, c, k')" by (cases "st k") auto
  have "phase_at L m b (s\<lparr>dp_sdk := k'\<rparr>)"
    using log_status [OF st, of k] by (intro phase_event [OF Suc.prems, of _ "StatusRead r"]) (simp_all add: k)
  then show ?case using Suc.IH [of k'] by (simp add: k)
qed simp

lemma close_phase:
  assumes "phase_at L m b s" "m \<noteq> Idle"
  shows "phase_at L Idle b (s\<lparr>dp_sdk := snd (k_closePrint (de_api E) (dp_sdk s))\<rparr>)"
  using assms(2)
  by (intro phase_event [OF assms(1), of _ "Closed (fst (k_closePrint (de_api E) (dp_sdk s)))"])
    (simp_all add: log_close)

lemma abort_phase:
  assumes P: "phase_at L m b s" "m \<noteq> Idle"
  shows "phase_at L Idle b (snd (abortActivePrint E s))"
proof -
  obtain r k where r: "k_abortPrint (de_api E) (dp_sdk s) = (r, k)" by fastforce
  have a: "phase_at L (abort_mode m) b (s\<lparr>dp_sdk := k\<rparr>)"
    using P(2) log_abort [of "dp_sdk s"]
    by (intro phase_event [OF P(1), of _ "Aborted r"]) (simp_all add: r)
  show ?thesis
  proof (cases "k_getPrinterStatus (de_api E)")
    case None
    then show ?thesis using close_phase [OF a] by (simp add: abortActivePrint_def Let_def r split_def)
  next
    case (Some st)
    show ?thesis
      using close_phase [OF a] close_phase [OF poll_log [OF Some a, of 10]]
      by (simp add: abortActivePrint_def Let_def r Some split_def)
  qed
qed

lemma give_up_phase:
  "phase_at L m b s \<Longrightarrow> m \<noteq> Idle \<Longrightarrow> phase_at L Idle b (snd (give_up E e s))"
  unfolding give_up_def by (simp, rule abort_phase [OF phase_same]) simp_all

lemma give_up_fails [simp]: "\<not> fst (give_up E e s)"
  by (simp add: give_up_def)

lemma abortPrint_log:
  "\<exists>d. log (dp_sdk (snd (abortPrint E s))) = log (dp_sdk s) @ d \<and> list_all aborted d \<and> length d \<le> 1"
  "dp_originActive (snd (abortPrint E s)) = dp_originActive s" "dp_cancelRequested (snd (abortPrint E s))"
proof -
  obtain ok t where t: "ensureLoaded E (s\<lparr>dp_cancelRequested := True\<rparr>) = (ok, t)" by fastforce
  have "log (dp_sdk t) = log (dp_sdk s)"
    using ensureLoaded_log [of "s\<lparr>dp_cancelRequested := True\<rparr>"] t by simp
  moreover have "dp_originActive t = dp_originActive s \<and> dp_cancelRequested t"
    using quietE [OF ensureLoaded_quiet t] by (simp add: calm_def)
  ultimately show "\<exists>d. log (dp_sdk (snd (abortPrint E s))) = log (dp_sdk s) @ d \<and> list_all aborted d \<and> length d \<le> 1"
    "dp_originActive (snd (abortPrint E s)) = dp_originActive s" "dp_cancelRequested (snd (abortPrint E s))"
    by (auto simp: abortPrint_def Let_def and_then_def t log_abort)
qed

lemma handle_aborts_log:
  "\<exists>d. log (dp_sdk (handle_aborts E n s)) = log (dp_sdk s) @ d \<and> list_all aborted d \<and> length d \<le> n \<and>
    dp_originActive (handle_aborts E n s) = dp_originActive s \<and>
    dp_cancelRequested (handle_aborts E n s) = (dp_cancelRequested s \<or> 0 < n)"
proof (induction n arbitrary: s)
  case (Suc n)
  obtain d where d: "log (dp_sdk (snd (abortPrint E s))) = log (dp_sdk s) @ d" "list_all aborted d" "length d \<le> 1"
    using abortPrint_log(1) by blast
  obtain e where "log (dp_sdk (handle_aborts E n (snd (abortPrint E s)))) = log (dp_sdk (snd (abortPrint E s))) @ e"
    "list_all aborted e" "length e \<le> n"
    "dp_originActive (handle_aborts E n (snd (abortPrint E s))) = dp_originActive (snd (abortPrint E s))"
    "dp_cancelRequested (handle_aborts E n (snd (abortPrint E s))) = (dp_cancelRequested (snd (abortPrint E s)) \<or> 0 < n)"
    using Suc [of "snd (abortPrint E s)"] by blast
  then show ?case using d abortPrint_log(2,3) [of s] by (intro exI [of _ "d @ e"]) simp
qed simp

lemma aborted_run:
  "list_all aborted d \<Longrightarrow> m = Printing \<or> m = Stopped \<Longrightarrow> session_run m d = Some (if d = [] then m else Stopped)"
proof (induction d arbitrary: m)
  case (Cons e d)
  then show ?case by (cases e) (auto simp: abort_mode_def)
qed simp

lemma aborted_fold: "list_all aborted d \<Longrightarrow> foldl origin_step p d = p"
proof (induction d arbitrary: p)
  case (Cons e d)
  then show ?case by (cases e) auto
qed simp

definition running :: "sdk_event list \<Rightarrow> bool \<Rightarrow> mode \<Rightarrow> ('v, 'k) direct \<Rightarrow> bool" where
  \<comment> \<open>the lines are under way; after an abort, in the mode \<open>m\<close>, the flag is raised\<close>
  "running L b m s \<longleftrightarrow> phase_at L Printing b s \<or> phase_at L m b s \<and> dp_cancelRequested s"

lemma handle_aborts_phase:
  assumes P: "phase_at L Printing b s"
  shows "running L b Stopped (handle_aborts E n s)"
proof -
  obtain d where d: "log (dp_sdk s) = L @ d" "session_run Idle d = Some Printing" "b \<or> last_origin d = (0, 0)"
    using P by (auto simp: phase_at_def)
  obtain e where e: "log (dp_sdk (handle_aborts E n s)) = log (dp_sdk s) @ e" "list_all aborted e" "length e \<le> n"
    "dp_originActive (handle_aborts E n s) = dp_originActive s"
    "dp_cancelRequested (handle_aborts E n s) = (dp_cancelRequested s \<or> 0 < n)"
    using handle_aborts_log by blast
  have "session_run Idle (d @ e) = Some (if e = [] then Printing else Stopped)"
    by (simp add: session_run_append d(2) aborted_run e(2))
  moreover have "last_origin (d @ e) = last_origin d" using e(2) by (simp add: last_origin_def aborted_fold)
  ultimately have "phase_at L (if e = [] then Printing else Stopped) b (handle_aborts E n s)"
    using P d e by (auto simp: phase_at_def)
  then show ?thesis using e(3,5) by (auto simp: running_def split: if_splits)
qed

lemma send_line_phase:
  assumes P: "phase_at L m b s" and m: "m = Printing \<or> m = Stopped"
  shows "phase_at L (if \<not> fst (send_line E src n bpl cell s) then Idle else if m = Printing then Printing else Last) b
      (snd (send_line E src n bpl cell s))"
    "fst (send_line E src n bpl cell s) \<Longrightarrow> dp_cancelRequested (snd (send_line E src n bpl cell s)) = dp_cancelRequested s"
proof -
  obtain row ch where c: "cell = (row, ch)" by fastforce
  have g: "phase_at L Idle b (snd (give_up E e s))" for e using give_up_phase [OF P] m by auto
  obtain w k where w: "k_printALine (de_api E) (projr (src ch (int row))) bpl (dp_sdk s) = (w, k)" by fastforce
  have "phase_at L (if w \<noteq> sint bpl then Closing else if m = Printing then Printing else Last) b (s\<lparr>dp_sdk := k\<rparr>)"
    using m log_line [of "projr (src ch (int row))" bpl "dp_sdk s"]
    by (intro phase_event [OF P, of _ "LineSent (projr (src ch (int row))) bpl w"]) (auto simp: w)
  then show "phase_at L (if \<not> fst (send_line E src n bpl cell s) then Idle else if m = Printing then Printing else Last) b
      (snd (send_line E src n bpl cell s))"
    using g give_up_phase [of L Closing b] w by (cases "src ch (int row)") (auto simp: send_line_def c Let_def)
  show "dp_cancelRequested (snd (send_line E src n bpl cell s)) = dp_cancelRequested s"
    if "fst (send_line E src n bpl cell s)"
    using that w by (cases "src ch (int row)") (auto simp: send_line_def c Let_def split: if_splits)
qed

lemma print_line_phase:
  assumes R: "running L b Last s"
  shows "if fst (print_line E raised src n bpl cell i s) then running L b Last (snd (print_line E raised src n bpl cell i s))
    else phase_at L Idle b (snd (print_line E raised src n bpl cell i s))"
proof (cases "dp_cancelRequested s \<or> cancel_seen (raised i)")
  case True
  have "phase_at L Idle b (snd (abortActivePrint E s))" using R by (auto simp: running_def intro: abort_phase)
  then show ?thesis using True by (simp add: print_line_def setError_def phase_at_def)
next
  case False
  define u where "u = (if i mod 8 = 0 then handle_aborts E (abort_requests (raised i)) s else s)"
  have "phase_at L Printing b s" using R False by (simp add: running_def)
  then have "running L b Stopped u" using handle_aborts_phase by (simp add: u_def running_def)
  then have "phase_at L Printing b u \<or> phase_at L Stopped b u \<and> dp_cancelRequested u" by (simp add: running_def)
  moreover have "print_line E raised src n bpl cell i s = send_line E src n bpl cell u"
    using False by (simp add: print_line_def u_def)
  ultimately show ?thesis
    using send_line_phase [of L Printing b u src n bpl cell] send_line_phase [of L Stopped b u src n bpl cell]
    by (auto simp: running_def)
qed

lemma print_lines_phase:
  "running L b Last s \<Longrightarrow>
   if fst (print_lines E raised src n bpl cells i s) then running L b Last (snd (print_lines E raised src n bpl cells i s))
   else phase_at L Idle b (snd (print_lines E raised src n bpl cells i s))"
proof (induction cells arbitrary: i s)
  case (Cons cell cells)
  obtain ok t where t: "print_line E raised src n bpl cell i s = (ok, t)" by fastforce
  show ?case
    using print_line_phase [OF Cons.prems, of raised src n bpl cell i] Cons.IH [of t "Suc i"]
    by (cases ok) (simp_all add: t and_then_def)
qed simp

lemma and_then_step: "a s = (ok, t) \<Longrightarrow> and_then a b s = (if ok then b t else (False, t))"
  by (simp add: and_then_def)

lemma call_phase:
  assumes "phase_at L m b s" "\<And>k. log (snd (f k)) = log k @ [e (fst (f k))]"
    "session_step m (e (fst (f (dp_sdk s)))) = Some m'" "\<And>p r. origin_step p (e r) = p"
    "sdk_call f n s = (ok, t)"
  shows "phase_at L m' b t \<and> (ok \<longleftrightarrow> fst (f (dp_sdk s)) = 1)"
  using phase_event [OF assms(1), of t "e (fst (f (dp_sdk s)))" m'] assms(2-)
    sdk_call_fields [of f n s] by simp

lemma send_job_phase:
  assumes P: "phase_at L Idle b s"
  shows "\<exists>b'. phase_at L Idle b' (snd (send_job E raised src r prop s))"
proof -
  obtain ok t where t: "sdk_call (k_startPrint (de_api E) prop) ''StartPrint'' s = (ok, t)" by fastforce
  have a: "phase_at L (if ok then Printing else Closing) b t"
    by (rule conjunct1 [OF call_phase [where e = "Started prop", OF P log_start _ _ t]])
      (use sdk_call_fields [of "k_startPrint (de_api E) prop" "''StartPrint''" s] t in simp_all)
  show ?thesis
  proof (cases ok)
    case False
    then have "phase_at L Idle b (t\<lparr>dp_sdk := snd (k_closePrint (de_api E) (dp_sdk t))\<rparr>)"
      using close_phase [of L Closing b t] a by simp
    then show ?thesis
      using False t by (intro exI [of _ b]) (simp add: send_job_def Let_def setError_def phase_at_def)
  next
    case True
    define ls where "ls = print_lines E raised src (length (the (ra_lines r))) (prop ! 3) (row_cells (ra_height r) (ra_order r)) 0"
    obtain ok2 u where u: "ls t = (ok2, u)" by fastforce
    have "running L b Last t" using a True by (simp add: running_def)
    then have b: "if ok2 then running L b Last u else phase_at L Idle b u"
      using print_lines_phase [of L b t raised src "length (the (ra_lines r))" "prop ! 3" "row_cells (ra_height r) (ra_order r)" 0]
        u by (cases ok2) (simp_all add: ls_def)
    obtain ok3 v where v: "sdk_call (k_endPrint (de_api E)) ''EndPrint'' u = (ok3, v)" by fastforce
    obtain ok4 w where w: "sdk_call (k_closePrint (de_api E)) ''ClosePrint'' v = (ok4, w)" by fastforce
    have eq: "send_job E raised src r prop s =
        (if \<not> ok2 then (False, u) else if \<not> ok3 then (False, snd (abortActivePrint E v))
         else if ok4 then resetJobOrigin E False w else (False, w))"
      using t True u v w by (simp add: send_job_def Let_def and_then_step ls_def [symmetric])
    show ?thesis
    proof (cases ok2)
      case True
      then obtain m where "phase_at L m b u" "m = Printing \<or> m = Last" using b by (auto simp: running_def)
      then have c: "phase_at L Closing b v"
        by (intro conjunct1 [OF call_phase [where e = Ended, OF _ log_end _ _ v, of L m]]) auto
      have d: "phase_at L Idle b w" 
        by (rule conjunct1 [OF call_phase [where e = Closed, OF c log_close _ _ w]]) simp_all
      show ?thesis using abort_phase [OF c] d reset_phase [OF d, of False] True unfolding eq by auto
    qed (use b eq in auto)
  qed
qed

section \<open>The whole job\<close>

lemma phase_some: "\<exists>b. phase_at L Idle b s \<Longrightarrow> phase_at L Idle (dp_originActive s) s"
  by (auto simp: phase_at_def)

lemma phase_then:
  assumes "\<exists>b. phase_at L Idle b (snd (a s))"
    and "\<And>b t. phase_at L Idle b t \<Longrightarrow> \<exists>b. phase_at L Idle b (snd (c t))"
  shows "\<exists>b. phase_at L Idle b (snd (and_then a c s))"
  using assms by (cases "a s") (auto simp: and_then_def)

lemma phase_then_quiet:
  assumes "phase_at L Idle b s" "quiet a" "\<And>t. phase_at L Idle b t \<Longrightarrow> \<exists>b. phase_at L Idle b (snd (c t))"
  shows "\<exists>b. phase_at L Idle b (snd (and_then a c s))"
  using phase_calm [OF assms(1) quietD [OF assms(2)]] assms(3) by (cases "a s") (auto simp: and_then_def)

lemma job_body_phase:
  assumes P: "phase_at L Idle False s"
  shows "\<exists>b. phase_at L Idle b (snd (job_body E raised src r settings prop js s))"
proof -
  define origin :: "('v, 'k) act" where "origin = (if ra_format r = 1 then prepareX33PrintOrigin E settings else Pair True)"
  define pj :: "('v, 'k) act" where "pj = (if ra_format r = 1 \<and> de_arm E then Pair True else sdk_call (k_setJobSettings (de_api E) js) ''SetJobSettings'')"
  define ip :: "('v, 'k) act" where "ip = sdk_call (k_initPrinter (de_api E)) ''InitPrinter''"
  have q: "quiet pj" "quiet ip" by (simp_all add: pj_def ip_def settings_quiet init_quiet quiet_skip)
  have o: "\<exists>b. phase_at L Idle b (snd (origin t))" if "phase_at L Idle False t" for t
    using prepare_phase [OF that] that by (auto simp: origin_def)
  have order: "\<exists>b. phase_at L Idle b (snd ((if de_arm E then and_then origin ip else and_then ip origin) t))"
    if t: "phase_at L Idle False t" for t
  proof (cases "de_arm E")
    case True
    have "\<exists>b. phase_at L Idle b (snd (and_then origin ip t))"
      by (rule phase_then [where a = origin and s = t, OF o [OF t]]) (blast intro: phase_calm quietD [OF q(2)])
    then show ?thesis using True by simp
  next
    case False
    have "\<exists>b. phase_at L Idle b (snd (and_then ip origin t))"
      by (rule phase_then_quiet [OF t q(2) o])
    then show ?thesis using False by simp
  qed
  show ?thesis
    unfolding job_body_def Let_def origin_def [symmetric] pj_def [symmetric] ip_def [symmetric]
    by (rule phase_then_quiet [OF P applyMediaHeight_quiet], rule phase_then_quiet [OF _ q(1)], assumption,
        rule phase_then, erule order, rule send_job_phase)
qed

definition keeps_session :: "('v, 'k) direct \<Rightarrow> ('v, 'k) direct \<Rightarrow> bool" where
  \<comment> \<open>the events of a step form complete sessions and leave the origin canonical\<close>
  "keeps_session s t \<longleftrightarrow>
     (\<exists>d. log (dp_sdk t) = log (dp_sdk s) @ d \<and> session_run Idle d = Some Idle \<and> last_origin d = (0, 0))"

lemma calm_keeps: "calm s t \<Longrightarrow> keeps_session s t"
  unfolding calm_def keeps_session_def by (auto simp: outside_run last_origin_def outside_fold)

lemma keeps_from:
  assumes "calm s t" "phase_at (log (dp_sdk s)) Idle False u"
  shows "keeps_session s u"
  using assms unfolding keeps_session_def phase_at_def by auto

lemma printPackedJob_keeps: "keeps_session s (snd (printPackedJob E raised src r settings s))"
proof -
  define job :: "u32 list \<Rightarrow> job_settings \<Rightarrow> ('v, 'k) act" where "job prop js = and_then (connect_for_job E settings)
      (withSdkWorkingDirectory E (\<lambda>s.
         let (ok, s) = job_body E raised src r settings prop js (s\<lparr>dp_originActive := False\<rparr>) in
         (ok, snd (resetJobOrigin E True s))))" for "prop" js
  have job: "keeps_session s (snd (job prop js t))" if st: "calm s t" for t "prop" js
  proof -
    obtain ok u where u: "connect_for_job E settings t = (ok, u)" by fastforce
    have su: "calm s u" by (rule calm_trans [OF st quietE [OF connect_for_job_quiet u]])
    have err: "keeps_session s (snd (setError e u))" for e by (rule calm_keeps [OF calm_trans [OF su setError_calm]])
    have p: "phase_at (log (dp_sdk s)) Idle False (u\<lparr>dp_originActive := False\<rparr>)"
      using su by (auto simp: phase_at_def calm_def outside_run last_origin_def outside_fold)
    obtain b where "phase_at (log (dp_sdk s)) Idle b (snd (job_body E raised src r settings prop js (u\<lparr>dp_originActive := False\<rparr>)))"
      using job_body_phase [OF p] by blast
    note body = keeps_from [OF st reset_phase [OF this, of True]]
    show ?thesis
      using u calm_keeps [OF su] err body
      by (simp add: job_def and_then_step withSdkWorkingDirectory_def split_def Let_def)
  qed
  obtain ok t where t: "ensureLoaded E s = (ok, t)" by fastforce
  have st: "calm s t" by (rule quietE [OF ensureLoaded_quiet t])
  have err: "keeps_session s (snd (setError e t))" for e by (rule calm_keeps [OF calm_trans [OF st setError_calm]])
  show ?thesis
    using t calm_keeps [OF st] err job [OF st, unfolded job_def]
    by (simp add: printPackedJob_def and_then_step Let_def split: option.split sum.split)
qed

section \<open>A job that succeeds\<close>

lemma send_line_sent:
  assumes "send_line E src n bpl (row, ch) s = (True, t)"
  shows "\<exists>line. src ch (int row) = Inr line \<and> length line = unat bpl \<and>
    log (dp_sdk t) = log (dp_sdk s) @ [LineSent line bpl (sint bpl)] \<and> dp_originActive t = dp_originActive s \<and>
    dp_cancelRequested t = dp_cancelRequested s"
proof -
  obtain line where line: "src ch (int row) = Inr line"
    using assms by (cases "src ch (int row)") (auto simp: send_line_def give_up_def split: if_splits)
  obtain w k where w: "k_printALine (de_api E) line bpl (dp_sdk s) = (w, k)" by fastforce
  show ?thesis
    using assms log_line [of line bpl "dp_sdk s"]
    by (auto simp: send_line_def line w Let_def give_up_def split: if_splits)
qed

lemma print_line_sent:
  assumes "print_line E raised src n bpl (row, ch) i s = (True, t)"
  shows "\<exists>line d. src ch (int row) = Inr line \<and> length line = unat bpl \<and>
    log (dp_sdk t) = log (dp_sdk s) @ d @ [LineSent line bpl (sint bpl)] \<and> dp_originActive t = dp_originActive s \<and>
    list_all aborted d \<and> length d \<le> abort_requests (raised i) \<and>
    (d \<noteq> [] \<longrightarrow> i mod 8 = 0 \<and> dp_cancelRequested t) \<and> \<not> dp_cancelRequested s"
proof -
  define u where "u = (if i mod 8 = 0 then handle_aborts E (abort_requests (raised i)) s else s)"
  have u: "\<not> dp_cancelRequested s" "send_line E src n bpl (row, ch) u = (True, t)"
    using assms by (auto simp: print_line_def u_def split: if_splits)
  obtain d where "log (dp_sdk u) = log (dp_sdk s) @ d" "list_all aborted d" "length d \<le> abort_requests (raised i)"
    "dp_originActive u = dp_originActive s" "d \<noteq> [] \<longrightarrow> i mod 8 = 0 \<and> dp_cancelRequested u"
    using handle_aborts_log [of "abort_requests (raised i)" s] by (cases "i mod 8 = 0") (auto simp: u_def)
  then show ?thesis using u(1) send_line_sent [OF u(2)] by auto
qed

lemma print_lines_sent:
  "print_lines E raised src n bpl cells i s = (True, t) \<Longrightarrow>
   \<exists>ls late. map (\<lambda>(row, ch). src ch (int row)) cells = map Inr ls \<and> (\<forall>l \<in> set ls. length l = unat bpl) \<and>
     log (dp_sdk t) = log (dp_sdk s) @ line_events bpl ls late \<and> dp_originActive t = dp_originActive s \<and>
     list_all aborted late \<and> length late \<le> abort_requests (raised (i + length ls - 1)) \<and>
     (late \<noteq> [] \<longrightarrow> ls \<noteq> [] \<and> (i + length ls - 1) mod 8 = 0) \<and> (cells \<noteq> [] \<longrightarrow> \<not> dp_cancelRequested s)"
proof (induction cells arbitrary: i s)
  case Nil
  then show ?case by (intro exI [of _ "[]"]) simp
next
  case (Cons cell cells)
  obtain row ch where c: "cell = (row, ch)" by fastforce
  obtain u where u: "print_line E raised src n bpl (row, ch) i s = (True, u)"
    "print_lines E raised src n bpl cells (Suc i) u = (True, t)"
    using Cons.prems by (auto simp: c and_then_def split: prod.splits if_splits)
  obtain line d where a: "src ch (int row) = Inr line" "length line = unat bpl"
    "log (dp_sdk u) = log (dp_sdk s) @ d @ [LineSent line bpl (sint bpl)]" "dp_originActive u = dp_originActive s"
    "list_all aborted d" "length d \<le> abort_requests (raised i)" "d \<noteq> [] \<longrightarrow> i mod 8 = 0 \<and> dp_cancelRequested u"
    "\<not> dp_cancelRequested s"
    using print_line_sent [OF u(1)] by (elim exE conjE)
  obtain ls late where b: "map (\<lambda>(row, ch). src ch (int row)) cells = map Inr ls" "\<forall>l \<in> set ls. length l = unat bpl"
    "log (dp_sdk t) = log (dp_sdk u) @ line_events bpl ls late" "dp_originActive t = dp_originActive u"
    "list_all aborted late" "length late \<le> abort_requests (raised (Suc i + length ls - 1))"
    "late \<noteq> [] \<longrightarrow> ls \<noteq> [] \<and> (Suc i + length ls - 1) mod 8 = 0" "cells \<noteq> [] \<longrightarrow> \<not> dp_cancelRequested u"
    using Cons.IH [OF u(2)] by (elim exE conjE)
  show ?case
  proof (cases ls)
    case Nil
    then show ?thesis using a b by (intro exI [of _ "[line]"] exI [of _ d]) (simp add: c)
  next
    case (Cons l ls')
    then have "d = []" using a(7) b(1,8) by auto
    then show ?thesis using a b Cons by (intro exI [of _ "line # ls"] exI [of _ late]) (simp add: c)
  qed
qed

lemma reset_succeeds:
  assumes "resetJobOrigin E keep s = (True, t)"
  shows "log (dp_sdk t) = log (dp_sdk s) @ (if dp_originActive s then [OriginSet 0 0 1, OriginRead 1 0 0] else []) \<and>
    \<not> dp_originActive t"
proof (cases "dp_originActive s")
  case True
  show ?thesis
  proof (cases "k_setPrintXYValue (de_api E)")
    case (Some so)
    obtain r k where r: "so 0 0 (dp_sdk s) = (r, k)" by fastforce
    show ?thesis
    proof (cases "k_getPrintXYValue (de_api E)")
      case get: (Some go)
      obtain q x y k' where q: "go k = (q, x, y, k')" by (cases "go k") auto
      show ?thesis
        using assms True log_set_origin [OF Some, of 0 0 "dp_sdk s"] log_get_origin [OF get, of k]
        by (auto simp: resetJobOrigin_def Some r get q Let_def split: if_splits)
    qed (use assms True Some r in \<open>auto simp: resetJobOrigin_def Let_def split: if_splits\<close>)
  qed (use assms True in \<open>auto simp: resetJobOrigin_def Let_def split: if_splits option.splits\<close>)
qed (use assms in \<open>auto simp: resetJobOrigin_def\<close>)

lemma call_log:
  assumes "\<And>k. log (snd (f k)) = log k @ [e (fst (f k))]" "sdk_call f n s = (True, t)"
  shows "log (dp_sdk t) = log (dp_sdk s) @ [e 1] \<and> dp_originActive t = dp_originActive s \<and> dp_cancelRequested t = dp_cancelRequested s"
  using assms sdk_call_fields [of f n s] by simp

lemma send_job_sent:
  assumes ok: "send_job E raised src r p s = (True, t)"
  shows "\<exists>ls late. map (\<lambda>(row, ch). src ch (int row)) (row_cells (ra_height r) (ra_order r)) = map Inr ls \<and>
    (\<forall>l \<in> set ls. length l = unat (p ! 3)) \<and> late_aborts raised (length ls) late \<and>
    log (dp_sdk t) = log (dp_sdk s) @ page_events p ls late @
      (if dp_originActive s then [OriginSet 0 0 1, OriginRead 1 0 0] else []) \<and> \<not> dp_originActive t \<and>
    (row_cells (ra_height r) (ra_order r) \<noteq> [] \<longrightarrow> \<not> dp_cancelRequested s)"
proof -
  obtain a where a: "sdk_call (k_startPrint (de_api E) p) ''StartPrint'' s = (True, a)"
    using ok by (cases "sdk_call (k_startPrint (de_api E) p) ''StartPrint'' s")
      (auto simp: send_job_def Let_def setError_def split: if_splits)
  define ls where "ls = print_lines E raised src (length (the (ra_lines r))) (p ! 3) (row_cells (ra_height r) (ra_order r)) 0"
  obtain b where b: "ls a = (True, b)"
    using ok a by (cases "ls a") (auto simp: send_job_def Let_def and_then_step ls_def [symmetric] split: if_splits)
  obtain c where c: "sdk_call (k_endPrint (de_api E)) ''EndPrint'' b = (True, c)"
    using ok a b by (cases "sdk_call (k_endPrint (de_api E)) ''EndPrint'' b")
      (auto simp: send_job_def Let_def and_then_step ls_def [symmetric] split: if_splits)
  obtain d where d: "sdk_call (k_closePrint (de_api E)) ''ClosePrint'' c = (True, d)" "resetJobOrigin E False d = (True, t)"
    using ok a b c by (cases "sdk_call (k_closePrint (de_api E)) ''ClosePrint'' c")
      (auto simp: send_job_def Let_def and_then_step ls_def [symmetric] split: if_splits)
  obtain ls late where l: "map (\<lambda>(row, ch). src ch (int row)) (row_cells (ra_height r) (ra_order r)) = map Inr ls"
    "\<forall>l \<in> set ls. length l = unat (p ! 3)" "log (dp_sdk b) = log (dp_sdk a) @ line_events (p ! 3) ls late"
    "dp_originActive b = dp_originActive a" "list_all aborted late" "length late \<le> abort_requests (raised (0 + length ls - 1))"
    "late \<noteq> [] \<longrightarrow> ls \<noteq> [] \<and> (0 + length ls - 1) mod 8 = 0"
    "row_cells (ra_height r) (ra_order r) \<noteq> [] \<longrightarrow> \<not> dp_cancelRequested a"
    using print_lines_sent [OF b [unfolded ls_def]] by (elim exE conjE)
  have "late_aborts raised (length ls) late" using l(5-7) by (simp add: late_aborts_def)
  moreover note call_log [where e = "Started p", OF log_start a] call_log [where e = Ended, OF log_end c]
    call_log [where e = Closed, OF log_close d(1)] reset_succeeds [OF d(2)]
  ultimately show ?thesis
    using l(1-4,8) by (intro exI [of _ ls] exI [of _ late]) (simp add: page_events_def)
qed

lemma get_origin_log:
  assumes "get_origin E n s = ((True, x, y), t)"
  shows "log (dp_sdk t) = log (dp_sdk s) @ [OriginRead 1 x y] \<and> dp_originActive t = dp_originActive s \<and> dp_cancelRequested t = dp_cancelRequested s"
proof (cases "k_getPrintXYValue (de_api E)")
  case (Some go)
  obtain q u v k where "go (dp_sdk s) = (q, u, v, k)" by (cases "go (dp_sdk s)") auto
  then show ?thesis
    using assms log_get_origin [OF Some, of "dp_sdk s"]
    by (auto simp: get_origin_def Some Let_def callSucceeded_def setError_def split: if_splits)
qed (use assms in \<open>simp add: get_origin_def\<close>)

lemma set_origin_log:
  assumes "set_origin E n x y s = (True, t)"
  shows "log (dp_sdk t) = log (dp_sdk s) @ [OriginSet x y 1] \<and> dp_originActive t = dp_originActive s \<and> dp_cancelRequested t = dp_cancelRequested s"
proof (cases "k_setPrintXYValue (de_api E)")
  case (Some so)
  then show ?thesis
    using assms call_log [where e = "OriginSet x y" and f = "so x y" and s = s and t = t, OF log_set_origin [OF Some]]
    by (simp add: set_origin_def sdk_call_opt_def)
qed (use assms in \<open>simp add: set_origin_def sdk_call_opt_def setError_def\<close>)

lemma prepare_succeeds:
  assumes ok: "prepareX33PrintOrigin E settings s = (True, t)"
  shows "\<exists>pre. log (dp_sdk t) = log (dp_sdk s) @ pre @ [at_origin settings] \<and> list_all silent pre \<and>
    dp_originActive t = offset_requested settings \<and> dp_cancelRequested t = dp_cancelRequested s"
proof -
  define x y where x: "x = millimetersToPrintXYUnits (printOffsetXmm settings)"
    and y: "y = millimetersToPrintXYUnits (printOffsetYmm settings)"
  note xy = x [symmetric] y [symmetric]
  define s0 where "s0 = s\<lparr>dp_originActive := (x \<noteq> 0 \<or> y \<noteq> 0)\<rparr>"
  obtain g ax ay s1 where g: "get_origin E ''GetPrintXYValue'' s0 = ((g, ax, ay), s1)" by (metis surj_pair)
  have g1: g using ok g by (cases g) (auto simp: prepareX33PrintOrigin_def xy s0_def Let_def setError_def split: if_splits)
  have l1: "log (dp_sdk s1) = log (dp_sdk s) @ [OriginRead 1 ax ay]" "dp_originActive s1 = (x \<noteq> 0 \<or> y \<noteq> 0)"
    "dp_cancelRequested s1 = dp_cancelRequested s"
    using get_origin_log [of _ s0 ax ay s1] g g1 by (simp_all add: s0_def)
  show ?thesis
  proof (cases "\<not> de_arm E \<or> ax \<noteq> x \<or> ay \<noteq> y")
    case False
    then have "t = s1 \<and> ax = x \<and> ay = y"
      using ok g g1 by (auto simp: prepareX33PrintOrigin_def xy s0_def Let_def setError_def split: if_splits)
    then show ?thesis using l1 by (intro exI [of _ "[]"]) (simp add: at_origin_def offset_requested_def xy)
  next
    case True
    obtain h s2 where h: "set_origin E ''SetPrintXYValue'' x y s1 = (h, s2)" by fastforce
    have h1: h
      using ok g g1 h True by (cases h) (auto simp: prepareX33PrintOrigin_def xy s0_def Let_def setError_def split: if_splits)
    obtain j bx by' s3 where j: "get_origin E ''GetPrintXYValue after SetPrintXYValue'' s2 = ((j, bx, by'), s3)" by (metis surj_pair)
    have j1: "j \<and> t = s3 \<and> bx = x \<and> by' = y"
      using ok g g1 h h1 j True
      by (cases j) (auto simp: prepareX33PrintOrigin_def xy s0_def Let_def setError_def split: if_splits)
    show ?thesis
      using l1 set_origin_log [of "''SetPrintXYValue''" x y s1 s2] h h1 get_origin_log [of _ s2 x y s3] j j1
      by (intro exI [of _ "[OriginRead 1 ax ay, OriginSet x y 1]"]) (simp add: at_origin_def offset_requested_def xy)
  qed
qed

lemma and_then_TrueE:
  assumes "and_then a b s = (True, t)"
  obtains u where "a s = (True, u)" "b u = (True, t)"
  using assms by (auto simp: and_then_def split: prod.splits if_splits)

definition origin_act :: "raster \<Rightarrow> print_settings \<Rightarrow> ('v, 'k) act" where
  "origin_act r settings = (if ra_format r = 1 then prepareX33PrintOrigin E settings else Pair True)"

definition settings_act :: "raster \<Rightarrow> job_settings \<Rightarrow> ('v, 'k) act" where
  "settings_act r js = (if ra_format r = 1 \<and> de_arm E then Pair True else sdk_call (k_setJobSettings (de_api E) js) ''SetJobSettings'')"

definition init_act :: "('v, 'k) act" where
  "init_act = sdk_call (k_initPrinter (de_api E)) ''InitPrinter''"

definition ready_act :: "raster \<Rightarrow> print_settings \<Rightarrow> ('v, 'k) act" where
  "ready_act r settings = (if de_arm E then and_then (origin_act r settings) init_act else and_then init_act (origin_act r settings))"

lemma job_body_acts:
  "job_body E raised src r settings p js =
     and_then (applyMediaHeight E settings) (and_then (settings_act r js)
       (and_then (ready_act r settings) (send_job E raised src r p)))"
  by (simp add: job_body_def Let_def origin_act_def settings_act_def init_act_def ready_act_def)

lemma settings_act_quiet: "quiet (settings_act r js)"
  by (simp add: settings_act_def settings_quiet quiet_skip)

lemma init_log:
  "init_act u = (True, v) \<Longrightarrow> log (dp_sdk v) = log (dp_sdk u) @ [Initialized 1] \<and> 
   dp_originActive v = dp_originActive u \<and> dp_cancelRequested v = dp_cancelRequested u"
  unfolding init_act_def using call_log [where e = Initialized, OF log_init] by blast

lemma origin_log:
  assumes "origin_act r settings u = (True, v)" "\<not> dp_originActive u"
  shows "\<exists>pre. list_all silent pre \<and>
    log (dp_sdk v) = log (dp_sdk u) @ pre @ (if ra_format r = 1 then [at_origin settings] else []) \<and>
    dp_originActive v = (ra_format r = 1 \<and> offset_requested settings) \<and> dp_cancelRequested v = dp_cancelRequested u"
proof (cases "ra_format r = 1")
  case True
  then show ?thesis using prepare_succeeds [of settings u v] assms(1) by (auto simp: origin_act_def)
qed (use assms in \<open>auto simp: origin_act_def intro: exI [of _ "[]"]\<close>)

lemma ready_log:
  assumes ok: "ready_act r settings b = (True, c)" and off: "\<not> dp_originActive b"
  shows "\<exists>pre. list_all silent pre \<and>
    log (dp_sdk c) = log (dp_sdk b) @ pre @ (if ra_format r = 1 then ready_events (de_arm E) settings else []) \<and>
    dp_originActive c = (ra_format r = 1 \<and> offset_requested settings) \<and> dp_cancelRequested c = dp_cancelRequested b"
proof (cases "de_arm E")
  case True
  then obtain u where u: "origin_act r settings b = (True, u)" "init_act u = (True, c)"
    using ok by (auto simp: ready_act_def elim: and_then_TrueE)
  obtain pre where pre: "list_all silent pre"
    "log (dp_sdk u) = log (dp_sdk b) @ pre @ (if ra_format r = 1 then [at_origin settings] else [])"
    "dp_originActive u = (ra_format r = 1 \<and> offset_requested settings)" "dp_cancelRequested u = dp_cancelRequested b"
    using origin_log [OF u(1) off] by blast
  show ?thesis
    using pre init_log [OF u(2)] True
    by (intro exI [of _ "if ra_format r = 1 then pre else pre @ [Initialized 1]"]) (simp add: ready_events_def)
next
  case False
  then obtain u where u: "init_act b = (True, u)" "origin_act r settings u = (True, c)"
    using ok by (auto simp: ready_act_def elim: and_then_TrueE)
  have "\<not> dp_originActive u" using init_log [OF u(1)] off by simp
  then obtain pre where pre: "list_all silent pre"
    "log (dp_sdk c) = log (dp_sdk u) @ pre @ (if ra_format r = 1 then [at_origin settings] else [])"
    "dp_originActive c = (ra_format r = 1 \<and> offset_requested settings)" "dp_cancelRequested c = dp_cancelRequested u"
    using origin_log [OF u(2)] by blast
  then show ?thesis
    using init_log [OF u(1)] False by (intro exI [of _ "Initialized 1 # pre"]) (simp add: ready_events_def)
qed

lemma job_body_sent:
  assumes ok: "job_body E raised src r settings p js s = (True, t)" and off: "\<not> dp_originActive s"
  shows "\<exists>ls late d. printed (de_arm E) src r settings p ls late d \<and> late_aborts raised (length ls) late \<and> log (dp_sdk t) = log (dp_sdk s) @ d \<and> \<not> dp_originActive t \<and>
    (row_cells (ra_height r) (ra_order r) \<noteq> [] \<longrightarrow> \<not> dp_cancelRequested s)"
proof -
  obtain a b c where "applyMediaHeight E settings s = (True, a)" "settings_act r js a = (True, b)"
    and c: "ready_act r settings b = (True, c)" "send_job E raised src r p c = (True, t)"
    using ok unfolding job_body_acts by (elim and_then_TrueE)
  then have "calm s b"
    by (meson calm_trans quietE applyMediaHeight_quiet settings_act_quiet)
  then obtain d where d: "log (dp_sdk b) = log (dp_sdk s) @ d" "list_all silent d" "\<not> dp_originActive b"
    "dp_cancelRequested b = dp_cancelRequested s"
    using off by (auto simp: calm_def outside_silent)
  obtain pre where pre: "list_all silent pre"
    "log (dp_sdk c) = log (dp_sdk b) @ pre @ (if ra_format r = 1 then ready_events (de_arm E) settings else [])"
    "dp_originActive c = (ra_format r = 1 \<and> offset_requested settings)" "dp_cancelRequested c = dp_cancelRequested b"
    using ready_log [OF c(1) d(3)] by blast
  obtain ls late where "map (\<lambda>(row, ch). src ch (int row)) (row_cells (ra_height r) (ra_order r)) = map Inr ls"
    "\<forall>l \<in> set ls. length l = unat (p ! 3)" "late_aborts raised (length ls) late"
    "log (dp_sdk t) = log (dp_sdk c) @ page_events p ls late @
      (if dp_originActive c then [OriginSet 0 0 1, OriginRead 1 0 0] else [])" "\<not> dp_originActive t"
    "row_cells (ra_height r) (ra_order r) \<noteq> [] \<longrightarrow> \<not> dp_cancelRequested c"
    using send_job_sent [OF c(2)] by blast
  then show ?thesis
    using d pre unfolding printed_def
    by (intro exI [of _ ls] exI [of _ late] exI [of _ "d @ pre @ (if ra_format r = 1 then ready_events (de_arm E) settings else []) @
          page_events p ls late @ restore_events r settings"])
      (auto simp: restore_events_def intro: exI [of _ "d @ pre"])
qed

lemma printPackedJob_sent:
  assumes ok: "printPackedJob E raised src r settings s = (True, t)"
  shows "\<exists>planes p ls late d. ra_lines r = Some planes \<and>
    job_property (de_arm E) r settings
      (if ra_lineBytes r > 0 then ra_lineBytes r else int (length (planes ! 0 ! 0))) = Inr p \<and>
    printed (de_arm E) src r settings p ls late d \<and> late_aborts raised (length ls) late \<and>
    log (dp_sdk t) = log (dp_sdk s) @ d \<and> (row_cells (ra_height r) (ra_order r) \<noteq> [] \<longrightarrow> \<not> dp_cancelRequested s)"
proof -
  obtain a where a: "ensureLoaded E s = (True, a)" and ok2: "snd (printPackedJob E raised src r settings s) = t"
    using ok unfolding printPackedJob_def by (auto elim: and_then_TrueE)
  obtain planes where planes: "ra_lines r = Some planes" "planes \<noteq> []" "ra_order r \<noteq> []"
    using ok by (auto simp: printPackedJob_def and_then_step [where a = "ensureLoaded E", OF a] setError_def
        split: option.splits if_splits)
  let ?n = "if ra_lineBytes r > 0 then ra_lineBytes r else int (length (planes ! 0 ! 0))"
  obtain p where p: "job_property (de_arm E) r settings ?n = Inr p"
    using ok by (cases "job_property (de_arm E) r settings ?n")
      (auto simp: printPackedJob_def and_then_step [where a = "ensureLoaded E", OF a] planes setError_def Let_def split: if_splits)
  define js where "js = (if ra_format r = 1 then (makeJobSettings settings)\<lparr>js_PrintDirection := 1\<rparr> else makeJobSettings settings)"
  define sent :: "('v, 'k) act" where "sent = withSdkWorkingDirectory E (\<lambda>s.
      let (ok, s) = job_body E raised src r settings p js (s\<lparr>dp_originActive := False\<rparr>) in
      (ok, snd (resetJobOrigin E True s)))"
  have "and_then (connect_for_job E settings) sent a = (True, t)"
    using ok unfolding sent_def js_def
    by (simp add: printPackedJob_def and_then_step [where a = "ensureLoaded E", OF a] planes p Let_def)
  then obtain b where b: "connect_for_job E settings a = (True, b)" "sent b = (True, t)" by (elim and_then_TrueE)
  obtain c where c: "job_body E raised src r settings p js (b\<lparr>dp_originActive := False\<rparr>) = (True, c)"
    "t = snd (resetJobOrigin E True c)"
    using b(2) by (auto simp: sent_def withSdkWorkingDirectory_def setError_def split: if_splits prod.splits)
  obtain ls late d where d: "printed (de_arm E) src r settings p ls late d" "late_aborts raised (length ls) late" "log (dp_sdk c) = log (dp_sdk b) @ d" "\<not> dp_originActive c"
    "row_cells (ra_height r) (ra_order r) \<noteq> [] \<longrightarrow> \<not> dp_cancelRequested b"
    using job_body_sent [OF c(1)] by auto
  have "calm s b" by (rule calm_trans [OF quietE [OF ensureLoaded_quiet a] quietE [OF connect_for_job_quiet b(1)]])
  then obtain e where e: "log (dp_sdk b) = log (dp_sdk s) @ e" "list_all silent e"
    "dp_cancelRequested b = dp_cancelRequested s"
    by (auto simp: calm_def outside_silent)
  have "printed (de_arm E) src r settings p ls late (e @ d)"
    using d(1) e(2) unfolding printed_def by (auto intro: exI [of _ "e @ _"])
  then show ?thesis using planes p d e c(2) by (auto simp: resetJobOrigin_def)
qed

end

section \<open>An abort the job does not heed\<close>

text \<open>The flag is read before the events are handled: when a request to abort comes in at a line, that line is
  still sent to a printer whose job the library has just aborted. Where it is the last line of the job, nothing
  reads the flag any more, and the job goes on to its end.\<close>

theorem abort_at_a_line_still_sends_it:
  assumes "\<not> dp_cancelRequested s" and "dp_isLoaded s" and "dp_symbols s" and "\<not> dp_cancelFile s"
    and "i mod 8 = 0" and "raised i = \<lparr>cancel_seen = False, abort_requests = 1\<rparr>"
    and "0 \<le> ch" and "ch < int n" and "src ch (int row) = Inr line" and "length line = unat bpl"
    and "\<And>k. fst (k_printALine (de_api E) line bpl k) = sint bpl"
  shows "\<exists>t r. print_line (traced_env E) raised src n bpl (row, ch) i s = (True, t) \<and> dp_cancelRequested t \<and>
    snd (dp_sdk t) = snd (dp_sdk s) @ [Aborted r, LineSent line bpl (sint bpl)]"
proof -
  obtain r k where r: "k_abortPrint (de_api E) (fst (dp_sdk s)) = (r, k)" by fastforce
  obtain k' where k': "k_printALine (de_api E) line bpl k = (sint bpl, k')"
    using assms(11) [of k] by (cases "k_printALine (de_api E) line bpl k") simp
  show ?thesis
    using assms(1-10)
    by (simp add: print_line_def send_line_def abortPrint_def and_then_def ensureLoaded_def sdk_call_def callSucceeded_def
        setError_def traced_env_def traced_def logged_def r k' Let_def)
qed

end
