(* ===== verification/Direct_Delivery.thy ===== *)
theory Direct_Delivery
  imports Direct_Laws Prn_Delivery
begin

text \<open>
  A printer that answers its calls gets the whole job: with a printer that works, that is
  connected and selected, a job whose lines can be read is printed to the end. For a job that
  comes from a spool the lines are those of the planes in the spool, in the order of the
  print files.
\<close>

section \<open>A printer that works\<close>

definition standing_by :: "print_settings \<Rightarrow> ('v, 'k) direct \<Rightarrow> bool" where
  \<comment> \<open>the library is loaded and the printer the job names is selected and connected\<close>
  "standing_by settings s \<longleftrightarrow>
     dp_isLoaded s \<and> dp_symbols s \<and> dp_resolvedSdkRoot s \<noteq> [] \<and> dp_connected s \<and> 0 \<le> dp_selected s \<and>
     (printerIndex settings < 0 \<or> printerIndex settings = dp_selected s)"

locale working_printer = driver_log E log
  for E :: "('v, 'k) direct_env" and log :: "'k \<Rightarrow> sdk_event list" +
  assumes enters: "de_enter E rt"
    and starts: "fst (k_startPrint (de_api E) p k) = 1"
    and takes: "fst (k_printALine (de_api E) l n k) = sint n"
    and ends: "fst (k_endPrint (de_api E) k) = 1"
    and closes: "fst (k_closePrint (de_api E) k) = 1"
    and initializes: "fst (k_initPrinter (de_api E) k) = 1"
    and configures: "fst (k_setJobSettings (de_api E) js k) = 1"
    and origins: "\<exists>so go. k_setPrintXYValue (de_api E) = Some so \<and> k_getPrintXYValue (de_api E) = Some go \<and>
      (\<forall>x y k. fst (so x y k) = 1 \<and> fst (go k) = 1 \<and> (\<exists>k'. go (snd (so x y k)) = (1, x, y, k')))"
    and heights: "\<exists>sh gh. k_setPrintHeight (de_api E) = Some sh \<and> k_getPrintHeight (de_api E) = Some gh \<and>
      (\<forall>h k. fst (sh h k) = 1 \<and> fst (await_height gh h 240 (snd (sh h k))))"
begin

lemma call_ok: "(\<And>k. fst (f k) = 1) \<Longrightarrow> \<exists>t. sdk_call f n s = (True, t)"
  by (simp add: sdk_call_def split_def Let_def callSucceeded_def)

lemma height_completes:
  assumes "mediaHeightMm settings < 0 \<or> encodePrintHeightMm (mediaHeightMm settings) = Inr target"
  shows "\<exists>t. applyMediaHeight E settings s = (True, t)"
proof (cases "mediaHeightMm settings < 0")
  case False
  then have e: "encodePrintHeightMm (mediaHeightMm settings) = Inr target" using assms by simp
  obtain sh gh where h: "k_setPrintHeight (de_api E) = Some sh" "k_getPrintHeight (de_api E) = Some gh"
    "\<And>h k. fst (sh h k) = 1" "\<And>h k. fst (await_height gh h 240 (snd (sh h k)))"
    using heights by blast
  obtain r c k where g: "gh (dp_sdk s) = (r, c, k)" by (cases "gh (dp_sdk s)") auto
  obtain r' k' where sk: "sh target k = (r', k')" by fastforce
  have "r' = 1" "fst (await_height gh target 240 k')" using h(3) [of target k] h(4) [of target k] sk by simp_all
  then show ?thesis
    by (cases "await_height gh target 240 k'")
      (simp add: applyMediaHeight_def False h(1,2) e g Let_def and_then_def sdk_call_def sk callSucceeded_def)
qed (simp add: applyMediaHeight_def)

lemma origin_completes: "\<exists>t. origin_act r settings s = (True, t)"
proof (cases "ra_format r = 1")
  case True
  obtain so go where o: "k_setPrintXYValue (de_api E) = Some so" "k_getPrintXYValue (de_api E) = Some go"
    "\<And>x y k. fst (so x y k) = 1" "\<And>k. fst (go k) = 1" "\<And>x y k. \<exists>k'. go (snd (so x y k)) = (1, x, y, k')"
    using origins by blast
  define x y where x: "x = millimetersToPrintXYUnits (printOffsetXmm settings)"
    and y: "y = millimetersToPrintXYUnits (printOffsetYmm settings)"
  obtain ax ay k where g: "go (dp_sdk s) = (1, ax, ay, k)" using o(4) [of "dp_sdk s"] by (cases "go (dp_sdk s)") auto
  obtain k1 where so: "so x y k = (1, k1)" using o(3) [of x y k] by (cases "so x y k") simp
  obtain k2 where "go k1 = (1, x, y, k2)" using o(5) [of x y k] so by auto
  then show ?thesis
    by (auto simp: origin_act_def True prepareX33PrintOrigin_def o(1,2) x [symmetric] y [symmetric] Let_def get_origin_def
        set_origin_def sdk_call_opt_def sdk_call_def callSucceeded_def g so)
qed (simp add: origin_act_def)

lemma ready_completes: "\<exists>t. ready_act r settings s = (True, t)"
proof -
  have i: "\<exists>t. init_act u = (True, t)" for u unfolding init_act_def by (rule call_ok) (rule initializes)
  show ?thesis
  proof (cases "de_arm E")
    case True
    obtain t where "origin_act r settings s = (True, t)" using origin_completes by blast
    then show ?thesis using i [of t] True by (auto simp: ready_act_def and_then_def)
  next
    case False
    obtain t where "init_act s = (True, t)" using i by blast
    then show ?thesis using origin_completes [of r settings t] False by (auto simp: ready_act_def and_then_def)
  qed
qed

lemma reset_completes: "\<exists>t. resetJobOrigin E keep s = (True, t)"
proof -
  obtain so go where o: "k_setPrintXYValue (de_api E) = Some so" "k_getPrintXYValue (de_api E) = Some go"
    "\<And>x y k. fst (so x y k) = 1" "\<And>x y k. \<exists>k'. go (snd (so x y k)) = (1, x, y, k')"
    using origins by blast
  obtain k where k: "so 0 0 (dp_sdk s) = (1, k)" using o(3) [of 0 0 "dp_sdk s"] by (cases "so 0 0 (dp_sdk s)") simp
  moreover obtain k' where "go k = (1, 0, 0, k')" using o(4) [of 0 0 "dp_sdk s"] k by auto
  ultimately show ?thesis by (auto simp: resetJobOrigin_def o(1,2) Let_def)
qed

definition lines_ready :: "line_source \<Rightarrow> nat \<Rightarrow> u32 \<Rightarrow> (nat \<times> int) list \<Rightarrow> bool" where
  "lines_ready src n bpl cells \<longleftrightarrow>
     (\<forall>(row, ch) \<in> set cells. 0 \<le> ch \<and> ch < int n \<and> (\<exists>line. src ch (int row) = Inr line \<and> length line = unat bpl))"

lemma lines_complete:
  assumes "\<And>i. raised i = quiet_poll"
  shows "lines_ready src n bpl cells \<Longrightarrow> \<not> dp_cancelRequested s \<Longrightarrow>
    \<exists>t. print_lines E raised src n bpl cells i s = (True, t)"
proof (induction cells arbitrary: i s)
  case (Cons cell cells)
  obtain row ch where c: "cell = (row, ch)" by fastforce
  obtain line where l: "0 \<le> ch" "ch < int n" "src ch (int row) = Inr line" "length line = unat bpl"
    using Cons.prems(1) by (auto simp: lines_ready_def c)
  obtain k where "k_printALine (de_api E) line bpl (dp_sdk s) = (sint bpl, k)"
    using takes [of line bpl "dp_sdk s"] by (cases "k_printALine (de_api E) line bpl (dp_sdk s)") simp
  then have p: "print_line E raised src n bpl cell i s = (True, s\<lparr>dp_sdk := k\<rparr>)"
    using l Cons.prems(2) assms by (simp add: print_line_def send_line_def quiet_poll_def c Let_def)
  have "lines_ready src n bpl cells" using Cons.prems(1) by (simp add: lines_ready_def)
  then show ?case using Cons.IH [of "s\<lparr>dp_sdk := k\<rparr>" "Suc i"] Cons.prems(2) by (simp add: and_then_def p)
qed simp

lemma send_completes:
  assumes "\<And>i. raised i = quiet_poll" "\<not> dp_cancelRequested s"
    and "lines_ready src (length (the (ra_lines r))) (p ! 3) (row_cells (ra_height r) (ra_order r))"
  shows "\<exists>t. send_job E raised src r p s = (True, t)"
proof -
  obtain a where a: "sdk_call (k_startPrint (de_api E) p) ''StartPrint'' s = (True, a)"
    using call_ok [of "k_startPrint (de_api E) p" "''StartPrint''" s] starts by auto
  have "dp_cancelRequested a = dp_cancelRequested s" using call_log [where e = "Started p", OF log_start a] by blast
  then have "\<not> dp_cancelRequested a" using assms(2) by simp
  then obtain b where b: "print_lines E raised src (length (the (ra_lines r))) (p ! 3)
      (row_cells (ra_height r) (ra_order r)) 0 a = (True, b)"
    using lines_complete [where raised = raised and i = 0 and s = a, OF assms(1,3)] by blast
  obtain c where c: "sdk_call (k_endPrint (de_api E)) ''EndPrint'' b = (True, c)"
    using call_ok [of "k_endPrint (de_api E)" "''EndPrint''" b] ends by auto
  obtain d where d: "sdk_call (k_closePrint (de_api E)) ''ClosePrint'' c = (True, d)"
    using call_ok [of "k_closePrint (de_api E)" "''ClosePrint''" c] closes by auto
  obtain t where "resetJobOrigin E False d = (True, t)" using reset_completes by blast
  then have "send_job E raised src r p s = (True, t)" using a b c d by (simp add: send_job_def Let_def and_then_step)
  then show ?thesis ..
qed

lemma job_body_completes:
  assumes "\<And>i. raised i = quiet_poll" "\<not> dp_cancelRequested s" "\<not> dp_originActive s"
    and "lines_ready src (length (the (ra_lines r))) (p ! 3) (row_cells (ra_height r) (ra_order r))"
    and "mediaHeightMm settings < 0 \<or> encodePrintHeightMm (mediaHeightMm settings) = Inr target"
  shows "\<exists>t. job_body E raised src r settings p js s = (True, t)"
proof -
  obtain a where a: "applyMediaHeight E settings s = (True, a)" using height_completes [OF assms(5)] by blast
  have "\<exists>t. settings_act r js a = (True, t)"
    by (simp add: settings_act_def call_ok configures)
  then obtain b where b: "settings_act r js a = (True, b)" by blast
  have "calm s b" by (rule calm_trans [OF quietE [OF applyMediaHeight_quiet a] quietE [OF settings_act_quiet b]])
  then have off: "\<not> dp_originActive b" "\<not> dp_cancelRequested b" using assms(2,3) by (auto simp: calm_def)
  obtain c where c: "ready_act r settings b = (True, c)" using ready_completes by blast
  have "\<not> dp_cancelRequested c" using ready_log [OF c off(1)] off(2) by blast
  then obtain t where "send_job E raised src r p c = (True, t)"
    using send_completes [where raised = raised, OF assms(1) _ assms(4)] by blast
  then show ?thesis using a b c by (simp add: job_body_acts and_then_def)
qed

lemma printPackedJob_completes:
  assumes "\<And>i. raised i = quiet_poll" "\<not> dp_cancelRequested s" "standing_by settings s"
    and lines: "ra_lines r = Some planes" "planes \<noteq> []" "ra_order r \<noteq> []" "0 < ra_lineBytes r"
    and p: "job_property (de_arm E) r settings (ra_lineBytes r) = Inr p"
    and src: "lines_ready src (length planes) (p ! 3) (row_cells (ra_height r) (ra_order r))"
    and height: "mediaHeightMm settings < 0 \<or> encodePrintHeightMm (mediaHeightMm settings) = Inr target"
  shows "\<exists>t. printPackedJob E raised src r settings s = (True, t)"
proof -
  have src': "lines_ready src (length (the (ra_lines r))) (p ! 3) (row_cells (ra_height r) (ra_order r))"
    using src lines(1) by simp
  have "\<exists>t. job_body E raised src r settings p js (s\<lparr>dp_originActive := False\<rparr>) = (True, t)" for js
    by (rule job_body_completes [where raised = raised, OF assms(1) _ _ src' height]) (simp_all add: assms(2))
  moreover have "ensureLoaded E s = (True, s)" "connect_for_job E settings s = (True, s)"
    using assms(3) by (auto simp: ensureLoaded_def connect_for_job_def standing_by_def Let_def)
  moreover define js where "js = (if ra_format r = 1 then (makeJobSettings settings)\<lparr>js_PrintDirection := 1\<rparr> else makeJobSettings settings)"
  ultimately obtain t where "job_body E raised src r settings p js (s\<lparr>dp_originActive := False\<rparr>) = (True, t)"
    "ensureLoaded E s = (True, s)" "connect_for_job E settings s = (True, s)" by blast
  then have "printPackedJob E raised src r settings s = (True, snd (resetJobOrigin E True t))"
    using assms(3) unfolding js_def
    by (simp add: printPackedJob_def and_then_def withSdkWorkingDirectory_def standing_by_def Let_def lines p enters)
  then show ?thesis ..
qed

end

section \<open>Jobs from a spool\<close>

definition page_lines :: "plane list \<Rightarrow> int list \<Rightarrow> int \<Rightarrow> bytes list" where
  \<comment> \<open>the lines of a page in the order of the print files\<close>
  "page_lines planes order h = map (\<lambda>(row, ch). planes ! nat ch ! row) (row_cells h order)"

lemma page_lines_interleaved: "concat (page_lines planes order h) = interleaved planes order (nat h)"
proof -
  have "concat (map (\<lambda>(row, ch). planes ! nat ch ! row) (List.product [0..<n] order)) = interleaved planes order n" for n
  proof (induction n)
    case (Suc n)
    have "concat (map (\<lambda>(row, ch). planes ! nat ch ! row) (List.product (xs @ [n]) order)) =
        concat (map (\<lambda>(row, ch). planes ! nat ch ! row) (List.product xs order)) @ concat (map (\<lambda>ch. planes ! nat ch ! n) order)"
      for xs :: "nat list"
      by (induction xs) (simp_all add: comp_def)
    then show ?case using Suc by (simp add: interleaved_def)
  qed (simp add: interleaved_def)
  then show ?thesis by (simp add: page_lines_def row_cells_def)
qed

lemma spool_cells:
  assumes A: "spool_at contents S d path m checksum planes" and D: "reliable_store D contents S"
    and cell: "(row, ch) \<in> set (row_cells (sp_height m) (sp_order m))"
  shows "spool_line D \<lparr>r_path = path, r_meta = with_disk_fields m path checksum\<rparr> d ch (int row) = Inr (planes ! nat ch ! row)"
    "0 \<le> ch" "ch < sp_logical m" "length (planes ! nat ch ! row) = nat (sp_lineBytes m)"
proof -
  note P = reliable_store.spool_at_parts [OF D A]
  have row: "row < nat (sp_height m)" and ch: "0 \<le> ch" "ch < sp_logical m"
    using cell valid_fields(10) [OF P(1)] by (auto simp: row_cells_def)
  then show "0 \<le> ch" "ch < sp_logical m" by simp_all
  show "spool_line D \<lparr>r_path = path, r_meta = with_disk_fields m path checksum\<rparr> d ch (int row) = Inr (planes ! nat ch ! row)"
    using reliable_store.readLine_ok [OF D A ch, of "int row"] row by (simp add: spool_line_def)
  have "planes ! nat ch \<in> set planes" using A ch by (intro nth_mem) (simp add: spool_at_def)
  then show "length (planes ! nat ch ! row) = nat (sp_lineBytes m)" using A row by (auto simp: spool_at_def)
qed

lemma map_Inr: "map f cells = map Inr ls \<Longrightarrow> (\<And>c. c \<in> set cells \<Longrightarrow> f c = Inr (g c)) \<Longrightarrow> ls = map g cells"
  by (induction cells arbitrary: ls) auto

lemma spool_opens:
  assumes A: "spool_at contents S d path m checksum planes" and D: "reliable_store D contents S"
    and c: "checksum = sha (encodeHeader S m [] @ concat (concat planes))" "length checksum = 32"
  shows "submitSpooledJob_here E D S sha raised (with_disk_fields m path checksum) settings d s =
    printPackedJob E raised (spool_line D \<lparr>r_path = path, r_meta = with_disk_fields m path checksum\<rparr> d)
      (spool_raster (with_disk_fields m path checksum)) settings (s\<lparr>dp_cancelRequested := False\<rparr>)"
proof -
  have f: "sp_path (with_disk_fields m path q) = path" "sp_sha256 (with_disk_fields m path q) = q" for q
    by (simp_all add: with_disk_fields_def)
  have "spool_verify D S sha (\<lambda>_. False) (with_disk_fields m path checksum) d = Inr ()"
    by (rule reliable_store.verify_ok [where sha = sha, OF D A _ c]) simp
  moreover have "reader_open D S sha (\<lambda>_. False) path True d = Inr \<lparr>r_path = path, r_meta = with_disk_fields m path checksum\<rparr>"
    by (rule reliable_store.reader_open_ok [where sha = sha, OF D A _ c]) simp
  ultimately show ?thesis by (simp add: submitSpooledJob_here_def printSpooledJob_def f Let_def)
qed

context driver_log
begin

lemma spool_sent:
  assumes A: "spool_at contents S d path m checksum planes" and D: "reliable_store D contents S"
    and c: "checksum = sha (encodeHeader S m [] @ concat (concat planes))" "length checksum = 32"
    and quiet: "\<And>i. raised i = quiet_poll"
    and ok: "submitSpooledJob_here E D S sha raised (with_disk_fields m path checksum) settings d s = (True, t)"
  shows "\<exists>p e src. job_property (de_arm E) (spool_raster (with_disk_fields m path checksum)) settings (sp_lineBytes m) = Inr p \<and>
    printed (de_arm E) src (spool_raster (with_disk_fields m path checksum)) settings p
      (page_lines planes (sp_order m) (sp_height m)) [] e \<and>
    log (dp_sdk t) = log (dp_sdk s) @ e"
proof -
  let ?sp = "with_disk_fields m path checksum"
  let ?src = "spool_line D \<lparr>r_path = path, r_meta = ?sp\<rparr> d"
  have f: "ra_height (spool_raster ?sp) = sp_height m" "ra_order (spool_raster ?sp) = sp_order m"
    "ra_lineBytes (spool_raster ?sp) = sp_lineBytes m"
    by (simp_all add: spool_raster_def with_disk_fields_def)
  have pos: "0 < sp_lineBytes m" using valid_fields [OF reliable_store.spool_at_parts(1) [OF D A]] by simp
  obtain p ls late e where s: "job_property (de_arm E) (spool_raster ?sp) settings (sp_lineBytes m) = Inr p"
    "printed (de_arm E) ?src (spool_raster ?sp) settings p ls late e" "late_aborts raised (length ls) late"
    "log (dp_sdk t) = log (dp_sdk s) @ e"
    using printPackedJob_sent [OF ok [unfolded spool_opens [where E = E and sha = sha, OF A D c]]] pos f(3) by auto
  have "late = []" using s(3) quiet by (simp add: late_aborts_def quiet_poll_def)
  moreover have "ls = page_lines planes (sp_order m) (sp_height m)"
    unfolding page_lines_def
    using s(2) map_Inr [of "\<lambda>(row, ch). ?src ch (int row)" "row_cells (sp_height m) (sp_order m)" ls
        "\<lambda>(row, ch). planes ! nat ch ! row"] spool_cells(1) [OF A D]
    by (auto simp: printed_def f)
  ultimately show ?thesis using s by blast
qed

end

context working_printer
begin

lemma spool_completes:
  assumes A: "spool_at contents S d path m checksum planes" and D: "reliable_store D contents S"
    and c: "checksum = sha (encodeHeader S m [] @ concat (concat planes))" "length checksum = 32"
    and go: "\<And>i. raised i = quiet_poll" "standing_by settings s"
    and p: "job_property (de_arm E) (spool_raster (with_disk_fields m path checksum)) settings (sp_lineBytes m) = Inr p"
      "unat (p ! 3) = nat (sp_lineBytes m)"
    and height: "mediaHeightMm settings < 0 \<or> encodePrintHeightMm (mediaHeightMm settings) = Inr target"
  shows "\<exists>t. submitSpooledJob_here E D S sha raised (with_disk_fields m path checksum) settings d s = (True, t)"
proof -
  let ?sp = "with_disk_fields m path checksum"
  let ?src = "spool_line D \<lparr>r_path = path, r_meta = ?sp\<rparr> d"
  have f: "ra_height (spool_raster ?sp) = sp_height m" "ra_order (spool_raster ?sp) = sp_order m"
    "ra_lineBytes (spool_raster ?sp) = sp_lineBytes m"
    "ra_lines (spool_raster ?sp) = Some (replicate (nat (sp_logical m)) [])"
    by (simp_all add: spool_raster_def with_disk_fields_def)
  note V = valid_fields [OF reliable_store.spool_at_parts(1) [OF D A]]
  have order: "sp_order m \<noteq> []" "0 < sp_logical m" "0 < sp_lineBytes m" using V by auto
  have "lines_ready ?src (nat (sp_logical m)) (p ! 3) (row_cells (sp_height m) (sp_order m))"
    using spool_cells [OF A D] order(2) by (auto simp: lines_ready_def p(2))
  then show ?thesis
    unfolding spool_opens [where E = E and sha = sha, OF A D c]
    by (intro printPackedJob_completes [where raised = raised and target = target, OF go(1) _ _ f(4)])
      (use go(2) order p(1) height f in \<open>auto simp: standing_by_def\<close>)
qed

end

end
