(* ===== verification/Direct_Maintenance.thy ===== *)
theory Direct_Maintenance
  imports Direct_Job
begin

text \<open>
  The maintenance operations of the driver: head and axis commands, the print height and
  origin, the engine's settings, alignment and UV tables as \<open>QVariantMap\<close>s, and the dispatch by
  action name that the service calls. The functions of the vendor library these need are
  \<open>head_sdk\<close>, all of them optional. Whether \<open>char\<close> is signed (it is on x86-64, it is not on
  Linux for ARM) decides how the channel alignments are read; it is a parameter.
\<close>

section \<open>The vendor tables\<close>

record alignment_values =
  av_StepValue :: u32
  av_BidiValue :: u8
  av_HorizontalSpacing :: "16 word list"
  av_VerticalSpacing :: "16 word list"
  av_HorizontalAlignReference :: u8
  av_VerticalAlignReference :: u8
  av_LeftChannelAlign :: "bytes list" \<comment> \<open>\<open>H1\<close> to \<open>H4\<close>\<close>
  av_RightChannelAlign :: "bytes list"

record uv_values =
  uv_RightR2LOffset :: "16 word"
  uv_RightL2ROffset :: "16 word"
  uv_LeftR2LOffset :: "16 word"
  uv_LeftL2ROffset :: "16 word"
  uv_LampL2ROffset :: "16 word"

record new_uv_values =
  nu_LampLeftStartOffset :: "16 word"
  nu_LampLeftEndOffset :: "16 word"
  nu_LampLeftMinOffset :: "16 word"
  nu_LampRightStartOffset :: "16 word"
  nu_LampRightEndOffset :: "16 word"
  nu_LampRightMinOffset :: "16 word"
  nu_LampDelayDistance :: "16 word"

definition default_job_settings :: job_settings where
  "default_job_settings =
     \<lparr>js_PrintDirection = 0, js_PrintSpeed = 1, js_WCSequence = 0, js_EclosionGrade = 0, js_HeadSelect = 0,
      js_WInkPercent = 0, js_WInkPassCount = 0, js_VInkPercent = 0, js_VInkPassCount = 0, js_HeadVoltage = 512,
      js_DisableUVLights = [0, 0, 0, 0, 0, 0], js_CarReset = 1, js_stripBlank = 0, js_blankDistance = 0\<rparr>"

definition default_alignment :: alignment_values where
  "default_alignment =
     \<lparr>av_StepValue = 0, av_BidiValue = 0, av_HorizontalSpacing = [0, 0, 0, 0], av_VerticalSpacing = [0, 0, 0, 0],
      av_HorizontalAlignReference = 0, av_VerticalAlignReference = 0,
      av_LeftChannelAlign = replicate 4 (replicate 8 0), av_RightChannelAlign = replicate 4 (replicate 8 0)\<rparr>"

definition default_uv :: uv_values where
  "default_uv = \<lparr>uv_RightR2LOffset = 0, uv_RightL2ROffset = 0, uv_LeftR2LOffset = 0, uv_LeftL2ROffset = 0,
     uv_LampL2ROffset = 0\<rparr>"

definition default_new_uv :: new_uv_values where
  "default_new_uv = \<lparr>nu_LampLeftStartOffset = 0, nu_LampLeftEndOffset = 0, nu_LampLeftMinOffset = 0,
     nu_LampRightStartOffset = 0, nu_LampRightEndOffset = 0, nu_LampRightMinOffset = 0, nu_LampDelayDistance = 0\<rparr>"

section \<open>Tables as maps\<close>

definition jobSettingsToMap :: "'v qvariant \<Rightarrow> job_settings \<Rightarrow> 'v vmap" where
  "jobSettingsToMap Q js =
     (let i = (\<lambda>w :: u16. ofInt Q (uint w)); uv = (\<lambda>n. ofInt Q (uint (js_DisableUVLights js ! n))) in
      [''printDirection'' \<mapsto> i (js_PrintDirection js),
       ''printSpeed'' \<mapsto> i (js_PrintSpeed js),
       ''wcSequence'' \<mapsto> i (js_WCSequence js),
       ''eclosionGrade'' \<mapsto> i (js_EclosionGrade js),
       ''headSelect'' \<mapsto> i (js_HeadSelect js),
       ''whiteInkPercent'' \<mapsto> i (js_WInkPercent js),
       ''whiteInkPassCount'' \<mapsto> i (js_WInkPassCount js),
       ''varnishInkPercent'' \<mapsto> i (js_VInkPercent js),
       ''varnishInkPassCount'' \<mapsto> i (js_VInkPassCount js),
       ''headVoltage'' \<mapsto> i (js_HeadVoltage js),
       ''disableUv0'' \<mapsto> uv 0, ''disableUv1'' \<mapsto> uv 1, ''disableUv2'' \<mapsto> uv 2,
       ''disableUv3'' \<mapsto> uv 3, ''disableUv4'' \<mapsto> uv 4, ''disableUv5'' \<mapsto> uv 5,
       ''carReset'' \<mapsto> i (js_CarReset js),
       ''stripBlank'' \<mapsto> i (js_stripBlank js),
       ''blankDistance'' \<mapsto> i (js_blankDistance js)])"

definition jobSettingsFromMap :: "'v qvariant \<Rightarrow> 'v vmap \<Rightarrow> job_settings" where
  "jobSettingsFromMap Q m =
     makeJobSettings (default_settings
       \<lparr>printDirection := vmInt Q m ''printDirection'' 0,
        printSpeed := vmInt Q m ''printSpeed'' 1,
        wcSequence := vmInt Q m ''wcSequence'' 0,
        eclosionGrade := vmInt Q m ''eclosionGrade'' 2,
        headSelect := vmInt Q m ''headSelect'' 0,
        whiteInkPercent := vmInt Q m ''whiteInkPercent'' 0,
        whiteInkPassCount := vmInt Q m ''whiteInkPassCount'' 0,
        varnishInkPercent := vmInt Q m ''varnishInkPercent'' 0,
        varnishInkPassCount := vmInt Q m ''varnishInkPassCount'' 0,
        headVoltage := vmInt Q m ''headVoltage'' 512,
        disableUv0 := vmInt Q m ''disableUv0'' 0,
        disableUv1 := vmInt Q m ''disableUv1'' 0,
        disableUv2 := vmInt Q m ''disableUv2'' 0,
        disableUv3 := vmInt Q m ''disableUv3'' 0,
        disableUv4 := vmInt Q m ''disableUv4'' 0,
        disableUv5 := vmInt Q m ''disableUv5'' 0,
        carReset := vmInt Q m ''carReset'' 1,
        stripBlank := vmInt Q m ''stripBlank'' 1,
        blankDistance := vmInt Q m ''blankDistance'' 0\<rparr>)"

definition char_int :: "bool \<Rightarrow> u8 \<Rightarrow> int" where
  \<comment> \<open>a \<open>char\<close> converted to \<open>int\<close>\<close>
  "char_int is_signed c = (if is_signed then sint c else uint c)"

definition byteArrayToVariantList :: "bool \<Rightarrow> 'v qvariant \<Rightarrow> bytes \<Rightarrow> 'v" where
  "byteArrayToVariantList is_signed Q values = ofList Q (map (\<lambda>c. ofInt Q (char_int is_signed c)) values)"

definition variantListToByteArray :: "'v qvariant \<Rightarrow> 'v \<Rightarrow> nat \<Rightarrow> bytes" where
  "variantListToByteArray Q value n =
     (let xs = toList Q value in
      map (\<lambda>i. cast8 (clampInt (if i < length xs then toInt Q (xs ! i) else 0) (-128) 127)) [0..<n])"

definition s16_from :: "'v qvariant \<Rightarrow> 'v vmap \<Rightarrow> string \<Rightarrow> 16 word" where
  \<comment> \<open>the lambda \<open>s16\<close>\<close>
  "s16_from Q m k = word_of_int (clampInt (vmInt Q m k 0) (-32768) 32767)"

definition alignmentValuesToMap :: "bool \<Rightarrow> 'v qvariant \<Rightarrow> alignment_values \<Rightarrow> 'v vmap" where
  "alignmentValuesToMap is_signed Q av =
     (let h = (\<lambda>i. ofInt Q (sint (av_HorizontalSpacing av ! i))); v = (\<lambda>i. ofInt Q (sint (av_VerticalSpacing av ! i)));
          l = (\<lambda>i. byteArrayToVariantList is_signed Q (av_LeftChannelAlign av ! i));
          r = (\<lambda>i. byteArrayToVariantList is_signed Q (av_RightChannelAlign av ! i)) in
      [''stepValue'' \<mapsto> ofInt Q (sint (av_StepValue av)),
       ''bidiValue'' \<mapsto> ofInt Q (uint (av_BidiValue av)),
       ''horizontalSpacing0'' \<mapsto> h 0, ''verticalSpacing0'' \<mapsto> v 0,
       ''horizontalSpacing1'' \<mapsto> h 1, ''verticalSpacing1'' \<mapsto> v 1,
       ''horizontalSpacing2'' \<mapsto> h 2, ''verticalSpacing2'' \<mapsto> v 2,
       ''horizontalSpacing3'' \<mapsto> h 3, ''verticalSpacing3'' \<mapsto> v 3,
       ''horizontalAlignReference'' \<mapsto> ofInt Q (uint (av_HorizontalAlignReference av)),
       ''verticalAlignReference'' \<mapsto> ofInt Q (uint (av_VerticalAlignReference av)),
       ''leftChannelH1'' \<mapsto> l 0, ''leftChannelH2'' \<mapsto> l 1, ''leftChannelH3'' \<mapsto> l 2, ''leftChannelH4'' \<mapsto> l 3,
       ''rightChannelH1'' \<mapsto> r 0, ''rightChannelH2'' \<mapsto> r 1, ''rightChannelH3'' \<mapsto> r 2, ''rightChannelH4'' \<mapsto> r 3])"

definition alignmentValuesFromMap :: "'v qvariant \<Rightarrow> 'v vmap \<Rightarrow> alignment_values" where
  "alignmentValuesFromMap Q m =
     (let s16 = s16_from Q m;
          u = (\<lambda>k. cast8 (clampInt (vmInt Q m k 0) 0 255));
          b = (\<lambda>k. variantListToByteArray Q (valueAt Q m k) 8) in
      \<lparr>av_StepValue = cast32 (max 0 (vmInt Q m ''stepValue'' 0)), av_BidiValue = u ''bidiValue'',
       av_HorizontalSpacing = [s16 ''horizontalSpacing0'', s16 ''horizontalSpacing1'', s16 ''horizontalSpacing2'',
         s16 ''horizontalSpacing3''],
       av_VerticalSpacing = [s16 ''verticalSpacing0'', s16 ''verticalSpacing1'', s16 ''verticalSpacing2'',
         s16 ''verticalSpacing3''],
       av_HorizontalAlignReference = u ''horizontalAlignReference'',
       av_VerticalAlignReference = u ''verticalAlignReference'',
       av_LeftChannelAlign = [b ''leftChannelH1'', b ''leftChannelH2'', b ''leftChannelH3'', b ''leftChannelH4''],
       av_RightChannelAlign = [b ''rightChannelH1'', b ''rightChannelH2'', b ''rightChannelH3'', b ''rightChannelH4'']\<rparr>)"

definition uvParamValuesToMap :: "'v qvariant \<Rightarrow> uv_values \<Rightarrow> 'v vmap" where
  "uvParamValuesToMap Q v =
     [''rightR2LOffset'' \<mapsto> ofInt Q (sint (uv_RightR2LOffset v)),
      ''rightL2ROffset'' \<mapsto> ofInt Q (sint (uv_RightL2ROffset v)),
      ''leftR2LOffset'' \<mapsto> ofInt Q (sint (uv_LeftR2LOffset v)),
      ''leftL2ROffset'' \<mapsto> ofInt Q (sint (uv_LeftL2ROffset v)),
      ''lampL2ROffset'' \<mapsto> ofInt Q (sint (uv_LampL2ROffset v))]"

definition uvParamValuesFromMap :: "'v qvariant \<Rightarrow> 'v vmap \<Rightarrow> uv_values" where
  "uvParamValuesFromMap Q m =
     \<lparr>uv_RightR2LOffset = s16_from Q m ''rightR2LOffset'', uv_RightL2ROffset = s16_from Q m ''rightL2ROffset'',
      uv_LeftR2LOffset = s16_from Q m ''leftR2LOffset'', uv_LeftL2ROffset = s16_from Q m ''leftL2ROffset'',
      uv_LampL2ROffset = s16_from Q m ''lampL2ROffset''\<rparr>"

definition newUvParamValuesToMap :: "'v qvariant \<Rightarrow> new_uv_values \<Rightarrow> 'v vmap" where
  "newUvParamValuesToMap Q v =
     [''leftStartOffset'' \<mapsto> ofInt Q (sint (nu_LampLeftStartOffset v)),
      ''leftEndOffset'' \<mapsto> ofInt Q (sint (nu_LampLeftEndOffset v)),
      ''leftMinOffset'' \<mapsto> ofInt Q (sint (nu_LampLeftMinOffset v)),
      ''rightStartOffset'' \<mapsto> ofInt Q (sint (nu_LampRightStartOffset v)),
      ''rightEndOffset'' \<mapsto> ofInt Q (sint (nu_LampRightEndOffset v)),
      ''rightMinOffset'' \<mapsto> ofInt Q (sint (nu_LampRightMinOffset v)),
      ''delayDistance'' \<mapsto> ofInt Q (sint (nu_LampDelayDistance v))]"

definition newUvParamValuesFromMap :: "'v qvariant \<Rightarrow> 'v vmap \<Rightarrow> new_uv_values" where
  "newUvParamValuesFromMap Q m =
     \<lparr>nu_LampLeftStartOffset = s16_from Q m ''leftStartOffset'', nu_LampLeftEndOffset = s16_from Q m ''leftEndOffset'',
      nu_LampLeftMinOffset = s16_from Q m ''leftMinOffset'', nu_LampRightStartOffset = s16_from Q m ''rightStartOffset'',
      nu_LampRightEndOffset = s16_from Q m ''rightEndOffset'', nu_LampRightMinOffset = s16_from Q m ''rightMinOffset'',
      nu_LampDelayDistance = s16_from Q m ''delayDistance''\<rparr>"

section \<open>Operations\<close>

record printer_info = \<comment> \<open>\<open>PrinterInfo\<close>\<close>
  pi_Mainboard_fpgaVer :: u16
  pi_Mainboard_fpgaExVer :: u8
  pi_Mainboard_fpgaSubVer :: u8
  pi_Carboard_fpgaVer :: u16
  pi_Carboard_fpgaExVer :: u8
  pi_Carboard_fpgaSubVer :: u8
  pi_Mainboard_cpuVer :: u16
  pi_Mainboard_cpuExVer :: u8
  pi_Mainboard_cpuSubVer :: u8
  pi_Carboard_cpuVer :: u16
  pi_Carboard_cpuExVer :: u8
  pi_Carboard_cpuSubVer :: u8
  pi_CarParaCRC :: u32
  pi_UI_CRC :: u16
  pi_UI_CRC2 :: u16
  pi_ID1 :: u8
  pi_ID2 :: u8

definition default_printer_info :: printer_info where
  "default_printer_info =
     \<lparr>pi_Mainboard_fpgaVer = 0, pi_Mainboard_fpgaExVer = 0, pi_Mainboard_fpgaSubVer = 0,
      pi_Carboard_fpgaVer = 0, pi_Carboard_fpgaExVer = 0, pi_Carboard_fpgaSubVer = 0,
      pi_Mainboard_cpuVer = 0, pi_Mainboard_cpuExVer = 0, pi_Mainboard_cpuSubVer = 0,
      pi_Carboard_cpuVer = 0, pi_Carboard_cpuExVer = 0, pi_Carboard_cpuSubVer = 0,
      pi_CarParaCRC = 0, pi_UI_CRC = 0, pi_UI_CRC2 = 0, pi_ID1 = 0, pi_ID2 = 0\<rparr>"

record 'k head_sdk =
  h_wipePrintHead :: "(int \<Rightarrow> 'k \<Rightarrow> int \<times> 'k) option"
  h_startCleanOperation :: "(int \<Rightarrow> 'k \<Rightarrow> int \<times> 'k) option"
  h_startPump :: "(int \<Rightarrow> 'k \<Rightarrow> int \<times> 'k) option"
  h_stopPumpOperation :: "('k \<Rightarrow> int \<times> 'k) option"
  h_spitPrintHead :: "(int \<Rightarrow> 'k \<Rightarrow> int \<times> 'k) option"
  h_stopSpitOperation :: "('k \<Rightarrow> int \<times> 'k) option"
  h_capPrintHead :: "('k \<Rightarrow> int \<times> 'k) option"
  h_moveAxis :: "(int \<Rightarrow> int \<Rightarrow> 'k \<Rightarrow> int \<times> 'k) option"
  h_stopAxis :: "(int \<Rightarrow> 'k \<Rightarrow> int \<times> int \<times> 'k) option"
  h_saveAxisPos :: "(int \<Rightarrow> 'k \<Rightarrow> int \<times> int \<times> 'k) option"
  h_getJobSettings :: "('k \<Rightarrow> int \<times> job_settings \<times> 'k) option"
  h_exportConfigFile :: "(bytes \<Rightarrow> 'k \<Rightarrow> int \<times> 'k) option"
  h_importConfigFile :: "(bytes \<Rightarrow> 'k \<Rightarrow> int \<times> 'k) option"
  h_getAlignmentValues :: "('k \<Rightarrow> int \<times> alignment_values \<times> 'k) option"
  h_setAlignmentValues :: "(alignment_values \<Rightarrow> int \<Rightarrow> 'k \<Rightarrow> int \<times> 'k) option"
  h_getUVParamValues :: "('k \<Rightarrow> int \<times> uv_values \<times> 'k) option"
  h_setUVParamValues :: "(uv_values \<Rightarrow> int \<Rightarrow> 'k \<Rightarrow> int \<times> 'k) option"
  h_getSupportNewUVParamFunction :: "('k \<Rightarrow> int \<times> 'k) option"
  h_setNewUVParamFunction :: "(int \<Rightarrow> 'k \<Rightarrow> int \<times> 'k) option"
  h_getNewUVParamValues :: "('k \<Rightarrow> int \<times> new_uv_values \<times> 'k) option"
  h_setNewUVParamValues :: "(new_uv_values \<Rightarrow> int \<Rightarrow> 'k \<Rightarrow> int \<times> 'k) option"
  h_getPrinterInfo :: "('k \<Rightarrow> int \<times> printer_info \<times> 'k) option"

record ('v, 'k) maintenance_env =
  me_head :: "'k head_sdk"
  me_errorText :: "direct_error option \<Rightarrow> string"
  me_charSigned :: bool
  me_toLower :: "string \<Rightarrow> string"
  me_toLocalFile :: "string \<Rightarrow> string" \<comment> \<open>\<open>QUrl(path).toLocalFile()\<close>\<close>
  me_encodeName :: "string \<Rightarrow> bytes" \<comment> \<open>\<open>QFile::encodeName\<close>\<close>

type_synonym ('v, 'k) query = "('v, 'k) direct \<Rightarrow> 'v vmap \<times> ('v, 'k) direct"

definition called :: "('v, 'k) direct_env \<Rightarrow> ('k \<Rightarrow> int \<times> 'k) option \<Rightarrow> string \<Rightarrow> ('v, 'k) act" where
  \<comment> \<open>\<open>ensureLoaded\<close>, \<open>requireFunction\<close> and the call\<close>
  "called E f name = and_then (ensureLoaded E) (sdk_call_opt f name)"

definition reading ::
  "('v, 'k) direct_env \<Rightarrow> ('k \<Rightarrow> int \<times> 'x \<times> 'k) option \<Rightarrow> 'x \<Rightarrow> string \<Rightarrow> ('v, 'k) direct \<Rightarrow> (bool \<times> 'x) \<times> ('v, 'k) direct" where
  \<comment> \<open>the same for a call that fills a value, which keeps its initial content when it is not reached\<close>
  "reading E f initial name s =
     (let (loaded, s) = ensureLoaded E s in
      if \<not> loaded then ((False, initial), s)
      else case f of
        None \<Rightarrow> ((False, initial), snd (setError (SdkFunctionMissing name) s))
      | Some f \<Rightarrow> (case f (dp_sdk s) of (r, x, k) \<Rightarrow>
          let (ok, s) = callSucceeded r name (s\<lparr>dp_sdk := k\<rparr>) in ((ok, x), s)))"

definition wipePrintHead :: "('v, 'k) direct_env \<Rightarrow> ('v, 'k) maintenance_env \<Rightarrow> int \<Rightarrow> ('v, 'k) act" where
  "wipePrintHead E M headMask = called E (map_option (\<lambda>f. f headMask) (h_wipePrintHead (me_head M))) ''WipePrintHead''"

definition startCleanOperation :: "('v, 'k) direct_env \<Rightarrow> ('v, 'k) maintenance_env \<Rightarrow> int \<Rightarrow> ('v, 'k) act" where
  "startCleanOperation E M headMask =
     called E (map_option (\<lambda>f. f headMask) (h_startCleanOperation (me_head M))) ''StartCleanOperation''"

definition startPump :: "('v, 'k) direct_env \<Rightarrow> ('v, 'k) maintenance_env \<Rightarrow> int \<Rightarrow> ('v, 'k) act" where
  "startPump E M headMask = called E (map_option (\<lambda>f. f headMask) (h_startPump (me_head M))) ''StartPump''"

definition stopPumpOperation :: "('v, 'k) direct_env \<Rightarrow> ('v, 'k) maintenance_env \<Rightarrow> ('v, 'k) act" where
  "stopPumpOperation E M = called E (h_stopPumpOperation (me_head M)) ''StopPumpOperation''"

definition spitPrintHead :: "('v, 'k) direct_env \<Rightarrow> ('v, 'k) maintenance_env \<Rightarrow> int \<Rightarrow> ('v, 'k) act" where
  "spitPrintHead E M headMask = called E (map_option (\<lambda>f. f headMask) (h_spitPrintHead (me_head M))) ''SpitPrintHead''"

definition stopSpitOperation :: "('v, 'k) direct_env \<Rightarrow> ('v, 'k) maintenance_env \<Rightarrow> ('v, 'k) act" where
  "stopSpitOperation E M = called E (h_stopSpitOperation (me_head M)) ''StopSpitOperation''"

definition capPrintHead :: "('v, 'k) direct_env \<Rightarrow> ('v, 'k) maintenance_env \<Rightarrow> ('v, 'k) act" where
  "capPrintHead E M = called E (h_capPrintHead (me_head M)) ''CapPrintHead''"

definition moveAxis :: "('v, 'k) direct_env \<Rightarrow> ('v, 'k) maintenance_env \<Rightarrow> int \<Rightarrow> int \<Rightarrow> ('v, 'k) act" where
  "moveAxis E M axis direction =
     called E (map_option (\<lambda>f. f (clampInt axis 0 2) (clampInt direction 0 1)) (h_moveAxis (me_head M))) ''MoveAxis''"

definition axis_position ::
  "('v, 'k) direct_env \<Rightarrow> (int \<Rightarrow> 'k \<Rightarrow> int \<times> int \<times> 'k) option \<Rightarrow> string \<Rightarrow> int \<Rightarrow> ('v, 'k) query" where
  "axis_position E f name axis s =
     (let Q = de_variant E; ((ok, position), s) = reading E (map_option (\<lambda>f. f (clampInt axis 0 2)) f) 0 name s in
      ([''ok'' \<mapsto> ofBool Q ok, ''position'' \<mapsto> ofInt Q position], s))"

definition stopAxis :: "('v, 'k) direct_env \<Rightarrow> ('v, 'k) maintenance_env \<Rightarrow> int \<Rightarrow> ('v, 'k) query" where
  "stopAxis E M axis = axis_position E (h_stopAxis (me_head M)) ''StopAxis'' axis"

definition saveAxisPos :: "('v, 'k) direct_env \<Rightarrow> ('v, 'k) maintenance_env \<Rightarrow> int \<Rightarrow> ('v, 'k) query" where
  "saveAxisPos E M axis = axis_position E (h_saveAxisPos (me_head M)) ''SaveAxisPos'' axis"

definition setPrintHeight :: "('v, 'k) direct_env \<Rightarrow> rat \<Rightarrow> ('v, 'k) act" where
  "setPrintHeight E heightMm =
     and_then (ensureLoaded E) (\<lambda>s.
       case k_setPrintHeight (de_api E) of
         None \<Rightarrow> setError (SdkFunctionMissing ''SetPrintHeight'') s
       | Some f \<Rightarrow> (case encodePrintHeightMm heightMm of
           Inl e \<Rightarrow> setError e s
         | Inr h \<Rightarrow> sdk_call (f h) ''SetPrintHeight'' s))"

definition getPrintHeight :: "('v, 'k) direct_env \<Rightarrow> ('v, 'k) query" where
  "getPrintHeight E s =
     (let Q = de_variant E; ((ok, height), s) = reading E (k_getPrintHeight (de_api E)) 0 ''GetPrintHeight'' s in
      ([''ok'' \<mapsto> ofBool Q ok, ''heightMm'' \<mapsto> ofDouble Q (fl64 (of_int (uint height) / 100))], s))"

definition getJobSettings :: "('v, 'k) direct_env \<Rightarrow> ('v, 'k) maintenance_env \<Rightarrow> ('v, 'k) query" where
  "getJobSettings E M s =
     (let Q = de_variant E;
          ((ok, js), s) = reading E (h_getJobSettings (me_head M)) default_job_settings ''GetJobSettings'' s in
      ((jobSettingsToMap Q js)(''ok'' \<mapsto> ofBool Q ok), s))"

definition setJobSettingsFromMap :: "('v, 'k) direct_env \<Rightarrow> 'v vmap \<Rightarrow> ('v, 'k) act" where
  "setJobSettingsFromMap E m =
     called E (Some (k_setJobSettings (de_api E) (jobSettingsFromMap (de_variant E) m))) ''SetJobSettings''"

definition config_path :: "('v, 'k) maintenance_env \<Rightarrow> string \<Rightarrow> bytes" where
  "config_path M path =
     me_encodeName M (if me_toLower M (take 5 path) = ''file:'' then me_toLocalFile M path else path)"

definition exportConfigFile :: "('v, 'k) direct_env \<Rightarrow> ('v, 'k) maintenance_env \<Rightarrow> string \<Rightarrow> ('v, 'k) act" where
  "exportConfigFile E M path =
     called E (map_option (\<lambda>f. f (config_path M path)) (h_exportConfigFile (me_head M))) ''ExportConfigFile''"

definition importConfigFile :: "('v, 'k) direct_env \<Rightarrow> ('v, 'k) maintenance_env \<Rightarrow> string \<Rightarrow> ('v, 'k) act" where
  "importConfigFile E M path =
     called E (map_option (\<lambda>f. f (config_path M path)) (h_importConfigFile (me_head M))) ''ImportConfigFile''"

definition getAlignmentValues :: "('v, 'k) direct_env \<Rightarrow> ('v, 'k) maintenance_env \<Rightarrow> ('v, 'k) query" where
  "getAlignmentValues E M s =
     (let Q = de_variant E;
          ((ok, av), s) = reading E (h_getAlignmentValues (me_head M)) default_alignment ''GetAlignmentValues'' s in
      ((alignmentValuesToMap (me_charSigned M) Q av)(''ok'' \<mapsto> ofBool Q ok), s))"

definition setAlignmentValues :: "('v, 'k) direct_env \<Rightarrow> ('v, 'k) maintenance_env \<Rightarrow> 'v vmap \<Rightarrow> int \<Rightarrow> ('v, 'k) act" where
  "setAlignmentValues E M m kind =
     called E (map_option (\<lambda>f. f (alignmentValuesFromMap (de_variant E) m) (clampInt kind 0 5))
       (h_setAlignmentValues (me_head M))) ''SetAlignmentValues''"

definition printAlignmentPattern :: "('v, 'k) direct_env \<Rightarrow> int \<Rightarrow> ('v, 'k) act" where
  "printAlignmentPattern E kind =
     and_then (ensureLoaded E) (\<lambda>s.
       case k_printAlignmentPattern (de_api E) of
         None \<Rightarrow> setError (SdkFunctionMissing ''PrintAlignmentPattern'') s
       | Some f \<Rightarrow> withSdkWorkingDirectory E (sdk_call (f (clampInt kind 0 22)) ''PrintAlignmentPattern'') s)"

end
