(* ===== verification/Direct_Dispatch.thy ===== *)
theory Direct_Dispatch
  imports Direct_Maintenance
begin

text \<open>
  The rest of the driver's operations, the dispatch of maintenance actions by name, and the
  driver as the printer backend of the service.
\<close>

section \<open>Status, origin and UV tables\<close>

definition getPrinterStatus :: "('v, 'k) direct_env \<Rightarrow> ('v, 'k) query" where
  "getPrinterStatus E s =
     (let Q = de_variant E; ((ok, p, c), s) =
        reading E (map_option (\<lambda>f k. case f k of (r, p, c, k) \<Rightarrow> (r, (p, c), k)) (k_getPrinterStatus (de_api E)))
          (0, 0) ''GetPrinterStatus'' s in
      ([''ok'' \<mapsto> ofBool Q ok, ''printStatus'' \<mapsto> ofInt Q (uint p), ''cleanStatus'' \<mapsto> ofInt Q (uint c)], s))"

fun number_text :: "nat \<Rightarrow> nat \<Rightarrow> string" where
  \<comment> \<open>\<open>QString::number(n, base).toUpper()\<close> for a base of at least two\<close>
  "number_text base n =
     (if n < base \<or> base < 2 then [''0123456789ABCDEF'' ! (n mod 16)]
      else number_text base (n div base) @ [''0123456789ABCDEF'' ! (n mod base)])"

declare number_text.simps [simp del]

definition latin1 :: "u8 \<Rightarrow> char" where
  \<comment> \<open>\<open>QChar(unsigned char)\<close>\<close>
  "latin1 b = char_of (unat b)"

definition fpga_text :: "u16 \<Rightarrow> u8 \<Rightarrow> u8 \<Rightarrow> string" where
  "fpga_text ver exVer subVer = number_text 10 (unat ver) @ [latin1 exVer, latin1 subVer]"

definition cpu_text :: "u16 \<Rightarrow> u8 \<Rightarrow> u8 \<Rightarrow> string" where
  \<comment> \<open>the last \<open>arg\<close> takes the \<open>unsigned char\<close> as a number\<close>
  "cpu_text ver exVer subVer = number_text 10 (unat ver) @ [latin1 exVer] @ number_text 10 (unat subVer)"

definition printerInfoToMap :: "'v qvariant \<Rightarrow> printer_info \<Rightarrow> 'v vmap" where
  "printerInfoToMap Q i =
     [''mainboardFpga'' \<mapsto> ofStr Q (fpga_text (pi_Mainboard_fpgaVer i) (pi_Mainboard_fpgaExVer i) (pi_Mainboard_fpgaSubVer i)),
      ''carboardFpga'' \<mapsto> ofStr Q (fpga_text (pi_Carboard_fpgaVer i) (pi_Carboard_fpgaExVer i) (pi_Carboard_fpgaSubVer i)),
      ''mainboardCpu'' \<mapsto> ofStr Q (cpu_text (pi_Mainboard_cpuVer i) (pi_Mainboard_cpuExVer i) (pi_Mainboard_cpuSubVer i)),
      ''carboardCpu'' \<mapsto> ofStr Q (cpu_text (pi_Carboard_cpuVer i) (pi_Carboard_cpuExVer i) (pi_Carboard_cpuSubVer i)),
      ''carParaCrc'' \<mapsto> ofStr Q (number_text 16 (unat (pi_CarParaCRC i))),
      ''uiCrc'' \<mapsto> ofStr Q (number_text 16 (unat (pi_UI_CRC i))),
      ''uiCrc2'' \<mapsto> ofStr Q (number_text 16 (unat (pi_UI_CRC2 i))),
      ''id1'' \<mapsto> ofStr Q (number_text 16 (unat (pi_ID1 i))),
      ''id2'' \<mapsto> ofStr Q (number_text 16 (unat (pi_ID2 i)))]"

definition getPrinterInfo :: "('v, 'k) direct_env \<Rightarrow> ('v, 'k) maintenance_env \<Rightarrow> ('v, 'k) query" where
  "getPrinterInfo E M s =
     (let ((ok, info), s) = reading E (h_getPrinterInfo (me_head M)) default_printer_info ''GetPrinterInfo'' s in
      ((printerInfoToMap (de_variant E) info)(''ok'' \<mapsto> ofBool (de_variant E) ok), s))"

definition setPrintXYValue :: "('v, 'k) direct_env \<Rightarrow> int \<Rightarrow> int \<Rightarrow> ('v, 'k) act" where
  "setPrintXYValue E xMm yMm =
     and_then (ensureLoaded E)
       (set_origin E ''SetPrintXYValue'' (millimetersToPrintXYUnits xMm) (millimetersToPrintXYUnits yMm))"

definition getPrintXYValue :: "('v, 'k) direct_env \<Rightarrow> ('v, 'k) query" where
  "getPrintXYValue E s =
     (let Q = de_variant E; ((ok, x, y), s) =
        reading E (map_option (\<lambda>f k. case f k of (r, x, y, k) \<Rightarrow> (r, (x, y), k)) (k_getPrintXYValue (de_api E)))
          (0, 0) ''GetPrintXYValue'' s in
      ([''ok'' \<mapsto> ofBool Q ok,
        ''xMm'' \<mapsto> ofDouble Q (fl64 (of_int (uint x) / 100)),
        ''yMm'' \<mapsto> ofDouble Q (fl64 (of_int (uint y) / 100)),
        ''xRawHundredthsMm'' \<mapsto> ofULongLong Q (ucast x),
        ''yRawHundredthsMm'' \<mapsto> ofULongLong Q (ucast y)], s))"

definition getUVParamValues :: "('v, 'k) direct_env \<Rightarrow> ('v, 'k) maintenance_env \<Rightarrow> ('v, 'k) query" where
  "getUVParamValues E M s =
     (let Q = de_variant E; ((ok, v), s) = reading E (h_getUVParamValues (me_head M)) default_uv ''GetUVParamValues'' s in
      ((uvParamValuesToMap Q v)(''ok'' \<mapsto> ofBool Q ok), s))"

definition setUVParamValues :: "('v, 'k) direct_env \<Rightarrow> ('v, 'k) maintenance_env \<Rightarrow> 'v vmap \<Rightarrow> int \<Rightarrow> ('v, 'k) act" where
  "setUVParamValues E M m kind =
     called E (map_option (\<lambda>f. f (uvParamValuesFromMap (de_variant E) m) (clampInt kind 0 4))
       (h_setUVParamValues (me_head M))) ''SetUVParamValues''"

definition getSupportNewUVParamFunction ::
  "('v, 'k) direct_env \<Rightarrow> ('v, 'k) maintenance_env \<Rightarrow> ('v, 'k) direct \<Rightarrow> int \<times> ('v, 'k) direct" where
  "getSupportNewUVParamFunction E M s =
     (let (loaded, s) = ensureLoaded E s in
      if \<not> loaded then (0, s)
      else case h_getSupportNewUVParamFunction (me_head M) of
        None \<Rightarrow> (0, snd (setError (SdkFunctionMissing ''GetSupportNewUVParamFunction'') s))
      | Some f \<Rightarrow> (case f (dp_sdk s) of (r, k) \<Rightarrow> (r, s\<lparr>dp_sdk := k\<rparr>)))"

definition setNewUVParamFunction :: "('v, 'k) direct_env \<Rightarrow> ('v, 'k) maintenance_env \<Rightarrow> int \<Rightarrow> ('v, 'k) act" where
  "setNewUVParamFunction E M kind =
     called E (map_option (\<lambda>f. f (clampInt kind 0 8)) (h_setNewUVParamFunction (me_head M))) ''SetNewUVParamFunction''"

definition getNewUVParamValues :: "('v, 'k) direct_env \<Rightarrow> ('v, 'k) maintenance_env \<Rightarrow> ('v, 'k) query" where
  "getNewUVParamValues E M s =
     (let Q = de_variant E;
          ((ok, v), s) = reading E (h_getNewUVParamValues (me_head M)) default_new_uv ''GetNewUVParamValues'' s in
      ((newUvParamValuesToMap Q v)(''ok'' \<mapsto> ofBool Q ok), s))"

definition setNewUVParamValues :: "('v, 'k) direct_env \<Rightarrow> ('v, 'k) maintenance_env \<Rightarrow> 'v vmap \<Rightarrow> int \<Rightarrow> ('v, 'k) act" where
  "setNewUVParamValues E M m kind =
     called E (map_option (\<lambda>f. f (newUvParamValuesFromMap (de_variant E) m) (clampInt kind 0 6))
       (h_setNewUVParamValues (me_head M))) ''SetNewUVParamValues''"

section \<open>Actions by name\<close>

type_synonym ('v, 'k) action = "('v, 'k) direct \<Rightarrow> (bool \<times> 'v) \<times> ('v, 'k) direct" \<comment> \<open>\<open>ok\<close> and \<open>result\<close>\<close>

definition plain_action :: "('v, 'k) direct_env \<Rightarrow> ('v, 'k) act \<Rightarrow> ('v, 'k) action" where
  "plain_action E a s = (let (ok, s) = a s in ((ok, invalid (de_variant E)), s))"

definition query_action :: "('v, 'k) direct_env \<Rightarrow> ('v, 'k) query \<Rightarrow> ('v, 'k) action" where
  "query_action E q s =
     (let Q = de_variant E; (m, s) = q s in ((toBool Q (valueAt Q m ''ok''), ofMap Q m), s))"

definition stop_and_home :: "('v, 'k) direct_env \<Rightarrow> ('v, 'k) maintenance_env \<Rightarrow> 'v vmap \<Rightarrow> ('v, 'k) action" where
  "stop_and_home E M args s =
     (let Q = de_variant E; (m, s) = stopAxis E M (vmInt Q args ''axis'' 0) s;
          ok = toBool Q (valueAt Q m ''ok'');
          (ok, s) = (if ok then capPrintHead E M s else (ok, s)) in
      ((ok, ofMap Q (m(''ok'' \<mapsto> ofBool Q ok, ''headHomed'' \<mapsto> ofBool Q ok))), s))"

definition connect_action :: "('v, 'k) direct_env \<Rightarrow> 'v vmap \<Rightarrow> ('v, 'k) act" where
  "connect_action E args =
     (let selectedIndex = vmInt (de_variant E) args ''printerIndex'' (-1) in
      and_then (refreshPrinters E)
        (and_then (if selectedIndex \<ge> 0 then choosePrinter E selectedIndex else Pair True) (connectPrinter E)))"

definition maintenance_action ::
  "('v, 'k) direct_env \<Rightarrow> ('v, 'k) maintenance_env \<Rightarrow> 'v vmap \<Rightarrow> (string \<times> ('v, 'k) action) list" where
  \<comment> \<open>the chain of \<open>else if (action == ...)\<close>\<close>
  "maintenance_action E M args =
     (let Q = de_variant E; int_of = (\<lambda>k. toInt Q (valueAt Q args k)); head = int_of ''headMask'';
          settings = toMap Q (valueAt Q args ''settings''); kind = int_of ''type'';
          path = toStr Q (valueAt Q args ''path''); plain = plain_action E; query = query_action E in
      [(''ConnectPrinter'', plain (connect_action E args)),
       (''PrintNozzleCheck'', plain (printNozzleCheck E)),
       (''StartCleanOperation'', plain (startCleanOperation E M head)),
       (''WipePrintHead'', plain (wipePrintHead E M head)),
       (''StartPump'', plain (startPump E M head)),
       (''StopPumpOperation'', plain (stopPumpOperation E M)),
       (''StartFlashSpray'', plain (spitPrintHead E M head)),
       (''StopFlashSpray'', plain (stopSpitOperation E M)),
       (''CapPrintHead'', plain (capPrintHead E M)),
       (''MoveAxis'', plain (moveAxis E M (int_of ''axis'') (int_of ''direction''))),
       (''StopAxis'', query (stopAxis E M (int_of ''axis''))),
       (''StopAndHomeHead'', stop_and_home E M args),
       (''SaveAxisPos'', query (saveAxisPos E M (int_of ''axis''))),
       (''SetPrintHeight'', plain (setPrintHeight E (toDouble Q (valueAt Q args ''heightMm'')))),
       (''GetPrintHeight'', query (getPrintHeight E)),
       (''GetJobSettings'', query (getJobSettings E M)),
       (''SetJobSettings'', plain (setJobSettingsFromMap E settings)),
       (''GetAlignmentValues'', query (getAlignmentValues E M)),
       (''SetAlignmentValues'', plain (setAlignmentValues E M settings kind)),
       (''PrintAlignmentPattern'', plain (printAlignmentPattern E kind)),
       (''SetPrintXYValue'', plain (setPrintXYValue E (int_of ''xMm'') (int_of ''yMm''))),
       (''GetPrintXYValue'', query (getPrintXYValue E)),
       (''GetUVParamValues'', query (getUVParamValues E M)),
       (''SetUVParamValues'', plain (setUVParamValues E M settings kind)),
       (''GetSupportNewUVParamFunction'', (\<lambda>s. let (support, s) = getSupportNewUVParamFunction E M s in
          ((support \<ge> 0, ofInt Q support), s))),
       (''SetNewUVParamFunction'', plain (setNewUVParamFunction E M kind)),
       (''GetNewUVParamValues'', query (getNewUVParamValues E M)),
       (''SetNewUVParamValues'', plain (setNewUVParamValues E M settings kind)),
       (''ExportConfigFile'', plain (exportConfigFile E M path)),
       (''ImportConfigFile'', plain (importConfigFile E M path))])"

definition executeMaintenanceAction ::
  "('v, 'k) direct_env \<Rightarrow> ('v, 'k) maintenance_env \<Rightarrow> string \<Rightarrow> 'v vmap \<Rightarrow> ('v, 'k) query" where
  "executeMaintenanceAction E M action args s =
     (let Q = de_variant E;
          ((ok, result), s) = (case map_of (maintenance_action E M args) action of
             Some a \<Rightarrow> a s | None \<Rightarrow> ((False, invalid Q), snd (setError (UnknownMaintenance action) s))) in
      ([''ok'' \<mapsto> ofBool Q ok, ''result'' \<mapsto> result,
        ''error'' \<mapsto> ofStr Q (if ok then [] else me_errorText M (dp_error s))], s))"

definition executeMaintenanceActionNow ::
  "('v, 'k) direct_env \<Rightarrow> ('v, 'k) maintenance_env \<Rightarrow> string \<Rightarrow> 'v vmap \<Rightarrow> ('v, 'k) query" where
  "executeMaintenanceActionNow E M action args = executeMaintenanceAction E M (de_trim E action) args"

definition driver_statusText :: "('v, 'k) direct_env \<Rightarrow> ('v, 'k) maintenance_env \<Rightarrow> ('v, 'k) direct \<Rightarrow> string \<times> ('v, 'k) direct" where
  "driver_statusText E M s =
     (let (available, s) = ensureLoaded E s in
      (if available then ''Direct print SDK ready: '' @ dp_resolvedSdkRoot s else me_errorText M (dp_error s), s))"

section \<open>The driver as the backend of the service\<close>

definition driver_backend ::
  "('v, 'k) direct_env \<Rightarrow> ('v, 'k) maintenance_env \<Rightarrow> 'd disk \<Rightarrow> datastream \<Rightarrow> (bytes \<Rightarrow> bytes) \<Rightarrow> (nat \<Rightarrow> line_poll) \<Rightarrow>
   ('v, 'd, ('v, 'k) direct) backend" where
  "driver_backend E M D S sha raised =
     \<lparr>be_isAvailable = ensureLoaded E,
      be_isConnected = dp_connected,
      be_lastError = (\<lambda>s. me_errorText M (dp_error s)),
      be_sdkRootPath = dp_sdkRootPath,
      be_autoDiscoverSdk = dp_autoDiscoverSdk,
      be_printers = dp_printers,
      be_maintenanceSupportedPrinters = (\<lambda>_. ofList (de_variant E) [ofStr (de_variant E) ''X-33'']),
      be_setSdkRootPath = setSdkRootPath E,
      be_setAutoDiscoverSdk = setAutoDiscoverSdk E,
      be_refreshPrinters = refreshPrinters E,
      be_choosePrinter = choosePrinter E,
      be_connectPrinter = connectPrinter E,
      be_resetSdkSession = unloadSdkSession E,
      be_abortPrint = abortPrint E,
      be_pausePrint = pausePrint E,
      be_continuePrint = continuePrint E,
      be_statusText = driver_statusText E M,
      be_getPrinterStatus = getPrinterStatus E,
      be_getPrinterInfo = getPrinterInfo E M,
      be_maintenance = executeMaintenanceActionNow E M,
      be_submitSpooledJob = submitSpooledJob_here E D S sha raised,
      be_submitPreparedJob = submitPreparedJob_here E raised\<rparr>"

end
