(* ===== verification/Maintenance_Laws.thy ===== *)
theory Maintenance_Laws
  imports Direct_Dispatch Service_Protocol_Laws
begin

text \<open>
  The tables of the engine survive the trip through a \<open>QVariantMap\<close>: what is read from the
  printer and written back unchanged is the same table, with the exception of the channel
  alignments where \<open>char\<close> is unsigned. Whatever a map holds, the settings that reach the
  engine are in range.
\<close>

section \<open>Ranges\<close>

lemma clampInt_range: "lo \<le> hi \<Longrightarrow> lo \<le> clampInt v lo hi \<and> clampInt v lo hi \<le> hi"
  by (simp add: clampInt_def)

lemma clampInt_same: "lo \<le> v \<Longrightarrow> v \<le> hi \<Longrightarrow> clampInt v lo hi = v"
  by (simp add: clampInt_def)

lemma clamped_u16:
  assumes "0 \<le> lo" "lo \<le> hi" "hi < 2 ^ 16"
  shows "lo \<le> uint (cast16 (clampInt v lo hi)) \<and> uint (cast16 (clampInt v lo hi)) \<le> hi"
  using clampInt_range [OF assms(2), of v] assms by (simp add: uint_cast16)

definition engine_settings_ok :: "job_settings \<Rightarrow> bool" where
  "engine_settings_ok js \<longleftrightarrow>
     uint (js_PrintDirection js) \<le> 3 \<and> uint (js_PrintSpeed js) \<le> 3 \<and> uint (js_WCSequence js) \<le> 1 \<and>
     uint (js_EclosionGrade js) \<le> 3 \<and> uint (js_HeadSelect js) \<le> 2 \<and> uint (js_WInkPercent js) \<le> 9 \<and>
     uint (js_WInkPassCount js) \<le> 255 \<and> uint (js_VInkPercent js) \<le> 9 \<and> uint (js_VInkPassCount js) \<le> 255 \<and>
     400 \<le> uint (js_HeadVoltage js) \<and> uint (js_HeadVoltage js) \<le> 600 \<and>
     length (js_DisableUVLights js) = 6 \<and> (\<forall>v \<in> set (js_DisableUVLights js). v \<le> 1) \<and>
     uint (js_CarReset js) \<le> 1 \<and> uint (js_stripBlank js) \<le> 2"

lemma clamped_light: "cast8 (clampInt v 0 1) \<le> 1"
  using clampInt_range [of 0 1 v] by (simp add: word_le_def uint_cast8)

lemma makeJobSettings_ok: "engine_settings_ok (makeJobSettings s)"
  using clamped_u16 [of 0 3 "printDirection s"] clamped_u16 [of 0 3 "printSpeed s"] clamped_u16 [of 0 1 "wcSequence s"]
    clamped_u16 [of 0 3 "eclosionGrade s"] clamped_u16 [of 0 2 "headSelect s"] clamped_u16 [of 0 9 "whiteInkPercent s"]
    clamped_u16 [of 0 255 "whiteInkPassCount s"] clamped_u16 [of 0 9 "varnishInkPercent s"]
    clamped_u16 [of 0 255 "varnishInkPassCount s"] clamped_u16 [of 400 600 "headVoltage s"]
    clamped_u16 [of 0 1 "carReset s"] clamped_u16 [of 0 2 "stripBlank s"]
  by (simp add: engine_settings_ok_def makeJobSettings_def clamped_light)

lemma cast16_clamp_uint: "0 \<le> lo \<Longrightarrow> lo \<le> uint w \<Longrightarrow> uint w \<le> hi \<Longrightarrow> cast16 (clampInt (uint w) lo hi) = w"
  by (simp add: clampInt_same)

lemma cast8_clamp_light: "(v :: u8) \<le> 1 \<Longrightarrow> cast8 (clampInt (uint v) 0 1) = v"
  by (simp add: clampInt_same word_le_def)

lemma uint_above: "z \<le> 0 \<Longrightarrow> z \<le> uint w"
  by (rule order_trans [OF _ uint_ge_0])

lemma fits_int_u16: "fits_int (uint (x :: u16))"
proof -
  have "uint x < 65536" using uint_lt2p [of x] by simp
  then show ?thesis using uint_above [of "- 2147483648" x] by (simp add: fits_int_def int_max_def int_min_def)
qed

lemma sint_range: "- (2 ^ 15) \<le> sint (x :: 16 word) \<and> sint x < 2 ^ 15" "- (2 ^ 7) \<le> sint (b :: u8) \<and> sint b < 2 ^ 7"
  using sint_ge [of x] sint_lt [of x] sint_ge [of b] sint_lt [of b] by simp_all

lemma fits_int_s16: "fits_int (sint (x :: 16 word))"
  using sint_range(1) [of x] by (simp add: fits_int_def int_max_def int_min_def)

lemma fits_int_s8: "fits_int (sint (x :: u8))"
  using sint_range(2) [of x] by (simp add: fits_int_def int_max_def int_min_def)

section \<open>Round trips\<close>

definition alignment_ok :: "alignment_values \<Rightarrow> bool" where
  \<comment> \<open>the shapes of the C arrays, and a step value that fits into \<open>int\<close>\<close>
  "alignment_ok av \<longleftrightarrow> uint (av_StepValue av) < 2 ^ 31 \<and>
     length (av_HorizontalSpacing av) = 4 \<and> length (av_VerticalSpacing av) = 4 \<and>
     length (av_LeftChannelAlign av) = 4 \<and> length (av_RightChannelAlign av) = 4 \<and>
     (\<forall>c \<in> set (av_LeftChannelAlign av) \<union> set (av_RightChannelAlign av). length c = 8)"

lemma list4: "length xs = 4 \<Longrightarrow> [xs ! 0, xs ! 1, xs ! 2, xs ! 3] = xs"
  by (rule nth_equalityI) (auto simp: less_Suc_eq numeral_eq_Suc)

context qvariant_laws
begin

lemma job_settings_come_back:
  assumes ok: "engine_settings_ok js"
  shows "jobSettingsFromMap Q (jobSettingsToMap Q js) = js"
proof -
  have uv: "length (js_DisableUVLights js) = 6" using ok by (simp add: engine_settings_ok_def)
  have light: "cast8 (clampInt (uint (js_DisableUVLights js ! n)) 0 1) = js_DisableUVLights js ! n" if "n < 6" for n
    using ok uv that nth_mem [of n "js_DisableUVLights js"] by (intro cast8_clamp_light) (auto simp: engine_settings_ok_def)
  have six: "[js_DisableUVLights js ! 0, js_DisableUVLights js ! 1, js_DisableUVLights js ! 2, js_DisableUVLights js ! 3,
      js_DisableUVLights js ! 4, js_DisableUVLights js ! 5] = js_DisableUVLights js"
    using uv by (intro nth_equalityI) (auto simp: less_Suc_eq numeral_eq_Suc)
  have blank: "uint (js_blankDistance js) \<le> 65535" using uint_lt2p [of "js_blankDistance js"] by simp
  show ?thesis
    using ok blank unfolding engine_settings_ok_def
    by (intro job_settings.equality) (simp_all add: jobSettingsFromMap_def jobSettingsToMap_def vmInt_def makeJobSettings_def Let_def toInt_ofInt
        fits_int_u16 fits_int_u8 cast16_clamp_uint light six [simplified])
qed

lemma s16_comes_back: "m k = Some (ofInt Q (sint x)) \<Longrightarrow> s16_from Q m k = x"
  using sint_range(1) [of x] by (simp add: s16_from_def vmInt_def toInt_ofInt fits_int_s16 clampInt_same)

lemma uv_values_come_back: "uvParamValuesFromMap Q (uvParamValuesToMap Q v) = v"
  by (simp add: uvParamValuesFromMap_def uvParamValuesToMap_def s16_comes_back)

lemma new_uv_values_come_back: "newUvParamValuesFromMap Q (newUvParamValuesToMap Q v) = v"
  by (simp add: newUvParamValuesFromMap_def newUvParamValuesToMap_def s16_comes_back)

lemma signed_bytes_come_back:
  assumes "length c = n"
  shows "variantListToByteArray Q (byteArrayToVariantList True Q c) n = c"
proof (rule nth_equalityI)
  fix i assume "i < length (variantListToByteArray Q (byteArrayToVariantList True Q c) n)"
  then have i: "i < n" by (simp add: variantListToByteArray_def Let_def)
  have "clampInt (sint (c ! i)) (-128) 127 = sint (c ! i)" using sint_range(2) [of "c ! i"] by (intro clampInt_same) simp_all
  then show "variantListToByteArray Q (byteArrayToVariantList True Q c) n ! i = c ! i"
    using i assms
    by (simp add: variantListToByteArray_def byteArrayToVariantList_def char_int_def toList_ofList toInt_ofInt fits_int_s8 Let_def)
qed (simp add: variantListToByteArray_def Let_def assms)

lemma unsigned_bytes_saturate:
  assumes "length c = n"
  shows "variantListToByteArray Q (byteArrayToVariantList False Q c) n = map (\<lambda>b. min b 127) c"
proof (rule nth_equalityI)
  fix i assume "i < length (variantListToByteArray Q (byteArrayToVariantList False Q c) n)"
  then have i: "i < n" by (simp add: variantListToByteArray_def Let_def)
  have "cast8 (clampInt (uint (c ! i)) (-128) 127) = min (c ! i) 127"
    using uint_above [of "- 128" "c ! i"] by (cases "uint (c ! i) \<le> 127") (simp_all add: clampInt_def min_def word_le_def)
  then show "variantListToByteArray Q (byteArrayToVariantList False Q c) n ! i = map (\<lambda>b. min b 127) c ! i"
    using i assms
    by (simp add: variantListToByteArray_def byteArrayToVariantList_def char_int_def toList_ofList toInt_ofInt fits_int_u8 Let_def)
qed (simp add: variantListToByteArray_def Let_def assms)

lemma alignment_comes_back:
  assumes ok: "alignment_ok av"
  shows "alignmentValuesFromMap Q (alignmentValuesToMap True Q av) = av"
proof -
  have step: "fits_int (uint (av_StepValue av))" "sint (av_StepValue av) = uint (av_StepValue av)"
    using ok uint_above [of "- 2147483648" "av_StepValue av"]
    by (simp_all add: alignment_ok_def fits_int_def int_max_def int_min_def sint_uint signed_take_bit_int_eq_self)
  have left: "length (av_LeftChannelAlign av ! i) = 8" and right: "length (av_RightChannelAlign av ! i) = 8" if "i < 4" for i
    using ok that by (auto simp: alignment_ok_def)
  have byte: "cast8 (clampInt (uint (b :: u8)) 0 255) = b" for b
    using uint_lt2p [of b] by (simp add: clampInt_same)
  have four: "[av_HorizontalSpacing av ! 0, av_HorizontalSpacing av ! 1, av_HorizontalSpacing av ! 2, av_HorizontalSpacing av ! 3] =
      av_HorizontalSpacing av" "[av_VerticalSpacing av ! 0, av_VerticalSpacing av ! 1, av_VerticalSpacing av ! 2,
      av_VerticalSpacing av ! 3] = av_VerticalSpacing av"
    "[av_LeftChannelAlign av ! 0, av_LeftChannelAlign av ! 1, av_LeftChannelAlign av ! 2, av_LeftChannelAlign av ! 3] =
      av_LeftChannelAlign av" "[av_RightChannelAlign av ! 0, av_RightChannelAlign av ! 1, av_RightChannelAlign av ! 2,
      av_RightChannelAlign av ! 3] = av_RightChannelAlign av"
    using ok by (simp_all only: list4 alignment_ok_def)
  show ?thesis
    using step byte left right four
    by (simp add: alignmentValuesFromMap_def alignmentValuesToMap_def vmInt_def valueAt_def s16_comes_back toInt_ofInt
        fits_int_u8 signed_bytes_come_back Let_def)
qed

end

end
