(* ===== verification/Print_Delivery.thy ===== *)
theory Print_Delivery
  imports Upload_Delivery Direct_Delivery Maintenance_Laws
begin

text \<open>
  From the spool of a finished job to the calls of the vendor library: the client uploads the
  spool, the service verifies it and hands it to the driver, and the driver sends the lines.
\<close>

definition drives ::
  "('v, 'k) direct_env \<Rightarrow> (nat \<Rightarrow> line_poll) \<Rightarrow> ('v, 'd, ('v, 'k) direct) service_env \<Rightarrow> bool" where
  \<comment> \<open>the backend of the service is the driver\<close>
  "drives DE raised E \<longleftrightarrow>
     (\<exists>M. sv_backend E = driver_backend DE M (sv_disk E) (sv_stream E) (sv_sha E) raised)"

lemma drivesD:
  assumes "drives DE raised E"
  shows "be_isAvailable (sv_backend E) = ensureLoaded DE"
    "be_submitSpooledJob (sv_backend E) = submitSpooledJob_here DE (sv_disk E) (sv_stream E) (sv_sha E) raised"
  using assms by (auto simp: drives_def driver_backend_def)

lemma spool_raster_disk [simp]: "spool_raster (with_disk_fields m path checksum) = spool_raster m"
  by (simp add: spool_raster_def with_disk_fields_def)

context driver_log
begin

lemma probes_log:
  "(\<lambda>b c. c = snd (ensureLoaded E b))^** s t \<Longrightarrow> log (dp_sdk t) = log (dp_sdk s)"
  by (induction rule: rtranclp_induct) (simp_all add: ensureLoaded_log)

lemma probes_standing_by:
  "(\<lambda>b c. c = snd (ensureLoaded E b))^** s t \<Longrightarrow> dp_isLoaded s \<Longrightarrow> t = s"
  by (induction rule: rtranclp_induct) (auto simp: ensureLoaded_def)

end

definition printed_spool ::
  "('v, 'k) direct_env \<Rightarrow> spool \<Rightarrow> plane list \<Rightarrow> print_settings \<Rightarrow> sdk_event list \<Rightarrow> bool" where
  \<comment> \<open>the events of a printed spool: one session with the lines of the planes\<close>
  "printed_spool DE m planes settings d \<longleftrightarrow>
     (\<exists>p pre. job_property (de_arm DE) (spool_raster m) settings (sp_lineBytes m) = Inr p \<and> list_all silent pre \<and>
       (\<forall>l \<in> set (page_lines planes (sp_order m) (sp_height m)). length l = unat (p ! 3)) \<and>
       d = pre @ (if sp_format m = 1 then ready_events (de_arm DE) settings else []) @
         page_events p (page_lines planes (sp_order m) (sp_height m)) [] @ restore_events (spool_raster m) settings)"

lemma printed_spoolI:
  assumes "job_property (de_arm DE) (spool_raster m) settings (sp_lineBytes m) = Inr p"
    and "printed (de_arm DE) src (spool_raster m) settings p (page_lines planes (sp_order m) (sp_height m)) [] d"
  shows "printed_spool DE m planes settings d"
proof -
  have "ra_format (spool_raster m) = sp_format m" by (simp add: spool_raster_def)
  then show ?thesis using assms unfolding printed_spool_def printed_def by fastforce
qed

lemma uploaded_job_prints:
  assumes R: "reliable_service E contents" and L: "linked E now uuid C" and D: "reliable_store (ce_disk C) files (sv_stream E)"
    and spool: "spool_at files (sv_stream E) (cl_disk c) path m checksum planes"
    and sum: "checksum = sv_sha E (encodeHeader (sv_stream E) m [] @ concat (concat planes))" "length checksum = 32"
    and fmt: "uint (sp_format m) \<le> 2" and st: "settings_typed settings"
    and room: "enough_storage E (HeaderBytes + sp_bodyBytes m)" and idle: "\<not> srv_printing (fst (cl_world c))"
    and fresh: "\<And>n. uuid n \<noteq> []"
      "\<And>n. contents (srv_disk (fst (cl_world c))) (filePath (sv_uploadDirectory E) (uuid n @ ''.pfrs'')) = None"
    and go: "\<And>i. \<not> verifyCanceled i" "\<And>i. \<not> canceled i" "\<And>i. raised i = quiet_poll"
    and driver: "drives DE raised E" "driver_log DE events"
  shows "\<exists>ok c'. submitSpooledJob C verifyCanceled canceled (with_disk_fields m path checksum) settings c = (ok, c') \<and>
    (ok \<longrightarrow> (\<exists>d. printed_spool DE m planes settings d \<and>
      events (dp_sdk (srv_backend (fst (cl_world c')))) = events (dp_sdk (srv_backend (fst (cl_world c)))) @ d))"
proof -
  obtain k d b c' where u: "submitSpooledJob C verifyCanceled canceled (with_disk_fields m path checksum) settings c =
      (fst (be_submitSpooledJob (sv_backend E)
         (with_disk_fields m (filePath (sv_uploadDirectory E) (k @ ''.pfrs'')) checksum) settings d b), c')"
    "spool_at contents (sv_stream E) d (filePath (sv_uploadDirectory E) (k @ ''.pfrs'')) m checksum planes"
    "(\<lambda>b c. c = snd (be_isAvailable (sv_backend E) b))^** (srv_backend (fst (cl_world c))) b"
    "srv_backend (fst (cl_world c')) = snd (be_submitSpooledJob (sv_backend E)
       (with_disk_fields m (filePath (sv_uploadDirectory E) (k @ ''.pfrs'')) checksum) settings d b)"
    using reliable_service.upload_delivers [where verifyCanceled = verifyCanceled and canceled = canceled,
        OF R L D spool sum fmt st room idle fresh go(1,2)] by blast
  let ?sp = "with_disk_fields m (filePath (sv_uploadDirectory E) (k @ ''.pfrs'')) checksum"
  obtain ok t where t: "submitSpooledJob_here DE (sv_disk E) (sv_stream E) (sv_sha E) raised ?sp settings d b = (ok, t)"
    by fastforce
  have log: "events (dp_sdk b) = events (dp_sdk (srv_backend (fst (cl_world c))))"
    using driver_log.probes_log [OF driver(2)] u(3) by (simp add: drivesD [OF driver(1)])
  have "\<exists>e. printed_spool DE m planes settings e \<and> events (dp_sdk t) = events (dp_sdk b) @ e" if ok
    using driver_log.spool_sent [where sha = "sv_sha E", OF driver(2) u(2) reliable_service.axioms(2) [OF R] sum go(3)] t that
    by (fastforce intro: printed_spoolI)
  then show ?thesis
    using u(1,4) t log by (intro exI [of _ ok] exI [of _ c']) (simp add: drivesD [OF driver(1)])
qed

lemma uploaded_job_completes:
  assumes R: "reliable_service E contents" and L: "linked E now uuid C" and D: "reliable_store (ce_disk C) files (sv_stream E)"
    and spool: "spool_at files (sv_stream E) (cl_disk c) path m checksum planes"
    and sum: "checksum = sv_sha E (encodeHeader (sv_stream E) m [] @ concat (concat planes))" "length checksum = 32"
    and fmt: "uint (sp_format m) \<le> 2" and st: "settings_typed settings"
    and room: "enough_storage E (HeaderBytes + sp_bodyBytes m)" and idle: "\<not> srv_printing (fst (cl_world c))"
    and fresh: "\<And>n. uuid n \<noteq> []"
      "\<And>n. contents (srv_disk (fst (cl_world c))) (filePath (sv_uploadDirectory E) (uuid n @ ''.pfrs'')) = None"
    and go: "\<And>i. \<not> verifyCanceled i" "\<And>i. \<not> canceled i" "\<And>i. raised i = quiet_poll"
    and driver: "drives DE raised E" "working_printer DE events"
    and ready: "standing_by settings (srv_backend (fst (cl_world c)))"
    and p: "job_property (de_arm DE) (spool_raster m) settings (sp_lineBytes m) = Inr p"
      "unat (p ! 3) = nat (sp_lineBytes m)"
    and height: "mediaHeightMm settings < 0 \<or> encodePrintHeightMm (mediaHeightMm settings) = Inr target"
  shows "fst (submitSpooledJob C verifyCanceled canceled (with_disk_fields m path checksum) settings c)"
proof -
  obtain k d b c' where u: "submitSpooledJob C verifyCanceled canceled (with_disk_fields m path checksum) settings c =
      (fst (be_submitSpooledJob (sv_backend E)
         (with_disk_fields m (filePath (sv_uploadDirectory E) (k @ ''.pfrs'')) checksum) settings d b), c')"
    "spool_at contents (sv_stream E) d (filePath (sv_uploadDirectory E) (k @ ''.pfrs'')) m checksum planes"
    "(\<lambda>b c. c = snd (be_isAvailable (sv_backend E) b))^** (srv_backend (fst (cl_world c))) b"
    using reliable_service.upload_delivers [where verifyCanceled = verifyCanceled and canceled = canceled,
        OF R L D spool sum fmt st room idle fresh go(1,2)] by blast
  have "b = srv_backend (fst (cl_world c))"
    using driver_log.probes_standing_by [OF working_printer.axioms(1) [OF driver(2)]] u(3) ready
    by (simp add: drivesD [OF driver(1)] standing_by_def)
  then have "\<exists>t. submitSpooledJob_here DE (sv_disk E) (sv_stream E) (sv_sha E) raised
      (with_disk_fields m (filePath (sv_uploadDirectory E) (k @ ''.pfrs'')) checksum) settings d b = (True, t)"
    using working_printer.spool_completes [where raised = raised and sha = "sv_sha E" and target = target,
        OF driver(2) u(2) reliable_service.axioms(2) [OF R] sum go(3)] ready p height by simp
  then show ?thesis using u(1) by (auto simp: drivesD [OF driver(1)])
qed

end
