(* ===== verification/Client_Actions.thy ===== *)
theory Client_Actions
  imports Print_Delivery
begin

text \<open>
  The printer and maintenance operations of the client, the operations it runs on another
  thread, and what they come to when the service has the driver as its backend: each of them
  runs the driver's operation of the same name with the same arguments.
\<close>

section \<open>Operations of the client\<close>

definition client_refreshPrinters :: "('v, 'd, 'w) client_env \<Rightarrow> ('v, 'd, 'w) client \<Rightarrow> bool \<times> ('v, 'd, 'w) client" where
  "client_refreshPrinters C = requestOk C ''refreshPrinters'' Map.empty []"

definition client_abortPrint :: "('v, 'd, 'w) client_env \<Rightarrow> ('v, 'd, 'w) client \<Rightarrow> bool \<times> ('v, 'd, 'w) client" where
  "client_abortPrint C = requestOk C ''abortPrint'' Map.empty []"

definition client_pausePrint :: "('v, 'd, 'w) client_env \<Rightarrow> ('v, 'd, 'w) client \<Rightarrow> bool \<times> ('v, 'd, 'w) client" where
  "client_pausePrint C = requestOk C ''pausePrint'' Map.empty []"

definition client_continuePrint :: "('v, 'd, 'w) client_env \<Rightarrow> ('v, 'd, 'w) client \<Rightarrow> bool \<times> ('v, 'd, 'w) client" where
  "client_continuePrint C = requestOk C ''continuePrint'' Map.empty []"

definition client_connectPrinter :: "('v, 'd, 'w) client_env \<Rightarrow> ('v, 'd, 'w) client \<Rightarrow> bool \<times> ('v, 'd, 'w) client" where
  "client_connectPrinter C = requestOk C ''connectPrinter'' Map.empty []"

definition head_mask :: "'v qvariant \<Rightarrow> int \<Rightarrow> 'v vmap" where
  "head_mask Q m = [''headMask'' \<mapsto> ofInt Q m]"

definition client_wipePrintHead :: "('v, 'd, 'w) client_env \<Rightarrow> int \<Rightarrow> ('v, 'd, 'w) client \<Rightarrow> bool \<times> ('v, 'd, 'w) client" where
  "client_wipePrintHead C m = maintenanceBool C ''WipePrintHead'' (head_mask (ce_variant C) m)"

definition client_startCleanOperation :: "('v, 'd, 'w) client_env \<Rightarrow> int \<Rightarrow> ('v, 'd, 'w) client \<Rightarrow> bool \<times> ('v, 'd, 'w) client" where
  "client_startCleanOperation C m = maintenanceBool C ''StartCleanOperation'' (head_mask (ce_variant C) m)"

definition client_startPump :: "('v, 'd, 'w) client_env \<Rightarrow> int \<Rightarrow> ('v, 'd, 'w) client \<Rightarrow> bool \<times> ('v, 'd, 'w) client" where
  "client_startPump C m = maintenanceBool C ''StartPump'' (head_mask (ce_variant C) m)"

definition client_stopPumpOperation :: "('v, 'd, 'w) client_env \<Rightarrow> ('v, 'd, 'w) client \<Rightarrow> bool \<times> ('v, 'd, 'w) client" where
  "client_stopPumpOperation C = maintenanceBool C ''StopPumpOperation'' Map.empty"

definition client_spitPrintHead :: "('v, 'd, 'w) client_env \<Rightarrow> int \<Rightarrow> ('v, 'd, 'w) client \<Rightarrow> bool \<times> ('v, 'd, 'w) client" where
  "client_spitPrintHead C m = maintenanceBool C ''StartFlashSpray'' (head_mask (ce_variant C) m)"

definition client_stopSpitOperation :: "('v, 'd, 'w) client_env \<Rightarrow> ('v, 'd, 'w) client \<Rightarrow> bool \<times> ('v, 'd, 'w) client" where
  "client_stopSpitOperation C = maintenanceBool C ''StopFlashSpray'' Map.empty"

definition client_capPrintHead :: "('v, 'd, 'w) client_env \<Rightarrow> ('v, 'd, 'w) client \<Rightarrow> bool \<times> ('v, 'd, 'w) client" where
  "client_capPrintHead C = maintenanceBool C ''CapPrintHead'' Map.empty"

definition client_moveAxis :: "('v, 'd, 'w) client_env \<Rightarrow> int \<Rightarrow> int \<Rightarrow> ('v, 'd, 'w) client \<Rightarrow> bool \<times> ('v, 'd, 'w) client" where
  "client_moveAxis C axis direction =
     maintenanceBool C ''MoveAxis''
       [''axis'' \<mapsto> ofInt (ce_variant C) axis, ''direction'' \<mapsto> ofInt (ce_variant C) direction]"

definition client_stopAxis :: "('v, 'd, 'w) client_env \<Rightarrow> int \<Rightarrow> ('v, 'd, 'w) client \<Rightarrow> 'v vmap \<times> ('v, 'd, 'w) client" where
  "client_stopAxis C axis = maintenanceMap C ''StopAxis'' [''axis'' \<mapsto> ofInt (ce_variant C) axis]"

definition client_saveAxisPos :: "('v, 'd, 'w) client_env \<Rightarrow> int \<Rightarrow> ('v, 'd, 'w) client \<Rightarrow> 'v vmap \<times> ('v, 'd, 'w) client" where
  "client_saveAxisPos C axis = maintenanceMap C ''SaveAxisPos'' [''axis'' \<mapsto> ofInt (ce_variant C) axis]"

definition client_setPrintHeight :: "('v, 'd, 'w) client_env \<Rightarrow> rat \<Rightarrow> ('v, 'd, 'w) client \<Rightarrow> bool \<times> ('v, 'd, 'w) client" where
  "client_setPrintHeight C heightMm = maintenanceBool C ''SetPrintHeight'' [''heightMm'' \<mapsto> ofDouble (ce_variant C) heightMm]"

definition client_getPrintHeight :: "('v, 'd, 'w) client_env \<Rightarrow> ('v, 'd, 'w) client \<Rightarrow> 'v vmap \<times> ('v, 'd, 'w) client" where
  "client_getPrintHeight C = maintenanceMap C ''GetPrintHeight'' Map.empty"

definition client_getJobSettings :: "('v, 'd, 'w) client_env \<Rightarrow> ('v, 'd, 'w) client \<Rightarrow> 'v vmap \<times> ('v, 'd, 'w) client" where
  "client_getJobSettings C = maintenanceMap C ''GetJobSettings'' Map.empty"

definition client_setJobSettingsFromMap :: "('v, 'd, 'w) client_env \<Rightarrow> 'v vmap \<Rightarrow> ('v, 'd, 'w) client \<Rightarrow> bool \<times> ('v, 'd, 'w) client" where
  "client_setJobSettingsFromMap C m = maintenanceBool C ''SetJobSettings'' [''settings'' \<mapsto> ofMap (ce_variant C) m]"

definition client_exportConfigFile :: "('v, 'd, 'w) client_env \<Rightarrow> string \<Rightarrow> ('v, 'd, 'w) client \<Rightarrow> bool \<times> ('v, 'd, 'w) client" where
  "client_exportConfigFile C path = maintenanceBool C ''ExportConfigFile'' [''path'' \<mapsto> ofStr (ce_variant C) path]"

definition client_importConfigFile :: "('v, 'd, 'w) client_env \<Rightarrow> string \<Rightarrow> ('v, 'd, 'w) client \<Rightarrow> bool \<times> ('v, 'd, 'w) client" where
  "client_importConfigFile C path = maintenanceBool C ''ImportConfigFile'' [''path'' \<mapsto> ofStr (ce_variant C) path]"

definition client_getAlignmentValues :: "('v, 'd, 'w) client_env \<Rightarrow> ('v, 'd, 'w) client \<Rightarrow> 'v vmap \<times> ('v, 'd, 'w) client" where
  "client_getAlignmentValues C = maintenanceMap C ''GetAlignmentValues'' Map.empty"

definition typed_settings :: "'v qvariant \<Rightarrow> 'v vmap \<Rightarrow> int \<Rightarrow> 'v vmap" where
  "typed_settings Q m kind = [''settings'' \<mapsto> ofMap Q m, ''type'' \<mapsto> ofInt Q kind]"

definition client_setAlignmentValues ::
  "('v, 'd, 'w) client_env \<Rightarrow> 'v vmap \<Rightarrow> int \<Rightarrow> ('v, 'd, 'w) client \<Rightarrow> bool \<times> ('v, 'd, 'w) client" where
  "client_setAlignmentValues C m kind = maintenanceBool C ''SetAlignmentValues'' (typed_settings (ce_variant C) m kind)"

definition client_printNozzleCheck :: "('v, 'd, 'w) client_env \<Rightarrow> ('v, 'd, 'w) client \<Rightarrow> bool \<times> ('v, 'd, 'w) client" where
  "client_printNozzleCheck C = maintenanceBool C ''PrintNozzleCheck'' Map.empty"

definition client_printAlignmentPattern :: "('v, 'd, 'w) client_env \<Rightarrow> int \<Rightarrow> ('v, 'd, 'w) client \<Rightarrow> bool \<times> ('v, 'd, 'w) client" where
  "client_printAlignmentPattern C kind = maintenanceBool C ''PrintAlignmentPattern'' [''type'' \<mapsto> ofInt (ce_variant C) kind]"

definition client_setPrintXYValue :: "('v, 'd, 'w) client_env \<Rightarrow> int \<Rightarrow> int \<Rightarrow> ('v, 'd, 'w) client \<Rightarrow> bool \<times> ('v, 'd, 'w) client" where
  "client_setPrintXYValue C xMm yMm =
     maintenanceBool C ''SetPrintXYValue'' [''xMm'' \<mapsto> ofInt (ce_variant C) xMm, ''yMm'' \<mapsto> ofInt (ce_variant C) yMm]"

definition client_getPrintXYValue :: "('v, 'd, 'w) client_env \<Rightarrow> ('v, 'd, 'w) client \<Rightarrow> 'v vmap \<times> ('v, 'd, 'w) client" where
  "client_getPrintXYValue C = maintenanceMap C ''GetPrintXYValue'' Map.empty"

definition client_getUVParamValues :: "('v, 'd, 'w) client_env \<Rightarrow> ('v, 'd, 'w) client \<Rightarrow> 'v vmap \<times> ('v, 'd, 'w) client" where
  "client_getUVParamValues C = maintenanceMap C ''GetUVParamValues'' Map.empty"

definition client_setUVParamValues ::
  "('v, 'd, 'w) client_env \<Rightarrow> 'v vmap \<Rightarrow> int \<Rightarrow> ('v, 'd, 'w) client \<Rightarrow> bool \<times> ('v, 'd, 'w) client" where
  "client_setUVParamValues C m kind = maintenanceBool C ''SetUVParamValues'' (typed_settings (ce_variant C) m kind)"

definition client_getSupportNewUVParamFunction :: "('v, 'd, 'w) client_env \<Rightarrow> ('v, 'd, 'w) client \<Rightarrow> int \<times> ('v, 'd, 'w) client" where
  "client_getSupportNewUVParamFunction C c =
     (let Q = ce_variant C;
          (r, c) = request C ''maintenance'' (maintenance_arguments Q ''GetSupportNewUVParamFunction'' Map.empty) [] c in
      (if responseOk Q r then toInt Q (valueAt Q r ''result'') else -1, c))"

definition client_setNewUVParamFunction :: "('v, 'd, 'w) client_env \<Rightarrow> int \<Rightarrow> ('v, 'd, 'w) client \<Rightarrow> bool \<times> ('v, 'd, 'w) client" where
  "client_setNewUVParamFunction C kind = maintenanceBool C ''SetNewUVParamFunction'' [''type'' \<mapsto> ofInt (ce_variant C) kind]"

definition client_getNewUVParamValues :: "('v, 'd, 'w) client_env \<Rightarrow> ('v, 'd, 'w) client \<Rightarrow> 'v vmap \<times> ('v, 'd, 'w) client" where
  "client_getNewUVParamValues C = maintenanceMap C ''GetNewUVParamValues'' Map.empty"

definition client_setNewUVParamValues ::
  "('v, 'd, 'w) client_env \<Rightarrow> 'v vmap \<Rightarrow> int \<Rightarrow> ('v, 'd, 'w) client \<Rightarrow> bool \<times> ('v, 'd, 'w) client" where
  "client_setNewUVParamValues C m kind = maintenanceBool C ''SetNewUVParamValues'' (typed_settings (ce_variant C) m kind)"

section \<open>Operations on another thread\<close>

definition maintenance_operation ::
  "('v, 'd, 'w) client_env \<Rightarrow> string \<Rightarrow> 'v vmap \<Rightarrow> ('v, 'd, 'w) client \<Rightarrow> 'v vmap \<times> ('v, 'd, 'w) client" where
  \<comment> \<open>what \<open>startMaintenanceAction\<close> runs, for the trimmed name\<close>
  "maintenance_operation C action args =
     (if action = ''GetPrinterStatus'' then exchange C ''getPrinterStatus'' Map.empty []
      else if action = ''GetPrinterInfo'' then exchange C ''getPrinterInfo'' Map.empty []
      else exchange C ''maintenance'' (maintenance_arguments (ce_variant C) action args) [])"

definition startMaintenanceAction ::
  "('v, 'd, 'w) client_env \<Rightarrow> string \<Rightarrow> ('v, 'd, 'w) client \<Rightarrow> bool \<times> ('v, 'd, 'w) client" where
  "startMaintenanceAction C action c =
     (let normalized = ce_trim C action in
      if normalized = [] then fail_with C EmptyAction c else startAsyncAction C normalized c)"

definition reconnect_operation :: "('v, 'd, 'w) client_env \<Rightarrow> int \<Rightarrow> ('v, 'd, 'w) client \<Rightarrow> 'v vmap \<times> ('v, 'd, 'w) client" where
  "reconnect_operation C index = exchange C ''reconnectPrinter'' [''index'' \<mapsto> ofInt (ce_variant C) index] []"

definition startReconnectPrinter :: "('v, 'd, 'w) client_env \<Rightarrow> ('v, 'd, 'w) client \<Rightarrow> bool \<times> ('v, 'd, 'w) client" where
  "startReconnectPrinter C = startAsyncAction C ''ReconnectPrinter''"

definition startRestartService :: "('v, 'd, 'w) client_env \<Rightarrow> ('v, 'd, 'w) client \<Rightarrow> bool \<times> ('v, 'd, 'w) client" where
  "startRestartService C = (if ce_android C then startReconnectPrinter C else startAsyncAction C ''RestartPrinterService'')"

definition restart_operation :: "('v, 'd, 'w) client_env \<Rightarrow> int \<Rightarrow> ('v, 'd, 'w) client \<Rightarrow> 'v vmap \<times> ('v, 'd, 'w) client" where
  "restart_operation C = (if ce_android C then reconnect_operation C else restartService C)"

definition maintenanceFinished ::
  "'v qvariant \<Rightarrow> 'v vmap \<Rightarrow> ('v, 'd, 'w) client \<Rightarrow> (string \<times> bool \<times> 'v \<times> string) \<times> ('v, 'd, 'w) client" where
  \<comment> \<open>the watcher's handler: the arguments of \<open>maintenanceActionFinished\<close> and the state it leaves\<close>
  "maintenanceFinished Q r c =
     (let c = applyResponse Q r c in
      ((cl_currentAction c, responseOk Q r, valueAt Q r ''result'', toStr Q (valueAt Q r ''error'')),
       c\<lparr>cl_currentAction := [], cl_maintenanceBusy := False\<rparr>))"

section \<open>What reaches the driver\<close>

definition driven ::
  "('v, 'k) direct_env \<Rightarrow> ('v, 'k) maintenance_env \<Rightarrow> (nat \<Rightarrow> line_poll) \<Rightarrow> ('v, 'd, ('v, 'k) direct) service_env \<Rightarrow> bool" where
  \<comment> \<open>the backend of the service is the driver; names without blanks are what trimming leaves\<close>
  "driven DE M raised E \<longleftrightarrow>
     sv_backend E = driver_backend DE M (sv_disk E) (sv_stream E) (sv_sha E) raised \<and> de_variant DE = sv_variant E \<and>
     (\<forall>a. CHR '' '' \<notin> set a \<longrightarrow> sv_trim E a = a \<and> de_trim DE a = a)"

definition probes :: "('v, 'k) direct_env \<Rightarrow> ('v, 'k) direct \<Rightarrow> ('v, 'k) direct \<Rightarrow> bool" where
  \<comment> \<open>the driver was asked whether it is available, any number of times\<close>
  "probes DE = (\<lambda>b c. c = snd (ensureLoaded DE b))^**"

definition remote ::
  "('v, 'k) direct_env \<Rightarrow> ('v, 'c, ('d, ('v, 'k) direct) server \<times> nat) client \<Rightarrow>
   'r \<times> ('v, 'c, ('d, ('v, 'k) direct) server \<times> nat) client \<Rightarrow> (('v, 'k) direct \<Rightarrow> 'r \<times> ('v, 'k) direct) \<Rightarrow> bool" where
  \<comment> \<open>what the client returned is what the driver's operation returns, run once between two rounds of probes\<close>
  "remote DE c r f \<longleftrightarrow>
     (\<exists>b. probes DE (srv_backend (fst (cl_world c))) b \<and> fst r = fst (f b) \<and>
        probes DE (snd (f b)) (srv_backend (fst (cl_world (snd r)))))"

definition reconnect :: "('v, 'k) direct_env \<Rightarrow> int \<Rightarrow> ('v, 'k) act" where
  \<comment> \<open>a session whose printer answers is kept; otherwise the library is unloaded and the way to a connected
    printer is gone again, to the printer asked for or else to the only one\<close>
  "reconnect DE index s =
     (let Q = de_variant DE;
          (healthy, s) = (if \<not> dp_connected s then (False, s)
             else let (status, s) = getPrinterStatus DE s in (toBool Q (valueAt Q status ''ok''), s)) in
      if healthy then (True, s)
      else and_then (unloadSdkSession DE) (and_then (refreshPrinters DE) (\<lambda>s.
        case find_printer Q (dp_printers s) index of
          None \<Rightarrow> (False, s)
        | Some chosen \<Rightarrow> and_then (choosePrinter DE chosen) (connectPrinter DE) s)) s)"

definition known_support :: "('v, 'k) direct_env \<Rightarrow> ('v, 'k) maintenance_env \<Rightarrow> ('v, 'k) direct \<Rightarrow> int \<times> ('v, 'k) direct" where
  \<comment> \<open>a negative answer becomes -1\<close>
  "known_support DE M s = (let (support, s) = getSupportNewUVParamFunction DE M s in (if support \<ge> 0 then support else -1, s))"

definition background_action ::
  "('v, 'k) direct_env \<Rightarrow> ('v, 'k) maintenance_env \<Rightarrow> string \<Rightarrow> 'v vmap \<Rightarrow> ('v, 'k) action" where
  \<comment> \<open>an action by its name: its success and its result\<close>
  "background_action DE M action args s =
     (let Q = de_variant DE in
      if action = ''GetPrinterStatus'' then query_action DE (getPrinterStatus DE) s
      else if action = ''GetPrinterInfo'' then query_action DE (getPrinterInfo DE M) s
      else map_prod (\<lambda>v. (toBool Q (valueAt Q v ''ok''), valueAt Q v ''result'')) id (executeMaintenanceActionNow DE M action args s))"

definition outcome :: "'v qvariant \<Rightarrow> 'v vmap \<times> 'c \<Rightarrow> (bool \<times> 'v) \<times> 'c" where
  \<comment> \<open>what a response says\<close>
  "outcome Q = map_prod (\<lambda>r. (responseOk Q r, valueAt Q r ''result'')) id"

lemma probed_driven: "driven DE M raised E \<Longrightarrow> probed E s t \<longleftrightarrow> probes DE (srv_backend s) (srv_backend t)"
  by (simp add: probed_def probes_def driven_def driver_backend_def)

lemma probes_refl [simp]: "probes DE b b"
  by (simp add: probes_def)

lemma response_probes:
  "driven DE M raised E \<Longrightarrow> probes DE (srv_backend s) (srv_backend (snd (response E ok v e s)))"
  by (auto simp: response_def serviceState_def probes_def Let_def split_def driven_def driver_backend_def)

locale driven_service = service E contents
  for E :: "('v, 'd, ('v, 'k) direct) service_env" and contents :: "'d \<Rightarrow> string \<rightharpoonup> bytes" +
  fixes DE :: "('v, 'k) direct_env" and M :: "('v, 'k) maintenance_env" and raised :: "nat \<Rightarrow> line_poll"
  assumes D: "driven DE M raised E"
begin

lemma no_blank:
  "CHR '' '' \<notin> set a \<Longrightarrow> sv_trim E a = a" "CHR '' '' \<notin> set a \<Longrightarrow> de_trim DE a = a"
  "de_variant DE = sv_variant E"
  using D by (auto simp: driven_def)

lemma backend_fields:
  "be_refreshPrinters (sv_backend E) = refreshPrinters DE" "be_choosePrinter (sv_backend E) = choosePrinter DE"
  "be_connectPrinter (sv_backend E) = connectPrinter DE" "be_abortPrint (sv_backend E) = abortPrint DE"
  "be_pausePrint (sv_backend E) = pausePrint DE" "be_continuePrint (sv_backend E) = continuePrint DE"
  "be_maintenance (sv_backend E) = executeMaintenanceActionNow DE M"
  "be_printers (sv_backend E) = dp_printers"
  using D by (simp_all add: driven_def driver_backend_def)

lemma idle_probes:
  assumes "idle_step E (fst (cl_world c)) s"
  shows "probes DE (srv_backend (fst (cl_world c))) (srv_backend s)"
    and "\<not> srv_printing (fst (cl_world c)) \<Longrightarrow> \<not> srv_printing s"
  using assms probed_driven [OF D] by (auto simp: idle_step_def keeps_uploads_def)

lemma call_served:
  assumes L: "linked E now uuid C" and p: "\<not> srv_printing (fst (cl_world c))"
    and h: "\<And>s t k. \<not> srv_printing s \<Longrightarrow>
      \<exists>v e. handleRequest E t k (request_message (sv_variant E) command args []) s =
        response E (fst (f (srv_backend s))) v e (s\<lparr>srv_backend := snd (f (srv_backend s))\<rparr>)"
  shows "remote DE c (requestOk C command args [] c) f"
proof -
  obtain r c' where r: "request C command args [] c = (r, c')" by fastforce
  obtain s n where s: "idle_step E (fst (cl_world c)) s"
    "r = fst (handleRequest E (now n) (uuid n) (request_message (sv_variant E) command args []) s)"
    "fst (cl_world c') = snd (handleRequest E (now n) (uuid n) (request_message (sv_variant E) command args []) s)"
    using request_served [OF L r] by blast
  obtain v e where m: "handleRequest E (now n) (uuid n) (request_message (sv_variant E) command args []) s =
      response E (fst (f (srv_backend s))) v e (s\<lparr>srv_backend := snd (f (srv_backend s))\<rparr>)"
    using h [OF idle_probes(2) [OF s(1) p]] by blast
  have "responseOk (sv_variant E) r = fst (f (srv_backend s))" by (simp add: s(2) m response_parts)
  moreover have "probes DE (snd (f (srv_backend s))) (srv_backend (fst (cl_world c')))"
    using response_probes [OF D, of "s\<lparr>srv_backend := snd (f (srv_backend s))\<rparr>"] by (simp add: s(3) m)
  ultimately show ?thesis
    using idle_probes(1) [OF s(1)] by (auto simp: remote_def requestOk_def r linkedD(1) [OF L])
qed

lemma maintenance_served:
  assumes L: "linked E now uuid C" and p: "\<not> srv_printing (fst (cl_world c))"
    and r: "request C ''maintenance'' (maintenance_arguments (sv_variant E) action args) [] c = (r, c')"
    and a: "map_of (maintenance_action DE M args) action = Some f" and blank: "CHR '' '' \<notin> set action"
  shows "\<exists>b. probes DE (srv_backend (fst (cl_world c))) b \<and> responseOk (sv_variant E) r = fst (fst (f b)) \<and>
    valueAt (sv_variant E) r ''result'' = snd (fst (f b)) \<and> probes DE (snd (f b)) (srv_backend (fst (cl_world c')))"
proof -
  let ?args = "maintenance_arguments (sv_variant E) action args"
  obtain s n where s: "idle_step E (fst (cl_world c)) s"
    "r = fst (handleRequest E (now n) (uuid n) (request_message (sv_variant E) ''maintenance'' ?args []) s)"
    "fst (cl_world c') = snd (handleRequest E (now n) (uuid n) (request_message (sv_variant E) ''maintenance'' ?args []) s)"
    using request_served [OF L r] by blast
  have np: "\<not> srv_printing s" by (rule idle_probes(2) [OF s(1) p])
  have trim: "sv_trim E ''maintenance'' = ''maintenance''" "de_trim DE action = action"
    using blank by (simp_all add: no_blank)
  have h: "handleRequest E (now n) (uuid n) (request_message (sv_variant E) ''maintenance'' ?args []) s =
      on_maintenance E ?args s"
    using np by (simp add: handleRequest_def request_parts trim Let_def)
  obtain ok v b where f: "f (srv_backend s) = ((ok, v), b)" by (metis prod.exhaust)
  have parts: "toStr (sv_variant E) (valueAt (sv_variant E) ?args ''action'') = action"
    "toMap (sv_variant E) (valueAt (sv_variant E) ?args ''arguments'') = args"
    by (simp_all add: maintenance_arguments_def valueAt_def variants.variant_simps)
  have e: "\<exists>t. executeMaintenanceActionNow DE M action args (srv_backend s) =
      ([''ok'' \<mapsto> ofBool (sv_variant E) ok, ''result'' \<mapsto> v, ''error'' \<mapsto> t], b)"
    by (rule exI [of _ "ofStr (sv_variant E) (if ok then [] else me_errorText M (dp_error b))"])
      (simp add: executeMaintenanceActionNow_def trim executeMaintenanceAction_def a f Let_def no_blank(3))
  then obtain t where t: "executeMaintenanceActionNow DE M action args (srv_backend s) =
      ([''ok'' \<mapsto> ofBool (sv_variant E) ok, ''result'' \<mapsto> v, ''error'' \<mapsto> t], b)" by blast
  have "\<exists>err. on_maintenance E ?args s = response E ok v err (s\<lparr>srv_backend := b\<rparr>)"
    by (simp add: on_maintenance_def Let_def parts backend_fields t) (auto simp: valueAt_def variants.variant_simps)
  then obtain err where m: "on_maintenance E ?args s = response E ok v err (s\<lparr>srv_backend := b\<rparr>)" ..
  have "probes DE b (srv_backend (fst (cl_world c')))"
    using response_probes [OF D, of "s\<lparr>srv_backend := b\<rparr>"] by (simp add: s(3) h m)
  then show ?thesis
    using f idle_probes(1) [OF s(1)] by (intro exI [of _ "srv_backend s"]) (simp add: s(2) h m response_parts)
qed

lemma maintenanceBool_served:
  assumes L: "linked E now uuid C" and p: "\<not> srv_printing (fst (cl_world c))"
    and a: "map_of (maintenance_action DE M args) action = Some (plain_action DE f)" and blank: "CHR '' '' \<notin> set action"
  shows "remote DE c (maintenanceBool C action args c) f"
proof -
  obtain r c' where r: "request C ''maintenance'' (maintenance_arguments (sv_variant E) action args) [] c = (r, c')" by fastforce
  show ?thesis
    using maintenance_served [OF L p r a blank]
    by (auto simp: remote_def maintenanceBool_def requestOk_def linkedD(1) [OF L] r plain_action_def split_def Let_def)
qed

lemma maintenanceMap_served:
  assumes L: "linked E now uuid C" and p: "\<not> srv_printing (fst (cl_world c))"
    and a: "map_of (maintenance_action DE M args) action = Some (query_action DE f)" and blank: "CHR '' '' \<notin> set action"
    and ok: "\<And>b. fst (f b) ''ok'' \<noteq> None"
  shows "remote DE c (maintenanceMap C action args c) f"
proof -
  obtain r c' where r: "request C ''maintenance'' (maintenance_arguments (sv_variant E) action args) [] c = (r, c')" by fastforce
  obtain b where b: "probes DE (srv_backend (fst (cl_world c))) b"
    "valueAt (sv_variant E) r ''result'' = snd (fst (query_action DE f b))"
    "probes DE (snd (query_action DE f b)) (srv_backend (fst (cl_world c')))"
    using maintenance_served [OF L p r a blank] by blast
  have "de_variant DE = sv_variant E" using D by (simp add: driven_def)
  then have "toMap (sv_variant E) (valueAt (sv_variant E) r ''result'') = fst (f b)" "snd (query_action DE f b) = snd (f b)"
    using b(2) by (simp_all add: query_action_def split_def Let_def variants.variant_simps)
  then have "maintenanceMap C action args c = (fst (f b), c')"
    using ok [of b] by (auto simp: maintenanceMap_def linkedD(1) [OF L] r)
  then show ?thesis using b \<open>snd (query_action DE f b) = snd (f b)\<close> by (auto simp: remote_def)
qed

lemma commands_served:
  assumes L: "linked E now uuid C" and p: "\<not> srv_printing (fst (cl_world c))"
  shows "remote DE c (client_refreshPrinters C c) (refreshPrinters DE)" and
    "remote DE c (client_abortPrint C c) (abortPrint DE)" and
    "remote DE c (client_pausePrint C c) (pausePrint DE)" and
    "remote DE c (client_continuePrint C c) (continuePrint DE)" and
    "remote DE c (client_connectPrinter C c) (connectPrinter DE)" and
    "fits_int i \<Longrightarrow> remote DE c (client_choosePrinter C i c) (choosePrinter DE i)"
  unfolding client_refreshPrinters_def client_abortPrint_def client_pausePrint_def client_continuePrint_def
    client_connectPrinter_def client_choosePrinter_def linkedD(1) [OF L]
  by (rule call_served [OF L p]; auto simp: handleRequest_def request_parts no_blank on_refreshPrinters_def
      backend_call_def backend_fields Let_def split_def vmInt_def variants.variant_simps)+

lemma maintenance_ok:
  "fst (stopAxis DE M i b) ''ok'' \<noteq> None" "fst (saveAxisPos DE M i b) ''ok'' \<noteq> None"
  "fst (getPrintHeight DE b) ''ok'' \<noteq> None" "fst (getJobSettings DE M b) ''ok'' \<noteq> None"
  "fst (getAlignmentValues DE M b) ''ok'' \<noteq> None" "fst (getPrintXYValue DE b) ''ok'' \<noteq> None"
  "fst (getUVParamValues DE M b) ''ok'' \<noteq> None" "fst (getNewUVParamValues DE M b) ''ok'' \<noteq> None"
  by (simp_all add: stopAxis_def saveAxisPos_def axis_position_def getPrintHeight_def getJobSettings_def
      getAlignmentValues_def getPrintXYValue_def getUVParamValues_def getNewUVParamValues_def Let_def split_def)

lemmas action_args =
  maintenance_action_def Let_def head_mask_def typed_settings_def valueAt_def variants.variant_simps no_blank(3)

lemma head_actions_served:
  assumes L: "linked E now uuid C" and p: "\<not> srv_printing (fst (cl_world c))"
  shows "fits_int m \<Longrightarrow> remote DE c (client_wipePrintHead C m c) (wipePrintHead DE M m)" and
    "fits_int m \<Longrightarrow> remote DE c (client_startCleanOperation C m c) (startCleanOperation DE M m)" and
    "fits_int m \<Longrightarrow> remote DE c (client_startPump C m c) (startPump DE M m)" and
    "remote DE c (client_stopPumpOperation C c) (stopPumpOperation DE M)" and
    "fits_int m \<Longrightarrow> remote DE c (client_spitPrintHead C m c) (spitPrintHead DE M m)" and
    "remote DE c (client_stopSpitOperation C c) (stopSpitOperation DE M)" and
    "remote DE c (client_capPrintHead C c) (capPrintHead DE M)" and
    "fits_int i \<Longrightarrow> fits_int m \<Longrightarrow> remote DE c (client_moveAxis C i m c) (moveAxis DE M i m)" and
    "fits_int i \<Longrightarrow> remote DE c (client_stopAxis C i c) (stopAxis DE M i)" and
    "fits_int i \<Longrightarrow> remote DE c (client_saveAxisPos C i c) (saveAxisPos DE M i)" and
    "remote DE c (client_printNozzleCheck C c) (printNozzleCheck DE)"
  unfolding client_wipePrintHead_def client_startCleanOperation_def client_startPump_def client_stopPumpOperation_def
    client_spitPrintHead_def client_stopSpitOperation_def client_capPrintHead_def client_moveAxis_def client_stopAxis_def
    client_saveAxisPos_def client_printNozzleCheck_def linkedD(1) [OF L]
  by ((rule maintenanceBool_served [OF L p] maintenanceMap_served [OF L p]; simp add: action_args maintenance_ok; fail)+)

lemma engine_actions_served:
  assumes L: "linked E now uuid C" and p: "\<not> srv_printing (fst (cl_world c))"
  shows "remote DE c (client_setPrintHeight C h c) (setPrintHeight DE h)" and
    "remote DE c (client_getPrintHeight C c) (getPrintHeight DE)" and
    "remote DE c (client_getJobSettings C c) (getJobSettings DE M)" and
    "remote DE c (client_setJobSettingsFromMap C v c) (setJobSettingsFromMap DE v)" and
    "remote DE c (client_exportConfigFile C path c) (exportConfigFile DE M path)" and
    "remote DE c (client_importConfigFile C path c) (importConfigFile DE M path)" and
    "remote DE c (client_getAlignmentValues C c) (getAlignmentValues DE M)" and
    "fits_int i \<Longrightarrow> remote DE c (client_setAlignmentValues C v i c) (setAlignmentValues DE M v i)" and
    "fits_int i \<Longrightarrow> remote DE c (client_printAlignmentPattern C i c) (printAlignmentPattern DE i)" and
    "fits_int i \<Longrightarrow> fits_int m \<Longrightarrow> remote DE c (client_setPrintXYValue C i m c) (setPrintXYValue DE i m)" and
    "remote DE c (client_getPrintXYValue C c) (getPrintXYValue DE)" and
    "remote DE c (client_getUVParamValues C c) (getUVParamValues DE M)" and
    "fits_int i \<Longrightarrow> remote DE c (client_setUVParamValues C v i c) (setUVParamValues DE M v i)" and
    "fits_int i \<Longrightarrow> remote DE c (client_setNewUVParamFunction C i c) (setNewUVParamFunction DE M i)" and
    "remote DE c (client_getNewUVParamValues C c) (getNewUVParamValues DE M)" and
    "fits_int i \<Longrightarrow> remote DE c (client_setNewUVParamValues C v i c) (setNewUVParamValues DE M v i)"
  unfolding client_setPrintHeight_def client_getPrintHeight_def client_getJobSettings_def client_setJobSettingsFromMap_def
    client_exportConfigFile_def client_importConfigFile_def client_getAlignmentValues_def client_setAlignmentValues_def
    client_printAlignmentPattern_def client_setPrintXYValue_def client_getPrintXYValue_def client_getUVParamValues_def
    client_setUVParamValues_def client_setNewUVParamFunction_def client_getNewUVParamValues_def
    client_setNewUVParamValues_def linkedD(1) [OF L]
  by ((rule maintenanceBool_served [OF L p] maintenanceMap_served [OF L p]; simp add: action_args maintenance_ok; fail)+)

lemma more_backend_fields:
  "be_isConnected (sv_backend E) = dp_connected" "be_getPrinterStatus (sv_backend E) = getPrinterStatus DE"
  "be_getPrinterInfo (sv_backend E) = getPrinterInfo DE M" "be_statusText (sv_backend E) = driver_statusText DE M"
  "be_resetSdkSession (sv_backend E) = unloadSdkSession DE"
  using D by (simp_all add: driven_def driver_backend_def)

lemma outcome_served:
  assumes L: "linked E now uuid C" and p: "\<not> srv_printing (fst (cl_world c))"
    and h: "\<And>s t k. \<not> srv_printing s \<Longrightarrow>
      \<exists>ok v e. handleRequest E t k (request_message (sv_variant E) command args []) s =
        response E ok v e (s\<lparr>srv_backend := snd (f (srv_backend s))\<rparr>) \<and> g ok v = fst (f (srv_backend s))"
  shows "remote DE c (map_prod (\<lambda>r. g (responseOk (sv_variant E) r) (valueAt (sv_variant E) r ''result'')) id
    (request C command args [] c)) f"
proof -
  obtain r c' where r: "request C command args [] c = (r, c')" by fastforce
  obtain s n where s: "idle_step E (fst (cl_world c)) s"
    "r = fst (handleRequest E (now n) (uuid n) (request_message (sv_variant E) command args []) s)"
    "fst (cl_world c') = snd (handleRequest E (now n) (uuid n) (request_message (sv_variant E) command args []) s)"
    using request_served [OF L r] by blast
  obtain ok v e where m: "handleRequest E (now n) (uuid n) (request_message (sv_variant E) command args []) s =
      response E ok v e (s\<lparr>srv_backend := snd (f (srv_backend s))\<rparr>)" "g ok v = fst (f (srv_backend s))"
    using h [OF idle_probes(2) [OF s(1) p]] by blast
  have "probes DE (snd (f (srv_backend s))) (srv_backend (fst (cl_world c')))"
    using response_probes [OF D, of "s\<lparr>srv_backend := snd (f (srv_backend s))\<rparr>"] by (simp add: s(3) m)
  then show ?thesis
    using idle_probes(1) [OF s(1)] by (auto simp: remote_def r s(2) m response_parts)
qed

lemma applyResponse_world [simp]: "cl_world (applyResponse Q r c) = cl_world c"
  by (auto simp: applyResponse_def Let_def)

lemma exchange_served:
  "remote DE c (outcome Q (request C command args [] c)) f \<Longrightarrow> remote DE c (outcome Q (exchange C command args [] c)) f"
  by (cases "exchange C command args [] c") (simp add: remote_def outcome_def request_def Let_def)

lemma query_served:
  assumes L: "linked E now uuid C" and p: "\<not> srv_printing (fst (cl_world c))"
    and h: "\<And>s t k. \<not> srv_printing s \<Longrightarrow>
      handleRequest E t k (request_message (sv_variant E) command Map.empty []) s = on_query E f s"
  shows "remote DE c (outcome (sv_variant E) (request C command Map.empty [] c)) (query_action DE f)"
    and "(\<And>b. fst (f b) ''ok'' \<noteq> None) \<Longrightarrow> remote DE c (client_query C command c) f"
proof -
  have e: "\<exists>err. handleRequest E t k (request_message (sv_variant E) command Map.empty []) s =
      response E (toBool (sv_variant E) (valueAt (sv_variant E) (fst (f (srv_backend s))) ''ok''))
        (ofMap (sv_variant E) (fst (f (srv_backend s)))) err (s\<lparr>srv_backend := snd (f (srv_backend s))\<rparr>)"
    if "\<not> srv_printing s" for s t k
    by (auto simp: h [OF that] on_query_def split_def Let_def)
  show "remote DE c (outcome (sv_variant E) (request C command Map.empty [] c)) (query_action DE f)"
    unfolding outcome_def
    by (rule outcome_served [OF L p, where g = Pair]) (use e in \<open>fastforce simp: query_action_def split_def Let_def no_blank(3)\<close>)
  have "remote DE c (map_prod (\<lambda>r. toMap (sv_variant E) (valueAt (sv_variant E) r ''result'')) id
      (request C command Map.empty [] c)) f"
    by (rule outcome_served [OF L p, where g = "\<lambda>ok v. toMap (sv_variant E) v"]) (use e in \<open>fastforce simp: variants.variant_simps\<close>)
  then show "remote DE c (client_query C command c) f" if "\<And>b. fst (f b) ''ok'' \<noteq> None"
    by (cases "request C command Map.empty [] c")
      (auto simp: remote_def client_query_def linkedD(1) [OF L] Let_def that)
qed

lemma queries_served:
  assumes L: "linked E now uuid C" and p: "\<not> srv_printing (fst (cl_world c))"
  shows "remote DE c (client_query C ''getPrinterStatus'' c) (getPrinterStatus DE)" and
    "remote DE c (client_query C ''getPrinterInfo'' c) (getPrinterInfo DE M)" and
    "remote DE c (client_statusText C c) (driver_statusText DE M)"
proof -
  show "remote DE c (client_query C ''getPrinterStatus'' c) (getPrinterStatus DE)"
    by (rule query_served(2) [OF L p])
      (simp_all add: handleRequest_def request_parts no_blank more_backend_fields getPrinterStatus_def split_def Let_def)
  show "remote DE c (client_query C ''getPrinterInfo'' c) (getPrinterInfo DE M)"
    by (rule query_served(2) [OF L p])
      (simp_all add: handleRequest_def request_parts no_blank more_backend_fields getPrinterInfo_def split_def Let_def)
  have "remote DE c (map_prod (\<lambda>r. (responseOk (sv_variant E) r, toStr (sv_variant E) (valueAt (sv_variant E) r ''result''))) id
      (request C ''statusText'' Map.empty [] c)) (\<lambda>b. map_prod (Pair True) id (driver_statusText DE M b))"
    by (rule outcome_served [OF L p, where g = "\<lambda>ok v. (ok, toStr (sv_variant E) v)"], rule exI [of _ True])
      (auto simp: handleRequest_def request_parts no_blank more_backend_fields split_def Let_def variants.variant_simps)
  then show "remote DE c (client_statusText C c) (driver_statusText DE M)"
    by (auto simp: remote_def client_statusText_def linkedD(1) [OF L] Let_def split_def)
qed

lemma support_served:
  assumes L: "linked E now uuid C" and p: "\<not> srv_printing (fst (cl_world c))"
    and fits: "\<And>b. fits_int (fst (getSupportNewUVParamFunction DE M b))"
  shows "remote DE c (client_getSupportNewUVParamFunction C c) (known_support DE M)"
proof -
  let ?a = "''GetSupportNewUVParamFunction''"
  obtain r c' where r: "request C ''maintenance'' (maintenance_arguments (sv_variant E) ?a Map.empty) [] c = (r, c')" by fastforce
  have a: "map_of (maintenance_action DE M Map.empty) ?a = Some (\<lambda>s. let (support, s) = getSupportNewUVParamFunction DE M s in
      ((support \<ge> 0, ofInt (sv_variant E) support), s))"
    by (simp add: maintenance_action_def Let_def no_blank(3))
  show ?thesis
    using maintenance_served [OF L p r a] fits
    by (auto simp: remote_def client_getSupportNewUVParamFunction_def known_support_def linkedD(1) [OF L] r Let_def split_def
        variants.variant_simps)
qed

lemma background_served:
  assumes L: "linked E now uuid C" and p: "\<not> srv_printing (fst (cl_world c))"
  shows "remote DE c (outcome (sv_variant E) (maintenance_operation C action args c)) (background_action DE M action args)"
proof -
  let ?run = "\<lambda>b. map_prod (\<lambda>v. (toBool (sv_variant E) (valueAt (sv_variant E) v ''ok''), valueAt (sv_variant E) v ''result'')) id
    (executeMaintenanceActionNow DE M action args b)"
  have status: "remote DE c (outcome (sv_variant E) (exchange C ''getPrinterStatus'' Map.empty [] c)) (query_action DE (getPrinterStatus DE))"
    by (rule exchange_served, rule query_served(1) [OF L p])
      (simp add: handleRequest_def request_parts no_blank more_backend_fields Let_def)
  have info: "remote DE c (outcome (sv_variant E) (exchange C ''getPrinterInfo'' Map.empty [] c)) (query_action DE (getPrinterInfo DE M))"
    by (rule exchange_served, rule query_served(1) [OF L p])
      (simp add: handleRequest_def request_parts no_blank more_backend_fields Let_def)
  have other: "remote DE c (outcome (sv_variant E)
      (exchange C ''maintenance'' (maintenance_arguments (sv_variant E) action args) [] c)) ?run"
  proof (rule exchange_served, unfold outcome_def, rule outcome_served [OF L p, where g = Pair])
    fix s :: "('d, ('v, 'k) direct) server" and t k
    assume "\<not> srv_printing s"
    then have "handleRequest E t k (request_message (sv_variant E) ''maintenance'' (maintenance_arguments (sv_variant E) action args) []) s =
        on_maintenance E (maintenance_arguments (sv_variant E) action args) s"
      by (simp add: handleRequest_def request_parts no_blank Let_def)
    then show "\<exists>ok v e. handleRequest E t k (request_message (sv_variant E) ''maintenance''
          (maintenance_arguments (sv_variant E) action args) []) s =
        response E ok v e (s\<lparr>srv_backend := snd (?run (srv_backend s))\<rparr>) \<and> (ok, v) = fst (?run (srv_backend s))"
      by (auto simp: on_maintenance_def maintenance_arguments_def valueAt_def backend_fields variants.variant_simps split_def Let_def)
  qed
  have eqs: "background_action DE M ''GetPrinterStatus'' args = query_action DE (getPrinterStatus DE)"
    "background_action DE M ''GetPrinterInfo'' args = query_action DE (getPrinterInfo DE M)"
    by (simp_all add: background_action_def fun_eq_iff)
  show ?thesis
  proof (cases "action = ''GetPrinterStatus'' \<or> action = ''GetPrinterInfo''")
    case True
    then show ?thesis using status info by (auto simp: maintenance_operation_def eqs)
  next
    case False
    then have "background_action DE M action args = ?run"
      by (simp add: background_action_def no_blank(3) fun_eq_iff Let_def)
    then show ?thesis using other False by (simp add: maintenance_operation_def linkedD(1) [OF L])
  qed
qed

lemma on_reconnect:
  "\<exists>v e. on_reconnectPrinter E args s =
     response E (fst (reconnect DE (vmInt (sv_variant E) args ''index'' (-1)) (srv_backend s))) v e
       (s\<lparr>srv_backend := snd (reconnect DE (vmInt (sv_variant E) args ''index'' (-1)) (srv_backend s))\<rparr>)"
proof -
  let ?i = "vmInt (sv_variant E) args ''index'' (-1)"
  let ?to = "\<lambda>b. s\<lparr>srv_backend := b\<rparr>"
  obtain st t where st: "getPrinterStatus DE (srv_backend s) = (st, t)" by fastforce
  define healthy where "healthy \<longleftrightarrow> dp_connected (srv_backend s) \<and> toBool (sv_variant E) (valueAt (sv_variant E) st ''ok'')"
  define b1 where "b1 = (if dp_connected (srv_backend s) then t else srv_backend s)"
  obtain r2 b2 where b2: "unloadSdkSession DE b1 = (r2, b2)" by fastforce
  obtain r3 b3 where b3: "refreshPrinters DE b2 = (r3, b3)" by fastforce
  define f where "f = find_printer (sv_variant E) (dp_printers b3) ?i"
  obtain r4 b4 where b4: "choosePrinter DE (the f) b3 = (r4, b4)" by fastforce
  obtain r5 b5 where b5: "connectPrinter DE b4 = (r5, b5)" by fastforce
  note steps = b2 b3 b5 f_def [symmetric] Let_def
  have driver: "reconnect DE ?i (srv_backend s) =
      (if healthy then (True, b1) else if \<not> r2 then (False, b2) else if \<not> r3 then (False, b3)
       else if f = None then (False, b3) else if \<not> r4 then (False, b4) else (r5, b5))"
    using b2 b4 by (cases "dp_connected (srv_backend s)"; cases f)
      (auto simp add: reconnect_def no_blank(3) and_then_def st steps healthy_def b1_def)
  have server: "on_reconnectPrinter E args s =
      (if healthy then response E True (ofStr (sv_variant E) ''The existing printer session is healthy.'') NoError (?to b1)
       else if \<not> r2 then refuse E (backend_error E (?to b2)) (?to b2)
       else if \<not> r3 then refuse E (backend_error E (?to b3)) (?to b3)
       else if f = None then refuse E (if dp_printers b3 = [] then NoPrinterFound else SelectPrinter) (?to b3)
       else if \<not> r4 then refuse E (backend_error E (?to b4)) (?to b4)
       else backend_call E (connectPrinter DE) (?to b4))"
    using b2 b4 by (cases "dp_connected (srv_backend s)"; cases f)
      (simp_all add: on_reconnectPrinter_def more_backend_fields backend_fields st steps healthy_def b1_def)
  show ?thesis
    unfolding driver server by (auto simp: refuse_def backend_call_def b5 Let_def)
qed

lemma reconnect_served:
  assumes L: "linked E now uuid C" and p: "\<not> srv_printing (fst (cl_world c))" and i: "fits_int index"
  shows "remote DE c (map_prod (responseOk (sv_variant E)) id (reconnect_operation C index c)) (reconnect DE index)"
proof -
  let ?args = "[''index'' \<mapsto> ofInt (sv_variant E) index]"
  have idx: "vmInt (sv_variant E) ?args ''index'' (-1) = index" using i by (simp add: vmInt_def variants.variant_simps)
  have "remote DE c (map_prod (\<lambda>r. (\<lambda>ok v. ok) (responseOk (sv_variant E) r) (valueAt (sv_variant E) r ''result'')) id
      (request C ''reconnectPrinter'' ?args [] c)) (reconnect DE index)"
  proof (rule outcome_served [OF L p])
    fix s :: "('d, ('v, 'k) direct) server" and t k
    assume "\<not> srv_printing s"
    then have "handleRequest E t k (request_message (sv_variant E) ''reconnectPrinter'' ?args []) s = on_reconnectPrinter E ?args s"
      by (simp add: handleRequest_def request_parts no_blank Let_def)
    then show "\<exists>ok v e. handleRequest E t k (request_message (sv_variant E) ''reconnectPrinter'' ?args []) s =
        response E ok v e (s\<lparr>srv_backend := snd (reconnect DE index (srv_backend s))\<rparr>) \<and> ok = fst (reconnect DE index (srv_backend s))"
      using on_reconnect [of ?args s] by (simp add: idx)
  qed
  then show ?thesis
    by (cases "exchange C ''reconnectPrinter'' ?args [] c")
      (simp add: remote_def reconnect_operation_def linkedD(1) [OF L] request_def Let_def)
qed

end

end
