(* ===== verification/Canonical_Cmyk.thy ===== *)
theory Canonical_Cmyk
  imports Qt_Disk Strip_Pipeline Raster_Spool
begin

text \<open>
  \<open>RasterAlphaMask\<close> and \<open>BoundedRasterPipeline::CanonicalCmykFile\<close>: the page is exported once,
  strip by strip, as interleaved CMYK bytes with the source transparency multiplied in; the tone
  provider reads row ranges back. The ImageMagick exports are parameters, an exception is \<open>None\<close>.
\<close>

section \<open>Images\<close>

record pixel_source =
  src_columns :: int
  src_rows :: int
  src_export :: "nat \<Rightarrow> nat \<Rightarrow> bytes option" \<comment> \<open>first row, row count\<close>

definition exports :: "pixel_source \<Rightarrow> nat \<Rightarrow> bytes \<Rightarrow> bool" where
  \<comment> \<open>the image holds these bytes, \<open>n\<close> per pixel, and every row range exports\<close>
  "exports im n px \<longleftrightarrow>
     0 < src_columns im \<and> 0 < src_rows im \<and> length px = nat (src_columns im) * n * nat (src_rows im) \<and>
     (\<forall>first rc. first + rc \<le> nat (src_rows im) \<longrightarrow>
        src_export im first rc = Some (cut_span (first * (nat (src_columns im) * n)) (rc * (nat (src_columns im) * n)) px))"

section \<open>The alpha mask\<close>

record alpha_mask =
  a_width :: int
  a_height :: int
  a_image :: "pixel_source option" \<comment> \<open>\<open>m_mask\<close>; \<open>None\<close> is the null pointer\<close>

definition alpha_reset :: alpha_mask where
  "alpha_reset = \<lparr>a_width = 0, a_height = 0, a_image = None\<rparr>"

definition alpha_active :: "alpha_mask \<Rightarrow> bool" where
  "alpha_active A \<longleftrightarrow> a_image A \<noteq> None"

definition capture_strip :: "pixel_source \<Rightarrow> (nat \<Rightarrow> bool) \<Rightarrow> nat \<Rightarrow> nat \<Rightarrow> bytes \<Rightarrow> unit + bytes" where
  "capture_strip alphaOf canceled firstRow rowCount raw =
     (if canceled firstRow then Inl ()
      else case src_export alphaOf firstRow rowCount of None \<Rightarrow> Inl () | Some chunk \<Rightarrow> Inr (raw @ chunk))"

definition alpha_capture ::
  "(int \<Rightarrow> int \<Rightarrow> bytes \<Rightarrow> pixel_source option) \<Rightarrow> (nat \<Rightarrow> bool) \<Rightarrow> pixel_source option \<Rightarrow> bool \<times> alpha_mask" where
  \<comment> \<open>the \<open>"A"\<close> exports of the source, or \<open>None\<close> without an alpha channel; \<open>readGray\<close> is
      \<open>Image::read\<close> of the raw gray file. The temporary file is its contents\<close>
  "alpha_capture readGray canceled source =
     (case source of
        None \<Rightarrow> (True, alpha_reset)
      | Some alphaOf \<Rightarrow>
        if src_columns alphaOf \<le> 0 \<or> src_rows alphaOf \<le> 0 then (False, alpha_reset)
        else case strip_loop (capture_strip alphaOf canceled) 128 (nat (src_rows alphaOf)) 0 [] of
          Inl _ \<Rightarrow> (False, alpha_reset)
        | Inr raw \<Rightarrow>
          (case readGray (src_columns alphaOf) (src_rows alphaOf) raw of
             None \<Rightarrow> (False, alpha_reset)
           | Some im \<Rightarrow> (True, \<lparr>a_width = src_columns alphaOf, a_height = src_rows alphaOf, a_image = Some im\<rparr>)))"

definition alpha_resize ::
  "(int \<Rightarrow> int \<Rightarrow> pixel_source \<Rightarrow> pixel_source option) \<Rightarrow> int \<Rightarrow> int \<Rightarrow> alpha_mask \<Rightarrow> bool \<times> alpha_mask" where
  "alpha_resize resizeImage width height A =
     (case a_image A of
        None \<Rightarrow> (True, A)
      | Some im \<Rightarrow>
        if width = a_width A \<and> height = a_height A then (True, A)
        else if width \<le> 0 \<or> height \<le> 0 then (False, A)
        else case resizeImage width height im of
          None \<Rightarrow> (False, A)
        | Some im \<Rightarrow> (True, \<lparr>a_width = width, a_height = height, a_image = Some im\<rparr>))"

definition alpha_scale :: "u8 \<Rightarrow> u8 \<Rightarrow> u8" where
  "alpha_scale tone a = cast8 ((uint tone * uint a + 127) div 255)"

definition alpha_readRows :: "alpha_mask \<Rightarrow> int \<Rightarrow> int \<Rightarrow> bytes option" where
  "alpha_readRows A firstRow rowCount =
     (case a_image A of
        None \<Rightarrow> Some []
      | Some im \<Rightarrow>
        if firstRow < 0 \<or> rowCount < 0 \<or> firstRow + rowCount > a_height A then None
        else src_export im (nat firstRow) (nat rowCount))"

definition alpha_applyToRows :: "alpha_mask \<Rightarrow> int \<Rightarrow> int \<Rightarrow> bytes \<Rightarrow> bytes option" where
  "alpha_applyToRows A firstRow rowCount tone =
     (if \<not> alpha_active A then Some tone
      else let count = unat (cast64 (a_width A) * cast64 rowCount) in
      if length tone \<noteq> count then None
      else case alpha_readRows A firstRow rowCount of
        None \<Rightarrow> None
      | Some alpha \<Rightarrow>
          if length alpha \<noteq> count then None
          else Some (map (\<lambda>i. alpha_scale (tone ! i) (alpha ! i)) [0..<count]))"

definition alpha_applyTo :: "alpha_mask \<Rightarrow> bytes \<Rightarrow> bytes option" where
  "alpha_applyTo A tone =
     (if \<not> alpha_active A then Some tone
      else if a_width A \<le> 0 \<or> a_height A \<le> 0 then None
      else if length tone \<noteq> unat (cast64 (a_width A) * cast64 (a_height A)) then None
      else alpha_applyToRows A 0 (a_height A) tone)"

definition alpha_applyToImage ::
  "(int \<Rightarrow> int \<Rightarrow> bytes \<Rightarrow> pixel_source option) \<Rightarrow> alpha_mask \<Rightarrow> pixel_source \<Rightarrow> bool \<times> pixel_source" where
  \<comment> \<open>\<open>applyTo(Magick::Image&)\<close>: the gray exports of the image, and \<open>importGray\<close> to put them back\<close>
  "alpha_applyToImage importGray A im =
     (if \<not> alpha_active A then (True, im)
      else if src_columns im \<noteq> a_width A \<or> src_rows im \<noteq> a_height A then (False, im)
      else if a_width A \<le> 0 \<or> a_height A \<le> 0 then (False, im)
      else case src_export im 0 (nat (a_height A)) of
        None \<Rightarrow> (False, im)
      | Some tone \<Rightarrow>
        (case alpha_applyTo A tone of
           None \<Rightarrow> (False, im)
         | Some tone \<Rightarrow>
           (case importGray (a_width A) (a_height A) tone of
              None \<Rightarrow> (False, im) | Some im \<Rightarrow> (True, im))))"

section \<open>The canonical file\<close>

datatype canonical_error =
    CanonicalEmpty
  | CanonicalCreate
  | CanonicalCanceled
  | CanonicalAlpha
  | CanonicalWrite
  | CanonicalExport
  | CanonicalRowRequest
  | CanonicalOpen
  | CanonicalTruncated

record canonical =
  k_path :: string
  k_width :: int
  k_height :: int

definition canonical_remove :: "'d disk \<Rightarrow> 'd \<times> canonical \<Rightarrow> 'd \<times> canonical" where
  "canonical_remove D st =
     (case st of (d, K) \<Rightarrow>
       (if k_path K = [] then d else removeFile D (k_path K) d, \<lparr>k_path = [], k_width = 0, k_height = 0\<rparr>))"

definition mask_interleaved :: "bytes \<Rightarrow> bytes \<Rightarrow> nat \<Rightarrow> bytes" where
  \<comment> \<open>the alpha of a pixel scales its four bytes\<close>
  "mask_interleaved px alpha pixels = map (\<lambda>i. alpha_scale (px ! i) (alpha ! (i div 4))) [0..<4 * pixels]"

definition canonical_strip ::
  "'d disk \<Rightarrow> pixel_source \<Rightarrow> alpha_mask \<Rightarrow> (nat \<Rightarrow> bool) \<Rightarrow> string \<Rightarrow> nat \<Rightarrow> nat \<Rightarrow> nat \<Rightarrow> 'd \<Rightarrow>
   (canonical_error \<times> 'd) + 'd" where
  "canonical_strip D img A canceled path width firstRow rowCount d =
     (if canceled firstRow then Inl (CanonicalCanceled, d)
      else case src_export img firstRow rowCount of
        None \<Rightarrow> Inl (CanonicalExport, d)
      | Some px \<Rightarrow>
        let pixels = width * rowCount;
            masked = (if alpha_active A
              then case alpha_readRows A (int firstRow) (int rowCount) of
                     None \<Rightarrow> None
                   | Some alphaRows \<Rightarrow>
                       if length alphaRows \<noteq> pixels then None else Some (mask_interleaved px alphaRows pixels)
              else Some px)
        in (case masked of
              None \<Rightarrow> Inl (CanonicalAlpha, d)
            | Some out \<Rightarrow>
              (case writeAt D path (firstRow * width * 4) out d of
                 None \<Rightarrow> Inl (CanonicalWrite, d) | Some d \<Rightarrow> Inr d)))"

definition canonical_create ::
  "'d disk \<Rightarrow> string \<Rightarrow> string \<Rightarrow> pixel_source \<Rightarrow> alpha_mask \<Rightarrow> (nat \<Rightarrow> bool) \<Rightarrow> 'd \<times> canonical \<Rightarrow>
   (canonical_error \<times> 'd \<times> canonical) + ('d \<times> canonical)" where
  \<comment> \<open>the file position of the sequential writes is \<open>firstRow * width * 4\<close>; \<open>token\<close> is the random
      part of the name\<close>
  "canonical_create D token directory img A canceled st =
     (let (d, K) = canonical_remove D st;
          K = K\<lparr>k_width := src_columns img, k_height := src_rows img\<rparr> in
      if k_width K \<le> 0 \<or> k_height K \<le> 0 then Inl (CanonicalEmpty, d, K)
      else let path = filePath directory (''canonical-'' @ token @ ''.cmyk8.partial'');
               K = K\<lparr>k_path := path\<rparr> in
        case openTruncate D path d of
          None \<Rightarrow> Inl (CanonicalCreate, canonical_remove D (d, K))
        | Some d \<Rightarrow>
          let strip = boundedRowsForWidth (k_width K) (if alpha_active A then 5 else 4) (64 * MiB) in
          (case strip_loop (canonical_strip D img A canceled path (nat (k_width K)))
                  (nat strip) (nat (k_height K)) 0 d of
             Inl (e, d) \<Rightarrow> Inl (e, canonical_remove D (d, K))
           | Inr d \<Rightarrow> Inr (d, K)))"

definition canonical_readRows :: "'d disk \<Rightarrow> canonical \<Rightarrow> int \<Rightarrow> int \<Rightarrow> 'd \<Rightarrow> canonical_error + bytes" where
  "canonical_readRows D K firstRow rowCount d =
     (if firstRow < 0 \<or> rowCount \<le> 0 \<or> firstRow + rowCount > k_height K then Inl CanonicalRowRequest
      else let off = unat (cast64 firstRow * cast64 (k_width K) * 4);
               count = unat (cast64 rowCount * cast64 (k_width K) * 4) in
      if 2 ^ 63 \<le> off \<or> 2 ^ 63 \<le> count then Inl CanonicalOpen
      else case readAt D (k_path K) off count d of
        None \<Rightarrow> Inl CanonicalOpen
      | Some data \<Rightarrow> if length data \<noteq> count then Inl CanonicalTruncated else Inr data)"

end
