(* ===== verification/Linearization.thy ===== *)
theory Linearization
  imports Qt_Variant
begin

text \<open>
  \<open>MultiInkLinearization\<close>: the per-ink tone curves. Curves come from an XML file, light
  inks without a curve of their own get one derived from the parent ink, and the tone
  builder reads the result as look-up tables of 256 entries. Doubles are the rationals of
  \<open>Ieee_Arith\<close>, every operation rounded. The XML reader and the Qt text operations are
  parameters.
\<close>

type_synonym lut8 = bytes \<comment> \<open>256 entries\<close>

section \<open>Text and XML\<close>

record qtext =
  trimmed :: "string \<Rightarrow> string"
  toLower :: "string \<Rightarrow> string"
  splitWhitespace :: "string \<Rightarrow> string list"
  parseDouble :: "string \<Rightarrow> rat option" \<comment> \<open>\<open>QString::toDouble\<close> with its \<open>ok\<close> flag\<close>

record curve_doc =
  transferCurves :: "(string \<times> string) list" \<comment> \<open>\<open>Separation\<close> and \<open>Curve\<close>, up to an error\<close>
  xmlError :: "string option"

type_synonym curve_reader = "string \<Rightarrow> curve_doc option" \<comment> \<open>\<open>None\<close>: the file does not open\<close>

section \<open>Look-up tables\<close>

definition clamp01 :: "rat \<Rightarrow> rat" where
  "clamp01 v = (if v < 0 then 0 else if v > 1 then 1 else v)"

definition smoothstep :: "rat \<Rightarrow> rat \<Rightarrow> rat \<Rightarrow> rat" where
  "smoothstep edge0 edge1 x =
     (if edge0 = edge1 then (if x \<ge> edge1 then 1 else 0)
      else let t = clamp01 (fl64 (fl64 (x - edge0) / fl64 (edge1 - edge0)))
           in fl64 (fl64 (t * t) * fl64 (3 - fl64 (2 * t))))"

definition to_tone :: "rat \<Rightarrow> u8" where
  \<comment> \<open>\<open>static_cast<uint8_t>(std::lround(v * 255.0))\<close>\<close>
  "to_tone v = cast8 (lround (fl64 (v * 255)))"

definition unit_of :: "int \<Rightarrow> rat" where
  \<comment> \<open>\<open>static_cast<double>(i) / 255.0\<close>\<close>
  "unit_of i = fl64 (of_int i / 255)"

definition makeLinearLut :: lut8 where
  "makeLinearLut = map of_nat [0..<256]"

datatype curve_error = CurvePairs | CurveNonNumeric | CurveDescending

fun parse_pairs :: "qtext \<Rightarrow> string list \<Rightarrow> rat list \<times> rat list \<Rightarrow> curve_error + (rat list \<times> rat list)" where
  "parse_pairs T (px # py # parts) (xs, ys) =
     (case (parseDouble T px, parseDouble T py) of
        (Some x, Some y) \<Rightarrow> parse_pairs T parts (xs @ [clamp01 x], ys @ [clamp01 y])
      | _ \<Rightarrow> Inl CurveNonNumeric)"
| "parse_pairs T _ (xs, ys) = Inr (xs, ys)"

definition parseCurvePairs :: "qtext \<Rightarrow> string \<Rightarrow> curve_error + (rat list \<times> rat list)" where
  "parseCurvePairs T curveText =
     (let parts = splitWhitespace T curveText in
      if length parts < 4 \<or> length parts mod 2 \<noteq> 0 then Inl CurvePairs
      else bind_res (parse_pairs T parts ([], [])) (\<lambda>(xs, ys).
        if \<exists>i \<in> set [1..<length xs]. xs ! i < xs ! (i - 1) then Inl CurveDescending
        else Inr (xs, ys)))"

definition lower_bound :: "rat list \<Rightarrow> rat \<Rightarrow> nat" where
  \<comment> \<open>\<open>std::lower_bound\<close> as an index\<close>
  "lower_bound xs x = length (takeWhile (\<lambda>v. v < x) xs)"

definition transfer_value :: "rat list \<Rightarrow> rat list \<Rightarrow> rat \<Rightarrow> rat" where
  "transfer_value xs ys x =
     (if x \<le> hd xs then hd ys
      else if x \<ge> last xs then last ys
      else let idx = lower_bound xs x;
               i0 = idx - 1; i1 = min (length xs - 1) idx;
               x0 = xs ! i0; x1 = xs ! i1; y0 = ys ! i0; y1 = ys ! i1
           in if \<bar>fl64 (x1 - x0)\<bar> < fl64 (1 / 1000000000) then y1
              else let t = fl64 (fl64 (x - x0) / fl64 (x1 - x0))
                   in fl64 (y0 + fl64 (fl64 (y1 - y0) * t)))"

definition buildLutFromTransferPairs :: "rat list \<Rightarrow> rat list \<Rightarrow> lut8" where
  "buildLutFromTransferPairs xs ys =
     (if xs = [] \<or> ys = [] \<or> length xs \<noteq> length ys then makeLinearLut
      else map (\<lambda>i. to_tone (clamp01 (transfer_value xs ys (unit_of (int i))))) [0..<256])"

definition deriveLightInkLut :: "lut8 \<Rightarrow> rat \<Rightarrow> rat \<Rightarrow> rat \<Rightarrow> lut8" where
  "deriveLightInkLut parent fadeStart fadeEnd strength =
     (let strength = clamp01 strength in
      map (\<lambda>i. let x = unit_of (int i);
                   parentNorm = unit_of (uint (parent ! i));
                   fadeOut = fl64 (1 - smoothstep fadeStart fadeEnd x);
                   v = clamp01 (fl64 (fl64 (parentNorm * fadeOut) * strength))
               in to_tone v) [0..<256])"

section \<open>Channels and state\<close>

datatype channel = Ch_C | Ch_M | Ch_Y | Ch_K | Ch_LC | Ch_LM | Ch_LK | Ch_LLK | Ch_W | Ch_V

record linearization =
  channelLuts :: "channel \<Rightarrow> lut8"
  channelValid :: "channel \<Rightarrow> bool"
  cLc :: "lut8 \<times> lut8" \<comment> \<open>dark, light\<close>
  mLm :: "lut8 \<times> lut8"
  ySingle :: lut8
  kLkLLk :: "lut8 \<times> lut8 \<times> lut8" \<comment> \<open>dark, light, lighter\<close>
  lutW :: lut8
  lutV :: lut8
  hasExternalCurves :: bool
  lastError :: string

definition normalizedSeparationName :: "qtext \<Rightarrow> string \<Rightarrow> string" where
  "normalizedSeparationName T s =
     filter (\<lambda>c. c \<noteq> CHR '' '' \<and> c \<noteq> CHR ''_'' \<and> c \<noteq> CHR ''-'') (toLower T (trimmed T s))"

definition mapSeparationName :: "qtext \<Rightarrow> string \<Rightarrow> channel option" where
  "mapSeparationName T name =
     (let s = normalizedSeparationName T name in
      if s = ''cyan'' \<or> s = ''c'' then Some Ch_C
      else if s = ''magenta'' \<or> s = ''m'' then Some Ch_M
      else if s = ''yellow'' \<or> s = ''y'' then Some Ch_Y
      else if s = ''black'' \<or> s = ''k'' then Some Ch_K
      else if s = ''lightcyan'' \<or> s = ''lc'' then Some Ch_LC
      else if s = ''lightmagenta'' \<or> s = ''lm'' then Some Ch_LM
      else if s = ''lightblack'' \<or> s = ''lk'' then Some Ch_LK
      else if s = ''lightlightblack'' \<or> s = ''llk'' then Some Ch_LLK
      else if s = ''white'' \<or> s = ''w'' then Some Ch_W
      else if s = ''varnish'' \<or> s = ''v'' then Some Ch_V
      else None)"

definition rebuildCombosFromChannels :: "linearization \<Rightarrow> linearization" where
  "rebuildCombosFromChannels L =
     (let l = channelLuts L in
      L\<lparr>cLc := (l Ch_C, l Ch_LC), mLm := (l Ch_M, l Ch_LM), ySingle := l Ch_Y,
        kLkLLk := (l Ch_K, l Ch_LK, l Ch_LLK), lutW := l Ch_W, lutV := l Ch_V\<rparr>)"

definition rebuildIdentityLuts :: "linearization \<Rightarrow> linearization" where
  "rebuildIdentityLuts L =
     rebuildCombosFromChannels
       (L\<lparr>channelLuts := (\<lambda>_. makeLinearLut), channelValid := (\<lambda>_. False),
          hasExternalCurves := False, lastError := []\<rparr>)"

definition derive_missing :: "channel \<Rightarrow> channel \<Rightarrow> rat \<Rightarrow> rat \<Rightarrow> rat \<Rightarrow> linearization \<Rightarrow> linearization" where
  "derive_missing light parent fadeStart fadeEnd strength L =
     (if \<not> channelValid L light \<and> channelValid L parent
      then L\<lparr>channelLuts := (channelLuts L)
               (light := deriveLightInkLut (channelLuts L parent) fadeStart fadeEnd strength)\<rparr>
      else L)"

definition deriveMissingLightChannels :: "linearization \<Rightarrow> linearization" where
  "deriveMissingLightChannels L =
     (let L = derive_missing Ch_LC Ch_C (fl64 (45/100)) (fl64 (80/100)) 1 L;
          L = derive_missing Ch_LM Ch_M (fl64 (45/100)) (fl64 (80/100)) 1 L;
          L = derive_missing Ch_LK Ch_K (fl64 (55/100)) (fl64 (88/100)) (fl64 (95/100)) L
      in derive_missing Ch_LLK Ch_K (fl64 (30/100)) (fl64 (65/100)) (fl64 (85/100)) L)"

section \<open>Loading\<close>

fun load_curves :: "qtext \<Rightarrow> (string \<times> string) list \<Rightarrow> linearization \<times> bool \<Rightarrow>
    (curve_error \<times> string \<times> linearization) + (linearization \<times> bool)" where
  "load_curves T [] (L, found) = Inr (L, found)"
| "load_curves T ((sepText, curve) # rest) (L, found) =
     (let separation = trimmed T sepText; curveText = trimmed T curve in
      if separation = [] \<or> curveText = [] then load_curves T rest (L, found)
      else case mapSeparationName T separation of
        None \<Rightarrow> load_curves T rest (L, found)
      | Some ch \<Rightarrow>
          (case parseCurvePairs T curveText of
             Inl e \<Rightarrow> Inl (e, separation, L)
           | Inr (xs, ys) \<Rightarrow>
               load_curves T rest
                 (L\<lparr>channelLuts := (channelLuts L)(ch := buildLutFromTransferPairs xs ys),
                    channelValid := (channelValid L)(ch := True)\<rparr>, True)))"

definition loadTransferCurveXml ::
  "qtext \<Rightarrow> curve_reader \<Rightarrow> string \<Rightarrow> linearization \<Rightarrow> bool \<times> linearization" where
  "loadTransferCurveXml T read path L =
     (let L = rebuildIdentityLuts L; L = L\<lparr>lastError := []\<rparr> in
      case read path of
        None \<Rightarrow> (False, L\<lparr>lastError := ''Could not open linearization XML: '' @ path\<rparr>)
      | Some doc \<Rightarrow>
        (case load_curves T (transferCurves doc) (L, False) of
           Inl (e, separation, L) \<Rightarrow>
             (False, rebuildIdentityLuts (L\<lparr>lastError := ''Invalid curve for '' @ separation\<rparr>))
         | Inr (L, found) \<Rightarrow>
           (case xmlError doc of
              Some msg \<Rightarrow> (False, rebuildIdentityLuts (L\<lparr>lastError := ''XML parse error: '' @ msg\<rparr>))
            | None \<Rightarrow>
              if \<not> found
              then (False, rebuildIdentityLuts
                     (L\<lparr>lastError := ''No supported TransferCurve entries were found in the XML.''\<rparr>))
              else (True, (rebuildCombosFromChannels (deriveMissingLightChannels L))
                            \<lparr>hasExternalCurves := True\<rparr>))))"

section \<open>Applying the curves\<close>

definition applyFourColorTones :: "linearization \<Rightarrow> bytes list \<Rightarrow> bytes list option" where
  \<comment> \<open>four planes; \<open>None\<close> leaves them as they are\<close>
  "applyFourColorTones L tones =
     (if \<not> hasExternalCurves L then None
      else if \<exists>tone \<in> set tones. length tone \<noteq> length (tones ! 0) then None
      else Some [map (\<lambda>v. fst (cLc L) ! unat v) (tones ! 0), map (\<lambda>v. fst (mLm L) ! unat v) (tones ! 1),
                 map (\<lambda>v. ySingle L ! unat v) (tones ! 2), map (\<lambda>v. fst (kLkLLk L) ! unat v) (tones ! 3)])"

definition applyWhiteTone :: "linearization \<Rightarrow> bytes \<Rightarrow> bytes option" where
  "applyWhiteTone L tone =
     (if \<not> hasExternalCurves L then None else Some (map (\<lambda>v. lutW L ! unat v) tone))"

section \<open>Properties\<close>

lemma clamp01_range [tone_bounds]: "0 \<le> clamp01 v" "clamp01 v \<le> 1"
  by (auto simp: clamp01_def)

lemma clamp01_id: "0 \<le> v \<Longrightarrow> v \<le> 1 \<Longrightarrow> clamp01 v = v"
  by (simp add: clamp01_def)

lemma unit_of_range: "0 \<le> i \<Longrightarrow> i \<le> 255 \<Longrightarrow> 0 \<le> unit_of i \<and> unit_of i \<le> 1"
  unfolding unit_of_def by (intro fl64_unit) simp_all

lemma smoothstep_nonneg: "0 \<le> smoothstep a b x"
proof -
  define t where "t = clamp01 (fl64 (fl64 (x - a) / fl64 (b - a)))"
  have t: "0 \<le> t" "t \<le> 1" unfolding t_def by (rule clamp01_range)+
  have "fl64 (2 * t) \<le> fl64 2" using t by (intro fl64_mono) simp
  moreover have "fl64 2 = 2" using fl64_of_int [of 2] by simp
  ultimately have "0 \<le> fl64 (3 - fl64 (2 * t))" using fl64_mono [of 0 "3 - fl64 (2 * t)"] by simp
  moreover have "0 \<le> fl64 (t * t)" using fl64_mono [of 0 "t * t"] t by simp
  ultimately have "0 \<le> fl64 (fl64 (t * t) * fl64 (3 - fl64 (2 * t)))"
    using fl64_mono [of 0] by (metis fl64_simps(1) mult_nonneg_nonneg)
  then show ?thesis by (simp add: smoothstep_def t_def Let_def)
qed

lemma to_tone_mono: "0 \<le> u \<Longrightarrow> u \<le> v \<Longrightarrow> v \<le> 1 \<Longrightarrow> to_tone u \<le> to_tone v"
proof -
  assume u: "0 \<le> u" "u \<le> v" "v \<le> 1"
  have "lround (fl64 (u * 255)) \<le> lround (fl64 (v * 255))"
    using u by (intro lround_mono fl64_mono) simp
  moreover have "0 \<le> lround (fl64 (w * 255)) \<and> lround (fl64 (w * 255)) \<le> 255" if "0 \<le> w" "w \<le> 1" for w
    using that fl64_tone [of "w * 255"] by (intro lround_tone) auto
  ultimately show ?thesis using u by (simp add: to_tone_def word_le_def uint_cast8)
qed

lemma to_tone_unit_of:
  assumes "0 \<le> i" and "i \<le> 255"
  shows "to_tone (unit_of i) = cast8 i"
  using fl64_level_round [OF assms] by (simp add: to_tone_def unit_of_def)

text \<open>A derived light ink never prints more than its parent, and nothing beyond the fade.\<close>

lemma derived_light_bounds:
  assumes "i < 256"
  shows "deriveLightInkLut parent a b strength ! i \<le> parent ! i"
    and "a < b \<Longrightarrow> b \<le> unit_of (int i) \<Longrightarrow> fl64 (b - a) > 0 \<Longrightarrow> deriveLightInkLut parent a b strength ! i = 0"
proof -
  define x where "x = unit_of (int i)"
  define pn where "pn = unit_of (uint (parent ! i))"
  define f where "f = fl64 (1 - smoothstep a b x)"
  define s where "s = clamp01 strength"
  define v where "v = clamp01 (fl64 (fl64 (pn * f) * s))"
  have e: "deriveLightInkLut parent a b strength ! i = to_tone v"
    using assms by (simp add: deriveLightInkLut_def Let_def v_def s_def f_def pn_def x_def)
  have pn: "0 \<le> pn" "pn \<le> 1" using unit_of_range [of "uint (parent ! i)"] uint8_le [of "parent ! i"]
    by (simp_all add: pn_def)
  have f1: "f \<le> 1" using fl64_mono [of "1 - smoothstep a b x" 1] smoothstep_nonneg [of a b x] by (simp add: f_def)
  have s: "0 \<le> s" "s \<le> 1" unfolding s_def by (rule clamp01_range)+
  have fix_pn: "fl64 (pn * f) \<le> fl64 pn"
    using pn f1 mult_left_mono [of f 1 pn] by (intro fl64_mono) simp
  show "deriveLightInkLut parent a b strength ! i \<le> parent ! i"
  proof (cases "0 \<le> f")
    case True
    have "0 \<le> fl64 (pn * f)" using fl64_mono [of 0 "pn * f"] pn True by simp
    then have "fl64 (pn * f) * s \<le> fl64 (pn * f)" using s mult_left_mono [of s 1 "fl64 (pn * f)"] by simp
    also have "\<dots> \<le> fl64 pn" by (rule fix_pn)
    finally have "fl64 (fl64 (pn * f) * s) \<le> fl64 (fl64 pn)" by (rule fl64_mono)
    moreover have "fl64 pn = pn"
      unfolding pn_def unit_of_def by (rule fl64_idem) (simp only: zero_le_divide_iff of_int_0_le_iff uint8_ge0, simp)
    then have "fl64 (fl64 pn) = pn" by simp
    ultimately have "v \<le> pn" using pn by (simp add: v_def clamp01_def)
    then have "to_tone v \<le> to_tone pn"
      using clamp01_range(1) pn(2) unfolding v_def by (intro to_tone_mono) auto
    also have "to_tone pn = cast8 (uint (parent ! i))"
      unfolding pn_def using uint8_le [of "parent ! i"] by (intro to_tone_unit_of) auto
    finally show ?thesis by (simp add: e)
  next
    case False
    then have "fl64 (pn * f) \<le> 0" using fl64_mono [of "pn * f" 0] pn by (simp add: mult_nonneg_nonpos)
    then have "fl64 (fl64 (pn * f) * s) \<le> 0" using fl64_mono [of "fl64 (pn * f) * s" 0] s
      by (simp add: mult_nonpos_nonneg)
    then have "v = 0" by (simp add: v_def clamp01_def)
    then show ?thesis using lround_of_int [of 0] by (simp add: e to_tone_def)
  qed
  assume ab: "a < b" "b \<le> unit_of (int i)" "fl64 (b - a) > 0"
  have "fl64 (b - a) \<le> fl64 (x - a)" using ab(2) by (intro fl64_mono) (simp add: x_def)
  then have "1 \<le> fl64 (x - a) / fl64 (b - a)" using ab(3) by simp
  then have "1 \<le> fl64 (fl64 (x - a) / fl64 (b - a))" using fl64_mono [of 1] by fastforce
  then have c: "clamp01 (fl64 (fl64 (x - a) / fl64 (b - a))) = 1" by (simp add: clamp01_def)
  have "fl64 2 = 2" using fl64_of_int [of 2] by simp
  then have "smoothstep a b x = 1" using ab(1) c by (simp add: smoothstep_def)
  then have "v = 0" by (simp add: v_def f_def clamp01_def)
  then show "deriveLightInkLut parent a b strength ! i = 0" using lround_of_int [of 0] by (simp add: e to_tone_def)
qed

definition identity_luts :: "linearization \<Rightarrow> bool" where
  "identity_luts L \<longleftrightarrow>
     (\<forall>ch. channelLuts L ch = makeLinearLut) \<and> cLc L = (makeLinearLut, makeLinearLut) \<and>
     mLm L = (makeLinearLut, makeLinearLut) \<and> ySingle L = makeLinearLut \<and>
     kLkLLk L = (makeLinearLut, makeLinearLut, makeLinearLut) \<and>
     lutW L = makeLinearLut \<and> lutV L = makeLinearLut \<and> \<not> hasExternalCurves L"

lemma identity_rebuild: "identity_luts (rebuildIdentityLuts L)"
  by (simp add: identity_luts_def rebuildIdentityLuts_def rebuildCombosFromChannels_def Let_def)

lemma load_failure:
  assumes "loadTransferCurveXml T read path L = (False, L')"
  shows "identity_luts L'" and "read path = Some doc \<Longrightarrow> lastError L' = []"
proof -
  have e: "lastError (rebuildIdentityLuts M) = []" for M
    by (simp add: rebuildIdentityLuts_def rebuildCombosFromChannels_def Let_def)
  have i: "identity_luts (M\<lparr>lastError := t\<rparr>) = identity_luts M" for M t
    by (simp add: identity_luts_def)
  from assms show "identity_luts L'" and "read path = Some doc \<Longrightarrow> lastError L' = []"
    by (auto simp: loadTransferCurveXml_def Let_def identity_rebuild i e split: option.splits sum.splits if_splits prod.splits)
qed

definition luts_ok :: "linearization \<Rightarrow> bool" where
  "luts_ok L \<longleftrightarrow> (\<forall>ch. length (channelLuts L ch) = 256)"

lemma length_luts [simp]:
  "length makeLinearLut = 256" "length (buildLutFromTransferPairs xs ys) = 256"
  "length (deriveLightInkLut p a b s) = 256"
  by (simp_all add: makeLinearLut_def buildLutFromTransferPairs_def deriveLightInkLut_def Let_def)

lemma load_curves_ok:
  "load_curves T cs (L, found) = Inr (L', found') \<Longrightarrow> luts_ok L \<Longrightarrow> luts_ok L'"
proof (induction T cs "(L, found)" arbitrary: L found rule: load_curves.induct)
  case (2 T sepText curve rest L found)
  from 2(4) show ?case
    using 2(1-3) 2(5)
    by (auto simp: Let_def luts_ok_def split: if_splits option.splits sum.splits)
qed simp

lemma derive_missing_ok: "luts_ok L \<Longrightarrow> luts_ok (derive_missing a b c d e L)"
  by (simp add: derive_missing_def luts_ok_def)

lemma derive_missing_valid: "channelValid (derive_missing a b c d e L) = channelValid L"
  by (simp add: derive_missing_def)

lemma derive_missing_keeps: "channelValid L ch \<Longrightarrow> channelLuts (derive_missing a b c d e L) ch = channelLuts L ch"
  by (auto simp: derive_missing_def)

lemma explicit_curves_win:
  "channelValid L ch \<Longrightarrow> channelLuts (deriveMissingLightChannels L) ch = channelLuts L ch"
  by (simp add: deriveMissingLightChannels_def Let_def derive_missing_keeps derive_missing_valid)

end
