(* ===== verification/Tone_Builder.thy ===== *)
theory Tone_Builder
  imports Linearization
begin

text \<open>
  \<open>MultiInkToneBuilder\<close> and \<open>X33WhiteToneBuilder\<close>: from the four canonical CMYK planes to
  one tone plane per logical ink. Gray component replacement, the dark/light ink split or the
  combined curves, and the white and varnish planes. Floats are single precision, rounded
  after every operation. The loader of an external plate is a parameter.
\<close>

datatype ink_mode =
    FourColor_YMCK
  | FiveColor_YMCK_W
  | SixColor_YMCK_Lm_Lc
  | SevenColor_YMCK_Lm_Lc_W
  | EightColor_YMCK_Lm_Lc_Lk_LLk
  | TenColor_YMCK_Lm_Lc_Lk_LLk_W_V

section \<open>Parameters of a mode\<close>

record gcr_params =
  neutralGate :: u8
  gcrMaxTone :: u8
  gcrStrength :: u8
  kGain :: u8
  kMinInNeutral :: u8
  lcFadePct :: u8
  lmFadePct :: u8
  gcr_enabled :: bool

definition param_byte :: "'v qvariant \<Rightarrow> 'v vmap \<Rightarrow> string \<Rightarrow> int \<Rightarrow> int \<Rightarrow> u8" where
  \<comment> \<open>\<open>static_cast<uint8_t>(std::clamp(vmInt(m, key, def), 0, hi))\<close>\<close>
  "param_byte Q m key def hi = cast8 (clamp (vmInt Q m key def) 0 hi)"

definition getGcrParams :: "'v qvariant \<Rightarrow> 'v vmap \<Rightarrow> gcr_params" where
  "getGcrParams Q m =
     \<lparr>neutralGate = param_byte Q m ''neutralGate'' 14 255,
      gcrMaxTone = param_byte Q m ''gcrMaxTone'' 180 255,
      gcrStrength = param_byte Q m ''gcrStrength'' 160 255,
      kGain = param_byte Q m ''kGain'' 220 255,
      kMinInNeutral = param_byte Q m ''kMinInNeutral'' 6 255,
      lcFadePct = param_byte Q m ''lcFadePctInNeutral'' 70 100,
      lmFadePct = param_byte Q m ''lmFadePctInNeutral'' 50 100,
      gcr_enabled = vmBool Q m ''gcrEnabled'' False\<rparr>"

record specialty =
  sp_mode :: int
  sp_threshold :: u8
  sp_density :: u8
  sp_ownDots :: bool
  sp_small :: int
  sp_med :: int
  sp_promotion :: bool
  sp_maskKey :: string

definition specialty_config :: "'v qvariant \<Rightarrow> qtext \<Rightarrow> string \<Rightarrow> string \<Rightarrow> 'v vmap \<Rightarrow> specialty" where
  \<comment> \<open>the two functions read the same keys under the prefixes \<open>white\<close> and \<open>varnish\<close>\<close>
  "specialty_config Q T prefix defaultKey m =
     (let key = trimmed T (toStr Q (mapValue m (prefix @ ''MaskKey'') (ofStr Q defaultKey))) in
      \<lparr>sp_mode = clamp (vmInt Q m (prefix @ ''Mode'') 0) 0 3,
       sp_threshold = param_byte Q m (prefix @ ''Threshold'') 8 255,
       sp_density = param_byte Q m (prefix @ ''Density'') 255 255,
       sp_ownDots = vmBool Q m (prefix @ ''UseOwnDotStrategy'') False,
       sp_small = clamp (vmInt Q m (prefix @ ''SmallDotThreshold'') 104) 0 255,
       sp_med = clamp (vmInt Q m (prefix @ ''MedDotThreshold'') 168) 0 255,
       sp_promotion = vmBool Q m (prefix @ ''EnablePromotion'') False,
       sp_maskKey = (if key = [] then defaultKey else key)\<rparr>)"

definition getWhiteConfig :: "'v qvariant \<Rightarrow> qtext \<Rightarrow> 'v vmap \<Rightarrow> specialty" where
  "getWhiteConfig Q T m = specialty_config Q T ''white'' ''w'' m"

definition getVarnishConfig :: "'v qvariant \<Rightarrow> qtext \<Rightarrow> 'v vmap \<Rightarrow> specialty" where
  "getVarnishConfig Q T m = specialty_config Q T ''varnish'' ''v'' m"

section \<open>Pixel arithmetic\<close>

definition u16_of :: "int \<Rightarrow> int" where
  \<comment> \<open>storing an \<open>int\<close> in a \<open>uint16_t\<close>\<close>
  "u16_of v = uint (cast16 v)"

definition applySpecialtyThresholdDensity :: "u8 \<Rightarrow> u8 \<Rightarrow> u8 \<Rightarrow> u8" where
  "applySpecialtyThresholdDensity src threshold density =
     (if density = 0 then 0
      else if src \<le> threshold then 0
      else if threshold \<ge> 255 then 0
      else let norm = u16_of (u16_of (uint src - uint threshold) * 255 div (255 - uint threshold));
               out = u16_of (norm * uint density div 255)
           in cast8 (clamp out 0 255))"

definition clamp01f :: "rat \<Rightarrow> rat" where
  "clamp01f v = (if v < 0 then 0 else if v > 1 then 1 else v)"

definition smoothstepf :: "rat \<Rightarrow> rat \<Rightarrow> rat \<Rightarrow> rat" where
  "smoothstepf edge0 edge1 x =
     (if edge0 = edge1 then (if x \<ge> edge1 then 1 else 0)
      else let t = clamp01f (fl32 (fl32 (x - edge0) / fl32 (edge1 - edge0)))
           in fl32 (fl32 (t * t) * fl32 (3 - fl32 (2 * t))))"

definition floatOf :: "u8 \<Rightarrow> rat" where "floatOf v = fl32 (of_int (uint v))"

definition split2Crossfade :: "u8 \<Rightarrow> u8 \<times> u8 \<Rightarrow> u8 \<times> u8" where
  \<comment> \<open>(dark, light) from \<open>v\<close> and (lightStart, lightEnd)\<close>
  "split2Crossfade v p =
     (if v = 0 then (0, 0)
      else let s = smoothstepf (floatOf (fst p)) (floatOf (snd p)) (floatOf v);
               dark = lround (fl32 (floatOf v * s));
               light = uint v - dark
           in (cast8 (clamp dark 0 255), cast8 (clamp light 0 255)))"

definition split3Crossfade :: "u8 \<Rightarrow> u8 \<times> u8 \<times> u8 \<times> u8 \<Rightarrow> u8 \<times> u8 \<times> u8" where
  \<comment> \<open>(llk, lk, k) from \<open>v\<close> and (t1Start, t1End, t2Start, t2End)\<close>
  "split3Crossfade v p =
     (if v = 0 then (0, 0, 0)
      else case p of (t1Start, t1End, t2Start, t2End) \<Rightarrow>
        let s1 = smoothstepf (floatOf t1Start) (floatOf t1End) (floatOf v);
            s2 = smoothstepf (floatOf t2Start) (floatOf t2End) (floatOf v);
            wLLk = fl32 (1 - s1);
            llk = lround (fl32 (floatOf v * wLLk));
            k = lround (fl32 (floatOf v * s2));
            lk = uint v - llk - k
        in (cast8 (clamp llk 0 255), cast8 (clamp lk 0 255), cast8 (clamp k 0 255)))"

type_synonym cmyk = "u8 \<times> u8 \<times> u8 \<times> u8"

definition gcr_pixel :: "gcr_params \<Rightarrow> cmyk \<Rightarrow> cmyk" where
  "gcr_pixel p px =
     (case px of (c, m, y, k) \<Rightarrow>
       let maxCMY = max (max c m) y; minCMY = min (min c m) y; chroma = maxCMY - minCMY in
       if chroma > neutralGate p then px
       else if maxCMY > gcrMaxTone p then px
       else let
         pull = u16_of (uint minCMY * uint (gcrStrength p) div 255);
         pull8 = cast8 (min pull (uint minCMY));
         kAdd = u16_of (uint pull8 * uint (kGain p) div 255);
         kNew = min 255 (u16_of (uint k + kAdd));
         kNew = (if kNew < uint (kMinInNeutral p) \<and> minCMY > 0 then uint (kMinInNeutral p) else kNew)
       in (c - pull8, m - pull8, y - pull8, cast8 kNew))"

definition fadePct :: "u8 \<Rightarrow> u8 \<Rightarrow> u8" where
  "fadePct v pct = cast8 (min 255 (u16_of (uint v * u16_of (100 - uint pct)) div 100))"

definition fade_pixel :: "gcr_params \<Rightarrow> u8 \<Rightarrow> u8 \<Rightarrow> u8 \<Rightarrow> u8 \<times> u8 \<Rightarrow> u8 \<times> u8" where
  \<comment> \<open>(light cyan, light magenta) of a pixel whose adjusted CMY are given\<close>
  "fade_pixel p c0 m0 y0 l =
     (let maxCMY = max (max c0 m0) y0; minCMY = min (min c0 m0) y0; chroma = maxCMY - minCMY in
      if chroma > neutralGate p then l
      else if maxCMY > gcrMaxTone p then l
      else (fadePct (fst l) (lcFadePct p), fadePct (snd l) (lmFadePct p)))"

section \<open>Planes\<close>

type_synonym planes4 = "bytes \<times> bytes \<times> bytes \<times> bytes"

definition applyGcrNeutralTransfer :: "gcr_params \<Rightarrow> nat \<Rightarrow> planes4 \<Rightarrow> planes4" where
  "applyGcrNeutralTransfer p count pl =
     (if \<not> gcr_enabled p then pl
      else case pl of (c, m, y, k) \<Rightarrow>
        let px = map (\<lambda>i. gcr_pixel p (c ! i, m ! i, y ! i, k ! i)) [0..<count]
        in (map fst px, map (fst \<circ> snd) px, map (fst \<circ> snd \<circ> snd) px, map (snd \<circ> snd \<circ> snd) px))"

definition applyNeutralLightInkFade ::
  "gcr_params \<Rightarrow> nat \<Rightarrow> bytes \<Rightarrow> bytes \<Rightarrow> bytes \<Rightarrow> bytes \<times> bytes \<Rightarrow> bytes \<times> bytes" where
  "applyNeutralLightInkFade p count cAdj mAdj yAdj light =
     (if \<not> gcr_enabled p then light
      else let px = map (\<lambda>i. fade_pixel p (cAdj ! i) (mAdj ! i) (yAdj ! i) (fst light ! i, snd light ! i)) [0..<count]
           in (map fst px, map snd px))"

definition lut_plane :: "lut8 \<Rightarrow> nat \<Rightarrow> bytes \<Rightarrow> bytes" where
  "lut_plane l count v = map (\<lambda>i. l ! unat (v ! i)) [0..<count]"

record 'v build_request =
  br_images :: "planes4 option" \<comment> \<open>the \<open>"I"\<close> exports of the four images\<close>
  br_width :: nat
  br_height :: nat
  br_mode :: ink_mode
  br_params :: "'v vmap"
  br_whitePlate :: string
  br_varnishPlate :: string
  br_linearization :: "linearization option"
  br_enableLinearization :: bool

type_synonym plate_loader = "string \<Rightarrow> nat \<Rightarrow> nat \<Rightarrow> bytes option" \<comment> \<open>path, width, height\<close>

definition combo_luts :: "'v build_request \<Rightarrow> linearization option" where
  \<comment> \<open>\<open>useComboLinearization(req)\<close>\<close>
  "combo_luts req =
     (if br_enableLinearization req
      then case br_linearization req of
             None \<Rightarrow> None | Some L \<Rightarrow> if hasExternalCurves L then Some L else None
      else None)"

definition specialty_channel ::
  "plate_loader \<Rightarrow> specialty \<Rightarrow> string \<Rightarrow> nat \<Rightarrow> nat \<Rightarrow> planes4 \<Rightarrow> bytes" where
  \<comment> \<open>\<open>buildWhiteChannel\<close> and \<open>buildVarnishChannel\<close>\<close>
  "specialty_channel plateLoader cfg platePath width height post =
     (let count = width * height;
          apply_config = (\<lambda>candidate. map (\<lambda>i.
            applySpecialtyThresholdDensity (candidate ! i) (sp_threshold cfg) (sp_density cfg)) [0..<count])
      in case post of (c, m, y, k) \<Rightarrow>
      if sp_mode cfg = 0 then replicate count 0
      else if sp_mode cfg = 1
      then apply_config (map (\<lambda>i. max (max (c ! i) (m ! i)) (max (y ! i) (k ! i))) [0..<count])
      else if sp_mode cfg = 2 then replicate count (sp_density cfg)
      else if sp_mode cfg = 3
      then (case plateLoader platePath width height of
              Some plate \<Rightarrow> apply_config plate | None \<Rightarrow> replicate count 0)
      else replicate count 0)"

definition split2_params :: "'v qvariant \<Rightarrow> 'v vmap \<Rightarrow> string \<Rightarrow> int \<Rightarrow> int \<Rightarrow> u8 \<times> u8" where
  "split2_params Q m ink startDef endDef =
     (param_byte Q m (ink @ ''LightStart'') startDef 255, param_byte Q m (ink @ ''LightEnd'') endDef 255)"

definition split3_params :: "'v qvariant \<Rightarrow> 'v vmap \<Rightarrow> int \<Rightarrow> int \<Rightarrow> int \<Rightarrow> int \<Rightarrow> u8 \<times> u8 \<times> u8 \<times> u8" where
  "split3_params Q m a b c d =
     (param_byte Q m ''kT1Start'' a 255, param_byte Q m ''kT1End'' b 255,
      param_byte Q m ''kT2Start'' c 255, param_byte Q m ''kT2End'' d 255)"

definition split2_plane :: "u8 \<times> u8 \<Rightarrow> nat \<Rightarrow> bytes \<Rightarrow> bytes \<times> bytes" where
  "split2_plane p count v =
     (let px = map (\<lambda>i. split2Crossfade (v ! i) p) [0..<count] in (map fst px, map snd px))"

definition split3_plane :: "u8 \<times> u8 \<times> u8 \<times> u8 \<Rightarrow> nat \<Rightarrow> bytes \<Rightarrow> bytes \<times> bytes \<times> bytes" where
  "split3_plane p count v =
     (let px = map (\<lambda>i. split3Crossfade (v ! i) p) [0..<count]
      in (map fst px, map (fst \<circ> snd) px, map (snd \<circ> snd) px))"

section \<open>The ink modes\<close>

definition adjusted :: "'v qvariant \<Rightarrow> 'v build_request \<Rightarrow> planes4 \<Rightarrow> planes4" where
  "adjusted Q req pl =
     applyGcrNeutralTransfer (getGcrParams Q (br_params req)) (br_width req * br_height req) pl"

definition build_four :: "'v qvariant \<Rightarrow> 'v build_request \<Rightarrow> planes4 \<Rightarrow> bytes list" where
  "build_four Q req pl =
     (let count = br_width req * br_height req in
      case adjusted Q req pl of (c, m, y, k) \<Rightarrow>
      case combo_luts req of
        Some L \<Rightarrow> [lut_plane (fst (cLc L)) count c, lut_plane (fst (mLm L)) count m,
                   lut_plane (ySingle L) count y, lut_plane (fst (kLkLLk L)) count k]
      | None \<Rightarrow> [c, m, y, k])"

definition build_five ::
  "'v qvariant \<Rightarrow> qtext \<Rightarrow> plate_loader \<Rightarrow> 'v build_request \<Rightarrow> planes4 \<Rightarrow> bytes list" where
  "build_five Q T plateLoader req pl =
     (let count = br_width req * br_height req;
          white = (\<lambda>post. specialty_channel plateLoader (getWhiteConfig Q T (br_params req))
                     (br_whitePlate req) (br_width req) (br_height req) post) in
      case adjusted Q req pl of (c, m, y, k) \<Rightarrow>
      case combo_luts req of
        Some L \<Rightarrow>
          let c = lut_plane (fst (cLc L)) count c; m = lut_plane (fst (mLm L)) count m;
              y = lut_plane (ySingle L) count y; k = lut_plane (fst (kLkLLk L)) count k
          in [c, m, y, k, lut_plane (lutW L) count (white (c, m, y, k))]
      | None \<Rightarrow> [c, m, y, k, white (c, m, y, k)])"

definition dark_light ::
  "'v qvariant \<Rightarrow> 'v build_request \<Rightarrow> (u8 \<times> u8) \<Rightarrow> (u8 \<times> u8) \<Rightarrow> planes4 \<Rightarrow>
   (bytes \<times> bytes) \<times> (bytes \<times> bytes) \<times> bytes \<times> bytes" where
  \<comment> \<open>((cDark, cLight), (mDark, mLight), yAdj, kAdj) of the six- and seven-color modes\<close>
  "dark_light Q req cSplit mSplit pl =
     (let count = br_width req * br_height req in
      case pl of (c, m, y, k) \<Rightarrow>
      case combo_luts req of
        Some L \<Rightarrow> ((lut_plane (fst (cLc L)) count c, lut_plane (snd (cLc L)) count c),
                   (lut_plane (fst (mLm L)) count m, lut_plane (snd (mLm L)) count m),
                   lut_plane (ySingle L) count y, lut_plane (fst (kLkLLk L)) count k)
      | None \<Rightarrow> (split2_plane cSplit count c, split2_plane mSplit count m, y, k))"

definition build_six :: "'v qvariant \<Rightarrow> 'v build_request \<Rightarrow> planes4 \<Rightarrow> bytes list" where
  "build_six Q req pl =
     (case dark_light Q req (split2_params Q (br_params req) ''c'' 24 96)
             (split2_params Q (br_params req) ''m'' 16 80) (adjusted Q req pl) of
        ((cDark, cLight), (mDark, mLight), y, k) \<Rightarrow> [cDark, mDark, y, k, mLight, cLight])"

definition build_seven ::
  "'v qvariant \<Rightarrow> qtext \<Rightarrow> plate_loader \<Rightarrow> 'v build_request \<Rightarrow> planes4 \<Rightarrow> bytes list" where
  \<comment> \<open>the white plane sees the adjusted C and M, and Y and K after their curves\<close>
  "build_seven Q T plateLoader req pl =
     (let count = br_width req * br_height req in
      case adjusted Q req pl of (cAdj, mAdj, yAdj, kAdj) \<Rightarrow>
      case dark_light Q req (split2_params Q (br_params req) ''c'' 48 160)
             (split2_params Q (br_params req) ''m'' 48 160) (cAdj, mAdj, yAdj, kAdj) of
        ((cDark, cLight), (mDark, mLight), y, k) \<Rightarrow>
          let white = specialty_channel plateLoader (getWhiteConfig Q T (br_params req))
                        (br_whitePlate req) (br_width req) (br_height req) (cAdj, mAdj, y, k);
              white = (case combo_luts req of Some L \<Rightarrow> lut_plane (lutW L) count white | None \<Rightarrow> white)
          in [cDark, mDark, y, k, mLight, cLight, white])"

definition full_split ::
  "'v qvariant \<Rightarrow> 'v build_request \<Rightarrow> (u8 \<times> u8) \<Rightarrow> (u8 \<times> u8) \<Rightarrow> (u8 \<times> u8 \<times> u8 \<times> u8) \<Rightarrow> planes4 \<Rightarrow>
   bytes \<times> bytes \<times> (bytes \<times> bytes) \<times> bytes \<times> bytes \<times> bytes \<times> bytes" where
  \<comment> \<open>(cDark, mDark, (cLight, mLight) faded, yAdj, kDark, lk, llk) of the eight- and ten-color modes\<close>
  "full_split Q req cSplit mSplit kSplit pl =
     (let count = br_width req * br_height req; gcr = getGcrParams Q (br_params req) in
      case pl of (c, m, y, k) \<Rightarrow>
      case combo_luts req of
        Some L \<Rightarrow>
          let cLight = lut_plane (snd (cLc L)) count c; mLight = lut_plane (snd (mLm L)) count m;
              y' = lut_plane (ySingle L) count y
          in (lut_plane (fst (cLc L)) count c, lut_plane (fst (mLm L)) count m,
              applyNeutralLightInkFade gcr count c m y' (cLight, mLight), y',
              lut_plane (fst (kLkLLk L)) count k, lut_plane (fst (snd (kLkLLk L))) count k,
              lut_plane (snd (snd (kLkLLk L))) count k)
      | None \<Rightarrow>
          (case (split2_plane cSplit count c, split2_plane mSplit count m, split3_plane kSplit count k) of
             ((cDark, cLight), (mDark, mLight), (llk, lk, kDark)) \<Rightarrow>
               (cDark, mDark, applyNeutralLightInkFade gcr count c m y (cLight, mLight), y, kDark, lk, llk)))"

definition build_eight :: "'v qvariant \<Rightarrow> 'v build_request \<Rightarrow> planes4 \<Rightarrow> bytes list" where
  "build_eight Q req pl =
     (case full_split Q req (split2_params Q (br_params req) ''c'' 24 96)
             (split2_params Q (br_params req) ''m'' 16 80)
             (split3_params Q (br_params req) 24 112 120 228) (adjusted Q req pl) of
        (cDark, mDark, (cLight, mLight), y, kDark, lk, llk) \<Rightarrow>
          [cDark, mDark, y, kDark, cLight, mLight, lk, llk])"

definition build_ten ::
  "'v qvariant \<Rightarrow> qtext \<Rightarrow> plate_loader \<Rightarrow> 'v build_request \<Rightarrow> planes4 \<Rightarrow> bytes list" where
  "build_ten Q T plateLoader req pl =
     (let count = br_width req * br_height req in
      case adjusted Q req pl of (cAdj, mAdj, yAdj, kAdj) \<Rightarrow>
      case full_split Q req (split2_params Q (br_params req) ''c'' 48 160)
             (split2_params Q (br_params req) ''m'' 48 160)
             (split3_params Q (br_params req) 32 128 128 224) (cAdj, mAdj, yAdj, kAdj) of
        (cDark, mDark, (cLight, mLight), y, kDark, lk, llk) \<Rightarrow>
          let white = specialty_channel plateLoader (getWhiteConfig Q T (br_params req))
                        (br_whitePlate req) (br_width req) (br_height req) (cAdj, mAdj, y, kAdj);
              varnish = specialty_channel plateLoader (getVarnishConfig Q T (br_params req))
                        (br_varnishPlate req) (br_width req) (br_height req) (cAdj, mAdj, y, kAdj)
          in [cDark, mDark, y, kDark, cLight, mLight, lk, llk] @
             (case combo_luts req of
                Some L \<Rightarrow> [lut_plane (lutW L) count white, lut_plane (lutV L) count varnish]
              | None \<Rightarrow> [white, varnish]))"

definition buildToneChannels ::
  "'v qvariant \<Rightarrow> qtext \<Rightarrow> plate_loader \<Rightarrow> 'v build_request \<Rightarrow> bytes list option" where
  "buildToneChannels Q T plateLoader req =
     (case br_images req of
        None \<Rightarrow> None
      | Some pl \<Rightarrow> Some (case br_mode req of
          FourColor_YMCK \<Rightarrow> build_four Q req pl
        | FiveColor_YMCK_W \<Rightarrow> build_five Q T plateLoader req pl
        | SixColor_YMCK_Lm_Lc \<Rightarrow> build_six Q req pl
        | SevenColor_YMCK_Lm_Lc_W \<Rightarrow> build_seven Q T plateLoader req pl
        | EightColor_YMCK_Lm_Lc_Lk_LLk \<Rightarrow> build_eight Q req pl
        | TenColor_YMCK_Lm_Lc_Lk_LLk_W_V \<Rightarrow> build_ten Q T plateLoader req pl))"

section \<open>Job overrides\<close>

definition modeOverrideFromJob :: "qtext \<Rightarrow> string \<Rightarrow> string \<Rightarrow> int option" where
  \<comment> \<open>\<open>None\<close> is \<open>hasOverride = false\<close>; \<open>first\<close> names mode 1\<close>
  "modeOverrideFromJob T first s =
     (let v = trimmed T s in
      if v = [] \<or> v = ''Use Global Setting'' then None
      else if v = ''Off'' then Some 0
      else if v = first then Some 1
      else if v = ''Flood'' then Some 2
      else if v = ''Plate'' then Some 3
      else None)"

definition whiteModeOverrideFromJob :: "qtext \<Rightarrow> string \<Rightarrow> int option" where
  "whiteModeOverrideFromJob T s = modeOverrideFromJob T ''Auto Underbase'' s"

definition varnishModeOverrideFromJob :: "qtext \<Rightarrow> string \<Rightarrow> int option" where
  "varnishModeOverrideFromJob T s = modeOverrideFromJob T ''Over Printed Area'' s"

section \<open>The X-33 white plane\<close>

datatype x33_white_mode = WhiteOff | WhiteAutoUnderbase | WhiteFlood | WhitePlate

definition applyThresholdAndDensity :: "u8 \<Rightarrow> int \<Rightarrow> int \<Rightarrow> u8" where
  "applyThresholdAndDensity source threshold density =
     (let clampedThreshold = clamp threshold 0 255; clampedDensity = clamp density 0 255 in
      if clampedDensity = 0 \<or> uint source \<le> clampedThreshold \<or> clampedThreshold \<ge> 255 then 0
      else let normalized = (uint source - clampedThreshold) * 255 div (255 - clampedThreshold)
           in cast8 (normalized * clampedDensity div 255))"

definition modeFromJob :: "qtext \<Rightarrow> string \<Rightarrow> x33_white_mode \<times> bool" where
  "modeFromJob T strategy =
     (let value = toLower T (trimmed T strategy) in
      if value = [] \<or> value = ''off'' \<or> value = ''none'' then (WhiteOff, True)
      else if value = ''auto underbase'' \<or> value = ''auto'' then (WhiteAutoUnderbase, True)
      else if value = ''flood'' then (WhiteFlood, True)
      else if value = ''plate'' \<or> value = ''white plate'' then (WhitePlate, True)
      else (WhiteOff, False))"

record x33_white_request =
  xw_tones :: "bytes list option" \<comment> \<open>four planes, or the null pointer\<close>
  xw_width :: int
  xw_height :: int
  xw_mode :: x33_white_mode
  xw_threshold :: int
  xw_density :: int
  xw_plate :: string

definition x33_white_build :: "plate_loader \<Rightarrow> x33_white_request \<Rightarrow> bytes option" where
  \<comment> \<open>\<open>size_t\<close> has 64 bits, so the check of the pixel count against it never fails\<close>
  "x33_white_build plateLoader r =
     (if xw_width r \<le> 0 \<or> xw_height r \<le> 0 then None
      else let pixelCount = unat (cast64 (xw_width r) * cast64 (xw_height r)) in
      if xw_mode r = WhiteOff then Some (replicate pixelCount 0)
      else case xw_tones r of
        None \<Rightarrow> None
      | Some cmyk \<Rightarrow>
        if \<exists>tone \<in> set cmyk. length tone \<noteq> pixelCount then None
        else let density = clamp (xw_density r) 0 255 in
        if xw_mode r = WhiteFlood then Some (replicate pixelCount (cast8 density))
        else let candidate =
          (if xw_mode r = WhiteAutoUnderbase
           then Some (map (\<lambda>i. max (max (cmyk ! 0 ! i) (cmyk ! 1 ! i)) (max (cmyk ! 2 ! i) (cmyk ! 3 ! i)))
                       [0..<pixelCount])
           else case plateLoader (xw_plate r) (nat (xw_width r)) (nat (xw_height r)) of
                  Some plate \<Rightarrow> if length plate = pixelCount then Some plate else None
                | None \<Rightarrow> None)
        in (case candidate of None \<Rightarrow> None
            | Some cand \<Rightarrow> Some (map (\<lambda>i. applyThresholdAndDensity (cand ! i) (xw_threshold r) density)
                                 [0..<pixelCount])))"

end
