(* ===== verification/Tone_Laws.thy ===== *)
theory Tone_Laws
  imports Tone_Builder
begin

text \<open>
  What the tone builder promises. Pixel level: the specialty curve stays within its density and
  is the same arithmetic in both RIP backends, gray component replacement only moves ink from
  CMY to K, the dark/light splits conserve the tone. Plane level: every mode yields one plane of
  \<open>width * height\<close> bytes per logical ink, and building the tones of a strip of rows gives the
  strip of the tones of the page, which is what lets the bounded backend work strip by strip.
\<close>

section \<open>The specialty curve\<close>

lemma u16_of_id [simp]: "0 \<le> v \<Longrightarrow> v \<le> 65535 \<Longrightarrow> u16_of v = v"
  by (simp add: u16_of_def uint_cast16)

lemma scale255_range:
  fixes s d :: int
  assumes "0 \<le> s" and "s \<le> d" and "0 < d"
  shows "0 \<le> s * 255 div d" and "s * 255 div d \<le> 255"
proof -
  show "0 \<le> s * 255 div d" using assms by (simp add: pos_imp_zdiv_nonneg_iff)
  have "s * 255 div d \<le> 255 * d div d" using assms by (intro zdiv_mono1) simp_all
  also have "\<dots> = 255" using assms by simp
  finally show "s * 255 div d \<le> 255" .
qed

lemma scaled_density:
  fixes n d :: int
  assumes "0 \<le> n" and "n \<le> 255" and "0 \<le> d"
  shows "0 \<le> n * d div 255" and "n * d div 255 \<le> d"
proof -
  show "0 \<le> n * d div 255" using assms by (simp add: pos_imp_zdiv_nonneg_iff)
  have "n * d div 255 \<le> 255 * d div 255" using assms by (intro zdiv_mono1 mult_right_mono) simp_all
  then show "n * d div 255 \<le> d" by simp
qed

lemma specialty_eq:
  "applySpecialtyThresholdDensity src t d =
     (if src \<le> t then 0
      else cast8 ((uint src - uint t) * 255 div (255 - uint t) * uint d div 255))"
proof (cases "d = 0 \<or> src \<le> t")
  case True
  then show ?thesis by (auto simp: applySpecialtyThresholdDensity_def)
next
  case False
  then have lt: "uint t < uint src" by (simp add: word_le_def)
  have src: "uint src \<le> 255" by (rule uint8_le)
  have t255: "\<not> 255 \<le> t" using lt src by (simp add: word_le_def)
  have d: "0 \<le> uint d" "uint d \<le> 255" by (simp_all add: uint8_le)
  let ?n = "(uint src - uint t) * 255 div (255 - uint t)"
  have n: "0 \<le> ?n" "?n \<le> 255" using scale255_range [of "uint src - uint t" "255 - uint t"] lt src by auto
  have o: "0 \<le> ?n * uint d div 255" "?n * uint d div 255 \<le> uint d"
    using scaled_density [OF n d(1)] by auto
  have diff: "u16_of (uint src - uint t) = uint src - uint t"
  proof (rule u16_of_id)
    show "0 \<le> uint src - uint t" using lt by simp
    have "0 \<le> uint t" by simp
    then show "uint src - uint t \<le> 65535" using src by linarith
  qed
  show ?thesis using False t255 n o d
    by (simp add: applySpecialtyThresholdDensity_def Let_def diff clamp_id)
qed

lemma uint_numeral_255: "uint (255 :: u8) = 255"
  by simp

lemma specialty_range:
  shows "src \<le> t \<Longrightarrow> applySpecialtyThresholdDensity src t d = 0"
    and "applySpecialtyThresholdDensity src t d \<le> d"
    and "t < 255 \<Longrightarrow> applySpecialtyThresholdDensity 255 t d = d"
proof -
  show "src \<le> t \<Longrightarrow> applySpecialtyThresholdDensity src t d = 0" by (simp add: specialty_eq)
  have d: "0 \<le> uint d" "uint d \<le> 255" by (simp_all add: uint8_le)
  show "applySpecialtyThresholdDensity src t d \<le> d"
  proof (cases "src \<le> t")
    case False
    then have lt: "uint t < uint src" by (simp add: word_le_def)
    have src: "uint src \<le> 255" by (rule uint8_le)
    let ?n = "(uint src - uint t) * 255 div (255 - uint t)"
    have n: "0 \<le> ?n" "?n \<le> 255" using scale255_range [of "uint src - uint t" "255 - uint t"] lt src by auto
    have "uint (cast8 (?n * uint d div 255)) = ?n * uint d div 255"
      using scaled_density [OF n d(1)] d by (intro uint_cast8) auto
    then show ?thesis using False scaled_density(2) [OF n d(1)] by (simp add: specialty_eq word_le_def)
  qed (simp add: specialty_eq)
  show "applySpecialtyThresholdDensity 255 t d = d" if "t < 255"
  proof -
    have t: "uint t < 255" using that by (simp add: word_less_def)
    have "\<not> 255 \<le> t" using that by (simp add: not_le)
    moreover have "(255 - uint t) * 255 div (255 - uint t) = 255" using t by (intro nonzero_mult_div_cancel_left) simp
    ultimately show ?thesis by (simp only: specialty_eq uint_numeral_255 if_False) simp
  qed
qed

lemma x33_density_eq:
  "applyThresholdAndDensity src (uint t) (uint d) = applySpecialtyThresholdDensity src t d"
proof -
  have c: "clamp (uint (x :: u8)) 0 255 = uint x" for x by (intro clamp_id) (simp_all add: uint8_le)
  show ?thesis
  proof (cases "src \<le> t")
    case False
    then have "uint t < uint src" by (simp add: word_le_def)
    moreover have "uint src \<le> 255" by (rule uint8_le)
    ultimately have "\<not> uint t \<ge> 255" "\<not> uint src \<le> uint t" by linarith+
    then show ?thesis using False
      using c [of 0] by (cases "d = 0") (simp_all add: specialty_eq applyThresholdAndDensity_def Let_def c uint_0_iff)
  qed (simp add: specialty_eq applyThresholdAndDensity_def c word_le_def)
qed

lemma x33_density_clamps:
  "applyThresholdAndDensity src t d = applyThresholdAndDensity src (clamp t 0 255) (clamp d 0 255)"
  by (simp add: applyThresholdAndDensity_def clamp_idem)

section \<open>Gray component replacement\<close>

definition gcr_neutral :: "gcr_params \<Rightarrow> u8 \<Rightarrow> u8 \<Rightarrow> u8 \<Rightarrow> bool" where
  "gcr_neutral p c m y \<longleftrightarrow>
     max (max c m) y - min (min c m) y \<le> neutralGate p \<and> max (max c m) y \<le> gcrMaxTone p"

definition gcr_pull :: "gcr_params \<Rightarrow> u8 \<Rightarrow> u8 \<Rightarrow> u8 \<Rightarrow> u8" where
  "gcr_pull p c m y = cast8 (uint (min (min c m) y) * uint (gcrStrength p) div 255)"

lemma uint_word_min: "uint (min a b :: u8) = min (uint a) (uint b)"
  by (simp add: min_def word_le_def)

lemma uint_word_max: "uint (max a b :: u8) = max (uint a) (uint b)"
  by (simp add: max_def word_le_def)

lemma gcr_pull_le: "uint (gcr_pull p c m y) \<le> uint (min (min c m) y)"
  "uint (gcr_pull p c m y) = uint (min (min c m) y) * uint (gcrStrength p) div 255"
proof -
  let ?n = "uint (min (min c m) y)"
  have n: "0 \<le> ?n" "?n \<le> 255" by (simp_all add: uint8_le)
  have g: "0 \<le> uint (gcrStrength p)" "uint (gcrStrength p) \<le> 255" by (simp_all add: uint8_le)
  have b: "0 \<le> ?n * uint (gcrStrength p) div 255" "?n * uint (gcrStrength p) div 255 \<le> ?n"
    using scaled_density [OF g n(1)] by (simp_all add: mult.commute)
  show "uint (gcr_pull p c m y) = ?n * uint (gcrStrength p) div 255"
    unfolding gcr_pull_def using b n by (intro uint_cast8) linarith+
  then show "uint (gcr_pull p c m y) \<le> ?n" using b by simp
qed

lemma gcr_pixel_outside:
  "\<not> gcr_neutral p c m y \<Longrightarrow> gcr_pixel p (c, m, y, k) = (c, m, y, k)"
  by (cases "neutralGate p < max (max c m) y - min (min c m) y")
    (simp_all only: gcr_neutral_def gcr_pixel_def Let_def not_le prod.case if_True if_False
      not_less[symmetric] de_Morgan_conj not_not HOL.simp_thms)

lemma u16_gcr_pull:
  "u16_of (uint (min (min c m) y) * uint (gcrStrength p) div 255) = uint (gcr_pull p c m y)"
proof -
  have "u16_of (uint (gcr_pull p c m y)) = uint (gcr_pull p c m y)"
    using uint8_le [of "gcr_pull p c m y"] by (intro u16_of_id) simp_all
  then show ?thesis by (simp only: gcr_pull_le(2))
qed

lemma u16_k_add:
  "u16_of (uint (u :: u8) * uint (g :: u8) div 255) = uint u * uint g div 255"
  "u16_of (uint (k :: u8) + uint u * uint g div 255) = uint k + uint u * uint g div 255"
proof -
  have "0 \<le> uint u * uint g div 255" "uint u * uint g div 255 \<le> uint g"
    by (rule scaled_density; simp add: uint8_le)+
  moreover have "0 \<le> uint k" "uint k \<le> 255" "uint g \<le> 255" by (simp_all add: uint8_le)
  ultimately show "u16_of (uint u * uint g div 255) = uint u * uint g div 255"
    and "u16_of (uint k + uint u * uint g div 255) = uint k + uint u * uint g div 255"
    by (intro u16_of_id; linarith)+
qed

lemma gcr_pixel_neutral:
  assumes "gcr_neutral p c m y"
  shows "gcr_pixel p (c, m, y, k) =
    (let u = gcr_pull p c m y; kNew = min 255 (uint k + uint u * uint (kGain p) div 255) in
     (c - u, m - u, y - u,
      cast8 (if kNew < uint (kMinInNeutral p) \<and> min (min c m) y > 0 then uint (kMinInNeutral p) else kNew)))"
proof -
  have m: "min (uint (gcr_pull p c m y)) (uint (min (min c m) y)) = uint (gcr_pull p c m y)"
    by (rule min_absorb1) (rule gcr_pull_le(1))
  have g: "(neutralGate p < max (max c m) y - min (min c m) y) = False" "(gcrMaxTone p < max (max c m) y) = False"
    using assms by (simp_all add: gcr_neutral_def not_less)
  show ?thesis
    unfolding gcr_pixel_def prod.case Let_def
    by (simp only: g if_False u16_gcr_pull m cast8_uint) (simp only: u16_k_add)
qed

lemma uint_minus_u8: "b \<le> a \<Longrightarrow> uint (a - b :: u8) = uint a - uint b"
  by (simp add: uint_sub_lem word_le_def)

theorem gcr_moves_ink_to_black:
  assumes "gcr_pixel p (c, m, y, k) = (c', m', y', k')"
  obtains u where "uint c' = uint c - u" and "uint m' = uint m - u" and "uint y' = uint y - u"
    and "0 \<le> u" and "u \<le> uint (min (min c m) y)" and "k \<le> k'"
proof (cases "gcr_neutral p c m y")
  case False
  then show thesis using assms that [of 0] gcr_pixel_outside [OF False, of k] by simp
next
  case True
  let ?u = "gcr_pull p c m y"
  let ?k = "min 255 (uint k + uint ?u * uint (kGain p) div 255)"
  let ?k' = "if ?k < uint (kMinInNeutral p) \<and> min (min c m) y > 0 then uint (kMinInNeutral p) else ?k"
  have eqs: "c' = c - ?u" "m' = m - ?u" "y' = y - ?u" "k' = cast8 ?k'"
    using assms gcr_pixel_neutral [OF True, of k] by (simp_all add: Let_def)
  have "?u \<le> min (min c m) y" using gcr_pull_le(1) [of p c m y] by (simp only: word_le_def)
  then have le: "?u \<le> c" "?u \<le> m" "?u \<le> y" by simp_all
  have kb: "0 \<le> uint k" "uint k \<le> 255" "uint (kMinInNeutral p) \<le> 255" "0 \<le> uint (kMinInNeutral p)"
    by (simp_all add: uint8_le)
  have nn: "0 \<le> uint ?u * uint (kGain p) div 255" by (simp add: pos_imp_zdiv_nonneg_iff)
  have "uint k \<le> ?k'" and "?k' \<le> 255" using kb nn by auto
  then have "uint k' = ?k'" unfolding eqs(4) using kb(1) by (intro uint_cast8) linarith+
  then have "k \<le> k'" using \<open>uint k \<le> ?k'\<close> by (simp only: word_le_def)
  then show thesis
    using that [of "uint ?u"] eqs le gcr_pull_le(1) [of p c m y] by (simp add: uint_minus_u8)
qed

section \<open>The neutral fade of the light inks\<close>

lemma fadePct_eq:
  assumes "uint pct \<le> 100"
  shows "uint (fadePct v pct) = uint v * (100 - uint pct) div 100" and "fadePct v pct \<le> v"
proof -
  have v: "0 \<le> uint v" "uint v \<le> 255" and q: "0 \<le> 100 - uint pct" "100 - uint pct \<le> 100"
    using assms by (simp_all add: uint8_le)
  have le: "uint v * (100 - uint pct) \<le> uint v * 100" using v q by (intro mult_left_mono) simp_all
  have ge: "0 \<le> uint v * (100 - uint pct)" using v q by simp
  have "uint v * (100 - uint pct) div 100 \<le> uint v * 100 div 100" using le by (intro zdiv_mono1) simp_all
  then have d: "uint v * (100 - uint pct) div 100 \<le> uint v" by simp
  have d0: "0 \<le> uint v * (100 - uint pct) div 100" using ge by (simp add: pos_imp_zdiv_nonneg_iff)
  have u: "u16_of (100 - uint pct) = 100 - uint pct" by (rule u16_of_id) (use q in linarith)+
  have u2: "u16_of (uint v * (100 - uint pct)) = uint v * (100 - uint pct)"
    using ge le v by (intro u16_of_id) linarith+
  show "uint (fadePct v pct) = uint v * (100 - uint pct) div 100"
    using d d0 v by (simp add: fadePct_def u u2 uint_word_of_int)
  then show "fadePct v pct \<le> v" using d by (simp only: word_le_def)
qed

section \<open>The dark/light splits\<close>

lemma fl32_error:
  assumes "0 \<le> x" and "x < 2 powi k" and "- 125 \<le> k"
  shows "\<bar>fl32 x - x\<bar> \<le> 2 powi (k - 25)"
proof -
  have "\<bar>fl32 x - x\<bar> \<le> 2 powi (max (k - int 24) (- 149)) / 2"
    unfolding fl32_def by (rule fl_error [OF assms(1,2)])
  also have "max (k - int 24) (- 149) = (k - 25) + 1" using assms(3) by simp
  also have "(2::rat) powi ((k - 25) + 1) / 2 = 2 powi (k - 25)" by (simp only: powi2_add) simp
  finally show ?thesis .
qed

lemma fl32_near:
  assumes "0 \<le> x" and "x < 2 ^ n"
  shows "x - 2 ^ n / 33554432 \<le> fl32 x" and "fl32 x \<le> x + 2 ^ n / 33554432"
proof -
  have "(2::rat) powi (int n - 25) = 2 powi int n / 2 powi 25" by (rule powi2_diff)
  also have "\<dots> = 2 ^ n / 33554432" by (simp add: power_int_def)
  finally have e: "(2::rat) powi (int n - 25) = 2 ^ n / 33554432" .
  have "x < 2 powi int n" using assms(2) by (simp add: power_int_def)
  from fl32_error [OF assms(1) this]
  have "\<bar>fl32 x - x\<bar> \<le> 2 ^ n / 33554432" by (simp add: e)
  then show "x - 2 ^ n / 33554432 \<le> fl32 x" "fl32 x \<le> x + 2 ^ n / 33554432" by linarith+
qed

lemma smoothstepf_weight:
  assumes t: "0 \<le> t" "t \<le> 1"
  shows "0 \<le> fl32 (fl32 (t * t) * fl32 (3 - fl32 (2 * t)))"
    and "fl32 (fl32 (t * t) * fl32 (3 - fl32 (2 * t))) \<le> 1 + 1 / 524288"
proof -
  define a where "a = fl32 (t * t)"
  define d where "d = fl32 (2 * t)"
  define b where "b = fl32 (3 - d)"
  have tt: "0 \<le> t * t" "t * t \<le> 1" using t by (simp_all add: mult_le_one)
  have a: "0 \<le> a" "a \<le> 1" using fl32_unit [OF tt] by (simp_all add: a_def)
  have ea: "a \<le> t * t + 1 / 16777216"
    using fl32_near(2) [OF tt(1), of 1] tt(2) by (simp add: a_def)
  have d: "0 \<le> d" "d \<le> 2"
    using fl32_mono [of 0 "2 * t"] fl32_mono [of "2 * t" 2] fl32_of_int [of 2] t by (simp_all add: d_def)
  have ed: "2 * t - 1 / 8388608 \<le> d"
    using fl32_near(1) [of "2 * t" 2] t by (simp add: d_def)
  have b: "1 \<le> b" "b \<le> 3"
    using fl32_mono [of 1 "3 - d"] fl32_mono [of "3 - d" 3] fl32_of_int [of 3] d by (simp_all add: b_def)
  have eb: "b \<le> 3 - d + 1 / 8388608"
    using fl32_near(2) [of "3 - d" 2] d by (simp add: b_def)
  have b': "b \<le> 3 - 2 * t + 1 / 4194304" using eb ed by simp
  have "a * b \<le> (t * t + 1 / 16777216) * b" using ea b(1) by (intro mult_right_mono) simp_all
  also have "\<dots> \<le> t * t * (3 - 2 * t + 1 / 4194304) + 3 / 16777216"
    using mult_left_mono [OF b' tt(1)] b(2) by (simp add: distrib_right)
  also have "\<dots> \<le> 1 + 1 / 4194304 + 3 / 16777216"
  proof -
    have "0 \<le> (1 - t) * (1 - t) * (1 + 2 * t)" using t by simp
    then have "t * t * (3 - 2 * t) \<le> 1" by (simp add: algebra_simps)
    moreover have "t * t * (1 / 4194304) \<le> 1 / 4194304" using tt(2) by simp
    moreover have "t * t * (3 - 2 * t + 1 / 4194304) = t * t * (3 - 2 * t) + t * t * (1 / 4194304)"
      by (rule distrib_left)
    ultimately show ?thesis by linarith
  qed
  finally have ab: "a * b \<le> 1 + 1 / 4194304 + 3 / 16777216" .
  have ab0: "0 \<le> a * b" using a b by simp
  show "0 \<le> fl32 (fl32 (t * t) * fl32 (3 - fl32 (2 * t)))"
    using fl32_mono [OF ab0] by (simp add: a_def b_def d_def)
  have "fl32 (a * b) \<le> a * b + 1 / 16777216"
    using fl32_near(2) [OF ab0, of 1] ab by simp
  then have "fl32 (a * b) \<le> 1 + 1 / 524288" using ab by simp
  then show "fl32 (fl32 (t * t) * fl32 (3 - fl32 (2 * t))) \<le> 1 + 1 / 524288"
    by (simp add: a_def b_def d_def)
qed

lemma smoothstepf_range: "0 \<le> smoothstepf a b x" "smoothstepf a b x \<le> 1 + 1 / 524288"
proof -
  have c: "0 \<le> clamp01f v" "clamp01f v \<le> 1" for v by (auto simp: clamp01f_def)
  show "0 \<le> smoothstepf a b x" "smoothstepf a b x \<le> 1 + 1 / 524288"
    using smoothstepf_weight [OF c] by (auto simp: smoothstepf_def Let_def)
qed

lemma floatOf_u8: "floatOf v = of_int (uint v)"
  unfolding floatOf_def using uint8_le [of v] by (intro fl32_of_int) simp

lemma smoothstepf_ends:
  assumes "uint a < uint b"
  shows "uint x \<le> uint a \<Longrightarrow> smoothstepf (floatOf a) (floatOf b) (floatOf x) = 0"
    and "uint b \<le> uint x \<Longrightarrow> smoothstepf (floatOf a) (floatOf b) (floatOf x) = 1"
proof -
  have fl: "fl32 (of_int (uint (p :: u8)) - of_int (uint (q :: u8))) = of_int (uint p - uint q)" for p q
  proof -
    have "\<bar>uint p - uint q\<bar> < 16777216" 
      using uint8_le [of p] uint8_le [of q] uint8_ge0 [of p] uint8_ge0 [of q] by linarith
    from fl32_of_int [OF this] show ?thesis by simp
  qed
  define r where "r = (of_int (uint x - uint a) :: rat) / of_int (uint b - uint a)"
  have eq: "smoothstepf (floatOf a) (floatOf b) (floatOf x) =
      (let t = clamp01f (fl32 r) in fl32 (fl32 (t * t) * fl32 (3 - fl32 (2 * t))))"
    using assms by (simp only: smoothstepf_def floatOf_u8 fl r_def Let_def of_int_eq_iff) simp
  show "smoothstepf (floatOf a) (floatOf b) (floatOf x) = 0" if "uint x \<le> uint a"
  proof -
    have "(of_int (uint x - uint a) :: rat) \<le> 0" "(0 :: rat) < of_int (uint b - uint a)"
      using that assms by (simp_all only: of_int_le_0_iff of_int_0_less_iff)
    then have "r \<le> 0" unfolding r_def by (rule divide_nonpos_pos)
    then have "fl32 r \<le> 0" using fl32_mono [of r 0] by simp
    then have "clamp01f (fl32 r) = 0" by (auto simp: clamp01f_def)
    then show ?thesis by (simp add: eq Let_def)
  qed
  show "smoothstepf (floatOf a) (floatOf b) (floatOf x) = 1" if "uint b \<le> uint x"
  proof -
    have "(of_int (uint b - uint a) :: rat) \<le> of_int (uint x - uint a)" "(0 :: rat) < of_int (uint b - uint a)"
      using that assms by (simp_all only: of_int_le_iff of_int_0_less_iff)
    then have "1 \<le> r" unfolding r_def by (simp only: le_divide_eq_1_pos)
    then have "1 \<le> fl32 r" using fl32_mono [of 1 r] by simp
    then have "clamp01f (fl32 r) = 1" by (auto simp: clamp01f_def)
    then show ?thesis using fl32_of_int [of 2] fl32_of_int [of 1] by (simp add: eq Let_def)
  qed
qed

lemma lround_quarter: "lround (of_int z + 1 / 4) = z" "lround (- 1 / 4) = 0"
proof -
  show "lround (of_int z + 1 / 4) = z" unfolding lround_def by (auto; linarith)
  show "lround (- 1 / 4) = 0" by code_simp
qed

lemma weighted_level:
  fixes n :: int
  assumes n: "0 \<le> n" "n \<le> 255" and w: "- (1 / 1024) \<le> w" "w \<le> 1 + 1 / 524288"
  shows "0 \<le> lround (fl32 (of_int n * w))" and "lround (fl32 (of_int n * w)) \<le> n"
proof -
  have v: "(0 :: rat) \<le> of_int n" "(of_int n :: rat) \<le> 255" using n by simp_all
  have "of_int n * w \<le> of_int n * (1 + 1 / 524288)" by (rule mult_left_mono [OF w(2) v(1)])
  also have "\<dots> \<le> of_int n + 255 / 524288" using v by (simp add: distrib_left)
  finally have up: "of_int n * w \<le> of_int n + 255 / 524288" .
  define x where "x = (of_int n :: rat) + 255 / 524288"
  have "0 \<le> x" "x < 2 ^ 8" using v by (simp_all add: x_def)
  then have "fl32 x \<le> of_int n + 1 / 4" using fl32_near(2) [of x 8] by (simp add: x_def)
  then have "fl32 (of_int n * w) \<le> of_int n + 1 / 4"
    using fl32_mono [OF up] by (simp add: x_def)
  then show "lround (fl32 (of_int n * w)) \<le> n"
    using lround_mono [of "fl32 (of_int n * w)" "of_int n + 1 / 4"] by (simp add: lround_quarter)
  have "of_int n * (- (1 / 1024)) \<le> of_int n * w" by (rule mult_left_mono [OF w(1) v(1)])
  then have low: "- (1 / 4) \<le> of_int n * w" using v by simp
  have "fl32 (- (1 / 4)) = - (1 / 4)" by code_simp
  then have "- (1 / 4) \<le> fl32 (of_int n * w)" using fl32_mono [OF low] by simp
  then show "0 \<le> lround (fl32 (of_int n * w))"
    using lround_mono [of "- 1 / 4" "fl32 (of_int n * w)"] lround_quarter(2) by simp
qed

lemma weighted_tone:
  fixes v :: u8
  assumes "- (1 / 1024) \<le> w" and "w \<le> 1 + 1 / 524288"
  shows "0 \<le> lround (fl32 (floatOf v * w))" and "lround (fl32 (floatOf v * w)) \<le> uint v"
  using weighted_level [OF uint8_ge0 uint8_le assms, of v] by (simp_all only: floatOf_u8)

theorem split2_conserves:
  assumes "split2Crossfade v p = (dark, light)"
  shows "uint dark + uint light = uint v"
proof (cases "v = 0")
  case False
  let ?s = "smoothstepf (floatOf (fst p)) (floatOf (snd p)) (floatOf v)"
  let ?d = "lround (fl32 (floatOf v * ?s))"
  have s: "- (1 / 1024) \<le> ?s" using smoothstepf_range(1) [of "floatOf (fst p)" "floatOf (snd p)" "floatOf v"] by simp
  have d: "0 \<le> ?d" "?d \<le> uint v" using weighted_tone [OF s smoothstepf_range(2)] by auto
  have v: "uint v \<le> 255" by (rule uint8_le)
  have "dark = cast8 (clamp ?d 0 255)" "light = cast8 (clamp (uint v - ?d) 0 255)"
    using assms False by (auto simp: split2Crossfade_def Let_def)
  moreover have "clamp ?d 0 255 = ?d" "clamp (uint v - ?d) 0 255 = uint v - ?d"
    using d v by (intro clamp_id; linarith)+
  ultimately have "uint dark = ?d" "uint light = uint v - ?d"
    using d v by (simp_all only: uint_cast8)
  then show ?thesis by simp
qed (use assms in \<open>simp add: split2Crossfade_def\<close>)

definition split3_parts :: "u8 \<Rightarrow> u8 \<times> u8 \<times> u8 \<times> u8 \<Rightarrow> int \<times> int" where
  \<comment> \<open>the two rounded weights, light-light and dark\<close>
  "split3_parts v p =
     (case p of (t1Start, t1End, t2Start, t2End) \<Rightarrow>
       (lround (fl32 (floatOf v * fl32 (1 - smoothstepf (floatOf t1Start) (floatOf t1End) (floatOf v)))),
        lround (fl32 (floatOf v * smoothstepf (floatOf t2Start) (floatOf t2End) (floatOf v)))))"

lemma split3_parts_range:
  assumes "split3_parts v p = (a, b)"
  shows "0 \<le> a" "a \<le> uint v" "0 \<le> b" "b \<le> uint v"
proof -
  obtain e1 e2 e3 e4 where p: "p = (e1, e2, e3, e4)" by (metis prod_cases4)
  let ?s1 = "smoothstepf (floatOf e1) (floatOf e2) (floatOf v)"
  let ?s2 = "smoothstepf (floatOf e3) (floatOf e4) (floatOf v)"
  have "- (1 / 1024) \<le> 1 - ?s1" "1 - ?s1 \<le> 1"
    using smoothstepf_range [of "floatOf e1" "floatOf e2" "floatOf v"] by simp_all
  moreover have "fl32 (- (1 / 1024)) = - (1 / 1024)" by code_simp
  ultimately have w: "- (1 / 1024) \<le> fl32 (1 - ?s1)" "fl32 (1 - ?s1) \<le> 1 + 1 / 524288"
    using fl32_mono [of "- (1 / 1024)" "1 - ?s1"] fl32_mono [of "1 - ?s1" 1] by simp_all
  have w2: "- (1 / 1024) \<le> ?s2" "?s2 \<le> 1 + 1 / 524288"
    using smoothstepf_range [of "floatOf e3" "floatOf e4" "floatOf v"] by simp_all
  show "0 \<le> a" "a \<le> uint v" "0 \<le> b" "b \<le> uint v"
    using assms weighted_tone [OF w, of v] weighted_tone [OF w2, of v] by (simp_all add: p split3_parts_def)
qed

lemma split3_shape:
  assumes "split3Crossfade v p = (llk, lk, k)" and "v \<noteq> 0" and "split3_parts v p = (a, b)"
  shows "uint llk = a" and "uint k = b" and "uint lk = max 0 (uint v - a - b)"
proof -
  obtain e1 e2 e3 e4 where p: "p = (e1, e2, e3, e4)" by (metis prod_cases4)
  have v: "uint v \<le> 255" by (rule uint8_le)
  note r = split3_parts_range [OF assms(3)]
  have eqs: "llk = cast8 (clamp a 0 255)" "k = cast8 (clamp b 0 255)" "lk = cast8 (clamp (uint v - a - b) 0 255)"
    using assms by (auto simp: split3Crossfade_def split3_parts_def p Let_def)
  have c: "clamp a 0 255 = a" "clamp b 0 255 = b" "clamp (uint v - a - b) 0 255 = max 0 (uint v - a - b)"
    using r v by (auto simp: clamp_def)
  show "uint llk = a" "uint k = b" "uint lk = max 0 (uint v - a - b)"
    unfolding eqs c using r v by (auto intro!: uint_cast8)
qed

theorem split3_covers:
  assumes "split3Crossfade v p = (llk, lk, k)"
  shows "uint llk + uint lk + uint k = max (uint v) (uint llk + uint k)"
    and "llk \<le> v" and "k \<le> v"
proof -
  obtain a b where ab: "split3_parts v p = (a, b)" by (cases "split3_parts v p") 
  have "uint llk + uint lk + uint k = max (uint v) (uint llk + uint k) \<and> llk \<le> v \<and> k \<le> v"
  proof (cases "v = 0")
    case False
    note sh = split3_shape [OF assms False ab] and r = split3_parts_range [OF ab]
    show ?thesis using sh r by (simp add: word_le_def)
  qed (use assms in \<open>simp add: split3Crossfade_def\<close>)
  then show "uint llk + uint lk + uint k = max (uint v) (uint llk + uint k)" "llk \<le> v" "k \<le> v"
    by simp_all
qed

theorem split3_conserves:
  assumes split: "split3Crossfade v (t1Start, t1End, t2Start, t2End) = (llk, lk, k)"
    and ramps: "t1Start < t1End" "t1End \<le> t2Start" "t2Start < t2End"
  shows "uint llk + uint lk + uint k = uint v"
proof (cases "v = 0")
  case False
  obtain a b where ab: "split3_parts v (t1Start, t1End, t2Start, t2End) = (a, b)"
    by (cases "split3_parts v (t1Start, t1End, t2Start, t2End)")
  note sh = split3_shape [OF split False ab] and r = split3_parts_range [OF ab]
  have u: "uint t1Start < uint t1End" "uint t1End \<le> uint t2Start" "uint t2Start < uint t2End"
    using ramps by (simp_all add: word_less_def word_le_def)
  have "a + b \<le> uint v"
  proof (cases "uint t1End \<le> uint v")
    case True
    then have "a = 0" using ab smoothstepf_ends(2) [OF u(1)] lround_of_int [of 0] by (simp add: split3_parts_def)
    then show ?thesis using r by simp
  next
    case False
    then have "uint v \<le> uint t2Start" using u by simp
    then have "b = 0" using ab smoothstepf_ends(1) [OF u(3)] lround_of_int [of 0] by (simp add: split3_parts_def)
    then show ?thesis using r by simp
  qed
  then show ?thesis using sh by simp
qed (use split in \<open>simp add: split3Crossfade_def\<close>)

section \<open>Strips of planes\<close>

definition cut4 :: "nat \<Rightarrow> nat \<Rightarrow> planes4 \<Rightarrow> planes4" where
  "cut4 a n pl = (case pl of (c, m, y, k) \<Rightarrow> (cut_span a n c, cut_span a n m, cut_span a n y, cut_span a n k))"

definition sized4 :: "nat \<Rightarrow> planes4 \<Rightarrow> bool" where
  "sized4 N pl \<longleftrightarrow> (case pl of (c, m, y, k) \<Rightarrow>
     length c = N \<and> length m = N \<and> length y = N \<and> length k = N)"

lemma lut_plane_cut:
  "length v = N \<Longrightarrow> a + n \<le> N \<Longrightarrow> lut_plane l n (cut_span a n v) = cut_span a n (lut_plane l N v)"
  unfolding lut_plane_def by (rule map_cut_cong) (simp_all add: cut_nth)

lemma length_lut_plane [simp]: "length (lut_plane l N v) = N"
  by (simp add: lut_plane_def)

lemma gcr_planes_cut:
  "sized4 N pl \<Longrightarrow> a + n \<le> N \<Longrightarrow>
   applyGcrNeutralTransfer p n (cut4 a n pl) = cut4 a n (applyGcrNeutralTransfer p N pl)"
  by (cases pl) (simp add: applyGcrNeutralTransfer_def cut4_def sized4_def Let_def cut_map_upt cut_nth)

lemma gcr_planes_sized: "sized4 N pl \<Longrightarrow> sized4 N (applyGcrNeutralTransfer p N pl)"
  by (cases pl) (simp add: applyGcrNeutralTransfer_def sized4_def Let_def)

definition cut2 :: "nat \<Rightarrow> nat \<Rightarrow> bytes \<times> bytes \<Rightarrow> bytes \<times> bytes" where
  "cut2 a n v = (cut_span a n (fst v), cut_span a n (snd v))"

definition cut3 :: "nat \<Rightarrow> nat \<Rightarrow> bytes \<times> bytes \<times> bytes \<Rightarrow> bytes \<times> bytes \<times> bytes" where
  "cut3 a n v = (cut_span a n (fst v), cut_span a n (fst (snd v)), cut_span a n (snd (snd v)))"

lemma fade_planes_cut:
  "length c = N \<Longrightarrow> length m = N \<Longrightarrow> length y = N \<Longrightarrow> length (fst l) = N \<Longrightarrow> length (snd l) = N \<Longrightarrow> a + n \<le> N \<Longrightarrow>
   applyNeutralLightInkFade p n (cut_span a n c) (cut_span a n m) (cut_span a n y) (cut2 a n l) =
   cut2 a n (applyNeutralLightInkFade p N c m y l)"
  by (simp add: applyNeutralLightInkFade_def cut2_def Let_def cut_map_upt cut_nth)

lemma split_planes_cut:
  "length v = N \<Longrightarrow> a + n \<le> N \<Longrightarrow> split2_plane p n (cut_span a n v) = cut2 a n (split2_plane p N v)"
  "length v = N \<Longrightarrow> a + n \<le> N \<Longrightarrow> split3_plane q n (cut_span a n v) = cut3 a n (split3_plane q N v)"
  by (simp_all add: split2_plane_def split3_plane_def cut2_def cut3_def Let_def cut_map_upt cut_nth)

lemma length_split_planes [simp]:
  "length (fst (split2_plane p N v)) = N" "length (snd (split2_plane p N v)) = N"
  "length (fst (split3_plane q N v)) = N" "length (fst (snd (split3_plane q N v))) = N"
  "length (snd (snd (split3_plane q N v))) = N"
  by (simp_all add: split2_plane_def split3_plane_def Let_def)

lemma length_fade_planes:
  "length (fst l) = N \<Longrightarrow> length (fst (applyNeutralLightInkFade p N c m y l)) = N"
  "length (snd l) = N \<Longrightarrow> length (snd (applyNeutralLightInkFade p N c m y l)) = N"
  by (simp_all add: applyNeutralLightInkFade_def Let_def)

definition plates_sized :: "plate_loader \<Rightarrow> nat \<Rightarrow> nat \<Rightarrow> bool" where
  "plates_sized load w h \<longleftrightarrow> (\<forall>path plate. load path w h = Some plate \<longrightarrow> length plate = w * h)"

definition strip_loader :: "plate_loader \<Rightarrow> nat \<Rightarrow> nat \<Rightarrow> plate_loader" where
  \<comment> \<open>the plate of a strip: the same rows of the plate of the page\<close>
  "strip_loader load h y0 path w n = map_option (cut_span (y0 * w) (n * w)) (load path w h)"

lemma specialty_cut:
  assumes "sized4 (w * h) post" and "plates_sized load w h" and "y0 + n \<le> h"
  shows "specialty_channel (strip_loader load h y0) cfg path w n (cut4 (y0 * w) (n * w) post) =
         cut_span (y0 * w) (n * w) (specialty_channel load cfg path w h post)"
proof -
  have le: "y0 * w + n * w \<le> w * h"
    using mult_le_mono1 [OF assms(3), of w] by (simp only: add_mult_distrib mult.commute [of w h])
  obtain c m y k where post: "post = (c, m, y, k)" by (cases post)
  have nw: "w * n = n * w" by (rule mult.commute)
  note len = assms(1) [unfolded sized4_def post prod.case]
  show ?thesis
    using len le assms(2)
    by (auto simp: specialty_channel_def post cut4_def Let_def cut_map_upt cut_nth cut_replicate
        strip_loader_def plates_sized_def nw split: option.splits)
qed

lemma length_specialty [simp]: "length (specialty_channel load cfg path w h post) = w * h"
  by (cases post) (auto simp: specialty_channel_def Let_def split: option.splits)

section \<open>Every mode: plane counts, and strips\<close>

fun ink_count :: "ink_mode \<Rightarrow> nat" where
  "ink_count FourColor_YMCK = 4"
| "ink_count FiveColor_YMCK_W = 5"
| "ink_count SixColor_YMCK_Lm_Lc = 6"
| "ink_count SevenColor_YMCK_Lm_Lc_W = 7"
| "ink_count EightColor_YMCK_Lm_Lc_Lk_LLk = 8"
| "ink_count TenColor_YMCK_Lm_Lc_Lk_LLk_W_V = 10"

definition strip_request :: "nat \<Rightarrow> nat \<Rightarrow> 'v build_request \<Rightarrow> 'v build_request" where
  "strip_request y0 n req =
     req\<lparr>br_images := map_option (cut4 (y0 * br_width req) (n * br_width req)) (br_images req),
         br_height := n\<rparr>"

definition images_sized :: "'v build_request \<Rightarrow> bool" where
  "images_sized req \<longleftrightarrow> (\<forall>pl. br_images req = Some pl \<longrightarrow> sized4 (br_width req * br_height req) pl)"

lemma adjusted_sized:
  "sized4 (br_width req * br_height req) pl \<Longrightarrow> sized4 (br_width req * br_height req) (adjusted Q req pl)"
  by (simp add: adjusted_def gcr_planes_sized)

lemma tones_sized:
  assumes "buildToneChannels Q T load req = Some tones" and "images_sized req"
  shows "length tones = ink_count (br_mode req)"
    and "\<forall>t \<in> set tones. length t = br_width req * br_height req"
proof -
  obtain pl where pl: "br_images req = Some pl" "sized4 (br_width req * br_height req) pl"
    using assms by (auto simp: buildToneChannels_def images_sized_def split: option.splits)
  obtain c m y k where adj: "adjusted Q req pl = (c, m, y, k)" by (cases "adjusted Q req pl")
  have len: "length c = br_width req * br_height req" "length m = br_width req * br_height req"
    "length y = br_width req * br_height req" "length k = br_width req * br_height req"
    using adjusted_sized [OF pl(2), of Q] by (simp_all add: adj sized4_def)
  have "length tones = ink_count (br_mode req) \<and> (\<forall>t \<in> set tones. length t = br_width req * br_height req)"
    using assms(1) len
    by (cases "br_mode req")
      (auto simp: buildToneChannels_def pl(1) adj build_four_def build_five_def build_six_def build_seven_def
        build_eight_def build_ten_def dark_light_def full_split_def Let_def length_fade_planes
        split_beta split: option.splits)
  then show "length tones = ink_count (br_mode req)"
    and "\<forall>t \<in> set tones. length t = br_width req * br_height req" by simp_all
qed

definition cut_dl :: "nat \<Rightarrow> nat \<Rightarrow> (bytes \<times> bytes) \<times> (bytes \<times> bytes) \<times> bytes \<times> bytes \<Rightarrow>
   (bytes \<times> bytes) \<times> (bytes \<times> bytes) \<times> bytes \<times> bytes" where
  "cut_dl a n r = (cut2 a n (fst r), cut2 a n (fst (snd r)), cut_span a n (fst (snd (snd r))), cut_span a n (snd (snd (snd r))))"

lemma cut_sel:
  "fst (cut2 a n v) = cut_span a n (fst v)" "snd (cut2 a n v) = cut_span a n (snd v)"
  "fst (cut3 a n w) = cut_span a n (fst w)" "fst (snd (cut3 a n w)) = cut_span a n (fst (snd w))"
  "snd (snd (cut3 a n w)) = cut_span a n (snd (snd w))"
  by (simp_all add: cut2_def cut3_def)

lemma strip_sel [simp]:
  "br_width (strip_request y0 n req) = br_width req" "br_height (strip_request y0 n req) = n"
  "br_mode (strip_request y0 n req) = br_mode req" "br_params (strip_request y0 n req) = br_params req"
  "br_whitePlate (strip_request y0 n req) = br_whitePlate req"
  "br_varnishPlate (strip_request y0 n req) = br_varnishPlate req"
  "combo_luts (strip_request y0 n req) = combo_luts req"
  by (simp_all add: strip_request_def combo_luts_def)

lemma adjusted_cut:
  "y0 + n \<le> br_height req \<Longrightarrow> sized4 (br_width req * br_height req) pl \<Longrightarrow>
   adjusted Q (strip_request y0 n req) (cut4 (y0 * br_width req) (n * br_width req) pl) =
   cut4 (y0 * br_width req) (n * br_width req) (adjusted Q req pl)"
  by (simp add: adjusted_def mult.commute [of _ n] gcr_planes_cut strip_le)

lemma dark_light_cut:
  assumes "y0 + n \<le> br_height req" and "sized4 (br_width req * br_height req) pl"
  shows "dark_light Q (strip_request y0 n req) cs ms (cut4 (y0 * br_width req) (n * br_width req) pl) =
   cut_dl (y0 * br_width req) (n * br_width req) (dark_light Q req cs ms pl)"
proof -
  note le = strip_le [OF assms(1), of "br_width req"]
  have nw: "br_width req * n = n * br_width req" by (rule mult.commute)
  obtain c m y k where pl: "pl = (c, m, y, k)" by (cases pl)
  note len = assms(2) [unfolded pl sized4_def prod.case]
  show ?thesis
    by (cases "combo_luts req")
      (simp_all add: pl dark_light_def cut4_def cut_dl_def cut2_def Let_def nw len le
        lut_plane_cut split_planes_cut)
qed

lemma full_split_cut:
  assumes "y0 + n \<le> br_height req" and "sized4 (br_width req * br_height req) pl"
  shows "full_split Q (strip_request y0 n req) cs ms ks (cut4 (y0 * br_width req) (n * br_width req) pl) =
   (case full_split Q req cs ms ks pl of (cDark, mDark, light, y, kDark, lk, llk) \<Rightarrow>
      let f = cut_span (y0 * br_width req) (n * br_width req)
      in (f cDark, f mDark, cut2 (y0 * br_width req) (n * br_width req) light, f y, f kDark, f lk, f llk))"
proof -
  note le = strip_le [OF assms(1), of "br_width req"]
  have nw: "br_width req * n = n * br_width req" by (rule mult.commute)
  obtain c m y k where pl: "pl = (c, m, y, k)" by (cases pl)
  note len = assms(2) [unfolded pl sized4_def prod.case]
  show ?thesis
  proof (cases "combo_luts req")
    case None
    show ?thesis
      using fade_planes_cut [of c "br_width req * br_height req" m y
          "(snd (split2_plane cs (br_width req * br_height req) c), snd (split2_plane ms (br_width req * br_height req) m))"]
      by (simp add: None pl full_split_def cut4_def Let_def nw len le split_beta
        lut_plane_cut split_planes_cut cut_sel cut2_def)
  next
    case (Some L)
    show ?thesis
      using fade_planes_cut [of c "br_width req * br_height req" m
          "lut_plane (ySingle L) (br_width req * br_height req) y"
          "(lut_plane (snd (cLc L)) (br_width req * br_height req) c, lut_plane (snd (mLm L)) (br_width req * br_height req) m)"]
      by (simp add: Some pl full_split_def cut4_def Let_def nw len le split_beta
        lut_plane_cut split_planes_cut cut_sel cut2_def)
  qed
qed

lemma cut4_tuple:
  "cut4 a n (c, m, y, k) = (cut_span a n c, cut_span a n m, cut_span a n y, cut_span a n k)"
  by (simp add: cut4_def)

lemma specialty_strip:
  assumes "y0 + n \<le> br_height req" and "plates_sized load (br_width req) (br_height req)"
    and "length c = br_width req * br_height req" "length m = br_width req * br_height req"
    "length y = br_width req * br_height req" "length k = br_width req * br_height req"
  shows "specialty_channel (strip_loader load (br_height req) y0) cfg path (br_width req) n
      (cut_span (y0 * br_width req) (n * br_width req) c, cut_span (y0 * br_width req) (n * br_width req) m,
       cut_span (y0 * br_width req) (n * br_width req) y, cut_span (y0 * br_width req) (n * br_width req) k) =
    cut_span (y0 * br_width req) (n * br_width req)
      (specialty_channel load cfg path (br_width req) (br_height req) (c, m, y, k))"
  using specialty_cut [of "br_width req" "br_height req" "(c, m, y, k)" load y0 n cfg path] assms
  by (simp add: sized4_def cut4_def)

theorem build_strip:
  assumes rows: "y0 + n \<le> br_height req" and sized: "images_sized req"
    and plates: "plates_sized load (br_width req) (br_height req)"
  shows "buildToneChannels Q T (strip_loader load (br_height req) y0) (strip_request y0 n req) =
    map_option (map (cut_span (y0 * br_width req) (n * br_width req))) (buildToneChannels Q T load req)"
proof (cases "br_images req")
  case (Some pl)
  define a where "a = y0 * br_width req"
  define N where "N = br_width req * br_height req"
  have pl: "sized4 N pl" using sized Some by (simp add: images_sized_def N_def)
  have le: "a + n * br_width req \<le> N" unfolding a_def N_def by (rule strip_le [OF rows])
  obtain c m y k where adj: "adjusted Q req pl = (c, m, y, k)" by (cases "adjusted Q req pl")
  have len: "length c = N" "length m = N" "length y = N" "length k = N"
    using adjusted_sized [of req pl Q] pl by (simp_all add: adj sized4_def N_def)
  have imgs: "br_images (strip_request y0 n req) = Some (cut4 a (n * br_width req) pl)"
    by (simp add: strip_request_def Some a_def)
  have adj': "adjusted Q (strip_request y0 n req) (cut4 a (n * br_width req) pl) = cut4 a (n * br_width req) (c, m, y, k)"
    using adjusted_cut [OF rows, of pl Q] pl by (simp add: adj a_def N_def)
  note adj' = adj' [unfolded cut4_tuple]
  have nw: "br_width req * n = n * br_width req" by (rule mult.commute)
  note sp = specialty_strip [OF rows plates, folded a_def N_def]
  have adj4: "sized4 N (c, m, y, k)" using len by (simp add: sized4_def)
  note dl = dark_light_cut [OF rows, of "(c, m, y, k)" Q, folded a_def N_def, OF adj4, unfolded cut4_tuple]
  note fs = full_split_cut [OF rows, of "(c, m, y, k)" Q, folded a_def N_def, OF adj4, unfolded cut4_tuple]
  note red = buildToneChannels_def imgs Some option.case option.map strip_sel
  show ?thesis
  proof (cases "br_mode req")
    case FourColor_YMCK
    then show ?thesis using le len
      by (cases "combo_luts req")
        (simp_all add: red build_four_def adj adj' Let_def nw lut_plane_cut flip: a_def N_def)
  next
    case FiveColor_YMCK_W
    then show ?thesis using le len
      by (cases "combo_luts req")
        (simp_all add: red build_five_def adj adj' Let_def nw lut_plane_cut sp flip: a_def N_def)
  next
    case SixColor_YMCK_Lm_Lc
    then show ?thesis
      by (simp add: red build_six_def adj adj' dl cut_dl_def split_beta cut_sel flip: a_def N_def)
  next
    case SevenColor_YMCK_Lm_Lc_W
    have lens: "length (fst (snd (snd (dark_light Q req cs ms (c, m, y, k))))) = N"
      "length (snd (snd (snd (dark_light Q req cs ms (c, m, y, k))))) = N" for cs ms
      using len by (simp_all add: dark_light_def Let_def N_def split: option.splits)
    show ?thesis using le len lens SevenColor_YMCK_Lm_Lc_W
      by (cases "combo_luts req")
        (simp_all add: red build_seven_def adj adj' dl cut_dl_def Let_def split_beta cut_sel sp nw lut_plane_cut
          flip: a_def N_def)
  next
    case EightColor_YMCK_Lm_Lc_Lk_LLk
    then show ?thesis
      by (simp add: red build_eight_def adj adj' fs Let_def split_beta cut_sel flip: a_def N_def)
  next
    case TenColor_YMCK_Lm_Lc_Lk_LLk_W_V
    have lens: "length (fst (snd (snd (snd (full_split Q req cs ms ks (c, m, y, k)))))) = N" for cs ms ks
      using len by (simp add: full_split_def Let_def split_beta N_def split: option.splits)
    show ?thesis using le len lens TenColor_YMCK_Lm_Lc_Lk_LLk_W_V
      by (cases "combo_luts req")
        (simp_all add: red build_ten_def adj adj' fs Let_def split_beta cut_sel sp nw lut_plane_cut
          flip: a_def N_def)
  qed
qed (simp add: buildToneChannels_def strip_request_def)

end
