(* ===== verification/Raster_Job.thy ===== *)
theory Raster_Job
  imports Prn_Delivery Canonical_Cmyk Tone_Laws
begin

text \<open>
  What the two print jobs, \<open>PrintJobMultiInk\<close> and \<open>PrintJobCMYK\<close>, have in common: the page
  size in pixels, the separation of the exported page into its four inks, the external plates,
  and the two ways to fill a spool, from packed planes and from strips. Everything the jobs ask
  the system for is in \<open>job_env\<close>. The file names of the scratch files contain random tokens;
  an image that cannot be read is a \<open>Magick::Exception\<close>.
\<close>

section \<open>The environment\<close>

record 'd job_env =
  e_disk :: "'d disk"
  e_stream :: datastream
  e_sha :: "bytes \<Rightarrow> bytes"
  e_text :: qtext
  e_scratch :: string \<comment> \<open>\<open>scratchDirectory()\<close>\<close>
  e_canonToken :: string
  e_memoryToken :: string
  e_stripToken :: string
  e_exists :: "string \<Rightarrow> bool" \<comment> \<open>\<open>QFileInfo::exists\<close>\<close>
  e_toLocal :: "string \<Rightarrow> string" \<comment> \<open>\<open>QUrl(p).toLocalFile()\<close>\<close>
  e_gray :: gray_reader
  e_plateImage :: "string \<Rightarrow> int \<Rightarrow> int \<Rightarrow> pixel_source option" \<comment> \<open>read as gray, resized\<close>
  e_resize :: "int \<Rightarrow> int \<Rightarrow> pixel_source \<Rightarrow> pixel_source option"
  e_quantum :: u64 \<comment> \<open>\<open>sizeof(Magick::Quantum)\<close>\<close>
  e_ping :: "string \<Rightarrow> (u64 \<times> u64) option"
  e_storage :: "u64 option"
  e_forced :: string

datatype job_poll = PollScreen poll | PollHash nat | PollCanonical nat | PollLine nat nat | PollFallback

datatype job_error =
    JobNotCmyk
  | JobDimensions
  | JobMaskEstimate mask_estimate_error
  | JobPreflight preflight_error
  | JobMagick \<comment> \<open>a \<open>Magick::Exception\<close>\<close>
  | JobAlpha
  | JobTones
  | JobPlate
  | JobWhite
  | JobScreen screen_error
  | JobSpool spool_error
  | JobCanonical canonical_error
  | JobCanceled

section \<open>Page size\<close>

definition isUsableDpi :: "rat \<Rightarrow> bool" where
  "isUsableDpi v \<longleftrightarrow> 10 \<le> v \<and> v \<le> 9600"

datatype resolution_units = PixelsPerInch | PixelsPerCentimeter | UndefinedUnits

definition embeddedDensity :: "resolution_units \<Rightarrow> rat \<Rightarrow> rat \<Rightarrow> (rat \<times> rat) option" where
  \<comment> \<open>\<open>None\<close> is a density without physical units\<close>
  "embeddedDensity units xResolution yResolution =
     (if units = UndefinedUnits then None
      else let scale = (\<lambda>v. if units = PixelsPerCentimeter then fl64 (v * fl64 (254 / 100)) else v);
               xDpi = scale xResolution; yDpi = scale yResolution in
        if \<not> isUsableDpi xDpi \<and> \<not> isUsableDpi yDpi then None
        else Some (if isUsableDpi xDpi then xDpi else yDpi, if isUsableDpi yDpi then yDpi else xDpi))"

definition resolvedDensity :: "(rat \<times> rat) option \<Rightarrow> rat \<Rightarrow> rat \<Rightarrow> rat \<times> rat" where
  "resolvedDensity embedded fallbackXDpi fallbackYDpi =
     (case embedded of
        Some density \<Rightarrow> density
      | None \<Rightarrow> let safeX = (if isUsableDpi fallbackXDpi then fallbackXDpi else 720) in
          (safeX, if isUsableDpi fallbackYDpi then fallbackYDpi else safeX))"

lemma resolvedDensity_usable:
  "isUsableDpi (fst (resolvedDensity (embeddedDensity u x y) fx fy)) \<and>
   isUsableDpi (snd (resolvedDensity (embeddedDensity u x y) fx fy))"
  by (auto simp: resolvedDensity_def embeddedDensity_def Let_def split: option.splits if_splits)
    (simp_all add: isUsableDpi_def)

definition scaledDimension :: "int \<Rightarrow> rat \<Rightarrow> int" where
  "scaledDimension pixels scale =
     \<lfloor>max 1 (min (of_int int_max) (of_int (lround (fl64 (fl64 (of_int pixels) * scale))) :: rat))\<rfloor>"

definition outputPixelSize :: "int \<Rightarrow> int \<Rightarrow> rat \<times> rat \<Rightarrow> int \<Rightarrow> int \<Rightarrow> (int \<times> int) option" where
  \<comment> \<open>\<open>None\<close> is the invalid \<open>QSize\<close>\<close>
  "outputPixelSize inputWidth inputHeight density outputXDpi outputYDpi =
     (if inputWidth = 0 \<or> inputHeight = 0 \<or> \<not> isUsableDpi (fst density) \<or> \<not> isUsableDpi (snd density) \<or>
         outputXDpi \<le> 0 \<or> outputYDpi \<le> 0 then None
      else Some (scaledDimension inputWidth (fl64 (of_int outputXDpi / fst density)),
                 scaledDimension inputHeight (fl64 (of_int outputYDpi / snd density))))"

definition snapToMultiple :: "int \<Rightarrow> int \<Rightarrow> int" where
  "snapToMultiple v step =
     (if step \<le> 0 then v
      else if v \<le> 0 then step
      else let q = (v + step div 2) div step in max step (q * step))"

lemma snapToMultiple_props:
  assumes "0 < step"
  shows "snapToMultiple v step mod step = 0" and "step \<le> snapToMultiple v step"
    and "step \<le> v \<Longrightarrow> 2 * \<bar>snapToMultiple v step - v\<bar> \<le> step"
proof -
  show "snapToMultiple v step mod step = 0" "step \<le> snapToMultiple v step"
    using assms by (auto simp: snapToMultiple_def Let_def max_def)
  assume v: "step \<le> v"
  define q where "q = (v + step div 2) div step"
  have d: "v + step div 2 = q * step + (v + step div 2) mod step" by (simp add: q_def)
  have m: "0 \<le> (v + step div 2) mod step" "(v + step div 2) mod step < step" using assms by simp_all
  have "1 \<le> q"
  proof -
    have "1 = step div step" using assms by simp
    also have "\<dots> \<le> q" unfolding q_def using assms v by (intro zdiv_mono1) auto
    finally show ?thesis .
  qed
  then have "step \<le> q * step" using assms by (simp add: mult_le_cancel_right1)
  then have "snapToMultiple v step = q * step" using v assms by (simp add: snapToMultiple_def q_def Let_def)
  moreover have "step - 1 \<le> 2 * (step div 2)" "2 * (step div 2) \<le> step" by simp_all
  moreover have "snapToMultiple v step - v = step div 2 - (v + step div 2) mod step"
    using d \<open>snapToMultiple v step = q * step\<close> by linarith
  ultimately show "2 * \<bar>snapToMultiple v step - v\<bar> \<le> step"
    using m by (cases "(v + step div 2) mod step \<le> step div 2") simp_all
qed

lemma scaledDimension_range: "1 \<le> scaledDimension p s \<and> scaledDimension p s \<le> int_max"
proof -
  have "(1 :: rat) \<le> max 1 (min (of_int int_max) (of_int (lround (fl64 (fl64 (of_int p) * s)))))" by simp
  moreover have "max 1 (min (of_int int_max) (of_int (lround (fl64 (fl64 (of_int p) * s))))) \<le> (of_int int_max :: rat)"
    by (simp add: int_max_def)
  ultimately show ?thesis unfolding scaledDimension_def by (simp add: le_floor_iff floor_le_iff)
qed

section \<open>Pixels and plates\<close>

definition separated :: "nat \<Rightarrow> bytes \<Rightarrow> planes4" where
  \<comment> \<open>\<open>separated[channel][pixel] = raw[pixel * 4 + channel]\<close>\<close>
  "separated pixels raw =
     (map (\<lambda>i. raw ! (4 * i)) [0..<pixels], map (\<lambda>i. raw ! (4 * i + 1)) [0..<pixels],
      map (\<lambda>i. raw ! (4 * i + 2)) [0..<pixels], map (\<lambda>i. raw ! (4 * i + 3)) [0..<pixels])"

definition alpha_planes :: "alpha_mask \<Rightarrow> planes4 \<Rightarrow> planes4 option" where
  \<comment> \<open>\<open>sourceAlphaMask.applyTo\<close> for each of the four planes\<close>
  "alpha_planes A pl =
     (case pl of (c, m, y, k) \<Rightarrow>
        Option.bind (alpha_applyTo A c) (\<lambda>c. Option.bind (alpha_applyTo A m) (\<lambda>m.
        Option.bind (alpha_applyTo A y) (\<lambda>y. Option.bind (alpha_applyTo A k) (\<lambda>k. Some (c, m, y, k))))))"

definition local_path :: "'d job_env \<Rightarrow> string \<Rightarrow> string" where
  \<comment> \<open>\<open>startsWith("file:", Qt::CaseInsensitive)\<close>\<close>
  "local_path E p = (if toLower (e_text E) (take 5 p) = ''file:'' then e_toLocal E p else p)"

definition preparePlate :: "'d job_env \<Rightarrow> int \<Rightarrow> int \<Rightarrow> string \<Rightarrow> unit + pixel_source option" where
  \<comment> \<open>\<open>Inl\<close> is an exception, \<open>Inr None\<close> a plate that is not there\<close>
  "preparePlate E width height sourcePath =
     (let path = local_path E (trimmed (e_text E) sourcePath) in
      if path = [] \<or> \<not> e_exists E path then Inr None
      else case e_plateImage E path width height of None \<Rightarrow> Inl () | Some im \<Rightarrow> Inr (Some im))"

definition loadPlate :: "'d job_env \<Rightarrow> plate_loader" where
  "loadPlate E sourcePath plateWidth plateHeight =
     (case preparePlate E (int plateWidth) (int plateHeight) sourcePath of
        Inr (Some im) \<Rightarrow> src_export im 0 plateHeight
      | _ \<Rightarrow> None)"

definition plate_rows :: "pixel_source option \<Rightarrow> int \<Rightarrow> nat \<Rightarrow> nat \<Rightarrow> nat \<Rightarrow> nat \<Rightarrow> bytes option" where
  \<comment> \<open>the loader of a strip: the rows of the plate prepared for the page\<close>
  "plate_rows plate width firstRow rowCount plateWidth plateHeight =
     (case plate of
        None \<Rightarrow> None
      | Some im \<Rightarrow> if int plateWidth \<noteq> width \<or> plateHeight \<noteq> rowCount then None else src_export im firstRow rowCount)"

definition plate_raises :: "'d job_env \<Rightarrow> int \<Rightarrow> int \<Rightarrow> string \<Rightarrow> bool" where
  \<comment> \<open>reading the plate ends in an exception\<close>
  "plate_raises E width height sourcePath =
     (case preparePlate E width height sourcePath of
        Inl _ \<Rightarrow> True
      | Inr None \<Rightarrow> False
      | Inr (Some im) \<Rightarrow> src_export im 0 (nat height) = None)"

definition mask_of_image :: "'d job_env \<Rightarrow> (string \<Rightarrow> string) \<Rightarrow> mask_loader" where
  \<comment> \<open>the mask loader of the in-memory screener; an exception of the reader ends the job like a failure\<close>
  "mask_of_image E maskPathOf key =
     (case e_gray E (maskPathOf key) of
        None \<Rightarrow> None
      | Some im \<Rightarrow>
          if img_columns im \<le> 0 \<or> img_rows im \<le> 0 then None
          else Some (concat (map (\<lambda>y. export_gray_row im y (nat (img_columns im))) [0..<nat (img_rows im)]),
                     img_columns im, img_rows im))"

section \<open>Filling a spool\<close>

definition fresh_writer :: writer where
  "fresh_writer = \<lparr>w_open = False,
     w_meta = \<lparr>sp_path = [], sp_order = [], sp_logical = 0, sp_width = 0, sp_height = 0, sp_xdpi = 0, sp_ydpi = 0,
       sp_lineBytes = 0, sp_format = 0, sp_header = replicate 12 0, sp_bodyOffset = 0, sp_bodyBytes = 0, sp_sha256 = []\<rparr>,
     w_partial = [], w_final = [], w_lines = [], w_finalized = False\<rparr>"

definition writer_destroy :: "'d disk \<Rightarrow> 'd \<times> writer \<Rightarrow> 'd" where
  "writer_destroy D st = (if w_finalized (snd st) then fst st else fst (writer_cancel D st))"

definition spool_remove :: "'d disk \<Rightarrow> spool \<Rightarrow> 'd \<Rightarrow> 'd" where
  "spool_remove D sp d = (if sp_path sp = [] then d else removeFile D (sp_path sp) d)"

definition raster_metadata :: "int list \<Rightarrow> int \<Rightarrow> int \<Rightarrow> int \<Rightarrow> int \<Rightarrow> int \<Rightarrow> u8 \<Rightarrow> u32 list \<Rightarrow> spool" where
  "raster_metadata order logical width height xdpi ydpi format header =
     \<lparr>sp_path = [], sp_order = order, sp_logical = logical, sp_width = width, sp_height = height,
      sp_xdpi = xdpi, sp_ydpi = ydpi, sp_lineBytes = line_bytes width, sp_format = format, sp_header = header,
      sp_bodyOffset = 0, sp_bodyBytes = 0, sp_sha256 = []\<rparr>"

definition write_plane_line ::
  "'d disk \<Rightarrow> (job_poll \<Rightarrow> bool) \<Rightarrow> plane list \<Rightarrow> nat \<Rightarrow> nat \<Rightarrow> 'd \<times> writer \<Rightarrow>
   (job_error \<times> 'd \<times> writer) + ('d \<times> writer)" where
  "write_plane_line D canceled packed channel row st =
     (if canceled (PollLine channel row) then Inl (JobCanceled, st)
      else case writer_writeLine D (int channel) (int row) (packed ! channel ! row) st of
        Inl (e, st) \<Rightarrow> Inl (JobSpool e, st) | Inr st \<Rightarrow> Inr st)"

definition spool_from_memory ::
  "'d job_env \<Rightarrow> (job_poll \<Rightarrow> bool) \<Rightarrow> spool \<Rightarrow> plane list \<Rightarrow> 'd \<Rightarrow> (job_error \<times> 'd) + (spool \<times> 'd)" where
  "spool_from_memory E canceled md packed d =
     (let D = e_disk E in
      case writer_create D (e_stream E) (e_memoryToken E) (e_scratch E) md (d, fresh_writer) of
        Inl (e, st) \<Rightarrow> Inl (JobSpool e, writer_destroy D st)
      | Inr st \<Rightarrow>
        (case fold_res (\<lambda>channel. fold_res (write_plane_line D canceled packed channel) [0..<nat (sp_height md)])
                [0..<nat (sp_logical md)] st of
           Inl (e, st) \<Rightarrow> Inl (e, writer_destroy D st)
         | Inr st \<Rightarrow>
           (case writer_finalize D (e_stream E) (e_sha E) (\<lambda>k. canceled (PollHash k)) st of
              Inl (e, st) \<Rightarrow> Inl (JobSpool e, writer_destroy D st)
            | Inr (sp, st) \<Rightarrow> Inr (sp, writer_destroy D st))))"

definition spool_from_strips ::
  "'v qvariant \<Rightarrow> 'd job_env \<Rightarrow> (job_poll \<Rightarrow> bool) \<Rightarrow> spool \<Rightarrow> u32 \<Rightarrow> 'v vmap \<Rightarrow> screen_channel list \<Rightarrow>
   ('d \<Rightarrow> tone_provider) \<Rightarrow> 'd \<Rightarrow> (job_error \<times> 'd) + (spool \<times> 'd)" where
  \<comment> \<open>the default strip height; when the screener fails, the lines it has written vanish with the
      partial file, so the disk left behind is the one of the new file removed. The tone provider reads the canonical
      file, which the spool does not touch, so it may look at the disk as it is before the first line\<close>
  "spool_from_strips Q E canceled md seed params chans toneProvider d =
     (let D = e_disk E in
      case writer_create D (e_stream E) (e_stripToken E) (e_scratch E) md (d, fresh_writer) of
        Inl (e, st) \<Rightarrow> Inl (JobSpool e, writer_destroy D st)
      | Inr st \<Rightarrow>
        (case screenToSpool (e_gray E) Q (sp_width md) (sp_height md) seed params chans (toneProvider (fst st))
                (spool_line_writer D) (\<lambda>p. canceled (PollScreen p)) MaximumStripRows st of
           Inl e \<Rightarrow> Inl (JobScreen e, writer_destroy D st)
         | Inr st \<Rightarrow>
           (case writer_finalize D (e_stream E) (e_sha E) (\<lambda>k. canceled (PollHash k)) st of
              Inl (e, st) \<Rightarrow> Inl (JobSpool e, writer_destroy D st)
            | Inr (sp, st) \<Rightarrow> Inr (sp, writer_destroy D st))))"

end
