(* ===== verification/Canonical_Laws.thy ===== *)
theory Canonical_Laws
  imports Raster_Job
begin

text \<open>
  The canonical file: on a disk that does not fail its creation succeeds, the file holds the page
  with the alpha multiplied in, and a row range reads back as the same rows of the page. Masking
  the interleaved page and separating it is the same as separating it and masking the four planes,
  which is what the in-memory jobs do.
\<close>

section \<open>The page with its alpha\<close>

definition alpha_covers :: "alpha_mask \<Rightarrow> int \<Rightarrow> int \<Rightarrow> bytes \<Rightarrow> bool" where
  \<comment> \<open>no mask, or one of the size of the page that holds these bytes\<close>
  "alpha_covers A w h al \<longleftrightarrow>
     (case a_image A of
        None \<Rightarrow> True
      | Some im \<Rightarrow> a_width A = w \<and> a_height A = h \<and> src_columns im = w \<and> src_rows im = h \<and> exports im 1 al)"

definition page_bytes :: "alpha_mask \<Rightarrow> bytes \<Rightarrow> bytes \<Rightarrow> nat \<Rightarrow> bytes" where
  "page_bytes A px al pixels = (if alpha_active A then mask_interleaved px al pixels else px)"

definition page_ok :: "int \<Rightarrow> int \<Rightarrow> bool" where
  \<comment> \<open>a page with a C++ \<open>int\<close> number of pixels\<close>
  "page_ok w h \<longleftrightarrow> 0 < w \<and> 0 < h \<and> w * h \<le> int_max"

lemma length_mask_interleaved [simp]: "length (mask_interleaved px al n) = 4 * n"
  by (simp add: mask_interleaved_def)

lemma mask_interleaved_nth: "i < 4 * n \<Longrightarrow> mask_interleaved px al n ! i = alpha_scale (px ! i) (al ! (i div 4))"
  by (simp add: mask_interleaved_def)

lemma page_okD:
  assumes "page_ok w h"
  shows "0 < w" "0 < h" "w \<le> int_max" "h \<le> int_max" "nat w * nat h = nat (w * h)" "w * h \<le> int_max"
proof -
  show p: "0 < w" "0 < h" "w * h \<le> int_max" using assms by (simp_all add: page_ok_def)
  have "w \<le> w * h" "h \<le> w * h" using p by simp_all
  then show "w \<le> int_max" "h \<le> int_max" using p(3) by linarith+
  show "nat w * nat h = nat (w * h)" using p by (simp add: nat_mult_distrib)
qed

lemma page_words:
  assumes "page_ok w h" and "0 \<le> a" and "a \<le> h"
  shows "unat (cast64 w * cast64 a) = nat w * nat a" and "unat (cast64 a * cast64 w * 4) = nat a * nat w * 4"
    and "nat a * nat w * 4 < 2 ^ 63"
proof -
  note P = page_okD [OF assms(1)]
  have aw: "a * w \<le> int_max"
  proof -
    have "a * w \<le> h * w" using assms(3) P(1) by (intro mult_right_mono) auto
    then show ?thesis using P(6) by (simp add: mult.commute)
  qed
  have u: "uint (cast64 a) = a" "uint (cast64 w) = w"
    using assms P by (auto intro!: uint_cast64 simp: int_max_def)
  have n0: "0 \<le> a * w" using assms(2) P(1) by simp
  have wa: "uint (cast64 w * cast64 a) = w * a"
    using aw n0 by (simp add: uint_word_ariths u int_max_def mult.commute mod_pos_pos_trivial)
  have aw': "uint (cast64 a * cast64 w * 4) = a * w * 4"
    using aw n0 by (simp add: uint_word_ariths u int_max_def mod_pos_pos_trivial)
  show "unat (cast64 w * cast64 a) = nat w * nat a"
    using assms(2) P(1) by (simp add: unat_eq_nat_uint wa nat_mult_distrib)
  show "unat (cast64 a * cast64 w * 4) = nat a * nat w * 4"
    using assms(2) P(1) by (simp add: unat_eq_nat_uint aw' nat_mult_distrib)
  have "nat a * nat w * 4 = nat (a * w * 4)" using assms(2) P(1) by (simp add: nat_mult_distrib)
  moreover have "a * w * 4 < 2 ^ 63" using aw by (simp add: int_max_def)
  ultimately show "nat a * nat w * 4 < 2 ^ 63" by (simp add: nat_less_iff)
qed

lemma separated_cut:
  assumes "length raw = w * h * 4" and "y0 + n \<le> h"
  shows "separated (n * w) (cut_span (y0 * w * 4) (n * w * 4) raw) = cut4 (y0 * w) (n * w) (separated (w * h) raw)"
proof -
  have le: "y0 * w + n * w \<le> w * h" by (rule strip_le [OF assms(2)])
  have px: "cut_span (y0 * w * 4) (n * w * 4) raw ! (4 * i + c) = raw ! (4 * (y0 * w + i) + c)"
    if "i < n * w" "c < 4" for i c
    using that le assms(1) by (subst cut_nth) (auto simp: ac_simps)
  have ch: "map (\<lambda>i. cut_span (y0 * w * 4) (n * w * 4) raw ! (4 * i + c)) [0..<n * w] =
      cut_span (y0 * w) (n * w) (map (\<lambda>i. raw ! (4 * i + c)) [0..<w * h])" if "c < 4" for c
    by (rule map_cut_cong [OF le]) (simp add: px that)
  show ?thesis
    using ch [of 0] ch [of 1] ch [of 2] ch [of 3] by (simp add: separated_def cut4_def)
qed

lemma separated_sized: "sized4 n (separated n raw)"
  by (simp add: separated_def sized4_def)

lemma mask_cut:
  assumes "length px = 4 * (w * h)" and "length al = w * h" and "y0 + n \<le> h"
  shows "mask_interleaved (cut_span (y0 * w * 4) (n * w * 4) px) (cut_span (y0 * w) (n * w) al) (w * n) =
    cut_span (y0 * w * 4) (n * w * 4) (mask_interleaved px al (w * h))"
proof -
  have le: "y0 * w + n * w \<le> w * h" by (rule strip_le [OF assms(3)])
  then have le4: "y0 * w * 4 + n * w * 4 \<le> 4 * (w * h)" by simp
  have "map (\<lambda>i. alpha_scale (cut_span (y0 * w * 4) (n * w * 4) px ! i) (cut_span (y0 * w) (n * w) al ! (i div 4)))
      [0..<n * w * 4] =
    cut_span (y0 * w * 4) (n * w * 4) (map (\<lambda>i. alpha_scale (px ! i) (al ! (i div 4))) [0..<4 * (w * h)])"
  proof (rule map_cut_cong [OF le4])
    fix i assume i: "i < n * w * 4"
    have "cut_span (y0 * w * 4) (n * w * 4) px ! i = px ! (y0 * w * 4 + i)"
      using i le4 assms(1) by (intro cut_nth) auto
    moreover have "cut_span (y0 * w) (n * w) al ! (i div 4) = al ! (y0 * w + i div 4)"
      using i le assms(2) by (intro cut_nth) auto
    ultimately show "alpha_scale (cut_span (y0 * w * 4) (n * w * 4) px ! i) (cut_span (y0 * w) (n * w) al ! (i div 4)) =
        alpha_scale (px ! (y0 * w * 4 + i)) (al ! ((y0 * w * 4 + i) div 4))" by simp
  qed
  then show ?thesis by (simp add: mask_interleaved_def ac_simps)
qed

lemma exports_rows:
  assumes "exports im n px" and "first + rc \<le> nat (src_rows im)"
  shows "src_export im first rc = Some (cut_span (first * (nat (src_columns im) * n)) (rc * (nat (src_columns im) * n)) px)"
  using assms by (simp add: exports_def)

lemma alpha_rows:
  assumes "alpha_covers A w h al" and "a_image A = Some im" and "page_ok w h" and "0 \<le> first" "0 \<le> rc" "first + rc \<le> h"
  shows "alpha_readRows A first rc = Some (cut_span (nat first * nat w) (nat rc * nat w) al)"
    and "length al = nat w * nat h"
proof -
  have A: "a_height A = h" "src_columns im = w" "src_rows im = h" "exports im 1 al"
    using assms(1,2) by (simp_all add: alpha_covers_def)
  have "nat first + nat rc \<le> nat (src_rows im)" using assms(4-6) A(3) by simp
  from exports_rows [OF A(4) this] show "alpha_readRows A first rc = Some (cut_span (nat first * nat w) (nat rc * nat w) al)"
    using assms A by (simp add: alpha_readRows_def)
  show "length al = nat w * nat h" using A by (simp add: exports_def)
qed

lemma alpha_applyTo_page:
  assumes C: "alpha_covers A w h al" and P: "page_ok w h" and t: "length tone = nat w * nat h"
  shows "alpha_applyTo A tone =
    Some (if alpha_active A then map (\<lambda>i. alpha_scale (tone ! i) (al ! i)) [0..<nat w * nat h] else tone)"
proof (cases "a_image A")
  case None
  then show ?thesis by (simp add: alpha_applyTo_def alpha_active_def)
next
  case (Some im)
  have A: "a_width A = w" "a_height A = h" using C Some by (simp_all add: alpha_covers_def)
  note D = page_okD [OF P] and R = alpha_rows [OF C Some P, of 0 h]
  have n: "unat (cast64 w * cast64 h) = nat w * nat h" using page_words(1) [OF P, of h] D by simp
  have "alpha_readRows A 0 h = Some al" "length al = nat w * nat h"
    using R D by (simp_all add: cut_span_def mult.commute)
  then show ?thesis
    using Some A D t n by (simp add: alpha_applyTo_def alpha_applyToRows_def alpha_active_def)
qed

lemma alpha_planes_page:
  assumes C: "alpha_covers A w h al" and P: "page_ok w h"
  shows "alpha_planes A (separated (nat w * nat h) px) =
    Some (separated (nat w * nat h) (page_bytes A px al (nat w * nat h)))"
proof -
  let ?N = "nat w * nat h"
  have ch: "alpha_applyTo A (map (\<lambda>i. px ! (4 * i + c)) [0..<?N]) =
      Some (map (\<lambda>i. page_bytes A px al ?N ! (4 * i + c)) [0..<?N])" if "c < 4" for c
  proof -
    have "(4 * i + c) div 4 = i" "4 * i + c < 4 * ?N" if "i < ?N" for i using \<open>c < 4\<close> that by simp_all
    then show ?thesis by (subst alpha_applyTo_page [OF C P]) (auto simp: page_bytes_def mask_interleaved_nth)
  qed
  show ?thesis using ch [of 0] ch [of 1] ch [of 2] ch [of 3] by (simp add: separated_def alpha_planes_def)
qed

section \<open>Creating and reading the file\<close>

definition canonical_path :: "string \<Rightarrow> string \<Rightarrow> string" where
  "canonical_path dir token = filePath dir (''canonical-'' @ token @ ''.cmyk8.partial'')"

definition no_canonical :: canonical where "no_canonical = \<lparr>k_path = [], k_width = 0, k_height = 0\<rparr>"

lemma canonical_strip_out:
  assumes I: "exports img 4 px" and C: "alpha_covers A (src_columns img) (src_rows img) al"
    and P: "page_ok (src_columns img) (src_rows img)" and r: "first + rc \<le> nat (src_rows img)" and nc: "\<not> canceled first"
  shows "canonical_strip D img A canceled path (nat (src_columns img)) first rc d =
    (let w = nat (src_columns img) in
     case writeAt D path (first * w * 4)
        (cut_span (first * w * 4) (rc * w * 4) (page_bytes A px al (w * nat (src_rows img)))) d of
       None \<Rightarrow> Inl (CanonicalWrite, d) | Some d \<Rightarrow> Inr d)"
proof -
  define w where "w = nat (src_columns img)"
  define h where "h = nat (src_rows img)"
  note D = page_okD [OF P]
  have px: "length px = 4 * (w * h)" using I by (simp add: exports_def w_def h_def)
  have e: "src_export img first rc = Some (cut_span (first * w * 4) (rc * w * 4) px)"
    using exports_rows [OF I r] by (simp add: w_def ac_simps)
  show ?thesis
  proof (cases "a_image A")
    case None
    then show ?thesis using nc e by (simp add: canonical_strip_def Let_def alpha_active_def page_bytes_def w_def)
  next
    case (Some im)
    have r': "int first + int rc \<le> src_rows img" using r D by linarith
    note R = alpha_rows [OF C Some P, of "int first" "int rc"]
    have rows: "alpha_readRows A (int first) (int rc) = Some (cut_span (first * w) (rc * w) al)"
      and al: "length al = w * h" using R r' by (simp_all add: w_def h_def)
    have le: "first * w + rc * w \<le> w * h" using r by (intro strip_le) (simp add: h_def)
    have "length (cut_span (first * w) (rc * w) al) = w * rc"
      using length_cut [of "first * w" "rc * w" al] le al by (simp add: mult.commute)
    moreover have "mask_interleaved (cut_span (first * w * 4) (rc * w * 4) px) (cut_span (first * w) (rc * w) al) (w * rc) =
        cut_span (first * w * 4) (rc * w * 4) (mask_interleaved px al (w * h))"
      using r by (intro mask_cut [OF px al]) (simp add: h_def)
    ultimately show ?thesis
      using nc e Some rows by (simp add: canonical_strip_def Let_def alpha_active_def page_bytes_def w_def h_def)
  qed
qed

lemma length_page:
  assumes "exports img 4 px"
  shows "length (page_bytes A px al (nat (src_columns img) * nat (src_rows img))) =
    nat (src_columns img) * nat (src_rows img) * 4"
  using assms by (simp add: page_bytes_def exports_def)

context reliable_disk
begin

lemma canonical_create_ok:
  assumes I: "exports img 4 px" and C: "alpha_covers A (src_columns img) (src_rows img) al"
    and P: "page_ok (src_columns img) (src_rows img)" and nc: "\<And>k. \<not> canceled k"
  shows "\<exists>d'. canonical_create D token dir img A canceled (d, no_canonical) =
      Inr (d', \<lparr>k_path = canonical_path dir token, k_width = src_columns img, k_height = src_rows img\<rparr>) \<and>
    contents d' = (contents d)(canonical_path dir token \<mapsto>
      page_bytes A px al (nat (src_columns img) * nat (src_rows img)))"
proof -
  define w where "w = nat (src_columns img)"
  define h where "h = nat (src_rows img)"
  define page where "page = page_bytes A px al (w * h)"
  define path where "path = canonical_path dir token"
  note D = page_okD [OF P]
  have len: "length page = w * h * 4" using length_page [OF I] by (simp add: page_def w_def h_def)
  obtain d1 where d1: "openTruncate D path d = Some d1" using openTruncate_ok by blast
  define strip where "strip = boundedRowsForWidth (src_columns img) (if alpha_active A then 5 else 4) (64 * MiB)"
  have strip: "0 < nat strip" unfolding strip_def using boundedRowsForWidth_range by (metis zero_less_nat_eq zero_less_one le_less_trans less_le_trans)
  let ?I = "\<lambda>first d'. contents d' = (contents d)(path \<mapsto> take (first * w * 4) page)"
  have step: "\<exists>t. canonical_strip D img A canceled path w first rc s = Inr t \<and> ?I (first + rc) t"
    if s: "?I first s" and rc: "0 < rc" "first + rc \<le> h" for first rc s
  proof -
    have le: "first * w + rc * w \<le> w * h" by (rule strip_le [OF rc(2)])
    let ?out = "cut_span (first * w * 4) (rc * w * 4) page"
    have c: "contents s path = Some (take (first * w * 4) page)" using s by simp
    obtain t where t: "writeAt D path (first * w * 4) ?out s = Some t"
      using writeAt_ok [of s path] c by auto
    have "length (take (first * w * 4) page) = first * w * 4" using le len by simp
    then have "overwrite (take (first * w * 4) page) (first * w * 4) ?out = take (first * w * 4) page @ ?out"
      using overwrite_end by metis
    also have "\<dots> = take ((first + rc) * w * 4) page"
      by (simp add: cut_span_def take_add [symmetric] add_mult_distrib)
    finally have "?I (first + rc) t" using writeAt_law [OF t c] s by simp
    moreover have "canonical_strip D img A canceled path w first rc s = Inr t"
      using canonical_strip_out [OF I C P, of first rc canceled D path s] rc nc t
      by (simp add: w_def h_def page_def Let_def)
    ultimately show ?thesis by blast
  qed
  have i0: "?I 0 d1" using openTruncate_law [OF d1] by simp
  have "\<exists>t. strip_loop (canonical_strip D img A canceled path w) (nat strip) h 0 d1 = Inr t \<and> ?I h t"
    by (rule strip_loop_steps [where I = ?I, OF i0 _ strip]) (use step in auto)
  then obtain d2 where
    d2: "strip_loop (canonical_strip D img A canceled path w) (nat strip) h 0 d1 = Inr d2" "?I h d2" by blast
  have "take (h * w * 4) page = page" using len by (simp add: mult.commute)
  then have "contents d2 = (contents d)(path \<mapsto> page)" using d2(2) by simp
  moreover have "canonical_create D token dir img A canceled (d, no_canonical) =
      Inr (d2, \<lparr>k_path = path, k_width = src_columns img, k_height = src_rows img\<rparr>)"
    using D d1 d2(1)
    by (simp add: canonical_create_def canonical_remove_def no_canonical_def Let_def strip_def w_def h_def
        path_def canonical_path_def)
  ultimately show ?thesis by (auto simp: path_def page_def w_def h_def)
qed

lemma canonical_readRows_ok:
  assumes c: "contents d (k_path K) = Some page" and P: "page_ok (k_width K) (k_height K)"
    and len: "length page = nat (k_width K) * nat (k_height K) * 4"
    and r: "0 < rc" "first + rc \<le> nat (k_height K)"
  shows "canonical_readRows D K (int first) (int rc) d =
    Inr (cut_span (first * nat (k_width K) * 4) (rc * nat (k_width K) * 4) page)"
proof -
  note D = page_okD [OF P]
  let ?w = "nat (k_width K)"
  have f: "unat (cast64 (int first) * cast64 (k_width K) * 4) = first * ?w * 4" "first * ?w * 4 < 2 ^ 63"
    using page_words(2,3) [OF P, of "int first"] r D by simp_all
  have n: "unat (cast64 (int rc) * cast64 (k_width K) * 4) = rc * ?w * 4" "rc * ?w * 4 < 2 ^ 63"
    using page_words(2,3) [OF P, of "int rc"] r D by simp_all
  obtain x where x: "readAt D (k_path K) (first * ?w * 4) (rc * ?w * 4) d = Some x"
    using readAt_ok [of d "k_path K"] c by auto
  have x': "x = cut_span (first * ?w * 4) (rc * ?w * 4) page" using readAt_law [OF x c] by (simp add: cut_span_def)
  have "first * ?w + rc * ?w \<le> ?w * nat (k_height K)" by (rule strip_le [OF r(2)])
  then have "length x = rc * ?w * 4" unfolding x' using len by (intro length_cut) simp
  then show ?thesis
    using r f n x D unfolding canonical_readRows_def Let_def f(1) n(1) by (simp add: x')
qed

end

section \<open>Capturing the alpha channel\<close>

lemma alpha_capture_ok:
  assumes I: "exports im 1 al" and nc: "\<And>k. \<not> canceled k"
    and g: "readGray (src_columns im) (src_rows im) al = Some gray"
  shows "alpha_capture readGray canceled (Some im) =
    (True, \<lparr>a_width = src_columns im, a_height = src_rows im, a_image = Some gray\<rparr>)"
proof -
  let ?w = "nat (src_columns im)" and ?h = "nat (src_rows im)"
  have d: "0 < src_columns im" "0 < src_rows im" "length al = ?w * ?h" using I by (simp_all add: exports_def)
  let ?I = "\<lambda>first raw. raw = take (first * ?w) al"
  have step: "\<exists>t. capture_strip im canceled first rc s = Inr t \<and> ?I (first + rc) t"
    if "?I first s" and "0 < rc" and "first + rc \<le> ?h" for first rc s
    using exports_rows [OF I that(3)] that(1) nc
    by (simp add: capture_strip_def cut_span_def take_add add_mult_distrib)
  have "?I 0 []" by simp
  from strip_loop_steps [where I = ?I and strip = 128, OF this _ _ step] obtain raw where
    "strip_loop (capture_strip im canceled) 128 ?h 0 [] = Inr raw" "raw = take (?h * ?w) al" by auto
  then show ?thesis using d g by (simp add: alpha_capture_def mult.commute)
qed

end
