(* ===== verification/Raster_Job_Laws.thy ===== *)
theory Raster_Job_Laws
  imports Canonical_Laws
begin

text \<open>
  Filling a spool from packed planes succeeds on a disk that does not fail, the plates and the
  alpha mask of a strip are the rows of those of the page, and the separated rows of the
  canonical file are the rows of the separated page.
\<close>

section \<open>Loops\<close>

lemma fold_res_concat: "fold_res f (concat xss) = fold_res (fold_res f) xss"
proof
  show "fold_res f (concat xss) s = fold_res (fold_res f) xss s" for s
  proof (induction xss arbitrary: s)
    case (Cons xs xss)
    then show ?case by (cases "fold_res f xs s") (simp_all add: fold_res_append)
  qed simp
qed

lemma fold_res_map: "fold_res f (map g xs) = fold_res (\<lambda>x. f (g x)) xs"
proof
  show "fold_res f (map g xs) s = fold_res (\<lambda>x. f (g x)) xs s" for s
  proof (induction xs arbitrary: s)
    case (Cons x xs)
    then show ?case by (cases "f (g x) s") simp_all
  qed simp
qed

lemma fold_res_Inr_mono:
  assumes "fold_res f xs s = Inr t" and "\<And>x s t. x \<in> set xs \<Longrightarrow> f x s = Inr t \<Longrightarrow> g x s = Inr t"
  shows "fold_res g xs s = Inr t"
  using assms
proof (induction xs arbitrary: s)
  case (Cons x xs)
  then obtain u where "f x s = Inr u" "fold_res f xs u = Inr t" by (auto simp: bind_res_eq_Inr)
  with Cons show ?case by simp
qed simp

definition plane_lines :: "plane list \<Rightarrow> nat \<Rightarrow> emission list" where
  \<comment> \<open>every line, channel by channel\<close>
  "plane_lines planes h = concat (map (\<lambda>ch. map (\<lambda>y. (ch, y, planes ! ch ! y)) [0..<h]) [0..<length planes])"

lemma plane_lines_all: "emits_all (plane_lines planes h) planes h"
  by (auto simp: emits_all_def plane_lines_def image_iff)

lemma write_plane_lines:
  assumes "fold_res (spool_put D) (plane_lines planes h) st = Inr st'" and nc: "\<And>p. \<not> canceled p"
  shows "fold_res (\<lambda>ch. fold_res (write_plane_line D canceled planes ch) [0..<h]) [0..<length planes] st = Inr st'"
proof -
  have "fold_res (\<lambda>ch. fold_res (\<lambda>y. spool_put D (ch, y, planes ! ch ! y)) [0..<h]) [0..<length planes] st = Inr st'"
    using assms(1) by (simp add: plane_lines_def fold_res_concat fold_res_map)
  moreover have "fold_res (write_plane_line D canceled planes ch) [0..<h] s = Inr t"
    if "fold_res (\<lambda>y. spool_put D (ch, y, planes ! ch ! y)) [0..<h] s = Inr t" for ch s t
    using that by (rule fold_res_Inr_mono) (simp add: write_plane_line_def spool_put_def nc)
  ultimately show ?thesis by (rule fold_res_Inr_mono)
qed

section \<open>Metadata\<close>

lemma raster_metadata_valid:
  assumes P: "page_ok w h" and n: "0 < n" "n \<le> 16" "n * h \<le> int_max"
    and dpi: "0 < xdpi" "0 < ydpi" "xdpi \<le> int_max" "ydpi \<le> int_max"
    and order: "order \<noteq> []" "length order \<le> 16" "\<forall>c \<in> set order. 0 \<le> c \<and> c < n"
    and header: "length header = 12"
  shows "metadataIsValid (spool_meta (raster_metadata order n w h xdpi ydpi format header)) = Inr ()"
    and "spool_typed (raster_metadata order n w h xdpi ydpi format header)"
proof -
  note D = page_okD [OF P]
  let ?m = "raster_metadata order n w h xdpi ydpi format header"
  have lb: "0 < line_bytes w" "line_bytes w \<le> w + 3"
    using line_bytes_nonneg [OF D(1)] D(1) by (auto simp: line_bytes_def and_not_3_int)
  have lbm: "line_bytes w \<le> int_max"
  proof -
    have "line_bytes w = 4 * (((w + 3) div 4 + 3) div 4)" by (simp only: line_bytes_def and_not_3_int)
    then show ?thesis using D(3) by (simp add: int_max_def)
  qed
  have nh: "0 < n * h" using n D by simp
  have u: "uint (cast64 n) = n" "uint (cast64 h) = h" "uint (cast64 (line_bytes w)) = line_bytes w"
    using n D lb lbm by (auto intro!: uint_cast64 simp: int_max_def)
  have nhw: "uint (cast64 n * cast64 h) = n * h"
    using n(3) nh by (simp add: uint_word_ariths u int_max_def mod_pos_pos_trivial)
  have big: "n * h * line_bytes w \<le> int_max * int_max" using n(3) lbm lb nh by (intro mult_mono) auto
  have pos: "0 < n * h * line_bytes w" using nh lb by simp
  have fit: "uint (cast64 n * cast64 h) * uint (cast64 (line_bytes w)) < 2 ^ 64"
    using big by (simp add: nhw u int_max_def)
  have "0 < uint (cast64 (line_bytes w))" using lb by (simp add: u)
  from gt_div_max [OF this, of "cast64 n * cast64 h"] fit
  have "\<not> cast64 n * cast64 h > - 1 div cast64 (line_bytes w)" by simp
  then have e: "expectedBodyBytes ?m = cast64 n * cast64 h * cast64 (line_bytes w)"
    using n D lb by (simp add: expectedBodyBytes_def raster_metadata_def Let_def)
  have "uint (cast64 n * cast64 h * cast64 (line_bytes w)) = n * h * line_bytes w"
    using uint_mul64 [OF fit] by (simp add: nhw u)
  then have "expectedBodyBytes ?m \<noteq> 0" unfolding e using pos by (metis less_irrefl unsigned_0)
  moreover have "\<not> cast64 n * cast64 h > cast64 int_max"
    using n(3) nhw by (simp add: word_less_def int_max_def)
  moreover have "((cast64 w + 3) div 4 + 3) AND NOT 3 = cast64 (line_bytes w)"
    using D by (intro line_bytes_word) auto
  ultimately show "metadataIsValid (spool_meta ?m) = Inr ()"
    using D n lb dpi order by (auto simp: metadataIsValid_def spool_meta_def) (auto simp: raster_metadata_def)
  have "int_min \<le> 0" by (simp add: int_min_def)
  moreover have "n \<le> int_max" using n(2) by (simp add: int_max_def)
  moreover have "fits_int c" if "c \<in> set order" for c
    using order(3) that n(2) \<open>int_min \<le> 0\<close> \<open>n \<le> int_max\<close> unfolding fits_int_def by force
  ultimately show "spool_typed ?m"
    using D n lbm lb dpi header by (auto simp: spool_typed_def raster_metadata_def fits_int_def)
qed

section \<open>Scratch files\<close>

lemma scratch_paths:
  "final_path dir s \<noteq> partial_path dir t" "partial_path dir t \<noteq> final_path dir s"
  "canonical_path dir u \<noteq> final_path dir s" "canonical_path dir u \<noteq> partial_path dir t"
  "final_path dir s \<noteq> canonical_path dir u" "partial_path dir t \<noteq> canonical_path dir u"
proof -
  have "rev (final_path dir s) ! 0 \<noteq> rev (partial_path dir t) ! 0"
    by (simp add: final_path_def partial_path_def filePath_def)
  then show "final_path dir s \<noteq> partial_path dir t" "partial_path dir t \<noteq> final_path dir s" by auto
qed (simp_all add: canonical_path_def final_path_def partial_path_def filePath_def)

section \<open>Spools\<close>

definition delivered ::
  "('d \<Rightarrow> string \<Rightarrow> bytes option) \<Rightarrow> datastream \<Rightarrow> (bytes \<Rightarrow> bytes) \<Rightarrow> spool \<Rightarrow> string \<Rightarrow> string \<Rightarrow> plane list \<Rightarrow>
   'd \<Rightarrow> spool \<Rightarrow> 'd \<Rightarrow> bool" where
  \<comment> \<open>the spool of \<open>planes\<close> is there, its partial file is gone, every other file is as it was\<close>
  "delivered contents S sha md dir token planes d sp d' \<longleftrightarrow>
     sp = with_disk_fields (spool_meta md) (final_path dir token) (sp_sha256 sp) \<and>
     sp_sha256 sp = sha (encodeHeader S (spool_meta md) [] @ concat (concat planes)) \<and>
     spool_at contents S d' (final_path dir token) (spool_meta md) (sp_sha256 sp) planes \<and>
     contents d' (partial_path dir token) = None \<and>
     (\<forall>q. q \<noteq> partial_path dir token \<longrightarrow> q \<noteq> final_path dir token \<longrightarrow> contents d' q = contents d q)"

lemma deliveredD:
  assumes "delivered contents S sha md dir token planes d sp d'"
  shows "sp = with_disk_fields (spool_meta md) (final_path dir token) (sp_sha256 sp)"
    and "spool_at contents S d' (final_path dir token) (spool_meta md) (sp_sha256 sp) planes"
    and "sp_sha256 sp = sha (encodeHeader S (spool_meta md) [] @ concat (concat planes))"
    and "\<forall>q. q \<noteq> partial_path dir token \<longrightarrow> q \<noteq> final_path dir token \<longrightarrow> contents d' q = contents d q"
  using assms unfolding delivered_def by blast+

lemma delivered_same:
  assumes "delivered contents S sha md dir t1 planes d sp1 d1" and "delivered contents S sha md dir t2 planes d sp2 d2"
  shows "contents d1 (sp_path sp1) \<noteq> None" and "contents d1 (sp_path sp1) = contents d2 (sp_path sp2)"
proof -
  have p: "sp_path sp1 = final_path dir t1" "sp_path sp2 = final_path dir t2"
    by (subst deliveredD(1) [OF assms(1)], simp add: with_disk_fields_def)
      (subst deliveredD(1) [OF assms(2)], simp add: with_disk_fields_def)
  show "contents d1 (sp_path sp1) \<noteq> None" "contents d1 (sp_path sp1) = contents d2 (sp_path sp2)"
    using deliveredD(2,3) [OF assms(1)] deliveredD(2,3) [OF assms(2)] by (simp_all add: p spool_at_def)
qed

lemma meta_disk_fields:
  "(spool_meta md)\<lparr>sp_path := path, sp_sha256 := checksum\<rparr> = with_disk_fields (spool_meta md) path checksum"
  by (cases md) (simp add: with_disk_fields_def spool_meta_def)

context reliable_store
begin

lemma delivered_spool_at:
  assumes shape: "spool_shape md planes" and sha: "\<And>x. length (sha x) = 32"
    and c: "contents d' path = Some (encodeHeader S (spool_meta md) checksum @ concat (concat planes))"
    and sum: "checksum = sha x"
  shows "spool_at contents S d' path (spool_meta md) checksum planes"
proof -
  have v: "metadataIsValid (spool_meta md) = Inr ()" and t: "spool_typed md"
    and len: "length planes = nat (sp_logical md)"
    and rows: "\<forall>p \<in> set planes. length p = nat (sp_height md) \<and> (\<forall>l \<in> set p. length l = nat (sp_lineBytes md))"
    using shape by (simp_all add: spool_shape_def)
  have mt: "spool_typed (spool_meta md)" using t by (simp add: spool_meta_def spool_typed_def)
  note F = valid_fields [OF v]
  have l32: "length checksum \<le> 32" using sha sum by simp
  have h: "length (encodeHeader S (spool_meta md) checksum) = 4096"
    using mt F(9) l32 by (intro encodeHeader_size) (auto simp: spool_typed_def)
  have "length (concat planes) = nat (sp_logical md) * nat (sp_height md)"
    using length_concat_lines [of planes "nat (sp_height md)"] rows len by simp
  moreover have "\<forall>l \<in> set (concat planes). length l = nat (sp_lineBytes md)" using rows by auto
  ultimately have b: "length (concat (concat planes)) = body_size (spool_meta md)"
    using length_concat_lines [of "concat planes" "nat (sp_lineBytes md)"]
    using F(2,5,6) by (simp add: body_size_def spool_meta_def nat_mult_distrib ac_simps)
  have "spool_file (spool_meta md) (encodeHeader S (spool_meta md) checksum @ concat (concat planes))"
    using v mt h b by (simp add: spool_file_def) (simp add: spool_meta_def)
  then show ?thesis
    using c l32 len rows by (simp add: spool_at_def) (simp add: spool_meta_def)
qed

lemma memory_delivers:
  assumes E: "e_disk E = D" "e_stream E = S" and shape: "spool_shape md planes"
    and nc: "\<And>p. \<not> canceled p" and sha: "\<And>x. length (e_sha E x) = 32"
    and free: "contents d (final_path (e_scratch E) (e_memoryToken E)) = None"
  shows "\<exists>sp d'. spool_from_memory E canceled md planes d = Inr (sp, d') \<and>
    delivered contents S (e_sha E) md (e_scratch E) (e_memoryToken E) planes d sp d'"
proof -
  let ?dir = "e_scratch E" and ?token = "e_memoryToken E"
  have len: "nat (sp_logical md) = length planes" using shape by (simp add: spool_shape_def)
  have "contents (fst (d, fresh_writer)) (final_path ?dir ?token) = None" using free by simp
  from deliver_lines [where hashCanceled = "\<lambda>k. canceled (PollHash k)" and sha = "e_sha E",
      OF shape plane_lines_all nc sha this] obtain W1 d1 d2 W2 d3 W3 sp where
    R: "writer_create D S ?token ?dir md (d, fresh_writer) = Inr (d1, W1)"
    "fold_res (spool_put D) (plane_lines planes (nat (sp_height md))) (d1, W1) = Inr (d2, W2)"
    "writer_finalize D S (e_sha E) (\<lambda>k. canceled (PollHash k)) (d2, W2) = Inr (sp, d3, W3)"
    "sp_sha256 sp = e_sha E (encodeHeader S (spool_meta md) [] @ concat (concat planes))"
    "sp = (spool_meta md)\<lparr>sp_path := final_path ?dir ?token, sp_sha256 := sp_sha256 sp\<rparr>"
    "contents d3 (final_path ?dir ?token) = Some (encodeHeader S (spool_meta md) (sp_sha256 sp) @ concat (concat planes))"
    "w_finalized W3" "contents d3 (partial_path ?dir ?token) = None"
    "\<forall>q. q \<noteq> partial_path ?dir ?token \<longrightarrow> q \<noteq> final_path ?dir ?token \<longrightarrow>
      (w_partial (snd (d, fresh_writer)) = [] \<or> q \<noteq> w_partial (snd (d, fresh_writer))) \<longrightarrow>
      contents d3 q = contents (fst (d, fresh_writer)) q"
    by blast
  have run: "spool_from_memory E canceled md planes d = Inr (sp, d3)"
    using R(1,3,7) write_plane_lines [where canceled = canceled, OF R(2) nc]
    by (simp add: spool_from_memory_def E len writer_destroy_def)
  have "sp = with_disk_fields (spool_meta md) (final_path ?dir ?token) (sp_sha256 sp)"
    using R(5) unfolding meta_disk_fields .
  then have "delivered contents S (e_sha E) md ?dir ?token planes d sp d3"
    using R(4,8,9) delivered_spool_at [where sha = "e_sha E", OF shape sha R(6,4)]
    by (simp add: delivered_def fresh_writer_def)
  then show ?thesis using run by blast
qed

lemma strips_deliver:
  assumes E: "e_disk E = D" "e_stream E = S" and read: "e_gray E = read"
    and J: "same_job Q load read req cs planes" and md: "spool_for req md"
    and tp: "\<And>d1. \<forall>q. q \<noteq> partial_path (e_scratch E) (e_stripToken E) \<longrightarrow> contents d1 q = contents d q \<Longrightarrow>
      serves_planes (provider d1) planes (nat (req_width req)) (nat (req_height req))"
    and nc: "\<And>p. \<not> canceled p" and sha: "\<And>x. length (e_sha E x) = 32"
    and free: "contents d (final_path (e_scratch E) (e_stripToken E)) = None"
  shows "\<exists>sp d' allPacked. spool_from_strips Q E canceled md (screenSeed req) (modeParams req) cs provider d = Inr (sp, d') \<and>
    screenChannels Q load (\<lambda>p. canceled (PollScreen p)) req = Inr allPacked \<and> spool_shape md allPacked \<and>
    delivered contents S (e_sha E) md (e_scratch E) (e_stripToken E) allPacked d sp d'"
proof -
  let ?dir = "e_scratch E" and ?token = "e_stripToken E"
  have v: "metadataIsValid (md\<lparr>sp_bodyOffset := HeaderBytes, sp_bodyBytes := expectedBodyBytes md, sp_sha256 := []\<rparr>) = Inr ()"
    and t: "spool_typed md" using md by (simp_all add: spool_for_def)
  from create_ok [OF v t, of ?token ?dir "(d, fresh_writer)"] obtain d1 W1 where
    c: "writer_create D S ?token ?dir md (d, fresh_writer) = Inr (d1, W1)"
    "\<forall>q. q \<noteq> partial_path ?dir ?token \<longrightarrow> contents d1 q = contents d q"
    by (auto simp: fresh_writer_def partial_path_def)
  have "contents (fst (d, fresh_writer)) (final_path ?dir ?token) = None" using free by simp
  from stream_delivers [where canceled = "\<lambda>p. canceled (PollScreen p)" and sha = "e_sha E"
      and hashCanceled = "\<lambda>k. canceled (PollHash k)" and strip = MaximumStripRows,
      OF J nc nc tp [OF c(2)] md sha this] obtain st2 sp d3 W3 allPacked where
    R: "screenToSpool read Q (req_width req) (req_height req) (screenSeed req) (modeParams req) cs (provider d1)
      (spool_line_writer D) (\<lambda>p. canceled (PollScreen p)) MaximumStripRows (d1, W1) = Inr st2"
    "writer_finalize D S (e_sha E) (\<lambda>k. canceled (PollHash k)) st2 = Inr (sp, d3, W3)"
    "screenChannels Q load (\<lambda>p. canceled (PollScreen p)) req = Inr allPacked" "spool_shape md allPacked"
    "sp = (spool_meta md)\<lparr>sp_path := final_path ?dir ?token, sp_sha256 := sp_sha256 sp\<rparr>"
    "contents d3 (final_path ?dir ?token) = Some (encodeHeader S (spool_meta md) (sp_sha256 sp) @ concat (concat allPacked))"
    "sp_sha256 sp = e_sha E (encodeHeader S (spool_meta md) [] @ concat (concat allPacked))"
    "w_finalized W3" "contents d3 (partial_path ?dir ?token) = None"
    "\<forall>q. q \<noteq> partial_path ?dir ?token \<longrightarrow> q \<noteq> final_path ?dir ?token \<longrightarrow>
      (w_partial (snd (d, fresh_writer)) = [] \<or> q \<noteq> w_partial (snd (d, fresh_writer))) \<longrightarrow>
      contents d3 q = contents (fst (d, fresh_writer)) q"
    unfolding c(1) by auto
  have dims: "sp_width md = req_width req" "sp_height md = req_height req" using md by (simp_all add: spool_for_def)
  have run: "spool_from_strips Q E canceled md (screenSeed req) (modeParams req) cs provider d = Inr (sp, d3)"
    using R(1,2,8) by (simp add: spool_from_strips_def E read c(1) dims writer_destroy_def)
  have "sp = with_disk_fields (spool_meta md) (final_path ?dir ?token) (sp_sha256 sp)"
    using R(5) unfolding meta_disk_fields .
  then have "delivered contents S (e_sha E) md ?dir ?token allPacked d sp d3"
    using R(7,9,10) delivered_spool_at [where sha = "e_sha E", OF R(4) sha R(6,7)]
    by (simp add: delivered_def fresh_writer_def)
  then show ?thesis using run R(3,4) by blast
qed

lemma delivered_canonical_gone:
  assumes del: "delivered contents S sha md dir token planes d1 sp d2"
    and c: "contents d1 = (contents d)(canonical_path dir ctoken \<mapsto> page)"
    and free: "contents d (canonical_path dir ctoken) = None" and K: "k_path K = canonical_path dir ctoken"
  shows "delivered contents S sha md dir token planes d sp (fst (canonical_remove D (d2, K)))"
proof -
  have ne: "canonical_path dir ctoken \<noteq> []" by (simp add: canonical_path_def filePath_def)
  have r: "contents (fst (canonical_remove D (d2, K))) = (contents d2)(canonical_path dir ctoken := None)"
    using ne by (simp add: canonical_remove_def K removeFile_law)
  show ?thesis
    using del free scratch_paths unfolding delivered_def spool_at_def r by (auto simp: c)
qed

lemma both_backends_deliver:
  assumes E: "e_disk E = D" "e_stream E = S"
    and I: "exports img 4 px" and A: "alpha_covers A (src_columns img) (src_rows img) al"
    and P: "page_ok (src_columns img) (src_rows img)"
    and K: "K = \<lparr>k_path = canonical_path (e_scratch E) (e_canonToken E), k_width = src_columns img, k_height = src_rows img\<rparr>"
    and J: "same_job Q load (e_gray E) req cs tones" and md: "spool_for req md"
    and serve: "\<And>d2. contents d2 (k_path K) = Some (page_bytes A px al (nat (src_columns img) * nat (src_rows img))) \<Longrightarrow>
      serves_planes (provider d2) tones (nat (req_width req)) (nat (req_height req))"
    and nc: "\<And>p. \<not> canceled p" and sha: "\<And>x. length (e_sha E x) = 32"
    and free: "contents d (final_path (e_scratch E) (e_memoryToken E)) = None"
      "contents d (final_path (e_scratch E) (e_stripToken E)) = None"
      "contents d (canonical_path (e_scratch E) (e_canonToken E)) = None"
  shows "\<exists>planes spM dM d1 spB d2.
    screenChannels Q load (\<lambda>p. canceled (PollScreen p)) req = Inr planes \<and>
    spool_from_memory E canceled md planes d = Inr (spM, dM) \<and>
    delivered contents S (e_sha E) md (e_scratch E) (e_memoryToken E) planes d spM dM \<and>
    canonical_create D (e_canonToken E) (e_scratch E) img A (\<lambda>k. canceled (PollCanonical k)) (d, no_canonical) = Inr (d1, K) \<and>
    spool_from_strips Q E canceled md (screenSeed req) (modeParams req) cs provider d1 = Inr (spB, d2) \<and>
    delivered contents S (e_sha E) md (e_scratch E) (e_stripToken E) planes d spB (fst (canonical_remove D (d2, K)))"
proof -
  let ?page = "page_bytes A px al (nat (src_columns img) * nat (src_rows img))"
  have kp: "k_path K = canonical_path (e_scratch E) (e_canonToken E)" by (simp add: K)
  obtain d1 where d1: "canonical_create D (e_canonToken E) (e_scratch E) img A
      (\<lambda>k. canceled (PollCanonical k)) (d, no_canonical) = Inr (d1, K)" "contents d1 = (contents d)(k_path K \<mapsto> ?page)"
    using canonical_create_ok [where canceled = "\<lambda>k. canceled (PollCanonical k)", OF I A P nc,
        of "e_canonToken E" "e_scratch E" d] unfolding K by auto
  have sv: "serves_planes (provider d2) tones (nat (req_width req)) (nat (req_height req))"
    if "\<forall>q. q \<noteq> partial_path (e_scratch E) (e_stripToken E) \<longrightarrow> contents d2 q = contents d1 q" for d2
    using that scratch_paths d1(2) by (intro serve) (simp add: kp)
  have f1: "contents d1 (final_path (e_scratch E) (e_stripToken E)) = None"
    using d1(2) free(2) scratch_paths by (simp add: kp)
  from strips_deliver [where canceled = canceled and provider = provider, OF E refl J md sv nc sha f1]
  obtain spB d2 planes where
    B: "spool_from_strips Q E canceled md (screenSeed req) (modeParams req) cs provider d1 = Inr (spB, d2)"
    "screenChannels Q load (\<lambda>p. canceled (PollScreen p)) req = Inr planes" "spool_shape md planes"
    "delivered contents S (e_sha E) md (e_scratch E) (e_stripToken E) planes d1 spB d2" by blast
  from memory_delivers [where canceled = canceled, OF E B(3) nc sha free(1)] obtain spM dM where
    M: "spool_from_memory E canceled md planes d = Inr (spM, dM)"
    "delivered contents S (e_sha E) md (e_scratch E) (e_memoryToken E) planes d spM dM" by blast
  have "delivered contents S (e_sha E) md (e_scratch E) (e_stripToken E) planes d spB (fst (canonical_remove D (d2, K)))"
    by (rule delivered_canonical_gone [OF B(4) d1(2) [unfolded kp] free(3) kp])
  then show ?thesis using B(1,2) M d1(1) by blast
qed

end

end
