(* ===== verification/Multi_Ink_Job.thy ===== *)
theory Multi_Ink_Job
  imports Raster_Job
begin

text \<open>
  \<open>PrintJobMultiInk\<close>: from the prepared job (a CMYK page, its alpha mask, the mode parameters,
  the curves and the dot strategy) to the raster spool, with both raster backends and the
  fallback from one to the other, and on to the PRN file.
\<close>

section \<open>Modes and channels\<close>

fun mode_number :: "ink_mode \<Rightarrow> int" where
  \<comment> \<open>\<open>static_cast<int>(m_inkMode)\<close>\<close>
  "mode_number FourColor_YMCK = 4"
| "mode_number FiveColor_YMCK_W = 5"
| "mode_number SixColor_YMCK_Lm_Lc = 6"
| "mode_number SevenColor_YMCK_Lm_Lc_W = 7"
| "mode_number EightColor_YMCK_Lm_Lc_Lk_LLk = 8"
| "mode_number TenColor_YMCK_Lm_Lc_Lk_LLk_W_V = 10"

definition isSupportedMultiInkMode :: "int \<Rightarrow> bool" where
  "isSupportedMultiInkMode mode \<longleftrightarrow> mode \<in> {4, 5, 6, 7, 8, 10}"

definition mode_of_number :: "int \<Rightarrow> ink_mode" where
  \<comment> \<open>the \<open>switch\<close> of \<open>setInkMode\<close>, unknown modes included\<close>
  "mode_of_number mode =
     (if mode = 4 then FourColor_YMCK
      else if mode = 5 then FiveColor_YMCK_W
      else if mode = 6 then SixColor_YMCK_Lm_Lc
      else if mode = 7 then SevenColor_YMCK_Lm_Lc_W
      else if mode = 8 then EightColor_YMCK_Lm_Lc_Lk_LLk
      else if mode = 10 then TenColor_YMCK_Lm_Lc_Lk_LLk_W_V
      else FourColor_YMCK)"

fun channel_order :: "ink_mode \<Rightarrow> int list" where
  "channel_order FourColor_YMCK = [2, 1, 0, 3]"
| "channel_order FiveColor_YMCK_W = [2, 1, 0, 3, 4]"
| "channel_order SixColor_YMCK_Lm_Lc = [2, 1, 0, 3, 4, 5]"
| "channel_order SevenColor_YMCK_Lm_Lc_W = [2, 1, 0, 3, 4, 5, 6]"
| "channel_order EightColor_YMCK_Lm_Lc_Lk_LLk = [2, 1, 0, 3, 5, 4, 6, 7]"
| "channel_order TenColor_YMCK_Lm_Lc_Lk_LLk_W_V = [2, 1, 0, 3, 5, 4, 6, 7, 8, 9]"

definition specialtyMaskKey :: "'v qvariant \<Rightarrow> qtext \<Rightarrow> 'v vmap \<Rightarrow> string \<Rightarrow> string \<Rightarrow> string" where
  "specialtyMaskKey Q T params name def =
     (let key = trimmed T (toStr Q (mapValue params name (ofStr Q def))) in if key = [] then def else key)"

definition maskKeyForChannel :: "'v qvariant \<Rightarrow> qtext \<Rightarrow> 'v vmap \<Rightarrow> ink_mode \<Rightarrow> int \<Rightarrow> string" where
  "maskKeyForChannel Q T params mode channelIndex =
     (let whiteMaskKey = specialtyMaskKey Q T params ''whiteMaskKey'' ''w'';
          varnishMaskKey = specialtyMaskKey Q T params ''varnishMaskKey'' ''v'';
          lookup = (\<lambda>keys. if 0 \<le> channelIndex \<and> channelIndex < int (length keys)
                           then keys ! nat channelIndex else ''c'')
      in lookup (case mode of
           FourColor_YMCK \<Rightarrow> [''c'', ''m'', ''y'', ''k'']
         | FiveColor_YMCK_W \<Rightarrow> [''c'', ''m'', ''y'', ''k'', whiteMaskKey]
         | SixColor_YMCK_Lm_Lc \<Rightarrow> [''c'', ''m'', ''y'', ''k'', ''lm'', ''lc'']
         | SevenColor_YMCK_Lm_Lc_W \<Rightarrow> [''c'', ''m'', ''y'', ''k'', ''lm'', ''lc'', whiteMaskKey]
         | EightColor_YMCK_Lm_Lc_Lk_LLk \<Rightarrow> [''c'', ''m'', ''y'', ''k'', ''lc'', ''lm'', ''lk'', ''llk'']
         | TenColor_YMCK_Lm_Lc_Lk_LLk_W_V \<Rightarrow>
             [''c'', ''m'', ''y'', ''k'', ''lc'', ''lm'', ''lk'', ''llk'', whiteMaskKey, varnishMaskKey]))"

definition isLightChannel :: "ink_mode \<Rightarrow> nat \<Rightarrow> bool" where
  "isLightChannel mode ch \<longleftrightarrow>
     (if mode \<in> {SixColor_YMCK_Lm_Lc, SevenColor_YMCK_Lm_Lc_W} then ch = 4 \<or> ch = 5
      else if mode \<in> {EightColor_YMCK_Lm_Lc_Lk_LLk, TenColor_YMCK_Lm_Lc_Lk_LLk_W_V} then 4 \<le> ch \<and> ch \<le> 7
      else False)"

definition isWhiteChannel :: "ink_mode \<Rightarrow> nat \<Rightarrow> bool" where
  "isWhiteChannel mode ch \<longleftrightarrow>
     (mode = FiveColor_YMCK_W \<and> ch = 4) \<or> (mode = SevenColor_YMCK_Lm_Lc_W \<and> ch = 6) \<or>
     (mode = TenColor_YMCK_Lm_Lc_Lk_LLk_W_V \<and> ch = 8)"

definition isVarnishChannel :: "ink_mode \<Rightarrow> nat \<Rightarrow> bool" where
  "isVarnishChannel mode ch \<longleftrightarrow> mode = TenColor_YMCK_Lm_Lc_Lk_LLk_W_V \<and> ch = 9"

section \<open>The job\<close>

record 'v multi_job =
  j_mode :: ink_mode
  j_params :: "'v vmap" \<comment> \<open>\<open>m_modeParams\<close>\<close>
  j_white :: string \<comment> \<open>\<open>m_whitePlatePath\<close>\<close>
  j_varnish :: string
  j_lin :: linearization
  j_enableLin :: bool
  j_dots :: dot_strategy
  j_seed :: u32
  j_cmyk :: bool \<comment> \<open>\<open>inputImage.colorSpace() == CMYKColorspace\<close>\<close>
  j_input :: pixel_source \<comment> \<open>its \<open>"CMYK"\<close> exports\<close>
  j_alpha :: alpha_mask
  j_xdpi :: rat
  j_ydpi :: rat
  j_root :: string \<comment> \<open>\<open>m_assetManager.rootPath()\<close>\<close>

definition setInkMode :: "int \<Rightarrow> 'v multi_job \<Rightarrow> 'v multi_job" where
  "setInkMode mode J = J\<lparr>j_mode := mode_of_number mode\<rparr>"

definition setDotStrategy ::
  "int \<Rightarrow> int \<Rightarrow> int \<Rightarrow> bool \<Rightarrow> u8 \<Rightarrow> u8 \<Rightarrow> u8 \<Rightarrow> u8 \<Rightarrow> bool \<Rightarrow> 'v multi_job \<Rightarrow> 'v multi_job" where
  "setDotStrategy minInkT small med promote rangeCMY maxCMY rangeK maxK swap J =
     J\<lparr>j_dots := \<lparr>minInkThreshold = minInkT, smallDotThreshold = small, medDotThreshold = med,
         enablePromotion = promote, floorRangeCMY = rangeCMY, floorMaxCMY = maxCMY,
         floorRangeK = rangeK, floorMaxK = maxK, enableDotSwap = swap\<rparr>\<rparr>"

definition assetPath :: "string \<Rightarrow> string \<Rightarrow> string" where
  \<comment> \<open>\<open>AssetManager::assetPath\<close>\<close>
  "assetPath rootPath fileName = (if rootPath = [] then [] else rootPath @ ''/'' @ fileName)"

definition mask_file :: "'v multi_job \<Rightarrow> string \<Rightarrow> string" where
  "mask_file J key = assetPath (j_root J) (''mask_512_'' @ key @ ''.tiff'')"

definition mask_key :: "'v qvariant \<Rightarrow> 'd job_env \<Rightarrow> 'v multi_job \<Rightarrow> nat \<Rightarrow> string" where
  "mask_key Q E J ch = maskKeyForChannel Q (e_text E) (j_params J) (j_mode J) (int ch)"

definition plate_mode :: "'v qvariant \<Rightarrow> 'v multi_job \<Rightarrow> string \<Rightarrow> bool" where
  \<comment> \<open>the mode parameter \<open>key\<close> asks for an external plate\<close>
  "plate_mode Q J key \<longleftrightarrow> clamp (vmInt Q (j_params J) key 0) 0 3 = 3"

definition multi_metadata :: "'v multi_job \<Rightarrow> int \<Rightarrow> int \<Rightarrow> int \<Rightarrow> int \<Rightarrow> spool" where
  "multi_metadata J width height xdpi ydpi =
     raster_metadata (channel_order (j_mode J)) (mode_number (j_mode J)) width height xdpi ydpi 2 (replicate 12 0)"

definition multi_build_request :: "'v multi_job \<Rightarrow> planes4 \<Rightarrow> nat \<Rightarrow> nat \<Rightarrow> 'v build_request" where
  "multi_build_request J images width height =
     \<lparr>br_images = Some images, br_width = width, br_height = height, br_mode = j_mode J, br_params = j_params J,
      br_whitePlate = j_white J, br_varnishPlate = j_varnish J, br_linearization = Some (j_lin J),
      br_enableLinearization = j_enableLin J\<rparr>"

definition used_plates :: "'v qvariant \<Rightarrow> 'v multi_job \<Rightarrow> string list" where
  \<comment> \<open>the plates the tone builder asks its loader for\<close>
  "used_plates Q J =
     (if j_mode J \<in> {FiveColor_YMCK_W, SevenColor_YMCK_Lm_Lc_W, TenColor_YMCK_Lm_Lc_Lk_LLk_W_V} \<and>
         plate_mode Q J ''whiteMode'' then [j_white J] else []) @
     (if j_mode J = TenColor_YMCK_Lm_Lc_Lk_LLk_W_V \<and> plate_mode Q J ''varnishMode'' then [j_varnish J] else [])"

section \<open>In memory\<close>

definition own_dots ::
  "'v qvariant \<Rightarrow> 'v vmap \<Rightarrow> string \<Rightarrow> channel_request \<Rightarrow> channel_request" where
  \<comment> \<open>the specialty channel named by \<open>prefix\<close> may have dot thresholds of its own\<close>
  "own_dots Q m prefix c =
     (if vmBool Q m (prefix @ ''UseOwnDotStrategy'') False
      then c\<lparr>useOwnDotStrategy := True,
             ownSmallDotThreshold := clamp (vmInt Q m (prefix @ ''SmallDotThreshold'') 104) 0 255,
             ownMedDotThreshold := clamp (vmInt Q m (prefix @ ''MedDotThreshold'') 168) 0 255,
             ownEnablePromotion := vmBool Q m (prefix @ ''EnablePromotion'') False\<rparr>
      else c)"

definition memory_channel :: "'v qvariant \<Rightarrow> 'd job_env \<Rightarrow> 'v multi_job \<Rightarrow> bytes list \<Rightarrow> nat \<Rightarrow> channel_request" where
  "memory_channel Q E J tones ch =
     (let c = \<lparr>maskKey = mask_key Q E J ch, toneBytes = Some (tones ! ch),
               isLightInk = isLightChannel (j_mode J) ch, useOwnDotStrategy = False,
               ownSmallDotThreshold = 104, ownMedDotThreshold = 168, ownEnablePromotion = False,
               useEffectiveTone = True, floorClass = -1\<rparr>;
          c = (if isWhiteChannel (j_mode J) ch then own_dots Q (j_params J) ''white'' c else c)
      in if isVarnishChannel (j_mode J) ch then own_dots Q (j_params J) ''varnish'' c else c)"

definition memory_request :: "'v qvariant \<Rightarrow> 'd job_env \<Rightarrow> 'v multi_job \<Rightarrow> bytes list \<Rightarrow> 'v screen_request" where
  "memory_request Q E J tones =
     \<lparr>req_width = src_columns (j_input J), req_height = src_rows (j_input J), screenSeed = j_seed J,
      modeParams = j_params J, dotStrategy = j_dots J,
      channels = map (memory_channel Q E J tones) [0..<nat (mode_number (j_mode J))]\<rparr>"

definition memory_tones :: "'v qvariant \<Rightarrow> 'd job_env \<Rightarrow> 'v multi_job \<Rightarrow> job_error + bytes list" where
  \<comment> \<open>from the page to the tone planes\<close>
  "memory_tones Q E J =
     (let width = nat (src_columns (j_input J)); height = nat (src_rows (j_input J)) in
      case src_export (j_input J) 0 height of
        None \<Rightarrow> Inl JobMagick
      | Some raw \<Rightarrow>
        (case alpha_planes (j_alpha J) (separated (width * height) raw) of
           None \<Rightarrow> Inl JobAlpha
         | Some images \<Rightarrow>
           if \<exists>p \<in> set (used_plates Q J). plate_raises E (int width) (int height) p then Inl JobMagick
           else case buildToneChannels Q (e_text E) (loadPlate E) (multi_build_request J images width height) of
             None \<Rightarrow> Inl JobTones
           | Some tones \<Rightarrow> if length tones \<noteq> nat (mode_number (j_mode J)) then Inl JobTones else Inr tones))"

definition buildInMemoryRasterSpool ::
  "'v qvariant \<Rightarrow> 'd job_env \<Rightarrow> (job_poll \<Rightarrow> bool) \<Rightarrow> int \<Rightarrow> int \<Rightarrow> 'v multi_job \<Rightarrow> 'd \<Rightarrow>
   (job_error \<times> 'd) + (spool \<times> 'd)" where
  "buildInMemoryRasterSpool Q E canceled xdpi ydpi J d =
     (case memory_tones Q E J of
        Inl e \<Rightarrow> Inl (e, d)
      | Inr tones \<Rightarrow>
        (case screenChannels Q (mask_of_image E (mask_file J)) (\<lambda>p. canceled (PollScreen p)) (memory_request Q E J tones) of
           Inl e \<Rightarrow> Inl (JobScreen e, d)
         | Inr packed \<Rightarrow>
           spool_from_memory E canceled
             (multi_metadata J (src_columns (j_input J)) (src_rows (j_input J)) xdpi ydpi) packed d))"

section \<open>In strips\<close>

definition strip_channel :: "'v qvariant \<Rightarrow> 'd job_env \<Rightarrow> 'v multi_job \<Rightarrow> nat \<Rightarrow> screen_channel" where
  \<comment> \<open>the \<open>ScreenChannel\<close> of a logical channel\<close>
  "strip_channel Q E J ch =
     (let m = j_params J; dots = j_dots J; key = mask_key Q E J ch;
          kLike = key \<in> {''k'', ''lk'', ''llk'', ''w'', ''v''};
          lightOverride = toBool Q (mapValue m ''useLightInkMinThresholdOverride'' (ofBool Q False));
          lightMinimum = clamp (toInt Q (mapValue m ''lightInkMinThreshold'' (ofInt Q 2))) 0 254;
          own = (\<lambda>prefix. toBool Q (mapValue m (prefix @ ''UseOwnDotStrategy'') (ofBool Q False)));
          thresholds = (\<lambda>prefix.
            (clamp (toInt Q (mapValue m (prefix @ ''SmallDotThreshold'') (ofInt Q 104))) 0 255,
             clamp (toInt Q (mapValue m (prefix @ ''MedDotThreshold'') (ofInt Q 168))) 0 255,
             toBool Q (mapValue m (prefix @ ''EnablePromotion'') (ofBool Q False))));
          t = (smallDotThreshold dots, medDotThreshold dots, enablePromotion dots);
          t = (if isWhiteChannel (j_mode J) ch \<and> own ''white'' then thresholds ''white'' else t);
          t = (if isVarnishChannel (j_mode J) ch \<and> own ''varnish'' then thresholds ''varnish'' else t)
      in \<lparr>maskPath = mask_file J key,
          minInk = (if lightOverride \<and> isLightChannel (j_mode J) ch then lightMinimum else minInkThreshold dots),
          smallThreshold = fst t, medThreshold = fst (snd t),
          floorRange = (if kLike then floorRangeK dots else floorRangeCMY dots),
          floorMax = (if kLike then floorMaxK dots else floorMaxCMY dots),
          dotSwap = enableDotSwap dots, promotion = snd (snd t), effectiveClass = True\<rparr>)"

type_synonym plate_pair = "pixel_source option \<times> pixel_source option" \<comment> \<open>white, varnish\<close>

definition strip_plate :: "'v multi_job \<Rightarrow> plate_pair \<Rightarrow> string \<Rightarrow> pixel_source option" where
  \<comment> \<open>\<open>platePath == m_whitePlatePath ? whitePlate : varnishPlate\<close>\<close>
  "strip_plate J plates platePath = (if platePath = j_white J then fst plates else snd plates)"

definition strip_plate_loader ::
  "'v multi_job \<Rightarrow> plate_pair \<Rightarrow> int \<Rightarrow> nat \<Rightarrow> nat \<Rightarrow> plate_loader" where
  "strip_plate_loader J plates width firstRow rowCount platePath =
     plate_rows (strip_plate J plates platePath) width firstRow rowCount"

definition strip_tones ::
  "'v qvariant \<Rightarrow> 'd job_env \<Rightarrow> 'v multi_job \<Rightarrow> canonical \<Rightarrow> plate_pair \<Rightarrow> 'd \<Rightarrow> tone_provider" where
  \<comment> \<open>\<open>toneProvider\<close>; an exception of a plate ends the screening like a failure\<close>
  "strip_tones Q E J K plates d firstRow rowCount =
     (let width = src_columns (j_input J) in
      case canonical_readRows (e_disk E) K (int firstRow) (int rowCount) d of
        Inl _ \<Rightarrow> None
      | Inr raw \<Rightarrow>
        if \<exists>p \<in> set (used_plates Q J).
             (case strip_plate J plates p of None \<Rightarrow> False | Some im \<Rightarrow> src_export im firstRow rowCount = None)
        then None
        else buildToneChannels Q (e_text E) (strip_plate_loader J plates width firstRow rowCount)
               (multi_build_request J (separated (nat width * rowCount) raw) (nat width) rowCount))"

definition preparePlates :: "'v qvariant \<Rightarrow> 'd job_env \<Rightarrow> 'v multi_job \<Rightarrow> unit + plate_pair" where
  "preparePlates Q E J =
     (let width = src_columns (j_input J); height = src_rows (j_input J);
          prepare = (\<lambda>key path. if plate_mode Q J key then preparePlate E width height path else Inr None)
      in bind_res (prepare ''whiteMode'' (j_white J)) (\<lambda>white.
         bind_res (prepare ''varnishMode'' (j_varnish J)) (\<lambda>varnish. Inr (white, varnish))))"

definition buildBoundedRasterSpool ::
  "'v qvariant \<Rightarrow> 'd job_env \<Rightarrow> (job_poll \<Rightarrow> bool) \<Rightarrow> int \<Rightarrow> int \<Rightarrow> 'v multi_job \<Rightarrow> 'd \<Rightarrow>
   (job_error \<times> 'd) + (spool \<times> 'd)" where
  \<comment> \<open>from \<open>CanonicalCmykFile canonical\<close> on; its destructor removes the file on every way out\<close>
  "buildBoundedRasterSpool Q E canceled xdpi ydpi J d =
     (let D = e_disk E in
      case canonical_create D (e_canonToken E) (e_scratch E) (j_input J) (j_alpha J) (\<lambda>k. canceled (PollCanonical k))
             (d, \<lparr>k_path = [], k_width = 0, k_height = 0\<rparr>) of
        Inl (e, st) \<Rightarrow> Inl (JobCanonical e, fst (canonical_remove D st))
      | Inr (d, K) \<Rightarrow>
        (case preparePlates Q E J of
           Inl _ \<Rightarrow> Inl (JobMagick, fst (canonical_remove D (d, K)))
         | Inr plates \<Rightarrow>
           (case spool_from_strips Q E canceled
                   (multi_metadata J (src_columns (j_input J)) (src_rows (j_input J)) xdpi ydpi)
                   (j_seed J) (j_params J) (map (strip_channel Q E J) [0..<nat (mode_number (j_mode J))])
                   (strip_tones Q E J K plates) d of
              Inl (e, d) \<Rightarrow> Inl (e, fst (canonical_remove D (d, K)))
            | Inr (sp, d) \<Rightarrow> Inr (sp, fst (canonical_remove D (d, K))))))"

section \<open>The whole run\<close>

definition multi_storage_job :: "'v qvariant \<Rightarrow> 'v multi_job \<Rightarrow> int \<Rightarrow> int \<Rightarrow> bool \<Rightarrow> u64 \<Rightarrow> storage_job" where
  "multi_storage_job Q J outWidth outHeight withFinalPrn masks =
     \<lparr>job_width = outWidth, job_height = outHeight,
      source_width = src_columns (j_input J), source_height = src_rows (j_input J),
      job_logical = mode_number (j_mode J), job_physical = int (length (channel_order (j_mode J))),
      includeFinalPrn = withFinalPrn, includeAlphaCache = alpha_active (j_alpha J),
      externalPlateCaches = (if plate_mode Q J ''whiteMode'' then 1 else 0) + (if plate_mode Q J ''varnishMode'' then 1 else 0),
      maskCacheBytes = masks\<rparr>"

definition resize_page :: "'d job_env \<Rightarrow> int \<Rightarrow> int \<Rightarrow> 'v multi_job \<Rightarrow> (job_error \<times> 'v multi_job) + 'v multi_job" where
  "resize_page E outWidth outHeight J =
     (if outWidth = src_columns (j_input J) \<and> outHeight = src_rows (j_input J) then Inr J
      else case e_resize E outWidth outHeight (j_input J) of
        None \<Rightarrow> Inl (JobMagick, J)
      | Some im \<Rightarrow>
        (case alpha_resize (e_resize E) outWidth outHeight (j_alpha J) of
           (ok, A) \<Rightarrow> (let J = J\<lparr>j_input := im, j_alpha := A\<rparr> in if ok then Inr J else Inl (JobAlpha, J))))"

definition run_backends ::
  "'v qvariant \<Rightarrow> 'd job_env \<Rightarrow> (job_poll \<Rightarrow> bool) \<Rightarrow> bool \<Rightarrow> int \<Rightarrow> int \<Rightarrow> 'v multi_job \<Rightarrow> 'd \<Rightarrow>
   (job_error \<times> 'd) + (spool \<times> 'd)" where
  \<comment> \<open>whatever goes wrong in memory, the strips are tried next, unless the job is canceled\<close>
  "run_backends Q E canceled useInMemory xdpi ydpi J d =
     (if useInMemory
      then case buildInMemoryRasterSpool Q E canceled xdpi ydpi J d of
             Inr r \<Rightarrow> Inr r
           | Inl (_, d) \<Rightarrow>
               if canceled PollFallback then Inl (JobCanceled, d)
               else buildBoundedRasterSpool Q E canceled xdpi ydpi J d
      else buildBoundedRasterSpool Q E canceled xdpi ydpi J d)"

definition buildRasterSpool ::
  "'v qvariant \<Rightarrow> 'd job_env \<Rightarrow> (job_poll \<Rightarrow> bool) \<Rightarrow> int \<Rightarrow> int \<Rightarrow> bool \<Rightarrow> 'v multi_job \<times> 'd \<Rightarrow>
   (job_error \<times> 'v multi_job \<times> 'd) + (spool \<times> 'v multi_job \<times> 'd)" where
  "buildRasterSpool Q E canceled xdpi ydpi withFinalPrn st =
     (case st of (J, d) \<Rightarrow>
      if \<not> j_cmyk J then Inl (JobNotCmyk, J, d)
      else let xdpi = clamp xdpi 1 720; ydpi = snapToMultiple ydpi 600 in
      case outputPixelSize (src_columns (j_input J)) (src_rows (j_input J)) (j_xdpi J, j_ydpi J) xdpi ydpi of
        None \<Rightarrow> Inl (JobDimensions, J, d)
      | Some (outWidth, outHeight) \<Rightarrow>
        let logical = mode_number (j_mode J);
            maskPaths = map (\<lambda>ch. mask_file J (mask_key Q E J ch)) [0..<nat logical] in
        (case estimateMaskCacheStorage (e_quantum E) (e_ping E) maskPaths of
           Inl e \<Rightarrow> Inl (JobMaskEstimate e, J, d)
         | Inr masks \<Rightarrow>
           (case preflightStorage (e_quantum E) (e_storage E) (multi_storage_job Q J outWidth outHeight withFinalPrn masks) of
              Inl e \<Rightarrow> Inl (JobPreflight e, J, d)
            | Inr _ \<Rightarrow>
              let useInMemory = (strategy (selectRasterStrategy (e_forced E) outWidth outHeight logical True) = InMemory) in
              (case resize_page E outWidth outHeight J of
                 Inl (e, J) \<Rightarrow> Inl (e, J, d)
               | Inr J \<Rightarrow>
                 (case run_backends Q E canceled useInMemory xdpi ydpi J d of
                    Inl (e, d) \<Rightarrow> Inl (e, J, d)
                  | Inr (sp, d) \<Rightarrow> Inr (sp, J, d))))))"

section \<open>The PRN file\<close>

fun writer_mode :: "ink_mode \<Rightarrow> multi_ink_mode" where
  "writer_mode FourColor_YMCK = FourColorYMCK"
| "writer_mode FiveColor_YMCK_W = FiveColorYMCKW"
| "writer_mode SixColor_YMCK_Lm_Lc = SixColorYMCKLmLc"
| "writer_mode SevenColor_YMCK_Lm_Lc_W = SevenColorYMCKLmLcW"
| "writer_mode EightColor_YMCK_Lm_Lc_Lk_LLk = EightColorYMCKLmLcLkLLk"
| "writer_mode TenColor_YMCK_Lm_Lc_Lk_LLk_W_V = TenColorYMCKLmLcLkLLkWV"

definition writePRNFile :: "'d job_env \<Rightarrow> 'v multi_job \<Rightarrow> spool \<Rightarrow> string \<Rightarrow> 'd \<Rightarrow> 'd prn_result" where
  "writePRNFile E J sp outputPath d =
     writeMultiInkSpool (e_disk E) (e_stream E) (e_sha E) sp (writer_mode (j_mode J)) outputPath d"

definition generateFinalPRN ::
  "'v qvariant \<Rightarrow> 'd job_env \<Rightarrow> (job_poll \<Rightarrow> bool) \<Rightarrow> string \<Rightarrow> int \<Rightarrow> int \<Rightarrow> 'v multi_job \<times> 'd \<Rightarrow> bool \<times> 'v multi_job \<times> 'd" where
  \<comment> \<open>the spool is removed whatever the outcome; after a failed build it has no path\<close>
  "generateFinalPRN Q E canceled outputPath xdpi ydpi st =
     (case buildRasterSpool Q E canceled xdpi ydpi True st of
        Inl (_, J, d) \<Rightarrow> (False, J, d)
      | Inr (sp, J, d) \<Rightarrow>
        (case writePRNFile E J sp outputPath d of
           Inl (_, d) \<Rightarrow> (False, J, spool_remove (e_disk E) sp d)
         | Inr d \<Rightarrow> (True, J, spool_remove (e_disk E) sp d)))"

end
