(* ===== verification/Multi_Ink_Laws.thy ===== *)
theory Multi_Ink_Laws
  imports Raster_Job_Laws Multi_Ink_Job
begin

text \<open>
  The two backends of \<open>PrintJobMultiInk\<close> fill a spool with the same bytes: the canonical file
  carries the page the in-memory path masks plane by plane, the tone provider of the strips
  hands out the rows of its tone planes, and the channel settings say the same.
\<close>

section \<open>Channels and keys\<close>

lemma mode_number_pos: "0 < mode_number mode" "mode_number mode \<le> 10" "nat (mode_number mode) = ink_count mode"
  by (cases mode; simp)+

lemma channel_order_ok:
  "channel_order mode \<noteq> []" "length (channel_order mode) \<le> 16"
  "\<forall>c \<in> set (channel_order mode). 0 \<le> c \<and> c < mode_number mode"
  by (cases mode; simp)+

lemma specialtyMaskKey_nonempty: "def \<noteq> [] \<Longrightarrow> specialtyMaskKey Q T params name def \<noteq> []"
  by (simp add: specialtyMaskKey_def Let_def)

lemma lookup_nonempty:
  assumes "\<forall>k \<in> set keys. k \<noteq> []"
  shows "(if 0 \<le> ch \<and> ch < int (length keys) then keys ! nat ch else ''c'') \<noteq> []"
  using assms by (simp add: nat_less_iff)

lemma maskKeyForChannel_nonempty: "maskKeyForChannel Q T params mode ch \<noteq> []"
  unfolding maskKeyForChannel_def Let_def
  by (rule lookup_nonempty) (cases mode; simp add: specialtyMaskKey_nonempty)

section \<open>The tone builder and its plate loader\<close>

lemma specialty_loader_cong:
  assumes "sp_mode cfg = 3 \<Longrightarrow> l1 path w h = l2 path w h"
  shows "specialty_channel l1 cfg path w h post = specialty_channel l2 cfg path w h post"
  using assms by (cases post) (simp add: specialty_channel_def Let_def)

definition loader_needs :: "'v qvariant \<Rightarrow> qtext \<Rightarrow> 'v build_request \<Rightarrow> string set" where
  \<comment> \<open>the paths the builder asks for\<close>
  "loader_needs Q T req =
     (if br_mode req \<in> {FiveColor_YMCK_W, SevenColor_YMCK_Lm_Lc_W, TenColor_YMCK_Lm_Lc_Lk_LLk_W_V} \<and>
         sp_mode (getWhiteConfig Q T (br_params req)) = 3 then {br_whitePlate req} else {}) \<union>
     (if br_mode req = TenColor_YMCK_Lm_Lc_Lk_LLk_W_V \<and> sp_mode (getVarnishConfig Q T (br_params req)) = 3
      then {br_varnishPlate req} else {})"

lemma build_loader_cong:
  assumes "\<And>p. p \<in> loader_needs Q T req \<Longrightarrow> l1 p (br_width req) (br_height req) = l2 p (br_width req) (br_height req)"
  shows "buildToneChannels Q T l1 req = buildToneChannels Q T l2 req"
proof -
  let ?w = "br_width req" and ?h = "br_height req"
  have W: "specialty_channel l1 (getWhiteConfig Q T (br_params req)) (br_whitePlate req) ?w ?h =
      specialty_channel l2 (getWhiteConfig Q T (br_params req)) (br_whitePlate req) ?w ?h"
    if "br_mode req \<in> {FiveColor_YMCK_W, SevenColor_YMCK_Lm_Lc_W, TenColor_YMCK_Lm_Lc_Lk_LLk_W_V}"
    using that by (intro ext specialty_loader_cong assms) (auto simp: loader_needs_def)
  have V: "specialty_channel l1 (getVarnishConfig Q T (br_params req)) (br_varnishPlate req) ?w ?h =
      specialty_channel l2 (getVarnishConfig Q T (br_params req)) (br_varnishPlate req) ?w ?h"
    if "br_mode req = TenColor_YMCK_Lm_Lc_Lk_LLk_W_V"
    using that by (intro ext specialty_loader_cong assms) (auto simp: loader_needs_def)
  show ?thesis
    by (cases "br_mode req") (simp_all add: buildToneChannels_def build_five_def build_seven_def build_ten_def W V split: option.splits)
qed

lemma sp_modes:
  "sp_mode (getWhiteConfig Q T m) = clamp (vmInt Q m ''whiteMode'' 0) 0 3"
  "sp_mode (getVarnishConfig Q T m) = clamp (vmInt Q m ''varnishMode'' 0) 0 3"
  by (simp_all add: getWhiteConfig_def getVarnishConfig_def specialty_config_def Let_def)

lemma loader_needs_used: "loader_needs Q T (multi_build_request J images w h) = set (used_plates Q J)"
  by (auto simp: loader_needs_def used_plates_def multi_build_request_def sp_modes plate_mode_def)

section \<open>A job both backends can run\<close>

definition plate_ok :: "'d job_env \<Rightarrow> int \<Rightarrow> int \<Rightarrow> string \<Rightarrow> bool" where
  \<comment> \<open>the plate is missing, or it is an image of the size of the page\<close>
  "plate_ok E w h path \<longleftrightarrow>
     (case preparePlate E w h path of
        Inl _ \<Rightarrow> False
      | Inr None \<Rightarrow> True
      | Inr (Some im) \<Rightarrow> src_columns im = w \<and> src_rows im = h \<and> (\<exists>px. exports im 1 px))"

definition multi_ready :: "'v qvariant \<Rightarrow> 'd job_env \<Rightarrow> 'v multi_job \<Rightarrow> bytes \<Rightarrow> bytes \<Rightarrow> bool" where
  \<comment> \<open>the page holds \<open>px\<close>, its mask \<open>al\<close>; masks and plates are readable\<close>
  "multi_ready Q E J px al \<longleftrightarrow>
     (let w = src_columns (j_input J); h = src_rows (j_input J) in
      page_ok w h \<and> mode_number (j_mode J) * h \<le> int_max \<and> exports (j_input J) 4 px \<and>
      alpha_covers (j_alpha J) w h al \<and>
      (\<forall>ch < nat (mode_number (j_mode J)). \<exists>im. e_gray E (mask_file J (mask_key Q E J ch)) = Some im \<and>
         0 < img_columns im \<and> 0 < img_rows im) \<and>
      (plate_mode Q J ''whiteMode'' \<longrightarrow> plate_ok E w h (j_white J)) \<and>
      (plate_mode Q J ''varnishMode'' \<longrightarrow> plate_ok E w h (j_varnish J)))"

definition varnish_plate_lost :: "'v qvariant \<Rightarrow> 'd job_env \<Rightarrow> 'v multi_job \<Rightarrow> bool" where
  \<comment> \<open>the varnish plate is there, but the strips look for it among the white ones, where none was prepared:
      \<open>strip_plate\<close> tells the plates apart by their paths, and both paths are the same\<close>
  "varnish_plate_lost Q E J \<longleftrightarrow>
     j_mode J = TenColor_YMCK_Lm_Lc_Lk_LLk_W_V \<and> j_varnish J = j_white J \<and>
     plate_mode Q J ''varnishMode'' \<and> \<not> plate_mode Q J ''whiteMode'' \<and>
     preparePlate E (src_columns (j_input J)) (src_rows (j_input J)) (j_varnish J) \<noteq> Inr None"

definition page_tones :: "'v qvariant \<Rightarrow> 'd job_env \<Rightarrow> 'v multi_job \<Rightarrow> bytes \<Rightarrow> bytes \<Rightarrow> bytes list" where
  \<comment> \<open>the tone planes of the masked page\<close>
  "page_tones Q E J px al =
     (let w = nat (src_columns (j_input J)); h = nat (src_rows (j_input J)) in
      the (buildToneChannels Q (e_text E) (loadPlate E)
        (multi_build_request J (separated (w * h) (page_bytes (j_alpha J) px al (w * h))) w h)))"

lemma multi_request_sized: "images_sized (multi_build_request J (separated (w * h) raw) w h)"
  by (simp add: images_sized_def multi_build_request_def separated_sized)

lemma page_tones_build:
  assumes "w = nat (src_columns (j_input J))" and "h = nat (src_rows (j_input J))"
  shows "buildToneChannels Q (e_text E) (loadPlate E)
      (multi_build_request J (separated (w * h) (page_bytes (j_alpha J) px al (w * h))) w h) =
      Some (page_tones Q E J px al)"
    and "length (page_tones Q E J px al) = nat (mode_number (j_mode J))"
    and "\<forall>t \<in> set (page_tones Q E J px al). length t = w * h"
proof -
  let ?req = "multi_build_request J (separated (w * h) (page_bytes (j_alpha J) px al (w * h))) w h"
  have "\<exists>t. buildToneChannels Q (e_text E) (loadPlate E) ?req = Some t"
    by (simp add: buildToneChannels_def multi_build_request_def)
  then show b: "buildToneChannels Q (e_text E) (loadPlate E) ?req = Some (page_tones Q E J px al)"
    by (auto simp: page_tones_def assms Let_def)
  from tones_sized [OF b multi_request_sized] show
    "length (page_tones Q E J px al) = nat (mode_number (j_mode J))"
    "\<forall>t \<in> set (page_tones Q E J px al). length t = w * h"
    by (simp_all add: multi_build_request_def mode_number_pos)
qed

lemma used_plate_ok:
  assumes "multi_ready Q E J px al" and "p \<in> set (used_plates Q J)"
  shows "plate_ok E (src_columns (j_input J)) (src_rows (j_input J)) p"
  using assms by (auto simp: multi_ready_def Let_def used_plates_def split: if_splits)

lemma plate_ok_loads:
  assumes "plate_ok E w h p" and "0 < w" and "0 < h"
  shows "\<not> plate_raises E w h p" and "loadPlate E p (nat w) (nat h) = Some x \<Longrightarrow> length x = nat w * nat h"
  using assms
  by (auto simp: plate_ok_def plate_raises_def loadPlate_def exports_def cut_span_def split: sum.splits option.splits)

lemma memory_tones_ready:
  assumes R: "multi_ready Q E J px al"
  shows "memory_tones Q E J = Inr (page_tones Q E J px al)"
proof -
  let ?w = "src_columns (j_input J)" and ?h = "src_rows (j_input J)"
  have P: "page_ok ?w ?h" and I: "exports (j_input J) 4 px" and A: "alpha_covers (j_alpha J) ?w ?h al"
    using R by (simp_all add: multi_ready_def Let_def)
  note D = page_okD [OF P]
  have px: "length px = nat ?w * nat ?h * 4" using I by (simp add: exports_def)
  have e: "src_export (j_input J) 0 (nat ?h) = Some px"
    using exports_rows [OF I, of 0 "nat ?h"] px by (simp add: cut_span_def mult.commute mult.left_commute)
  have pl: "\<not> (\<exists>p \<in> set (used_plates Q J). plate_raises E (int (nat ?w)) (int (nat ?h)) p)"
    using plate_ok_loads(1) [OF used_plate_ok [OF R]] D by auto
  show ?thesis
    using e alpha_planes_page [OF A P, of px] pl page_tones_build(1) [OF refl refl, of Q E J px al]
      page_tones_build(2) [OF refl refl, of Q E J px al]
    by (simp add: memory_tones_def Let_def)
qed

section \<open>The same channels\<close>

lemma mask_of_image_same:
  assumes "e_gray E (pathOf key) = Some im" and "0 < img_columns im" and "0 < img_rows im"
  shows "\<exists>m. mask_of_image E pathOf key = Some m \<and> same_mask m im"
  using assms by (simp add: mask_of_image_def same_mask_def)

context qvariant_laws
begin

lemma mapValue_vmInt: "fits_int x \<Longrightarrow> toInt Q (mapValue m k (ofInt Q x)) = vmInt Q m k x"
  by (simp add: mapValue_def vmInt_def toInt_ofInt split: option.splits)

lemma mapValue_vmBool: "toBool Q (mapValue m k (ofBool Q b)) = vmBool Q m k b"
  by (simp add: mapValue_def vmBool_def toBool_ofBool split: option.splits)

lemma strip_channel_same:
  assumes ch: "ch < nat (mode_number (j_mode J))"
  shows "same_channel Q (memory_request Q E J tones) (memory_channel Q E J tones ch) (strip_channel Q E J ch)"
proof -
  let ?c = "memory_channel Q E J tones ch" and ?sc = "strip_channel Q E J ch" and ?m = "j_params J"
  let ?req = "memory_request Q E J tones"
  have f: "fits_int 2" "fits_int 104" "fits_int 168" by (simp_all add: fits_int_def int_min_def int_max_def)
  have cl: "clamp (clamp x 0 254) 0 254 = clamp x 0 254" for x :: int by (simp add: clamp_def)
  note v = mapValue_vmInt mapValue_vmBool f
  have own: "maskKey (own_dots Q ?m prefix c) = maskKey c" "isLightInk (own_dots Q ?m prefix c) = isLightInk c"
    "floorClass (own_dots Q ?m prefix c) = floorClass c" "useEffectiveTone (own_dots Q ?m prefix c) = useEffectiveTone c"
    for prefix c by (simp_all add: own_dots_def)
  have mem: "maskKey ?c = mask_key Q E J ch" "isLightInk ?c = isLightChannel (j_mode J) ch" "floorClass ?c = - 1"
    "useEffectiveTone ?c"
    by (simp_all add: memory_channel_def Let_def own)
  have req: "dotStrategy ?req = j_dots J" "modeParams ?req = ?m" by (simp_all add: memory_request_def)
  have k: "is_k_like ?c \<longleftrightarrow> mask_key Q E J ch \<in> {''k'', ''lk'', ''llk'', ''w'', ''v''}"
    by (simp only: is_k_like_def mem) simp
  have fl: "floorRange ?sc = (if is_k_like ?c then floorRangeK (j_dots J) else floorRangeCMY (j_dots J))"
    "floorMax ?sc = (if is_k_like ?c then floorMaxK (j_dots J) else floorMaxCMY (j_dots J))"
    unfolding k by (simp_all only: strip_channel_def Let_def screen_channel.simps)
  have mi: "clamp (minInk ?sc) 0 254 = channel_min_tone Q ?req ?c"
    by (simp add: channel_min_tone_def req mem strip_channel_def Let_def v cl)
  have "\<not> (isWhiteChannel (j_mode J) ch \<and> isVarnishChannel (j_mode J) ch)"
    by (auto simp: isWhiteChannel_def isVarnishChannel_def)
  then consider "isWhiteChannel (j_mode J) ch" "\<not> isVarnishChannel (j_mode J) ch"
    | "isVarnishChannel (j_mode J) ch" "\<not> isWhiteChannel (j_mode J) ch"
    | "\<not> isWhiteChannel (j_mode J) ch" "\<not> isVarnishChannel (j_mode J) ch" by blast
  then have "strategy_matches ?sc (channel_strategy ?req ?c)"
    by cases (simp_all add: strategy_matches_def channel_strategy_def req strip_channel_def memory_channel_def
      own_dots_def Let_def v)
  then show ?thesis
    unfolding same_channel_def using mi fl mem(4) by (simp add: req strip_channel_def Let_def)
qed

lemma multi_same_job:
  assumes R: "multi_ready Q E J px al"
  shows "same_job Q (mask_of_image E (mask_file J)) (e_gray E) (memory_request Q E J (page_tones Q E J px al))
    (map (strip_channel Q E J) [0..<nat (mode_number (j_mode J))]) (page_tones Q E J px al)"
proof -
  let ?w = "src_columns (j_input J)" and ?h = "src_rows (j_input J)" and ?n = "nat (mode_number (j_mode J))"
  define tones where "tones = page_tones Q E J px al"
  have P: "page_ok ?w ?h" using R by (simp add: multi_ready_def Let_def)
  note D = page_okD [OF P]
  note T = page_tones_build(2,3) [OF refl refl, of Q E J px al, folded tones_def]
  have mask: "\<exists>m im. mask_of_image E (mask_file J) (mask_key Q E J ch) = Some m \<and>
      e_gray E (mask_file J (mask_key Q E J ch)) = Some im \<and> same_mask m im" if "ch < ?n" for ch
    using R that mask_of_image_same unfolding multi_ready_def Let_def by metis
  have chan: "maskKey (memory_channel Q E J tones ch) = mask_key Q E J ch"
    "toneBytes (memory_channel Q E J tones ch) = Some (tones ! ch)"
    "maskPath (strip_channel Q E J ch) = mask_file J (mask_key Q E J ch)" for ch
    by (simp_all add: memory_channel_def own_dots_def strip_channel_def Let_def)
  have each: "let c = channels (memory_request Q E J tones) ! ch; sc = map (strip_channel Q E J) [0..<?n] ! ch in
        maskKey c \<noteq> [] \<and> toneBytes c = Some (tones ! ch) \<and> same_channel Q (memory_request Q E J tones) c sc \<and>
        (case (mask_of_image E (mask_file J) (maskKey c), e_gray E (maskPath sc)) of
           (Some m, Some im) \<Rightarrow> same_mask m im | _ \<Rightarrow> False)" if "ch < ?n" for ch
  proof -
    have c: "channels (memory_request Q E J tones) ! ch = memory_channel Q E J tones ch"
      "map (strip_channel Q E J) [0..<?n] ! ch = strip_channel Q E J ch"
      using that by (simp_all add: memory_request_def)
    have "mask_key Q E J ch \<noteq> []" by (simp add: mask_key_def maskKeyForChannel_nonempty)
    then show ?thesis
      using mask [OF that] strip_channel_same [OF that] by (auto simp: Let_def c chan)
  qed
  have "planes_ok tones ?n (nat ?w) (nat ?h)" using T by (simp add: planes_ok_def)
  moreover have "channels (memory_request Q E J tones) \<noteq> []" "length (channels (memory_request Q E J tones)) = ?n"
    "req_width (memory_request Q E J tones) = ?w" "req_height (memory_request Q E J tones) = ?h"
    using mode_number_pos(1) [of "j_mode J"] by (simp_all add: memory_request_def)
  ultimately show ?thesis
    using D each unfolding same_job_def tones_def [symmetric] by (simp add: Let_def)
qed

end

end
