(* ===== verification/Multi_Ink_Delivery.thy ===== *)
theory Multi_Ink_Delivery
  imports Multi_Ink_Laws
begin

text \<open>
  On a disk that does not fail, both backends of \<open>PrintJobMultiInk\<close> deliver the spool of the
  planes the in-memory screener computes, and \<open>generateFinalPRN\<close> writes the PRN file of those
  planes, whichever backend ran, and leaves no scratch file behind. The one exception is a varnish
  plate that has the path of the white plate while white is not printed from a plate: the strips lose it.
\<close>

section \<open>The plates of a job\<close>

definition plate_of :: "'d job_env \<Rightarrow> int \<Rightarrow> int \<Rightarrow> string \<Rightarrow> pixel_source option" where
  "plate_of E w h path = (case preparePlate E w h path of Inr p \<Rightarrow> p | Inl _ \<Rightarrow> None)"

lemma plate_ok_prepared: "plate_ok E w h p \<Longrightarrow> preparePlate E w h p = Inr (plate_of E w h p)"
  by (auto simp: plate_ok_def plate_of_def split: sum.splits)

lemma preparePlates_ready:
  assumes R: "multi_ready Q E J px al" and kept: "\<not> varnish_plate_lost Q E J"
  shows "\<exists>plates. preparePlates Q E J = Inr plates \<and>
    (\<forall>p \<in> set (used_plates Q J). strip_plate J plates p = plate_of E (src_columns (j_input J)) (src_rows (j_input J)) p)"
proof -
  let ?w = "src_columns (j_input J)" and ?h = "src_rows (j_input J)"
  have W: "plate_mode Q J ''whiteMode'' \<Longrightarrow> preparePlate E ?w ?h (j_white J) = Inr (plate_of E ?w ?h (j_white J))"
    and V: "plate_mode Q J ''varnishMode'' \<Longrightarrow> preparePlate E ?w ?h (j_varnish J) = Inr (plate_of E ?w ?h (j_varnish J))"
    using R by (simp_all add: multi_ready_def Let_def plate_ok_prepared)
  let ?p = "(if plate_mode Q J ''whiteMode'' then plate_of E ?w ?h (j_white J) else None,
    if plate_mode Q J ''varnishMode'' then plate_of E ?w ?h (j_varnish J) else None)"
  have "preparePlates Q E J = Inr ?p" by (simp add: preparePlates_def Let_def W V)
  moreover have "strip_plate J ?p p = plate_of E ?w ?h p" if "p \<in> set (used_plates Q J)" for p
    using that kept V by (auto simp: used_plates_def strip_plate_def varnish_plate_lost_def split: if_splits)
  ultimately show ?thesis by blast
qed

lemma plate_strip:
  assumes ok: "plate_ok E w h p" and pos: "0 < w" "0 < h" and r: "first + rc \<le> nat h"
  shows "plate_rows (plate_of E w h p) w first rc (nat w) rc = strip_loader (loadPlate E) (nat h) first p (nat w) rc"
    and "plate_of E w h p = Some im \<Longrightarrow> src_export im first rc \<noteq> None"
proof -
  have im: "src_columns im = w" "src_rows im = h" "\<exists>x. exports im 1 x" if "plate_of E w h p = Some im" for im
    using ok that by (auto simp: plate_ok_def plate_of_def split: sum.splits option.splits)
  have ex: "\<exists>x. src_export im 0 (nat h) = Some x \<and> src_export im first rc = Some (cut_span (first * nat w) (rc * nat w) x)"
    if i: "plate_of E w h p = Some im" for im
  proof -
    obtain x where x: "exports im 1 x" using im(3) [OF i] by blast
    have "length x = nat w * nat h" using x im(1,2) [OF i] by (simp add: exports_def)
    then show ?thesis
      using exports_rows [OF x, of 0 "nat h"] exports_rows [OF x, of first rc] im(1,2) [OF i] r
      by (simp add: cut_span_def mult.commute)
  qed
  show "plate_of E w h p = Some im \<Longrightarrow> src_export im first rc \<noteq> None" using ex [of im] by auto
  show "plate_rows (plate_of E w h p) w first rc (nat w) rc = strip_loader (loadPlate E) (nat h) first p (nat w) rc"
  proof (cases "plate_of E w h p")
    case None
    then show ?thesis using pos plate_ok_prepared [OF ok]
      by (simp add: plate_rows_def strip_loader_def loadPlate_def)
  next
    case (Some im)
    then show ?thesis using pos plate_ok_prepared [OF ok] ex [OF Some]
      by (auto simp: plate_rows_def strip_loader_def loadPlate_def)
  qed
qed

section \<open>The varnish plane\<close>

definition varnish_tones :: "'v qvariant \<Rightarrow> 'd job_env \<Rightarrow> 'v multi_job \<Rightarrow> nat \<Rightarrow> bytes option \<Rightarrow> bytes" where
  \<comment> \<open>the varnish plane of a page of \<open>count\<close> pixels in plate mode: no plate, no varnish\<close>
  "varnish_tones Q E J count plate =
     (let cfg = getVarnishConfig Q (e_text E) (j_params J);
          v = (case plate of None \<Rightarrow> replicate count 0
               | Some p \<Rightarrow> map (\<lambda>i. applySpecialtyThresholdDensity (p ! i) (sp_threshold cfg) (sp_density cfg)) [0..<count])
      in if j_enableLin J \<and> hasExternalCurves (j_lin J) then lut_plane (lutV (j_lin J)) count v else v)"

lemma ten_varnish:
  assumes "j_mode J = TenColor_YMCK_Lm_Lc_Lk_LLk_W_V" and "plate_mode Q J ''varnishMode''"
    and "buildToneChannels Q (e_text E) load (multi_build_request J images w h) = Some tones"
  shows "tones ! 9 = varnish_tones Q E J (w * h) (load (j_varnish J) w h)"
proof -
  have tones: "tones = build_ten Q (e_text E) load (multi_build_request J images w h) images"
    using assms(1,3) by (simp add: buildToneChannels_def multi_build_request_def)
  have "sp_mode (getVarnishConfig Q (e_text E) (j_params J)) = 3" using assms(2) by (simp add: sp_modes plate_mode_def)
  then show ?thesis
    unfolding tones
    by (auto simp: build_ten_def multi_build_request_def combo_luts_def specialty_channel_def varnish_tones_def Let_def
        split: prod.splits option.splits)
qed

lemma lost_varnish:
  assumes lost: "varnish_plate_lost Q E J" and R: "multi_ready Q E J px al"
    and raw: "canonical_readRows (e_disk E) K (int first) (int rc) d = Inr raw"
  shows "\<exists>plate tones plates strip.
    loadPlate E (j_varnish J) (nat (src_columns (j_input J))) (nat (src_rows (j_input J))) = Some plate \<and>
    memory_tones Q E J = Inr tones \<and>
    tones ! 9 = varnish_tones Q E J (nat (src_columns (j_input J)) * nat (src_rows (j_input J))) (Some plate) \<and>
    preparePlates Q E J = Inr plates \<and> strip_tones Q E J K plates d first rc = Some strip \<and>
    strip ! 9 = varnish_tones Q E J (nat (src_columns (j_input J)) * rc) None"
proof -
  let ?w = "src_columns (j_input J)" and ?h = "src_rows (j_input J)"
  have ten: "j_mode J = TenColor_YMCK_Lm_Lc_Lk_LLk_W_V" and same: "j_varnish J = j_white J"
    and modes: "plate_mode Q J ''varnishMode''" "\<not> plate_mode Q J ''whiteMode''"
    and there: "preparePlate E ?w ?h (j_varnish J) \<noteq> Inr None"
    using lost unfolding varnish_plate_lost_def by blast+
  have P: "page_ok ?w ?h" and ok: "plate_ok E ?w ?h (j_varnish J)"
    using R modes(1) by (simp_all add: multi_ready_def Let_def)
  note D = page_okD [OF P]
  obtain im x where im: "preparePlate E ?w ?h (j_varnish J) = Inr (Some im)" "src_rows im = ?h" "exports im 1 x"
    using ok there by (auto simp: plate_ok_def split: sum.splits option.splits)
  have "\<exists>plate. src_export im 0 (nat ?h) = Some plate"
    using exports_rows [OF im(3), of 0 "nat ?h"] im(2) by simp
  then obtain plate where "loadPlate E (j_varnish J) (nat ?w) (nat ?h) = Some plate"
    using im(1) D by (auto simp: loadPlate_def)
  moreover have "page_tones Q E J px al ! 9 =
      varnish_tones Q E J (nat ?w * nat ?h) (loadPlate E (j_varnish J) (nat ?w) (nat ?h))"
    by (rule ten_varnish [OF ten modes(1) page_tones_build(1) [OF refl refl]])
  ultimately have memory: "\<exists>plate tones. loadPlate E (j_varnish J) (nat ?w) (nat ?h) = Some plate \<and>
      memory_tones Q E J = Inr tones \<and> tones ! 9 = varnish_tones Q E J (nat ?w * nat ?h) (Some plate)"
    using memory_tones_ready [OF R] by auto
  define plates where "plates = (None :: pixel_source option, Some im)"
  have prep: "preparePlates Q E J = Inr plates" using modes im(1) by (simp add: preparePlates_def Let_def plates_def)
  have "set (used_plates Q J) = {j_varnish J}" using ten modes by (simp add: used_plates_def)
  moreover have lost': "strip_plate J plates (j_varnish J) = None" by (simp add: strip_plate_def same plates_def)
  ultimately have s: "strip_tones Q E J K plates d first rc =
      buildToneChannels Q (e_text E) (strip_plate_loader J plates ?w first rc)
        (multi_build_request J (separated (nat ?w * rc) raw) (nat ?w) rc)"
    by (simp add: strip_tones_def raw Let_def)
  then obtain strip where strip: "strip_tones Q E J K plates d first rc = Some strip"
    by (simp add: buildToneChannels_def multi_build_request_def)
  have "strip_plate_loader J plates ?w first rc (j_varnish J) (nat ?w) rc = None"
    by (simp add: strip_plate_loader_def lost' plate_rows_def)
  then have "strip ! 9 = varnish_tones Q E J (nat ?w * rc) None"
    using ten_varnish [OF ten modes(1) trans [OF s [symmetric] strip]] by simp
  with strip memory prep show ?thesis by blast
qed

section \<open>The tone provider\<close>

definition multi_printable :: "'v qvariant \<Rightarrow> 'd job_env \<Rightarrow> int \<Rightarrow> int \<Rightarrow> 'v multi_job \<Rightarrow> bytes \<Rightarrow> bytes \<Rightarrow> 'v multi_job \<Rightarrow> bool" where
  \<comment> \<open>the checks before the rasterization pass, and the resized job can be run\<close>
  "multi_printable Q E xdpi ydpi J px al J' \<longleftrightarrow>
     j_cmyk J \<and> multi_ready Q E J' px al \<and>
     (case outputPixelSize (src_columns (j_input J)) (src_rows (j_input J)) (j_xdpi J, j_ydpi J)
         (clamp xdpi 1 720) (snapToMultiple ydpi 600) of
        None \<Rightarrow> False
      | Some (outWidth, outHeight) \<Rightarrow>
          resize_page E outWidth outHeight J = Inr J' \<and>
          (case estimateMaskCacheStorage (e_quantum E) (e_ping E)
              (map (\<lambda>ch. mask_file J (mask_key Q E J ch)) [0..<nat (mode_number (j_mode J))]) of
             Inl _ \<Rightarrow> False
           | Inr masks \<Rightarrow> \<exists>r. preflightStorage (e_quantum E) (e_storage E)
               (multi_storage_job Q J outWidth outHeight True masks) = Inr r))"

lemma output_dpi:
  assumes "ydpi + 300 \<le> int_max"
  shows "0 < clamp xdpi 1 720" "clamp xdpi 1 720 \<le> int_max" "0 < snapToMultiple ydpi 600" "snapToMultiple ydpi 600 \<le> int_max"
proof -
  show "0 < clamp xdpi 1 720" "clamp xdpi 1 720 \<le> int_max" by (auto simp: clamp_def int_max_def)
  show "0 < snapToMultiple ydpi 600" using snapToMultiple_props(2) [of 600 ydpi] by simp
  show "snapToMultiple ydpi 600 \<le> int_max"
  proof (cases "600 \<le> ydpi")
    case True
    then show ?thesis using snapToMultiple_props(3) [of 600 ydpi] assms by simp
  next
    case False
    then show ?thesis by (auto simp: snapToMultiple_def int_max_def Let_def)
  qed
qed

context reliable_store
begin

lemma strip_tones_serve:
  assumes R: "multi_ready Q E J px al" and E: "e_disk E = D"
    and plates: "\<forall>p \<in> set (used_plates Q J). strip_plate J plates p = plate_of E (src_columns (j_input J)) (src_rows (j_input J)) p"
    and K: "k_width K = src_columns (j_input J)" "k_height K = src_rows (j_input J)"
    and c: "contents d (k_path K) = Some (page_bytes (j_alpha J) px al (nat (k_width K) * nat (k_height K)))"
  shows "serves_planes (strip_tones Q E J K plates d) (page_tones Q E J px al)
    (nat (src_columns (j_input J))) (nat (src_rows (j_input J)))"
  unfolding serves_planes_def
proof (intro allI impI)
  fix first rc :: nat
  define W where "W = src_columns (j_input J)"
  define H where "H = src_rows (j_input J)"
  define w where "w = nat W"
  define h where "h = nat H"
  define page where "page = page_bytes (j_alpha J) px al (w * h)"
  define req where "req = multi_build_request J (separated (w * h) page) w h"
  assume rc: "0 < rc" "first + rc \<le> nat (src_rows (j_input J))"
  have r: "first + rc \<le> h" using rc(2) by (simp add: h_def H_def)
  have P: "page_ok W H" and I: "exports (j_input J) 4 px"
    using R by (simp_all add: multi_ready_def Let_def W_def H_def)
  note D' = page_okD [OF P]
  have len: "length page = w * h * 4" using length_page [OF I] by (simp add: page_def w_def h_def W_def H_def)
  have raw: "canonical_readRows D K (int first) (int rc) d = Inr (cut_span (first * w * 4) (rc * w * 4) page)"
    using canonical_readRows_ok [of d K page rc first] c P len rc
    by (simp add: K page_def w_def h_def W_def H_def)
  have sep: "separated (w * rc) (cut_span (first * w * 4) (rc * w * 4) page) =
      cut4 (first * w) (rc * w) (separated (w * h) page)"
    using separated_cut [OF len r] by (simp add: mult.commute)
  have used: "plate_ok E W H p" "strip_plate J plates p = plate_of E W H p" if "p \<in> set (used_plates Q J)" for p
    using used_plate_ok [OF R that] plates that by (simp_all add: W_def H_def)
  have noexn: "\<not> (\<exists>p \<in> set (used_plates Q J).
      (case strip_plate J plates p of None \<Rightarrow> False | Some im \<Rightarrow> src_export im first rc = None))"
    using plate_strip(2) [OF used(1) D'(1,2), of _ first rc] used(2) r by (auto simp: h_def split: option.splits)
  have sreq: "multi_build_request J (separated (w * rc) (cut_span (first * w * 4) (rc * w * 4) page)) w rc =
      strip_request first rc req"
    by (simp add: req_def strip_request_def sep) (simp add: multi_build_request_def)
  define load where "load = (\<lambda>p a b. if p \<in> set (used_plates Q J) then loadPlate E p a b else None)"
  have br: "br_width req = w" "br_height req = h" "br_width (strip_request first rc req) = w"
    "br_height (strip_request first rc req) = rc"
    by (simp_all add: req_def strip_request_def multi_build_request_def)
  have needs: "loader_needs Q (e_text E) (strip_request first rc req) \<subseteq> set (used_plates Q J)"
    "loader_needs Q (e_text E) req \<subseteq> set (used_plates Q J)"
    using loader_needs_used [of Q "e_text E" J "separated (w * h) page" w h]
      loader_needs_used [of Q "e_text E" J "cut4 (first * w) (rc * w) (separated (w * h) page)" w rc]
    by (simp_all add: req_def strip_request_def multi_build_request_def)
  have l: "buildToneChannels Q (e_text E) (strip_plate_loader J plates W first rc) (strip_request first rc req) =
      buildToneChannels Q (e_text E) (strip_loader load h first) (strip_request first rc req)"
  proof (rule build_loader_cong, unfold br)
    fix p assume "p \<in> loader_needs Q (e_text E) (strip_request first rc req)"
    then have p: "p \<in> set (used_plates Q J)" using needs by blast
    have "first + rc \<le> nat H" using r by (simp add: h_def)
    from plate_strip(1) [OF used(1) [OF p] D'(1,2) this] used(2) [OF p] p
    show "strip_plate_loader J plates W first rc p w rc = strip_loader load h first p w rc"
      by (simp add: strip_plate_loader_def strip_loader_def load_def w_def h_def)
  qed
  have "buildToneChannels Q (e_text E) load req = buildToneChannels Q (e_text E) (loadPlate E) req"
    by (rule build_loader_cong) (use needs in \<open>auto simp: load_def\<close>)
  also have "\<dots> = Some (page_tones Q E J px al)"
    unfolding req_def page_def by (rule page_tones_build(1)) (simp_all add: w_def h_def W_def H_def)
  finally have b: "buildToneChannels Q (e_text E) load req = Some (page_tones Q E J px al)" .
  have "plates_sized load w h"
    using plate_ok_loads(2) [OF used(1) D'(1,2)] by (auto simp: plates_sized_def load_def w_def h_def split: if_splits)
  then have sized: "plates_sized load (br_width req) (br_height req)" "images_sized req"
    by (simp add: br) (simp add: req_def multi_request_sized)
  have r': "first + rc \<le> br_height req" using r by (simp add: br)
  have "strip_tones Q E J K plates d first rc =
      buildToneChannels Q (e_text E) (strip_plate_loader J plates W first rc) (strip_request first rc req)"
    using raw noexn sreq by (simp add: strip_tones_def Let_def E W_def w_def)
  also have "\<dots> = Some (map (cut_span (first * w) (rc * w)) (page_tones Q E J px al))"
    unfolding l using build_strip [OF r' sized(2,1), of Q "e_text E"] by (simp add: br b)
  finally show "strip_tones Q E J K plates d first rc =
      Some (map (\<lambda>p. take (nat (src_columns (j_input J)) * rc) (drop (first * nat (src_columns (j_input J))) p)) (page_tones Q E J px al))"
    by (simp add: cut_span_def w_def W_def mult.commute)
qed

lemma multi_backends:
  assumes law: "qvariant_laws Q" and R: "multi_ready Q E J px al" and kept: "\<not> varnish_plate_lost Q E J"
    and E: "e_disk E = D" "e_stream E = S"
    and nc: "\<And>p. \<not> canceled p" and sha: "\<And>x. length (e_sha E x) = 32"
    and dpi: "0 < xdpi" "0 < ydpi" "xdpi \<le> int_max" "ydpi \<le> int_max"
    and free: "contents d (final_path (e_scratch E) (e_memoryToken E)) = None"
      "contents d (final_path (e_scratch E) (e_stripToken E)) = None"
      "contents d (canonical_path (e_scratch E) (e_canonToken E)) = None"
  shows "\<exists>planes spM dM spB dB.
    screenChannels Q (mask_of_image E (mask_file J)) (\<lambda>p. canceled (PollScreen p))
      (memory_request Q E J (page_tones Q E J px al)) = Inr planes \<and>
    buildInMemoryRasterSpool Q E canceled xdpi ydpi J d = Inr (spM, dM) \<and>
    delivered contents S (e_sha E) (multi_metadata J (src_columns (j_input J)) (src_rows (j_input J)) xdpi ydpi)
      (e_scratch E) (e_memoryToken E) planes d spM dM \<and>
    buildBoundedRasterSpool Q E canceled xdpi ydpi J d = Inr (spB, dB) \<and>
    delivered contents S (e_sha E) (multi_metadata J (src_columns (j_input J)) (src_rows (j_input J)) xdpi ydpi)
      (e_scratch E) (e_stripToken E) planes d spB dB"
proof -
  let ?w = "src_columns (j_input J)" and ?h = "src_rows (j_input J)"
  define md where "md = multi_metadata J ?w ?h xdpi ydpi"
  define req where "req = memory_request Q E J (page_tones Q E J px al)"
  define cs where "cs = map (strip_channel Q E J) [0..<nat (mode_number (j_mode J))]"
  let ?kp = "canonical_path (e_scratch E) (e_canonToken E)"
  let ?K = "\<lparr>k_path = ?kp, k_width = ?w, k_height = ?h\<rparr>"
  let ?page = "page_bytes (j_alpha J) px al (nat ?w * nat ?h)"
  have P: "page_ok ?w ?h" and rows: "mode_number (j_mode J) * ?h \<le> int_max" and I: "exports (j_input J) 4 px"
    and A: "alpha_covers (j_alpha J) ?w ?h al"
    using R by (simp_all add: multi_ready_def Let_def)
  have n: "0 < mode_number (j_mode J)" "mode_number (j_mode J) \<le> 16" using mode_number_pos [of "j_mode J"] by simp_all
  have md: "spool_for req md"
    using raster_metadata_valid [OF P n rows dpi channel_order_ok, of "replicate 12 0" 2] n
    by (simp add: spool_for_def req_def md_def multi_metadata_def memory_request_def spool_meta_def)
      (simp add: raster_metadata_def)
  obtain plates where plates: "preparePlates Q E J = Inr plates"
    "\<forall>p \<in> set (used_plates Q J). strip_plate J plates p = plate_of E ?w ?h p"
    using preparePlates_ready [OF R kept] by blast
  have serve: "serves_planes (strip_tones Q E J ?K plates d2) (page_tones Q E J px al) (nat (req_width req)) (nat (req_height req))"
    if "contents d2 (k_path ?K) = Some ?page" for d2
    using strip_tones_serve [OF R E(1) plates(2), of ?K d2] that by (simp add: req_def memory_request_def)
  have same: "same_job Q (mask_of_image E (mask_file J)) (e_gray E) req cs (page_tones Q E J px al)"
    unfolding req_def cs_def by (rule qvariant_laws.multi_same_job [OF law R])
  from both_backends_deliver [where canceled = canceled and provider = "strip_tones Q E J ?K plates",
      OF E I A P refl same md serve nc sha free] obtain planes spM dM d1 spB d2 where
    B: "screenChannels Q (mask_of_image E (mask_file J)) (\<lambda>p. canceled (PollScreen p)) req = Inr planes"
    "spool_from_memory E canceled md planes d = Inr (spM, dM)"
    "delivered contents S (e_sha E) md (e_scratch E) (e_memoryToken E) planes d spM dM"
    "canonical_create D (e_canonToken E) (e_scratch E) (j_input J) (j_alpha J) (\<lambda>k. canceled (PollCanonical k))
      (d, no_canonical) = Inr (d1, ?K)"
    "spool_from_strips Q E canceled md (screenSeed req) (modeParams req) cs (strip_tones Q E J ?K plates) d1 = Inr (spB, d2)"
    "delivered contents S (e_sha E) md (e_scratch E) (e_stripToken E) planes d spB (fst (canonical_remove D (d2, ?K)))"
    by blast
  have "buildInMemoryRasterSpool Q E canceled xdpi ydpi J d = Inr (spM, dM)"
    using memory_tones_ready [OF R] B(1,2) by (simp add: buildInMemoryRasterSpool_def req_def md_def)
  moreover have "buildBoundedRasterSpool Q E canceled xdpi ydpi J d = Inr (spB, fst (canonical_remove D (d2, ?K)))"
    using B(4,5) plates(1)
    by (simp add: buildBoundedRasterSpool_def Let_def E no_canonical_def md_def cs_def req_def memory_request_def)
  ultimately show ?thesis using B(1,3,6) unfolding md_def req_def by blast
qed

lemma run_backends_delivers:
  assumes law: "qvariant_laws Q" and R: "multi_ready Q E J px al" and kept: "\<not> varnish_plate_lost Q E J"
    and E: "e_disk E = D" "e_stream E = S"
    and nc: "\<And>p. \<not> canceled p" and sha: "\<And>x. length (e_sha E x) = 32"
    and dpi: "0 < xdpi" "0 < ydpi" "xdpi \<le> int_max" "ydpi \<le> int_max"
    and free: "contents d (final_path (e_scratch E) (e_memoryToken E)) = None"
      "contents d (final_path (e_scratch E) (e_stripToken E)) = None"
      "contents d (canonical_path (e_scratch E) (e_canonToken E)) = None"
  shows "\<exists>planes sp d' token.
    screenChannels Q (mask_of_image E (mask_file J)) (\<lambda>p. canceled (PollScreen p))
      (memory_request Q E J (page_tones Q E J px al)) = Inr planes \<and>
    run_backends Q E canceled useInMemory xdpi ydpi J d = Inr (sp, d') \<and> token \<in> {e_memoryToken E, e_stripToken E} \<and>
    delivered contents S (e_sha E) (multi_metadata J (src_columns (j_input J)) (src_rows (j_input J)) xdpi ydpi)
      (e_scratch E) token planes d sp d'"
  using multi_backends [where canceled = canceled, OF law R kept E nc sha dpi free]
  by (cases useInMemory) (fastforce simp: run_backends_def)+

lemma multi_prints:
  assumes law: "qvariant_laws Q" and R: "multi_printable Q E xdpi ydpi J px al J'" and kept: "\<not> varnish_plate_lost Q E J'"
    and E: "e_disk E = D" "e_stream E = S" and nc: "\<And>p. \<not> canceled p" and sha: "\<And>x. length (e_sha E x) = 32"
    and ydpi: "ydpi + 300 \<le> int_max"
    and free: "contents d (final_path (e_scratch E) (e_memoryToken E)) = None"
      "contents d (final_path (e_scratch E) (e_stripToken E)) = None"
      "contents d (canonical_path (e_scratch E) (e_canonToken E)) = None"
    and out: "out \<noteq> final_path (e_scratch E) (e_memoryToken E)" "out \<noteq> final_path (e_scratch E) (e_stripToken E)"
  shows "\<exists>planes d'.
    screenChannels Q (mask_of_image E (mask_file J')) (\<lambda>p. canceled (PollScreen p))
      (memory_request Q E J' (page_tones Q E J' px al)) = Inr planes \<and>
    generateFinalPRN Q E canceled out xdpi ydpi (J, d) = (True, J', d') \<and>
    contents d' out = Some (inkjet_header_bytes (multi_ink_header (writer_mode (j_mode J')) (channel_order (j_mode J'))
        (src_columns (j_input J')) (src_rows (j_input J')) (clamp xdpi 1 720) (snapToMultiple ydpi 600)
        (line_bytes (src_columns (j_input J')))) @
      interleaved planes (channel_order (j_mode J')) (nat (src_rows (j_input J')))) \<and>
    (\<forall>q. q \<noteq> out \<and> q \<noteq> partial_path (e_scratch E) (e_memoryToken E) \<and> q \<noteq> partial_path (e_scratch E) (e_stripToken E) \<longrightarrow>
      contents d' q = contents d q)"
proof -
  let ?w = "src_columns (j_input J')" and ?h = "src_rows (j_input J')"
  let ?x = "clamp xdpi 1 720" and ?y = "snapToMultiple ydpi 600"
  define md where "md = multi_metadata J' ?w ?h ?x ?y"
  obtain ow oh masks where pre: "j_cmyk J"
    "outputPixelSize (src_columns (j_input J)) (src_rows (j_input J)) (j_xdpi J, j_ydpi J) ?x ?y = Some (ow, oh)"
    "resize_page E ow oh J = Inr J'"
    "estimateMaskCacheStorage (e_quantum E) (e_ping E)
       (map (\<lambda>ch. mask_file J (mask_key Q E J ch)) [0..<nat (mode_number (j_mode J))]) = Inr masks"
    "\<exists>r. preflightStorage (e_quantum E) (e_storage E) (multi_storage_job Q J ow oh True masks) = Inr r"
    and R': "multi_ready Q E J' px al"
    using R by (auto simp: multi_printable_def split: option.splits prod.splits sum.splits)
  note dpi = output_dpi(1,2) [OF ydpi, of xdpi] output_dpi(3,4) [OF ydpi]
  define mem where "mem = (strategy (selectRasterStrategy (e_forced E) ow oh (mode_number (j_mode J)) True) = InMemory)"
  from run_backends_delivers [where canceled = canceled and useInMemory = mem,
      OF law R' kept E nc sha dpi(1,3,2,4) free] obtain planes sp d2 token where
    B: "screenChannels Q (mask_of_image E (mask_file J')) (\<lambda>p. canceled (PollScreen p))
        (memory_request Q E J' (page_tones Q E J' px al)) = Inr planes"
      "run_backends Q E canceled mem ?x ?y J' d = Inr (sp, d2)" "token \<in> {e_memoryToken E, e_stripToken E}"
      "delivered contents S (e_sha E) md (e_scratch E) token planes d sp d2"
    unfolding md_def by blast
  let ?fp = "final_path (e_scratch E) token"
  have run: "buildRasterSpool Q E canceled xdpi ydpi True (J, d) = Inr (sp, J', d2)"
    using pre B(2) by (auto simp: buildRasterSpool_def Let_def mem_def)
  have sp: "sp = with_disk_fields (spool_meta md) ?fp (sp_sha256 sp)"
    and at: "spool_at contents S d2 ?fp (spool_meta md) (sp_sha256 sp) planes"
    and sum: "sp_sha256 sp = e_sha E (encodeHeader S (spool_meta md) [] @ concat (concat planes))"
    and others: "\<forall>q. q \<noteq> partial_path (e_scratch E) token \<longrightarrow> q \<noteq> ?fp \<longrightarrow> contents d2 q = contents d q"
    by (rule deliveredD [OF B(4)])+
  have len: "length (sp_sha256 sp) = 32" using sha sum by simp
  obtain d3 where d3: "writeMultiInkSpool D S (e_sha E) sp (writer_mode (j_mode J')) out d2 = Inr d3"
    "contents d3 = (contents d2)(out \<mapsto> inkjet_header_bytes (multi_ink_header (writer_mode (j_mode J'))
        (sp_order (spool_meta md)) (sp_width (spool_meta md)) (sp_height (spool_meta md))
        (sp_xdpi (spool_meta md)) (sp_ydpi (spool_meta md)) (sp_lineBytes (spool_meta md))) @
      interleaved planes (sp_order (spool_meta md)) (nat (sp_height (spool_meta md))))"
    using multi_ink_spool_ok [where sha = "e_sha E" and mode = "writer_mode (j_mode J')" and outPath = out, OF at sp sum len]
    by blast
  have fields: "sp_order (spool_meta md) = channel_order (j_mode J')" "sp_width (spool_meta md) = ?w"
    "sp_height (spool_meta md) = ?h" "sp_xdpi (spool_meta md) = ?x" "sp_ydpi (spool_meta md) = ?y"
    "sp_lineBytes (spool_meta md) = line_bytes ?w"
    by (simp_all add: md_def multi_metadata_def spool_meta_def raster_metadata_def)
  note d3 = d3 [unfolded fields]
  have path: "sp_path sp = ?fp" by (subst sp) (simp add: with_disk_fields_def)
  have "?fp \<noteq> []" by (simp add: final_path_def filePath_def)
  then have rem: "contents (spool_remove D sp d3) = (contents d3)(?fp := None)"
    by (simp add: spool_remove_def path removeFile_law)
  have "generateFinalPRN Q E canceled out xdpi ydpi (J, d) = (True, J', spool_remove D sp d3)"
    using run d3(1) by (simp add: generateFinalPRN_def writePRNFile_def E)
  moreover have "contents (spool_remove D sp d3) out = contents d3 out" using B(3) out rem by auto
  moreover have "contents (spool_remove D sp d3) q = contents d q"
    if "q \<noteq> out" "q \<noteq> partial_path (e_scratch E) (e_memoryToken E)" "q \<noteq> partial_path (e_scratch E) (e_stripToken E)" for q
    using that B(3) others free(1,2) by (auto simp: rem d3(2))
  ultimately show ?thesis using B(1) d3(2) by auto
qed

end

end
