(* ===== verification/X33_Job.thy ===== *)
theory X33_Job
  imports Raster_Job
begin

text \<open>
  \<open>PrintJobCMYK\<close>, the X-33 job: CMYK with an optional white plane that is screened once and
  printed twice (YMCKWW), through the same two raster backends, to the X-33 print file.
\<close>

section \<open>The job\<close>

record x33_job =
  x_white :: x33_white_mode
  x_plate :: string \<comment> \<open>\<open>x33WhitePlatePath\<close>\<close>
  x_maskKey :: string
  x_threshold :: int
  x_density :: int
  x_ownDots :: bool
  x_small :: int
  x_med :: int
  x_promotion :: bool
  x_lin :: linearization
  x_dots :: dot_strategy
  x_seed :: u32
  x_cmyk :: bool
  x_input :: pixel_source
  x_alpha :: alpha_mask
  x_xdpi :: rat
  x_ydpi :: rat
  x_assets :: string \<comment> \<open>\<open>assetsExtractPath\<close>\<close>

definition x33_setDotStrategy ::
  "int \<Rightarrow> int \<Rightarrow> int \<Rightarrow> bool \<Rightarrow> u8 \<Rightarrow> u8 \<Rightarrow> u8 \<Rightarrow> u8 \<Rightarrow> bool \<Rightarrow> x33_job \<Rightarrow> x33_job" where
  "x33_setDotStrategy minInkT small med promote rangeCMY maxCMY rangeK maxK swap X =
     X\<lparr>x_dots := \<lparr>minInkThreshold = minInkT, smallDotThreshold = small, medDotThreshold = med,
         enablePromotion = promote, floorRangeCMY = rangeCMY, floorMaxCMY = maxCMY,
         floorRangeK = rangeK, floorMaxK = maxK, enableDotSwap = swap\<rparr>\<rparr>"

definition whiteEnabled :: "x33_job \<Rightarrow> bool" where
  "whiteEnabled X \<longleftrightarrow> x_white X \<noteq> WhiteOff"

definition x33_channels :: "x33_job \<Rightarrow> int" where
  "x33_channels X = (if whiteEnabled X then 5 else 4)"

definition nocaiOrder :: "x33_job \<Rightarrow> int list" where
  "nocaiOrder X = (if whiteEnabled X then [2, 1, 0, 3, 4, 4] else [2, 1, 0, 3])"

definition x33_keys :: "x33_job \<Rightarrow> string list" where
  "x33_keys X = [''c'', ''m'', ''y'', ''k''] @ (if whiteEnabled X then [x_maskKey X] else [])"

definition x33_mask_file :: "x33_job \<Rightarrow> string \<Rightarrow> string" where
  "x33_mask_file X key = x_assets X @ ''/mask_512_'' @ key @ ''.tiff''"

definition x33_metadata :: "x33_job \<Rightarrow> int \<Rightarrow> int \<Rightarrow> int \<Rightarrow> int \<Rightarrow> spool" where
  "x33_metadata X width height xdpi ydpi =
     raster_metadata (nocaiOrder X) (x33_channels X) width height xdpi ydpi 1
       (makeStandardX33Header width height xdpi ydpi (line_bytes width) (int (length (nocaiOrder X))))"

section \<open>Tones\<close>

definition x33_linearized :: "x33_job \<Rightarrow> bytes list \<Rightarrow> bytes list option" where
  "x33_linearized X cmyk = (if hasExternalCurves (x_lin X) then applyFourColorTones (x_lin X) cmyk else Some cmyk)"

definition white_request_of :: "x33_job \<Rightarrow> bytes list \<Rightarrow> int \<Rightarrow> int \<Rightarrow> x33_white_request" where
  "white_request_of X cmyk width height =
     \<lparr>xw_tones = Some cmyk, xw_width = width, xw_height = height, xw_mode = x_white X,
      xw_threshold = x_threshold X, xw_density = x_density X, xw_plate = x_plate X\<rparr>"

definition x33_white_tone :: "x33_job \<Rightarrow> plate_loader \<Rightarrow> bytes list \<Rightarrow> int \<Rightarrow> int \<Rightarrow> bytes option" where
  \<comment> \<open>the white plane and its curve\<close>
  "x33_white_tone X loader cmyk width height =
     (case x33_white_build loader (white_request_of X cmyk width height) of
        None \<Rightarrow> None
      | Some white \<Rightarrow> if hasExternalCurves (x_lin X) then applyWhiteTone (x_lin X) white else Some white)"

definition x33_tones :: "x33_job \<Rightarrow> plate_loader \<Rightarrow> planes4 \<Rightarrow> int \<Rightarrow> int \<Rightarrow> bytes list option" where
  \<comment> \<open>the tone planes of separated and masked pixels\<close>
  "x33_tones X loader images width height =
     (case images of (c, m, y, k) \<Rightarrow>
      case x33_linearized X [c, m, y, k] of
        None \<Rightarrow> None
      | Some cmyk \<Rightarrow>
          if whiteEnabled X
          then map_option (\<lambda>white. cmyk @ [white]) (x33_white_tone X loader cmyk width height)
          else Some cmyk)"

section \<open>In memory\<close>

definition x33_memory_channel :: "x33_job \<Rightarrow> bytes list \<Rightarrow> nat \<Rightarrow> channel_request" where
  "x33_memory_channel X tones ch =
     (let c = \<lparr>maskKey = x33_keys X ! ch, toneBytes = Some (tones ! ch), isLightInk = False,
               useOwnDotStrategy = False, ownSmallDotThreshold = 104, ownMedDotThreshold = 168,
               ownEnablePromotion = False, useEffectiveTone = False, floorClass = (if ch = 3 then 1 else 0)\<rparr>
      in if ch = 4 \<and> x_ownDots X
         then c\<lparr>useOwnDotStrategy := True, ownSmallDotThreshold := x_small X,
                ownMedDotThreshold := x_med X, ownEnablePromotion := x_promotion X\<rparr>
         else c)"

definition x33_memory_request :: "x33_job \<Rightarrow> bytes list \<Rightarrow> 'v screen_request" where
  "x33_memory_request X tones =
     \<lparr>req_width = src_columns (x_input X), req_height = src_rows (x_input X), screenSeed = x_seed X,
      modeParams = Map.empty, dotStrategy = x_dots X,
      channels = map (x33_memory_channel X tones) [0..<nat (x33_channels X)]\<rparr>"

definition x33_memory_tones :: "'d job_env \<Rightarrow> x33_job \<Rightarrow> job_error + bytes list" where
  "x33_memory_tones E X =
     (let width = src_columns (x_input X); height = src_rows (x_input X); pixels = nat width * nat height in
      case src_export (x_input X) 0 (nat height) of
        None \<Rightarrow> Inl JobMagick
      | Some raw \<Rightarrow>
        (case alpha_planes (x_alpha X) (separated pixels raw) of
           None \<Rightarrow> Inl JobAlpha
         | Some images \<Rightarrow>
           if x_white X = WhitePlate \<and> plate_raises E width height (x_plate X) then Inl JobMagick
           else case x33_tones X (loadPlate E) images width height of
             None \<Rightarrow> Inl JobWhite
           | Some tones \<Rightarrow> Inr tones))"

definition x33_buildInMemoryRasterSpool ::
  "'v qvariant \<Rightarrow> 'd job_env \<Rightarrow> (job_poll \<Rightarrow> bool) \<Rightarrow> int \<Rightarrow> int \<Rightarrow> x33_job \<Rightarrow> 'd \<Rightarrow>
   (job_error \<times> 'd) + (spool \<times> 'd)" where
  "x33_buildInMemoryRasterSpool Q E canceled xdpi ydpi X d =
     (case x33_memory_tones E X of
        Inl e \<Rightarrow> Inl (e, d)
      | Inr tones \<Rightarrow>
        (case screenChannels Q (mask_of_image E (x33_mask_file X)) (\<lambda>p. canceled (PollScreen p)) (x33_memory_request X tones) of
           Inl e \<Rightarrow> Inl (JobScreen e, d)
         | Inr packed \<Rightarrow>
           spool_from_memory E canceled
             (x33_metadata X (src_columns (x_input X)) (src_rows (x_input X)) xdpi ydpi) packed d))"

section \<open>In strips\<close>

definition x33_strip_channel :: "x33_job \<Rightarrow> nat \<Rightarrow> screen_channel" where
  "x33_strip_channel X channel =
     (let dots = x_dots X;
          own = channel = 4 \<and> x_ownDots X;
          active = (if own then dots\<lparr>smallDotThreshold := x_small X, medDotThreshold := x_med X,
                                     enablePromotion := x_promotion X\<rparr> else dots)
      in \<lparr>maskPath = x33_mask_file X (x33_keys X ! channel), minInk = minInkThreshold active,
          smallThreshold = smallDotThreshold active, medThreshold = medDotThreshold active,
          floorRange = (if channel = 3 then floorRangeK active else floorRangeCMY active),
          floorMax = (if channel = 3 then floorMaxK active else floorMaxCMY active),
          dotSwap = enableDotSwap active, promotion = enablePromotion active, effectiveClass = False\<rparr>)"

definition x33_strip_tones ::
  "'d job_env \<Rightarrow> x33_job \<Rightarrow> canonical \<Rightarrow> pixel_source option \<Rightarrow> 'd \<Rightarrow> tone_provider" where
  "x33_strip_tones E X K whitePlate d firstRow rowCount =
     (let width = src_columns (x_input X) in
      case canonical_readRows (e_disk E) K (int firstRow) (int rowCount) d of
        Inl _ \<Rightarrow> None
      | Inr raw \<Rightarrow> x33_tones X (\<lambda>_. plate_rows whitePlate width firstRow rowCount)
                    (separated (nat width * rowCount) raw) width (int rowCount))"

definition x33_preparePlate :: "'d job_env \<Rightarrow> x33_job \<Rightarrow> job_error + pixel_source option" where
  "x33_preparePlate E X =
     (if whiteEnabled X \<and> x_white X = WhitePlate
      then case preparePlate E (src_columns (x_input X)) (src_rows (x_input X)) (x_plate X) of
             Inl _ \<Rightarrow> Inl JobMagick
           | Inr None \<Rightarrow> Inl JobPlate
           | Inr (Some im) \<Rightarrow> Inr (Some im)
      else Inr None)"

definition x33_buildBoundedRasterSpool ::
  "'v qvariant \<Rightarrow> 'd job_env \<Rightarrow> (job_poll \<Rightarrow> bool) \<Rightarrow> int \<Rightarrow> int \<Rightarrow> x33_job \<Rightarrow> 'd \<Rightarrow>
   (job_error \<times> 'd) + (spool \<times> 'd)" where
  "x33_buildBoundedRasterSpool Q E canceled xdpi ydpi X d =
     (let D = e_disk E in
      case canonical_create D (e_canonToken E) (e_scratch E) (x_input X) (x_alpha X) (\<lambda>k. canceled (PollCanonical k))
             (d, \<lparr>k_path = [], k_width = 0, k_height = 0\<rparr>) of
        Inl (e, st) \<Rightarrow> Inl (JobCanonical e, fst (canonical_remove D st))
      | Inr (d, K) \<Rightarrow>
        (case x33_preparePlate E X of
           Inl e \<Rightarrow> Inl (e, fst (canonical_remove D (d, K)))
         | Inr plate \<Rightarrow>
           (case spool_from_strips Q E canceled
                   (x33_metadata X (src_columns (x_input X)) (src_rows (x_input X)) xdpi ydpi)
                   (x_seed X) Map.empty (map (x33_strip_channel X) [0..<nat (x33_channels X)])
                   (x33_strip_tones E X K plate) d of
              Inl (e, d) \<Rightarrow> Inl (e, fst (canonical_remove D (d, K)))
            | Inr (sp, d) \<Rightarrow> Inr (sp, fst (canonical_remove D (d, K))))))"

section \<open>The whole run\<close>

definition x33_storage_job :: "x33_job \<Rightarrow> int \<Rightarrow> int \<Rightarrow> bool \<Rightarrow> u64 \<Rightarrow> storage_job" where
  "x33_storage_job X outWidth outHeight withFinalPrn masks =
     \<lparr>job_width = outWidth, job_height = outHeight,
      source_width = src_columns (x_input X), source_height = src_rows (x_input X),
      job_logical = x33_channels X, job_physical = int (length (nocaiOrder X)),
      includeFinalPrn = withFinalPrn, includeAlphaCache = alpha_active (x_alpha X),
      externalPlateCaches = (if whiteEnabled X \<and> x_white X = WhitePlate then 1 else 0), maskCacheBytes = masks\<rparr>"

definition x33_resize_page :: "'d job_env \<Rightarrow> int \<Rightarrow> int \<Rightarrow> x33_job \<Rightarrow> (job_error \<times> x33_job) + x33_job" where
  "x33_resize_page E outWidth outHeight X =
     (if outWidth = src_columns (x_input X) \<and> outHeight = src_rows (x_input X) then Inr X
      else case e_resize E outWidth outHeight (x_input X) of
        None \<Rightarrow> Inl (JobMagick, X)
      | Some im \<Rightarrow>
        (case alpha_resize (e_resize E) outWidth outHeight (x_alpha X) of
           (ok, A) \<Rightarrow> (let X = X\<lparr>x_input := im, x_alpha := A\<rparr> in if ok then Inr X else Inl (JobAlpha, X))))"

definition x33_run_backends ::
  "'v qvariant \<Rightarrow> 'd job_env \<Rightarrow> (job_poll \<Rightarrow> bool) \<Rightarrow> bool \<Rightarrow> int \<Rightarrow> int \<Rightarrow> x33_job \<Rightarrow> 'd \<Rightarrow>
   (job_error \<times> 'd) + (spool \<times> 'd)" where
  "x33_run_backends Q E canceled useInMemory xdpi ydpi X d =
     (if useInMemory
      then case x33_buildInMemoryRasterSpool Q E canceled xdpi ydpi X d of
             Inr r \<Rightarrow> Inr r
           | Inl (_, d) \<Rightarrow>
               if canceled PollFallback then Inl (JobCanceled, d)
               else x33_buildBoundedRasterSpool Q E canceled xdpi ydpi X d
      else x33_buildBoundedRasterSpool Q E canceled xdpi ydpi X d)"

definition x33_buildRasterSpool ::
  "'v qvariant \<Rightarrow> 'd job_env \<Rightarrow> (job_poll \<Rightarrow> bool) \<Rightarrow> int \<Rightarrow> int \<Rightarrow> bool \<Rightarrow> x33_job \<times> 'd \<Rightarrow>
   (job_error \<times> x33_job \<times> 'd) + (spool \<times> x33_job \<times> 'd)" where
  "x33_buildRasterSpool Q E canceled xdpi ydpi withFinalPrn st =
     (case st of (X, d) \<Rightarrow>
      if \<not> x_cmyk X then Inl (JobNotCmyk, X, d)
      else case outputPixelSize (src_columns (x_input X)) (src_rows (x_input X)) (x_xdpi X, x_ydpi X) xdpi ydpi of
        None \<Rightarrow> Inl (JobDimensions, X, d)
      | Some (outWidth, outHeight) \<Rightarrow>
        (case estimateMaskCacheStorage (e_quantum E) (e_ping E) (map (x33_mask_file X) (x33_keys X)) of
           Inl e \<Rightarrow> Inl (JobMaskEstimate e, X, d)
         | Inr masks \<Rightarrow>
           (case preflightStorage (e_quantum E) (e_storage E) (x33_storage_job X outWidth outHeight withFinalPrn masks) of
              Inl e \<Rightarrow> Inl (JobPreflight e, X, d)
            | Inr _ \<Rightarrow>
              let useInMemory = (strategy (selectRasterStrategy (e_forced E) outWidth outHeight (x33_channels X) False) = InMemory) in
              (case x33_resize_page E outWidth outHeight X of
                 Inl (e, X) \<Rightarrow> Inl (e, X, d)
               | Inr X \<Rightarrow>
                 (case x33_run_backends Q E canceled useInMemory xdpi ydpi X d of
                    Inl (e, d) \<Rightarrow> Inl (e, X, d)
                  | Inr (sp, d) \<Rightarrow> Inr (sp, X, d))))))"

definition x33_writePRNFile :: "'d job_env \<Rightarrow> spool \<Rightarrow> string \<Rightarrow> 'd \<Rightarrow> 'd prn_result" where
  "x33_writePRNFile E sp outputPath d = writeStandardX33Spool (e_disk E) (e_stream E) (e_sha E) sp outputPath d"

definition x33_generateFinalPRN ::
  "'v qvariant \<Rightarrow> 'd job_env \<Rightarrow> (job_poll \<Rightarrow> bool) \<Rightarrow> string \<Rightarrow> int \<Rightarrow> int \<Rightarrow> x33_job \<times> 'd \<Rightarrow> bool \<times> x33_job \<times> 'd" where
  "x33_generateFinalPRN Q E canceled outputPath xdpi ydpi st =
     (case x33_buildRasterSpool Q E canceled xdpi ydpi True st of
        Inl (_, X, d) \<Rightarrow> (False, X, d)
      | Inr (sp, X, d) \<Rightarrow>
        (case x33_writePRNFile E sp outputPath d of
           Inl (_, d) \<Rightarrow> (False, X, spool_remove (e_disk E) sp d)
         | Inr d \<Rightarrow> (True, X, spool_remove (e_disk E) sp d)))"

end
