(* ===== verification/X33_Laws.thy ===== *)
theory X33_Laws
  imports Multi_Ink_Delivery X33_Job
begin

text \<open>
  The X-33 job: the tone planes of a strip, white included, are the strips of the tone planes of
  the page, so both backends deliver the same spool and the print file does not depend on which
  of them ran.
\<close>

section \<open>Tones of a strip\<close>

lemma x33_linearized_shape:
  assumes "x33_linearized X [c, m, y, k] = Some cmyk"
  shows "length cmyk = 4" and "length c = n \<and> length m = n \<and> length y = n \<and> length k = n \<Longrightarrow> \<forall>t \<in> set cmyk. length t = n"
  using assms by (auto simp: x33_linearized_def applyFourColorTones_def split: if_splits)

lemma x33_linearized_ok:
  assumes "length c = n" "length m = n" "length y = n" "length k = n"
  shows "\<exists>cmyk. x33_linearized X [c, m, y, k] = Some cmyk"
  using assms by (simp add: x33_linearized_def applyFourColorTones_def)

lemma cut_map: "map f (cut_span a n xs) = cut_span a n (map f xs)"
  by (simp add: cut_span_def take_map drop_map)

lemma x33_linearized_cut:
  assumes "length c = N" "length m = N" "length y = N" "length k = N" and le: "a + n \<le> N"
  shows "x33_linearized X [cut_span a n c, cut_span a n m, cut_span a n y, cut_span a n k] =
    map_option (map (cut_span a n)) (x33_linearized X [c, m, y, k])"
  using assms by (simp add: x33_linearized_def applyFourColorTones_def cut_map length_cut)

lemma x33_page_pixels:
  assumes "page_ok w h" and "0 < n" and "n \<le> nat h"
  shows "unat (cast64 w * cast64 (int n)) = nat w * n"
  using page_words(1) [OF assms(1), of "int n"] assms by (simp add: page_ok_def)

lemma x33_white_build_cut:
  assumes P: "page_ok w h" and r: "0 < n" "y0 + n \<le> nat h"
    and cmyk: "length cmyk = 4" "\<forall>t \<in> set cmyk. length t = nat w * nat h"
    and plate: "x_white X = WhitePlate \<Longrightarrow> \<exists>p. load (x_plate X) (nat w) (nat h) = Some p \<and> length p = nat w * nat h"
  shows "x33_white_build (strip_loader load (nat h) y0)
      (white_request_of X (map (cut_span (y0 * nat w) (n * nat w)) cmyk) w (int n)) =
    map_option (cut_span (y0 * nat w) (n * nat w)) (x33_white_build load (white_request_of X cmyk w h))"
proof -
  let ?a = "y0 * nat w" and ?n = "n * nat w"
  note D = page_okD [OF P]
  have le: "?a + ?n \<le> nat w * nat h" by (rule strip_le [OF r(2)])
  have pc: "unat (cast64 w * cast64 (int n)) = ?n" "unat (cast64 w * cast64 h) = nat w * nat h"
    using x33_page_pixels [OF P, of n] x33_page_pixels [OF P, of "nat h"] r D(1-4) by (simp_all add: mult.commute)
  note pc = pc pc(1) [unfolded of_int_of_nat_eq]
  note pos = D(1,2)
  have cut: "\<forall>t \<in> set cmyk. length (cut_span ?a ?n t) = ?n" using cmyk(2) le by (simp add: length_cut)
  have idx: "cut_span ?a ?n t ! i = t ! (?a + i)" if "i < ?n" "length t = nat w * nat h" for t :: bytes and i
    using that le by (intro cut_nth) auto
  have len: "length (cmyk ! j) = nat w * nat h" if "j < 4" for j using cmyk that by simp
  have auto_under: "map (\<lambda>i. max (max (cut_span ?a ?n (cmyk ! 0) ! i) (cut_span ?a ?n (cmyk ! Suc 0) ! i))
        (max (cut_span ?a ?n (cmyk ! 2) ! i) (cut_span ?a ?n (cmyk ! 3) ! i))) [0..<?n] =
      cut_span ?a ?n (map (\<lambda>i. max (max (cmyk ! 0 ! i) (cmyk ! Suc 0 ! i)) (max (cmyk ! 2 ! i) (cmyk ! 3 ! i))) [0..<nat w * nat h])"
    by (intro map_cut_cong [OF le]) (simp add: idx len)
  have dens: "map (\<lambda>i. applyThresholdAndDensity (cut_span ?a ?n cand ! i) t d) [0..<?n] =
      cut_span ?a ?n (map (\<lambda>i. applyThresholdAndDensity (cand ! i) t d) [0..<nat w * nat h])"
    if "length cand = nat w * nat h" for cand t d
    using that by (intro map_cut_cong [OF le]) (simp add: idx)
  have rep: "cut_span ?a ?n (replicate (nat w * nat h) v) = replicate ?n v" for v :: u8
    by (rule cut_replicate [OF le])
  show ?thesis
  proof (cases "x_white X")
    case WhiteOff
    then show ?thesis using pos r by (simp add: x33_white_build_def white_request_of_def pc rep)
  next
    case WhiteFlood
    then show ?thesis using pos r cut cmyk
      by (simp add: x33_white_build_def white_request_of_def pc rep)
  next
    case WhiteAutoUnderbase
    then show ?thesis using pos r cut cmyk
      by (simp add: x33_white_build_def white_request_of_def pc Let_def auto_under dens del: upt_Suc)
  next
    case WhitePlate
    then obtain p where p: "load (x_plate X) (nat w) (nat h) = Some p" "length p = nat w * nat h" using plate by blast
    have "length (cut_span ?a ?n p) = ?n" using p(2) le by (intro length_cut) simp
    then show ?thesis using pos r cut cmyk WhitePlate p
      by (simp add: x33_white_build_def white_request_of_def pc Let_def strip_loader_def dens)
  qed
qed

lemma x33_white_build_ok:
  assumes P: "page_ok w h" and cmyk: "\<forall>t \<in> set cmyk. length t = nat w * nat h"
    and plate: "x_white X = WhitePlate \<Longrightarrow> \<exists>p. load (x_plate X) (nat w) (nat h) = Some p \<and> length p = nat w * nat h"
  shows "\<exists>white. x33_white_build load (white_request_of X cmyk w h) = Some white \<and> length white = nat w * nat h"
proof -
  note pos = page_okD(1,2) [OF P]
  have pc: "unat (cast64 w * cast64 h) = nat w * nat h"
    using x33_page_pixels [OF P, of "nat h"] pos by simp
  show ?thesis
    using cmyk pos plate
    by (cases "x_white X") (auto simp: x33_white_build_def white_request_of_def pc Let_def)
qed

definition x33_plate_ready :: "x33_job \<Rightarrow> plate_loader \<Rightarrow> int \<Rightarrow> int \<Rightarrow> bool" where
  "x33_plate_ready X load w h \<longleftrightarrow>
     (x_white X = WhitePlate \<longrightarrow> (\<exists>p. load (x_plate X) (nat w) (nat h) = Some p \<and> length p = nat w * nat h))"

lemma white_tone_ok:
  assumes P: "page_ok w h" and cmyk: "\<forall>t \<in> set cmyk. length t = nat w * nat h" and plate: "x33_plate_ready X load w h"
  shows "\<exists>white. x33_white_tone X load cmyk w h = Some white \<and> length white = nat w * nat h"
  using x33_white_build_ok [OF P cmyk, of X load] plate
  by (auto simp: x33_white_tone_def x33_plate_ready_def applyWhiteTone_def)

lemma white_tone_cut:
  assumes P: "page_ok w h" and r: "0 < n" "y0 + n \<le> nat h" and plate: "x33_plate_ready X load w h"
    and cmyk: "length cmyk = 4" "\<forall>t \<in> set cmyk. length t = nat w * nat h"
  shows "x33_white_tone X (strip_loader load (nat h) y0) (map (cut_span (y0 * nat w) (n * nat w)) cmyk) w (int n) =
    map_option (cut_span (y0 * nat w) (n * nat w)) (x33_white_tone X load cmyk w h)"
  using x33_white_build_cut [OF P r cmyk, of X load] plate
  by (simp add: x33_white_tone_def x33_plate_ready_def applyWhiteTone_def cut_map split: option.splits)

lemma x33_tones_shape:
  assumes P: "page_ok w h" and plate: "x33_plate_ready X load w h" and pl: "sized4 (nat w * nat h) pl"
  shows "\<exists>tones. x33_tones X load pl w h = Some tones \<and> length tones = nat (x33_channels X) \<and>
    (\<forall>t \<in> set tones. length t = nat w * nat h)"
proof -
  obtain c m y k where e: "pl = (c, m, y, k)" by (cases pl)
  have l: "length c = nat w * nat h" "length m = nat w * nat h" "length y = nat w * nat h" "length k = nat w * nat h"
    using pl by (simp_all add: e sized4_def)
  obtain cmyk where q: "x33_linearized X [c, m, y, k] = Some cmyk" using x33_linearized_ok [OF l] by blast
  have s: "length cmyk = 4" "\<forall>t \<in> set cmyk. length t = nat w * nat h" using x33_linearized_shape [OF q] l by blast+
  obtain white where "x33_white_tone X load cmyk w h = Some white" "length white = nat w * nat h"
    using white_tone_ok [OF P s(2) plate] by blast
  then show ?thesis using s by (auto simp: x33_tones_def e q x33_channels_def)
qed

lemma x33_tones_strip:
  assumes P: "page_ok w h" and r: "0 < n" "y0 + n \<le> nat h" and plate: "x33_plate_ready X load w h"
    and pl: "sized4 (nat w * nat h) pl"
  shows "x33_tones X (strip_loader load (nat h) y0) (cut4 (y0 * nat w) (n * nat w) pl) w (int n) =
    map_option (map (cut_span (y0 * nat w) (n * nat w))) (x33_tones X load pl w h)"
proof -
  obtain c m y k where e: "pl = (c, m, y, k)" by (cases pl)
  have l: "length c = nat w * nat h" "length m = nat w * nat h" "length y = nat w * nat h" "length k = nat w * nat h"
    using pl by (simp_all add: e sized4_def)
  have le: "y0 * nat w + n * nat w \<le> nat w * nat h" by (rule strip_le [OF r(2)])
  obtain cmyk where q: "x33_linearized X [c, m, y, k] = Some cmyk" using x33_linearized_ok [OF l] by blast
  have s: "length cmyk = 4" "\<forall>t \<in> set cmyk. length t = nat w * nat h" using x33_linearized_shape [OF q] l by blast+
  show ?thesis
    using white_tone_cut [OF P r plate s] x33_linearized_cut [OF l le, of X]
    by (simp add: x33_tones_def e cut4_tuple q option.map_comp comp_def)
qed

end
