(* ===== verification/X33_Delivery.thy ===== *)
theory X33_Delivery
  imports X33_Laws
begin

text \<open>
  On a disk that does not fail, both backends of \<open>PrintJobCMYK\<close> deliver the spool of the planes
  the in-memory screener computes, and \<open>generateFinalPRN\<close> writes the X-33 print file of those
  planes, whichever backend ran, and leaves no scratch file behind.
\<close>

section \<open>A job both backends can run\<close>

definition x33_ready :: "'d job_env \<Rightarrow> x33_job \<Rightarrow> bytes \<Rightarrow> bytes \<Rightarrow> bool" where
  \<comment> \<open>the page holds \<open>px\<close>, its mask \<open>al\<close>; the masks are readable, and so is the plate when it is asked for\<close>
  "x33_ready E X px al \<longleftrightarrow>
     (let w = src_columns (x_input X); h = src_rows (x_input X) in
      page_ok w h \<and> x33_channels X * h \<le> int_max \<and> exports (x_input X) 4 px \<and> alpha_covers (x_alpha X) w h al \<and>
      x_maskKey X \<noteq> [] \<and>
      (\<forall>key \<in> set (x33_keys X). \<exists>im. e_gray E (x33_mask_file X key) = Some im \<and> 0 < img_columns im \<and> 0 < img_rows im) \<and>
      (x_white X = WhitePlate \<longrightarrow> plate_ok E w h (x_plate X) \<and> plate_of E w h (x_plate X) \<noteq> None))"

definition x33_page_tones :: "'d job_env \<Rightarrow> x33_job \<Rightarrow> bytes \<Rightarrow> bytes \<Rightarrow> bytes list" where
  "x33_page_tones E X px al =
     (let w = src_columns (x_input X); h = src_rows (x_input X); n = nat w * nat h in
      the (x33_tones X (loadPlate E) (separated n (page_bytes (x_alpha X) px al n)) w h))"

lemma x33_readyD:
  assumes "x33_ready E X px al"
  shows "page_ok (src_columns (x_input X)) (src_rows (x_input X))" "x33_channels X * src_rows (x_input X) \<le> int_max"
    "exports (x_input X) 4 px" "alpha_covers (x_alpha X) (src_columns (x_input X)) (src_rows (x_input X)) al"
  using assms by (simp_all add: x33_ready_def Let_def)

lemma x33_plate_exists:
  assumes R: "x33_ready E X px al" and p: "x_white X = WhitePlate"
  shows "\<exists>im. preparePlate E (src_columns (x_input X)) (src_rows (x_input X)) (x_plate X) = Inr (Some im) \<and>
    plate_of E (src_columns (x_input X)) (src_rows (x_input X)) (x_plate X) = Some im"
  using R p plate_ok_prepared by (fastforce simp: x33_ready_def Let_def)

lemma x33_plates_ready:
  assumes R: "x33_ready E X px al"
  shows "x33_plate_ready X (loadPlate E) (src_columns (x_input X)) (src_rows (x_input X))"
    and "x_white X = WhitePlate \<Longrightarrow> \<not> plate_raises E (src_columns (x_input X)) (src_rows (x_input X)) (x_plate X)"
proof -
  let ?w = "src_columns (x_input X)" and ?h = "src_rows (x_input X)"
  note D = page_okD [OF x33_readyD(1) [OF R]]
  have ok: "plate_ok E ?w ?h (x_plate X)" if "x_white X = WhitePlate"
    using R that by (simp add: x33_ready_def Let_def)
  show n: "\<not> plate_raises E ?w ?h (x_plate X)" if "x_white X = WhitePlate"
    using plate_ok_loads(1) [OF ok D(1,2)] that by blast
  have "\<exists>p. loadPlate E (x_plate X) (nat ?w) (nat ?h) = Some p" if w: "x_white X = WhitePlate"
    using n [OF w] x33_plate_exists [OF R w] D by (auto simp: loadPlate_def plate_raises_def)
  then show "x33_plate_ready X (loadPlate E) ?w ?h"
    using plate_ok_loads(2) [OF ok D(1,2)] by (auto simp: x33_plate_ready_def)
qed

lemma x33_page_tones_build:
  assumes R: "x33_ready E X px al" and w: "w = src_columns (x_input X)" and h: "h = src_rows (x_input X)"
  shows "x33_tones X (loadPlate E) (separated (nat w * nat h) (page_bytes (x_alpha X) px al (nat w * nat h))) w h =
      Some (x33_page_tones E X px al)"
    and "length (x33_page_tones E X px al) = nat (x33_channels X)"
    and "\<forall>t \<in> set (x33_page_tones E X px al). length t = nat w * nat h"
proof -
  from x33_tones_shape [OF x33_readyD(1) [OF R] x33_plates_ready(1) [OF R] separated_sized,
      of "page_bytes (x_alpha X) px al (nat w * nat h)"] obtain tones where
    t: "x33_tones X (loadPlate E) (separated (nat w * nat h) (page_bytes (x_alpha X) px al (nat w * nat h))) w h = Some tones"
    "length tones = nat (x33_channels X)" "\<forall>t \<in> set tones. length t = nat w * nat h" unfolding w h by blast
  have "tones = x33_page_tones E X px al" using t(1) by (simp add: x33_page_tones_def Let_def w h)
  with t show "x33_tones X (loadPlate E) (separated (nat w * nat h) (page_bytes (x_alpha X) px al (nat w * nat h))) w h =
      Some (x33_page_tones E X px al)"
    "length (x33_page_tones E X px al) = nat (x33_channels X)"
    "\<forall>t \<in> set (x33_page_tones E X px al). length t = nat w * nat h" by simp_all
qed

lemma x33_memory_tones_ready:
  assumes R: "x33_ready E X px al"
  shows "x33_memory_tones E X = Inr (x33_page_tones E X px al)"
proof -
  let ?w = "src_columns (x_input X)" and ?h = "src_rows (x_input X)"
  note P = x33_readyD [OF R]
  have px: "length px = nat ?w * nat ?h * 4" using P(3) by (simp add: exports_def)
  have e: "src_export (x_input X) 0 (nat ?h) = Some px"
    using exports_rows [OF P(3), of 0 "nat ?h"] px by (simp add: cut_span_def mult.commute mult.left_commute)
  show ?thesis
    using e alpha_planes_page [OF P(4,1), of px] x33_plates_ready(2) [OF R] x33_page_tones_build(1) [OF R refl refl]
    by (auto simp: x33_memory_tones_def Let_def)
qed

section \<open>The same channels\<close>

lemma x33_keys_length: "length (x33_keys X) = nat (x33_channels X)"
  by (simp add: x33_keys_def x33_channels_def)

lemma x33_channel_same:
  "same_channel Q (x33_memory_request X tones) (x33_memory_channel X tones ch) (x33_strip_channel X ch)"
proof -
  have cl: "clamp (clamp x 0 254) 0 254 = clamp x 0 254" for x :: int by (simp add: clamp_def)
  show ?thesis
    by (cases "ch = 4"; cases "ch = 3"; cases "x_ownDots X")
      (simp_all add: same_channel_def x33_memory_request_def x33_memory_channel_def x33_strip_channel_def Let_def
        is_k_like_def channel_strategy_def strategy_matches_def channel_min_tone_def cl)
qed

lemma x33_same_job:
  fixes Q :: "'v qvariant"
  assumes R: "x33_ready E X px al"
  shows "same_job Q (mask_of_image E (x33_mask_file X)) (e_gray E)
    (x33_memory_request X (x33_page_tones E X px al))
    (map (x33_strip_channel X) [0..<nat (x33_channels X)]) (x33_page_tones E X px al)"
proof -
  let ?w = "src_columns (x_input X)" and ?h = "src_rows (x_input X)" and ?n = "nat (x33_channels X)"
  define tones where "tones = x33_page_tones E X px al"
  define req :: "'v screen_request" where "req = x33_memory_request X tones"
  note D = page_okD [OF x33_readyD(1) [OF R]]
  note T = x33_page_tones_build(2,3) [OF R refl refl, folded tones_def]
  have keys: "x33_keys X ! ch \<in> set (x33_keys X)" if "ch < ?n" for ch using that by (simp add: x33_keys_length)
  have "x_maskKey X \<noteq> []" using R by (simp add: x33_ready_def Let_def)
  then have ne: "key \<noteq> []" if "key \<in> set (x33_keys X)" for key using that by (auto simp: x33_keys_def split: if_splits)
  have mask: "\<exists>m im. mask_of_image E (x33_mask_file X) (x33_keys X ! ch) = Some m \<and>
      e_gray E (x33_mask_file X (x33_keys X ! ch)) = Some im \<and> same_mask m im" if "ch < ?n" for ch
    using R keys [OF that] mask_of_image_same unfolding x33_ready_def Let_def by metis
  have chan: "maskKey (x33_memory_channel X tones ch) = x33_keys X ! ch"
    "toneBytes (x33_memory_channel X tones ch) = Some (tones ! ch)"
    "maskPath (x33_strip_channel X ch) = x33_mask_file X (x33_keys X ! ch)" for ch
    by (simp_all add: x33_memory_channel_def x33_strip_channel_def Let_def)
  have each: "let c = channels req ! ch; sc = map (x33_strip_channel X) [0..<?n] ! ch in
        maskKey c \<noteq> [] \<and> toneBytes c = Some (tones ! ch) \<and> same_channel Q req c sc \<and>
        (case (mask_of_image E (x33_mask_file X) (maskKey c), e_gray E (maskPath sc)) of
           (Some m, Some im) \<Rightarrow> same_mask m im | _ \<Rightarrow> False)" if "ch < ?n" for ch
  proof -
    have c: "channels req ! ch = x33_memory_channel X tones ch"
      "map (x33_strip_channel X) [0..<?n] ! ch = x33_strip_channel X ch"
      using that by (simp_all add: req_def x33_memory_request_def)
    show ?thesis using mask [OF that] ne [OF keys [OF that]] x33_channel_same [of Q X tones ch, folded req_def] by (auto simp: Let_def c chan)
  qed
  have "planes_ok tones ?n (nat ?w) (nat ?h)" using T by (simp add: planes_ok_def)
  moreover have "channels req \<noteq> []" "length (channels req) = ?n"
    "req_width req = ?w" "req_height req = ?h"
    by (simp_all add: req_def x33_memory_request_def x33_channels_def)
  ultimately show ?thesis
    using D each unfolding same_job_def tones_def [symmetric] req_def [symmetric] by (simp add: Let_def)
qed

lemma x33_white_tone_cong:
  assumes "x_white X = WhitePlate \<Longrightarrow> l1 (x_plate X) (nat w) (nat h) = l2 (x_plate X) (nat w) (nat h)"
  shows "x33_white_tone X l1 cmyk w h = x33_white_tone X l2 cmyk w h"
  using assms by (cases "x_white X") (simp_all add: x33_white_tone_def x33_white_build_def white_request_of_def Let_def)

section \<open>Both backends\<close>

lemma x33_metadata_for:
  assumes R: "x33_ready E X px al" and dpi: "0 < xdpi" "0 < ydpi" "xdpi \<le> int_max" "ydpi \<le> int_max"
  shows "spool_for (x33_memory_request X tones) (x33_metadata X (src_columns (x_input X)) (src_rows (x_input X)) xdpi ydpi)"
proof -
  have n: "0 < x33_channels X" "x33_channels X \<le> 16" by (simp_all add: x33_channels_def)
  have order: "nocaiOrder X \<noteq> []" "length (nocaiOrder X) \<le> 16" "\<forall>c \<in> set (nocaiOrder X). 0 \<le> c \<and> c < x33_channels X"
    by (simp_all add: nocaiOrder_def x33_channels_def)
  let ?md = "x33_metadata X (src_columns (x_input X)) (src_rows (x_input X)) xdpi ydpi"
  have "spool_typed ?md" "metadataIsValid (spool_meta ?md) = Inr ()"
    using raster_metadata_valid [OF x33_readyD(1) [OF R] n x33_readyD(2) [OF R] dpi order,
        of "makeStandardX33Header (src_columns (x_input X)) (src_rows (x_input X)) xdpi ydpi
          (line_bytes (src_columns (x_input X))) (int (length (nocaiOrder X)))" 1]
    by (simp_all add: x33_metadata_def makeStandardX33Header_def)
  then show ?thesis
    using n by (simp add: spool_for_def spool_meta_def x33_memory_request_def)
      (simp add: x33_metadata_def raster_metadata_def)
qed

definition x33_printable :: "'d job_env \<Rightarrow> int \<Rightarrow> int \<Rightarrow> x33_job \<Rightarrow> bytes \<Rightarrow> bytes \<Rightarrow> x33_job \<Rightarrow> bool" where
  \<comment> \<open>the checks before the rasterization pass, and the resized job can be run\<close>
  "x33_printable E xdpi ydpi X px al X' \<longleftrightarrow>
     x_cmyk X \<and> x33_ready E X' px al \<and>
     (case outputPixelSize (src_columns (x_input X)) (src_rows (x_input X)) (x_xdpi X, x_ydpi X) xdpi ydpi of
        None \<Rightarrow> False
      | Some (outWidth, outHeight) \<Rightarrow>
          x33_resize_page E outWidth outHeight X = Inr X' \<and>
          (case estimateMaskCacheStorage (e_quantum E) (e_ping E) (map (x33_mask_file X) (x33_keys X)) of
             Inl _ \<Rightarrow> False
           | Inr masks \<Rightarrow> \<exists>r. preflightStorage (e_quantum E) (e_storage E)
               (x33_storage_job X outWidth outHeight True masks) = Inr r))"

context reliable_store
begin

lemma x33_strip_tones_serve:
  assumes R: "x33_ready E X px al" and E: "e_disk E = D"
    and plate: "x33_preparePlate E X = Inr plate"
    and K: "k_width K = src_columns (x_input X)" "k_height K = src_rows (x_input X)"
    and c: "contents d (k_path K) = Some (page_bytes (x_alpha X) px al (nat (src_columns (x_input X)) * nat (src_rows (x_input X))))"
  shows "serves_planes (x33_strip_tones E X K plate d) (x33_page_tones E X px al)
    (nat (src_columns (x_input X))) (nat (src_rows (x_input X)))"
  unfolding serves_planes_def
proof (intro allI impI)
  fix first rc :: nat
  define W where "W = src_columns (x_input X)"
  define H where "H = src_rows (x_input X)"
  define page where "page = page_bytes (x_alpha X) px al (nat W * nat H)"
  assume rc: "0 < rc" "first + rc \<le> nat (src_rows (x_input X))"
  then have r: "first + rc \<le> nat H" by (simp add: H_def)
  note P = x33_readyD(1) [OF R, folded W_def H_def]
  note D' = page_okD [OF P]
  have len: "length page = nat W * nat H * 4"
    using length_page [OF x33_readyD(3) [OF R]] by (simp add: page_def W_def H_def)
  have raw: "canonical_readRows D K (int first) (int rc) d = Inr (cut_span (first * nat W * 4) (rc * nat W * 4) page)"
    using canonical_readRows_ok [of d K page rc first] c P len rc by (simp add: K page_def W_def H_def)
  have sep: "separated (nat W * rc) (cut_span (first * nat W * 4) (rc * nat W * 4) page) =
      cut4 (first * nat W) (rc * nat W) (separated (nat W * nat H) page)"
    using separated_cut [OF len r] by (simp add: mult.commute)
  have load: "x33_white_tone X (\<lambda>_. plate_rows plate W first rc) cmyk W (int rc) =
      x33_white_tone X (strip_loader (loadPlate E) (nat H) first) cmyk W (int rc)" for cmyk
  proof (rule x33_white_tone_cong)
    assume w: "x_white X = WhitePlate"
    obtain im where im: "preparePlate E W H (x_plate X) = Inr (Some im)" "plate_of E W H (x_plate X) = Some im"
      using x33_plate_exists [OF R w] unfolding W_def H_def by blast
    have "plate_ok E W H (x_plate X)" using R w by (simp add: x33_ready_def Let_def W_def H_def)
    moreover have "plate = Some im" using plate im w by (simp add: x33_preparePlate_def whiteEnabled_def W_def H_def)
    ultimately show "plate_rows plate W first rc (nat W) (nat (int rc)) =
        strip_loader (loadPlate E) (nat H) first (x_plate X) (nat W) (nat (int rc))"
      using plate_strip(1) [of E W H "x_plate X" first rc] D'(1,2) r im(2) by simp
  qed
  have "x33_strip_tones E X K plate d first rc =
      x33_tones X (strip_loader (loadPlate E) (nat H) first)
        (cut4 (first * nat W) (rc * nat W) (separated (nat W * nat H) page)) W (int rc)"
    using raw by (simp add: x33_strip_tones_def Let_def E sep flip: W_def) (simp only: x33_tones_def load)
  also have "\<dots> = Some (map (cut_span (first * nat W) (rc * nat W)) (x33_page_tones E X px al))"
    using x33_tones_strip [OF P rc(1) r x33_plates_ready(1) [OF R, folded W_def H_def] separated_sized]
      x33_page_tones_build(1) [OF R W_def H_def] by (simp add: page_def)
  finally show "x33_strip_tones E X K plate d first rc =
      Some (map (\<lambda>p. take (nat (src_columns (x_input X)) * rc) (drop (first * nat (src_columns (x_input X))) p)) (x33_page_tones E X px al))"
    by (simp add: cut_span_def W_def mult.commute)
qed

lemma x33_backends:
  fixes Q :: "'v qvariant"
  assumes R: "x33_ready E X px al" and E: "e_disk E = D" "e_stream E = S"
    and nc: "\<And>p. \<not> canceled p" and sha: "\<And>x. length (e_sha E x) = 32"
    and dpi: "0 < xdpi" "0 < ydpi" "xdpi \<le> int_max" "ydpi \<le> int_max"
    and free: "contents d (final_path (e_scratch E) (e_memoryToken E)) = None"
      "contents d (final_path (e_scratch E) (e_stripToken E)) = None"
      "contents d (canonical_path (e_scratch E) (e_canonToken E)) = None"
  shows "\<exists>planes spM dM spB dB.
    screenChannels Q (mask_of_image E (x33_mask_file X)) (\<lambda>p. canceled (PollScreen p))
      (x33_memory_request X (x33_page_tones E X px al)) = Inr planes \<and>
    x33_buildInMemoryRasterSpool Q E canceled xdpi ydpi X d = Inr (spM, dM) \<and>
    delivered contents S (e_sha E) (x33_metadata X (src_columns (x_input X)) (src_rows (x_input X)) xdpi ydpi)
      (e_scratch E) (e_memoryToken E) planes d spM dM \<and>
    x33_buildBoundedRasterSpool Q E canceled xdpi ydpi X d = Inr (spB, dB) \<and>
    delivered contents S (e_sha E) (x33_metadata X (src_columns (x_input X)) (src_rows (x_input X)) xdpi ydpi)
      (e_scratch E) (e_stripToken E) planes d spB dB"
proof -
  let ?w = "src_columns (x_input X)" and ?h = "src_rows (x_input X)"
  define md where "md = x33_metadata X ?w ?h xdpi ydpi"
  define req :: "'v screen_request" where "req = x33_memory_request X (x33_page_tones E X px al)"
  define cs where "cs = map (x33_strip_channel X) [0..<nat (x33_channels X)]"
  let ?K = "\<lparr>k_path = canonical_path (e_scratch E) (e_canonToken E), k_width = ?w, k_height = ?h\<rparr>"
  note P = x33_readyD [OF R]
  have md: "spool_for req md" unfolding req_def md_def by (rule x33_metadata_for [OF R dpi])
  obtain plate where plate: "x33_preparePlate E X = Inr plate"
    using x33_plate_exists [OF R] by (cases "x_white X = WhitePlate") (auto simp: x33_preparePlate_def whiteEnabled_def)
  have serve: "serves_planes (x33_strip_tones E X ?K plate d2) (x33_page_tones E X px al) (nat (req_width req)) (nat (req_height req))"
    if "contents d2 (k_path ?K) = Some (page_bytes (x_alpha X) px al (nat ?w * nat ?h))" for d2
    using x33_strip_tones_serve [OF R E(1) plate, of ?K d2] that by (simp add: req_def x33_memory_request_def)
  have same: "same_job Q (mask_of_image E (x33_mask_file X)) (e_gray E) req cs (x33_page_tones E X px al)"
    unfolding req_def cs_def by (rule x33_same_job [OF R])
  from both_backends_deliver [where canceled = canceled and provider = "x33_strip_tones E X ?K plate",
      OF E P(3,4,1) refl same md serve nc sha free] obtain planes spM dM d1 spB d2 where
    B: "screenChannels Q (mask_of_image E (x33_mask_file X)) (\<lambda>p. canceled (PollScreen p)) req = Inr planes"
    "spool_from_memory E canceled md planes d = Inr (spM, dM)"
    "delivered contents S (e_sha E) md (e_scratch E) (e_memoryToken E) planes d spM dM"
    "canonical_create D (e_canonToken E) (e_scratch E) (x_input X) (x_alpha X) (\<lambda>k. canceled (PollCanonical k))
      (d, no_canonical) = Inr (d1, ?K)"
    "spool_from_strips Q E canceled md (screenSeed req) (modeParams req) cs (x33_strip_tones E X ?K plate) d1 = Inr (spB, d2)"
    "delivered contents S (e_sha E) md (e_scratch E) (e_stripToken E) planes d spB (fst (canonical_remove D (d2, ?K)))"
    by blast
  have "x33_buildInMemoryRasterSpool Q E canceled xdpi ydpi X d = Inr (spM, dM)"
    using x33_memory_tones_ready [OF R] B(1,2) by (simp add: x33_buildInMemoryRasterSpool_def req_def md_def)
  moreover have "x33_buildBoundedRasterSpool Q E canceled xdpi ydpi X d = Inr (spB, fst (canonical_remove D (d2, ?K)))"
    using B(4,5) plate
    by (simp add: x33_buildBoundedRasterSpool_def Let_def E no_canonical_def md_def cs_def req_def x33_memory_request_def)
  ultimately show ?thesis using B(1,3,6) unfolding md_def req_def by blast
qed

lemma x33_run_backends_delivers:
  fixes Q :: "'v qvariant"
  assumes R: "x33_ready E X px al" and E: "e_disk E = D" "e_stream E = S"
    and nc: "\<And>p. \<not> canceled p" and sha: "\<And>x. length (e_sha E x) = 32"
    and dpi: "0 < xdpi" "0 < ydpi" "xdpi \<le> int_max" "ydpi \<le> int_max"
    and free: "contents d (final_path (e_scratch E) (e_memoryToken E)) = None"
      "contents d (final_path (e_scratch E) (e_stripToken E)) = None"
      "contents d (canonical_path (e_scratch E) (e_canonToken E)) = None"
  shows "\<exists>planes sp d' token.
    screenChannels Q (mask_of_image E (x33_mask_file X)) (\<lambda>p. canceled (PollScreen p))
      (x33_memory_request X (x33_page_tones E X px al)) = Inr planes \<and>
    x33_run_backends Q E canceled useInMemory xdpi ydpi X d = Inr (sp, d') \<and> token \<in> {e_memoryToken E, e_stripToken E} \<and>
    delivered contents S (e_sha E) (x33_metadata X (src_columns (x_input X)) (src_rows (x_input X)) xdpi ydpi)
      (e_scratch E) token planes d sp d'"
  using x33_backends [where canceled = canceled and Q = Q, OF R E nc sha dpi free]
  by (cases useInMemory) (fastforce simp: x33_run_backends_def)+

lemma x33_prints:
  fixes Q :: "'v qvariant"
  assumes R: "x33_printable E xdpi ydpi X px al X'"
    and E: "e_disk E = D" "e_stream E = S" and nc: "\<And>p. \<not> canceled p" and sha: "\<And>x. length (e_sha E x) = 32"
    and dpi: "xdpi \<le> int_max" "ydpi \<le> int_max"
    and free: "contents d (final_path (e_scratch E) (e_memoryToken E)) = None"
      "contents d (final_path (e_scratch E) (e_stripToken E)) = None"
      "contents d (canonical_path (e_scratch E) (e_canonToken E)) = None"
    and out: "out \<noteq> final_path (e_scratch E) (e_memoryToken E)" "out \<noteq> final_path (e_scratch E) (e_stripToken E)"
  shows "\<exists>planes d'.
    screenChannels Q (mask_of_image E (x33_mask_file X')) (\<lambda>p. canceled (PollScreen p))
      (x33_memory_request X' (x33_page_tones E X' px al)) = Inr planes \<and>
    x33_generateFinalPRN Q E canceled out xdpi ydpi (X, d) = (True, X', d') \<and>
    contents d' out = Some (x33_header_bytes (makeStandardX33Header
        (src_columns (x_input X')) (src_rows (x_input X')) xdpi ydpi
        (line_bytes (src_columns (x_input X'))) (int (length (nocaiOrder X')))) @
      interleaved planes (nocaiOrder X') (nat (src_rows (x_input X')))) \<and>
    (\<forall>q. q \<noteq> out \<and> q \<noteq> partial_path (e_scratch E) (e_memoryToken E) \<and> q \<noteq> partial_path (e_scratch E) (e_stripToken E) \<longrightarrow>
      contents d' q = contents d q)"
proof -
  let ?w = "src_columns (x_input X')" and ?h = "src_rows (x_input X')"
  define md where "md = x33_metadata X' ?w ?h xdpi ydpi"
  obtain ow oh masks where pre: "x_cmyk X"
    "outputPixelSize (src_columns (x_input X)) (src_rows (x_input X)) (x_xdpi X, x_ydpi X) xdpi ydpi = Some (ow, oh)"
    "x33_resize_page E ow oh X = Inr X'"
    "estimateMaskCacheStorage (e_quantum E) (e_ping E) (map (x33_mask_file X) (x33_keys X)) = Inr masks"
    "\<exists>r. preflightStorage (e_quantum E) (e_storage E) (x33_storage_job X ow oh True masks) = Inr r"
    and R': "x33_ready E X' px al"
    using R by (auto simp: x33_printable_def split: option.splits prod.splits sum.splits)
  have pos: "0 < xdpi" "0 < ydpi" using pre(2) by (auto simp: outputPixelSize_def split: if_splits)
  define mem where "mem = (strategy (selectRasterStrategy (e_forced E) ow oh (x33_channels X) False) = InMemory)"
  from x33_run_backends_delivers [where canceled = canceled and useInMemory = mem and Q = Q,
      OF R' E nc sha pos dpi free] obtain planes sp d2 token where
    B: "screenChannels Q (mask_of_image E (x33_mask_file X')) (\<lambda>p. canceled (PollScreen p))
        (x33_memory_request X' (x33_page_tones E X' px al)) = Inr planes"
      "x33_run_backends Q E canceled mem xdpi ydpi X' d = Inr (sp, d2)" "token \<in> {e_memoryToken E, e_stripToken E}"
      "delivered contents S (e_sha E) md (e_scratch E) token planes d sp d2"
    unfolding md_def by blast
  let ?fp = "final_path (e_scratch E) token"
  have run: "x33_buildRasterSpool Q E canceled xdpi ydpi True (X, d) = Inr (sp, X', d2)"
    using pre B(2) by (auto simp: x33_buildRasterSpool_def Let_def mem_def)
  note L = deliveredD [OF B(4)]
  have len: "length (sp_sha256 sp) = 32" using sha L(3) by simp
  have fields: "sp_order (spool_meta md) = nocaiOrder X'" "sp_width (spool_meta md) = ?w"
    "sp_height (spool_meta md) = ?h" "sp_xdpi (spool_meta md) = xdpi" "sp_ydpi (spool_meta md) = ydpi"
    "sp_lineBytes (spool_meta md) = line_bytes ?w"
    by (simp_all add: md_def x33_metadata_def spool_meta_def raster_metadata_def)
  have "sp_order (spool_meta md) = ymck \<or> sp_order (spool_meta md) = ymckww"
    by (simp add: fields nocaiOrder_def ymck_def ymckww_def)
  from x33_spool_ok [where sha = "e_sha E" and outPath = out, OF L(2,1) this L(3) len] obtain d3 where
    d3: "writeStandardX33Spool D S (e_sha E) sp out d2 = Inr d3"
    "contents d3 = (contents d2)(out \<mapsto> x33_header_bytes (makeStandardX33Header ?w ?h xdpi ydpi (line_bytes ?w)
        (int (length (nocaiOrder X')))) @ interleaved planes (nocaiOrder X') (nat ?h))"
    unfolding fields by blast
  have path: "sp_path sp = ?fp" by (subst L(1)) (simp add: with_disk_fields_def)
  have "?fp \<noteq> []" by (simp add: final_path_def filePath_def)
  then have rem: "contents (spool_remove D sp d3) = (contents d3)(?fp := None)"
    by (simp add: spool_remove_def path removeFile_law)
  have "x33_generateFinalPRN Q E canceled out xdpi ydpi (X, d) = (True, X', spool_remove D sp d3)"
    using run d3(1) by (simp add: x33_generateFinalPRN_def x33_writePRNFile_def E)
  moreover have "contents (spool_remove D sp d3) out = contents d3 out" using B(3) out rem by auto
  moreover have "contents (spool_remove D sp d3) q = contents d q"
    if "q \<noteq> out" "q \<noteq> partial_path (e_scratch E) (e_memoryToken E)" "q \<noteq> partial_path (e_scratch E) (e_stripToken E)" for q
    using that B(3) L(4) free(1,2) by (auto simp: rem d3(2))
  ultimately show ?thesis using B(1) d3(2) by auto
qed

end

end
