(* ===== verification/Demo_Jobs.thy ===== *)
theory Demo_Jobs
  imports X33_Delivery
begin

text \<open>
  A one-pixel job in every form the components take it: the request of the in-memory screener,
  the channels and the tone provider of the streaming one, the metadata and the files of a spool
  on the memory disk, a build request of the tone builder. The witnesses of the properties run
  on them.
\<close>

definition demo_image :: magick_gray where
  "demo_image = \<lparr>img_columns = 1, img_rows = 1, img_gray = (\<lambda>x y. 10)\<rparr>"

definition demo_read :: gray_reader where "demo_read path = Some demo_image"

definition demo_load :: mask_loader where "demo_load key = Some ([10], 1, 1)"

definition demo_request :: "variant screen_request" where
  "demo_request =
     \<lparr>req_width = 1, req_height = 1, screenSeed = 7, modeParams = Map.empty, dotStrategy = default_strategy,
      channels = [\<lparr>maskKey = ''c'', toneBytes = Some [200], isLightInk = False, useOwnDotStrategy = False,
        ownSmallDotThreshold = 104, ownMedDotThreshold = 168, ownEnablePromotion = False,
        useEffectiveTone = True, floorClass = -1\<rparr>]\<rparr>"

definition demo_channel :: screen_channel where
  "demo_channel =
     \<lparr>maskPath = ''mask'', minInk = 8, smallThreshold = 104, medThreshold = 168, floorRange = 24, floorMax = 2,
      dotSwap = False, promotion = False, effectiveClass = True\<rparr>"

definition demo_planes :: "bytes list" where "demo_planes = [[200]]"

definition demo_tones :: tone_provider where
  "demo_tones first rc = Some (map (\<lambda>p. take (1 * rc) (drop (first * 1) p)) demo_planes)"

lemma demo_same_job: "same_job plain_variant demo_load demo_read demo_request [demo_channel] demo_planes"
  by (simp add: same_job_def demo_load_def demo_read_def demo_request_def demo_channel_def demo_planes_def
      planes_ok_def same_channel_def same_mask_def demo_image_def export_gray_row_def channel_min_tone_def
      is_k_like_def channel_strategy_def strategy_matches_def default_strategy_def vmBool_def mapValue_def
      plain_variant_def clamp_def int_max_def Let_def)

lemma demo_serves:
  "serves_planes demo_tones demo_planes (nat (req_width demo_request)) (nat (req_height demo_request))"
  by (simp add: serves_planes_def demo_tones_def demo_request_def)

definition demo_meta :: spool where
  "demo_meta =
     \<lparr>sp_path = [], sp_order = [0], sp_logical = 1, sp_width = 1, sp_height = 1, sp_xdpi = 720, sp_ydpi = 600,
      sp_lineBytes = 4, sp_format = 2, sp_header = replicate 12 0, sp_bodyOffset = HeaderBytes,
      sp_bodyBytes = 4, sp_sha256 = []\<rparr>"

lemma demo_body: "expectedBodyBytes demo_meta = 4"
  by (simp add: expectedBodyBytes_def demo_meta_def)

lemma demo_valid: "metadataIsValid demo_meta = Inr ()"
proof -
  have "((cast64 1 + 3) div 4 + 3) AND NOT 3 = cast64 4" by code_simp
  then show ?thesis using demo_body by (simp add: metadataIsValid_def demo_meta_def int_max_def)
qed

lemma demo_typed: "spool_typed demo_meta"
  by (simp add: spool_typed_def demo_meta_def fits_int_def int_min_def int_max_def)

lemma demo_spool_for: "spool_for demo_request demo_meta"
proof -
  have "demo_meta\<lparr>sp_bodyOffset := HeaderBytes, sp_bodyBytes := expectedBodyBytes demo_meta, sp_sha256 := []\<rparr> = demo_meta"
    unfolding demo_body by (simp add: demo_meta_def)
  then show ?thesis using demo_valid demo_typed by (simp add: spool_for_def) (simp add: demo_meta_def demo_request_def)
qed

definition demo_sha :: "bytes \<Rightarrow> bytes" where "demo_sha x = replicate 32 0"

definition demo_writer :: writer where
  "demo_writer = \<lparr>w_open = False, w_meta = demo_meta, w_partial = [], w_final = [], w_lines = [], w_finalized = False\<rparr>"

section \<open>A finalized spool\<close>

definition ymck_meta :: spool where
  "ymck_meta = demo_meta\<lparr>sp_order := ymck, sp_logical := 4, sp_bodyBytes := 16, sp_format := 1\<rparr>"

definition demo_lines :: "plane list" where
  "demo_lines = [[[0xC0, 0, 0, 0]], [[0x80, 0, 0, 0]], [[0x40, 0, 0, 0]], [[0, 0, 0, 0]]]"

definition demo_spool_bytes :: bytes where
  "demo_spool_bytes = encodeHeader big_endian ymck_meta (demo_sha []) @ concat (concat demo_lines)"

definition demo_files :: files where "demo_files = [''spool'' \<mapsto> demo_spool_bytes]"

lemma ymck_valid: "metadataIsValid ymck_meta = Inr ()"
proof -
  have "((cast64 1 + 3) div 4 + 3) AND NOT 3 = cast64 4" by code_simp
  moreover have "expectedBodyBytes ymck_meta = 16" by (simp add: expectedBodyBytes_def ymck_meta_def demo_meta_def)
  ultimately show ?thesis by (simp add: metadataIsValid_def ymck_meta_def demo_meta_def int_max_def ymck_def)
qed

lemma ymck_typed: "spool_typed ymck_meta"
  by (simp add: spool_typed_def ymck_meta_def demo_meta_def fits_int_def int_min_def int_max_def ymck_def)

lemma demo_sha_length [simp]: "length (demo_sha x) = 32"
  by (simp add: demo_sha_def)

lemma demo_spool_at: "spool_at (\<lambda>d. d) big_endian demo_files ''spool'' ymck_meta (demo_sha []) demo_lines"
proof -
  have "length (encodeHeader big_endian ymck_meta (demo_sha [])) = 4096"
    by (rule be.encodeHeader_size) (simp_all add: ymck_meta_def demo_meta_def ymck_def demo_sha_def)
  moreover have "length (concat (concat demo_lines)) = body_size ymck_meta"
    by (simp add: demo_lines_def body_size_def ymck_meta_def demo_meta_def)
  moreover have "sp_bodyBytes ymck_meta = expectedBodyBytes ymck_meta"
    by (simp add: expectedBodyBytes_def ymck_meta_def demo_meta_def)
  ultimately show ?thesis
    using ymck_valid ymck_typed
    by (simp add: spool_at_def spool_file_def demo_files_def demo_spool_bytes_def)
      (simp add: demo_lines_def ymck_meta_def demo_meta_def)
qed

section \<open>A spool that is being written\<close>

definition open_writer :: "bool list \<Rightarrow> writer" where
  "open_writer flags = \<lparr>w_open = True, w_meta = demo_meta, w_partial = ''p.partial'', w_final = ''p'',
     w_lines = flags, w_finalized = False\<rparr>"

definition open_files :: files where
  "open_files = [''p.partial'' \<mapsto> replicate 4100 0]"

lemma open_writing: "writing (\<lambda>d. d) open_files (open_writer [f]) (replicate 4100 0)"
proof -
  have "spool_file demo_meta (replicate 4100 0)"
    using demo_valid demo_typed demo_body
    by (simp add: spool_file_def body_size_def) (simp add: demo_meta_def)
  then show ?thesis by (simp add: writing_def open_files_def open_writer_def line_count_def) (simp add: demo_meta_def)
qed

lemma open_free: "open_files (w_final (open_writer l)) = None"
  by (simp add: open_files_def open_writer_def)

section \<open>Tones, curves and storage\<close>

definition demo_text :: qtext where
  "demo_text = \<lparr>trimmed = (\<lambda>s. s), toLower = (\<lambda>s. s), splitWhitespace = (\<lambda>s. [s]), parseDouble = (\<lambda>s. None)\<rparr>"

definition demo_plates :: plate_loader where "demo_plates path w h = Some (replicate (w * h) 90)"

definition demo_build :: "variant build_request" where
  "demo_build =
     \<lparr>br_images = Some ([10, 20], [50, 60], [0, 0], [0, 0]), br_width = 1, br_height = 2, br_mode = FiveColor_YMCK_W,
      br_params = Map.empty, br_whitePlate = ''w'', br_varnishPlate = [], br_linearization = None,
      br_enableLinearization = False\<rparr>"

definition demo_lin :: linearization where
  "demo_lin = \<lparr>channelLuts = (\<lambda>_. makeLinearLut), channelValid = (\<lambda>_. False), cLc = ([], []), mLm = ([], []), ySingle = [],
     kLkLLk = ([], [], []), lutW = [], lutV = [], hasExternalCurves = False, lastError = []\<rparr>"

definition demo_storage :: storage_job where
  "demo_storage = \<lparr>job_width = 4, job_height = 2, source_width = 4, source_height = 2, job_logical = 4, job_physical = 4,
     includeFinalPrn = True, includeAlphaCache = False, externalPlateCaches = 0, maskCacheBytes = 100\<rparr>"

lemma full_disk_laws: "disk_laws (memory_disk\<lparr>writeAt := \<lambda>p off x d. None\<rparr>) (\<lambda>d. d)"
  by unfold_locales (auto simp: memory_disk_def split: option.splits if_splits)

section \<open>Whole jobs\<close>

definition demo_page :: pixel_source where
  "demo_page = \<lparr>src_columns = 1, src_rows = 1, src_export = (\<lambda>first rc. Some (cut_span (first * 4) (rc * 4) [200, 20, 30, 40]))\<rparr>"

definition demo_env :: "files job_env" where
  "demo_env =
     \<lparr>e_disk = memory_disk, e_stream = big_endian, e_sha = demo_sha, e_text = demo_text, e_scratch = ''s'',
      e_canonToken = ''a'', e_memoryToken = ''b'', e_stripToken = ''c'', e_exists = (\<lambda>p. False), e_toLocal = (\<lambda>p. p),
      e_gray = demo_read, e_plateImage = (\<lambda>p w h. None), e_resize = (\<lambda>w h im. None), e_quantum = 2,
      e_ping = (\<lambda>p. Some (1, 1)), e_storage = Some 1000, e_forced = []\<rparr>"

definition demo_multi :: "variant multi_job" where
  "demo_multi =
     \<lparr>j_mode = FourColor_YMCK, j_params = Map.empty, j_white = [], j_varnish = [], j_lin = demo_lin, j_enableLin = False,
      j_dots = default_strategy, j_seed = 7, j_cmyk = True, j_input = demo_page,
      j_alpha = \<lparr>a_width = 0, a_height = 0, a_image = None\<rparr>, j_xdpi = 720, j_ydpi = 600, j_root = ''r''\<rparr>"

definition demo_x33 :: x33_job where
  "demo_x33 =
     \<lparr>x_white = WhiteAutoUnderbase, x_plate = [], x_maskKey = ''w'', x_threshold = 8, x_density = 255, x_ownDots = False,
      x_small = 104, x_med = 168, x_promotion = False, x_lin = demo_lin, x_dots = default_strategy, x_seed = 7,
      x_cmyk = True, x_input = demo_page, x_alpha = \<lparr>a_width = 0, a_height = 0, a_image = None\<rparr>,
      x_xdpi = 720, x_ydpi = 600, x_assets = ''r''\<rparr>"

lemma demo_exports: "exports demo_page 4 [200, 20, 30, 40]"
  by (simp add: exports_def demo_page_def)

lemma demo_size: "outputPixelSize 1 1 (720, 600) 720 600 = Some (1, 1)"
  by (simp add: outputPixelSize_def isUsableDpi_def scaledDimension_def lround_def int_max_def)

lemma demo_masks:
  "estimateMaskCacheStorage 2 (\<lambda>p. Some (1, 1)) (map (\<lambda>k. ''r/mask_512_'' @ k @ ''.tiff'') [''c'', ''m'', ''y'', ''k'']) = Inr 40"
  "estimateMaskCacheStorage 2 (\<lambda>p. Some (1, 1)) (map (\<lambda>k. ''r/mask_512_'' @ k @ ''.tiff'') [''c'', ''m'', ''y'', ''k'', ''w'']) = Inr 50"
  by code_simp+

lemma demo_multi_ready: "multi_ready plain_variant demo_env demo_multi [200, 20, 30, 40] []"
  using demo_exports
  by (simp add: multi_ready_def Let_def demo_multi_def demo_env_def demo_page_def page_ok_def int_max_def alpha_covers_def
      plate_mode_def clamp_def demo_read_def demo_image_def)

lemma demo_multi_kept: "\<not> varnish_plate_lost plain_variant demo_env demo_multi"
  by (simp add: varnish_plate_lost_def demo_multi_def)

definition demo_varnish :: "variant multi_job" where
  \<comment> \<open>white and varnish name the same file, and only varnish is printed from it\<close>
  "demo_varnish = demo_multi
     \<lparr>j_mode := TenColor_YMCK_Lm_Lc_Lk_LLk_W_V, j_params := [''varnishMode'' \<mapsto> VInt 3], j_white := ''p'', j_varnish := ''p''\<rparr>"

definition demo_plate_env :: "files job_env" where
  "demo_plate_env = demo_env
     \<lparr>e_exists := (\<lambda>p. True),
      e_plateImage := (\<lambda>p w h. Some \<lparr>src_columns = 1, src_rows = 1, src_export = (\<lambda>first rc. Some (cut_span first rc [200]))\<rparr>)\<rparr>"

lemma demo_three: "toInt plain_variant (VInt 3) = 3"
  by (simp add: plain_variant_def)

lemma demo_plate_exports:
  "\<exists>px. exports \<lparr>src_columns = 1, src_rows = 1, src_export = (\<lambda>first rc. Some (cut_span first rc [200]))\<rparr> (Suc 0) px"
  by (rule exI [of _ "[200]"]) (simp add: exports_def)

lemma demo_varnish_lost: "varnish_plate_lost plain_variant demo_plate_env demo_varnish"
  by (simp add: varnish_plate_lost_def demo_varnish_def demo_plate_env_def plate_mode_def vmInt_def clamp_def
      preparePlate_def local_path_def demo_env_def demo_text_def demo_three Let_def)

lemma demo_varnish_ready: "multi_ready plain_variant demo_plate_env demo_varnish [200, 20, 30, 40] []"
  using demo_exports
  by (simp add: multi_ready_def Let_def demo_varnish_def demo_plate_env_def demo_multi_def demo_env_def demo_page_def page_ok_def
      int_max_def alpha_covers_def plate_mode_def vmInt_def clamp_def demo_read_def demo_image_def plate_ok_def preparePlate_def
      local_path_def demo_text_def demo_three demo_plate_exports)

lemma demo_varnish_read:
  "canonical_readRows memory_disk \<lparr>k_path = ''k'', k_width = 1, k_height = 1\<rparr> 0 1 [''k'' \<mapsto> [200, 20, 30, 40]] =
    Inr [200, 20, 30, 40]"
  by (simp add: canonical_readRows_def memory_disk_def Let_def)

lemma demo_varnish_tones:
  "varnish_tones plain_variant demo_plate_env demo_varnish 1 (Some [200]) = [198]"
  "varnish_tones plain_variant demo_plate_env demo_varnish 1 None = [0]"
  by (simp_all add: varnish_tones_def demo_varnish_def demo_multi_def demo_plate_env_def demo_env_def getVarnishConfig_def
      specialty_config_def param_byte_def mapValue_def vmInt_def clamp_def applySpecialtyThresholdDensity_def u16_of_def
      plain_variant_def Let_def)

lemma demo_x33_ready: "x33_ready demo_env demo_x33 [200, 20, 30, 40] []"
  using demo_exports
  by (simp add: x33_ready_def Let_def demo_x33_def demo_env_def demo_page_def page_ok_def int_max_def alpha_covers_def
      x33_channels_def whiteEnabled_def demo_read_def demo_image_def)

lemma demo_multi_printable: "multi_printable plain_variant demo_env 720 600 demo_multi [200, 20, 30, 40] [] demo_multi"
proof -
  have m: "map (\<lambda>ch. mask_file demo_multi (mask_key plain_variant demo_env demo_multi ch)) [0..<4] =
      map (\<lambda>k. ''r/mask_512_'' @ k @ ''.tiff'') [''c'', ''m'', ''y'', ''k'']"
    by (simp add: upt_rec mask_file_def assetPath_def mask_key_def maskKeyForChannel_def demo_multi_def Let_def)
  have j: "storage_job_ok (multi_storage_job plain_variant demo_multi 1 1 True 40)"
    "exact_storage 2 (multi_storage_job plain_variant demo_multi 1 1 True 40) \<le> 1000"
    by (simp_all add: storage_job_ok_def exact_storage_def multi_storage_job_def demo_multi_def demo_page_def
        alpha_active_def plate_mode_def clamp_def int_max_def line_bytes_def and_not_3_int Let_def)
  have "preflightStorage 2 (Some 1000) (multi_storage_job plain_variant demo_multi 1 1 True 40) = Inr ()"
    using preflightStorage_iff_exact [OF j(1), of 2 1000] j(2) by simp
  moreover have "clamp 720 1 720 = (720 :: int)" "snapToMultiple 600 600 = 600"
    by (simp_all add: clamp_def snapToMultiple_def)
  moreover have "src_columns (j_input demo_multi) = 1" "src_rows (j_input demo_multi) = 1" "j_cmyk demo_multi"
    "j_xdpi demo_multi = 720" "j_ydpi demo_multi = 600" "nat (mode_number (j_mode demo_multi)) = 4"
    "e_quantum demo_env = 2" "e_ping demo_env = (\<lambda>p. Some (1, 1))" "e_storage demo_env = Some 1000"
    by (simp_all add: demo_multi_def demo_page_def demo_env_def)
  ultimately show ?thesis
    using demo_multi_ready m demo_masks(1) by (simp add: multi_printable_def demo_size resize_page_def)
qed

lemma demo_x33_printable: "x33_printable demo_env 720 600 demo_x33 [200, 20, 30, 40] [] demo_x33"
proof -
  have m: "map (x33_mask_file demo_x33) (x33_keys demo_x33) =
      map (\<lambda>k. ''r/mask_512_'' @ k @ ''.tiff'') [''c'', ''m'', ''y'', ''k'', ''w'']"
    by (simp add: x33_mask_file_def x33_keys_def whiteEnabled_def demo_x33_def)
  have j: "storage_job_ok (x33_storage_job demo_x33 1 1 True 50)"
    "exact_storage 2 (x33_storage_job demo_x33 1 1 True 50) \<le> 1000"
    by (simp_all add: storage_job_ok_def exact_storage_def x33_storage_job_def demo_x33_def demo_page_def x33_channels_def
        whiteEnabled_def nocaiOrder_def alpha_active_def clamp_def int_max_def line_bytes_def and_not_3_int Let_def)
  have "preflightStorage 2 (Some 1000) (x33_storage_job demo_x33 1 1 True 50) = Inr ()"
    using preflightStorage_iff_exact [OF j(1), of 2 1000] j(2) by simp
  moreover have "src_columns (x_input demo_x33) = 1" "src_rows (x_input demo_x33) = 1" "x_cmyk demo_x33"
    "x_xdpi demo_x33 = 720" "x_ydpi demo_x33 = 600"
    "e_quantum demo_env = 2" "e_ping demo_env = (\<lambda>p. Some (1, 1))" "e_storage demo_env = Some 1000"
    by (simp_all add: demo_x33_def demo_page_def demo_env_def)
  ultimately show ?thesis
    using demo_x33_ready m demo_masks(2) by (simp add: x33_printable_def demo_size x33_resize_page_def)
qed

end
