(* ===== verification/Variant_Codec.thy ===== *)
theory Variant_Codec
  imports Service_Protocol_Laws "HOL-Library.List_Lexorder" "HOL-Library.Char_ord"
begin

text \<open>
  A byte encoding of the concrete variants of \<open>Qt_Variant\<close>, maps and lists nested to any
  depth: it shows that the law the frames rely on (what \<open>QDataStream\<close> writes of a map it
  reads back) can be met, and the interpretation discharges it together with the
  big-endian operators.
\<close>

section \<open>Numbers and strings\<close>

fun put_nat :: "nat \<Rightarrow> bytes" where
  "put_nat n = (if n < 128 then [of_nat n] else of_nat (128 + n mod 128) # put_nat (n div 128))"

declare put_nat.simps [simp del]

fun get_nat :: "bytes \<Rightarrow> (nat \<times> bytes) option" where
  "get_nat [] = None"
| "get_nat (x # b) =
     (if unat x < 128 then Some (unat x, b)
      else read_then (get_nat b) (\<lambda>n r. Some (unat x - 128 + 128 * n, r)))"

lemma unat_small: "n < 256 \<Longrightarrow> unat (of_nat n :: u8) = n"
  by (simp add: unat_of_nat)

lemma get_put_nat [simp]: "get_nat (put_nat n @ r) = Some (n, r)"
proof (induction n rule: put_nat.induct)
  case (1 n)
  show ?case
  proof (cases "n < 128")
    case True
    then show ?thesis by (simp add: put_nat.simps [of n] unat_small)
  next
    case False
    then have "get_nat (put_nat (n div 128) @ r) = Some (n div 128, r)" using 1 by simp
    moreover have "unat (of_nat (128 + n mod 128) :: u8) = 128 + n mod 128" by (rule unat_small) simp
    ultimately show ?thesis using False by (simp add: put_nat.simps [of n] del: of_nat_add)
  qed
qed

lemma put_nat_nonempty [simp]: "put_nat n \<noteq> []"
  by (simp add: put_nat.simps [of n])

definition put_int :: "int \<Rightarrow> bytes" where
  "put_int i = put_nat (if i < 0 then 2 * nat (- i) + 1 else 2 * nat i)"

definition get_int :: "bytes \<Rightarrow> (int \<times> bytes) option" where
  "get_int b = read_then (get_nat b) (\<lambda>n r. Some (if odd n then - int (n div 2) else int (n div 2), r))"

lemma get_put_int [simp]: "get_int (put_int i @ r) = Some (i, r)"
  by (simp add: get_int_def put_int_def)

definition put_str :: "string \<Rightarrow> bytes" where
  "put_str s = put_nat (length s) @ map (\<lambda>c. of_nat (of_char c)) s"

definition get_bytes :: "bytes \<Rightarrow> (bytes \<times> bytes) option" where
  "get_bytes b = read_then (get_nat b) (\<lambda>n r. if length r < n then None else Some (take n r, drop n r))"

definition get_str :: "bytes \<Rightarrow> (string \<times> bytes) option" where
  "get_str b = read_then (get_bytes b) (\<lambda>s r. Some (map (\<lambda>x. char_of (unat x)) s, r))"

lemma get_put_bytes [simp]: "get_bytes (put_nat (length s) @ s @ r) = Some (s, r)"
  by (simp add: get_bytes_def)

lemma get_put_str [simp]: "get_str (put_str s @ r) = Some (s, r)"
proof -
  let ?b = "map (\<lambda>c. of_nat (of_char c)) s :: bytes"
  have "get_bytes (put_nat (length ?b) @ ?b @ r) = Some (?b, r)" by (rule get_put_bytes)
  moreover have "char_of (unat (of_nat (of_char c :: nat) :: u8)) = c" for c :: char
    by (simp add: unat_small)
  ultimately show ?thesis by (simp add: get_str_def put_str_def o_def)
qed

section \<open>Variants\<close>

primrec encode_variant :: "variant \<Rightarrow> bytes" where
  "encode_variant VInvalid = put_nat 0"
| "encode_variant (VInt i) = put_nat 1 @ put_int i"
| "encode_variant (VULong w) = put_nat 2 @ put_nat (unat w)"
| "encode_variant (VDouble r) =
     put_nat 3 @ put_int (fst (quotient_of r)) @ put_int (snd (quotient_of r))"
| "encode_variant (VBool b) = put_nat 4 @ put_nat (if b then 1 else 0)"
| "encode_variant (VStr s) = put_nat 5 @ put_str s"
| "encode_variant (VBytes bs) = put_nat 6 @ put_nat (length bs) @ bs"
| "encode_variant (VList vs) = put_nat 7 @ put_nat (length vs) @ concat (map encode_variant vs)"
| "encode_variant (VMap f) =
     put_nat 8 @ put_nat (card (dom f)) @
     concat (map (\<lambda>k. put_str k @ the ((map_option encode_variant \<circ> f) k)) (sorted_list_of_set (dom f)))"

primrec finite_variant :: "variant \<Rightarrow> bool" where
  \<comment> \<open>every map in the value is finite, as a \<open>QVariantMap\<close> is\<close>
  "finite_variant VInvalid = True"
| "finite_variant (VInt i) = True"
| "finite_variant (VULong w) = True"
| "finite_variant (VDouble r) = True"
| "finite_variant (VBool b) = True"
| "finite_variant (VStr s) = True"
| "finite_variant (VBytes bs) = True"
| "finite_variant (VList vs) = list_all (\<lambda>b. b) (map finite_variant vs)"
| "finite_variant (VMap f) = (finite (dom f) \<and> (\<forall>k. (map_option finite_variant \<circ> f) k \<noteq> Some False))"

fun decode_variant :: "nat \<Rightarrow> bytes \<Rightarrow> (variant \<times> bytes) option" where
  "decode_variant 0 b = None"
| "decode_variant (Suc n) b =
     read_then (get_nat b) (\<lambda>tag b.
       if tag = 0 then Some (VInvalid, b)
       else if tag = 1 then read_then (get_int b) (\<lambda>i b. Some (VInt i, b))
       else if tag = 2 then read_then (get_nat b) (\<lambda>w b. Some (VULong (of_nat w), b))
       else if tag = 3 then
         read_then (get_int b) (\<lambda>p b. read_then (get_int b) (\<lambda>q b. Some (VDouble (of_int p / of_int q), b)))
       else if tag = 4 then read_then (get_nat b) (\<lambda>x b. Some (VBool (x = 1), b))
       else if tag = 5 then read_then (get_str b) (\<lambda>s b. Some (VStr s, b))
       else if tag = 6 then read_then (get_bytes b) (\<lambda>s b. Some (VBytes s, b))
       else if tag = 7 then
         read_then (get_nat b) (\<lambda>k b. read_then (get_many (decode_variant n) k b) (\<lambda>vs b. Some (VList vs, b)))
       else
         read_then (get_nat b) (\<lambda>k b.
           read_then (get_many (\<lambda>b. read_then (get_str b) (\<lambda>s b.
               read_then (decode_variant n b) (\<lambda>v b. Some ((s, v), b)))) k b)
             (\<lambda>kvs b. Some (VMap (map_of kvs), b))))"

lemma rat_quotient: "(of_int (fst (quotient_of r)) / of_int (snd (quotient_of r)) :: rat) = r"
  using quotient_of_div [of r] by (cases "quotient_of r") simp

lemma length_member_concat: "x \<in> set xs \<Longrightarrow> length (f x) \<le> length (concat (map f xs))"
  by (induction xs) auto

lemma map_of_entries:
  assumes "finite (dom f)"
  shows "map_of (map (\<lambda>k. (k, the (f k))) (sorted_list_of_set (dom f))) = f"
proof
  fix k
  show "map_of (map (\<lambda>k. (k, the (f k))) (sorted_list_of_set (dom f))) k = f k"
    using assms by (cases "f k") (auto simp: map_of_map_restrict restrict_map_def domIff)
qed

lemma decode_encode_variant:
  "finite_variant v \<Longrightarrow> length (encode_variant v) \<le> n \<Longrightarrow> decode_variant (Suc n) (encode_variant v @ r) = Some (v, r)"
proof (induction v arbitrary: n r)
  case (VList vs)
  obtain k where n: "n = Suc k" using VList.prems(2) by (cases n) auto
  have "decode_variant n (encode_variant v @ r) = Some (v, r)" if "v \<in> set vs" for v r
    unfolding n
  proof (rule VList.IH [OF that])
    show "finite_variant v" using VList.prems(1) that by (simp add: list_all_iff)
    show "length (encode_variant v) \<le> k"
      using VList.prems(2) length_member_concat [OF that, of encode_variant] by (simp add: n put_nat.simps [of 7])
  qed
  then have "get_many (decode_variant n) (length vs) (concat (map encode_variant vs) @ r) = Some (vs, r)"
    by (rule get_many_put)
  then show ?case by simp
next
  case (VMap f)
  obtain j where n: "n = Suc j" using VMap.prems(2) by (cases n) auto
  have fin: "finite (dom f)" using VMap.prems(1) by simp
  define ks where "ks = sorted_list_of_set (dom f)"
  define e where "e = (\<lambda>(k, v). put_str k @ encode_variant v)"
  define kvs where "kvs = map (\<lambda>k. (k, the (f k))) ks"
  have ks: "set ks = dom f" "length ks = card (dom f)" using fin by (simp_all add: ks_def)
  have enc: "encode_variant (VMap f) = put_nat 8 @ put_nat (length kvs) @ concat (map e kvs)"
  proof -
    have "map (\<lambda>k. put_str k @ the ((map_option encode_variant \<circ> f) k)) ks = map e kvs"
      using ks(1) by (auto simp: e_def kvs_def)
    then show ?thesis using ks(2) by (simp only: encode_variant.simps ks_def [symmetric]) (simp add: kvs_def)
  qed
  let ?g = "\<lambda>b. read_then (get_str b) (\<lambda>s b. read_then (decode_variant n b) (\<lambda>v b. Some ((s, v), b)))"
  have "?g (e kv @ r) = Some (kv, r)" if kv: "kv \<in> set kvs" for kv r
  proof -
    obtain k v where v: "kv = (k, v)" "f k = Some v" using kv ks(1) by (auto simp: kvs_def)
    have "v \<in> set_option (f k)" "finite_variant v" using v(2) VMap.prems(1) by (auto simp: comp_def)
    moreover have "length (encode_variant v) \<le> j"
      using VMap.prems(2) length_member_concat [OF kv, of e] v(1)
      by (simp add: enc n put_nat.simps [of 8] e_def del: encode_variant.simps)
    ultimately have "decode_variant n (encode_variant v @ r) = Some (v, r)"
      unfolding n by (intro VMap.IH [of "f k" v] rangeI)
    then show ?thesis by (simp add: v(1) e_def)
  qed
  then have "get_many ?g (length kvs) (concat (map e kvs) @ r) = Some (kvs, r)"
    by (rule get_many_put)
  moreover have "map_of kvs = f" using map_of_entries [OF fin] by (simp add: kvs_def ks_def)
  ultimately show ?case by (simp add: enc del: encode_variant.simps)
qed (simp_all add: rat_quotient)

section \<open>The codec of the concrete variants\<close>

definition plain_codec :: "variant codec" where
  "plain_codec =
     \<lparr>putMap = (\<lambda>m. Some (encode_variant (VMap m))),
      getMap = (\<lambda>b. case decode_variant (Suc (length b)) b of
                 Some (VMap m, r) \<Rightarrow> Some (m, r)
               | _ \<Rightarrow> None)\<rparr>"

definition finite_map :: "variant vmap \<Rightarrow> bool" where
  "finite_map m = finite_variant (VMap m)"

interpretation plain_frames: frame_laws big_endian plain_codec finite_map
proof unfold_locales
  fix m assume m: "finite_map m"
  have "decode_variant (Suc (length (encode_variant (VMap m) @ r))) (encode_variant (VMap m) @ r) = Some (VMap m, r)" for r
    using m by (intro decode_encode_variant) (simp_all add: finite_map_def del: encode_variant.simps)
  then have "getMap plain_codec (encode_variant (VMap m) @ r) = Some (m, r)" for r
    by (simp add: plain_codec_def del: encode_variant.simps decode_variant.simps)
  moreover have "putMap plain_codec m = Some (encode_variant (VMap m))"
    by (simp add: plain_codec_def del: encode_variant.simps)
  ultimately show "\<exists>b. putMap plain_codec m = Some b \<and> (\<forall>r. getMap plain_codec (b @ r) = Some (m, r))"
    by blast
qed

end
