(* ===== verification/Demo_Service.thy ===== *)
theory Demo_Service
  imports Client_Actions Demo_Jobs Variant_Codec
begin

text \<open>
  A simulated printer behind the driver, a service with the driver as its backend and a client
  linked to it: the contracts of the driver, the service and the upload hold for them, and the
  witnesses of the properties print a one-pixel job through all three.
\<close>

section \<open>A simulated printer\<close>

type_synonym sim = "u32 \<times> u32 \<times> u16" \<comment> \<open>origin and height\<close>

definition sim_sdk :: "sim sdk" where
  "sim_sdk =
     \<lparr>k_searchPrinter = (\<lambda>k. (1, 1, [''X-33''], k)),
      k_choosePrinter = (\<lambda>i k. (1, k)),
      k_connectPrinter = Some (\<lambda>k. (1, k)),
      k_initPrinter = (\<lambda>k. (1, k)),
      k_startPrint = (\<lambda>p k. (1, k)),
      k_printALine = (\<lambda>l n k. (sint n, k)),
      k_abortPrint = (\<lambda>k. (1, k)),
      k_pausePrint = (\<lambda>k. (1, k)),
      k_continuePrint = (\<lambda>k. (1, k)),
      k_endPrint = (\<lambda>k. (1, k)),
      k_closePrint = (\<lambda>k. (1, k)),
      k_setJobSettings = (\<lambda>j k. (1, k)),
      k_setPrintHeight = Some (\<lambda>h k. (1, (fst k, fst (snd k), h))),
      k_getPrintHeight = Some (\<lambda>k. (1, snd (snd k), k)),
      k_setPrintXYValue = Some (\<lambda>x y k. (1, (x, y, snd (snd k)))),
      k_getPrintXYValue = Some (\<lambda>k. (1, fst k, fst (snd k), k)),
      k_getPrinterStatus = Some (\<lambda>k. (1, 0, 0, k)),
      k_printAlignmentPattern = Some (\<lambda>m k. (1, k)),
      k_closeControlSocket = (\<lambda>k. k)\<rparr>"

definition sim_env :: "(variant, sim) direct_env" where
  "sim_env =
     \<lparr>de_variant = plain_variant, de_trim = (\<lambda>s. s), de_api = sim_sdk, de_arm = False, de_lacksNetRaw = False,
      de_candidates = [''sdk''], de_hasLibrary = (\<lambda>_. True), de_enter = (\<lambda>_. True), de_load = (\<lambda>_ k. (True, k)),
      de_unload = (\<lambda>k. (True, k)), de_cancelFileOpens = True, de_compatible = True, de_symbolsResolve = True,
      de_preflight = (\<lambda>_ _. True), de_clearLocks = (\<lambda>_ _. True)\<rparr>"

lemma height_reached_at_once: "0 < n \<Longrightarrow> gh k = (1, target, k') \<Longrightarrow> fst (await_height gh target n k)"
  by (cases n) simp_all

interpretation sim: working_printer "traced_env sim_env" snd
proof unfold_locales
  show "\<exists>so go. k_setPrintXYValue (de_api (traced_env sim_env)) = Some so \<and>
      k_getPrintXYValue (de_api (traced_env sim_env)) = Some go \<and>
      (\<forall>x y k. fst (so x y k) = 1 \<and> fst (go k) = 1 \<and> (\<exists>k'. go (snd (so x y k)) = (1, x, y, k')))"
    by (simp add: traced_env_def traced_def sim_env_def sim_sdk_def logged_def)
  show "\<exists>sh gh. k_setPrintHeight (de_api (traced_env sim_env)) = Some sh \<and>
      k_getPrintHeight (de_api (traced_env sim_env)) = Some gh \<and>
      (\<forall>h k. fst (sh h k) = 1 \<and> fst (await_height gh h 240 (snd (sh h k))))"
  proof -
    let ?gh = "\<lambda>w :: sim \<times> sdk_event list. (1 :: int, snd (snd (fst w)), fst w, snd w @ [HeightRead 1 (snd (snd (fst w)))])"
    have "fst (await_height ?gh h 240 ((x, y, h), l))" for x y h l by (rule height_reached_at_once) simp_all
    then show ?thesis by (auto simp: traced_env_def traced_def sim_env_def sim_sdk_def logged_def)
  qed
qed (simp_all add: traced_env_def traced_def sim_env_def sim_sdk_def logged_def)

definition demo_direct :: "(variant, sim \<times> sdk_event list) direct" where
  "demo_direct =
     \<lparr>dp_isLoaded = True, dp_symbols = True, dp_sdkRootPath = ''sdk'', dp_resolvedSdkRoot = ''sdk'',
      dp_autoDiscoverSdk = True, dp_connected = True, dp_error = None, dp_printers = [], dp_selected = 0,
      dp_cancelRequested = False, dp_cancelFile = False, dp_originActive = False, dp_sdk = ((0, 0, 0), [])\<rparr>"

definition demo_settings :: print_settings where
  "demo_settings = default_settings\<lparr>printOffsetXmm := 3\<rparr>"

lemma demo_settings_typed: "settings_typed demo_settings"
  by (simp add: settings_typed_def demo_settings_def default_settings_def fits_int_def int_min_def int_max_def)

lemma demo_standing_by: "standing_by demo_settings demo_direct"
  by (simp add: standing_by_def demo_settings_def default_settings_def demo_direct_def)

section \<open>A spool for the X-33\<close>

definition print_meta :: spool where
  "print_meta = ymck_meta\<lparr>sp_header := makeStandardX33Header 1 1 720 600 4 4\<rparr>"

definition print_files :: files where
  "print_files = [''spool'' \<mapsto> encodeHeader big_endian print_meta (demo_sha []) @ concat (concat demo_lines)]"

lemma print_spool_at: "spool_at (\<lambda>d. d) big_endian print_files ''spool'' print_meta (demo_sha []) demo_lines"
proof -
  have v: "metadataIsValid print_meta = Inr ()"
  proof -
    have "((cast64 1 + 3) div 4 + 3) AND NOT 3 = cast64 4" by code_simp
    moreover have "expectedBodyBytes print_meta = 16"
      by (simp add: expectedBodyBytes_def print_meta_def ymck_meta_def demo_meta_def)
    ultimately show ?thesis
      by (simp add: metadataIsValid_def print_meta_def ymck_meta_def demo_meta_def int_max_def ymck_def)
  qed
  have t: "spool_typed print_meta"
    using ymck_typed by (simp add: spool_typed_def print_meta_def makeStandardX33Header_def)
  have "length (encodeHeader big_endian print_meta (demo_sha [])) = 4096"
    by (rule be.encodeHeader_size)
      (simp_all add: print_meta_def ymck_meta_def demo_meta_def ymck_def makeStandardX33Header_def)
  moreover have "length (concat (concat demo_lines)) = body_size print_meta"
    by (simp add: demo_lines_def body_size_def print_meta_def ymck_meta_def demo_meta_def)
  moreover have "sp_bodyBytes print_meta = expectedBodyBytes print_meta"
    by (simp add: expectedBodyBytes_def print_meta_def ymck_meta_def demo_meta_def)
  ultimately show ?thesis
    using v t by (simp add: spool_at_def spool_file_def print_files_def)
      (simp add: demo_lines_def print_meta_def ymck_meta_def demo_meta_def)
qed

lemma print_property:
  "\<exists>p. job_property (de_arm (traced_env sim_env)) (spool_raster print_meta) demo_settings (sp_lineBytes print_meta) = Inr p \<and>
    unat (p ! 3) = nat (sp_lineBytes print_meta)"
  by (simp add: job_property_def spool_raster_def print_meta_def ymck_meta_def demo_meta_def traced_env_def sim_env_def
      ymck_def makeStandardX33Header_def)

section \<open>A service and its client\<close>

definition demo_head :: "'k head_sdk" where
  "demo_head =
     \<lparr>h_wipePrintHead = None, h_startCleanOperation = None, h_startPump = None, h_stopPumpOperation = None,
      h_spitPrintHead = None, h_stopSpitOperation = None, h_capPrintHead = None, h_moveAxis = None, h_stopAxis = None,
      h_saveAxisPos = None, h_getJobSettings = None, h_exportConfigFile = None, h_importConfigFile = None,
      h_getAlignmentValues = None, h_setAlignmentValues = None, h_getUVParamValues = None, h_setUVParamValues = None,
      h_getSupportNewUVParamFunction = Some (\<lambda>k. (1, k)), h_setNewUVParamFunction = None, h_getNewUVParamValues = None,
      h_setNewUVParamValues = None, h_getPrinterInfo = None\<rparr>"

definition demo_maintenance :: "(variant, 'k) maintenance_env" where
  "demo_maintenance =
     \<lparr>me_head = demo_head, me_errorText = (\<lambda>e. if e = None then [] else ''error''), me_charSigned = True,
      me_toLower = (\<lambda>s. s), me_toLocalFile = (\<lambda>s. s), me_encodeName = map (\<lambda>c. of_nat (of_char c))\<rparr>"

definition demo_service :: "(variant, files, (variant, sim \<times> sdk_event list) direct) service_env" where
  "demo_service =
     \<lparr>sv_variant = plain_variant, sv_trim = (\<lambda>s. s), sv_disk = memory_disk, sv_stream = big_endian,
      sv_codec = plain_codec, sv_sha = demo_sha,
      sv_backend = driver_backend (traced_env sim_env) demo_maintenance memory_disk big_endian demo_sha (\<lambda>_. quiet_poll),
      sv_uploadDirectory = ''uploads'', sv_bytesAvailable = (\<lambda>_. Some (2 ^ 40)), sv_pid = 7,
      sv_errorText = (\<lambda>_. ''error'')\<rparr>"

lemma demo_service_fields [simp]:
  "sv_variant demo_service = plain_variant" "sv_disk demo_service = memory_disk" "sv_stream demo_service = big_endian"
  "sv_sha demo_service = demo_sha" "sv_uploadDirectory demo_service = ''uploads''" "sv_codec demo_service = plain_codec"
  by (simp_all add: demo_service_def)

interpretation demo_service: reliable_service demo_service "\<lambda>d. d"
  by (intro reliable_service.intro service.intro)
    (simp_all add: plain.qvariant_laws_axioms mem.disk_laws_axioms store.reliable_store_axioms)

lemma demo_drives: "drives (traced_env sim_env) (\<lambda>_. quiet_poll) demo_service"
  unfolding drives_def by (rule exI [of _ demo_maintenance]) (simp add: demo_service_def)

lemma demo_driven: "driven (traced_env sim_env) demo_maintenance (\<lambda>_. quiet_poll) demo_service"
  by (simp add: driven_def demo_service_def) (simp add: traced_env_def sim_env_def)

lemma demo_support: "fits_int (fst (getSupportNewUVParamFunction (traced_env sim_env) demo_maintenance b))"
  by (auto simp: getSupportNewUVParamFunction_def demo_maintenance_def demo_head_def fits_int_def int_min_def int_max_def
      split_def Let_def)

interpretation demo_driver: driven_service demo_service "\<lambda>d. d" "traced_env sim_env" demo_maintenance "\<lambda>_. quiet_poll"
  by unfold_locales (rule demo_driven)

definition demo_server :: "(files, (variant, sim \<times> sdk_event list) direct) server" where
  "demo_server =
     \<lparr>srv_uploads = [], srv_printing = False, srv_disk = Map.empty, srv_backend = demo_direct, srv_quit = False,
      srv_buffers = Map.empty, srv_tcpBuffers = Map.empty\<rparr>"

definition demo_uuid :: "nat \<Rightarrow> string" where "demo_uuid n = ''u''"

definition demo_client_env ::
  "(variant, files, (files, (variant, sim \<times> sdk_event list) direct) server \<times> nat) client_env" where
  "demo_client_env =
     \<lparr>ce_variant = plain_variant, ce_trim = (\<lambda>s. s), ce_disk = memory_disk, ce_stream = big_endian, ce_sha = demo_sha,
      ce_exchange = serve demo_service (\<lambda>_. 0) demo_uuid, ce_android = False, ce_launch = (\<lambda>w. (False, w)),
      ce_startupPolls = 1, ce_stopService = (\<lambda>_ w. (True, w)), ce_errorText = (\<lambda>_. ''error'')\<rparr>"

definition demo_client :: "(variant, files, (files, (variant, sim \<times> sdk_event list) direct) server \<times> nat) client" where
  "demo_client =
     \<lparr>cl_available = False, cl_connected = False, cl_servicePid = 0, cl_printers = [], cl_sdkRootPath = [],
      cl_autoDiscoverSdk = True, cl_lastError = [], cl_uploadActive = False, cl_maintenanceBusy = False, cl_currentAction = [],
      cl_disk = print_files, cl_world = (demo_server, 0)\<rparr>"

lemma demo_client_fields [simp]:
  "cl_disk demo_client = print_files" "fst (cl_world demo_client) = demo_server"
  "srv_disk demo_server = Map.empty" "\<not> srv_printing demo_server" "srv_backend demo_server = demo_direct"
  "ce_disk demo_client_env = memory_disk"
  by (simp_all add: demo_client_def demo_server_def demo_client_env_def)

lemma demo_linked: "linked demo_service (\<lambda>_. 0) demo_uuid demo_client_env"
  by (simp add: linked_def demo_client_env_def) (simp add: demo_service_def)

lemma demo_storage: "enough_storage demo_service (HeaderBytes + sp_bodyBytes print_meta)"
  by (simp add: enough_storage_def demo_service_def HeaderBytes_def print_meta_def ymck_meta_def)

lemma demo_upload_fresh: "demo_uuid n \<noteq> []" by (simp add: demo_uuid_def)

lemma print_meta_format: "uint (sp_format print_meta) \<le> 2"
  by (simp add: print_meta_def ymck_meta_def)

section \<open>A raster whose size wraps\<close>

definition wrapped_map :: "variant vmap" where
  "wrapped_map =
     [''height'' \<mapsto> VInt (2 ^ 30), ''bytesPerLine'' \<mapsto> VInt (2 ^ 30), ''format'' \<mapsto> VInt 0,
      ''channels'' \<mapsto> VList (replicate 16 (VInt 0)), ''canonicalHeader'' \<mapsto> VList (replicate 12 (VInt 0))]"

lemma row_cells_first: "0 < h \<Longrightarrow> \<exists>rest. row_cells h (c # cs) = (0, c) # rest"
  by (simp add: row_cells_def upt_conv_Cons)

lemma wrapped_fields:
  "toInt plain_variant (valueAt plain_variant wrapped_map ''height'') = 2 ^ 30"
  "toInt plain_variant (valueAt plain_variant wrapped_map ''bytesPerLine'') = 2 ^ 30"
  "toInt plain_variant (valueAt plain_variant wrapped_map ''format'') = 0"
  "toList plain_variant (valueAt plain_variant wrapped_map ''channels'') = replicate 16 (VInt 0)"
  "toList plain_variant (valueAt plain_variant wrapped_map ''canonicalHeader'') = replicate 12 (VInt 0)"
  "toInt plain_variant (VInt 0) = 0"
  by (simp_all add: wrapped_map_def valueAt_def plain_variant_def)

lemma wrapped_size: "checkedRasterSize (2 ^ 30) 16 (2 ^ 30) = Some 0"
proof -
  have z: "cast64 (2 ^ 30) * cast64 16 * cast64 (2 ^ 30) = 0" by code_simp
  show ?thesis unfolding checkedRasterSize_def Let_def z by simp
qed

lemma wrapped_overrun: "deserializeRaster plain_variant wrapped_map [] = Inl PayloadOverrun"
proof -
  have c: "map (toInt plain_variant) (replicate 16 (VInt 0)) = 0 # replicate 15 0"
    by (simp add: wrapped_fields(6) numeral_eq_Suc)
  obtain rest where r: "row_cells (2 ^ 30) (0 # replicate 15 0) = (0, 0) # rest"
    using row_cells_first [of "2 ^ 30" 0 "replicate 15 0"] by auto
  have "fold_res (deserialize_line [] (2 ^ 30)) (row_cells (2 ^ 30) (0 # replicate 15 0)) st = Inl PayloadOverrun" for st
    unfolding r by (cases st) (simp add: deserialize_line_def bind_res_def)
  then show ?thesis
    unfolding deserializeRaster_def wrapped_fields(1-5) c Let_def
    using wrapped_size by (simp add: bind_res_def)
qed

section \<open>A message\<close>

definition demo_message :: "variant vmap" where "demo_message = [''ok'' \<mapsto> VBool True]"

lemma demo_message_finite: "finite_map demo_message"
  by (simp add: demo_message_def finite_map_def)

lemma demo_message_fits: "encodeFrame big_endian plain_codec demo_message \<noteq> []"
  by (simp add: demo_message_def encodeFrame_def plain_codec_def Let_def put_str_def put_nat.simps MaximumFrameSize_def big_endian_def)

section \<open>A service that receives an upload\<close>

definition only_message :: "variant vmap \<Rightarrow> variant codec" where
  \<comment> \<open>a codec that knows a single message\<close>
  "only_message m = \<lparr>putMap = (\<lambda>_. Some [0]), getMap = (\<lambda>b. Some (m, drop 1 b))\<rparr>"

definition begin_message :: "variant vmap" where
  "begin_message = request_message plain_variant ''beginRasterUpload''
     (begin_arguments plain_variant (with_disk_fields print_meta ''spool'' (demo_sha [])) demo_settings) []"

definition demo_receiver :: "(variant, files, (variant, sim \<times> sdk_event list) direct) service_env" where
  "demo_receiver = demo_service\<lparr>sv_codec := only_message begin_message\<rparr>"

lemma demo_receiver_fields [simp]:
  "sv_variant demo_receiver = plain_variant" "sv_disk demo_receiver = memory_disk" "sv_stream demo_receiver = big_endian"
  "sv_sha demo_receiver = demo_sha" "sv_uploadDirectory demo_receiver = ''uploads''"
  "sv_codec demo_receiver = only_message begin_message" "sv_trim demo_receiver = (\<lambda>s. s)"
  by (simp_all add: demo_receiver_def) (simp add: demo_service_def)

interpretation demo_receiver: reliable_service demo_receiver "\<lambda>d. d"
  by (intro reliable_service.intro service.intro)
    (simp_all add: plain.qvariant_laws_axioms mem.disk_laws_axioms store.reliable_store_axioms)

lemma only_frames: "frame_laws big_endian (only_message m) (\<lambda>x. x = m)"
  by (intro frame_laws.intro frame_laws_axioms.intro be.datastream_laws_axioms) (simp add: only_message_def)

lemma only_fits: "encodeFrame big_endian (only_message m) m \<noteq> []"
proof -
  have "put32 big_endian x \<noteq> []" for x using be.length_put32 [of x] by (metis length_0_conv zero_neq_numeral)
  then show ?thesis
    by (simp add: encodeFrame_def only_message_def MaximumFrameSize_def Let_def be.length_put32 be.length_put16)
qed

lemma one_message:
  "takeFrame big_endian (only_message m) (encodeFrame big_endian (only_message m) m) = (FrameComplete m, [])"
  using frame_laws.take_whole_frame [OF only_frames refl only_fits, of m "[]"] by simp

lemma begin_message_handled:
  "handleRequest demo_receiver t k begin_message s =
    (if srv_printing s then refuse demo_receiver PrintInProgress s
     else begin_upload demo_receiver t k (begin_arguments plain_variant (with_disk_fields print_meta ''spool'' (demo_sha [])) demo_settings) s)"
  using demo_receiver.request_parts
  by (simp add: handleRequest_def begin_message_def Let_def)

lemma demo_announced: "announceable (with_disk_fields print_meta ''spool'' (demo_sha []))"
  using demo_service.announce_spool_at(1) [of "\<lambda>d. d", simplified, OF print_spool_at print_meta_format] by simp

lemma demo_submittable: "spool_submittable (with_disk_fields print_meta ''spool'' (demo_sha []))"
  using demo_announced by (simp add: announceable_def)

lemma demo_upload_reachable:
  "\<exists>s uploadId u. reachable demo_receiver s \<and> (uploadId, u) \<in> set (srv_uploads s)"
proof -
  let ?sp = "with_disk_fields print_meta ''spool'' (demo_sha [])"
  define s1 where "s1 = acceptConnection 0 demo_server"
  have start: "reachable demo_receiver demo_server" by (rule reach_start) (simp add: service_start_def demo_server_def)
  have r1: "reachable demo_receiver s1" unfolding s1_def by (rule reach_step [OF start step_accept])
  have s1: "srv_buffers s1 0 = Some []" "\<not> srv_printing s1" by (simp_all add: s1_def acceptConnection_def demo_server_def)
  have room: "enough_storage demo_receiver (sp_bodyOffset ?sp + sp_bodyBytes ?sp)"
    using demo_storage by (simp add: enough_storage_def demo_receiver_def with_disk_fields_def)
  obtain r s2 u where b: "begin_upload demo_receiver 0 ''u'' (begin_arguments plain_variant ?sp demo_settings) s1 = (r, s2)"
    "upload_at (\<lambda>d. d) ''uploads'' s2 ''u'' u []"
    using demo_receiver.begin_accepts [OF demo_announced demo_settings_typed room s1(2), of 0 "''u''"] by auto
  have "readClient demo_receiver 0 ''u'' 0 (encodeFrame big_endian (only_message begin_message) begin_message) s1 =
      (Some (encodeFrame big_endian (only_message begin_message) r), s2\<lparr>srv_buffers := (srv_buffers s2)(0 := None)\<rparr>)"
    using b(1) s1 by (simp add: readClient_def receive_def one_message begin_message_handled)
  then have "reachable demo_receiver (s2\<lparr>srv_buffers := (srv_buffers s2)(0 := None)\<rparr>)"
    using reach_step [OF r1 step_read] by blast
  moreover have "(''u'', u) \<in> set (srv_uploads s2)"
    using b(2) by (simp add: upload_at_def map_of_SomeD)
  ultimately show ?thesis by fastforce
qed

section \<open>A raster in memory\<close>

definition demo_raster :: raster where
  "demo_raster = (spool_raster print_meta)\<lparr>ra_lines := Some demo_lines\<rparr>"

lemma demo_raster_size: "raster_size demo_raster = 16"
  by (simp add: raster_size_def demo_raster_def spool_raster_def print_meta_def ymck_meta_def demo_meta_def ymck_def)

lemma demo_raster_ok: "raster_ok demo_raster demo_lines"
  unfolding raster_ok_def demo_raster_size
  by (simp add: demo_raster_def spool_raster_def print_meta_def ymck_meta_def demo_meta_def ymck_def demo_lines_def
      fits_int_def int_min_def int_max_def makeStandardX33Header_def)

lemma demo_packed_job:
  "\<exists>t. printPackedJob (traced_env sim_env) (\<lambda>_. quiet_poll) (planes_line demo_lines) demo_raster demo_settings demo_direct = (True, t)"
proof -
  obtain p where p: "job_property (de_arm (traced_env sim_env)) (spool_raster print_meta) demo_settings (sp_lineBytes print_meta) = Inr p"
    "unat (p ! 3) = nat (sp_lineBytes print_meta)" using print_property by blast
  have f: "job_property a demo_raster st n = job_property a (spool_raster print_meta) st n" for a st n
    by (simp add: job_property_def demo_raster_def)
  have "sim.lines_ready (planes_line demo_lines) (length demo_lines) (p ! 3)
      (row_cells (ra_height demo_raster) (ra_order demo_raster))"
    using p(2) by (simp add: sim.lines_ready_def row_cells_def demo_raster_def spool_raster_def print_meta_def
        ymck_meta_def demo_meta_def ymck_def demo_lines_def planes_line_def)
  moreover have "ra_lines demo_raster = Some demo_lines" "ra_order demo_raster \<noteq> []"
    "0 < ra_lineBytes demo_raster" "ra_lineBytes demo_raster = sp_lineBytes print_meta"
    by (simp_all add: demo_raster_def spool_raster_def print_meta_def ymck_meta_def demo_meta_def ymck_def)
  moreover have "demo_lines \<noteq> []" by (simp add: demo_lines_def)
  moreover have "\<not> dp_cancelRequested demo_direct" by (simp add: demo_direct_def)
  moreover have "mediaHeightMm demo_settings < 0" by (simp add: demo_settings_def default_settings_def)
  ultimately show ?thesis
    using p(1) demo_standing_by
    by (intro sim.printPackedJob_completes [where p = p and planes = demo_lines]) (simp_all add: f)
qed

lemma traced_arm: "de_arm (traced_env E) = de_arm E"
  by (simp add: traced_env_def)

lemma default_alignment_ok: "alignment_ok default_alignment"
  by (simp add: alignment_ok_def default_alignment_def)

end
