(* ===== verification/Color_Manager.thy ===== *)
theory Color_Manager
  imports Linearization Qt_Disk Service_Protocol "HOL-Library.List_Lexorder" "HOL-Library.Char_ord"
begin

text \<open>
  \<open>ColorManagementManager\<close>: profiles, dot strategy, linearization files, ink parameters and direct
  print settings, with the normalizations every change goes through and the settings file. The
  values of \<open>QVariantMap\<close>s are the parameter \<open>'v\<close>; JSON values are a datatype, their text and their
  conversion from and to \<open>QVariant\<close> are parameters. Setters return the state they leave; setters
  that save also leave the settings file.
\<close>

section \<open>JSON values\<close>

datatype json =
    JNull
  | JBool bool
  | JNum rat
  | JStr string
  | JArr "json list"
  | JObj "(string \<times> json) list" \<comment> \<open>in the order of the keys\<close>

type_synonym json_object = "string \<rightharpoonup> json"

record 'v json_env =
  fromVariant :: "'v \<Rightarrow> json" \<comment> \<open>\<open>QJsonValue::fromVariant\<close>\<close>
  toVariant :: "json \<Rightarrow> 'v" \<comment> \<open>\<open>QJsonValue::toVariant\<close>\<close>
  printJson :: "json \<Rightarrow> bytes" \<comment> \<open>\<open>QJsonDocument::toJson\<close>\<close>
  parseJson :: "bytes \<Rightarrow> json option" \<comment> \<open>\<open>QJsonDocument::fromJson\<close>\<close>

definition keys_in_order :: "(string \<rightharpoonup> 'a) \<Rightarrow> string list" where
  \<comment> \<open>the order in which \<open>QMap\<close> and \<open>QJsonObject\<close> are traversed\<close>
  "keys_in_order m = sorted_list_of_set (dom m)"

definition object_value :: "json_object \<Rightarrow> json" where
  "object_value ob = JObj (map (\<lambda>k. (k, the (ob k))) (keys_in_order ob))"

fun json_int :: "int \<Rightarrow> json option \<Rightarrow> int" where
  \<comment> \<open>\<open>QJsonValue::toInt(defaultValue)\<close>; \<open>None\<close> is an undefined value\<close>
  "json_int def (Some (JNum r)) = (if r = of_int \<lfloor>r\<rfloor> \<and> fits_int \<lfloor>r\<rfloor> then \<lfloor>r\<rfloor> else def)"
| "json_int def _ = def"

fun json_bool :: "bool \<Rightarrow> json option \<Rightarrow> bool" where
  "json_bool def (Some (JBool b)) = b"
| "json_bool def _ = def"

fun json_str :: "string \<Rightarrow> json option \<Rightarrow> string" where
  "json_str def (Some (JStr s)) = s"
| "json_str def _ = def"

fun json_obj :: "json option \<Rightarrow> json_object" where
  "json_obj (Some (JObj l)) = map_of l"
| "json_obj _ = Map.empty"

definition jsonObjectToVariantMap :: "'v json_env \<Rightarrow> json_object \<Rightarrow> 'v vmap" where
  "jsonObjectToVariantMap J ob = map_option (toVariant J) \<circ> ob"

definition variantMapToJsonObject :: "'v json_env \<Rightarrow> 'v vmap \<Rightarrow> json_object" where
  "variantMapToJsonObject J m = map_option (fromVariant J) \<circ> m"

section \<open>Ink modes and printer names\<close>

definition isSupportedInkMode :: "int \<Rightarrow> bool" where
  "isSupportedInkMode inkMode \<longleftrightarrow> inkMode \<in> {4, 5, 6, 7, 8, 10}"

definition familyKeyForInkMode :: "int \<Rightarrow> string" where
  "familyKeyForInkMode inkMode =
     (if inkMode = 4 \<or> inkMode = 5 then ''A'' else if inkMode = 6 \<or> inkMode = 7 then ''B''
      else if inkMode = 8 \<or> inkMode = 10 then ''C'' else [])"

definition isSupportedFamilyKey :: "string \<Rightarrow> bool" where
  "isSupportedFamilyKey key \<longleftrightarrow> key = ''A'' \<or> key = ''B'' \<or> key = ''C''"

definition same_text :: "qtext \<Rightarrow> string \<Rightarrow> string \<Rightarrow> bool" where
  \<comment> \<open>\<open>compare(..., Qt::CaseInsensitive) == 0\<close>\<close>
  "same_text T a b \<longleftrightarrow> toLower T a = toLower T b"

definition normalizedPrinterName :: "qtext \<Rightarrow> string \<Rightarrow> string" where
  "normalizedPrinterName T printerName =
     (let name = trimmed T printerName in
      if same_text T name ''X-36 Studio'' \<or> same_text T name ''X-36NC (Photo Printer)'' \<or> same_text T name ''X-36NC''
      then ''X-36 Studio'' else name)"

section \<open>Direct print settings\<close>

definition defaultDirectPrintSettings :: "'v qvariant \<Rightarrow> 'v vmap" where
  "defaultDirectPrintSettings Q =
     (let num = ofInt Q in
      [''selectedPrinterIndex'' \<mapsto> num (-1), ''selectedPrinterName'' \<mapsto> ofStr Q [], ''printDirection'' \<mapsto> num 0,
       ''printSpeed'' \<mapsto> num 1, ''wcSequence'' \<mapsto> num 0, ''eclosionGrade'' \<mapsto> num 2, ''headSelect'' \<mapsto> num 0,
       ''whiteInkPercent'' \<mapsto> num 0, ''whiteInkPassCount'' \<mapsto> num 0, ''varnishInkPercent'' \<mapsto> num 0,
       ''varnishInkPassCount'' \<mapsto> num 0, ''headVoltage'' \<mapsto> num 512, ''disableUv0'' \<mapsto> num 0, ''disableUv1'' \<mapsto> num 0,
       ''disableUv2'' \<mapsto> num 0, ''disableUv3'' \<mapsto> num 0, ''disableUv4'' \<mapsto> num 0, ''disableUv5'' \<mapsto> num 0,
       ''carReset'' \<mapsto> num 0, ''stripBlank'' \<mapsto> num 0, ''blankDistance'' \<mapsto> num 0, ''pass'' \<mapsto> num 0, ''vsdMode'' \<mapsto> num 0])"

definition clamp_entry :: "'v qvariant \<Rightarrow> 'v vmap \<Rightarrow> string \<times> int \<times> int \<Rightarrow> 'v vmap" where
  \<comment> \<open>the lambda \<open>clamp\<close>\<close>
  "clamp_entry Q out entry =
     (case entry of (k, lo, hi) \<Rightarrow> out(k \<mapsto> ofInt Q (max lo (min hi (toInt Q (valueAt Q out k))))))"

definition direct_ranges :: "(string \<times> int \<times> int) list" where
  \<comment> \<open>the calls of \<open>clamp\<close>\<close>
  "direct_ranges =
     [(''selectedPrinterIndex'', -1, 99), (''printDirection'', 0, 3), (''printSpeed'', 0, 3), (''wcSequence'', 0, 1),
      (''headSelect'', 0, 2), (''whiteInkPercent'', 0, 9), (''whiteInkPassCount'', 0, 255), (''varnishInkPercent'', 0, 9),
      (''varnishInkPassCount'', 0, 255), (''headVoltage'', 400, 600), (''disableUv0'', 0, 1), (''disableUv1'', 0, 1),
      (''disableUv2'', 0, 1), (''disableUv3'', 0, 1), (''disableUv4'', 0, 1), (''disableUv5'', 0, 1), (''carReset'', 0, 1),
      (''stripBlank'', 0, 2), (''blankDistance'', 0, 65535), (''pass'', 0, 255), (''vsdMode'', 0, 65535)]"

definition normalizedDirectPrintSettings :: "'v qvariant \<Rightarrow> qtext \<Rightarrow> 'v vmap \<Rightarrow> 'v vmap" where
  \<comment> \<open>the keys are independent, so the printer name and the feathering grade may come first\<close>
  "normalizedDirectPrintSettings Q T m =
     (let out = defaultDirectPrintSettings Q ++ m;
          saved = vmInt Q out ''eclosionGrade'' 2;
          out = out(''selectedPrinterName'' \<mapsto> ofStr Q (trimmed T (toStr Q (valueAt Q out ''selectedPrinterName''))),
                    ''eclosionGrade'' \<mapsto> ofInt Q (if saved \<le> 0 then 2 else clamp saved 1 3)) in
      foldl (clamp_entry Q) out direct_ranges)"

section \<open>Ink parameters\<close>

definition clamp_present :: "'v qvariant \<Rightarrow> int \<Rightarrow> int \<Rightarrow> 'v vmap \<Rightarrow> string \<Rightarrow> 'v vmap" where
  \<comment> \<open>the lambdas \<open>clampInt\<close> and \<open>clampPct\<close>\<close>
  "clamp_present Q lo hi out k =
     (case out k of None \<Rightarrow> out | Some v \<Rightarrow> out(k \<mapsto> ofInt Q (max lo (min hi (toInt Q v)))))"

definition bool_present :: "'v qvariant \<Rightarrow> 'v vmap \<Rightarrow> string \<Rightarrow> 'v vmap" where
  "bool_present Q out k = (case out k of None \<Rightarrow> out | Some v \<Rightarrow> out(k \<mapsto> ofBool Q (toBool Q v)))"

definition text_present :: "'v qvariant \<Rightarrow> qtext \<Rightarrow> string \<Rightarrow> string \<Rightarrow> 'v vmap \<Rightarrow> 'v vmap" where
  "text_present Q T k def out =
     out(k \<mapsto> ofStr Q (case out k of None \<Rightarrow> def | Some v \<Rightarrow> trimmed T (toStr Q v)))"

definition u8_keys :: "string list" where
  "u8_keys =
     [''cLightStart'', ''cLightEnd'', ''mLightStart'', ''mLightEnd'', ''kT1Start'', ''kT1End'', ''kT2Start'', ''kT2End'',
      ''gcrEnabled'', ''neutralGate'', ''gcrMaxTone'', ''gcrStrength'', ''kGain'', ''kMinInNeutral'', ''lightInkMinThreshold'',
      ''promoToneGate'', ''promoMedLo'', ''promoMedHi'', ''promoLrgLo'', ''promoLrgHi'', ''promoFlatVarEps'',
      ''promoMinNeiInked'', ''promoKickBonus'', ''neutralChromaCut'', ''neutralMaxTone'', ''whiteThreshold'', ''whiteDensity'',
      ''varnishThreshold'', ''varnishDensity'', ''whiteSmallDotThreshold'', ''whiteMedDotThreshold'',
      ''varnishSmallDotThreshold'', ''varnishMedDotThreshold'']"

definition pct_keys :: "string list" where
  "pct_keys = [''lcFadePctInNeutral'', ''lmFadePctInNeutral'', ''neutralReducePct1'', ''neutralReducePct2'']"

definition mode_keys :: "string list" where "mode_keys = [''whiteMode'', ''varnishMode'']"

definition bool_keys :: "string list" where
  "bool_keys = [''useLightInkMinThresholdOverride'', ''gcrEnabled'', ''whiteUseOwnDotStrategy'', ''whiteEnablePromotion'',
     ''varnishUseOwnDotStrategy'', ''varnishEnablePromotion'']"

definition clampMapU8 :: "'v qvariant \<Rightarrow> qtext \<Rightarrow> 'v vmap \<Rightarrow> 'v vmap" where
  "clampMapU8 Q T m =
     (let out = foldl (clamp_present Q 0 255) m u8_keys;
          out = foldl (clamp_present Q 0 100) out pct_keys;
          out = foldl (clamp_present Q 0 3) out mode_keys;
          out = foldl (bool_present Q) out bool_keys in
      text_present Q T ''varnishMaskKey'' ''v'' (text_present Q T ''whiteMaskKey'' ''w'' out))"

definition shared_defaults :: "'v qvariant \<Rightarrow> 'v vmap" where
  "shared_defaults Q =
     (let num = ofInt Q; flag = ofBool Q in
      [''promoToneGate'' \<mapsto> num 112, ''promoMedLo'' \<mapsto> num 18, ''promoMedHi'' \<mapsto> num 26, ''promoLrgLo'' \<mapsto> num 28,
       ''promoLrgHi'' \<mapsto> num 36, ''promoFlatVarEps'' \<mapsto> num 18, ''promoMinNeiInked'' \<mapsto> num 8, ''promoKickBonus'' \<mapsto> num 2,
       ''useLightInkMinThresholdOverride'' \<mapsto> flag True, ''lightInkMinThreshold'' \<mapsto> num 2,
       ''whiteMode'' \<mapsto> num 0, ''whiteThreshold'' \<mapsto> num 8, ''whiteDensity'' \<mapsto> num 255,
       ''whiteUseOwnDotStrategy'' \<mapsto> flag False, ''whiteSmallDotThreshold'' \<mapsto> num 104,
       ''whiteMedDotThreshold'' \<mapsto> num 168, ''whiteEnablePromotion'' \<mapsto> flag False, ''whiteMaskKey'' \<mapsto> ofStr Q ''w'',
       ''varnishMode'' \<mapsto> num 0, ''varnishThreshold'' \<mapsto> num 8, ''varnishDensity'' \<mapsto> num 255,
       ''varnishUseOwnDotStrategy'' \<mapsto> flag False, ''varnishSmallDotThreshold'' \<mapsto> num 104,
       ''varnishMedDotThreshold'' \<mapsto> num 168, ''varnishEnablePromotion'' \<mapsto> flag False, ''varnishMaskKey'' \<mapsto> ofStr Q ''v''])"

definition addGcrDefaults :: "'v qvariant \<Rightarrow> 'v vmap \<Rightarrow> 'v vmap" where
  "addGcrDefaults Q m =
     (let num = ofInt Q in
      m(''gcrEnabled'' \<mapsto> ofBool Q False, ''neutralGate'' \<mapsto> num 14, ''gcrMaxTone'' \<mapsto> num 180, ''gcrStrength'' \<mapsto> num 160,
        ''kGain'' \<mapsto> num 220, ''kMinInNeutral'' \<mapsto> num 6, ''lcFadePctInNeutral'' \<mapsto> num 70, ''lmFadePctInNeutral'' \<mapsto> num 50))"

definition light_split :: "'v qvariant \<Rightarrow> int \<Rightarrow> int \<Rightarrow> int \<Rightarrow> int \<Rightarrow> 'v vmap \<Rightarrow> 'v vmap" where
  "light_split Q cs ce ms me m =
     m(''cLightStart'' \<mapsto> ofInt Q cs, ''cLightEnd'' \<mapsto> ofInt Q ce, ''mLightStart'' \<mapsto> ofInt Q ms, ''mLightEnd'' \<mapsto> ofInt Q me)"

definition black_split :: "'v qvariant \<Rightarrow> int \<Rightarrow> int \<Rightarrow> int \<Rightarrow> int \<Rightarrow> 'v vmap \<Rightarrow> 'v vmap" where
  "black_split Q s1 e1 s2 e2 m =
     m(''kT1Start'' \<mapsto> ofInt Q s1, ''kT1End'' \<mapsto> ofInt Q e1, ''kT2Start'' \<mapsto> ofInt Q s2, ''kT2End'' \<mapsto> ofInt Q e2)"

definition defaultMultiInkParamsForMode :: "'v qvariant \<Rightarrow> qtext \<Rightarrow> int \<Rightarrow> 'v vmap" where
  "defaultMultiInkParamsForMode Q T inkMode =
     (let m = shared_defaults Q; gcr = addGcrDefaults Q m; under = (\<lambda>m. m(''whiteMode'' \<mapsto> ofInt Q 1)) in
      clampMapU8 Q T
       (if inkMode = 5 then under gcr
        else if inkMode = 6 then light_split Q 24 96 16 80 gcr
        else if inkMode = 7 then under (light_split Q 48 160 48 160 gcr)
        else if inkMode = 8 then black_split Q 24 112 120 228 (light_split Q 24 96 16 80 gcr)
        else if inkMode = 10 then
          (under (black_split Q 32 128 128 224 (light_split Q 48 160 48 160 gcr)))(''varnishMode'' \<mapsto> ofInt Q 1)
        else m))"

section \<open>The manager\<close>

datatype setting_signal =
    SelectedPrinterChanged | ProfilesChanged | DotStrategyChanged | MultiInkParamsChanged
  | LinearizationChanged | DirectPrintSettingsChanged

record ('v, 'd) color_manager =
  m_multiInkParamsByMode :: "int \<rightharpoonup> 'v vmap"
  m_selectedPrinter :: string
  m_enableLinearization :: bool
  m_linearizationPresetName :: string
  m_linearizationDataPath :: string
  m_familyDefaultLinearizationPaths :: "'v vmap"
  m_printerFamilyLinearizationPaths :: "'v vmap"
  m_printerOutputProfiles :: "'v vmap"
  m_defaultInputProfile :: string
  m_defaultOutputProfile :: string
  m_familyDefaultOutputProfiles :: "'v vmap"
  m_printerFamilyOutputProfiles :: "'v vmap"
  m_minInkThreshold :: int
  m_smallDotThreshold :: int
  m_medDotThreshold :: int
  m_enablePromotion :: bool
  m_floorRangeCMY :: int
  m_floorMaxCMY :: int
  m_floorRangeK :: int
  m_floorMaxK :: int
  m_enableDotSwap :: bool
  m_multiInkOutputMode :: string
  m_directPrintSdkRootPath :: string
  m_multiInkDirectPrintSdkRootPath :: string
  m_directPrintSettings :: "'v vmap"
  emittedSignals :: "setting_signal list" \<comment> \<open>what has been emitted\<close>
  settingsDisk :: 'd \<comment> \<open>the disk the settings file is on\<close>

record ('v, 'd) color_env =
  cs_variant :: "'v qvariant"
  cs_text :: qtext
  cs_json :: "'v json_env"
  cs_disk :: "'d disk"
  cs_dataDir :: string \<comment> \<open>\<open>QStandardPaths::writableLocation(AppDataLocation)\<close>\<close>
  cs_upper :: "string \<Rightarrow> string" \<comment> \<open>\<open>QString::toUpper\<close>\<close>
  cs_number :: "int \<Rightarrow> string" \<comment> \<open>\<open>QString::number\<close>\<close>
  cs_parseInt :: "string \<Rightarrow> int option" \<comment> \<open>\<open>QString::toInt\<close> with its \<open>ok\<close> flag\<close>
  cs_same :: "'v vmap \<Rightarrow> 'v vmap \<Rightarrow> bool" \<comment> \<open>\<open>operator==\<close> of two \<open>QVariantMap\<close>s\<close>

definition new_manager :: "'d \<Rightarrow> ('v, 'd) color_manager" where
  \<comment> \<open>the member initializers\<close>
  "new_manager d =
     \<lparr>m_multiInkParamsByMode = Map.empty, m_selectedPrinter = [], m_enableLinearization = True,
      m_linearizationPresetName = ''Default'', m_linearizationDataPath = [],
      m_familyDefaultLinearizationPaths = Map.empty, m_printerFamilyLinearizationPaths = Map.empty,
      m_printerOutputProfiles = Map.empty, m_defaultInputProfile = [], m_defaultOutputProfile = [],
      m_familyDefaultOutputProfiles = Map.empty, m_printerFamilyOutputProfiles = Map.empty,
      m_minInkThreshold = 8, m_smallDotThreshold = 64, m_medDotThreshold = 128, m_enablePromotion = False,
      m_floorRangeCMY = 24, m_floorMaxCMY = 2, m_floorRangeK = 12, m_floorMaxK = 0, m_enableDotSwap = False,
      m_multiInkOutputMode = ''prn'', m_directPrintSdkRootPath = [], m_multiInkDirectPrintSdkRootPath = [],
      m_directPrintSettings = Map.empty, emittedSignals = [], settingsDisk = d\<rparr>"

definition emits :: "setting_signal list \<Rightarrow> ('v, 'd) color_manager \<Rightarrow> ('v, 'd) color_manager" where
  "emits ss M = M\<lparr>emittedSignals := emittedSignals M @ ss\<rparr>"

section \<open>Saving\<close>

definition settingsPath :: "('v, 'd) color_env \<Rightarrow> string" where
  "settingsPath E = cs_dataDir E @ ''/color_management.json''"

definition ensureDirectory :: "('v, 'd) color_env \<Rightarrow> 'd \<Rightarrow> 'd" where
  \<comment> \<open>\<open>QDir().mkpath(dir)\<close>, its result ignored\<close>
  "ensureDirectory E d = (case makePath (cs_disk E) (cs_dataDir E) d of None \<Rightarrow> d | Some d' \<Rightarrow> d')"

definition text_object :: "'v qvariant \<Rightarrow> 'v vmap \<Rightarrow> json_object" where
  "text_object Q m = map_option (\<lambda>v. JStr (toStr Q v)) \<circ> m"

definition nested_object :: "('v, 'd) color_env \<Rightarrow> 'v vmap \<Rightarrow> json_object" where
  "nested_object E m =
     map_option (\<lambda>v. object_value (variantMapToJsonObject (cs_json E) (toMap (cs_variant E) v))) \<circ> m"

definition add_mode :: "('v, 'd) color_env \<Rightarrow> ('v, 'd) color_manager \<Rightarrow> json_object \<Rightarrow> int \<Rightarrow> json_object" where
  "add_mode E M ob inkMode =
     (case m_multiInkParamsByMode M inkMode of
        None \<Rightarrow> ob
      | Some params \<Rightarrow>
          ob(cs_number E inkMode \<mapsto>
               object_value (variantMapToJsonObject (cs_json E) (clampMapU8 (cs_variant E) (cs_text E) params))))"

definition modes_object :: "('v, 'd) color_env \<Rightarrow> ('v, 'd) color_manager \<Rightarrow> json_object" where
  \<comment> \<open>the supported modes of the map, in the order of its keys\<close>
  "modes_object E M = foldl (add_mode E M) Map.empty [4, 5, 6, 7, 8, 10]"

definition settings_object :: "('v, 'd) color_env \<Rightarrow> ('v, 'd) color_manager \<Rightarrow> json_object" where
  "settings_object E M =
     (let Q = cs_variant E; num = (\<lambda>x. JNum (of_int x)) in
      [''selectedPrinter'' \<mapsto> JStr (m_selectedPrinter M),
       ''defaultInputProfile'' \<mapsto> JStr (m_defaultInputProfile M),
       ''defaultOutputProfile'' \<mapsto> JStr (m_defaultOutputProfile M),
       ''minInkThreshold'' \<mapsto> num (m_minInkThreshold M), ''smallDotThreshold'' \<mapsto> num (m_smallDotThreshold M),
       ''medDotThreshold'' \<mapsto> num (m_medDotThreshold M), ''enablePromotion'' \<mapsto> JBool (m_enablePromotion M),
       ''floorRangeCMY'' \<mapsto> num (m_floorRangeCMY M), ''floorMaxCMY'' \<mapsto> num (m_floorMaxCMY M),
       ''floorRangeK'' \<mapsto> num (m_floorRangeK M), ''floorMaxK'' \<mapsto> num (m_floorMaxK M),
       ''enableDotSwap'' \<mapsto> JBool (m_enableDotSwap M), ''enableLinearization'' \<mapsto> JBool (m_enableLinearization M),
       ''linearizationPresetName'' \<mapsto> JStr (m_linearizationPresetName M),
       ''linearizationDataPath'' \<mapsto> JStr (m_linearizationDataPath M),
       ''multiInkOutputMode'' \<mapsto> JStr (m_multiInkOutputMode M),
       ''directPrintSdkRootPath'' \<mapsto> JStr (m_directPrintSdkRootPath M),
       ''multiInkDirectPrintSdkRootPath'' \<mapsto> JStr (m_multiInkDirectPrintSdkRootPath M),
       ''directPrintSettings'' \<mapsto>
          object_value (variantMapToJsonObject (cs_json E)
            (normalizedDirectPrintSettings Q (cs_text E) (m_directPrintSettings M))),
       ''familyDefaultLinearizationPaths'' \<mapsto> object_value (text_object Q (m_familyDefaultLinearizationPaths M)),
       ''printerFamilyLinearizationPaths'' \<mapsto> object_value (nested_object E (m_printerFamilyLinearizationPaths M)),
       ''printerOutputProfiles'' \<mapsto> object_value (text_object Q (m_printerOutputProfiles M)),
       ''familyDefaultOutputProfiles'' \<mapsto> object_value (text_object Q (m_familyDefaultOutputProfiles M)),
       ''printerFamilyOutputProfiles'' \<mapsto> object_value (nested_object E (m_printerFamilyOutputProfiles M)),
       ''multiInkParamsByMode'' \<mapsto> object_value (modes_object E M)])"

definition save_settings :: "('v, 'd) color_env \<Rightarrow> ('v, 'd) color_manager \<Rightarrow> bool \<times> ('v, 'd) color_manager" where
  \<comment> \<open>\<open>ColorManagementManager::save\<close>\<close>
  "save_settings E M =
     (let D = cs_disk E; path = settingsPath E; d = ensureDirectory E (settingsDisk M) in
      case openTruncate D path d of
        None \<Rightarrow> (False, M\<lparr>settingsDisk := d\<rparr>)
      | Some d \<Rightarrow>
          (case writeAt D path 0 (printJson (cs_json E) (object_value (settings_object E M))) d of
             None \<Rightarrow> (False, M\<lparr>settingsDisk := d\<rparr>)
           | Some d \<Rightarrow> (True, M\<lparr>settingsDisk := d\<rparr>)))"

definition saved :: "('v, 'd) color_env \<Rightarrow> ('v, 'd) color_manager \<Rightarrow> ('v, 'd) color_manager" where
  \<comment> \<open>\<open>save();\<close> with its result ignored\<close>
  "saved E M = snd (save_settings E M)"

section \<open>Profiles\<close>

definition setSelectedPrinter :: "('v, 'd) color_env \<Rightarrow> string \<Rightarrow> ('v, 'd) color_manager \<Rightarrow> ('v, 'd) color_manager" where
  "setSelectedPrinter E p M =
     (let normalized = normalizedPrinterName (cs_text E) p in
      if m_selectedPrinter M = normalized then M
      else emits [SelectedPrinterChanged, ProfilesChanged] (M\<lparr>m_selectedPrinter := normalized\<rparr>))"

definition setDefaultInputProfile :: "string \<Rightarrow> ('v, 'd) color_manager \<Rightarrow> ('v, 'd) color_manager" where
  "setDefaultInputProfile p M =
     (if m_defaultInputProfile M = p then M else emits [ProfilesChanged] (M\<lparr>m_defaultInputProfile := p\<rparr>))"

definition setDefaultOutputProfile :: "string \<Rightarrow> ('v, 'd) color_manager \<Rightarrow> ('v, 'd) color_manager" where
  "setDefaultOutputProfile p M =
     (if m_defaultOutputProfile M = p then M else emits [ProfilesChanged] (M\<lparr>m_defaultOutputProfile := p\<rparr>))"

definition text_at :: "'v qvariant \<Rightarrow> 'v vmap \<Rightarrow> string \<Rightarrow> string" where
  \<comment> \<open>\<open>map.value(key).toString()\<close>\<close>
  "text_at Q m k = toStr Q (valueAt Q m k)"

definition effectiveOutputProfile :: "('v, 'd) color_env \<Rightarrow> ('v, 'd) color_manager \<Rightarrow> string" where
  "effectiveOutputProfile E M =
     (let key = m_selectedPrinter M; trim = trimmed (cs_text E) in
      case (if key = [] then None else m_printerOutputProfiles M key) of
        None \<Rightarrow> trim (m_defaultOutputProfile M)
      | Some v \<Rightarrow> let p = trim (toStr (cs_variant E) v) in if p \<noteq> [] then p else trim (m_defaultOutputProfile M))"

definition printerOutputProfile :: "('v, 'd) color_env \<Rightarrow> string \<Rightarrow> ('v, 'd) color_manager \<Rightarrow> string" where
  "printerOutputProfile E printerName M =
     text_at (cs_variant E) (m_printerOutputProfiles M) (normalizedPrinterName (cs_text E) printerName)"

definition setPrinterOutputProfile ::
  "('v, 'd) color_env \<Rightarrow> string \<Rightarrow> string \<Rightarrow> ('v, 'd) color_manager \<Rightarrow> ('v, 'd) color_manager" where
  "setPrinterOutputProfile E printerName profilePath M =
     (let Q = cs_variant E; T = cs_text E in
      if trimmed T printerName = [] then M
      else let key = normalizedPrinterName T printerName; newVal = trimmed T profilePath in
        if text_at Q (m_printerOutputProfiles M) key = newVal then M
        else emits [ProfilesChanged] (M\<lparr>m_printerOutputProfiles := (m_printerOutputProfiles M)(key \<mapsto> ofStr Q newVal)\<rparr>))"

section \<open>Direct printing\<close>

definition outputModeOf :: "qtext \<Rightarrow> string \<Rightarrow> string" where
  "outputModeOf T m = (if toLower T (trimmed T m) = ''direct'' then ''direct'' else ''prn'')"

definition setMultiInkOutputMode :: "('v, 'd) color_env \<Rightarrow> string \<Rightarrow> ('v, 'd) color_manager \<Rightarrow> ('v, 'd) color_manager" where
  "setMultiInkOutputMode E m M =
     (let normalized = outputModeOf (cs_text E) m in
      if m_multiInkOutputMode M = normalized then M
      else saved E (emits [DirectPrintSettingsChanged] (M\<lparr>m_multiInkOutputMode := normalized\<rparr>)))"

definition setDirectPrintSdkRootPath :: "('v, 'd) color_env \<Rightarrow> string \<Rightarrow> ('v, 'd) color_manager \<Rightarrow> ('v, 'd) color_manager" where
  "setDirectPrintSdkRootPath E path M =
     (let clean = trimmed (cs_text E) path in
      if m_directPrintSdkRootPath M = clean then M
      else saved E (emits [DirectPrintSettingsChanged] (M\<lparr>m_directPrintSdkRootPath := clean\<rparr>)))"

definition setMultiInkDirectPrintSdkRootPath ::
  "('v, 'd) color_env \<Rightarrow> string \<Rightarrow> ('v, 'd) color_manager \<Rightarrow> ('v, 'd) color_manager" where
  "setMultiInkDirectPrintSdkRootPath E path M =
     (let clean = trimmed (cs_text E) path in
      if m_multiInkDirectPrintSdkRootPath M = clean then M
      else saved E (emits [DirectPrintSettingsChanged] (M\<lparr>m_multiInkDirectPrintSdkRootPath := clean\<rparr>)))"

definition directPrintSdkFamilyForPrinter :: "('v, 'd) color_env \<Rightarrow> string \<Rightarrow> string" where
  "directPrintSdkFamilyForPrinter E printerName =
     (let T = cs_text E; name = normalizedPrinterName T printerName in
      if same_text T name ''X-33'' then ''legacy-cmyk''
      else if same_text T name ''X-36 Studio'' then ''multi-ink'' else [])"

definition directPrintSdkRootForPrinter :: "('v, 'd) color_env \<Rightarrow> string \<Rightarrow> ('v, 'd) color_manager \<Rightarrow> string" where
  "directPrintSdkRootForPrinter E printerName M =
     (if directPrintSdkFamilyForPrinter E printerName = ''multi-ink'' then m_multiInkDirectPrintSdkRootPath M
      else m_directPrintSdkRootPath M)"

definition directPrintSettings :: "('v, 'd) color_env \<Rightarrow> ('v, 'd) color_manager \<Rightarrow> 'v vmap" where
  "directPrintSettings E M = normalizedDirectPrintSettings (cs_variant E) (cs_text E) (m_directPrintSettings M)"

definition setDirectPrintSettings ::
  "('v, 'd) color_env \<Rightarrow> 'v vmap \<Rightarrow> ('v, 'd) color_manager \<Rightarrow> ('v, 'd) color_manager" where
  "setDirectPrintSettings E settings M =
     (let normalized = normalizedDirectPrintSettings (cs_variant E) (cs_text E) settings in
      if cs_same E (m_directPrintSettings M) normalized then M
      else saved E (emits [DirectPrintSettingsChanged] (M\<lparr>m_directPrintSettings := normalized\<rparr>)))"

definition directPrintSetting :: "('v, 'd) color_env \<Rightarrow> string \<Rightarrow> ('v, 'd) color_manager \<Rightarrow> 'v" where
  "directPrintSetting E k M = valueAt (cs_variant E) (directPrintSettings E M) k"

definition setDirectPrintSetting ::
  "('v, 'd) color_env \<Rightarrow> string \<Rightarrow> 'v \<Rightarrow> ('v, 'd) color_manager \<Rightarrow> ('v, 'd) color_manager" where
  "setDirectPrintSetting E k v M =
     (let key = trimmed (cs_text E) k in
      if key = [] then M else setDirectPrintSettings E ((directPrintSettings E M)(key \<mapsto> v)) M)"

section \<open>Profiles and linearization files by ink family\<close>

definition family_key :: "('v, 'd) color_env \<Rightarrow> string \<Rightarrow> string" where
  "family_key E familyKey = cs_upper E (trimmed (cs_text E) familyKey)"

definition family_path :: "('v, 'd) color_env \<Rightarrow> 'v vmap \<Rightarrow> string \<Rightarrow> string" where
  "family_path E m familyKey =
     (let key = family_key E familyKey in
      if \<not> isSupportedFamilyKey key then [] else trimmed (cs_text E) (text_at (cs_variant E) m key))"

definition set_family_path :: "('v, 'd) color_env \<Rightarrow> string \<Rightarrow> string \<Rightarrow> 'v vmap \<Rightarrow> 'v vmap option" where
  \<comment> \<open>\<open>None\<close>: an early return\<close>
  "set_family_path E familyKey path m =
     (let Q = cs_variant E; key = family_key E familyKey; newVal = trimmed (cs_text E) path in
      if \<not> isSupportedFamilyKey key \<or> text_at Q m key = newVal then None
      else Some (m(key \<mapsto> ofStr Q newVal)))"

definition family_map :: "'v qvariant \<Rightarrow> 'v vmap \<Rightarrow> string \<Rightarrow> 'v vmap" where
  "family_map Q m printerKey = toMap Q (valueAt Q m printerKey)"

definition printer_family_path :: "('v, 'd) color_env \<Rightarrow> 'v vmap \<Rightarrow> string \<Rightarrow> string \<Rightarrow> string" where
  "printer_family_path E m printerName familyKey =
     (let Q = cs_variant E; T = cs_text E; printerKey = normalizedPrinterName T printerName; key = family_key E familyKey in
      if printerKey = [] \<or> \<not> isSupportedFamilyKey key then []
      else trimmed T (text_at Q (family_map Q m printerKey) key))"

definition set_printer_family_path ::
  "('v, 'd) color_env \<Rightarrow> string \<Rightarrow> string \<Rightarrow> string \<Rightarrow> 'v vmap \<Rightarrow> 'v vmap option" where
  "set_printer_family_path E printerName familyKey path m =
     (let Q = cs_variant E; T = cs_text E; printerKey = normalizedPrinterName T printerName; key = family_key E familyKey;
          familyMap = family_map Q m printerKey; newVal = trimmed T path in
      if printerKey = [] \<or> \<not> isSupportedFamilyKey key \<or> text_at Q familyMap key = newVal then None
      else Some (m(printerKey \<mapsto> ofMap Q (familyMap(key \<mapsto> ofStr Q newVal)))))"

definition effective_path :: "('v, 'd) color_env \<Rightarrow> 'v vmap \<Rightarrow> 'v vmap \<Rightarrow> string \<Rightarrow> string \<Rightarrow> int \<Rightarrow> string" where
  \<comment> \<open>the override of the printer, else the default of the family, else \<open>fallback\<close>\<close>
  "effective_path E overrides defaults fallback printerName inkMode =
     (let Q = cs_variant E; T = cs_text E; printerKey = normalizedPrinterName T printerName;
          familyKey = familyKeyForInkMode inkMode;
          override = trimmed T (text_at Q (family_map Q overrides printerKey) familyKey);
          default = trimmed T (text_at Q defaults familyKey) in
      if printerKey \<noteq> [] \<and> familyKey \<noteq> [] \<and> override \<noteq> [] then override
      else if familyKey \<noteq> [] \<and> default \<noteq> [] then default
      else fallback)"

definition familyDefaultOutputProfile :: "('v, 'd) color_env \<Rightarrow> string \<Rightarrow> ('v, 'd) color_manager \<Rightarrow> string" where
  "familyDefaultOutputProfile E familyKey M = family_path E (m_familyDefaultOutputProfiles M) familyKey"

definition setFamilyDefaultOutputProfile ::
  "('v, 'd) color_env \<Rightarrow> string \<Rightarrow> string \<Rightarrow> ('v, 'd) color_manager \<Rightarrow> ('v, 'd) color_manager" where
  "setFamilyDefaultOutputProfile E familyKey profilePath M =
     (case set_family_path E familyKey profilePath (m_familyDefaultOutputProfiles M) of
        None \<Rightarrow> M
      | Some m \<Rightarrow> saved E (emits [ProfilesChanged] (M\<lparr>m_familyDefaultOutputProfiles := m\<rparr>)))"

definition printerFamilyOutputProfile :: "('v, 'd) color_env \<Rightarrow> string \<Rightarrow> string \<Rightarrow> ('v, 'd) color_manager \<Rightarrow> string" where
  "printerFamilyOutputProfile E printerName familyKey M =
     printer_family_path E (m_printerFamilyOutputProfiles M) printerName familyKey"

definition setPrinterFamilyOutputProfile ::
  "('v, 'd) color_env \<Rightarrow> string \<Rightarrow> string \<Rightarrow> string \<Rightarrow> ('v, 'd) color_manager \<Rightarrow> ('v, 'd) color_manager" where
  "setPrinterFamilyOutputProfile E printerName familyKey profilePath M =
     (case set_printer_family_path E printerName familyKey profilePath (m_printerFamilyOutputProfiles M) of
        None \<Rightarrow> M
      | Some m \<Rightarrow> saved E (emits [ProfilesChanged] (M\<lparr>m_printerFamilyOutputProfiles := m\<rparr>)))"

definition effectiveOutputProfileForPrinterAndInkMode ::
  "('v, 'd) color_env \<Rightarrow> string \<Rightarrow> int \<Rightarrow> ('v, 'd) color_manager \<Rightarrow> string" where
  "effectiveOutputProfileForPrinterAndInkMode E printerName inkMode M =
     effective_path E (m_printerFamilyOutputProfiles M) (m_familyDefaultOutputProfiles M) [] printerName inkMode"

definition familyDefaultLinearizationPath :: "('v, 'd) color_env \<Rightarrow> string \<Rightarrow> ('v, 'd) color_manager \<Rightarrow> string" where
  "familyDefaultLinearizationPath E familyKey M = family_path E (m_familyDefaultLinearizationPaths M) familyKey"

definition setFamilyDefaultLinearizationPath ::
  "('v, 'd) color_env \<Rightarrow> string \<Rightarrow> string \<Rightarrow> ('v, 'd) color_manager \<Rightarrow> ('v, 'd) color_manager" where
  "setFamilyDefaultLinearizationPath E familyKey xmlPath M =
     (case set_family_path E familyKey xmlPath (m_familyDefaultLinearizationPaths M) of
        None \<Rightarrow> M
      | Some m \<Rightarrow> saved E (emits [LinearizationChanged] (M\<lparr>m_familyDefaultLinearizationPaths := m\<rparr>)))"

definition printerFamilyLinearizationPath :: "('v, 'd) color_env \<Rightarrow> string \<Rightarrow> string \<Rightarrow> ('v, 'd) color_manager \<Rightarrow> string" where
  "printerFamilyLinearizationPath E printerName familyKey M =
     printer_family_path E (m_printerFamilyLinearizationPaths M) printerName familyKey"

definition setPrinterFamilyLinearizationPath ::
  "('v, 'd) color_env \<Rightarrow> string \<Rightarrow> string \<Rightarrow> string \<Rightarrow> ('v, 'd) color_manager \<Rightarrow> ('v, 'd) color_manager" where
  "setPrinterFamilyLinearizationPath E printerName familyKey xmlPath M =
     (case set_printer_family_path E printerName familyKey xmlPath (m_printerFamilyLinearizationPaths M) of
        None \<Rightarrow> M
      | Some m \<Rightarrow> saved E (emits [LinearizationChanged] (M\<lparr>m_printerFamilyLinearizationPaths := m\<rparr>)))"

definition effectiveLinearizationPathForPrinterAndInkMode ::
  "('v, 'd) color_env \<Rightarrow> string \<Rightarrow> int \<Rightarrow> ('v, 'd) color_manager \<Rightarrow> string" where
  "effectiveLinearizationPathForPrinterAndInkMode E printerName inkMode M =
     effective_path E (m_printerFamilyLinearizationPaths M) (m_familyDefaultLinearizationPaths M)
       (trimmed (cs_text E) (m_linearizationDataPath M)) printerName inkMode"

section \<open>Dot strategy and linearization\<close>

definition setMinInkThreshold :: "int \<Rightarrow> ('v, 'd) color_manager \<Rightarrow> ('v, 'd) color_manager" where
  "setMinInkThreshold v M = (let v = clamp v 0 255 in
     if m_minInkThreshold M = v then M else emits [DotStrategyChanged] (M\<lparr>m_minInkThreshold := v\<rparr>))"

definition setSmallDotThreshold :: "int \<Rightarrow> ('v, 'd) color_manager \<Rightarrow> ('v, 'd) color_manager" where
  "setSmallDotThreshold v M = (let v = clamp v 0 255 in
     if m_smallDotThreshold M = v then M else emits [DotStrategyChanged] (M\<lparr>m_smallDotThreshold := v\<rparr>))"

definition setMedDotThreshold :: "int \<Rightarrow> ('v, 'd) color_manager \<Rightarrow> ('v, 'd) color_manager" where
  "setMedDotThreshold v M = (let v = clamp v 0 255 in
     if m_medDotThreshold M = v then M else emits [DotStrategyChanged] (M\<lparr>m_medDotThreshold := v\<rparr>))"

definition setEnablePromotion :: "bool \<Rightarrow> ('v, 'd) color_manager \<Rightarrow> ('v, 'd) color_manager" where
  "setEnablePromotion v M =
     (if m_enablePromotion M = v then M else emits [DotStrategyChanged] (M\<lparr>m_enablePromotion := v\<rparr>))"

definition setFloorRangeCMY :: "int \<Rightarrow> ('v, 'd) color_manager \<Rightarrow> ('v, 'd) color_manager" where
  "setFloorRangeCMY v M = (let v = clamp v 0 64 in
     if m_floorRangeCMY M = v then M else emits [DotStrategyChanged] (M\<lparr>m_floorRangeCMY := v\<rparr>))"

definition setFloorMaxCMY :: "int \<Rightarrow> ('v, 'd) color_manager \<Rightarrow> ('v, 'd) color_manager" where
  "setFloorMaxCMY v M = (let v = clamp v 0 8 in
     if m_floorMaxCMY M = v then M else emits [DotStrategyChanged] (M\<lparr>m_floorMaxCMY := v\<rparr>))"

definition setFloorRangeK :: "int \<Rightarrow> ('v, 'd) color_manager \<Rightarrow> ('v, 'd) color_manager" where
  "setFloorRangeK v M = (let v = clamp v 0 64 in
     if m_floorRangeK M = v then M else emits [DotStrategyChanged] (M\<lparr>m_floorRangeK := v\<rparr>))"

definition setFloorMaxK :: "int \<Rightarrow> ('v, 'd) color_manager \<Rightarrow> ('v, 'd) color_manager" where
  "setFloorMaxK v M = (let v = clamp v 0 8 in
     if m_floorMaxK M = v then M else emits [DotStrategyChanged] (M\<lparr>m_floorMaxK := v\<rparr>))"

definition setEnableDotSwap :: "bool \<Rightarrow> ('v, 'd) color_manager \<Rightarrow> ('v, 'd) color_manager" where
  "setEnableDotSwap v M =
     (if m_enableDotSwap M = v then M else emits [DotStrategyChanged] (M\<lparr>m_enableDotSwap := v\<rparr>))"

definition setLinearizationEnabled :: "bool \<Rightarrow> ('v, 'd) color_manager \<Rightarrow> ('v, 'd) color_manager" where
  "setLinearizationEnabled v M =
     (if m_enableLinearization M = v then M else emits [LinearizationChanged] (M\<lparr>m_enableLinearization := v\<rparr>))"

definition setLinearizationPresetName :: "('v, 'd) color_env \<Rightarrow> string \<Rightarrow> ('v, 'd) color_manager \<Rightarrow> ('v, 'd) color_manager" where
  "setLinearizationPresetName E name M = (let v = trimmed (cs_text E) name in
     if m_linearizationPresetName M = v then M else emits [LinearizationChanged] (M\<lparr>m_linearizationPresetName := v\<rparr>))"

definition setLinearizationDataPath :: "('v, 'd) color_env \<Rightarrow> string \<Rightarrow> ('v, 'd) color_manager \<Rightarrow> ('v, 'd) color_manager" where
  "setLinearizationDataPath E path M = (let v = trimmed (cs_text E) path in
     if m_linearizationDataPath M = v then M else emits [LinearizationChanged] (M\<lparr>m_linearizationDataPath := v\<rparr>))"

section \<open>Ink parameters of a mode\<close>

definition mode_defaults :: "('v, 'd) color_env \<Rightarrow> int \<Rightarrow> 'v vmap" where
  "mode_defaults E inkMode = defaultMultiInkParamsForMode (cs_variant E) (cs_text E) inkMode"

definition getMultiInkParams :: "('v, 'd) color_env \<Rightarrow> int \<Rightarrow> ('v, 'd) color_manager \<Rightarrow> 'v vmap" where
  "getMultiInkParams E inkMode M =
     (if \<not> isSupportedInkMode inkMode then Map.empty
      else case m_multiInkParamsByMode M inkMode of Some m \<Rightarrow> m | None \<Rightarrow> mode_defaults E inkMode)"

definition mode_params :: "('v, 'd) color_env \<Rightarrow> int \<Rightarrow> 'v vmap \<Rightarrow> 'v vmap" where
  \<comment> \<open>the defaults overridden by \<open>params\<close>, clamped\<close>
  "mode_params E inkMode params = clampMapU8 (cs_variant E) (cs_text E) (mode_defaults E inkMode ++ params)"

definition setMultiInkParams :: "('v, 'd) color_env \<Rightarrow> int \<Rightarrow> 'v vmap \<Rightarrow> ('v, 'd) color_manager \<Rightarrow> ('v, 'd) color_manager" where
  "setMultiInkParams E inkMode params M =
     (if \<not> isSupportedInkMode inkMode then M
      else saved E (emits [MultiInkParamsChanged]
        (M\<lparr>m_multiInkParamsByMode := (m_multiInkParamsByMode M)(inkMode \<mapsto> mode_params E inkMode params)\<rparr>)))"

definition getMultiInkParam :: "('v, 'd) color_env \<Rightarrow> int \<Rightarrow> string \<Rightarrow> ('v, 'd) color_manager \<Rightarrow> 'v" where
  "getMultiInkParam E inkMode k M = valueAt (cs_variant E) (getMultiInkParams E inkMode M) k"

definition setMultiInkParam ::
  "('v, 'd) color_env \<Rightarrow> int \<Rightarrow> string \<Rightarrow> 'v \<Rightarrow> ('v, 'd) color_manager \<Rightarrow> ('v, 'd) color_manager" where
  "setMultiInkParam E inkMode k v M =
     (if \<not> isSupportedInkMode inkMode then M
      else setMultiInkParams E inkMode ((getMultiInkParams E inkMode M)(k \<mapsto> v)) M)"

definition selected_params :: "'v qvariant \<Rightarrow> string list \<Rightarrow> 'v vmap \<Rightarrow> 'v vmap" where
  "selected_params Q ks src = foldl (\<lambda>out k. out(k \<mapsto> valueAt Q src k)) Map.empty ks"

definition getWhiteParams :: "('v, 'd) color_env \<Rightarrow> int \<Rightarrow> ('v, 'd) color_manager \<Rightarrow> 'v vmap" where
  "getWhiteParams E inkMode M =
     selected_params (cs_variant E)
       [''whiteMode'', ''whiteThreshold'', ''whiteDensity'', ''whiteUseOwnDotStrategy'', ''whiteSmallDotThreshold'',
        ''whiteMedDotThreshold'', ''whiteEnablePromotion'', ''whiteMaskKey'']
       (getMultiInkParams E inkMode M)"

definition getVarnishParams :: "('v, 'd) color_env \<Rightarrow> int \<Rightarrow> ('v, 'd) color_manager \<Rightarrow> 'v vmap" where
  "getVarnishParams E inkMode M =
     selected_params (cs_variant E)
       [''varnishMode'', ''varnishThreshold'', ''varnishDensity'', ''varnishUseOwnDotStrategy'', ''varnishSmallDotThreshold'',
        ''varnishMedDotThreshold'', ''varnishEnablePromotion'', ''varnishMaskKey'']
       (getMultiInkParams E inkMode M)"

section \<open>Loading and defaults\<close>

definition load_texts :: "'v qvariant \<Rightarrow> json_object \<Rightarrow> 'v vmap" where
  "load_texts Q ob = map_option (\<lambda>j. ofStr Q (json_str [] (Some j))) \<circ> ob"

definition load_printer_texts :: "('v, 'd) color_env \<Rightarrow> json_object \<Rightarrow> 'v vmap" where
  \<comment> \<open>keys that denote the same printer: the last one wins\<close>
  "load_printer_texts E ob =
     foldl (\<lambda>m k. m(normalizedPrinterName (cs_text E) k \<mapsto> ofStr (cs_variant E) (json_str [] (ob k)))) Map.empty
       (keys_in_order ob)"

definition load_printer_maps :: "('v, 'd) color_env \<Rightarrow> json_object \<Rightarrow> 'v vmap" where
  "load_printer_maps E ob =
     foldl (\<lambda>m k. m(normalizedPrinterName (cs_text E) k \<mapsto>
         ofMap (cs_variant E) (jsonObjectToVariantMap (cs_json E) (json_obj (ob k))))) Map.empty
       (keys_in_order ob)"

definition load_mode :: "('v, 'd) color_env \<Rightarrow> json_object \<Rightarrow> (int \<rightharpoonup> 'v vmap) \<Rightarrow> string \<Rightarrow> (int \<rightharpoonup> 'v vmap)" where
  "load_mode E ob m k =
     (case cs_parseInt E k of
        None \<Rightarrow> m
      | Some inkMode \<Rightarrow>
          if \<not> isSupportedInkMode inkMode then m
          else m(inkMode \<mapsto> mode_params E inkMode (jsonObjectToVariantMap (cs_json E) (json_obj (ob k)))))"

definition load_modes :: "('v, 'd) color_env \<Rightarrow> json_object \<Rightarrow> (int \<rightharpoonup> 'v vmap)" where
  "load_modes E ob = foldl (load_mode E ob) Map.empty (keys_in_order ob)"

definition load_strategy :: "json_object \<Rightarrow> ('v, 'd) color_manager \<Rightarrow> ('v, 'd) color_manager" where
  "load_strategy ob M =
     (let M = setMinInkThreshold (json_int (m_minInkThreshold M) (ob ''minInkThreshold'')) M;
          M = setSmallDotThreshold (json_int (m_smallDotThreshold M) (ob ''smallDotThreshold'')) M;
          M = setMedDotThreshold (json_int (m_medDotThreshold M) (ob ''medDotThreshold'')) M;
          M = setEnablePromotion (json_bool (m_enablePromotion M) (ob ''enablePromotion'')) M;
          M = setFloorRangeCMY (json_int (m_floorRangeCMY M) (ob ''floorRangeCMY'')) M;
          M = setFloorMaxCMY (json_int (m_floorMaxCMY M) (ob ''floorMaxCMY'')) M;
          M = setFloorRangeK (json_int (m_floorRangeK M) (ob ''floorRangeK'')) M;
          M = setFloorMaxK (json_int (m_floorMaxK M) (ob ''floorMaxK'')) M
      in setEnableDotSwap (json_bool (m_enableDotSwap M) (ob ''enableDotSwap'')) M)"

definition load_linearization :: "('v, 'd) color_env \<Rightarrow> json_object \<Rightarrow> ('v, 'd) color_manager \<Rightarrow> ('v, 'd) color_manager" where
  "load_linearization E ob M =
     (let M = setLinearizationEnabled (json_bool (m_enableLinearization M) (ob ''enableLinearization'')) M;
          M = setLinearizationPresetName E (json_str (m_linearizationPresetName M) (ob ''linearizationPresetName'')) M
      in setLinearizationDataPath E (json_str (m_linearizationDataPath M) (ob ''linearizationDataPath'')) M)"

definition load_direct :: "('v, 'd) color_env \<Rightarrow> json_object \<Rightarrow> ('v, 'd) color_manager \<Rightarrow> ('v, 'd) color_manager" where
  "load_direct E ob M =
     (let T = cs_text E in
      M\<lparr>m_multiInkOutputMode := outputModeOf T (json_str (m_multiInkOutputMode M) (ob ''multiInkOutputMode'')),
        m_directPrintSdkRootPath := trimmed T (json_str (m_directPrintSdkRootPath M) (ob ''directPrintSdkRootPath'')),
        m_multiInkDirectPrintSdkRootPath :=
          trimmed T (json_str (m_multiInkDirectPrintSdkRootPath M) (ob ''multiInkDirectPrintSdkRootPath'')),
        m_directPrintSettings :=
          normalizedDirectPrintSettings (cs_variant E) T
            (jsonObjectToVariantMap (cs_json E) (json_obj (ob ''directPrintSettings'')))\<rparr>)"

definition load_maps :: "('v, 'd) color_env \<Rightarrow> json_object \<Rightarrow> ('v, 'd) color_manager \<Rightarrow> ('v, 'd) color_manager" where
  "load_maps E ob M =
     (let Q = cs_variant E in
      M\<lparr>m_printerOutputProfiles := load_printer_texts E (json_obj (ob ''printerOutputProfiles'')),
        m_multiInkParamsByMode := load_modes E (json_obj (ob ''multiInkParamsByMode'')),
        m_familyDefaultLinearizationPaths := load_texts Q (json_obj (ob ''familyDefaultLinearizationPaths'')),
        m_printerFamilyLinearizationPaths := load_printer_maps E (json_obj (ob ''printerFamilyLinearizationPaths'')),
        m_familyDefaultOutputProfiles := load_texts Q (json_obj (ob ''familyDefaultOutputProfiles'')),
        m_printerFamilyOutputProfiles := load_printer_maps E (json_obj (ob ''printerFamilyOutputProfiles''))\<rparr>)"

definition all_changed :: "setting_signal list" where
  "all_changed = [ProfilesChanged, LinearizationChanged, DotStrategyChanged, MultiInkParamsChanged, DirectPrintSettingsChanged]"

definition load_object :: "('v, 'd) color_env \<Rightarrow> json_object \<Rightarrow> ('v, 'd) color_manager \<Rightarrow> ('v, 'd) color_manager" where
  "load_object E ob M =
     (let M = M\<lparr>m_selectedPrinter := normalizedPrinterName (cs_text E) (json_str (m_selectedPrinter M) (ob ''selectedPrinter'')),
                m_defaultInputProfile := json_str (m_defaultInputProfile M) (ob ''defaultInputProfile''),
                m_defaultOutputProfile := json_str (m_defaultOutputProfile M) (ob ''defaultOutputProfile'')\<rparr>
      in emits all_changed (load_maps E ob (load_direct E ob (load_linearization E ob (load_strategy ob M)))))"

definition load_settings :: "('v, 'd) color_env \<Rightarrow> ('v, 'd) color_manager \<Rightarrow> bool \<times> ('v, 'd) color_manager" where
  \<comment> \<open>\<open>ColorManagementManager::load\<close>\<close>
  "load_settings E M =
     (let D = cs_disk E; path = settingsPath E; d = ensureDirectory E (settingsDisk M); M = M\<lparr>settingsDisk := d\<rparr> in
      if \<not> fileExists D path d then (False, M)
      else case readAt D path 0 (fileSize D path d) d of
        None \<Rightarrow> (False, M)
      | Some b \<Rightarrow>
          (case parseJson (cs_json E) b of
             Some (JObj l) \<Rightarrow> (True, load_object E (map_of l) M)
           | _ \<Rightarrow> (False, M)))"

definition resetToDefaults :: "('v, 'd) color_env \<Rightarrow> ('v, 'd) color_manager \<Rightarrow> ('v, 'd) color_manager" where
  "resetToDefaults E M =
     emits all_changed
      (M\<lparr>m_selectedPrinter := ''X-33'', m_defaultInputProfile := [], m_defaultOutputProfile := [],
         m_printerOutputProfiles := Map.empty, m_familyDefaultOutputProfiles := Map.empty,
         m_printerFamilyOutputProfiles := Map.empty, m_familyDefaultLinearizationPaths := Map.empty,
         m_printerFamilyLinearizationPaths := Map.empty, m_minInkThreshold := 8, m_smallDotThreshold := 64,
         m_medDotThreshold := 128, m_enablePromotion := False, m_floorRangeCMY := 24, m_floorMaxCMY := 2,
         m_floorRangeK := 12, m_floorMaxK := 0, m_enableDotSwap := False, m_multiInkOutputMode := ''prn'',
         m_directPrintSdkRootPath := [], m_multiInkDirectPrintSdkRootPath := [],
         m_directPrintSettings := defaultDirectPrintSettings (cs_variant E), m_enableLinearization := True,
         m_linearizationPresetName := ''Default'', m_linearizationDataPath := [],
         m_multiInkParamsByMode :=
           foldl (\<lambda>m inkMode. m(inkMode \<mapsto> mode_defaults E inkMode)) Map.empty [4, 5, 6, 7, 8, 10]\<rparr>)"

definition open_manager :: "('v, 'd) color_env \<Rightarrow> 'd \<Rightarrow> ('v, 'd) color_manager" where
  \<comment> \<open>the constructor\<close>
  "open_manager E d =
     (case load_settings E (new_manager d) of (ok, M) \<Rightarrow> if ok then M else resetToDefaults E M)"

end
