(* ===== verification/Color_Laws.thy ===== *)
theory Color_Laws
  imports Color_Manager
begin

text \<open>
  Laws of \<open>ColorManagementManager\<close>: what the normalizations leave, the invariant of its
  settings and what a settings file brings back. \<open>color_laws\<close> states the documented
  behaviour of Qt the manager relies on.
\<close>

section \<open>Direct print settings\<close>

definition direct_int_keys :: "string list" where
  "direct_int_keys = ''eclosionGrade'' # map fst direct_ranges"

definition direct_ok :: "'v qvariant \<Rightarrow> qtext \<Rightarrow> 'v vmap \<Rightarrow> bool" where
  "direct_ok Q T m \<longleftrightarrow>
     (\<forall>(k, lo, hi) \<in> set ((''eclosionGrade'', 1, 3) # direct_ranges). \<exists>x. m k = Some (ofInt Q x) \<and> lo \<le> x \<and> x \<le> hi) \<and>
     (\<exists>s. m ''selectedPrinterName'' = Some (ofStr Q s) \<and> trimmed T s = s)"

lemma distinct_direct: "distinct (''eclosionGrade'' # ''selectedPrinterName'' # map fst direct_ranges)"
  by (simp add: direct_ranges_def)

lemma direct_ranges_fit: "(k, lo, hi) \<in> set direct_ranges \<Longrightarrow> fits_int lo \<and> fits_int hi \<and> lo \<le> hi"
  by (auto simp: direct_ranges_def fits_int_def int_min_def int_max_def)

lemma foldl_clamp_other: "k \<notin> fst ` set rs \<Longrightarrow> foldl (clamp_entry Q) out rs k = out k"
  by (induction rs arbitrary: out) (auto simp: clamp_entry_def)

lemma foldl_clamp_at:
  assumes "distinct (map fst rs)" and "(k, lo, hi) \<in> set rs"
  shows "foldl (clamp_entry Q) out rs k = Some (ofInt Q (max lo (min hi (toInt Q (valueAt Q out k)))))"
  using assms
proof (induction rs arbitrary: out)
  case (Cons r rs)
  show ?case
  proof (cases "(k, lo, hi) = r")
    case True
    then have "k \<notin> fst ` set rs" using Cons.prems(1) True by (metis distinct.simps(2) fst_conv list.simps(9) list.set_map)
    then have "foldl (clamp_entry Q) out (r # rs) k = clamp_entry Q out r k" by (simp add: foldl_clamp_other)
    moreover have "clamp_entry Q out r k = Some (ofInt Q (max lo (min hi (toInt Q (valueAt Q out k)))))"
      unfolding True [symmetric] by (simp add: clamp_entry_def)
    ultimately show ?thesis by simp
  next
    case False
    then have m: "(k, lo, hi) \<in> set rs" using Cons.prems(2) by simp
    then have "k \<in> set (map fst rs)" by (metis fst_conv image_eqI list.set_map)
    then have "fst r \<noteq> k" using Cons.prems(1) by auto
    then have "valueAt Q (clamp_entry Q out r) k = valueAt Q out k"
      by (cases r) (simp add: clamp_entry_def valueAt_def mapValue_def)
    then show ?thesis using Cons.IH [OF _ m, of "clamp_entry Q out r"] Cons.prems(1) by simp
  qed
qed simp

lemma default_direct_keys:
  "k \<in> set (''selectedPrinterName'' # direct_int_keys) \<Longrightarrow> defaultDirectPrintSettings Q k \<noteq> None"
  by (auto simp: defaultDirectPrintSettings_def direct_int_keys_def direct_ranges_def Let_def)

lemma given_setting: "k \<in> set (''selectedPrinterName'' # direct_int_keys) \<Longrightarrow> \<exists>v. (defaultDirectPrintSettings Q ++ m) k = Some v"
  using default_direct_keys [of k Q] by (auto simp: map_add_def split: option.splits)

lemma normalized_at:
  assumes "(k, lo, hi) \<in> set direct_ranges" and "(defaultDirectPrintSettings Q ++ m) k = Some v"
  shows "normalizedDirectPrintSettings Q T m k = Some (ofInt Q (max lo (min hi (toInt Q v))))"
proof -
  have "k \<noteq> ''eclosionGrade''" "k \<noteq> ''selectedPrinterName''" using assms(1) distinct_direct by force+
  moreover have "distinct (map fst direct_ranges)" using distinct_direct by simp
  ultimately show ?thesis
    using assms by (simp add: normalizedDirectPrintSettings_def Let_def foldl_clamp_at valueAt_def mapValue_def)
qed

lemma normalized_special:
  "(defaultDirectPrintSettings Q ++ m) ''eclosionGrade'' = Some v \<Longrightarrow>
     normalizedDirectPrintSettings Q T m ''eclosionGrade'' = Some (ofInt Q (if toInt Q v \<le> 0 then 2 else clamp (toInt Q v) 1 3))"
  "(defaultDirectPrintSettings Q ++ m) ''selectedPrinterName'' = Some v \<Longrightarrow>
     normalizedDirectPrintSettings Q T m ''selectedPrinterName'' = Some (ofStr Q (trimmed T (toStr Q v)))"
  using distinct_direct
  by (auto simp: normalizedDirectPrintSettings_def Let_def foldl_clamp_other vmInt_def valueAt_def mapValue_def)

lemma normalized_ok:
  assumes "\<And>s. trimmed T (trimmed T s) = trimmed T s"
  shows "direct_ok Q T (normalizedDirectPrintSettings Q T m)"
proof -
  have "\<exists>x. normalizedDirectPrintSettings Q T m k = Some (ofInt Q x) \<and> lo \<le> x \<and> x \<le> hi"
    if r: "(k, lo, hi) \<in> set direct_ranges" for k lo hi
  proof -
    have "k \<in> set direct_int_keys" using r by (force simp: direct_int_keys_def)
    then obtain v where "(defaultDirectPrintSettings Q ++ m) k = Some v" 
      using given_setting [of k Q m] by (meson list.set_intros(2))
    from normalized_at [OF r this, of T] show ?thesis using direct_ranges_fit [OF r] by auto
  qed
  moreover have "\<exists>x. normalizedDirectPrintSettings Q T m ''eclosionGrade'' = Some (ofInt Q x) \<and> 1 \<le> x \<and> x \<le> 3"
    using given_setting [of "''eclosionGrade''" Q m]
    by (auto simp: direct_int_keys_def clamp_def dest!: normalized_special(1) [where T = T])
  moreover have "\<exists>s. normalizedDirectPrintSettings Q T m ''selectedPrinterName'' = Some (ofStr Q s) \<and> trimmed T s = s"
    using given_setting [of "''selectedPrinterName''" Q m] assms
    by (auto dest!: normalized_special(2) [where T = T])
  ultimately show ?thesis by (auto simp: direct_ok_def)
qed

lemma default_direct_ok: "trimmed T [] = [] \<Longrightarrow> direct_ok Q T (defaultDirectPrintSettings Q)"
  by (auto simp: direct_ok_def defaultDirectPrintSettings_def direct_ranges_def Let_def)

text \<open>Settings that are in order already come back from any map that agrees with them on the known keys.\<close>

lemma normalized_of_agreeing:
  assumes Q: "qvariant_laws Q" and ok: "direct_ok Q T m"
    and ints: "\<And>k. k \<in> set direct_int_keys \<Longrightarrow> \<exists>v. m' k = Some v \<and> toInt Q v = toInt Q (the (m k))"
    and name: "\<exists>v. m' ''selectedPrinterName'' = Some v \<and> toStr Q v = toStr Q (the (m ''selectedPrinterName''))"
    and k: "k \<in> set (''selectedPrinterName'' # direct_int_keys)"
  shows "normalizedDirectPrintSettings Q T m' k = m k"
proof -
  consider (name) "k = ''selectedPrinterName''" | (grade) "k = ''eclosionGrade''"
    | (range) lo hi where "(k, lo, hi) \<in> set direct_ranges"
    using k by (auto simp: direct_int_keys_def)
  then show ?thesis
  proof cases
    case name': name
    obtain s where "m ''selectedPrinterName'' = Some (ofStr Q s)" "trimmed T s = s" using ok by (auto simp: direct_ok_def)
    moreover obtain v where "m' ''selectedPrinterName'' = Some v" "toStr Q v = toStr Q (the (m ''selectedPrinterName''))"
      using name by auto
    ultimately show ?thesis
      using normalized_special(2) [of Q m' v T] qvariant_laws.toStr_ofStr [OF Q] by (simp add: name')
  next
    case grade
    obtain x where "m ''eclosionGrade'' = Some (ofInt Q x)" "1 \<le> x" "x \<le> 3" using ok by (auto simp: direct_ok_def)
    moreover obtain v where "m' ''eclosionGrade'' = Some v" "toInt Q v = toInt Q (the (m ''eclosionGrade''))"
      using ints [of "''eclosionGrade''"] by (auto simp: direct_int_keys_def)
    moreover have "fits_int x" using calculation by (simp add: fits_int_def int_min_def int_max_def)
    ultimately show ?thesis
      using normalized_special(1) [of Q m' v T] qvariant_laws.toInt_ofInt [OF Q] by (simp add: grade clamp_def)
  next
    case (range lo hi)
    then obtain x where x: "m k = Some (ofInt Q x)" "lo \<le> x" "x \<le> hi" using ok by (auto simp: direct_ok_def)
    have "k \<in> set direct_int_keys" using range by (force simp: direct_int_keys_def)
    then obtain v where "m' k = Some v" "toInt Q v = toInt Q (the (m k))" using ints by blast
    moreover have "fits_int x" using x direct_ranges_fit [OF range] by (auto simp: fits_int_def)
    ultimately show ?thesis
      using normalized_at [OF range, of Q m' v T] x qvariant_laws.toInt_ofInt [OF Q] by simp
  qed
qed

section \<open>Ink parameters\<close>

definition ink_keys :: "string list" where
  "ink_keys = u8_keys @ pct_keys @ mode_keys @ bool_keys @ [''whiteMaskKey'', ''varnishMaskKey'']"

definition norm_param :: "'v qvariant \<Rightarrow> qtext \<Rightarrow> string \<Rightarrow> 'v \<Rightarrow> 'v" where
  \<comment> \<open>what \<open>clampMapU8\<close> makes of the entry of a key\<close>
  "norm_param Q T k v =
     (let range = (\<lambda>hi. ofInt Q (max 0 (min hi (toInt Q v)))) in
      if k \<in> set bool_keys then ofBool Q (toBool Q (if k \<in> set u8_keys then range 255 else v))
      else if k \<in> set u8_keys then range 255
      else if k \<in> set pct_keys then range 100
      else if k \<in> set mode_keys then range 3
      else if k = ''whiteMaskKey'' \<or> k = ''varnishMaskKey'' then ofStr Q (trimmed T (toStr Q v))
      else v)"

lemma foldl_present:
  assumes "distinct ks"
  shows "foldl (clamp_present Q lo hi) m ks k =
    (if k \<in> set ks then map_option (\<lambda>v. ofInt Q (max lo (min hi (toInt Q v)))) (m k) else m k)"
    and "foldl (bool_present Q) m ks k =
    (if k \<in> set ks then map_option (\<lambda>v. ofBool Q (toBool Q v)) (m k) else m k)"
  using assms
  by (induction ks arbitrary: m) (auto simp: clamp_present_def bool_present_def split: option.splits)

lemma distinct_keys: "distinct u8_keys" "distinct pct_keys" "distinct mode_keys" "distinct bool_keys"
  by (simp_all add: u8_keys_def pct_keys_def mode_keys_def bool_keys_def)

lemma separate_keys:
  "set u8_keys \<inter> set pct_keys = {}" "set u8_keys \<inter> set mode_keys = {}" "set pct_keys \<inter> set mode_keys = {}"
  "set pct_keys \<inter> set bool_keys = {}" "set mode_keys \<inter> set bool_keys = {}"
  "{''whiteMaskKey'', ''varnishMaskKey''} \<inter> set (u8_keys @ pct_keys @ mode_keys @ bool_keys) = {}"
  by (simp_all add: u8_keys_def pct_keys_def mode_keys_def bool_keys_def)

lemma clampMapU8_at: "m k = Some v \<Longrightarrow> clampMapU8 Q T m k = Some (norm_param Q T k v)"
  using separate_keys
  by (auto simp: clampMapU8_def Let_def text_present_def foldl_present distinct_keys norm_param_def disjoint_iff)

lemma clampMapU8_none:
  "m k = None \<Longrightarrow> clampMapU8 Q T m k =
     (if k = ''whiteMaskKey'' then Some (ofStr Q ''w'') else if k = ''varnishMaskKey'' then Some (ofStr Q ''v'') else None)"
  using separate_keys
  by (auto simp: clampMapU8_def Let_def text_present_def foldl_present distinct_keys disjoint_iff)

definition param_ok :: "'v qvariant \<Rightarrow> qtext \<Rightarrow> string \<Rightarrow> 'v \<Rightarrow> bool" where
  "param_ok Q T k v \<longleftrightarrow>
     (if k \<in> set bool_keys then \<exists>b. v = ofBool Q b
      else if k \<in> set u8_keys then \<exists>x. v = ofInt Q x \<and> 0 \<le> x \<and> x \<le> 255
      else if k \<in> set pct_keys then \<exists>x. v = ofInt Q x \<and> 0 \<le> x \<and> x \<le> 100
      else if k \<in> set mode_keys then \<exists>x. v = ofInt Q x \<and> 0 \<le> x \<and> x \<le> 3
      else k = ''whiteMaskKey'' \<or> k = ''varnishMaskKey'' \<longrightarrow> (\<exists>s. v = ofStr Q s \<and> trimmed T s = s))"

definition ink_ok :: "'v qvariant \<Rightarrow> qtext \<Rightarrow> 'v vmap \<Rightarrow> bool" where
  "ink_ok Q T m \<longleftrightarrow> (\<forall>k v. m k = Some v \<longrightarrow> param_ok Q T k v)"

lemma norm_param_ok: "(\<And>s. trimmed T (trimmed T s) = trimmed T s) \<Longrightarrow> param_ok Q T k (norm_param Q T k v)"
  by (auto simp: param_ok_def norm_param_def Let_def)

lemma mask_keys_apart: "k \<in> {''whiteMaskKey'', ''varnishMaskKey''} \<Longrightarrow>
    k \<notin> set bool_keys \<and> k \<notin> set u8_keys \<and> k \<notin> set pct_keys \<and> k \<notin> set mode_keys"
  using separate_keys(6) by auto

lemma clampMapU8_ok:
  assumes T: "\<And>s. trimmed T (trimmed T s) = trimmed T s" and w: "trimmed T ''w'' = ''w''" "trimmed T ''v'' = ''v''"
  shows "ink_ok Q T (clampMapU8 Q T m)"
proof -
  have "param_ok Q T k v" if "clampMapU8 Q T m k = Some v" for k v
  proof (cases "m k")
    case None
    then show ?thesis using that w mask_keys_apart [of k]
      by (auto simp: clampMapU8_none param_ok_def split: if_splits)
  next
    case (Some u)
    then show ?thesis using that norm_param_ok [OF T] by (auto simp: clampMapU8_at)
  qed
  then show ?thesis by (simp add: ink_ok_def)
qed

lemma dom_clampMapU8: "dom (clampMapU8 Q T m) = dom m \<union> {''whiteMaskKey'', ''varnishMaskKey''}"
proof -
  have "clampMapU8 Q T m k \<noteq> None \<longleftrightarrow> m k \<noteq> None \<or> k = ''whiteMaskKey'' \<or> k = ''varnishMaskKey''" for k
    by (cases "m k") (auto simp: clampMapU8_at clampMapU8_none)
  then show ?thesis by (auto simp: domIff)
qed

lemma finite_clampMapU8: "finite (dom m) \<Longrightarrow> finite (dom (clampMapU8 Q T m))"
  by (simp add: dom_clampMapU8)

lemma finite_mode_defaults: "finite (dom (mode_defaults E inkMode))"
  by (simp add: mode_defaults_def defaultMultiInkParamsForMode_def Let_def finite_clampMapU8 shared_defaults_def
      addGcrDefaults_def light_split_def black_split_def)

lemma finite_normalized: "finite (dom m) \<Longrightarrow> finite (dom (normalizedDirectPrintSettings Q T m))"
proof -
  have f: "finite (dom out) \<Longrightarrow> finite (dom (foldl (clamp_entry Q) out rs))" for out :: "'a vmap" and rs
    by (induction rs arbitrary: out) (auto simp: clamp_entry_def)
  assume "finite (dom m)"
  moreover have "finite (dom (defaultDirectPrintSettings Q))" by (simp add: defaultDirectPrintSettings_def Let_def)
  ultimately show ?thesis by (simp add: normalizedDirectPrintSettings_def Let_def f)
qed

section \<open>Objects and maps\<close>

lemma map_of_object: "finite (dom ob) \<Longrightarrow> json_obj (Some (object_value ob)) = ob"
proof
  fix k assume "finite (dom ob)"
  then show "json_obj (Some (object_value ob)) k = ob k"
    by (cases "ob k") (auto simp: object_value_def keys_in_order_def map_of_map_restrict restrict_map_def domIff)
qed

lemma foldl_insert:
  assumes "\<And>k. k \<in> set ks \<Longrightarrow> f k = k"
  shows "foldl (\<lambda>m k. m(f k \<mapsto> g k)) m0 ks = (\<lambda>k. if k \<in> set ks then Some (g k) else m0 k)"
  using assms
proof (induction ks arbitrary: m0)
  case (Cons a ks)
  then have "foldl (\<lambda>m k. m(f k \<mapsto> g k)) (m0(a \<mapsto> g a)) ks = (\<lambda>k. if k \<in> set ks then Some (g k) else (m0(a \<mapsto> g a)) k)"
    by (intro Cons.IH) (rule Cons.prems, simp)
  then show ?case using Cons.prems [of a] by (simp only: foldl_Cons) (auto simp: fun_eq_iff)
qed simp

lemma finite_foldl_insert: "finite (dom m) \<Longrightarrow> finite (dom (foldl (\<lambda>m k. m(f k \<mapsto> g k)) m ks))"
  by (induction ks arbitrary: m) auto

lemma foldl_insert_range:
  assumes "\<And>k v. m k = Some v \<Longrightarrow> P k v" and "\<And>k. P (f k) (g k)"
    and "foldl (\<lambda>m k. m(f k \<mapsto> g k)) m ks k = Some v"
  shows "P k v"
  using assms(1, 3)
proof (induction ks arbitrary: m)
  case (Cons a ks)
  have "P k v" if "(m(f a \<mapsto> g a)) k = Some v" for k v
    using that Cons.prems(1) assms(2) by (cases "k = f a") auto
  then show ?case using Cons.prems(2) unfolding foldl_Cons by (rule Cons.IH)
qed auto

section \<open>The settings of every reachable state\<close>

lemma emits_select [simp]:
  "m_multiInkParamsByMode (emits ss M) = m_multiInkParamsByMode M"
  "m_selectedPrinter (emits ss M) = m_selectedPrinter M"
  "m_enableLinearization (emits ss M) = m_enableLinearization M"
  "m_linearizationPresetName (emits ss M) = m_linearizationPresetName M"
  "m_linearizationDataPath (emits ss M) = m_linearizationDataPath M"
  "m_familyDefaultLinearizationPaths (emits ss M) = m_familyDefaultLinearizationPaths M"
  "m_printerFamilyLinearizationPaths (emits ss M) = m_printerFamilyLinearizationPaths M"
  "m_printerOutputProfiles (emits ss M) = m_printerOutputProfiles M"
  "m_defaultInputProfile (emits ss M) = m_defaultInputProfile M"
  "m_defaultOutputProfile (emits ss M) = m_defaultOutputProfile M"
  "m_familyDefaultOutputProfiles (emits ss M) = m_familyDefaultOutputProfiles M"
  "m_printerFamilyOutputProfiles (emits ss M) = m_printerFamilyOutputProfiles M"
  "m_minInkThreshold (emits ss M) = m_minInkThreshold M" "m_smallDotThreshold (emits ss M) = m_smallDotThreshold M"
  "m_medDotThreshold (emits ss M) = m_medDotThreshold M" "m_enablePromotion (emits ss M) = m_enablePromotion M"
  "m_floorRangeCMY (emits ss M) = m_floorRangeCMY M" "m_floorMaxCMY (emits ss M) = m_floorMaxCMY M"
  "m_floorRangeK (emits ss M) = m_floorRangeK M" "m_floorMaxK (emits ss M) = m_floorMaxK M"
  "m_enableDotSwap (emits ss M) = m_enableDotSwap M" "m_multiInkOutputMode (emits ss M) = m_multiInkOutputMode M"
  "m_directPrintSdkRootPath (emits ss M) = m_directPrintSdkRootPath M"
  "m_multiInkDirectPrintSdkRootPath (emits ss M) = m_multiInkDirectPrintSdkRootPath M"
  "m_directPrintSettings (emits ss M) = m_directPrintSettings M"
  "settingsDisk (emits ss M) = settingsDisk M"
  by (simp_all add: emits_def)

lemma saved_disk: "saved E M = M\<lparr>settingsDisk := settingsDisk (saved E M)\<rparr>"
  by (simp add: saved_def save_settings_def Let_def split: option.splits)

lemma saved_select [simp]:
  "m_multiInkParamsByMode (saved E M) = m_multiInkParamsByMode M"
  "m_selectedPrinter (saved E M) = m_selectedPrinter M" "m_enableLinearization (saved E M) = m_enableLinearization M"
  "m_linearizationPresetName (saved E M) = m_linearizationPresetName M"
  "m_linearizationDataPath (saved E M) = m_linearizationDataPath M"
  "m_familyDefaultLinearizationPaths (saved E M) = m_familyDefaultLinearizationPaths M"
  "m_printerFamilyLinearizationPaths (saved E M) = m_printerFamilyLinearizationPaths M"
  "m_printerOutputProfiles (saved E M) = m_printerOutputProfiles M"
  "m_defaultInputProfile (saved E M) = m_defaultInputProfile M"
  "m_defaultOutputProfile (saved E M) = m_defaultOutputProfile M"
  "m_familyDefaultOutputProfiles (saved E M) = m_familyDefaultOutputProfiles M"
  "m_printerFamilyOutputProfiles (saved E M) = m_printerFamilyOutputProfiles M"
  "m_minInkThreshold (saved E M) = m_minInkThreshold M" "m_smallDotThreshold (saved E M) = m_smallDotThreshold M"
  "m_medDotThreshold (saved E M) = m_medDotThreshold M" "m_enablePromotion (saved E M) = m_enablePromotion M"
  "m_floorRangeCMY (saved E M) = m_floorRangeCMY M" "m_floorMaxCMY (saved E M) = m_floorMaxCMY M"
  "m_floorRangeK (saved E M) = m_floorRangeK M" "m_floorMaxK (saved E M) = m_floorMaxK M"
  "m_enableDotSwap (saved E M) = m_enableDotSwap M" "m_multiInkOutputMode (saved E M) = m_multiInkOutputMode M"
  "m_directPrintSdkRootPath (saved E M) = m_directPrintSdkRootPath M"
  "m_multiInkDirectPrintSdkRootPath (saved E M) = m_multiInkDirectPrintSdkRootPath M"
  "m_directPrintSettings (saved E M) = m_directPrintSettings M"
  by (subst saved_disk, simp)+

lemma emits_nothing [simp]: "emits [] M = M"
  by (simp add: emits_def)

definition levels_ok :: "('v, 'd) color_manager \<Rightarrow> bool" where
  "levels_ok M \<longleftrightarrow>
     m_minInkThreshold M \<in> {0..255} \<and> m_smallDotThreshold M \<in> {0..255} \<and> m_medDotThreshold M \<in> {0..255} \<and>
     m_floorRangeCMY M \<in> {0..64} \<and> m_floorMaxCMY M \<in> {0..8} \<and> m_floorRangeK M \<in> {0..64} \<and> m_floorMaxK M \<in> {0..8}"

definition texts_ok :: "('v, 'd) color_env \<Rightarrow> ('v, 'd) color_manager \<Rightarrow> bool" where
  "texts_ok E M \<longleftrightarrow>
     (let T = cs_text E; clean = (\<lambda>s. trimmed T s = s) in
      normalizedPrinterName T (m_selectedPrinter M) = m_selectedPrinter M \<and>
      m_multiInkOutputMode M \<in> {''direct'', ''prn''} \<and> clean (m_linearizationPresetName M) \<and>
      clean (m_linearizationDataPath M) \<and> clean (m_directPrintSdkRootPath M) \<and> clean (m_multiInkDirectPrintSdkRootPath M))"

definition direct_settings_ok :: "('v, 'd) color_env \<Rightarrow> ('v, 'd) color_manager \<Rightarrow> bool" where
  "direct_settings_ok E M \<longleftrightarrow>
     direct_ok (cs_variant E) (cs_text E) (m_directPrintSettings M) \<and> finite (dom (m_directPrintSettings M))"

definition modes_ok :: "('v, 'd) color_env \<Rightarrow> ('v, 'd) color_manager \<Rightarrow> bool" where
  "modes_ok E M \<longleftrightarrow>
     (\<forall>inkMode params. m_multiInkParamsByMode M inkMode = Some params \<longrightarrow>
        isSupportedInkMode inkMode \<and> ink_ok (cs_variant E) (cs_text E) params \<and> finite (dom params) \<and>
        dom (mode_defaults E inkMode) \<subseteq> dom params)"

definition text_map_ok :: "'v qvariant \<Rightarrow> 'v vmap \<Rightarrow> bool" where
  "text_map_ok Q m \<longleftrightarrow> finite (dom m) \<and> (\<forall>k v. m k = Some v \<longrightarrow> (\<exists>s. v = ofStr Q s))"

definition printer_keys_ok :: "qtext \<Rightarrow> 'v vmap \<Rightarrow> bool" where
  "printer_keys_ok T m \<longleftrightarrow> (\<forall>k \<in> dom m. normalizedPrinterName T k = k)"

definition family_entry :: "('v, 'd) color_env \<Rightarrow> 'v \<Rightarrow> bool" where
  \<comment> \<open>a text set here or a value read from a document\<close>
  "family_entry E w \<longleftrightarrow> (\<exists>s. w = ofStr (cs_variant E) s) \<or> (\<exists>j. w = toVariant (cs_json E) j)"

definition nested_map_ok :: "('v, 'd) color_env \<Rightarrow> 'v vmap \<Rightarrow> bool" where
  "nested_map_ok E m \<longleftrightarrow>
     finite (dom m) \<and> printer_keys_ok (cs_text E) m \<and>
     (\<forall>k v. m k = Some v \<longrightarrow> (\<exists>fm. v = ofMap (cs_variant E) fm \<and> finite (dom fm) \<and> (\<forall>w \<in> ran fm. family_entry E w)))"

definition maps_ok :: "('v, 'd) color_env \<Rightarrow> ('v, 'd) color_manager \<Rightarrow> bool" where
  "maps_ok E M \<longleftrightarrow>
     text_map_ok (cs_variant E) (m_printerOutputProfiles M) \<and> printer_keys_ok (cs_text E) (m_printerOutputProfiles M) \<and>
     text_map_ok (cs_variant E) (m_familyDefaultOutputProfiles M) \<and>
     text_map_ok (cs_variant E) (m_familyDefaultLinearizationPaths M) \<and>
     nested_map_ok E (m_printerFamilyOutputProfiles M) \<and> nested_map_ok E (m_printerFamilyLinearizationPaths M)"

definition settings_ok :: "('v, 'd) color_env \<Rightarrow> ('v, 'd) color_manager \<Rightarrow> bool" where
  "settings_ok E M \<longleftrightarrow> levels_ok M \<and> texts_ok E M \<and> direct_settings_ok E M \<and> modes_ok E M \<and> maps_ok E M"

lemmas settings_ok_defs = levels_ok_def texts_ok_def direct_settings_ok_def modes_ok_def maps_ok_def

lemma settings_ok_emits [simp]: "settings_ok E (emits ss M) = settings_ok E M"
  by (simp add: settings_ok_def settings_ok_defs)

lemma settings_ok_saved [simp]: "settings_ok E (saved E M) = settings_ok E M"
  by (simp add: settings_ok_def settings_ok_defs)

lemma settings_ok_disk [simp]: "settings_ok E (M\<lparr>settingsDisk := d\<rparr>) = settings_ok E M"
  by (simp add: settings_ok_def settings_ok_defs)

lemma clamp_range: "lo \<le> hi \<Longrightarrow> lo \<le> clamp v lo hi \<and> clamp v lo hi \<le> (hi :: int)"
  by (auto simp: clamp_def)

text \<open>The setters of numbers and flags, their early return included, set the field.\<close>

lemma level_setters:
  "setMinInkThreshold v M = emits (if m_minInkThreshold M = clamp v 0 255 then [] else [DotStrategyChanged])
     (M\<lparr>m_minInkThreshold := clamp v 0 255\<rparr>)"
  "setSmallDotThreshold v M = emits (if m_smallDotThreshold M = clamp v 0 255 then [] else [DotStrategyChanged])
     (M\<lparr>m_smallDotThreshold := clamp v 0 255\<rparr>)"
  "setMedDotThreshold v M = emits (if m_medDotThreshold M = clamp v 0 255 then [] else [DotStrategyChanged])
     (M\<lparr>m_medDotThreshold := clamp v 0 255\<rparr>)"
  "setEnablePromotion b M = emits (if m_enablePromotion M = b then [] else [DotStrategyChanged]) (M\<lparr>m_enablePromotion := b\<rparr>)"
  "setFloorRangeCMY v M = emits (if m_floorRangeCMY M = clamp v 0 64 then [] else [DotStrategyChanged])
     (M\<lparr>m_floorRangeCMY := clamp v 0 64\<rparr>)"
  "setFloorMaxCMY v M = emits (if m_floorMaxCMY M = clamp v 0 8 then [] else [DotStrategyChanged])
     (M\<lparr>m_floorMaxCMY := clamp v 0 8\<rparr>)"
  "setFloorRangeK v M = emits (if m_floorRangeK M = clamp v 0 64 then [] else [DotStrategyChanged])
     (M\<lparr>m_floorRangeK := clamp v 0 64\<rparr>)"
  "setFloorMaxK v M = emits (if m_floorMaxK M = clamp v 0 8 then [] else [DotStrategyChanged])
     (M\<lparr>m_floorMaxK := clamp v 0 8\<rparr>)"
  "setEnableDotSwap b M = emits (if m_enableDotSwap M = b then [] else [DotStrategyChanged]) (M\<lparr>m_enableDotSwap := b\<rparr>)"
  by (auto simp: setMinInkThreshold_def setSmallDotThreshold_def setMedDotThreshold_def setEnablePromotion_def
      setFloorRangeCMY_def setFloorMaxCMY_def setFloorRangeK_def setFloorMaxK_def setEnableDotSwap_def)

lemma linearization_setters:
  "setLinearizationEnabled b M = emits (if m_enableLinearization M = b then [] else [LinearizationChanged])
     (M\<lparr>m_enableLinearization := b\<rparr>)"
  "setLinearizationPresetName E t M =
     emits (if m_linearizationPresetName M = trimmed (cs_text E) t then [] else [LinearizationChanged])
       (M\<lparr>m_linearizationPresetName := trimmed (cs_text E) t\<rparr>)"
  "setLinearizationDataPath E t M =
     emits (if m_linearizationDataPath M = trimmed (cs_text E) t then [] else [LinearizationChanged])
       (M\<lparr>m_linearizationDataPath := trimmed (cs_text E) t\<rparr>)"
  by (auto simp: setLinearizationEnabled_def setLinearizationPresetName_def setLinearizationDataPath_def)

section \<open>What the manager relies on\<close>

definition printable :: "char \<Rightarrow> bool" where
  "printable c \<longleftrightarrow> 33 \<le> (of_char c :: nat) \<and> (of_char c :: nat) \<le> 126"

definition lower_char :: "char \<Rightarrow> char" where
  "lower_char c = (if 65 \<le> (of_char c :: nat) \<and> (of_char c :: nat) \<le> 90 then char_of (of_char c + 32 :: nat) else c)"

locale color_laws =
  fixes E :: "('v, 'd) color_env" and contents :: "'d \<Rightarrow> string \<Rightarrow> bytes option"
  assumes variant: "qvariant_laws (cs_variant E)"
    and disk: "disk_laws (cs_disk E) contents"
    and bool_of_int: "toBool (cs_variant E) (ofInt (cs_variant E) x) \<longleftrightarrow> x \<noteq> 0"
    and int_of_flag: "toInt (cs_variant E) (ofBool (cs_variant E) b) = (if b then 1 else 0)"
    and no_map: "toMap (cs_variant E) (invalid (cs_variant E)) = Map.empty"
    and trimmed_twice: "trimmed (cs_text E) (trimmed (cs_text E) s) = trimmed (cs_text E) s"
    and trimmed_clean: "s = [] \<or> printable (hd s) \<and> printable (last s) \<Longrightarrow> trimmed (cs_text E) s = s"
    and lower_ascii: "\<forall>c \<in> set s. (of_char c :: nat) < 128 \<Longrightarrow> toLower (cs_text E) s = map lower_char s"
    and parse_print: "parseJson (cs_json E) (printJson (cs_json E) j) = Some j"
    and json_of_int: "fromVariant (cs_json E) (ofInt (cs_variant E) x) = JNum (of_int x)"
    and json_of_bool: "fromVariant (cs_json E) (ofBool (cs_variant E) b) = JBool b"
    and json_of_str: "fromVariant (cs_json E) (ofStr (cs_variant E) s) = JStr s"
    and int_of_json: "fits_int x \<Longrightarrow> toInt (cs_variant E) (toVariant (cs_json E) (JNum (of_int x))) = x"
    and bool_of_json: "toBool (cs_variant E) (toVariant (cs_json E) (JBool b)) = b"
    and flag_of_json: "toInt (cs_variant E) (toVariant (cs_json E) (JBool b)) = (if b then 1 else 0)"
    and str_of_json: "toStr (cs_variant E) (toVariant (cs_json E) (JStr s)) = s"
    and json_text_again: "toStr (cs_variant E) (toVariant (cs_json E) (fromVariant (cs_json E) (toVariant (cs_json E) j))) =
      toStr (cs_variant E) (toVariant (cs_json E) j)"
    and parse_number: "fits_int x \<Longrightarrow> cs_parseInt E (cs_number E x) = Some x"
    and same_ints: "cs_same E m m' \<Longrightarrow> m k = Some (ofInt (cs_variant E) x) \<Longrightarrow> m' k = Some (ofInt (cs_variant E) y) \<Longrightarrow> x = y"
begin

sublocale qv: qvariant_laws "cs_variant E"
  by (rule variant)

sublocale dk: disk_laws "cs_disk E" contents
  by (rule disk)

lemma trimmed_words [simp]:
  "trimmed (cs_text E) [] = []" "trimmed (cs_text E) ''w'' = ''w''" "trimmed (cs_text E) ''v'' = ''v''"
  "trimmed (cs_text E) ''X-36 Studio'' = ''X-36 Studio''" "trimmed (cs_text E) ''Default'' = ''Default''"
  "trimmed (cs_text E) ''direct'' = ''direct''" "trimmed (cs_text E) ''prn'' = ''prn''" "trimmed (cs_text E) ''X-33'' = ''X-33''"
  by (rule trimmed_clean, simp add: printable_def)+

lemma normalized_twice:
  "normalizedPrinterName (cs_text E) (normalizedPrinterName (cs_text E) p) = normalizedPrinterName (cs_text E) p"
  by (auto simp: normalizedPrinterName_def Let_def trimmed_twice same_text_def)

lemma lower_words:
  "toLower (cs_text E) [] = []" "toLower (cs_text E) ''X-36 Studio'' = ''x-36 studio''"
  "toLower (cs_text E) ''X-36NC (Photo Printer)'' = ''x-36nc (photo printer)''"
  "toLower (cs_text E) ''X-36NC'' = ''x-36nc''" "toLower (cs_text E) ''X-33'' = ''x-33''"
  "toLower (cs_text E) ''direct'' = ''direct''" "toLower (cs_text E) ''prn'' = ''prn''"
  by (subst lower_ascii, simp, code_simp)+

lemma normalized_words [simp]:
  "normalizedPrinterName (cs_text E) [] = []" "normalizedPrinterName (cs_text E) ''X-33'' = ''X-33''"
  by (simp_all add: normalizedPrinterName_def Let_def same_text_def lower_words)

lemma output_modes [simp]: "outputModeOf (cs_text E) ''direct'' = ''direct''" "outputModeOf (cs_text E) ''prn'' = ''prn''"
  by (simp_all add: outputModeOf_def lower_words)

lemma outputModeOf_cases: "outputModeOf T s \<in> {''direct'', ''prn''}"
  by (simp add: outputModeOf_def)

lemma mode_params_ok:
  "ink_ok (cs_variant E) (cs_text E) (mode_params E inkMode params)"
  "ink_ok (cs_variant E) (cs_text E) (mode_defaults E inkMode)"
  unfolding mode_params_def mode_defaults_def defaultMultiInkParamsForMode_def Let_def
  by (rule clampMapU8_ok; simp add: trimmed_twice)+

lemma mode_params_dom:
  "finite (dom params) \<Longrightarrow> finite (dom (mode_params E inkMode params))"
  "dom (mode_defaults E inkMode) \<subseteq> dom (mode_params E inkMode params)"
  by (auto simp: mode_params_def dom_clampMapU8 finite_mode_defaults)

end

section \<open>Every operation keeps the settings in order\<close>

context color_laws
begin

lemma family_map_cases:
  assumes "nested_map_ok E m"
  shows "finite (dom (family_map (cs_variant E) m p)) \<and> (\<forall>w \<in> ran (family_map (cs_variant E) m p). family_entry E w)"
proof (cases "m p")
  case None
  then show ?thesis by (simp add: family_map_def valueAt_def mapValue_def no_map)
next
  case (Some v)
  then obtain fm where "v = ofMap (cs_variant E) fm" "finite (dom fm)" "\<forall>w \<in> ran fm. family_entry E w"
    using assms unfolding nested_map_ok_def by blast
  then show ?thesis using Some by (simp add: family_map_def valueAt_def qv.toMap_ofMap)
qed

lemma set_family_path_ok:
  "text_map_ok (cs_variant E) m \<Longrightarrow> set_family_path E f p m = Some m' \<Longrightarrow> text_map_ok (cs_variant E) m'"
  by (auto simp: set_family_path_def text_map_ok_def Let_def split: if_splits)

lemma set_printer_family_path_ok:
  assumes m: "nested_map_ok E m" and s: "set_printer_family_path E pr f p m = Some m'"
  shows "nested_map_ok E m'"
proof -
  define Q where "Q = cs_variant E"
  define k where "k = normalizedPrinterName (cs_text E) pr"
  define fm where "fm = (family_map Q m k)(family_key E f \<mapsto> ofStr Q (trimmed (cs_text E) p))"
  have m': "m' = m(k \<mapsto> ofMap Q fm)"
    using s by (simp add: set_printer_family_path_def Let_def Q_def k_def fm_def split: if_splits)
  have c: "finite (dom (family_map Q m k))" "\<forall>w \<in> ran (family_map Q m k). family_entry E w"
    using family_map_cases [OF m, of k] by (simp_all add: Q_def)
  have "family_entry E w" if "w \<in> ran fm" for w
    using that c(2) by (auto simp: fm_def ran_def family_entry_def Q_def split: if_splits)
  moreover have "finite (dom fm)" using c(1) by (simp add: fm_def)
  moreover have "normalizedPrinterName (cs_text E) k = k" by (simp add: k_def normalized_twice)
  ultimately show ?thesis using m unfolding nested_map_ok_def printer_keys_ok_def m' Q_def by auto
qed

lemma load_texts_ok: "finite (dom ob) \<Longrightarrow> text_map_ok (cs_variant E) (load_texts (cs_variant E) ob)"
proof -
  have "dom (load_texts (cs_variant E) ob) = dom ob" by (simp add: load_texts_def dom_map_option_comp)
  then show "finite (dom ob) \<Longrightarrow> ?thesis"
    by (auto simp: text_map_ok_def load_texts_def comp_def map_option_case split: option.splits)
qed

lemma load_printer_texts_ok:
  "text_map_ok (cs_variant E) (load_printer_texts E ob)" "printer_keys_ok (cs_text E) (load_printer_texts E ob)"
proof -
  have "normalizedPrinterName (cs_text E) k = k \<and> (\<exists>s. v = ofStr (cs_variant E) s)"
    if "load_printer_texts E ob k = Some v" for k v
    using that unfolding load_printer_texts_def
    by (rule foldl_insert_range [rotated -1]) (auto simp: normalized_twice)
  moreover have "finite (dom (load_printer_texts E ob))" unfolding load_printer_texts_def by (rule finite_foldl_insert) simp
  ultimately show "text_map_ok (cs_variant E) (load_printer_texts E ob)"
    "printer_keys_ok (cs_text E) (load_printer_texts E ob)"
    by (auto simp: text_map_ok_def printer_keys_ok_def)
qed

lemma finite_json_obj [simp]: "finite (dom (json_obj j))"
  by (cases j rule: json_obj.cases) (simp_all add: finite_dom_map_of)

lemma variant_map_of_json:
  "finite (dom ob) \<Longrightarrow> finite (dom (jsonObjectToVariantMap J ob))"
  "w \<in> ran (jsonObjectToVariantMap (cs_json E) ob) \<Longrightarrow> family_entry E w"
  by (simp add: jsonObjectToVariantMap_def dom_map_option_comp)
    (auto simp: jsonObjectToVariantMap_def ran_def family_entry_def)

lemma load_printer_maps_ok: "nested_map_ok E (load_printer_maps E ob)"
proof -
  have "normalizedPrinterName (cs_text E) k = k \<and>
      (\<exists>fm. v = ofMap (cs_variant E) fm \<and> finite (dom fm) \<and> (\<forall>w \<in> ran fm. family_entry E w))"
    if "load_printer_maps E ob k = Some v" for k v
    using that unfolding load_printer_maps_def
    by (rule foldl_insert_range [rotated -1])
      (auto simp: normalized_twice intro!: exI [of _ "jsonObjectToVariantMap _ _"] variant_map_of_json)
  moreover have "finite (dom (load_printer_maps E ob))" unfolding load_printer_maps_def by (rule finite_foldl_insert) simp
  ultimately show ?thesis unfolding nested_map_ok_def printer_keys_ok_def by blast
qed

definition mode_entry_ok :: "int \<Rightarrow> 'v vmap \<Rightarrow> bool" where
  "mode_entry_ok inkMode params \<longleftrightarrow>
     isSupportedInkMode inkMode \<and> ink_ok (cs_variant E) (cs_text E) params \<and> finite (dom params) \<and>
     dom (mode_defaults E inkMode) \<subseteq> dom params"

lemma mode_params_entry: "isSupportedInkMode n \<Longrightarrow> finite (dom params) \<Longrightarrow> mode_entry_ok n (mode_params E n params)"
  by (simp add: mode_entry_ok_def mode_params_ok mode_params_dom)

lemma load_modes_ok: "load_modes E ob n = Some params \<Longrightarrow> mode_entry_ok n params"
proof -
  have "foldl (load_mode E ob) m ks n = Some params \<Longrightarrow> (\<And>n params. m n = Some params \<Longrightarrow> mode_entry_ok n params) \<Longrightarrow>
      mode_entry_ok n params" for m ks
  proof (induction ks arbitrary: m)
    case (Cons k ks)
    have "mode_entry_ok n params" if "load_mode E ob m k n = Some params" for n params
      using that Cons.prems(2)
      by (auto simp: load_mode_def mode_params_entry variant_map_of_json split: option.splits if_splits)
    then show ?case using Cons.IH [of "load_mode E ob m k"] Cons.prems(1) by simp
  qed simp
  then show "load_modes E ob n = Some params \<Longrightarrow> ?thesis" unfolding load_modes_def by fastforce
qed

lemma default_modes_ok:
  "foldl (\<lambda>m inkMode. m(inkMode \<mapsto> mode_defaults E inkMode)) Map.empty [4, 5, 6, 7, 8, 10] n = Some params \<Longrightarrow>
     mode_entry_ok n params"
  by (auto simp: mode_entry_ok_def isSupportedInkMode_def mode_params_ok finite_mode_defaults split: if_splits)

lemma modes_ok_entries: "modes_ok E M \<longleftrightarrow> (\<forall>n params. m_multiInkParamsByMode M n = Some params \<longrightarrow> mode_entry_ok n params)"
  by (simp add: modes_ok_def mode_entry_ok_def)

lemma load_object_ok: "settings_ok E (load_object E ob M)"
proof -
  have l: "levels_ok (load_object E ob M)"
    by (simp add: load_object_def load_strategy_def load_linearization_def load_direct_def load_maps_def Let_def
        level_setters linearization_setters levels_ok_def clamp_range)
  have t: "texts_ok E (load_object E ob M)"
    using outputModeOf_cases
    by (simp add: load_object_def load_strategy_def load_linearization_def load_direct_def load_maps_def Let_def
        level_setters linearization_setters texts_ok_def normalized_twice trimmed_twice)
  have d: "direct_settings_ok E (load_object E ob M)"
    by (simp add: load_object_def load_maps_def load_direct_def Let_def direct_settings_ok_def normalized_ok trimmed_twice
        finite_normalized variant_map_of_json)
  have m: "modes_ok E (load_object E ob M)"
    unfolding modes_ok_entries by (auto simp: load_object_def load_maps_def Let_def dest: load_modes_ok)
  have "maps_ok E (load_object E ob M)"
    by (simp add: load_object_def load_maps_def Let_def maps_ok_def load_texts_ok load_printer_texts_ok load_printer_maps_ok)
  with l t d m show ?thesis by (simp add: settings_ok_def)
qed

lemma resetToDefaults_ok: "settings_ok E (resetToDefaults E M)"
proof -
  have "modes_ok E (resetToDefaults E M)"
    unfolding modes_ok_entries resetToDefaults_def by (auto simp del: foldl_Cons foldl_Nil dest: default_modes_ok)
  moreover have "direct_settings_ok E (resetToDefaults E M)"
    by (simp add: resetToDefaults_def direct_settings_ok_def default_direct_ok del: foldl_Cons)
      (simp add: defaultDirectPrintSettings_def Let_def)
  ultimately show ?thesis
    by (simp add: settings_ok_def resetToDefaults_def levels_ok_def texts_ok_def maps_ok_def Let_def text_map_ok_def
        printer_keys_ok_def nested_map_ok_def del: foldl_Cons)
qed

lemma load_settings_ok: "settings_ok E M \<Longrightarrow> settings_ok E (snd (load_settings E M))"
  by (simp add: load_settings_def Let_def load_object_ok split: option.splits json.splits)

lemma open_manager_ok: "settings_ok E (open_manager E d)"
proof -
  obtain ok M where l: "load_settings E (new_manager d) = (ok, M)" by fastforce
  have "settings_ok E M" if ok
    using l that by (auto simp: load_settings_def Let_def load_object_ok split: if_splits option.splits json.splits)
  then show ?thesis using l resetToDefaults_ok by (simp add: open_manager_def)
qed

lemma text_map_insert: "text_map_ok (cs_variant E) m \<Longrightarrow> text_map_ok (cs_variant E) (m(k \<mapsto> ofStr (cs_variant E) s))"
  by (auto simp: text_map_ok_def)

lemma printer_keys_insert:
  "printer_keys_ok (cs_text E) m \<Longrightarrow> printer_keys_ok (cs_text E) (m(normalizedPrinterName (cs_text E) k \<mapsto> v))"
  by (auto simp: printer_keys_ok_def normalized_twice)

lemma setDirectPrintSettings_ok:
  "settings_ok E M \<Longrightarrow> finite (dom settings) \<Longrightarrow> settings_ok E (setDirectPrintSettings E settings M)"
  by (simp add: setDirectPrintSettings_def Let_def)
    (simp add: settings_ok_def settings_ok_defs normalized_ok trimmed_twice finite_normalized)

lemma setMultiInkParams_ok:
  "settings_ok E M \<Longrightarrow> finite (dom params) \<Longrightarrow> settings_ok E (setMultiInkParams E n params M)"
  by (simp add: setMultiInkParams_def settings_ok_def levels_ok_def texts_ok_def direct_settings_ok_def maps_ok_def
      modes_ok_entries mode_params_entry)

lemma finite_getMultiInkParams: "settings_ok E M \<Longrightarrow> finite (dom (getMultiInkParams E n M))"
  by (auto simp: getMultiInkParams_def settings_ok_def modes_ok_def finite_mode_defaults split: option.splits)

lemma setters_ok:
  assumes "settings_ok E M"
  shows "settings_ok E (setSelectedPrinter E p M)" "settings_ok E (setDefaultInputProfile p M)"
    "settings_ok E (setDefaultOutputProfile p M)" "settings_ok E (setPrinterOutputProfile E p q M)"
    "settings_ok E (setMultiInkOutputMode E p M)" "settings_ok E (setDirectPrintSdkRootPath E p M)"
    "settings_ok E (setMultiInkDirectPrintSdkRootPath E p M)"
    "settings_ok E (setLinearizationPresetName E p M)" "settings_ok E (setLinearizationDataPath E p M)"
    "settings_ok E (setLinearizationEnabled b M)"
    "settings_ok E (setEnablePromotion b M)" "settings_ok E (setEnableDotSwap b M)"
    "settings_ok E (setMinInkThreshold n M)" "settings_ok E (setSmallDotThreshold n M)"
    "settings_ok E (setMedDotThreshold n M)" "settings_ok E (setFloorRangeCMY n M)" "settings_ok E (setFloorMaxCMY n M)"
    "settings_ok E (setFloorRangeK n M)" "settings_ok E (setFloorMaxK n M)"
  using assms outputModeOf_cases [of "cs_text E" p]
  unfolding level_setters linearization_setters setSelectedPrinter_def setDefaultInputProfile_def
    setDefaultOutputProfile_def setPrinterOutputProfile_def setMultiInkOutputMode_def setDirectPrintSdkRootPath_def
    setMultiInkDirectPrintSdkRootPath_def Let_def
  by (simp_all add: settings_ok_def settings_ok_defs Let_def normalized_twice trimmed_twice clamp_range text_map_insert
      printer_keys_insert)

lemma family_setters_ok:
  assumes "settings_ok E M"
  shows "settings_ok E (setFamilyDefaultOutputProfile E f p M)" "settings_ok E (setFamilyDefaultLinearizationPath E f p M)"
    "settings_ok E (setPrinterFamilyOutputProfile E pr f p M)" "settings_ok E (setPrinterFamilyLinearizationPath E pr f p M)"
  using assms
  by (auto simp: settings_ok_def settings_ok_defs setFamilyDefaultOutputProfile_def setFamilyDefaultLinearizationPath_def
      setPrinterFamilyOutputProfile_def setPrinterFamilyLinearizationPath_def set_family_path_ok
      dest: set_printer_family_path_ok split: option.splits)

lemma setting_ok:
  "settings_ok E M \<Longrightarrow> settings_ok E (setDirectPrintSetting E k v M)"
  "settings_ok E M \<Longrightarrow> settings_ok E (setMultiInkParam E n k v M)"
proof -
  assume M: "settings_ok E M"
  then have "finite (dom (directPrintSettings E M))"
    by (simp add: directPrintSettings_def settings_ok_def direct_settings_ok_def finite_normalized)
  then show "settings_ok E (setDirectPrintSetting E k v M)"
    using M by (simp add: setDirectPrintSetting_def Let_def setDirectPrintSettings_ok)
  show "settings_ok E (setMultiInkParam E n k v M)"
    using M by (simp add: setMultiInkParam_def setMultiInkParams_ok finite_getMultiInkParams)
qed

end

end
