(* ===== verification/Color_Storage.thy ===== *)
theory Color_Storage
  imports Color_Laws
begin

text \<open>
  The settings file of \<open>ColorManagementManager\<close>: what \<open>load\<close> makes of what \<open>save\<close> wrote.
\<close>

definition through_json :: "'v json_env \<Rightarrow> 'v vmap \<Rightarrow> 'v vmap" where
  "through_json J m = jsonObjectToVariantMap J (variantMapToJsonObject J m)"

lemma through_json_at: "through_json J m k = map_option (\<lambda>v. toVariant J (fromVariant J v)) (m k)"
  by (simp add: through_json_def jsonObjectToVariantMap_def variantMapToJsonObject_def option.map_comp comp_def)

lemma dom_through_json [simp]: "dom (variantMapToJsonObject J m) = dom m" "dom (text_object Q m) = dom m"
    "dom (nested_object E m) = dom m"
  by (auto simp: variantMapToJsonObject_def text_object_def nested_object_def)

section \<open>The document\<close>

lemma settings_object_at:
  "settings_object E M ''selectedPrinter'' = Some (JStr (m_selectedPrinter M))"
  "settings_object E M ''defaultInputProfile'' = Some (JStr (m_defaultInputProfile M))"
  "settings_object E M ''defaultOutputProfile'' = Some (JStr (m_defaultOutputProfile M))"
  "settings_object E M ''minInkThreshold'' = Some (JNum (of_int (m_minInkThreshold M)))"
  "settings_object E M ''smallDotThreshold'' = Some (JNum (of_int (m_smallDotThreshold M)))"
  "settings_object E M ''medDotThreshold'' = Some (JNum (of_int (m_medDotThreshold M)))"
  "settings_object E M ''enablePromotion'' = Some (JBool (m_enablePromotion M))"
  "settings_object E M ''floorRangeCMY'' = Some (JNum (of_int (m_floorRangeCMY M)))"
  "settings_object E M ''floorMaxCMY'' = Some (JNum (of_int (m_floorMaxCMY M)))"
  "settings_object E M ''floorRangeK'' = Some (JNum (of_int (m_floorRangeK M)))"
  "settings_object E M ''floorMaxK'' = Some (JNum (of_int (m_floorMaxK M)))"
  "settings_object E M ''enableDotSwap'' = Some (JBool (m_enableDotSwap M))"
  "settings_object E M ''enableLinearization'' = Some (JBool (m_enableLinearization M))"
  "settings_object E M ''linearizationPresetName'' = Some (JStr (m_linearizationPresetName M))"
  "settings_object E M ''linearizationDataPath'' = Some (JStr (m_linearizationDataPath M))"
  "settings_object E M ''multiInkOutputMode'' = Some (JStr (m_multiInkOutputMode M))"
  "settings_object E M ''directPrintSdkRootPath'' = Some (JStr (m_directPrintSdkRootPath M))"
  "settings_object E M ''multiInkDirectPrintSdkRootPath'' = Some (JStr (m_multiInkDirectPrintSdkRootPath M))"
  by (simp_all add: settings_object_def Let_def)

lemma settings_maps_at:
  "settings_object E M ''directPrintSettings'' =
     Some (object_value (variantMapToJsonObject (cs_json E)
       (normalizedDirectPrintSettings (cs_variant E) (cs_text E) (m_directPrintSettings M))))"
  "settings_object E M ''familyDefaultLinearizationPaths'' =
     Some (object_value (text_object (cs_variant E) (m_familyDefaultLinearizationPaths M)))"
  "settings_object E M ''printerFamilyLinearizationPaths'' = Some (object_value (nested_object E (m_printerFamilyLinearizationPaths M)))"
  "settings_object E M ''printerOutputProfiles'' = Some (object_value (text_object (cs_variant E) (m_printerOutputProfiles M)))"
  "settings_object E M ''familyDefaultOutputProfiles'' =
     Some (object_value (text_object (cs_variant E) (m_familyDefaultOutputProfiles M)))"
  "settings_object E M ''printerFamilyOutputProfiles'' = Some (object_value (nested_object E (m_printerFamilyOutputProfiles M)))"
  "settings_object E M ''multiInkParamsByMode'' = Some (object_value (modes_object E M))"
  by (simp_all add: settings_object_def Let_def)

lemma finite_settings_object: "finite (dom (settings_object E M))"
  by (simp add: settings_object_def Let_def)

lemma json_int_of_int: "fits_int x \<Longrightarrow> json_int d (Some (JNum (of_int x))) = x"
  by simp

lemma clamp_same: "lo \<le> x \<Longrightarrow> x \<le> hi \<Longrightarrow> clamp x lo (hi :: int) = x"
  by (simp add: clamp_def)

text \<open>The fields each group of the document sets.\<close>

lemma load_strategy_fields [simp]:
  "m_minInkThreshold (load_strategy ob M) = clamp (json_int (m_minInkThreshold M) (ob ''minInkThreshold'')) 0 255"
  "m_smallDotThreshold (load_strategy ob M) = clamp (json_int (m_smallDotThreshold M) (ob ''smallDotThreshold'')) 0 255"
  "m_medDotThreshold (load_strategy ob M) = clamp (json_int (m_medDotThreshold M) (ob ''medDotThreshold'')) 0 255"
  "m_floorRangeCMY (load_strategy ob M) = clamp (json_int (m_floorRangeCMY M) (ob ''floorRangeCMY'')) 0 64"
  "m_floorMaxCMY (load_strategy ob M) = clamp (json_int (m_floorMaxCMY M) (ob ''floorMaxCMY'')) 0 8"
  "m_floorRangeK (load_strategy ob M) = clamp (json_int (m_floorRangeK M) (ob ''floorRangeK'')) 0 64"
  "m_floorMaxK (load_strategy ob M) = clamp (json_int (m_floorMaxK M) (ob ''floorMaxK'')) 0 8"
  "m_enablePromotion (load_strategy ob M) = json_bool (m_enablePromotion M) (ob ''enablePromotion'')"
  "m_enableDotSwap (load_strategy ob M) = json_bool (m_enableDotSwap M) (ob ''enableDotSwap'')"
  "m_multiInkParamsByMode (load_strategy ob M) = m_multiInkParamsByMode M"
  "m_selectedPrinter (load_strategy ob M) = m_selectedPrinter M"
  "m_enableLinearization (load_strategy ob M) = m_enableLinearization M"
  "m_linearizationPresetName (load_strategy ob M) = m_linearizationPresetName M"
  "m_linearizationDataPath (load_strategy ob M) = m_linearizationDataPath M"
  "m_familyDefaultLinearizationPaths (load_strategy ob M) = m_familyDefaultLinearizationPaths M"
  "m_printerFamilyLinearizationPaths (load_strategy ob M) = m_printerFamilyLinearizationPaths M"
  "m_printerOutputProfiles (load_strategy ob M) = m_printerOutputProfiles M"
  "m_defaultInputProfile (load_strategy ob M) = m_defaultInputProfile M"
  "m_defaultOutputProfile (load_strategy ob M) = m_defaultOutputProfile M"
  "m_familyDefaultOutputProfiles (load_strategy ob M) = m_familyDefaultOutputProfiles M"
  "m_printerFamilyOutputProfiles (load_strategy ob M) = m_printerFamilyOutputProfiles M"
  "m_multiInkOutputMode (load_strategy ob M) = m_multiInkOutputMode M"
  "m_directPrintSdkRootPath (load_strategy ob M) = m_directPrintSdkRootPath M"
  "m_multiInkDirectPrintSdkRootPath (load_strategy ob M) = m_multiInkDirectPrintSdkRootPath M"
  "m_directPrintSettings (load_strategy ob M) = m_directPrintSettings M"
  by (simp_all add: load_strategy_def Let_def level_setters)

lemma load_linearization_fields [simp]:
  "m_enableLinearization (load_linearization E ob M) = json_bool (m_enableLinearization M) (ob ''enableLinearization'')"
  "m_linearizationPresetName (load_linearization E ob M) = trimmed (cs_text E) (json_str (m_linearizationPresetName M) (ob ''linearizationPresetName''))"
  "m_linearizationDataPath (load_linearization E ob M) = trimmed (cs_text E) (json_str (m_linearizationDataPath M) (ob ''linearizationDataPath''))"
  "m_multiInkParamsByMode (load_linearization E ob M) = m_multiInkParamsByMode M"
  "m_selectedPrinter (load_linearization E ob M) = m_selectedPrinter M"
  "m_familyDefaultLinearizationPaths (load_linearization E ob M) = m_familyDefaultLinearizationPaths M"
  "m_printerFamilyLinearizationPaths (load_linearization E ob M) = m_printerFamilyLinearizationPaths M"
  "m_printerOutputProfiles (load_linearization E ob M) = m_printerOutputProfiles M"
  "m_defaultInputProfile (load_linearization E ob M) = m_defaultInputProfile M"
  "m_defaultOutputProfile (load_linearization E ob M) = m_defaultOutputProfile M"
  "m_familyDefaultOutputProfiles (load_linearization E ob M) = m_familyDefaultOutputProfiles M"
  "m_printerFamilyOutputProfiles (load_linearization E ob M) = m_printerFamilyOutputProfiles M"
  "m_minInkThreshold (load_linearization E ob M) = m_minInkThreshold M"
  "m_smallDotThreshold (load_linearization E ob M) = m_smallDotThreshold M"
  "m_medDotThreshold (load_linearization E ob M) = m_medDotThreshold M"
  "m_enablePromotion (load_linearization E ob M) = m_enablePromotion M"
  "m_floorRangeCMY (load_linearization E ob M) = m_floorRangeCMY M"
  "m_floorMaxCMY (load_linearization E ob M) = m_floorMaxCMY M"
  "m_floorRangeK (load_linearization E ob M) = m_floorRangeK M"
  "m_floorMaxK (load_linearization E ob M) = m_floorMaxK M"
  "m_enableDotSwap (load_linearization E ob M) = m_enableDotSwap M"
  "m_multiInkOutputMode (load_linearization E ob M) = m_multiInkOutputMode M"
  "m_directPrintSdkRootPath (load_linearization E ob M) = m_directPrintSdkRootPath M"
  "m_multiInkDirectPrintSdkRootPath (load_linearization E ob M) = m_multiInkDirectPrintSdkRootPath M"
  "m_directPrintSettings (load_linearization E ob M) = m_directPrintSettings M"
  by (simp_all add: load_linearization_def Let_def linearization_setters)

text \<open>Two managers with the same printer, profiles, dot strategy, linearization and output settings.\<close>

definition same_scalars :: "('v, 'd) color_manager \<Rightarrow> ('v, 'd) color_manager \<Rightarrow> bool" where
  "same_scalars N M \<longleftrightarrow>
     m_selectedPrinter N = m_selectedPrinter M \<and> m_defaultInputProfile N = m_defaultInputProfile M \<and>
     m_defaultOutputProfile N = m_defaultOutputProfile M \<and> m_minInkThreshold N = m_minInkThreshold M \<and>
     m_smallDotThreshold N = m_smallDotThreshold M \<and> m_medDotThreshold N = m_medDotThreshold M \<and>
     m_enablePromotion N = m_enablePromotion M \<and> m_floorRangeCMY N = m_floorRangeCMY M \<and>
     m_floorMaxCMY N = m_floorMaxCMY M \<and> m_floorRangeK N = m_floorRangeK M \<and> m_floorMaxK N = m_floorMaxK M \<and>
     m_enableDotSwap N = m_enableDotSwap M \<and> m_enableLinearization N = m_enableLinearization M \<and>
     m_linearizationPresetName N = m_linearizationPresetName M \<and> m_linearizationDataPath N = m_linearizationDataPath M \<and>
     m_multiInkOutputMode N = m_multiInkOutputMode M \<and> m_directPrintSdkRootPath N = m_directPrintSdkRootPath M \<and>
     m_multiInkDirectPrintSdkRootPath N = m_multiInkDirectPrintSdkRootPath M"

definition same_settings :: "('v, 'd) color_env \<Rightarrow> ('v, 'd) color_manager \<Rightarrow> ('v, 'd) color_manager \<Rightarrow> bool" where
  \<comment> \<open>what the queries of the manager tell of two states\<close>
  "same_settings E L M \<longleftrightarrow>
     same_scalars L M \<and> effectiveOutputProfile E L = effectiveOutputProfile E M \<and>
     (\<forall>p. printerOutputProfile E p L = printerOutputProfile E p M) \<and>
     (\<forall>f. familyDefaultOutputProfile E f L = familyDefaultOutputProfile E f M \<and>
        familyDefaultLinearizationPath E f L = familyDefaultLinearizationPath E f M) \<and>
     (\<forall>p f. printerFamilyOutputProfile E p f L = printerFamilyOutputProfile E p f M \<and>
        printerFamilyLinearizationPath E p f L = printerFamilyLinearizationPath E p f M) \<and>
     (\<forall>p n. effectiveOutputProfileForPrinterAndInkMode E p n L = effectiveOutputProfileForPrinterAndInkMode E p n M \<and>
        effectiveLinearizationPathForPrinterAndInkMode E p n L = effectiveLinearizationPathForPrinterAndInkMode E p n M) \<and>
     (\<forall>k \<in> set (''selectedPrinterName'' # direct_int_keys). directPrintSetting E k L = directPrintSetting E k M) \<and>
     (\<forall>n. \<forall>k \<in> set ink_keys. getMultiInkParam E n k L = getMultiInkParam E n k M)"

context color_laws
begin

text \<open>A successful save leaves the document in the file, and on a disk that works every save succeeds.\<close>

lemma saved_document:
  assumes "save_settings E M = (True, M')"
  shows "contents (settingsDisk M') (settingsPath E) = Some (printJson (cs_json E) (object_value (settings_object E M)))"
  using assms
  by (auto simp: save_settings_def Let_def overwrite_def split: option.splits dest!: dk.openTruncate_law dk.writeAt_law)

lemma save_succeeds:
  assumes "reliable_disk (cs_disk E) contents"
  shows "fst (save_settings E M)"
proof -
  let ?d = "ensureDirectory E (settingsDisk M)" and ?b = "printJson (cs_json E) (object_value (settings_object E M))"
  obtain d1 where o: "openTruncate (cs_disk E) (settingsPath E) ?d = Some d1"
    using reliable_disk.openTruncate_ok [OF assms, of "settingsPath E" ?d] by auto
  then have "contents d1 (settingsPath E) \<noteq> None" using dk.openTruncate_law [OF o] by simp
  then obtain d2 where "writeAt (cs_disk E) (settingsPath E) 0 ?b d1 = Some d2"
    using reliable_disk.writeAt_ok [OF assms, of d1 "settingsPath E" 0 ?b] by auto
  with o show ?thesis by (simp add: save_settings_def Let_def)
qed

lemma ensureDirectory_contents: "contents (ensureDirectory E d) = contents d"
  by (auto simp: ensureDirectory_def split: option.splits dest: dk.makePath_law)

lemma load_document:
  assumes r: "reliable_disk (cs_disk E) contents"
    and c: "contents (settingsDisk N) (settingsPath E) = Some (printJson (cs_json E) (object_value ob))"
    and fin: "finite (dom ob)"
  shows "load_settings E N = (True, load_object E ob (N\<lparr>settingsDisk := ensureDirectory E (settingsDisk N)\<rparr>))"
proof -
  let ?d = "ensureDirectory E (settingsDisk N)" and ?D = "cs_disk E" and ?p = "settingsPath E"
  let ?b = "printJson (cs_json E) (object_value ob)"
  have b: "contents ?d ?p = Some ?b" using c by (simp add: ensureDirectory_contents)
  then have "fileExists ?D ?p ?d" "fileSize ?D ?p ?d = length ?b"
    by (simp_all add: dk.fileExists_law dk.fileSize_law)
  moreover have "readAt ?D ?p 0 (length ?b) ?d = Some ?b"
    using reliable_disk.readAt_ok [OF r, of ?d ?p 0 "length ?b"] b dk.readAt_law [of ?p 0 "length ?b" ?d _ ?b] by fastforce
  moreover obtain l where "object_value ob = JObj l" "map_of l = ob"
    using map_of_object [OF fin] by (simp add: object_value_def)
  ultimately show ?thesis by (simp add: load_settings_def Let_def parse_print)
qed

section \<open>The maps\<close>

lemma text_map_at: "text_map_ok (cs_variant E) m \<Longrightarrow> m k = Some v \<Longrightarrow> ofStr (cs_variant E) (toStr (cs_variant E) v) = v"
  unfolding text_map_ok_def by (metis qv.toStr_ofStr)

lemma nested_map_at: "nested_map_ok E m \<Longrightarrow> m k = Some v \<Longrightarrow> \<exists>fm. v = ofMap (cs_variant E) fm \<and> finite (dom fm)"
  unfolding nested_map_ok_def by blast

lemma load_texts_again:
  "text_map_ok (cs_variant E) m \<Longrightarrow> load_texts (cs_variant E) (json_obj (Some (object_value (text_object (cs_variant E) m)))) = m"
proof
  fix k assume m: "text_map_ok (cs_variant E) m"
  then have fin: "finite (dom (text_object (cs_variant E) m))" by (simp add: text_map_ok_def)
  show "load_texts (cs_variant E) (json_obj (Some (object_value (text_object (cs_variant E) m)))) k = m k"
    unfolding map_of_object [OF fin] using text_map_at [OF m] by (cases "m k") (auto simp: load_texts_def text_object_def)
qed

lemma load_printer_texts_again:
  assumes "text_map_ok (cs_variant E) m" and "printer_keys_ok (cs_text E) m"
  shows "load_printer_texts E (json_obj (Some (object_value (text_object (cs_variant E) m)))) = m"
proof
  fix k
  let ?ob = "text_object (cs_variant E) m"
  have fin: "finite (dom ?ob)" using assms(1) by (simp add: text_map_ok_def)
  then have "set (keys_in_order ?ob) = dom m" by (simp add: keys_in_order_def)
  moreover have "normalizedPrinterName (cs_text E) k = k" if "k \<in> dom m" for k
    using that assms(2) by (simp add: printer_keys_ok_def)
  ultimately have "load_printer_texts E ?ob =
      (\<lambda>k. if k \<in> dom m then Some (ofStr (cs_variant E) (json_str [] (?ob k))) else None)"
    unfolding load_printer_texts_def by (subst foldl_insert) auto
  then show "load_printer_texts E (json_obj (Some (object_value ?ob))) k = m k"
    unfolding map_of_object [OF fin]
    using \<open>load_printer_texts E ?ob = _\<close> text_map_at [OF assms(1)] by (cases "m k") (auto simp: text_object_def)
qed

lemma load_printer_maps_again:
  assumes "nested_map_ok E m"
  shows "load_printer_maps E (json_obj (Some (object_value (nested_object E m)))) =
    (\<lambda>k. map_option (\<lambda>v. ofMap (cs_variant E) (through_json (cs_json E) (toMap (cs_variant E) v))) (m k))"
proof
  fix k
  let ?ob = "nested_object E m"
  have fin: "finite (dom ?ob)" using assms by (simp add: nested_map_ok_def)
  then have "set (keys_in_order ?ob) = dom m" by (simp add: keys_in_order_def)
  moreover have "normalizedPrinterName (cs_text E) k = k" if "k \<in> dom m" for k
    using that assms by (simp add: nested_map_ok_def printer_keys_ok_def)
  ultimately have l: "load_printer_maps E ?ob = (\<lambda>k. if k \<in> dom m then
      Some (ofMap (cs_variant E) (jsonObjectToVariantMap (cs_json E) (json_obj (?ob k)))) else None)"
    unfolding load_printer_maps_def by (subst foldl_insert) auto
  show "load_printer_maps E (json_obj (Some (object_value ?ob))) k =
      map_option (\<lambda>v. ofMap (cs_variant E) (through_json (cs_json E) (toMap (cs_variant E) v))) (m k)"
  proof (cases "m k")
    case None
    then show ?thesis unfolding map_of_object [OF fin] l by auto
  next
    case (Some v)
    then obtain fm where "v = ofMap (cs_variant E) fm" "finite (dom fm)" using nested_map_at [OF assms] by blast
    then have "json_obj (?ob k) = variantMapToJsonObject (cs_json E) (toMap (cs_variant E) v)"
      using Some by (simp add: nested_object_def map_of_object qv.toMap_ofMap del: json_obj.simps)
    then show ?thesis using Some unfolding map_of_object [OF fin] l by (auto simp: through_json_def)
  qed
qed

lemma family_text_again:
  assumes m: "nested_map_ok E m"
    and m': "m' = (\<lambda>k. map_option (\<lambda>v. ofMap (cs_variant E) (through_json (cs_json E) (toMap (cs_variant E) v))) (m k))"
  shows "text_at (cs_variant E) (family_map (cs_variant E) m' p) f = text_at (cs_variant E) (family_map (cs_variant E) m p) f"
proof -
  let ?fm = "family_map (cs_variant E) m p"
  have fm': "family_map (cs_variant E) m' p = through_json (cs_json E) ?fm"
    by (cases "m p") (auto simp: family_map_def m' valueAt_def mapValue_def no_map qv.toMap_ofMap through_json_at)
  show ?thesis
  proof (cases "?fm f")
    case None
    then show ?thesis by (simp add: fm' text_at_def valueAt_def mapValue_def through_json_at)
  next
    case (Some w)
    then have "family_entry E w" using family_map_cases [OF m, of p] by (auto simp: ran_def)
    then have "toStr (cs_variant E) (toVariant (cs_json E) (fromVariant (cs_json E) w)) = toStr (cs_variant E) w"
      by (auto simp: family_entry_def json_text_again json_of_str str_of_json qv.toStr_ofStr)
    then show ?thesis using Some by (simp add: fm' text_at_def valueAt_def mapValue_def through_json_at)
  qed
qed

section \<open>Direct print settings and ink parameters\<close>

lemma direct_keys_cases:
  assumes "direct_ok (cs_variant E) (cs_text E) m"
  shows "k \<in> set direct_int_keys \<Longrightarrow> \<exists>x. m k = Some (ofInt (cs_variant E) x) \<and> fits_int x"
    and "\<exists>s. m ''selectedPrinterName'' = Some (ofStr (cs_variant E) s)"
proof -
  assume "k \<in> set direct_int_keys"
  then have "k \<in> fst ` set ((''eclosionGrade'', 1, 3) # direct_ranges)" by (simp add: direct_int_keys_def)
  then obtain lo hi where r: "(k, lo, hi) \<in> set ((''eclosionGrade'', 1, 3) # direct_ranges)" by force
  then obtain x where "m k = Some (ofInt (cs_variant E) x)" "lo \<le> x" "x \<le> hi" using assms unfolding direct_ok_def by blast
  moreover have "fits_int lo \<and> fits_int hi"
    using r direct_ranges_fit [of k lo hi] by (auto simp: fits_int_def int_min_def int_max_def)
  ultimately show "\<exists>x. m k = Some (ofInt (cs_variant E) x) \<and> fits_int x" by (auto simp: fits_int_def)
qed (use assms in \<open>auto simp: direct_ok_def\<close>)

lemma normalized_idem:
  assumes ok: "direct_ok (cs_variant E) (cs_text E) m" and k: "k \<in> set (''selectedPrinterName'' # direct_int_keys)"
  shows "normalizedDirectPrintSettings (cs_variant E) (cs_text E) m k = m k"
  using direct_keys_cases [OF ok] by (intro normalized_of_agreeing [OF variant ok _ _ k]) fastforce+

lemma normalized_json:
  assumes ok: "direct_ok (cs_variant E) (cs_text E) m" and k: "k \<in> set (''selectedPrinterName'' # direct_int_keys)"
  shows "normalizedDirectPrintSettings (cs_variant E) (cs_text E) (through_json (cs_json E) m) k = m k"
proof (rule normalized_of_agreeing [OF variant ok _ _ k])
  fix k assume "k \<in> set direct_int_keys"
  then obtain x where "m k = Some (ofInt (cs_variant E) x)" "fits_int x" using direct_keys_cases(1) [OF ok] by blast
  then show "\<exists>v. through_json (cs_json E) m k = Some v \<and> toInt (cs_variant E) v = toInt (cs_variant E) (the (m k))"
    by (simp add: through_json_at json_of_int int_of_json qv.toInt_ofInt)
next
  obtain s where "m ''selectedPrinterName'' = Some (ofStr (cs_variant E) s)" using direct_keys_cases(2) [OF ok] by blast
  then show "\<exists>v. through_json (cs_json E) m ''selectedPrinterName'' = Some v \<and>
      toStr (cs_variant E) v = toStr (cs_variant E) (the (m ''selectedPrinterName''))"
    by (simp add: through_json_at json_of_str str_of_json qv.toStr_ofStr)
qed

lemma norm_param_same:
  assumes ok: "param_ok (cs_variant E) (cs_text E) k v" and k: "k \<in> set ink_keys"
  shows "norm_param (cs_variant E) (cs_text E) k v = v"
    and "norm_param (cs_variant E) (cs_text E) k (toVariant (cs_json E) (fromVariant (cs_json E) v)) = v"
proof -
  let ?Q = "cs_variant E" and ?v' = "toVariant (cs_json E) (fromVariant (cs_json E) v)"
  have fit: "fits_int x" if "0 \<le> x" "x \<le> 255" for x using that by (simp add: fits_int_def int_min_def int_max_def)
  have i: "toInt ?Q (ofInt ?Q x) = x" "toInt ?Q (toVariant (cs_json E) (fromVariant (cs_json E) (ofInt ?Q x))) = x"
    if "0 \<le> x" "x \<le> 255" for x
    using fit [OF that] by (simp_all add: qv.toInt_ofInt json_of_int int_of_json)
  have fl: "toInt ?Q ?v' = (if b then 1 else 0)" "toBool ?Q ?v' = b" if "v = ofBool ?Q b" for b
    by (simp_all add: that json_of_bool flag_of_json bool_of_json)
  consider (flag) b where "k \<in> set bool_keys" "v = ofBool ?Q b"
    | (range) hi x where "k \<notin> set bool_keys" "v = ofInt ?Q x" "0 \<le> x" "x \<le> hi" "hi \<le> 255"
        "\<And>u. norm_param ?Q (cs_text E) k u = ofInt ?Q (max 0 (min hi (toInt ?Q u)))"
    | (mask) s where "v = ofStr ?Q s" "trimmed (cs_text E) s = s"
        "\<And>u. norm_param ?Q (cs_text E) k u = ofStr ?Q (trimmed (cs_text E) (toStr ?Q u))"
    using ok k mask_keys_apart [of k]
    by (auto simp: param_ok_def norm_param_def ink_keys_def Let_def split: if_splits)
  note c = this
  show "norm_param ?Q (cs_text E) k ?v' = v"
    using c
  proof cases
    case flag
    then show ?thesis using fl [OF flag(2)] by (auto simp: norm_param_def bool_of_int)
  next
    case range
    then show ?thesis using i(2) [of x] by simp
  next
    case mask
    then show ?thesis by (simp add: json_of_str str_of_json)
  qed
  show "norm_param ?Q (cs_text E) k v = v"
    using c
  proof cases
    case flag
    then show ?thesis by (auto simp: norm_param_def bool_of_int qv.toBool_ofBool int_of_flag)
  next
    case range
    then show ?thesis using i(1) [of x] by simp
  next
    case mask
    then show ?thesis by (simp add: qv.toStr_ofStr)
  qed
qed

lemma modes_object_at: "modes_object E M k =
   (if \<exists>n params. isSupportedInkMode n \<and> k = cs_number E n \<and> m_multiInkParamsByMode M n = Some params
    then Some (object_value (variantMapToJsonObject (cs_json E) (clampMapU8 (cs_variant E) (cs_text E)
      (the (m_multiInkParamsByMode M (the (cs_parseInt E k)))))))
    else None)"
proof -
  define f where "f n = object_value (variantMapToJsonObject (cs_json E) (clampMapU8 (cs_variant E) (cs_text E)
      (the (m_multiInkParamsByMode M n))))" for n
  have step: "foldl (add_mode E M) ob ns k =
      (if \<exists>n \<in> set ns. k = cs_number E n \<and> m_multiInkParamsByMode M n \<noteq> None then Some (f (the (cs_parseInt E k))) else ob k)"
    if "\<forall>n \<in> set ns. fits_int n" for ob ns
    using that
  proof (induction ns arbitrary: ob)
    case (Cons n ns)
    have "add_mode E M ob n k =
        (if k = cs_number E n \<and> m_multiInkParamsByMode M n \<noteq> None then Some (f (the (cs_parseInt E k))) else ob k)"
      using Cons.prems by (auto simp: add_mode_def f_def parse_number split: option.splits)
    then show ?case using Cons.IH [of "add_mode E M ob n"] Cons.prems by auto
  qed simp
  have "\<forall>n \<in> set [4, 5, 6, 7, 8, 10]. fits_int n" by (simp add: fits_int_def int_min_def int_max_def)
  from step [OF this, of Map.empty] show ?thesis
    by (auto simp: modes_object_def f_def isSupportedInkMode_def simp del: foldl_Cons)
qed

lemma mode_number: "isSupportedInkMode n \<Longrightarrow> cs_parseInt E (cs_number E n) = Some n"
  by (rule parse_number) (auto simp: isSupportedInkMode_def fits_int_def int_min_def int_max_def)

lemma mode_number_inject:
  "isSupportedInkMode n \<Longrightarrow> isSupportedInkMode n' \<Longrightarrow> cs_number E n = cs_number E n' \<longleftrightarrow> n = n'"
  by (metis mode_number option.inject)

lemma load_modes_at:
  assumes "\<forall>k \<in> set ks. \<exists>n. isSupportedInkMode n \<and> k = cs_number E n"
  shows "foldl (load_mode E ob) m ks n =
    (if isSupportedInkMode n \<and> cs_number E n \<in> set ks
     then Some (mode_params E n (jsonObjectToVariantMap (cs_json E) (json_obj (ob (cs_number E n))))) else m n)"
  using assms
proof (induction ks arbitrary: m)
  case (Cons k ks)
  obtain n' where n': "isSupportedInkMode n'" "k = cs_number E n'" using Cons.prems by auto
  define entry where "entry n = mode_params E n (jsonObjectToVariantMap (cs_json E) (json_obj (ob (cs_number E n))))" for n
  have l: "load_mode E ob m k = m(n' \<mapsto> entry n')"
    using n' by (simp add: load_mode_def mode_number entry_def)
  have "foldl (load_mode E ob) m (k # ks) n =
      (if isSupportedInkMode n \<and> cs_number E n \<in> set ks then Some (entry n) else load_mode E ob m k n)"
    unfolding entry_def foldl_Cons using Cons.prems by (intro Cons.IH) simp
  also have "\<dots> = (if isSupportedInkMode n \<and> cs_number E n \<in> set (k # ks) then Some (entry n) else m n)"
    unfolding l using mode_number_inject [OF _ n'(1), of n] n' by (cases "n = n'") (simp, simp, blast)
  finally show ?case unfolding entry_def .
qed simp

lemma finite_modes_object: "finite (dom (modes_object E M))"
proof -
  have "finite (dom ob) \<Longrightarrow> finite (dom (foldl (add_mode E M) ob ns))" for ob ns
    by (induction ns arbitrary: ob) (auto simp: add_mode_def split: option.splits)
  then show ?thesis by (simp add: modes_object_def del: foldl_Cons)
qed

lemma modes_object_entry:
  assumes "isSupportedInkMode n" and "m_multiInkParamsByMode M n = Some params"
  shows "modes_object E M (cs_number E n) =
    Some (object_value (variantMapToJsonObject (cs_json E) (clampMapU8 (cs_variant E) (cs_text E) params)))"
proof -
  have "\<exists>n' params. isSupportedInkMode n' \<and> cs_number E n = cs_number E n' \<and> m_multiInkParamsByMode M n' = Some params"
    using assms by blast
  then show ?thesis unfolding modes_object_at mode_number [OF assms(1)] by (simp add: assms(2))
qed

lemma modes_object_key:
  assumes "k \<in> dom (modes_object E M)"
  shows "\<exists>n. isSupportedInkMode n \<and> k = cs_number E n \<and> m_multiInkParamsByMode M n \<noteq> None"
proof (rule ccontr)
  assume "\<not> ?thesis"
  then have "modes_object E M k = None" unfolding modes_object_at by (intro if_not_P) blast
  then show False using assms by (simp add: domIff)
qed

lemma load_modes_again:
  assumes "modes_ok E M"
  shows "load_modes E (json_obj (Some (object_value (modes_object E M)))) n =
    (case m_multiInkParamsByMode M n of
       None \<Rightarrow> None
     | Some params \<Rightarrow> Some (mode_params E n (through_json (cs_json E) (clampMapU8 (cs_variant E) (cs_text E) params))))"
proof -
  define ob where "ob = modes_object E M"
  have fin: "finite (dom ob)" unfolding ob_def by (rule finite_modes_object)
  have keys: "set (keys_in_order ob) = dom ob" by (simp add: keys_in_order_def fin)
  have dom_ob: "\<exists>n. isSupportedInkMode n \<and> k = cs_number E n \<and> m_multiInkParamsByMode M n \<noteq> None" if "k \<in> dom ob" for k
    using that modes_object_key unfolding ob_def by blast
  have "\<forall>k \<in> set (keys_in_order ob). \<exists>n. isSupportedInkMode n \<and> k = cs_number E n"
    unfolding keys using dom_ob by blast
  note l = load_modes_at [OF this, of ob Map.empty n]
  have r: "load_modes E (json_obj (Some (object_value ob))) n =
      (if isSupportedInkMode n \<and> cs_number E n \<in> dom ob
       then Some (mode_params E n (jsonObjectToVariantMap (cs_json E) (json_obj (ob (cs_number E n))))) else None)"
    unfolding map_of_object [OF fin] load_modes_def l keys by (rule refl)
  show ?thesis
  proof (cases "m_multiInkParamsByMode M n")
    case None
    have "\<not> (isSupportedInkMode n \<and> cs_number E n \<in> dom ob)"
    proof
      assume a: "isSupportedInkMode n \<and> cs_number E n \<in> dom ob"
      then obtain n' where n': "isSupportedInkMode n'" "cs_number E n = cs_number E n'" "m_multiInkParamsByMode M n' \<noteq> None"
        using dom_ob by blast
      then have "n = n'" using a mode_number_inject [of n n'] by simp
      then show False using n'(3) None by simp
    qed
    then show ?thesis unfolding ob_def [symmetric] r if_not_P None by simp
  next
    case (Some params)
    then have n: "isSupportedInkMode n" "finite (dom params)" using assms unfolding modes_ok_def by blast+
    define params' where "params' = variantMapToJsonObject (cs_json E) (clampMapU8 (cs_variant E) (cs_text E) params)"
    have "ob (cs_number E n) = Some (object_value params')"
      unfolding ob_def params'_def by (rule modes_object_entry [OF n(1) Some])
    moreover have "finite (dom params')" unfolding params'_def using n(2) by (simp add: finite_clampMapU8)
    ultimately have "json_obj (ob (cs_number E n)) = params'" "cs_number E n \<in> dom ob"
      using map_of_object [of params'] by (simp_all add: domI del: json_obj.simps)
    then have "load_modes E (json_obj (Some (object_value ob))) n = Some (mode_params E n (jsonObjectToVariantMap (cs_json E) params'))"
      unfolding r using n(1) by simp
    then show ?thesis unfolding ob_def params'_def through_json_def Some option.case .
  qed
qed

lemma param_again:
  assumes ok: "ink_ok (cs_variant E) (cs_text E) params" and d: "dom (mode_defaults E n) \<subseteq> dom params"
    and k: "k \<in> set ink_keys"
  shows "mode_params E n (through_json (cs_json E) (clampMapU8 (cs_variant E) (cs_text E) params)) k = params k"
proof (cases "params k")
  case (Some v)
  then have p: "param_ok (cs_variant E) (cs_text E) k v" using ok by (simp add: ink_ok_def)
  have "(mode_defaults E n ++ through_json (cs_json E) (clampMapU8 (cs_variant E) (cs_text E) params)) k =
      Some (toVariant (cs_json E) (fromVariant (cs_json E) v))"
    using Some norm_param_same(1) [OF p k] by (simp add: map_add_def through_json_at clampMapU8_at)
  then show ?thesis using Some norm_param_same(2) [OF p k] by (simp add: mode_params_def clampMapU8_at)
next
  case None
  have "{''whiteMaskKey'', ''varnishMaskKey''} \<subseteq> dom (mode_defaults E n)"
    by (simp add: mode_defaults_def defaultMultiInkParamsForMode_def Let_def dom_clampMapU8)
  then have "k \<notin> {''whiteMaskKey'', ''varnishMaskKey''}" "mode_defaults E n k = None" using d None by auto
  then show ?thesis using None by (simp add: mode_params_def clampMapU8_none map_add_def through_json_at)
qed

section \<open>A loaded file\<close>

lemma loaded_fields:
  fixes M N :: "('v, 'd) color_manager"
  defines "L \<equiv> load_object E (settings_object E M) N"
  assumes ok: "settings_ok E M"
  shows "same_scalars L M"
    and "m_printerOutputProfiles L = m_printerOutputProfiles M"
    and "m_familyDefaultOutputProfiles L = m_familyDefaultOutputProfiles M"
    and "m_familyDefaultLinearizationPaths L = m_familyDefaultLinearizationPaths M"
    and "m_printerFamilyOutputProfiles L =
      load_printer_maps E (json_obj (Some (object_value (nested_object E (m_printerFamilyOutputProfiles M)))))"
    and "m_printerFamilyLinearizationPaths L =
      load_printer_maps E (json_obj (Some (object_value (nested_object E (m_printerFamilyLinearizationPaths M)))))"
    and "m_multiInkParamsByMode L = load_modes E (json_obj (Some (object_value (modes_object E M))))"
    and "m_directPrintSettings L = normalizedDirectPrintSettings (cs_variant E) (cs_text E)
      (through_json (cs_json E) (normalizedDirectPrintSettings (cs_variant E) (cs_text E) (m_directPrintSettings M)))"
proof -
  have "levels_ok M" "texts_ok E M" and maps: "maps_ok E M"
    using ok by (simp_all add: settings_ok_def)
  then have lv: "m_minInkThreshold M \<in> {0..255}" "m_smallDotThreshold M \<in> {0..255}" "m_medDotThreshold M \<in> {0..255}"
      "m_floorRangeCMY M \<in> {0..64}" "m_floorMaxCMY M \<in> {0..8}" "m_floorRangeK M \<in> {0..64}" "m_floorMaxK M \<in> {0..8}"
    and tx: "normalizedPrinterName (cs_text E) (m_selectedPrinter M) = m_selectedPrinter M"
      "outputModeOf (cs_text E) (m_multiInkOutputMode M) = m_multiInkOutputMode M"
      "trimmed (cs_text E) (m_linearizationPresetName M) = m_linearizationPresetName M"
      "trimmed (cs_text E) (m_linearizationDataPath M) = m_linearizationDataPath M"
      "trimmed (cs_text E) (m_directPrintSdkRootPath M) = m_directPrintSdkRootPath M"
      "trimmed (cs_text E) (m_multiInkDirectPrintSdkRootPath M) = m_multiInkDirectPrintSdkRootPath M"
    by (auto simp: levels_ok_def texts_ok_def Let_def)
  have level: "clamp (json_int d (Some (JNum (of_int x)))) 0 hi = x" if "x \<in> {0..hi}" "hi \<le> 255" for x hi d
  proof -
    have "fits_int x" using that by (simp add: fits_int_def int_min_def int_max_def)
    then show ?thesis using that by (simp add: json_int_of_int clamp_def del: json_int.simps)
  qed
  show "same_scalars L M"
    using lv unfolding same_scalars_def L_def load_object_def load_direct_def load_maps_def Let_def
    by (simp add: settings_object_at level tx del: json_int.simps)
  show "m_printerOutputProfiles L = m_printerOutputProfiles M"
    using maps by (simp add: L_def load_object_def load_maps_def settings_maps_at maps_ok_def load_printer_texts_again
        Let_def del: json_obj.simps)
  show "m_familyDefaultOutputProfiles L = m_familyDefaultOutputProfiles M"
    "m_familyDefaultLinearizationPaths L = m_familyDefaultLinearizationPaths M"
    using maps by (simp_all add: L_def load_object_def load_maps_def settings_maps_at maps_ok_def load_texts_again
        Let_def del: json_obj.simps)
  show "m_printerFamilyOutputProfiles L =
      load_printer_maps E (json_obj (Some (object_value (nested_object E (m_printerFamilyOutputProfiles M)))))"
    "m_printerFamilyLinearizationPaths L =
      load_printer_maps E (json_obj (Some (object_value (nested_object E (m_printerFamilyLinearizationPaths M)))))"
    "m_multiInkParamsByMode L = load_modes E (json_obj (Some (object_value (modes_object E M))))"
    by (simp_all add: L_def load_object_def load_maps_def settings_maps_at Let_def del: json_obj.simps)
  have "finite (dom (variantMapToJsonObject (cs_json E)
      (normalizedDirectPrintSettings (cs_variant E) (cs_text E) (m_directPrintSettings M))))"
    using ok by (simp add: settings_ok_def direct_settings_ok_def finite_normalized)
  note map_of_object [OF this]
  then show "m_directPrintSettings L = normalizedDirectPrintSettings (cs_variant E) (cs_text E)
      (through_json (cs_json E) (normalizedDirectPrintSettings (cs_variant E) (cs_text E) (m_directPrintSettings M)))"
    by (simp add: L_def load_object_def load_maps_def load_direct_def settings_maps_at Let_def through_json_def
        del: json_obj.simps)
qed

lemma nested_paths_again:
  assumes m: "nested_map_ok E m" and m': "m' = load_printer_maps E (json_obj (Some (object_value (nested_object E m))))"
  shows "printer_family_path E m' p f = printer_family_path E m p f"
    and "effective_path E m' defaults fallback p n = effective_path E m defaults fallback p n"
  using family_text_again [OF m m' [unfolded load_printer_maps_again [OF m]]]
  by (simp_all add: printer_family_path_def effective_path_def Let_def)

lemma loaded_direct:
  assumes "settings_ok E M" and "k \<in> set (''selectedPrinterName'' # direct_int_keys)"
  shows "directPrintSetting E k (load_object E (settings_object E M) N) = directPrintSetting E k M"
proof -
  let ?n = "normalizedDirectPrintSettings (cs_variant E) (cs_text E)"
  let ?a = "?n (m_directPrintSettings M)" and ?b = "?n (through_json (cs_json E) (?n (m_directPrintSettings M)))"
  have "direct_ok (cs_variant E) (cs_text E) ?a" "direct_ok (cs_variant E) (cs_text E) ?b"
    by (simp_all add: normalized_ok trimmed_twice)
  then have "?b k = ?a k" "?n ?b k = ?b k" using assms(2) by (simp_all only: normalized_json normalized_idem)
  then show ?thesis
    by (simp add: directPrintSetting_def directPrintSettings_def loaded_fields(8) [OF assms(1)] valueAt_def mapValue_def)
qed

lemma loaded_param:
  assumes "settings_ok E M" and "k \<in> set ink_keys"
  shows "getMultiInkParam E n k (load_object E (settings_object E M) N) = getMultiInkParam E n k M"
proof (cases "m_multiInkParamsByMode M n")
  case None
  then show ?thesis
    using assms(1) by (simp add: getMultiInkParam_def getMultiInkParams_def loaded_fields(7) [OF assms(1)] load_modes_again
        settings_ok_def del: json_obj.simps)
next
  case (Some params)
  then have "ink_ok (cs_variant E) (cs_text E) params" "dom (mode_defaults E n) \<subseteq> dom params" "isSupportedInkMode n"
    using assms(1) unfolding settings_ok_def modes_ok_def by blast+
  then show ?thesis
    using param_again [OF _ _ assms(2), of params n] assms(1) Some
    by (simp add: getMultiInkParam_def getMultiInkParams_def loaded_fields(7) [OF assms(1)] load_modes_again
        settings_ok_def valueAt_def mapValue_def del: json_obj.simps)
qed

end

section \<open>Reachable settings\<close>

text \<open>Everything the interface of the manager can do to it, and changes of the disk from outside.\<close>

inductive managed :: "('v, 'd) color_env \<Rightarrow> ('v, 'd) color_manager \<Rightarrow> bool" for E where
  opened: "managed E (open_manager E d)"
| disk_changed: "managed E M \<Longrightarrow> managed E (M\<lparr>settingsDisk := d\<rparr>)"
| saves: "managed E M \<Longrightarrow> managed E (saved E M)"
| loads: "managed E M \<Longrightarrow> managed E (snd (load_settings E M))"
| resets: "managed E M \<Longrightarrow> managed E (resetToDefaults E M)"
| printer: "managed E M \<Longrightarrow> managed E (setSelectedPrinter E p M)"
| default_input: "managed E M \<Longrightarrow> managed E (setDefaultInputProfile p M)"
| default_output: "managed E M \<Longrightarrow> managed E (setDefaultOutputProfile p M)"
| printer_output: "managed E M \<Longrightarrow> managed E (setPrinterOutputProfile E p q M)"
| ink_output_mode: "managed E M \<Longrightarrow> managed E (setMultiInkOutputMode E p M)"
| sdk_root: "managed E M \<Longrightarrow> managed E (setDirectPrintSdkRootPath E p M)"
| multi_sdk_root: "managed E M \<Longrightarrow> managed E (setMultiInkDirectPrintSdkRootPath E p M)"
| direct_settings: "managed E M \<Longrightarrow> finite (dom m) \<Longrightarrow> managed E (setDirectPrintSettings E m M)"
| direct_setting: "managed E M \<Longrightarrow> managed E (setDirectPrintSetting E k v M)"
| family_output: "managed E M \<Longrightarrow> managed E (setFamilyDefaultOutputProfile E f p M)"
| printer_family_output: "managed E M \<Longrightarrow> managed E (setPrinterFamilyOutputProfile E pr f p M)"
| family_linearization: "managed E M \<Longrightarrow> managed E (setFamilyDefaultLinearizationPath E f p M)"
| printer_family_linearization: "managed E M \<Longrightarrow> managed E (setPrinterFamilyLinearizationPath E pr f p M)"
| min_ink: "managed E M \<Longrightarrow> managed E (setMinInkThreshold n M)"
| small_dot: "managed E M \<Longrightarrow> managed E (setSmallDotThreshold n M)"
| med_dot: "managed E M \<Longrightarrow> managed E (setMedDotThreshold n M)"
| promotion: "managed E M \<Longrightarrow> managed E (setEnablePromotion b M)"
| floor_range_cmy: "managed E M \<Longrightarrow> managed E (setFloorRangeCMY n M)"
| floor_max_cmy: "managed E M \<Longrightarrow> managed E (setFloorMaxCMY n M)"
| floor_range_k: "managed E M \<Longrightarrow> managed E (setFloorRangeK n M)"
| floor_max_k: "managed E M \<Longrightarrow> managed E (setFloorMaxK n M)"
| dot_swap: "managed E M \<Longrightarrow> managed E (setEnableDotSwap b M)"
| linearization: "managed E M \<Longrightarrow> managed E (setLinearizationEnabled b M)"
| preset_name: "managed E M \<Longrightarrow> managed E (setLinearizationPresetName E p M)"
| data_path: "managed E M \<Longrightarrow> managed E (setLinearizationDataPath E p M)"
| ink_params: "managed E M \<Longrightarrow> finite (dom m) \<Longrightarrow> managed E (setMultiInkParams E n m M)"
| ink_param: "managed E M \<Longrightarrow> managed E (setMultiInkParam E n k v M)"

context color_laws
begin

lemma managed_settings_ok: "managed E M \<Longrightarrow> settings_ok E M"
  by (induction rule: managed.induct)
    (simp_all add: open_manager_ok load_settings_ok resetToDefaults_ok setters_ok family_setters_ok setting_ok
      setDirectPrintSettings_ok setMultiInkParams_ok)

lemma settings_in_range:
  assumes "managed E M"
  shows "levels_ok M \<and>
    (\<forall>(k, lo, hi) \<in> set ((''eclosionGrade'', 1, 3) # direct_ranges).
       \<exists>x. directPrintSettings E M k = Some (ofInt (cs_variant E) x) \<and> lo \<le> x \<and> x \<le> hi) \<and>
    (\<forall>n. ink_ok (cs_variant E) (cs_text E) (getMultiInkParams E n M))"
proof (intro conjI)
  have ok: "settings_ok E M" using assms by (rule managed_settings_ok)
  then show "levels_ok M" by (simp add: settings_ok_def)
  have "direct_ok (cs_variant E) (cs_text E) (directPrintSettings E M)"
    by (simp add: directPrintSettings_def normalized_ok trimmed_twice)
  then show "\<forall>(k, lo, hi) \<in> set ((''eclosionGrade'', 1, 3) # direct_ranges).
      \<exists>x. directPrintSettings E M k = Some (ofInt (cs_variant E) x) \<and> lo \<le> x \<and> x \<le> hi"
    unfolding direct_ok_def by blast
  show "\<forall>n. ink_ok (cs_variant E) (cs_text E) (getMultiInkParams E n M)"
  proof
    fix n
    show "ink_ok (cs_variant E) (cs_text E) (getMultiInkParams E n M)"
    proof (cases "m_multiInkParamsByMode M n")
      case None
      then show ?thesis by (simp add: getMultiInkParams_def mode_params_ok) (simp add: ink_ok_def)
    next
      case (Some params)
      then show ?thesis using ok unfolding settings_ok_def modes_ok_def getMultiInkParams_def
        by (simp add: ink_ok_def)
    qed
  qed
qed

lemma saved_settings_return:
  assumes r: "reliable_disk (cs_disk E) contents" and M: "managed E M"
    and N: "contents (settingsDisk N) (settingsPath E) = contents (settingsDisk (snd (save_settings E M))) (settingsPath E)"
  shows "fst (save_settings E M) \<and> fst (load_settings E N) \<and> same_settings E (snd (load_settings E N)) M"
proof -
  have ok: "settings_ok E M" using M by (rule managed_settings_ok)
  then have maps: "nested_map_ok E (m_printerFamilyOutputProfiles M)" "nested_map_ok E (m_printerFamilyLinearizationPaths M)"
    by (simp_all add: settings_ok_def maps_ok_def)
  have s: "fst (save_settings E M)" by (rule save_succeeds [OF r])
  then have "contents (settingsDisk N) (settingsPath E) = Some (printJson (cs_json E) (object_value (settings_object E M)))"
    unfolding N by (intro saved_document) (simp add: prod_eq_iff)
  then obtain N' where l: "load_settings E N = (True, load_object E (settings_object E M) N')"
    using load_document [OF r _ finite_settings_object] by blast
  note f = loaded_fields [OF ok, of N']
  have e: "effectiveOutputProfile E (load_object E (settings_object E M) N') = effectiveOutputProfile E M"
  proof -
    have "m_selectedPrinter (load_object E (settings_object E M) N') = m_selectedPrinter M"
      "m_defaultOutputProfile (load_object E (settings_object E M) N') = m_defaultOutputProfile M"
      using f(1) by (simp_all add: same_scalars_def)
    then show ?thesis unfolding effectiveOutputProfile_def by (simp only: f(2))
  qed
  have "same_settings E (load_object E (settings_object E M) N') M"
    unfolding same_settings_def
    using f(1) unfolding same_scalars_def
    by (simp add: e printerOutputProfile_def familyDefaultOutputProfile_def
        familyDefaultLinearizationPath_def printerFamilyOutputProfile_def printerFamilyLinearizationPath_def
        effectiveOutputProfileForPrinterAndInkMode_def effectiveLinearizationPathForPrinterAndInkMode_def
        f(2-4) nested_paths_again [OF maps(1) f(5)] nested_paths_again [OF maps(2) f(6)]
        loaded_direct [OF ok] loaded_param [OF ok] del: json_obj.simps)
  with s l show ?thesis by simp
qed

section \<open>Overrides of a printer\<close>

lemma override_takes_effect:
  assumes nm: "nested_map_ok E m" and s: "set_printer_family_path E p f path m = Some m'"
  shows "normalizedPrinterName (cs_text E) p' = normalizedPrinterName (cs_text E) p \<Longrightarrow>
      familyKeyForInkMode n = family_key E f \<Longrightarrow> trimmed (cs_text E) path \<noteq> [] \<Longrightarrow>
      effective_path E m' defaults fallback p' n = trimmed (cs_text E) path"
    and "normalizedPrinterName (cs_text E) p' \<noteq> normalizedPrinterName (cs_text E) p \<or> familyKeyForInkMode n \<noteq> family_key E f \<Longrightarrow>
      effective_path E m' defaults fallback p' n = effective_path E m defaults fallback p' n"
proof -
  let ?k = "normalizedPrinterName (cs_text E) p"
  have k: "?k \<noteq> []" "isSupportedFamilyKey (family_key E f)"
    and m': "m' = m(?k \<mapsto> ofMap (cs_variant E) ((family_map (cs_variant E) m ?k)
      (family_key E f \<mapsto> ofStr (cs_variant E) (trimmed (cs_text E) path))))"
    using s by (auto simp: set_printer_family_path_def Let_def split: if_splits)
  have t: "text_at (cs_variant E) (family_map (cs_variant E) m' q) g =
      (if q = ?k \<and> g = family_key E f then trimmed (cs_text E) path
       else text_at (cs_variant E) (family_map (cs_variant E) m q) g)" for q g
    by (auto simp: m' family_map_def text_at_def valueAt_def mapValue_def qv.toMap_ofMap qv.toStr_ofStr)
  show "normalizedPrinterName (cs_text E) p' = ?k \<Longrightarrow>
      familyKeyForInkMode n = family_key E f \<Longrightarrow> trimmed (cs_text E) path \<noteq> [] \<Longrightarrow>
      effective_path E m' defaults fallback p' n = trimmed (cs_text E) path"
    using k by (auto simp: effective_path_def Let_def t trimmed_twice isSupportedFamilyKey_def)
  show "normalizedPrinterName (cs_text E) p' \<noteq> ?k \<or> familyKeyForInkMode n \<noteq> family_key E f \<Longrightarrow>
      effective_path E m' defaults fallback p' n = effective_path E m defaults fallback p' n"
    by (auto simp: effective_path_def Let_def t)
qed

lemma override_after_set:
  assumes nm: "nested_map_ok E m" and p: "normalizedPrinterName (cs_text E) printer \<noteq> []"
    and f: "isSupportedFamilyKey (family_key E family)" and path: "trimmed (cs_text E) path \<noteq> []"
  shows "effective_path E (case set_printer_family_path E printer family path m of None \<Rightarrow> m | Some m' \<Rightarrow> m') defaults fallback p n =
    (if normalizedPrinterName (cs_text E) p = normalizedPrinterName (cs_text E) printer \<and>
        familyKeyForInkMode n = family_key E family
     then trimmed (cs_text E) path else effective_path E m defaults fallback p n)"
proof (cases "set_printer_family_path E printer family path m")
  case None
  then have "text_at (cs_variant E) (family_map (cs_variant E) m (normalizedPrinterName (cs_text E) printer)) (family_key E family) =
      trimmed (cs_text E) path"
    using p f by (auto simp: set_printer_family_path_def Let_def split: if_splits)
  then show ?thesis
    using None p f path by (auto simp: effective_path_def Let_def trimmed_twice isSupportedFamilyKey_def)
next
  case (Some m')
  show ?thesis using override_takes_effect [OF nm Some] path by (simp add: Some)
qed

end

end
