(* ===== verification/Demo_Settings.thy ===== *)
theory Demo_Settings
  imports Color_Storage Variant_Codec Direct_Dispatch
begin

text \<open>
  Concrete text, number and JSON operations with a disk in memory: they meet the laws the color
  manager relies on, which the interpretation at the end discharges.
\<close>

section \<open>Texts and numbers\<close>

definition blank_end :: "char \<Rightarrow> bool" where
  "blank_end c \<longleftrightarrow> (of_char c :: nat) < 33"

definition plain_trim :: "string \<Rightarrow> string" where
  "plain_trim s = rev (dropWhile blank_end (rev (dropWhile blank_end s)))"

lemma plain_trim_ends: "plain_trim s = [] \<or> \<not> blank_end (hd (plain_trim s)) \<and> \<not> blank_end (last (plain_trim s))"
proof (cases "plain_trim s = []")
  case False
  define t where "t = dropWhile blank_end s"
  have p: "plain_trim s = rev (dropWhile blank_end (rev t))" by (simp add: plain_trim_def t_def)
  then have n: "dropWhile blank_end (rev t) \<noteq> []" using False by simp
  then have "t \<noteq> []" by auto
  then have h: "\<not> blank_end (hd t)" unfolding t_def by (rule hd_dropWhile)
  have "last (plain_trim s) = hd (dropWhile blank_end (rev t))" using n by (simp add: p last_rev)
  moreover have "hd (plain_trim s) = hd t"
  proof -
    obtain u where "rev t = u @ dropWhile blank_end (rev t)" by (metis takeWhile_dropWhile_id)
    then have "t = rev (dropWhile blank_end (rev t)) @ rev u" by (metis rev_append rev_rev_ident)
    then show ?thesis using n p by (metis hd_append2 rev_is_Nil_conv)
  qed
  ultimately show ?thesis using h n hd_dropWhile [OF n] by simp
qed simp

lemma plain_trim_same: "s = [] \<or> \<not> blank_end (hd s) \<and> \<not> blank_end (last s) \<Longrightarrow> plain_trim s = s"
proof (cases s)
  case (Cons c t)
  assume "s = [] \<or> \<not> blank_end (hd s) \<and> \<not> blank_end (last s)"
  then have e: "\<not> blank_end (hd s)" "\<not> blank_end (hd (rev s))" and s: "s \<noteq> []"
    using Cons by (simp_all only: hd_rev) simp_all
  then have "dropWhile blank_end s = s" by (simp add: Cons)
  moreover have "dropWhile blank_end (rev s) = rev s" using e(2) s by (cases "rev s") auto
  ultimately show ?thesis by (simp add: plain_trim_def)
qed (simp add: plain_trim_def)

definition digit_of :: "char \<Rightarrow> nat" where
  "digit_of c = of_char c - 48"

definition digits_value :: "string \<Rightarrow> nat" where
  "digits_value s = foldl (\<lambda>a c. 10 * a + digit_of c) 0 s"

lemma digit_of_digit: "d < 10 \<Longrightarrow> digit_of (''0123456789ABCDEF'' ! d) = d \<and> ''0123456789ABCDEF'' ! d \<noteq> CHR ''-''"
  by (auto simp: numeral_eq_Suc less_Suc_eq digit_of_def)

lemma number_text_value: "digits_value (number_text 10 n) = n \<and> (\<forall>c \<in> set (number_text 10 n). c \<noteq> CHR ''-'')"
proof (induction n rule: less_induct)
  case (less n)
  show ?case
  proof (cases "n < 10")
    case True
    then show ?thesis using digit_of_digit [OF True] by (simp add: number_text.simps [of 10 n] digits_value_def)
  next
    case False
    then have "n div 10 < n" by simp
    note ih = less.IH [OF this]
    have d: "n mod 10 < 10" by simp
    have "number_text 10 n = number_text 10 (n div 10) @ [''0123456789ABCDEF'' ! (n mod 10)]"
      using False by (simp add: number_text.simps [of 10 n])
    then show ?thesis using ih digit_of_digit [OF d] by (auto simp: digits_value_def)
  qed
qed

definition plain_number :: "int \<Rightarrow> string" where
  "plain_number x = (if x < 0 then CHR ''-'' # number_text 10 (nat (- x)) else number_text 10 (nat x))"

definition plain_parse_int :: "string \<Rightarrow> int option" where
  "plain_parse_int s =
     (case s of
        [] \<Rightarrow> None
      | c # cs \<Rightarrow> Some (if c = CHR ''-'' then - int (digits_value cs) else int (digits_value s)))"

lemma number_text_nonempty: "number_text 10 n \<noteq> []"
  by (simp add: number_text.simps [of 10 n])

lemma parse_plain_number: "plain_parse_int (plain_number x) = Some x"
proof (cases "x < 0")
  case True
  then show ?thesis using number_text_value [of "nat (- x)"] by (simp add: plain_parse_int_def plain_number_def)
next
  case False
  obtain c cs where c: "number_text 10 (nat x) = c # cs" 
    using number_text_nonempty [of "nat x"] by (meson neq_Nil_conv)
  then have "digits_value (c # cs) = nat x" "c \<noteq> CHR ''-''" using number_text_value [of "nat x"] by auto
  then show ?thesis using False c by (simp add: plain_parse_int_def plain_number_def)
qed

section \<open>JSON\<close>

primrec plain_json :: "variant \<Rightarrow> json" where
  "plain_json VInvalid = JNull"
| "plain_json (VInt x) = JNum (of_int x)"
| "plain_json (VULong w) = JNum (of_int (uint w))"
| "plain_json (VDouble r) = JNum r"
| "plain_json (VBool b) = JBool b"
| "plain_json (VStr s) = JStr s"
| "plain_json (VBytes bs) = JStr (map (\<lambda>x. char_of (unat x)) bs)"
| "plain_json (VList vs) = JArr (map plain_json vs)"
| "plain_json (VMap f) =
     JObj (map (\<lambda>k. (k, the ((map_option plain_json \<circ> f) k))) (sorted_list_of_set (dom f)))"

primrec variant_of_json :: "json \<Rightarrow> variant" where
  "variant_of_json JNull = VInvalid"
| "variant_of_json (JBool b) = VBool b"
| "variant_of_json (JNum r) = (if r = of_int \<lfloor>r\<rfloor> \<and> fits_int \<lfloor>r\<rfloor> then VInt \<lfloor>r\<rfloor> else VDouble r)"
| "variant_of_json (JStr s) = VStr s"
| "variant_of_json (JArr l) = VList (map variant_of_json l)"
| "variant_of_json (JObj l) = VMap (map_of (map (map_prod id variant_of_json) l))"

text \<open>A document as bytes: the encoding of variants, with a mark for arrays and objects.\<close>

primrec pack_json :: "json \<Rightarrow> variant" where
  "pack_json JNull = VInvalid"
| "pack_json (JBool b) = VBool b"
| "pack_json (JNum r) = VDouble r"
| "pack_json (JStr s) = VStr s"
| "pack_json (JArr l) = VList (VInvalid # map pack_json l)"
| "pack_json (JObj l) = VList (VBool True # map (\<lambda>(k, v). VList [VStr k, v]) (map (map_prod id pack_json) l))"

fun unpack_json :: "variant \<Rightarrow> json" where
  "unpack_json (VBool b) = JBool b"
| "unpack_json (VDouble r) = JNum r"
| "unpack_json (VStr s) = JStr s"
| "unpack_json (VList (VInvalid # vs)) = JArr (map unpack_json vs)"
| "unpack_json (VList (VBool b # vs)) = JObj (map (\<lambda>v. case v of VList [VStr k, w] \<Rightarrow> (k, unpack_json w) | _ \<Rightarrow> ([], JNull)) vs)"
| "unpack_json _ = JNull"

lemma unpack_pack: "unpack_json (pack_json j) = j"
proof (induction j)
  case (JArr l)
  then show ?case by (simp add: map_idI)
next
  case (JObj l)
  have "(k, unpack_json (pack_json v)) = (k, v)" if "(k, v) \<in> set l" for k v using that JObj by force
  then show ?case by (simp add: comp_def case_prod_beta) (rule map_idI, auto)
qed simp_all

lemma finite_pack: "finite_variant (pack_json j)"
  by (induction j) (force simp: list_all_iff)+

definition json_bytes :: "json \<Rightarrow> bytes" where
  "json_bytes j = encode_variant (pack_json j)"

definition json_from_bytes :: "bytes \<Rightarrow> json option" where
  "json_from_bytes b = (case decode_variant (Suc (length b)) b of Some (v, []) \<Rightarrow> Some (unpack_json v) | _ \<Rightarrow> None)"

lemma json_bytes_return: "json_from_bytes (json_bytes j) = Some j"
  using decode_encode_variant [OF finite_pack order_refl, of j "[]"]
  by (simp add: json_from_bytes_def json_bytes_def unpack_pack del: decode_variant.simps)

section \<open>The environment\<close>

definition plain_text :: qtext where
  "plain_text = \<lparr>trimmed = plain_trim, toLower = map lower_char, splitWhitespace = (\<lambda>s. [s]), parseDouble = (\<lambda>s. None)\<rparr>"

definition plain_upper :: "string \<Rightarrow> string" where
  "plain_upper = map (\<lambda>c. if 97 \<le> (of_char c :: nat) \<and> (of_char c :: nat) \<le> 122 then char_of (of_char c - 32 :: nat) else c)"

definition demo_colors :: "(variant, files) color_env" where
  "demo_colors =
     \<lparr>cs_variant = plain_variant,
      cs_text = plain_text,
      cs_json = \<lparr>fromVariant = plain_json, toVariant = variant_of_json, printJson = json_bytes, parseJson = json_from_bytes\<rparr>,
      cs_disk = memory_disk, cs_dataDir = ''data'',
      cs_upper = plain_upper,
      cs_number = plain_number, cs_parseInt = plain_parse_int, cs_same = (\<lambda>m m'. m = m')\<rparr>"

lemma demo_colors_select [simp]:
  "cs_variant demo_colors = plain_variant" "cs_text demo_colors = plain_text" "cs_upper demo_colors = plain_upper"
  "trimmed plain_text = plain_trim" "toLower plain_text = map lower_char" "fromVariant (cs_json demo_colors) = plain_json"
  "toVariant (cs_json demo_colors) = variant_of_json" "printJson (cs_json demo_colors) = json_bytes"
  "parseJson (cs_json demo_colors) = json_from_bytes" "cs_disk demo_colors = memory_disk"
  "cs_number demo_colors = plain_number" "cs_parseInt demo_colors = plain_parse_int"
  "cs_same demo_colors m m' \<longleftrightarrow> m = m'"
  by (simp_all add: demo_colors_def plain_text_def)

lemma plain_variant_select:
  "toInt plain_variant = variant_int" "toBool plain_variant = variant_bool" "toStr plain_variant = variant_str"
  "toMap plain_variant = variant_map" "ofInt plain_variant = VInt" "ofBool plain_variant = VBool"
  "ofStr plain_variant = VStr" "invalid plain_variant = VInvalid"
  by (simp_all add: plain_variant_def)

lemma plain_text_again: "variant_str (variant_of_json (plain_json (variant_of_json j))) = variant_str (variant_of_json j)"
  by (cases j) auto

interpretation demo_manager: color_laws demo_colors "\<lambda>d. d"
proof (rule color_laws.intro)
  fix s :: string
  show "trimmed (cs_text demo_colors) (trimmed (cs_text demo_colors) s) = trimmed (cs_text demo_colors) s"
    using plain_trim_same plain_trim_ends by simp
  show "s = [] \<or> printable (hd s) \<and> printable (last s) \<Longrightarrow> trimmed (cs_text demo_colors) s = s"
    using plain_trim_same [of s] by (auto simp: printable_def blank_end_def)
qed (auto simp: plain_variant_select json_bytes_return plain_text_again parse_plain_number sint_cast32
    plain.qvariant_laws_axioms mem.disk_laws_axioms)

end
