(* ===== verification/Spec2Isabelle.thy ===== *)
theory Spec2Isabelle
  imports Demo_Service Demo_Settings
begin

text \<open>
  Verification of the PrintFlow raster image processor (RIP) and its printer service.

  \<^bold>\<open>The program.\<close> PrintFlow turns an image into ink. A job (\<open>src/src/rip/PrintJobMultiInk.cpp\<close> for the
  inkjet boards, \<open>src/src/rip/PrintJobCMYK.cpp\<close> for the X-33) scales the page to the printer's resolution,
  separates it into CMYK, builds one tone plane per ink, screens every plane against a mask into dots of
  four sizes, packs four dots into a byte and stores the packed lines in a raster spool, a file with a
  4096-byte header and a checksum. Two backends do this: one holds the whole page in memory, one streams
  strips through a canonical CMYK file; the page size decides, and the bounded one takes over when the
  first fails. A finished spool becomes a print file (\<open>NocaiPrnWriter.cpp\<close>), or it goes to the printer: the
  client (\<open>PrinterServiceClient.cpp\<close>) uploads it in chunks to the printer service
  (\<open>PrinterServiceServer.cpp\<close>), which verifies it and hands it to the driver
  (\<open>NocaiDirectPrintClient.cpp\<close>), and the driver sends it line by line through the vendor's SDK.

  \<^bold>\<open>Theories.\<close> File names are relative to \<open>src/src\<close>; definitions keep the names of the functions they
  translate, steps of a long function have names of their own, and state is passed explicitly.

  \<^item> \<open>Rip_Prelude\<close>, \<open>Ieee_Arith\<close>: results, folds with failure, lists and words; rational arithmetic rounded
    to binary32 and binary64 after every operation.
  \<^item> \<open>Qt_Variant\<close>, \<open>Qt_Disk\<close>, \<open>Qt_Stream\<close>, \<open>Variant_Codec\<close>: the interfaces of \<open>QVariantMap\<close>, \<open>QFile\<close> and
    \<open>QDataStream\<close> as locales, each interpreted on a concrete model.
  \<^item> \<open>Dot_Packing\<close>, \<open>Dot_Screen\<close>, \<open>Screen_Engine\<close>: \<open>rip/MultiInkScreenEngine.cpp\<close>. \<open>Strip_Pipeline\<close>,
    \<open>Raster_Budget\<close>: screening by strips, memory and storage planning of
    \<open>rip/BoundedRasterPipeline.cpp\<close>. \<open>Canonical_Cmyk\<close>: its canonical file and \<open>rip/RasterAlphaMask.cpp\<close>.
    \<open>Strip_Equivalence\<close>, \<open>Raster_Agreement\<close>, \<open>Canonical_Laws\<close>: the two screeners agree.
  \<^item> \<open>Raster_Spool\<close>, \<open>Spool_Laws\<close>, \<open>Raster_Delivery\<close>: \<open>core/RasterSpool.cpp\<close>, and what a finished spool holds.
  \<^item> \<open>Prn_Writer\<close>, \<open>Prn_Laws\<close>, \<open>Prn_Delivery\<close>: \<open>vendor/nocai/NocaiPrnWriter.cpp\<close>.
  \<^item> \<open>Linearization\<close>, \<open>Tone_Builder\<close>, \<open>Tone_Laws\<close>: \<open>rip/MultiInkLinearization.cpp\<close>,
    \<open>rip/MultiInkToneBuilder.cpp\<close>, \<open>rip/X33WhiteToneBuilder.cpp\<close>.
  \<^item> \<open>Raster_Job\<close>, \<open>Multi_Ink_Job\<close>, \<open>X33_Job\<close> with their \<open>_Laws\<close> and \<open>_Delivery\<close> theories: the jobs, from the size
    of the page to the print file.
  \<^item> \<open>Service_Protocol\<close>, \<open>Service_Protocol_Laws\<close>: \<open>printerservice/PrinterServiceProtocol.cpp\<close>.
    \<open>Service_Server\<close>, \<open>Server_Laws\<close>: the service; its state is the record \<open>server\<close>, its behaviour the step
    relation \<open>service_step\<close>. \<open>Service_Client\<close>, \<open>Client_Actions\<close>: the client.
    \<open>Upload_Delivery\<close>: client and service together.
  \<^item> \<open>Direct_Print\<close>, \<open>Direct_Job\<close>, \<open>Direct_Maintenance\<close>, \<open>Direct_Dispatch\<close>: the driver; its state is the record
    \<open>direct\<close>, the vendor library the record \<open>sdk\<close> of functions on an arbitrary type. \<open>Direct_Log\<close>,
    \<open>Direct_Laws\<close>, \<open>Direct_Delivery\<close>, \<open>Maintenance_Laws\<close>: what the library is asked to do, by a log of its calls.
    \<open>Print_Delivery\<close>: from the upload to the calls of the library.
  \<^item> \<open>Color_Manager\<close>: \<open>core/ColorManagementManager.cpp\<close>; its state is the record \<open>color_manager\<close>, whose fields are the
    members of the class. \<open>Color_Laws\<close>: its invariant, \<open>Color_Storage\<close>: its settings file.
  \<^item> \<open>Demo_Jobs\<close>, \<open>Demo_Service\<close>, \<open>Demo_Settings\<close>: small jobs, a simulated printer, a service and a client on which the
    contracts hold; the witnesses evaluate the properties there.

  \<^bold>\<open>What is shown.\<close> Lemmas in \<open>_Laws\<close> theories state invariants and functional behaviour of one component, in
  \<open>_Delivery\<close> theories the composition of several. Together: the streaming backend writes what the
  in-memory backend returns; whole jobs leave the print file that the screened planes prescribe,
  whichever backend ran, but for one job whose varnish plate the strips lose; spools read back, and are refused after tampering; messages, settings,
  metadata, rasters and engine tables survive their encodings; the service keeps its uploads consistent
  in every reachable state; the color manager keeps every setting in range, and settings come back from
  their file; an uploaded spool arrives byte for byte, prints in one complete session, and
  the upload ends after a number of requests given by its length; whatever the library answers, the
  driver leaves no open session and no print origin behind, and sends at most one line after an abort; the
  client's operations are those of the driver. Where the code does not do what it means to,
  the property states what it does.

  \<^bold>\<open>Parameters and hypotheses.\<close> Code outside the repository is an argument of the definitions: the \<open>QVariant\<close>
  conversions, \<open>QDataStream\<close>, the file system, JSON, SHA-256, the XML reader, ImageMagick's pixels and the
  vendor's SDK. The locales \<open>qvariant_laws\<close>, \<open>datastream_laws\<close>, \<open>frame_laws\<close>, \<open>disk_laws\<close>, \<open>color_laws\<close>
  and \<open>reliable_store\<close> state the documented behaviour the code relies on; \<open>driver_log\<close> that a log records the calls of the SDK;
  \<open>working_printer\<close> that the printer accepts what it is asked. Each has an interpretation. Error texts are
  constructors of error types; logging, signals, progress callbacks and mutexes are left out. C++ \<open>int\<close> is \<open>int\<close>
  where the code cannot overflow, with casts written out; fixed-width types are words. An access
  that is undefined in C++ is an error value. ARM and x86 builds differ by the flag \<open>de_arm\<close>, the
  signedness of \<open>char\<close> is a flag too.

  \<^bold>\<open>Bounds.\<close> Loops are structural recursions or have a termination proof; the polls of the driver (10 for a
  cancellation, 240 for the print height) and the start-up polls of the client are the bounds of the code.
  Screening, spooling and writing are shown for every page whose sizes fit the types of the code.

  \<^bold>\<open>Not modelled.\<close> \<open>prepareJobForOutput\<close> and the color conversion of the jobs are chains of ImageMagick and
  LittleCMS calls, and so are \<open>ImageEditor\<close>, \<open>ImageLoader\<close> and \<open>ColorProfile\<close>. \<open>PrintJobModel\<close>,
  \<open>AssetManager\<close>, \<open>ThemeManager\<close> and the \<open>platform\<close> directory serve the user interface: file dialogs, lists for
  QML and settings. In the driver the worker process of the x86 build, which runs the same job in another
  process, the texts of controller errors and the threads of asynchronous actions are left out; in the
  client, finding and signalling the service process. While a spooled job prints, the service answers a ping
  and refuses every other request but an abort; the aborts run inside the job, where its line loop handles events:
  the argument \<open>raised\<close> of the job says for every line whether a cancellation is seen there and how many
  aborts are handled (\<open>line_poll\<close>). For a job submitted in memory the service does not refuse other requests; those
  and timers that fire in the line loop are left out.
\<close>

section \<open>From the spool to the printer\<close>

text \<open>C1: A finished spool reaches the printer: with a service whose backend is the driver of a printer
  that works, submitting the spool through the client succeeds, and what the vendor library sees of it is
  one print session with the lines of the planes, row by row in the channel order, after the
  requested origin was read back and before it is put back to zero.\<close>

theorem uploaded_job_reaches_the_printer:
  assumes "reliable_service E contents" and "linked E now uuid C" and "reliable_store (ce_disk C) files (sv_stream E)"
    and "spool_at files (sv_stream E) (cl_disk c) path m checksum planes"
    and "checksum = sv_sha E (encodeHeader (sv_stream E) m [] @ concat (concat planes))" and "length checksum = 32"
    and "uint (sp_format m) \<le> 2" and "settings_typed settings"
    and "enough_storage E (HeaderBytes + sp_bodyBytes m)" and "\<not> srv_printing (fst (cl_world c))"
    and "\<And>n. uuid n \<noteq> []"
    and "\<And>n. contents (srv_disk (fst (cl_world c))) (filePath (sv_uploadDirectory E) (uuid n @ ''.pfrs'')) = None"
    and "\<And>i. \<not> verifyCanceled i" and "\<And>i. \<not> canceled i" and "\<And>i. raised i = quiet_poll"
    and "drives DE raised E" and "working_printer DE events"
    and "standing_by settings (srv_backend (fst (cl_world c)))"
    and "job_property (de_arm DE) (spool_raster m) settings (sp_lineBytes m) = Inr p"
    and "unat (p ! 3) = nat (sp_lineBytes m)"
    and "mediaHeightMm settings < 0 \<or> encodePrintHeightMm (mediaHeightMm settings) = Inr target"
  shows "\<exists>c' d. submitSpooledJob C verifyCanceled canceled (with_disk_fields m path checksum) settings c = (True, c') \<and>
    printed_spool DE m planes settings d \<and>
    events (dp_sdk (srv_backend (fst (cl_world c')))) = events (dp_sdk (srv_backend (fst (cl_world c)))) @ d"
proof -
  have "fst (submitSpooledJob C verifyCanceled canceled (with_disk_fields m path checksum) settings c)"
    using uploaded_job_completes [where verifyCanceled = verifyCanceled and canceled = canceled and raised = raised,
        OF assms(1-21)] .
  then show ?thesis
    using uploaded_job_prints [where verifyCanceled = verifyCanceled and canceled = canceled and raised = raised,
        OF assms(1-16) working_printer.axioms(1) [OF assms(17)]] by auto
qed

theorem uploaded_job_reaches_the_printer_witness:
  "\<exists>c' d. submitSpooledJob demo_client_env (\<lambda>_. False) (\<lambda>_. False) (with_disk_fields print_meta ''spool'' (demo_sha []))
      demo_settings demo_client = (True, c') \<and>
    printed_spool (traced_env sim_env) print_meta demo_lines demo_settings d \<and>
    snd (dp_sdk (srv_backend (fst (cl_world c')))) = d"
proof -
  obtain p where p: "job_property (de_arm (traced_env sim_env)) (spool_raster print_meta) demo_settings (sp_lineBytes print_meta) = Inr p"
    "unat (p ! 3) = nat (sp_lineBytes print_meta)" using print_property by blast
  have "mediaHeightMm demo_settings < 0" by (simp add: demo_settings_def default_settings_def)
  then show ?thesis
    using uploaded_job_reaches_the_printer [where E = demo_service and contents = "\<lambda>d. d" and now = "\<lambda>_. 0" and
        uuid = demo_uuid and C = demo_client_env and files = "\<lambda>d. d" and c = demo_client and path = "''spool''" and
        m = print_meta and checksum = "demo_sha []" and planes = demo_lines and settings = demo_settings and
        verifyCanceled = "\<lambda>_. False" and canceled = "\<lambda>_. False" and raised = "\<lambda>_. quiet_poll" and
        DE = "traced_env sim_env" and events = snd and p = p]
      demo_service.reliable_service_axioms demo_linked store.reliable_store_axioms print_spool_at print_meta_format
      demo_settings_typed demo_storage demo_upload_fresh demo_drives sim.working_printer_axioms demo_standing_by p
    by (simp add: demo_sha_def) (simp add: demo_direct_def)
qed

text \<open>C2: Whatever the vendor library answers, wherever the cancellation is seen and wherever in the
  line loop the event loop handles requests to abort, a job leaves its calls in complete sessions (lines
  only between a successful start and the end, a close for every start), at most one more line is sent
  after an abort, an abort comes before the close when something failed, and the last origin that was set is zero.\<close>

theorem job_leaves_the_printer_idle:
  "\<exists>d. snd (dp_sdk (snd (printPackedJob (traced_env E) raised src r settings s))) = snd (dp_sdk s) @ d \<and>
    session_run Idle d = Some Idle \<and> last_origin d = (0, 0)"
  using traced_log.printPackedJob_keeps [unfolded traced_log.keeps_session_def] by blast

text \<open>C3: A job that reports success was not asked to stop when it began, and has sent, in one session,
  the line of every cell of the raster in row order, each of the length in the job header; before the
  session an X-33 job has read back the origin it asked for, and after it the origin is zero again. The
  only other calls between the lines can be aborts right before the last one: those requested when the
  events are handled there, which the job no longer heeds.\<close>

theorem successful_job_sent_every_line:
  assumes "printPackedJob (traced_env E) raised src r settings s = (True, t)"
  shows "\<exists>planes p ls late d. ra_lines r = Some planes \<and>
    job_property (de_arm E) r settings (if ra_lineBytes r > 0 then ra_lineBytes r else int (length (planes ! 0 ! 0))) = Inr p \<and>
    printed (de_arm E) src r settings p ls late d \<and> late_aborts raised (length ls) late \<and>
    snd (dp_sdk t) = snd (dp_sdk s) @ d \<and>
    (row_cells (ra_height r) (ra_order r) \<noteq> [] \<longrightarrow> \<not> dp_cancelRequested s)"
  using traced_log.printPackedJob_sent [OF assms] unfolding traced_arm .

theorem successful_job_sent_every_line_witness:
  "\<exists>t p ls d. printPackedJob (traced_env sim_env) (\<lambda>_. quiet_poll) (planes_line demo_lines) demo_raster demo_settings
      demo_direct = (True, t) \<and>
    printed False (planes_line demo_lines) demo_raster demo_settings p ls [] d \<and> snd (dp_sdk t) = d"
proof -
  obtain t where t: "printPackedJob (traced_env sim_env) (\<lambda>_. quiet_poll) (planes_line demo_lines) demo_raster demo_settings
      demo_direct = (True, t)"
    using demo_packed_job by blast
  show ?thesis
    using t successful_job_sent_every_line [OF t]
    by (auto simp: sim_env_def demo_direct_def late_aborts_def quiet_poll_def)
qed

text \<open>C4: In every state the service can reach, each upload it knows has a partial file of its own with
  exactly the acknowledged number of bytes, not more than were announced, for metadata that passed
  every check, and no request has left the service in the printing state. When the service ends, these
  files are gone and no other file has changed.\<close>

theorem service_keeps_its_uploads:
  assumes "service E contents" and "reachable E s"
  shows "distinct (map fst (srv_uploads s)) \<and> \<not> srv_printing s \<and>
    (\<forall>(uploadId, u) \<in> set (srv_uploads s).
       up_partialPath u = uploadPath (sv_uploadDirectory E) uploadId \<and>
       (\<exists>b. contents (srv_disk s) (up_partialPath u) = Some b \<and> length b = unat (up_receivedBytes u)) \<and>
       up_receivedBytes u \<le> up_expectedBytes u \<and> metadataIsValid (up_expectedSpool u) = Inr () \<and>
       up_expectedBytes u = HeaderBytes + sp_bodyBytes (up_expectedSpool u)) \<and>
    contents (srv_disk (closeServer (sv_disk E) s)) =
      contents (srv_disk s) |` (- uploadPath (sv_uploadDirectory E) ` fst ` set (srv_uploads s))"
proof -
  have inv: "server_inv E contents s" by (rule service.reachable_consistent [OF assms])
  then have "(up_partialPath \<circ> snd) ` set (srv_uploads s) = uploadPath (sv_uploadDirectory E) ` fst ` set (srv_uploads s)"
    unfolding image_image by (intro image_cong) (auto simp: server_inv_def upload_ok_def)
  then have "contents (srv_disk (closeServer (sv_disk E) s)) =
      contents (srv_disk s) |` (- uploadPath (sv_uploadDirectory E) ` fst ` set (srv_uploads s))"
    using service.closeServer_removes [OF assms(1), of s] by (auto simp: restrict_map_def fun_eq_iff)
  then show ?thesis using inv by (auto simp: server_inv_def upload_ok_def announced_def)
qed

theorem service_keeps_its_uploads_witness:
  "\<exists>s uploadId u. reachable demo_receiver s \<and> (uploadId, u) \<in> set (srv_uploads s) \<and>
    up_receivedBytes u \<le> up_expectedBytes u \<and> metadataIsValid (up_expectedSpool u) = Inr ()"
proof -
  obtain s uploadId u where s: "reachable demo_receiver s" "(uploadId, u) \<in> set (srv_uploads s)"
    using demo_upload_reachable by blast
  then show ?thesis
    using service_keeps_its_uploads [OF demo_receiver.service_axioms s(1)] by blast
qed

text \<open>C5: While no job is printing, each of the following operations of the client is the driver's operation:
  searching, choosing and connecting a printer, aborting, pausing and continuing, the queries for the status,
  the printer's data and the status text, and all maintenance operations. With the driver behind the service each
  runs the operation of that name with the arguments it was given, once, between questions whether the SDK is
  available, and returns what the driver returned (for the UV support -1 instead of any other negative answer). So do
  the actions the client runs in the background by their name, and the reconnection, which keeps a session
  whose printer answers and otherwise unloads the library, searches, chooses and connects. Jobs, the
  configuration and the restart of the service are not part of the statement.\<close>

theorem client_operations_are_those_of_the_driver:
  assumes "service E contents" and "driven DE M raised E" and "linked E now uuid C" and "\<not> srv_printing (fst (cl_world c))"
    and "fits_int i" and "fits_int j" and "\<And>b. fits_int (fst (getSupportNewUVParamFunction DE M b))"
  shows "remote DE c (client_refreshPrinters C c) (refreshPrinters DE) \<and>
    remote DE c (client_choosePrinter C i c) (choosePrinter DE i) \<and>
    remote DE c (client_connectPrinter C c) (connectPrinter DE) \<and>
    remote DE c (client_abortPrint C c) (abortPrint DE) \<and>
    remote DE c (client_pausePrint C c) (pausePrint DE) \<and>
    remote DE c (client_continuePrint C c) (continuePrint DE) \<and>
    remote DE c (client_wipePrintHead C i c) (wipePrintHead DE M i) \<and>
    remote DE c (client_startCleanOperation C i c) (startCleanOperation DE M i) \<and>
    remote DE c (client_startPump C i c) (startPump DE M i) \<and>
    remote DE c (client_stopPumpOperation C c) (stopPumpOperation DE M) \<and>
    remote DE c (client_spitPrintHead C i c) (spitPrintHead DE M i) \<and>
    remote DE c (client_stopSpitOperation C c) (stopSpitOperation DE M) \<and>
    remote DE c (client_capPrintHead C c) (capPrintHead DE M) \<and>
    remote DE c (client_moveAxis C i j c) (moveAxis DE M i j) \<and>
    remote DE c (client_stopAxis C i c) (stopAxis DE M i) \<and>
    remote DE c (client_saveAxisPos C i c) (saveAxisPos DE M i) \<and>
    remote DE c (client_printNozzleCheck C c) (printNozzleCheck DE) \<and>
    remote DE c (client_printAlignmentPattern C i c) (printAlignmentPattern DE i) \<and>
    remote DE c (client_setPrintHeight C h c) (setPrintHeight DE h) \<and>
    remote DE c (client_getPrintHeight C c) (getPrintHeight DE) \<and>
    remote DE c (client_setPrintXYValue C i j c) (setPrintXYValue DE i j) \<and>
    remote DE c (client_getPrintXYValue C c) (getPrintXYValue DE) \<and>
    remote DE c (client_getJobSettings C c) (getJobSettings DE M) \<and>
    remote DE c (client_setJobSettingsFromMap C v c) (setJobSettingsFromMap DE v) \<and>
    remote DE c (client_getAlignmentValues C c) (getAlignmentValues DE M) \<and>
    remote DE c (client_setAlignmentValues C v i c) (setAlignmentValues DE M v i) \<and>
    remote DE c (client_getUVParamValues C c) (getUVParamValues DE M) \<and>
    remote DE c (client_setUVParamValues C v i c) (setUVParamValues DE M v i) \<and>
    remote DE c (client_setNewUVParamFunction C i c) (setNewUVParamFunction DE M i) \<and>
    remote DE c (client_getNewUVParamValues C c) (getNewUVParamValues DE M) \<and>
    remote DE c (client_setNewUVParamValues C v i c) (setNewUVParamValues DE M v i) \<and>
    remote DE c (client_exportConfigFile C path c) (exportConfigFile DE M path) \<and>
    remote DE c (client_importConfigFile C path c) (importConfigFile DE M path) \<and>
    remote DE c (client_getSupportNewUVParamFunction C c) (known_support DE M) \<and>
    remote DE c (client_query C ''getPrinterStatus'' c) (getPrinterStatus DE) \<and>
    remote DE c (client_query C ''getPrinterInfo'' c) (getPrinterInfo DE M) \<and>
    remote DE c (client_statusText C c) (driver_statusText DE M) \<and>
    remote DE c (outcome (sv_variant E) (maintenance_operation C action args c)) (background_action DE M action args) \<and>
    remote DE c (map_prod (responseOk (sv_variant E)) id (reconnect_operation C i c)) (reconnect DE i)"
proof -
  have S: "driven_service E contents DE M raised"
    using assms(1,2) by (intro driven_service.intro driven_service_axioms.intro)
  show ?thesis
    by (intro conjI driven_service.commands_served [OF S assms(3,4)] driven_service.head_actions_served [OF S assms(3,4)]
        driven_service.engine_actions_served [OF S assms(3,4)] driven_service.support_served [OF S assms(3,4,7)]
        driven_service.queries_served [OF S assms(3,4)] driven_service.background_served [OF S assms(3,4)]
        driven_service.reconnect_served [OF S assms(3,4,5)] assms(5,6))
qed

theorem client_operations_are_those_of_the_driver_witness:
  "remote (traced_env sim_env) demo_client (client_moveAxis demo_client_env 2 1 demo_client)
      (moveAxis (traced_env sim_env) demo_maintenance 2 1) \<and>
    remote (traced_env sim_env) demo_client (client_setPrintHeight demo_client_env 12 demo_client)
      (setPrintHeight (traced_env sim_env) 12) \<and>
    remote (traced_env sim_env) demo_client (client_getSupportNewUVParamFunction demo_client_env demo_client)
      (known_support (traced_env sim_env) demo_maintenance)"
  using client_operations_are_those_of_the_driver [where E = demo_service and contents = "\<lambda>d. d" and now = "\<lambda>_. 0" and
      uuid = demo_uuid and C = demo_client_env and c = demo_client and DE = "traced_env sim_env" and
      M = demo_maintenance and raised = "\<lambda>_. quiet_poll" and i = 2 and j = 1 and h = 12]
    demo_service.service_axioms demo_driven demo_linked demo_support
  by (simp add: fits_int_def int_min_def int_max_def)

text \<open>C6: A raster that can be sent arrives: its serialization succeeds, and the receiver rebuilds it from
  the metadata and the payload, with the planes of the channels that were sent.\<close>

theorem raster_round_trip:
  assumes "qvariant_laws Q" and "raster_ok r planes"
  shows "\<exists>payload. serializeRaster r = Inr payload \<and> length payload = raster_size r \<and>
    deserializeRaster Q (rasterMetadata Q r) payload = Inr (r\<lparr>ra_lines := Some (shipped_planes r planes)\<rparr>)"
  using serialized [OF assms(2)] qvariant_laws.raster_comes_back [OF assms] by fastforce

theorem raster_round_trip_witness:
  "\<exists>payload. serializeRaster demo_raster = Inr payload \<and> length payload = 16 \<and>
    deserializeRaster plain_variant (rasterMetadata plain_variant demo_raster) payload =
      Inr (demo_raster\<lparr>ra_lines := Some (shipped_planes demo_raster demo_lines)\<rparr>)"
  using raster_round_trip [OF plain.qvariant_laws_axioms demo_raster_ok] demo_raster_size by simp

text \<open>C7: The settings of a job and the metadata of a spool survive the trip through a
  \<open>QVariantMap\<close>; the path stays behind.\<close>

theorem settings_and_metadata_round_trip:
  assumes "qvariant_laws Q" and "settings_typed settings" and "spool_submittable sp"
  shows "settingsFromMap Q (settingsToMap Q settings) = settings \<and>
    spoolMetadataFromMap Q (spoolMetadata Q sp) = Inr (sp\<lparr>sp_path := []\<rparr>)"
  using qvariant_laws.settings_come_back [OF assms(1,2)] qvariant_laws.spool_metadata_comes_back [OF assms(1,3)] by simp

theorem settings_and_metadata_round_trip_witness:
  "settingsFromMap plain_variant (settingsToMap plain_variant demo_settings) = demo_settings \<and>
    spoolMetadataFromMap plain_variant (spoolMetadata plain_variant (with_disk_fields print_meta ''spool'' (demo_sha []))) =
      Inr ((with_disk_fields print_meta ''spool'' (demo_sha []))\<lparr>sp_path := []\<rparr>)"
  by (rule settings_and_metadata_round_trip [OF plain.qvariant_laws_axioms demo_settings_typed demo_submittable])

text \<open>C8: The tables of the print engine survive the trip through a \<open>QVariantMap\<close>: job settings in range,
  both UV tables, and, where \<open>char\<close> is signed, the alignment values. Where \<open>char\<close> is unsigned every
  negative channel alignment comes back as 127.\<close>

theorem engine_tables_round_trip:
  assumes "qvariant_laws Q"
  shows "(engine_settings_ok js \<longrightarrow> jobSettingsFromMap Q (jobSettingsToMap Q js) = js) \<and>
    uvParamValuesFromMap Q (uvParamValuesToMap Q uv) = uv \<and>
    newUvParamValuesFromMap Q (newUvParamValuesToMap Q nu) = nu \<and>
    (alignment_ok av \<longrightarrow> alignmentValuesFromMap Q (alignmentValuesToMap True Q av) = av) \<and>
    (length channel = 8 \<longrightarrow>
      variantListToByteArray Q (byteArrayToVariantList False Q channel) 8 = map (\<lambda>b. min b 127) channel)"
  using qvariant_laws.job_settings_come_back [OF assms] qvariant_laws.uv_values_come_back [OF assms]
    qvariant_laws.new_uv_values_come_back [OF assms] qvariant_laws.alignment_comes_back [OF assms]
    qvariant_laws.unsigned_bytes_saturate [OF assms, of channel] by auto

theorem engine_tables_round_trip_witness:
  "jobSettingsFromMap plain_variant (jobSettingsToMap plain_variant (makeJobSettings demo_settings)) = makeJobSettings demo_settings \<and>
    alignmentValuesFromMap plain_variant (alignmentValuesToMap True plain_variant default_alignment) = default_alignment \<and>
    variantListToByteArray plain_variant (byteArrayToVariantList False plain_variant [0xFB, 0, 0, 0, 0, 0, 0, 5]) 8 =
      [127, 0, 0, 0, 0, 0, 0, 5]"
  using engine_tables_round_trip [OF plain.qvariant_laws_axioms, of "makeJobSettings demo_settings" default_uv
      default_new_uv default_alignment "[0xFB, 0, 0, 0, 0, 0, 0, 5]"] makeJobSettings_ok default_alignment_ok
  by (simp add: min_def word_le_def)

text \<open>C9: The framing of the service: an encoded message is taken off the front of whatever has arrived,
  and a part of one is left in the buffer until the rest comes.\<close>

theorem frames_come_back:
  assumes "frame_laws S K streamable" and "streamable message" and "encodeFrame S K message \<noteq> []"
  shows "takeFrame S K (encodeFrame S K message @ rest) = (FrameComplete message, rest) \<and>
    (\<forall>part missing. encodeFrame S K message = part @ missing \<and> missing \<noteq> [] \<longrightarrow>
       takeFrame S K part = (FrameIncomplete, part))"
  using frame_laws.take_whole_frame [OF assms] frame_laws.take_partial_frame [OF assms(1,2)] by blast

theorem frames_come_back_witness:
  "takeFrame big_endian plain_codec (encodeFrame big_endian plain_codec demo_message @ [1, 2]) =
    (FrameComplete demo_message, [1, 2])"
  using frames_come_back [OF plain_frames.frame_laws_axioms demo_message_finite demo_message_fits, of "[1, 2]"] by blast

text \<open>C10: A received raster is read past the end of its payload only when the size of the raster, a product
  of three sizes from the message, does not fit into the 64 bits in which it is checked.\<close>

theorem only_wrapped_sizes_overrun:
  assumes "deserializeRaster Q metadata payload = Inl PayloadOverrun"
  shows "2 ^ 64 \<le> toInt Q (valueAt Q metadata ''height'') * int (length (toList Q (valueAt Q metadata ''channels''))) *
    toInt Q (valueAt Q metadata ''bytesPerLine'')"
  by (rule overrun_means_wrap [OF assms])

theorem only_wrapped_sizes_overrun_witness:
  "deserializeRaster plain_variant wrapped_map [] = Inl PayloadOverrun \<and>
    2 ^ 64 \<le> toInt plain_variant (valueAt plain_variant wrapped_map ''height'') *
      int (length (toList plain_variant (valueAt plain_variant wrapped_map ''channels''))) *
      toInt plain_variant (valueAt plain_variant wrapped_map ''bytesPerLine'')"
  using wrapped_overrun only_wrapped_sizes_overrun [OF wrapped_overrun] by blast

text \<open>C11: Submitting a spool that is not canceled to a service that works and has room for it ends, after six
  requests and two for every started megabyte of the file, whatever the backend makes of the job; afterwards the service has neither the upload nor its files.\<close>

theorem upload_ends:
  assumes "reliable_service E contents" and "linked E now uuid C" and "reliable_store (ce_disk C) files (sv_stream E)"
    and "spool_at files (sv_stream E) (cl_disk c) path m checksum planes"
    and "checksum = sv_sha E (encodeHeader (sv_stream E) m [] @ concat (concat planes))" and "length checksum = 32"
    and "uint (sp_format m) \<le> 2" and "settings_typed settings"
    and "enough_storage E (HeaderBytes + sp_bodyBytes m)" and "\<not> srv_printing (fst (cl_world c))"
    and "\<And>n. uuid n \<noteq> []"
    and "\<And>n. contents (srv_disk (fst (cl_world c))) (filePath (sv_uploadDirectory E) (uuid n @ ''.pfrs'')) = None"
    and "\<And>i. \<not> verifyCanceled i" and "\<And>i. \<not> canceled i"
  shows "\<exists>ok c' k. submitSpooledJob C verifyCanceled canceled (with_disk_fields m path checksum) settings c = (ok, c') \<and>
    snd (cl_world c') = snd (cl_world c) + 6 +
      2 * ((length (encodeHeader (sv_stream E) m checksum @ concat (concat planes)) + 1024 * 1024 - 1) div (1024 * 1024)) \<and>
    map_of (srv_uploads (fst (cl_world c'))) k = None \<and>
    contents (srv_disk (fst (cl_world c'))) = (contents (srv_disk (fst (cl_world c))))
      (uploadPath (sv_uploadDirectory E) k := None, filePath (sv_uploadDirectory E) (k @ ''.pfrs'') := None)"
  using reliable_service.upload_delivers [where verifyCanceled = verifyCanceled and canceled = canceled, OF assms] by blast

theorem upload_ends_witness:
  "\<exists>ok c'. submitSpooledJob demo_client_env (\<lambda>_. False) (\<lambda>_. False) (with_disk_fields print_meta ''spool'' (demo_sha []))
      demo_settings demo_client = (ok, c') \<and> snd (cl_world c') = snd (cl_world demo_client) + 6 +
        2 * ((length (encodeHeader big_endian print_meta (demo_sha []) @ concat (concat demo_lines)) + 1048575) div 1048576)"
  using upload_ends [where E = demo_service and contents = "\<lambda>d. d" and now = "\<lambda>_. 0" and
      uuid = demo_uuid and C = demo_client_env and files = "\<lambda>d. d" and c = demo_client and path = "''spool''" and
      m = print_meta and checksum = "demo_sha []" and planes = demo_lines and settings = demo_settings and
      verifyCanceled = "\<lambda>_. False" and canceled = "\<lambda>_. False"]
    demo_service.reliable_service_axioms demo_linked store.reliable_store_axioms print_spool_at print_meta_format
    demo_settings_typed demo_storage demo_upload_fresh
  by (auto simp: demo_sha_def simp del: length_append)

section \<open>Settings\<close>

text \<open>C12: In every state the color manager can reach, through its setters, a settings file of any content and
  resets, the thresholds, the direct print settings and the ink parameters of every mode are in the
  ranges the screening and the printer take.\<close>

theorem color_settings_stay_in_range:
  assumes "color_laws E contents" and "managed E M"
  shows "m_minInkThreshold M \<in> {0..255} \<and> m_smallDotThreshold M \<in> {0..255} \<and> m_medDotThreshold M \<in> {0..255} \<and>
    m_floorRangeCMY M \<in> {0..64} \<and> m_floorMaxCMY M \<in> {0..8} \<and> m_floorRangeK M \<in> {0..64} \<and> m_floorMaxK M \<in> {0..8} \<and>
    (\<forall>(k, lo, hi) \<in> set ((''eclosionGrade'', 1, 3) # direct_ranges).
       \<exists>x. directPrintSettings E M k = Some (ofInt (cs_variant E) x) \<and> lo \<le> x \<and> x \<le> hi) \<and>
    (\<forall>n. ink_ok (cs_variant E) (cs_text E) (getMultiInkParams E n M))"
  using color_laws.settings_in_range [OF assms] unfolding levels_ok_def by blast

theorem color_settings_stay_in_range_witness:
  "\<exists>x. directPrintSettings demo_colors
      (setDirectPrintSetting demo_colors ''headVoltage'' (VInt 9000) (open_manager demo_colors Map.empty)) ''headVoltage'' =
      Some (VInt x) \<and> 400 \<le> x \<and> x \<le> 600"
proof -
  have "managed demo_colors (setDirectPrintSetting demo_colors ''headVoltage'' (VInt 9000) (open_manager demo_colors Map.empty))"
    by (intro managed.intros)
  note color_settings_stay_in_range [OF demo_manager.color_laws_axioms this, THEN conjunct2, THEN conjunct2, THEN conjunct2,
      THEN conjunct2, THEN conjunct2, THEN conjunct2, THEN conjunct2, THEN conjunct1, rule_format,
      of "(''headVoltage'', 400, 600)"]
  then show ?thesis by (simp add: direct_ranges_def plain_variant_select)
qed

text \<open>C13: Settings come back from their file: on a disk that does not fail, saving any reachable state succeeds,
  and a manager that loads the file answers every query as the saved one did, except for keys
  neither the printer nor the screening knows.\<close>

theorem saved_settings_come_back:
  assumes "color_laws E contents" and "reliable_disk (cs_disk E) contents" and "managed E M"
    and "contents (settingsDisk N) (settingsPath E) = contents (settingsDisk (snd (save_settings E M))) (settingsPath E)"
  shows "fst (save_settings E M) \<and> fst (load_settings E N) \<and> same_settings E (snd (load_settings E N)) M"
  by (rule color_laws.saved_settings_return [OF assms])

theorem saved_settings_come_back_witness:
  "let M = setPrinterFamilyOutputProfile demo_colors ''X-36NC'' ''b'' ''/icc/matte.icc'' (open_manager demo_colors Map.empty);
       N = new_manager (settingsDisk (snd (save_settings demo_colors M)))
   in same_settings demo_colors (snd (load_settings demo_colors N)) M"
proof -
  let ?M = "setPrinterFamilyOutputProfile demo_colors ''X-36NC'' ''b'' ''/icc/matte.icc'' (open_manager demo_colors Map.empty)"
  let ?d = "settingsDisk (snd (save_settings demo_colors ?M))"
  have "managed demo_colors ?M" by (intro managed.intros)
  moreover have "reliable_disk (cs_disk demo_colors) (\<lambda>d. d)" by (simp add: mem.reliable_disk_axioms)
  ultimately have "fst (load_settings demo_colors (new_manager ?d)) \<and> same_settings demo_colors (snd (load_settings demo_colors (new_manager ?d))) ?M"
    using saved_settings_come_back [OF demo_manager.color_laws_axioms, of ?M "new_manager ?d"]
    by (simp add: new_manager_def)
  then show ?thesis by (simp add: Let_def)
qed

text \<open>C14: An output profile or a curve file chosen for a printer and an ink family is used for exactly the
  printers of that name (under any of its aliases) and the ink modes of that family, whatever the
  defaults are.\<close>

theorem printer_override_takes_effect:
  assumes "color_laws E contents" and "managed E M" and "normalizedPrinterName (cs_text E) printer \<noteq> []"
    and "isSupportedFamilyKey (family_key E family)" and "trimmed (cs_text E) path \<noteq> []"
  shows "let chosen = (\<lambda>p n. normalizedPrinterName (cs_text E) p = normalizedPrinterName (cs_text E) printer \<and>
           familyKeyForInkMode n = family_key E family) in
    (\<forall>p n. effectiveOutputProfileForPrinterAndInkMode E p n (setPrinterFamilyOutputProfile E printer family path M) =
       (if chosen p n then trimmed (cs_text E) path else effectiveOutputProfileForPrinterAndInkMode E p n M)) \<and>
    (\<forall>p n. effectiveLinearizationPathForPrinterAndInkMode E p n (setPrinterFamilyLinearizationPath E printer family path M) =
       (if chosen p n then trimmed (cs_text E) path else effectiveLinearizationPathForPrinterAndInkMode E p n M))"
proof -
  have "settings_ok E M" by (rule color_laws.managed_settings_ok [OF assms(1, 2)])
  then have "nested_map_ok E (m_printerFamilyOutputProfiles M)" "nested_map_ok E (m_printerFamilyLinearizationPaths M)"
    by (simp_all add: settings_ok_def maps_ok_def)
  note o = this [THEN color_laws.override_after_set [OF assms(1) _ assms(3-5)]]
  have "m_printerFamilyOutputProfiles (setPrinterFamilyOutputProfile E printer family path M) =
      (case set_printer_family_path E printer family path (m_printerFamilyOutputProfiles M) of
         None \<Rightarrow> m_printerFamilyOutputProfiles M | Some m \<Rightarrow> m)"
    "m_familyDefaultOutputProfiles (setPrinterFamilyOutputProfile E printer family path M) = m_familyDefaultOutputProfiles M"
    by (simp_all add: setPrinterFamilyOutputProfile_def split: option.split)
  moreover have "m_printerFamilyLinearizationPaths (setPrinterFamilyLinearizationPath E printer family path M) =
      (case set_printer_family_path E printer family path (m_printerFamilyLinearizationPaths M) of
         None \<Rightarrow> m_printerFamilyLinearizationPaths M | Some m \<Rightarrow> m)"
    "m_familyDefaultLinearizationPaths (setPrinterFamilyLinearizationPath E printer family path M) = m_familyDefaultLinearizationPaths M"
    "m_linearizationDataPath (setPrinterFamilyLinearizationPath E printer family path M) = m_linearizationDataPath M"
    by (simp_all add: setPrinterFamilyLinearizationPath_def split: option.split)
  ultimately show ?thesis
    by (simp only: Let_def effectiveOutputProfileForPrinterAndInkMode_def effectiveLinearizationPathForPrinterAndInkMode_def o)
      simp
qed

theorem printer_override_takes_effect_witness:
  "let M = open_manager demo_colors Map.empty;
       M' = setPrinterFamilyOutputProfile demo_colors ''X-36 Studio'' ''B'' ''/icc/matte.icc'' M
   in effectiveOutputProfileForPrinterAndInkMode demo_colors ''x-36nc'' 6 M' = ''/icc/matte.icc'' \<and>
      effectiveOutputProfileForPrinterAndInkMode demo_colors ''x-36nc'' 8 M' =
        effectiveOutputProfileForPrinterAndInkMode demo_colors ''x-36nc'' 8 M"
proof -
  have words: "normalizedPrinterName plain_text ''X-36 Studio'' = ''X-36 Studio''"
    "normalizedPrinterName plain_text ''x-36nc'' = ''X-36 Studio''"
    "plain_upper (plain_trim ''B'') = ''B''" "plain_trim ''/icc/matte.icc'' = ''/icc/matte.icc''"
    by code_simp+
  have "managed demo_colors (open_manager demo_colors Map.empty)" by (intro managed.intros)
  from printer_override_takes_effect [OF demo_manager.color_laws_axioms this, of "''X-36 Studio''" "''B''" "''/icc/matte.icc''"]
  show ?thesis by (simp add: Let_def words family_key_def isSupportedFamilyKey_def familyKeyForInkMode_def)
qed

section \<open>The two raster backends\<close>

text \<open>C15: For one job (the same channel settings, masks and tone planes) the streaming screener
  writes, for every strip height and channel, exactly the packed lines the in-memory screener
  returns, in row order, and both succeed when nobody cancels.\<close>

theorem streaming_matches_in_memory:
  assumes "same_job Q load read req cs planes" and "\<And>p. \<not> canceled p"
    and "serves_planes tp planes (nat (req_width req)) (nat (req_height req))"
  shows "\<exists>T allPacked.
    screenToSpool read Q (req_width req) (req_height req) (screenSeed req) (modeParams req) cs tp
      trace_writer canceled strip [] = Inr T \<and>
    screenChannels Q load canceled req = Inr allPacked \<and>
    length allPacked = length cs \<and>
    (\<forall>ch < length cs. length (allPacked ! ch) = nat (req_height req) \<and>
       filter (\<lambda>e. fst e = ch) T = map (\<lambda>y. (ch, y, allPacked ! ch ! y)) [0..<nat (req_height req)])"
  using backends_write_the_same_lines [where canceled = canceled and strip = strip, OF assms] by blast

theorem streaming_matches_in_memory_witness:
  "\<exists>T allPacked.
    screenToSpool demo_read plain_variant 1 1 7 Map.empty [demo_channel] demo_tones
      trace_writer (\<lambda>_. False) 128 [] = Inr T \<and>
    screenChannels plain_variant demo_load (\<lambda>_. False) demo_request = Inr allPacked \<and>
    length allPacked = 1 \<and>
    (\<forall>ch < Suc 0. length (allPacked ! ch) = 1 \<and> filter (\<lambda>e. fst e = ch) T = map (\<lambda>y. (ch, y, allPacked ! ch ! y)) [0..<1])"
  using streaming_matches_in_memory [where canceled = "\<lambda>_. False" and strip = 128,
      OF demo_same_job _ demo_serves]
  by (simp add: demo_request_def)

text \<open>C16: On a disk that does not fail, creating a spool, streaming the job into it and finalizing
  succeeds; the file is the header followed by the planes the in-memory screener returns,
  channel-major, and the checksum in the header is the hash of the header without it and the body.\<close>

theorem streamed_spool_is_complete:
  assumes "reliable_store D contents S"
    and "same_job Q load read req cs planes" and "\<And>p. \<not> canceled p" and "\<And>k. \<not> hashCanceled k"
    and "serves_planes tp planes (nat (req_width req)) (nat (req_height req))"
    and "spool_for req md" and "\<And>x. length (sha x) = 32"
    and "contents (fst st) (final_path dir token) = None"
  shows "\<exists>W1 d1 st2 sp d3 W3 allPacked.
    writer_create D S token dir md st = Inr (d1, W1) \<and>
    screenToSpool read Q (req_width req) (req_height req) (screenSeed req) (modeParams req) cs tp
      (spool_line_writer D) canceled strip (d1, W1) = Inr st2 \<and>
    writer_finalize D S sha hashCanceled st2 = Inr (sp, d3, W3) \<and>
    screenChannels Q load canceled req = Inr allPacked \<and>
    contents d3 (final_path dir token) =
      Some (encodeHeader S (spool_meta md) (sp_sha256 sp) @ concat (concat allPacked)) \<and>
    sp_sha256 sp = sha (encodeHeader S (spool_meta md) [] @ concat (concat allPacked)) \<and>
    contents d3 (partial_path dir token) = None"
proof -
  from reliable_store.stream_delivers [where canceled = canceled and hashCanceled = hashCanceled and sha = sha
      and strip = strip, OF assms] obtain W1 d1 st2 sp d3 W3 allPacked where
    "writer_create D S token dir md st = Inr (d1, W1)"
    "screenToSpool read Q (req_width req) (req_height req) (screenSeed req) (modeParams req) cs tp
      (spool_line_writer D) canceled strip (d1, W1) = Inr st2"
    "writer_finalize D S sha hashCanceled st2 = Inr (sp, d3, W3)" "screenChannels Q load canceled req = Inr allPacked"
    "contents d3 (final_path dir token) =
      Some (encodeHeader S (spool_meta md) (sp_sha256 sp) @ concat (concat allPacked))"
    "sp_sha256 sp = sha (encodeHeader S (spool_meta md) [] @ concat (concat allPacked))"
    "contents d3 (partial_path dir token) = None" by blast
  then show ?thesis by blast
qed

theorem streamed_spool_is_complete_witness:
  "\<exists>W1 d1 st2 sp d3 W3 allPacked.
    writer_create memory_disk big_endian ''t'' ''dir'' demo_meta (Map.empty, demo_writer) = Inr (d1, W1) \<and>
    screenToSpool demo_read plain_variant (req_width demo_request) (req_height demo_request)
      (screenSeed demo_request) (modeParams demo_request) [demo_channel] demo_tones
      (spool_line_writer memory_disk) (\<lambda>_. False) 128 (d1, W1) = Inr st2 \<and>
    writer_finalize memory_disk big_endian demo_sha (\<lambda>_. False) st2 = Inr (sp, d3, W3) \<and>
    screenChannels plain_variant demo_load (\<lambda>_. False) demo_request = Inr allPacked \<and>
    d3 (final_path ''dir'' ''t'') =
      Some (encodeHeader big_endian (spool_meta demo_meta) (sp_sha256 sp) @ concat (concat allPacked)) \<and>
    sp_sha256 sp = demo_sha (encodeHeader big_endian (spool_meta demo_meta) [] @ concat (concat allPacked)) \<and>
    d3 (partial_path ''dir'' ''t'') = None"
  by (rule streamed_spool_is_complete [where canceled = "\<lambda>_. False" and hashCanceled = "\<lambda>_. False",
        OF store.reliable_store_axioms demo_same_job _ _ demo_serves demo_spool_for]) simp_all

section \<open>Whole jobs\<close>

text \<open>C17: The two backends of the multi-ink job leave the same spool file, whichever inks, alpha mask and
  curves the job has, and with every choice of plates but one: both succeed, and the file of the in-memory
  backend and the file of the strip backend have the same content; the scratch files are gone. Excluded is
  \<open>varnish_plate_lost\<close>, the ten-color job whose white and varnish name the same file while only varnish is
  in plate mode (\<open>PrintJobMultiInk.cpp\<close>, line 1245): there the backends print different varnish.\<close>

theorem multi_ink_backends_agree:
  assumes "reliable_store D contents S" and "qvariant_laws Q" and "multi_ready Q E J px al"
    and "\<not> varnish_plate_lost Q E J"
    and "e_disk E = D" and "e_stream E = S" and "\<And>p. \<not> canceled p" and "\<And>x. length (e_sha E x) = 32"
    and "0 < xdpi" and "0 < ydpi" and "xdpi \<le> int_max" and "ydpi \<le> int_max"
    and "contents d (final_path (e_scratch E) (e_memoryToken E)) = None"
    and "contents d (final_path (e_scratch E) (e_stripToken E)) = None"
    and "contents d (canonical_path (e_scratch E) (e_canonToken E)) = None"
  shows "\<exists>spM dM spB dB.
    buildInMemoryRasterSpool Q E canceled xdpi ydpi J d = Inr (spM, dM) \<and>
    buildBoundedRasterSpool Q E canceled xdpi ydpi J d = Inr (spB, dB) \<and>
    contents dM (sp_path spM) \<noteq> None \<and> contents dM (sp_path spM) = contents dB (sp_path spB) \<and>
    contents dB (canonical_path (e_scratch E) (e_canonToken E)) = None"
proof -
  from reliable_store.multi_backends [where canceled = canceled, OF assms] obtain planes spM dM spB dB where
    b: "buildInMemoryRasterSpool Q E canceled xdpi ydpi J d = Inr (spM, dM)"
      "buildBoundedRasterSpool Q E canceled xdpi ydpi J d = Inr (spB, dB)"
    and M: "delivered contents S (e_sha E) (multi_metadata J (src_columns (j_input J)) (src_rows (j_input J)) xdpi ydpi)
      (e_scratch E) (e_memoryToken E) planes d spM dM"
    and B: "delivered contents S (e_sha E) (multi_metadata J (src_columns (j_input J)) (src_rows (j_input J)) xdpi ydpi)
      (e_scratch E) (e_stripToken E) planes d spB dB" by blast
  show ?thesis using b delivered_same [OF M B] deliveredD(4) [OF B] scratch_paths assms(15) by metis
qed

theorem multi_ink_backends_agree_witness:
  "\<exists>spM dM spB dB.
    buildInMemoryRasterSpool plain_variant demo_env (\<lambda>_. False) 720 600 demo_multi Map.empty = Inr (spM, dM) \<and>
    buildBoundedRasterSpool plain_variant demo_env (\<lambda>_. False) 720 600 demo_multi Map.empty = Inr (spB, dB) \<and>
    dM (sp_path spM) \<noteq> None \<and> dM (sp_path spM) = dB (sp_path spB)"
  using multi_ink_backends_agree [where canceled = "\<lambda>_. False" and xdpi = 720 and ydpi = 600 and d = Map.empty,
      OF store.reliable_store_axioms plain.qvariant_laws_axioms demo_multi_ready demo_multi_kept]
  by (simp add: demo_env_def int_max_def) blast

text \<open>C18: Printing a multi-ink job to a file: when the checks pass, nobody cancels and the job is not one
  whose varnish plate the strips lose (\<open>varnish_plate_lost\<close>, see the property before), the file is the
  inkjet header followed row by row by the screened lines of the physical channels, whichever
  backend ran; no spool or canonical file is left and no other file has changed.\<close>

theorem multi_ink_job_prints:
  assumes "reliable_store D contents S" and "qvariant_laws Q" and "multi_printable Q E xdpi ydpi J px al J'"
    and "\<not> varnish_plate_lost Q E J'"
    and "e_disk E = D" and "e_stream E = S" and "\<And>p. \<not> canceled p" and "\<And>x. length (e_sha E x) = 32"
    and "ydpi + 300 \<le> int_max"
    and "contents d (final_path (e_scratch E) (e_memoryToken E)) = None"
    and "contents d (final_path (e_scratch E) (e_stripToken E)) = None"
    and "contents d (canonical_path (e_scratch E) (e_canonToken E)) = None"
    and "out \<noteq> final_path (e_scratch E) (e_memoryToken E)" and "out \<noteq> final_path (e_scratch E) (e_stripToken E)"
  shows "\<exists>planes d'.
    screenChannels Q (mask_of_image E (mask_file J')) (\<lambda>p. canceled (PollScreen p))
      (memory_request Q E J' (page_tones Q E J' px al)) = Inr planes \<and>
    generateFinalPRN Q E canceled out xdpi ydpi (J, d) = (True, J', d') \<and>
    contents d' out = Some (inkjet_header_bytes (multi_ink_header (writer_mode (j_mode J')) (channel_order (j_mode J'))
        (src_columns (j_input J')) (src_rows (j_input J')) (clamp xdpi 1 720) (snapToMultiple ydpi 600)
        (line_bytes (src_columns (j_input J')))) @
      interleaved planes (channel_order (j_mode J')) (nat (src_rows (j_input J')))) \<and>
    (\<forall>q. q \<noteq> out \<and> q \<noteq> partial_path (e_scratch E) (e_memoryToken E) \<and> q \<noteq> partial_path (e_scratch E) (e_stripToken E) \<longrightarrow>
      contents d' q = contents d q)"
  by (rule reliable_store.multi_prints [where canceled = canceled, OF assms])

theorem multi_ink_job_prints_witness:
  "\<exists>d'. generateFinalPRN plain_variant demo_env (\<lambda>_. False) ''out'' 720 600 (demo_multi, Map.empty) = (True, demo_multi, d') \<and>
    d' ''out'' \<noteq> None"
proof -
  have "''out'' \<noteq> final_path (e_scratch demo_env) t" for t by (simp add: final_path_def filePath_def demo_env_def)
  then show ?thesis
    using multi_ink_job_prints [where canceled = "\<lambda>_. False" and xdpi = 720 and ydpi = 600 and d = Map.empty and out = "''out''",
        OF store.reliable_store_axioms plain.qvariant_laws_axioms demo_multi_printable demo_multi_kept]
    by (simp add: demo_env_def int_max_def) blast
qed

text \<open>C19: The varnish plate that is lost: when a ten-color job names the same file for white and varnish and
  only varnish is in plate mode, the in-memory backend makes the varnish plane of the plate it has loaded,
  while every strip of the bounded backend gets the varnish plane of an absent plate, which is empty before
  linearization: the strips tell the two plates apart by their paths alone.\<close>

theorem shared_varnish_plate_is_lost:
  assumes "varnish_plate_lost Q E J" and "multi_ready Q E J px al"
    and "canonical_readRows (e_disk E) K (int first) (int rc) d = Inr content"
  shows "\<exists>plate tones plates strip.
    loadPlate E (j_varnish J) (nat (src_columns (j_input J))) (nat (src_rows (j_input J))) = Some plate \<and>
    memory_tones Q E J = Inr tones \<and>
    tones ! 9 = varnish_tones Q E J (nat (src_columns (j_input J)) * nat (src_rows (j_input J))) (Some plate) \<and>
    preparePlates Q E J = Inr plates \<and> strip_tones Q E J K plates d first rc = Some strip \<and>
    strip ! 9 = varnish_tones Q E J (nat (src_columns (j_input J)) * rc) None"
  by (rule lost_varnish [OF assms])

theorem shared_varnish_plate_is_lost_witness:
  "\<exists>tones plates strip. memory_tones plain_variant demo_plate_env demo_varnish = Inr tones \<and> tones ! 9 = [198] \<and>
    preparePlates plain_variant demo_plate_env demo_varnish = Inr plates \<and>
    strip_tones plain_variant demo_plate_env demo_varnish \<lparr>k_path = ''k'', k_width = 1, k_height = 1\<rparr> plates
      [''k'' \<mapsto> [200, 20, 30, 40]] 0 1 = Some strip \<and> strip ! 9 = [0]"
proof -
  have f: "src_columns (j_input demo_varnish) = 1" "src_rows (j_input demo_varnish) = 1" "j_varnish demo_varnish = ''p''"
    "e_disk demo_plate_env = memory_disk" "loadPlate demo_plate_env ''p'' 1 1 = Some [200]"
    by (simp_all add: demo_varnish_def demo_multi_def demo_page_def demo_plate_env_def demo_env_def loadPlate_def
        preparePlate_def local_path_def demo_text_def cut_span_def Let_def)
  show ?thesis
    using shared_varnish_plate_is_lost [OF demo_varnish_lost demo_varnish_ready, where first = 0 and rc = 1 and
        K = "\<lparr>k_path = ''k'', k_width = 1, k_height = 1\<rparr>" and d = "[''k'' \<mapsto> [200, 20, 30, 40]]" and
        content = "[200, 20, 30, 40]"] demo_varnish_read demo_varnish_tones
    by (auto simp: f f(5) [simplified])
qed

text \<open>C20: Printing an X-33 job to a file: the file is the X-33 header followed row by row by the
  screened lines in YMCK order, the white plane twice when there is one, whichever backend ran; no
  spool or canonical file is left and no other file has changed.\<close>

theorem x33_job_prints:
  fixes Q :: "'v qvariant"
  assumes "reliable_store D contents S" and "x33_printable E xdpi ydpi X px al X'"
    and "e_disk E = D" and "e_stream E = S" and "\<And>p. \<not> canceled p" and "\<And>x. length (e_sha E x) = 32"
    and "xdpi \<le> int_max" and "ydpi \<le> int_max"
    and "contents d (final_path (e_scratch E) (e_memoryToken E)) = None"
    and "contents d (final_path (e_scratch E) (e_stripToken E)) = None"
    and "contents d (canonical_path (e_scratch E) (e_canonToken E)) = None"
    and "out \<noteq> final_path (e_scratch E) (e_memoryToken E)" and "out \<noteq> final_path (e_scratch E) (e_stripToken E)"
  shows "\<exists>planes d'.
    screenChannels Q (mask_of_image E (x33_mask_file X')) (\<lambda>p. canceled (PollScreen p))
      (x33_memory_request X' (x33_page_tones E X' px al)) = Inr planes \<and>
    x33_generateFinalPRN Q E canceled out xdpi ydpi (X, d) = (True, X', d') \<and>
    contents d' out = Some (x33_header_bytes (makeStandardX33Header
        (src_columns (x_input X')) (src_rows (x_input X')) xdpi ydpi
        (line_bytes (src_columns (x_input X'))) (int (length (nocaiOrder X')))) @
      interleaved planes (nocaiOrder X') (nat (src_rows (x_input X')))) \<and>
    (\<forall>q. q \<noteq> out \<and> q \<noteq> partial_path (e_scratch E) (e_memoryToken E) \<and> q \<noteq> partial_path (e_scratch E) (e_stripToken E) \<longrightarrow>
      contents d' q = contents d q)"
  by (rule reliable_store.x33_prints [where canceled = canceled, OF assms])

theorem x33_job_prints_witness:
  "\<exists>d'. x33_generateFinalPRN plain_variant demo_env (\<lambda>_. False) ''out'' 720 600 (demo_x33, Map.empty) = (True, demo_x33, d') \<and>
    d' ''out'' \<noteq> None"
proof -
  have "''out'' \<noteq> final_path (e_scratch demo_env) t" for t by (simp add: final_path_def filePath_def demo_env_def)
  then show ?thesis
    using x33_job_prints [where canceled = "\<lambda>_. False" and d = Map.empty and out = "''out''" and Q = plain_variant,
        OF store.reliable_store_axioms demo_x33_printable]
    by (simp add: demo_env_def int_max_def) blast
qed

text \<open>C21: The canonical file of a page: created on a disk that does not fail it holds the page with
  the alpha mask multiplied in, and any range of rows read back and separated is that range of the
  four masked planes.\<close>

theorem canonical_rows_are_the_page:
  assumes "reliable_disk D contents" and "exports img 4 px" and "alpha_covers A (src_columns img) (src_rows img) al"
    and "page_ok (src_columns img) (src_rows img)" and "\<And>k. \<not> canceled k"
    and "0 < rc" and "first + rc \<le> nat (src_rows img)"
    and "w = nat (src_columns img)" and "h = nat (src_rows img)"
  shows "\<exists>d' K raw planes. canonical_create D token dir img A canceled (d, no_canonical) = Inr (d', K) \<and>
    canonical_readRows D K (int first) (int rc) d' = Inr raw \<and>
    alpha_planes A (separated (w * h) px) = Some planes \<and>
    separated (rc * w) raw = cut4 (first * w) (rc * w) planes"
proof -
  from reliable_disk.canonical_create_ok [where canceled = canceled, OF assms(1-5), of token dir d] obtain d' where
    c: "canonical_create D token dir img A canceled (d, no_canonical) =
      Inr (d', \<lparr>k_path = canonical_path dir token, k_width = src_columns img, k_height = src_rows img\<rparr>)"
    "contents d' = (contents d)(canonical_path dir token \<mapsto> page_bytes A px al (w * h))"
    unfolding assms(8,9) by blast
  let ?K = "\<lparr>k_path = canonical_path dir token, k_width = src_columns img, k_height = src_rows img\<rparr>"
  have len: "length (page_bytes A px al (w * h)) = w * h * 4" unfolding assms(8,9) by (rule length_page [OF assms(2)])
  have "canonical_readRows D ?K (int first) (int rc) d' =
      Inr (cut_span (first * w * 4) (rc * w * 4) (page_bytes A px al (w * h)))"
    using reliable_disk.canonical_readRows_ok [OF assms(1), of d' ?K] c(2) assms(4,6,7) len by (simp add: assms(8,9))
  then show ?thesis
    using c(1) alpha_planes_page [OF assms(3,4), of px, folded assms(8,9)] separated_cut [OF len, of first rc] assms(7)
    by (auto simp: assms(9))
qed

theorem canonical_rows_are_the_page_witness:
  "\<exists>d' K raw. canonical_create memory_disk ''a'' ''s'' demo_page \<lparr>a_width = 0, a_height = 0, a_image = None\<rparr> (\<lambda>_. False)
      (Map.empty, no_canonical) = Inr (d', K) \<and>
    canonical_readRows memory_disk K 0 1 d' = Inr raw \<and> separated 1 raw = ([200], [20], [30], [40])"
proof -
  let ?A = "\<lparr>a_width = 0, a_height = 0, a_image = None\<rparr> :: alpha_mask"
  have dim: "src_columns demo_page = 1" "src_rows demo_page = 1" by (simp_all add: demo_page_def)
  have ok: "alpha_covers ?A (src_columns demo_page) (src_rows demo_page) []" "page_ok (src_columns demo_page) (src_rows demo_page)"
    by (simp_all add: alpha_covers_def page_ok_def int_max_def dim)
  from canonical_rows_are_the_page [where canceled = "\<lambda>_. False" and first = 0 and rc = 1 and d = Map.empty
      and token = "''a''" and dir = "''s''" and w = 1 and h = 1, OF mem.reliable_disk_axioms demo_exports ok]
  obtain d' K raw planes where r: "canonical_create memory_disk ''a'' ''s'' demo_page ?A (\<lambda>_. False) (Map.empty, no_canonical) = Inr (d', K)"
    "canonical_readRows memory_disk K 0 1 d' = Inr raw" "alpha_planes ?A (separated 1 [200, 20, 30, 40]) = Some planes"
    "separated 1 raw = cut4 0 1 planes" by (auto simp: dim)
  have "planes = ([200], [20], [30], [40])" using r(3) by (simp add: alpha_planes_def separated_def alpha_applyTo_def alpha_active_def)
  then have "separated 1 raw = ([200], [20], [30], [40])" using r(4) by (simp add: cut4_def cut_span_def)
  with r(1,2) show ?thesis by blast
qed

text \<open>The vertical resolution of a multi-ink job is rounded to a positive multiple of 600, off by
  at most 300 for a request of 600 or more; the horizontal one stays within 1 to 720.\<close>

theorem output_resolution:
  "snapToMultiple ydpi 600 mod 600 = 0 \<and> 600 \<le> snapToMultiple ydpi 600 \<and>
   (ydpi < 600 \<or> 2 * \<bar>snapToMultiple ydpi 600 - ydpi\<bar> \<le> 600)"
  using snapToMultiple_props [of 600 ydpi] by (cases "600 \<le> ydpi") simp_all

text \<open>With the density resolved from the image or from a fallback, an image that is not empty
  gets a page of at least one and at most \<open>INT_MAX\<close> pixels in either direction for any two
  positive resolutions, and none for any other.\<close>

theorem output_size_is_positive:
  assumes "w \<noteq> 0" and "h \<noteq> 0"
  shows "case outputPixelSize w h (resolvedDensity (embeddedDensity u xr yr) fx fy) x y of
     None \<Rightarrow> x \<le> 0 \<or> y \<le> 0
   | Some (pw, ph) \<Rightarrow> 1 \<le> pw \<and> pw \<le> int_max \<and> 1 \<le> ph \<and> ph \<le> int_max \<and> 0 < x \<and> 0 < y"
  using assms scaledDimension_range resolvedDensity_usable [of u xr yr fx fy] by (auto simp: outputPixelSize_def)

theorem output_size_is_positive_witness:
  "case outputPixelSize 3 5 (resolvedDensity (embeddedDensity UndefinedUnits 0 0) 0 0) 720 600 of
     None \<Rightarrow> False | Some (pw, ph) \<Rightarrow> 1 \<le> pw \<and> 1 \<le> ph"
  using output_size_is_positive [of 3 5 720 600 UndefinedUnits 0 0 0 0] by (auto split: option.splits)

section \<open>The raster spool\<close>

text \<open>C22: Decoding the header of a valid spool returns its metadata, with the path, the body
  offset and the checksum that belong to the file.\<close>

theorem header_round_trip:
  assumes "datastream_laws S" and "metadataIsValid sp = Inr ()" and "spool_typed sp" and "length checksum \<le> 32"
  shows "decodeHeader S (encodeHeader S sp checksum) path = Inr (with_disk_fields sp path checksum)"
  by (rule datastream_laws.decode_encode [OF assms])

theorem header_round_trip_witness:
  "decodeHeader big_endian (encodeHeader big_endian demo_meta [1, 2]) ''p'' =
     Inr (with_disk_fields demo_meta ''p'' [1, 2])"
  by (rule header_round_trip [OF be.datastream_laws_axioms demo_valid demo_typed]) simp

text \<open>C23: Finalizing a spool succeeds exactly when every line of every channel has been written;
  otherwise it reports an incomplete spool and leaves the disk alone. On success the file is the
  header with the SHA-256 of the header without it and the body, followed by the body.\<close>

theorem finalize_iff_complete:
  assumes "reliable_store D contents S" and "writing contents d W b" and "\<And>x. length (sha x) = 32"
    and "\<And>k. \<not> canceled k" and "contents d (w_final W) = None"
  shows "((\<exists>sp d' W'. writer_finalize D S sha canceled (d, W) = Inr (sp, d', W') \<and>
      sp_sha256 sp = sha (encodeHeader S (w_meta W) [] @ drop 4096 b) \<and>
      contents d' (w_final W) = Some (encodeHeader S (w_meta W) (sp_sha256 sp) @ drop 4096 b)) \<longleftrightarrow>
    (\<forall>k < line_count (w_meta W). w_lines W ! k)) \<and>
    (\<not> (\<forall>k < line_count (w_meta W). w_lines W ! k) \<longrightarrow>
      writer_finalize D S sha canceled (d, W) = Inl (SpoolIncomplete, d, W))"
  by (rule reliable_store.finalize_total [where canceled = canceled and sha = sha, OF assms])

theorem finalize_iff_complete_witness:
  "(\<exists>sp d' W'. writer_finalize memory_disk big_endian demo_sha (\<lambda>_. False) (open_files, open_writer [True]) = Inr (sp, d', W')) \<and>
   writer_finalize memory_disk big_endian demo_sha (\<lambda>_. False) (open_files, open_writer [False]) =
     Inl (SpoolIncomplete, open_files, open_writer [False])"
proof -
  have t: "\<forall>k < line_count (w_meta (open_writer [True])). w_lines (open_writer [True]) ! k"
    and f: "\<not> (\<forall>k < line_count (w_meta (open_writer [False])). w_lines (open_writer [False]) ! k)"
    by (simp_all add: line_count_def open_writer_def demo_meta_def)
  show ?thesis
    using t f finalize_iff_complete [where canceled = "\<lambda>_. False" and sha = demo_sha,
        OF store.reliable_store_axioms open_writing [of True]]
      finalize_iff_complete [where canceled = "\<lambda>_. False" and sha = demo_sha,
        OF store.reliable_store_axioms open_writing [of False]] open_free by auto
qed

text \<open>C24: A finalized spool opens with its checksum verified and every line reads back: channel
  \<open>ch\<close>, row \<open>row\<close> is the line the writer was given for it.\<close>

theorem spool_reads_back:
  assumes "reliable_store D contents S" and "spool_at contents S d path m checksum planes" and "\<And>k. \<not> canceled k"
    and "checksum = sha (encodeHeader S m [] @ concat (concat planes))" and "length checksum = 32"
    and "0 \<le> ch" and "ch < sp_logical m" and "0 \<le> row" and "row < sp_height m"
  shows "\<exists>R. reader_open D S sha canceled path True d = Inr R \<and>
    reader_readLine D R ch row d = Inr (planes ! nat ch ! nat row)"
  using reliable_store.reader_open_ok [where canceled = canceled and sha = sha, OF assms(1-5)]
    reliable_store.readLine_ok [OF assms(1,2,6-9)] by blast

theorem spool_reads_back_witness:
  "\<exists>R. reader_open memory_disk big_endian demo_sha (\<lambda>_. False) ''spool'' True demo_files = Inr R \<and>
    reader_readLine memory_disk R 1 0 demo_files = Inr [0x80, 0, 0, 0]"
  using spool_reads_back [where canceled = "\<lambda>_. False" and sha = demo_sha and ch = 1 and row = 0,
      OF store.reliable_store_axioms demo_spool_at]
  by (simp add: demo_sha_def ymck_meta_def demo_meta_def demo_lines_def)

text \<open>C25: A spool whose content does not hash to the checksum in its header is refused.\<close>

theorem tampered_spool_is_refused:
  assumes "reliable_store D contents S" and "spool_at contents S d path m checksum planes" and "\<And>k. \<not> canceled k"
    and "checksum \<noteq> sha (encodeHeader S m [] @ concat (concat planes))" and "\<And>x. length (sha x) = 32"
  shows "reader_open D S sha canceled path True d = Inl ChecksumMismatch"
  by (rule reliable_store.tampered_spool_rejected [where canceled = canceled and sha = sha, OF assms])

theorem tampered_spool_is_refused_witness:
  "reader_open memory_disk big_endian (\<lambda>x. replicate 32 1) (\<lambda>_. False) ''spool'' True demo_files = Inl ChecksumMismatch"
  by (rule tampered_spool_is_refused [where canceled = "\<lambda>_. False", OF store.reliable_store_axioms demo_spool_at])
    (simp_all add: demo_sha_def numeral_eq_Suc)

section \<open>PRN files\<close>

text \<open>C26: The X-33 print file is the same whether it is written from the packed planes in memory or
  from the finished spool of the same planes, and both writers succeed.\<close>

theorem x33_file_is_the_same:
  assumes "reliable_store D contents S" and "spool_at contents S d path m checksum planes"
    and "sp = with_disk_fields m path checksum" and "sp_order m = ymck \<or> sp_order m = ymckww"
    and "checksum = sha (encodeHeader S m [] @ concat (concat planes))" and "length checksum = 32"
  shows "\<exists>dm ds. writeStandardX33Prn D planes (sp_order m) (sp_width m) (sp_height m) (sp_xdpi m) (sp_ydpi m) outM d = Inr dm \<and>
    writeStandardX33Spool D S sha sp outS d = Inr ds \<and> contents dm outM = contents ds outS"
  by (rule reliable_store.x33_same_file [where sha = sha, OF assms])

theorem x33_file_is_the_same_witness:
  "\<exists>dm ds. writeStandardX33Prn memory_disk demo_lines ymck 1 1 720 600 ''m'' demo_files = Inr dm \<and>
    writeStandardX33Spool memory_disk big_endian demo_sha (with_disk_fields ymck_meta ''spool'' (demo_sha [])) ''s'' demo_files = Inr ds \<and>
    dm ''m'' = ds ''s''"
  using x33_file_is_the_same [where sha = demo_sha, OF store.reliable_store_axioms demo_spool_at refl]
  by (simp add: ymck_meta_def demo_meta_def demo_sha_def)

text \<open>C27: The multi-ink print file written from a finished spool is the inkjet header followed, row
  by row, by the lines of the channels in their physical order.\<close>

theorem multi_ink_file_from_spool:
  assumes "reliable_store D contents S" and "spool_at contents S d path m checksum planes"
    and "sp = with_disk_fields m path checksum"
    and "checksum = sha (encodeHeader S m [] @ concat (concat planes))" and "length checksum = 32"
  shows "\<exists>d'. writeMultiInkSpool D S sha sp mode outPath d = Inr d' \<and>
    contents d' outPath = Some (inkjet_header_bytes (multi_ink_header mode (sp_order m) (sp_width m) (sp_height m)
      (sp_xdpi m) (sp_ydpi m) (sp_lineBytes m)) @ interleaved planes (sp_order m) (nat (sp_height m)))"
  using reliable_store.multi_ink_spool_ok [where sha = sha, OF assms] by (metis fun_upd_same)

theorem multi_ink_file_from_spool_witness:
  "\<exists>d'. writeMultiInkSpool memory_disk big_endian demo_sha (with_disk_fields ymck_meta ''spool'' (demo_sha []))
      FourColorYMCK ''out'' demo_files = Inr d' \<and>
    d' ''out'' = Some (inkjet_header_bytes (multi_ink_header FourColorYMCK ymck 1 1 720 600 4) @
      interleaved demo_lines ymck 1)"
  using multi_ink_file_from_spool [where sha = demo_sha and mode = FourColorYMCK and outPath = "''out''",
      OF store.reliable_store_axioms demo_spool_at refl]
  by (simp add: ymck_meta_def demo_meta_def demo_sha_def)

text \<open>C28: The multi-ink writer that prints from memory never looks at the stream state: on a disk
  on which every write fails it still reports success, and the output file is empty.\<close>

theorem multi_ink_write_failure_is_unnoticed:
  assumes "disk_laws D contents" and "\<And>p off x d. writeAt D p off x d = None"
    and "openTruncate D outPath d = Some d1"
    and "channelOrder \<noteq> []" and "length channelOrder \<le> 16" and "packedLines \<noteq> []" and "packedLines ! 0 \<noteq> []"
    and "\<forall>ch \<in> set channelOrder. 0 \<le> ch \<and> ch < int (length packedLines) \<and> nat height \<le> length (packedLines ! nat ch)"
  shows "\<exists>d'. writeMultiInkPrn D packedLines channelOrder mode width height xdpi ydpi bytesPerLine outPath d = Inr d' \<and>
    contents d' outPath = Some []"
proof -
  have "contents d1 outPath = Some []" using disk_laws.openTruncate_law [OF assms(1,3)] by simp
  then show ?thesis
    using assms(3-8)
    by (fastforce simp: writeMultiInkPrn_def Let_def write_rows_failing [OF assms(2)] ofs_write_failing [OF assms(2)])
qed

theorem multi_ink_write_failure_is_unnoticed_witness:
  "\<exists>d'. writeMultiInkPrn (memory_disk\<lparr>writeAt := \<lambda>p off x d. None\<rparr>) demo_lines ymck FourColorYMCK 1 1 720 600 4
      ''out'' Map.empty = Inr d' \<and> d' ''out'' = Some []"
  by (rule multi_ink_write_failure_is_unnoticed [where ?d1.0 = "Map.empty(''out'' \<mapsto> [])", OF full_disk_laws])
    (simp_all add: memory_disk_def ymck_def demo_lines_def)

text \<open>In the six-color mode, when no curves were loaded, the tone planes 4 and 5 are light magenta and
  light cyan, while the color list of the print file calls the same logical channels 'c' and 'm'.\<close>

theorem six_color_list_names_the_wrong_light_ink:
  assumes "combo_luts req = None" and "br_mode req = SixColor_YMCK_Lm_Lc" and "br_images req = Some pl"
    and "adjusted Q req pl = (c, m, y, k)" and "count = br_width req * br_height req"
  shows "\<exists>tones. buildToneChannels Q T load req = Some tones \<and>
    tones ! 4 = snd (split2_plane (split2_params Q (br_params req) ''m'' 16 80) count m) \<and>
    tones ! 5 = snd (split2_plane (split2_params Q (br_params req) ''c'' 24 96) count c) \<and>
    mapLogicalChannelToBoardByte SixColorYMCKLmLc 4 = ascii (CHR ''c'') \<and>
    mapLogicalChannelToBoardByte SixColorYMCKLmLc 5 = ascii (CHR ''m'')"
proof -
  have "build_six Q req pl ! 4 = snd (split2_plane (split2_params Q (br_params req) ''m'' 16 80) count m) \<and>
    build_six Q req pl ! 5 = snd (split2_plane (split2_params Q (br_params req) ''c'' 24 96) count c)"
    by (simp add: build_six_def dark_light_def Let_def assms(1,4,5) split: prod.split)
  then show ?thesis
    by (simp add: buildToneChannels_def assms(2,3) mapLogicalChannelToBoardByte_def)
qed

theorem six_color_list_names_the_wrong_light_ink_witness:
  "\<exists>tones. buildToneChannels plain_variant demo_text demo_plates (demo_build\<lparr>br_mode := SixColor_YMCK_Lm_Lc\<rparr>) = Some tones \<and>
    tones ! 4 = snd (split2_plane (split2_params plain_variant Map.empty ''m'' 16 80) 2 [50, 60])"
proof -
  have "adjusted plain_variant (demo_build\<lparr>br_mode := SixColor_YMCK_Lm_Lc\<rparr>) ([10, 20], [50, 60], [0, 0], [0, 0]) =
      ([10, 20], [50, 60], [0, 0], [0, 0])"
    by (simp add: demo_build_def adjusted_def applyGcrNeutralTransfer_def getGcrParams_def)
  from six_color_list_names_the_wrong_light_ink [where T = demo_text and load = demo_plates, OF _ _ _ this refl]
  show ?thesis by (simp add: demo_build_def combo_luts_def) blast
qed

section \<open>Tones\<close>

text \<open>C29: The tone planes of a strip are the strips of the tone planes of the page, in every ink
  mode: the bounded backend, which builds its tones strip by strip, sees the tones of the
  in-memory backend.\<close>

theorem tones_of_a_strip:
  assumes "y0 + n \<le> br_height req" and "images_sized req" and "plates_sized load (br_width req) (br_height req)"
  shows "buildToneChannels Q T (strip_loader load (br_height req) y0) (strip_request y0 n req) =
    map_option (map (cut_span (y0 * br_width req) (n * br_width req))) (buildToneChannels Q T load req)"
  by (rule build_strip [OF assms])

theorem tones_of_a_strip_witness:
  "buildToneChannels plain_variant demo_text (strip_loader demo_plates 2 1) (strip_request 1 1 demo_build) =
    map_option (map (cut_span 1 1)) (buildToneChannels plain_variant demo_text demo_plates demo_build)"
  using tones_of_a_strip [where Q = plain_variant and T = demo_text and load = demo_plates and req = demo_build
      and ?y0.0 = 1 and n = 1]
  by (simp add: demo_build_def images_sized_def sized4_def plates_sized_def demo_plates_def)

text \<open>C30: The tone builder returns one plane per ink of the mode, each with one byte per pixel.\<close>

theorem tones_have_their_size:
  assumes "buildToneChannels Q T load req = Some tones" and "images_sized req"
  shows "length tones = ink_count (br_mode req) \<and> (\<forall>t \<in> set tones. length t = br_width req * br_height req)"
  using tones_sized [OF assms] by blast

theorem tones_have_their_size_witness:
  "length (the (buildToneChannels plain_variant demo_text demo_plates demo_build)) = 5"
proof -
  obtain tones where t: "buildToneChannels plain_variant demo_text demo_plates demo_build = Some tones"
    by (simp add: buildToneChannels_def demo_build_def)
  have "images_sized demo_build" by (simp add: images_sized_def demo_build_def sized4_def)
  from tones_have_their_size [OF t this] t show ?thesis by (simp add: demo_build_def)
qed

text \<open>C31: Gray component replacement takes the same amount from C, M and Y, never more than the
  smallest of them, and never lowers K: no tone wraps around.\<close>

theorem gcr_takes_equal_ink:
  "case gcr_pixel p (c, m, y, k) of (c', m', y', k') \<Rightarrow>
     \<exists>u. 0 \<le> u \<and> u \<le> uint (min (min c m) y) \<and>
       uint c' = uint c - u \<and> uint m' = uint m - u \<and> uint y' = uint y - u \<and> k \<le> k'"
proof -
  obtain c' m' y' k' where e: "gcr_pixel p (c, m, y, k) = (c', m', y', k')" by (cases "gcr_pixel p (c, m, y, k)")
  from gcr_moves_ink_to_black [OF e] show ?thesis unfolding e prod.case by metis
qed

text \<open>C32: Splitting a tone into a dark and a light ink conserves it.\<close>

theorem dark_and_light_add_up:
  "case split2Crossfade v p of (dark, light) \<Rightarrow> uint dark + uint light = uint v"
  using split2_conserves by (cases "split2Crossfade v p") simp

text \<open>Splitting black into three inks conserves it when the two ramps are in order and do not
  overlap.\<close>

theorem three_blacks_add_up:
  assumes "t1Start < t1End" and "t1End \<le> t2Start" and "t2Start < t2End"
  shows "case split3Crossfade v (t1Start, t1End, t2Start, t2End) of (llk, lk, k) \<Rightarrow>
    uint llk + uint lk + uint k = uint v"
  using split3_conserves [OF _ assms] by (cases "split3Crossfade v (t1Start, t1End, t2Start, t2End)") simp

theorem three_blacks_add_up_witness:
  "case split3Crossfade 100 (24, 112, 120, 228) of (llk, lk, k) \<Rightarrow> uint llk + uint lk + uint k = 100"
  using three_blacks_add_up [of 24 112 120 228 100] by simp

text \<open>C33: The white and varnish planes: no ink at or below the threshold, never more than the
  density, the full density at full tone; and the X-33 white plane is computed by the same function
  of the same pixel.\<close>

theorem specialty_ink_is_bounded:
  "applySpecialtyThresholdDensity src t d \<le> d \<and> (if src \<le> t then applySpecialtyThresholdDensity src t d = 0 else
     applySpecialtyThresholdDensity 255 t d = d) \<and>
   applyThresholdAndDensity src (uint t) (uint d) = applySpecialtyThresholdDensity src t d"
proof -
  have "t < 255" if "\<not> src \<le> t"
  proof -
    have "uint t < uint src" using that by (simp add: word_less_def not_le)
    moreover have "uint src < 256" using uint_lt2p [of src] by simp
    ultimately show ?thesis by (simp add: word_less_def)
  qed
  then show ?thesis using specialty_range(1,2) [of src t d] specialty_range(3) [of t d] x33_density_eq [of src t d] by simp
qed

section \<open>Linearization\<close>

text \<open>C34: A light ink derived from its parent never prints more than the parent, and nothing at all
  from the end of the fade on.\<close>

theorem derived_ink_stays_below_parent:
  assumes "i < 256"
  shows "deriveLightInkLut parent a b strength ! i \<le> parent ! i \<and>
    (a < b \<and> b \<le> unit_of (int i) \<and> fl64 (b - a) > 0 \<longrightarrow> deriveLightInkLut parent a b strength ! i = 0)"
  using derived_light_bounds [OF assms] by blast

theorem derived_ink_stays_below_parent_witness:
  "deriveLightInkLut makeLinearLut (1/4) (1/2) 1 ! 40 \<le> makeLinearLut ! 40"
  using derived_ink_stays_below_parent [of 40 makeLinearLut "1/4" "1/2" 1] by simp

text \<open>C35: When a curve file cannot be used the tables are the identity again; but except for a
  file that does not open, the reason is erased with them.\<close>

theorem failed_load_is_identity:
  assumes "loadTransferCurveXml T read path L = (False, L')"
  shows "identity_luts L' \<and> (read path \<noteq> None \<longrightarrow> lastError L' = [])"
  using load_failure [OF assms] by blast

theorem failed_load_is_identity_witness:
  "identity_luts (snd (loadTransferCurveXml demo_text (\<lambda>_. Some \<lparr>transferCurves = [], xmlError = None\<rparr>) ''x'' demo_lin))"
proof -
  obtain L' where "loadTransferCurveXml demo_text (\<lambda>_. Some \<lparr>transferCurves = [], xmlError = None\<rparr>) ''x'' demo_lin = (False, L')"
    by (simp add: loadTransferCurveXml_def Let_def)
  from this failed_load_is_identity [OF this] show ?thesis by simp
qed

text \<open>C36: A light ink that has a curve of its own keeps it.\<close>

theorem explicit_curve_wins:
  assumes "channelValid L ch"
  shows "channelLuts (deriveMissingLightChannels L) ch = channelLuts L ch"
  by (rule explicit_curves_win [OF assms])

theorem explicit_curve_wins_witness:
  "channelLuts (deriveMissingLightChannels (demo_lin\<lparr>channelValid := \<lambda>ch. ch = Ch_C \<or> ch = Ch_LC\<rparr>)) Ch_LC = makeLinearLut"
  using explicit_curve_wins [of "demo_lin\<lparr>channelValid := \<lambda>ch. ch = Ch_C \<or> ch = Ch_LC\<rparr>" Ch_LC]
  by (simp add: demo_lin_def)

section \<open>Dots and packing\<close>

text \<open>A pixel the gate has closed prints no dot, an open one a small, medium or large dot, with
  or without the dot swap.\<close>

theorem dot_sizes:
  "classify_pixel s x y d t v \<in> (if d = 0 then {0} else {1, 2, 3})"
  by (rule classify_pixel_range)

text \<open>C37: Both packers put the same bytes into a line, and pixel \<open>x\<close> reads back from it.\<close>

theorem packed_dots_read_back:
  assumes "x < width"
  shows "packRow dots width = pack_line dots width \<and> dot_at (pack_line dots width) x = dots ! x AND 3"
  by (simp add: pack_line_packed packRow_packed dot_at_packed [OF assms])

theorem packed_dots_read_back_witness: "dot_at (pack_line [1, 2, 3, 0, 2] 5) 4 = 2"
  using packed_dots_read_back [of 4 5 "[1, 2, 3, 0, 2]"] by simp

section \<open>Memory and storage\<close>

text \<open>C38: The storage check in wrapping 64-bit arithmetic passes exactly when the exact estimate,
  with its fifth of slack, is at most the free space.\<close>

theorem preflight_is_exact:
  assumes "storage_job_ok J" and "1 \<le> uint q" and "uint q \<le> 2 ^ 32"
  shows "preflightStorage q (Some available) J = Inr () \<longleftrightarrow> exact_storage (uint q) J \<le> uint available"
  by (rule preflightStorage_iff_exact [OF assms])

theorem preflight_is_exact_witness:
  "preflightStorage 2 (Some 1000) demo_storage = Inr ()"
  using preflight_is_exact [of demo_storage 2 1000]
  by (simp add: demo_storage_def storage_job_ok_def exact_storage_def int_max_def line_bytes_def clamp_def and_not_3_int Let_def)

text \<open>The estimate for the mask caches counts every distinct mask once.\<close>

theorem mask_estimate_counts_once:
  assumes "estimateMaskCacheStorage q extent paths = Inr b" and "0 < uint q" and "uint q \<le> 2 ^ 32"
  shows "uint b = (\<Sum>p \<in> set paths - {[]}. mask_cache_bytes (uint q) extent p)"
  by (rule estimateMaskCacheStorage_sum [OF assms])

theorem mask_estimate_counts_once_witness:
  "estimateMaskCacheStorage 2 (\<lambda>_. Some (8, 4)) [''a'', ''b'', ''a''] = Inr 640 \<and>
   (\<Sum>p \<in> {''a'', ''b''}. mask_cache_bytes 2 (\<lambda>_. Some (8, 4)) p) = 640"
proof -
  have e: "estimateMaskCacheStorage 2 (\<lambda>_. Some (8, 4)) [''a'', ''b'', ''a''] = Inr 640" by code_simp
  have "set [''a'', ''b'', ''a''] - {[]} = {''a'', ''b''}" by auto
  with e mask_estimate_counts_once [OF e] show ?thesis by simp
qed

text \<open>C39: A strip has between one and 128 rows, and its rows fit in the buffer budget whenever a
  single row does.\<close>

theorem strip_fits_the_budget:
  assumes "0 < w" and "w * uint b \<le> uint u" and "0 < b"
  shows "1 \<le> boundedRowsForWidth w b u \<and> boundedRowsForWidth w b u \<le> 128 \<and>
    boundedRowsForWidth w b u * (w * uint b) \<le> uint u"
  using boundedRowsForWidth_range boundedRowsForWidth_fits [OF assms] by blast

theorem strip_fits_the_budget_witness: "boundedRowsForWidth 10000 20 1000000 * 200000 \<le> 1000000"
  using strip_fits_the_budget [of 10000 20 1000000] by simp

text \<open>C40: The in-memory strategy is chosen only for a page whose pixel count is a C++ \<open>int\<close>, so that
  the pixel index of the in-memory screener does not overflow.\<close>

theorem in_memory_page_fits_int:
  assumes "strategy (selectRasterStrategy forced w h n mi) = InMemory" and "w \<le> int_max" and "h \<le> int_max"
  shows "0 < w \<and> 0 < h \<and> 0 < n \<and> w * h \<le> int_max"
  by (rule selectRasterStrategy_pixels [OF assms])

theorem in_memory_page_fits_int_witness:
  "strategy (selectRasterStrategy [] 1000 2000 4 True) = InMemory \<and> (1000 :: int) * 2000 \<le> int_max"
proof -
  have s: "strategy (selectRasterStrategy [] 1000 2000 4 True) = InMemory" by code_simp
  with in_memory_page_fits_int [OF s] show ?thesis by (simp add: int_max_def)
qed

end
